(* ===== verification/IrisPrelude.thy ===== *)
theory IrisPrelude
  imports Main "HOL-Library.Word"
begin

unbundle bit_operations_syntax

text \<open>
  What every component of the Iris driver model shares: the machine integer types, the
  kernel's error numbers, the arithmetic macros of the kernel headers that the sources use
  on every page (\<open>ALIGN\<close>, \<open>DIV_ROUND_UP\<close>, \<open>BIT\<close>), and the generic lemmas on words, lists
  and functions that carry the component proofs. A C function that returns \<open>int\<close> is
  modelled with an \<open>int\<close> result, 0 for success and a negative error number otherwise, as
  in the source.
\<close>

section \<open>Machine integers\<close>

type_synonym u8 = "8 word"
type_synonym u16 = "16 word"
type_synonym u32 = "32 word"
type_synonym u64 = "64 word"

section \<open>Error numbers\<close>

abbreviation (input) EIO :: int where "EIO \<equiv> 5"
abbreviation (input) EAGAIN :: int where "EAGAIN \<equiv> 11"
abbreviation (input) ENOENT :: int where "ENOENT \<equiv> 2"
abbreviation (input) EACCES :: int where "EACCES \<equiv> 13"
abbreviation (input) EEXIST :: int where "EEXIST \<equiv> 17"
abbreviation (input) ENOTTY :: int where "ENOTTY \<equiv> 25"
abbreviation (input) ENOMEM :: int where "ENOMEM \<equiv> 12"
abbreviation (input) EBUSY :: int where "EBUSY \<equiv> 16"
abbreviation (input) EINVAL :: int where "EINVAL \<equiv> 22"
abbreviation (input) ENODEV :: int where "ENODEV \<equiv> 19"
abbreviation (input) ENOSPC :: int where "ENOSPC \<equiv> 28"
abbreviation (input) ERANGE :: int where "ERANGE \<equiv> 34"
abbreviation (input) ENODATA :: int where "ENODATA \<equiv> 61"
abbreviation (input) ETIME :: int where "ETIME \<equiv> 62"
abbreviation (input) EBADMSG :: int where "EBADMSG \<equiv> 74"
abbreviation (input) EOPNOTSUPP :: int where "EOPNOTSUPP \<equiv> 95"
abbreviation (input) EALREADY :: int where "EALREADY \<equiv> 114"
abbreviation (input) ETIMEDOUT :: int where "ETIMEDOUT \<equiv> 110"

section \<open>The arithmetic macros of the kernel headers\<close>

text \<open>\<open>BIT(n)\<close> is \<open>1 << n\<close>; \<open>has w m\<close> is the C test \<open>w & m\<close> used as a truth value.\<close>

definition BIT :: "nat \<Rightarrow> 'a::len word" where
  "BIT n = push_bit n 1"

definition has :: "'a::len word \<Rightarrow> 'a word \<Rightarrow> bool" where
  "has w m \<longleftrightarrow> w AND m \<noteq> 0"

text \<open>\<open>ALIGN(x, a)\<close> is \<open>(x + (a - 1)) & ~(a - 1)\<close> in the type of \<open>x\<close>, so it wraps.\<close>

definition ALIGN :: "'a::len word \<Rightarrow> 'a word \<Rightarrow> 'a word" where
  "ALIGN x a = (x + (a - 1)) AND NOT (a - 1)"

definition DIV_ROUND_UP :: "'a::len word \<Rightarrow> 'a word \<Rightarrow> 'a word" where
  "DIV_ROUND_UP n d = (n + d - 1) div d"

text \<open>The same roundings on unbounded numbers, the meaning the macros have without overflow.\<close>

definition align_nat :: "nat \<Rightarrow> nat \<Rightarrow> nat" where
  "align_nat x a = ((x + (a - 1)) div a) * a"

definition div_up_nat :: "nat \<Rightarrow> nat \<Rightarrow> nat" where
  "div_up_nat n d = (n + (d - 1)) div d"

section \<open>Generic lemmas\<close>

named_theorems iris_arith \<open>reading a word expression as a natural number\<close>

lemma and_not_mask_eq: "x AND NOT (mask n) = push_bit n (drop_bit n x)" for x :: "'a::len word"
  by (rule bit_eqI) (auto simp: bit_simps)

lemma unat_and_not_mask: "unat (x AND NOT (mask n)) = (unat x div 2 ^ n) * 2 ^ n"
  for x :: "'a::len word"
proof -
  have "unat (push_bit n (drop_bit n x)) = push_bit n (drop_bit n (unat x))"
    by (metis drop_bit_take_bit take_bit_push_bit unat_drop_bit_eq unsigned_drop_bit_eq
        unsigned_push_bit_eq)
  then show ?thesis
    by (simp only: and_not_mask_eq push_bit_eq_mult drop_bit_eq_div)
qed

lemma unat_mask_word: "k \<le> LENGTH('a) \<Longrightarrow> unat (mask k :: 'a::len word) = 2 ^ k - 1"
  unfolding unat_eq_nat_uint uint_mask_eq
  by (simp add: min_absorb2 mask_eq_exp_minus_1 nat_diff_distrib nat_power_eq)

lemma pow2_minus_1: "a = 2 ^ k \<Longrightarrow> a - 1 = mask k" for a :: "'a::len word"
  by (simp add: mask_eq_exp_minus_1)

lemma unat_ALIGN_pow2:
  fixes x a :: "'a::len word"
  assumes a: "a = 2 ^ k" "k \<le> LENGTH('a)" and fit: "unat x + (2 ^ k - 1) < 2 ^ LENGTH('a)"
  shows "unat (ALIGN x a) = align_nat (unat x) (2 ^ k)"
  unfolding ALIGN_def pow2_minus_1[OF a(1)] unat_and_not_mask align_nat_def
  using fit by (simp add: unat_word_ariths unat_mask_word[OF a(2)])

lemma ALIGN_dvd: "a = 2 ^ k \<Longrightarrow> 2 ^ k dvd unat (ALIGN x a)" for x a :: "'a::len word"
  by (simp add: ALIGN_def unat_and_not_mask pow2_minus_1)

lemma align_nat_bounds:
  assumes "0 < a"
  shows align_nat_ge: "x \<le> align_nat x a" and align_nat_less: "align_nat x a < x + a"
proof -
  have e: "align_nat x a + (x + (a - 1)) mod a = x + (a - 1)"
    unfolding align_nat_def by (rule div_mult_mod_eq)
  have m: "(x + (a - 1)) mod a < a"
    using assms by simp
  show "x \<le> align_nat x a" using e m by linarith
  show "align_nat x a < x + a" using e assms by linarith
qed
lemma align_nat_mono: "x \<le> y \<Longrightarrow> align_nat x a \<le> align_nat y a"
  by (simp add: align_nat_def div_le_mono)
lemma align_nat_dvd [simp]: "a dvd align_nat x a"
  by (simp add: align_nat_def)
lemma align_nat_id: "0 < a \<Longrightarrow> a dvd x \<Longrightarrow> align_nat x a = x"
proof -
  assume a: "0 < a" "a dvd x"
  have "x \<le> align_nat x a" "align_nat x a < x + a" using a align_nat_bounds by auto
  moreover have "a dvd align_nat x a - x" using a(2) by (simp add: dvd_diff_nat)
  ultimately have "align_nat x a - x = 0" 
    by (metis Nat.le_diff_conv2 add.commute dvd_imp_le leD le_add_diff_inverse nat_add_left_cancel_less neq0_conv)
  then show ?thesis using \<open>x \<le> align_nat x a\<close> by simp
qed

end
