(* ===== verification/IrisGen1Defs.thy ===== *)
theory IrisGen1Defs
  imports IrisPrelude
begin

text \<open>
  The numbers of the Gen1 firmware interface (\<open>iris_hfi_gen1_defines.h\<close>): packet types,
  properties, buffer types, events and error codes, under the names of the header.
\<close>

abbreviation (input) HFI_VIDEO_ARCH_OX :: u32 where "HFI_VIDEO_ARCH_OX \<equiv> 0x1"
abbreviation (input) HFI_SESSION_TYPE_ENC :: u32 where "HFI_SESSION_TYPE_ENC \<equiv> 1"
abbreviation (input) HFI_SESSION_TYPE_DEC :: u32 where "HFI_SESSION_TYPE_DEC \<equiv> 2"
abbreviation (input) HFI_VIDEO_CODEC_H264 :: u32 where "HFI_VIDEO_CODEC_H264 \<equiv> 0x00000002"
abbreviation (input) HFI_VIDEO_CODEC_HEVC :: u32 where "HFI_VIDEO_CODEC_HEVC \<equiv> 0x00002000"
abbreviation (input) HFI_VIDEO_CODEC_VP9 :: u32 where "HFI_VIDEO_CODEC_VP9 \<equiv> 0x00004000"
abbreviation (input) HFI_ERR_NONE :: u32 where "HFI_ERR_NONE \<equiv> 0x0"
abbreviation (input) HFI_ERR_SESSION_INCORRECT_STATE_OPERATION :: u32 where "HFI_ERR_SESSION_INCORRECT_STATE_OPERATION \<equiv> 0x1006"
abbreviation (input) HFI_ERR_SESSION_SAME_STATE_OPERATION :: u32 where "HFI_ERR_SESSION_SAME_STATE_OPERATION \<equiv> 0x1001002"
abbreviation (input) HFI_CMD_SYS_INIT :: u32 where "HFI_CMD_SYS_INIT \<equiv> 0x10001"
abbreviation (input) HFI_CMD_SYS_PC_PREP :: u32 where "HFI_CMD_SYS_PC_PREP \<equiv> 0x10002"
abbreviation (input) HFI_CMD_SYS_SET_RESOURCE :: u32 where "HFI_CMD_SYS_SET_RESOURCE \<equiv> 0x10003"
abbreviation (input) HFI_CMD_SYS_SET_PROPERTY :: u32 where "HFI_CMD_SYS_SET_PROPERTY \<equiv> 0x10005"
abbreviation (input) HFI_CMD_SYS_GET_PROPERTY :: u32 where "HFI_CMD_SYS_GET_PROPERTY \<equiv> 0x10006"
abbreviation (input) HFI_CMD_SYS_SESSION_INIT :: u32 where "HFI_CMD_SYS_SESSION_INIT \<equiv> 0x10007"
abbreviation (input) HFI_CMD_SYS_SESSION_END :: u32 where "HFI_CMD_SYS_SESSION_END \<equiv> 0x10008"
abbreviation (input) HFI_CMD_SESSION_SET_PROPERTY :: u32 where "HFI_CMD_SESSION_SET_PROPERTY \<equiv> 0x11001"
abbreviation (input) HFI_CMD_SESSION_SET_BUFFERS :: u32 where "HFI_CMD_SESSION_SET_BUFFERS \<equiv> 0x11002"
abbreviation (input) HFI_CMD_SESSION_LOAD_RESOURCES :: u32 where "HFI_CMD_SESSION_LOAD_RESOURCES \<equiv> 0x211001"
abbreviation (input) HFI_CMD_SESSION_START :: u32 where "HFI_CMD_SESSION_START \<equiv> 0x211002"
abbreviation (input) HFI_CMD_SESSION_STOP :: u32 where "HFI_CMD_SESSION_STOP \<equiv> 0x211003"
abbreviation (input) HFI_CMD_SESSION_EMPTY_BUFFER :: u32 where "HFI_CMD_SESSION_EMPTY_BUFFER \<equiv> 0x211004"
abbreviation (input) HFI_CMD_SESSION_FILL_BUFFER :: u32 where "HFI_CMD_SESSION_FILL_BUFFER \<equiv> 0x211005"
abbreviation (input) HFI_CMD_SESSION_FLUSH :: u32 where "HFI_CMD_SESSION_FLUSH \<equiv> 0x211008"
abbreviation (input) HFI_CMD_SESSION_GET_PROPERTY :: u32 where "HFI_CMD_SESSION_GET_PROPERTY \<equiv> 0x211009"
abbreviation (input) HFI_CMD_SESSION_RELEASE_BUFFERS :: u32 where "HFI_CMD_SESSION_RELEASE_BUFFERS \<equiv> 0x21100b"
abbreviation (input) HFI_CMD_SESSION_RELEASE_RESOURCES :: u32 where "HFI_CMD_SESSION_RELEASE_RESOURCES \<equiv> 0x21100c"
abbreviation (input) HFI_CMD_SESSION_CONTINUE :: u32 where "HFI_CMD_SESSION_CONTINUE \<equiv> 0x21100d"
abbreviation (input) HFI_ERR_SESSION_UNSUPPORTED_SETTING :: u32 where "HFI_ERR_SESSION_UNSUPPORTED_SETTING \<equiv> 0x1008"
abbreviation (input) HFI_ERR_SESSION_UNSUPPORTED_STREAM :: u32 where "HFI_ERR_SESSION_UNSUPPORTED_STREAM \<equiv> 0x100d"
abbreviation (input) HFI_ERR_SESSION_UNSUPPORT_BUFFERTYPE :: u32 where "HFI_ERR_SESSION_UNSUPPORT_BUFFERTYPE \<equiv> 0x1010"
abbreviation (input) HFI_ERR_SESSION_INVALID_SCALE_FACTOR :: u32 where "HFI_ERR_SESSION_INVALID_SCALE_FACTOR \<equiv> 0x1012"
abbreviation (input) HFI_ERR_SESSION_UPSCALE_NOT_SUPPORTED :: u32 where "HFI_ERR_SESSION_UPSCALE_NOT_SUPPORTED \<equiv> 0x1013"
abbreviation (input) HFI_EVENT_SYS_ERROR :: u32 where "HFI_EVENT_SYS_ERROR \<equiv> 0x1"
abbreviation (input) HFI_EVENT_SESSION_ERROR :: u32 where "HFI_EVENT_SESSION_ERROR \<equiv> 0x2"
abbreviation (input) HFI_EVENT_DATA_SEQUENCE_CHANGED_SUFFICIENT_BUF_RESOURCES :: u32 where "HFI_EVENT_DATA_SEQUENCE_CHANGED_SUFFICIENT_BUF_RESOURCES \<equiv> 0x1000001"
abbreviation (input) HFI_EVENT_DATA_SEQUENCE_CHANGED_INSUFFICIENT_BUF_RESOURCES :: u32 where "HFI_EVENT_DATA_SEQUENCE_CHANGED_INSUFFICIENT_BUF_RESOURCES \<equiv> 0x1000002"
abbreviation (input) HFI_EVENT_SESSION_SEQUENCE_CHANGED :: u32 where "HFI_EVENT_SESSION_SEQUENCE_CHANGED \<equiv> 0x1000003"
abbreviation (input) HFI_BUFFERFLAG_EOS :: u32 where "HFI_BUFFERFLAG_EOS \<equiv> 0x00000001"
abbreviation (input) HFI_BUFFERFLAG_TIMESTAMPINVALID :: u32 where "HFI_BUFFERFLAG_TIMESTAMPINVALID \<equiv> 0x00000100"
abbreviation (input) HFI_FLUSH_OUTPUT :: u32 where "HFI_FLUSH_OUTPUT \<equiv> 0x1000002"
abbreviation (input) HFI_FLUSH_OUTPUT2 :: u32 where "HFI_FLUSH_OUTPUT2 \<equiv> 0x1000003"
abbreviation (input) HFI_FLUSH_ALL :: u32 where "HFI_FLUSH_ALL \<equiv> 0x1000004"
abbreviation (input) HFI_INDEX_EXTRADATA_INPUT_CROP :: u32 where "HFI_INDEX_EXTRADATA_INPUT_CROP \<equiv> 0x0700000e"
abbreviation (input) HFI_PROPERTY_PARAM_BUFFER_COUNT_ACTUAL :: u32 where "HFI_PROPERTY_PARAM_BUFFER_COUNT_ACTUAL \<equiv> 0x201001"
abbreviation (input) HFI_PROPERTY_PARAM_UNCOMPRESSED_PLANE_ACTUAL_CONSTRAINTS_INFO :: u32 where "HFI_PROPERTY_PARAM_UNCOMPRESSED_PLANE_ACTUAL_CONSTRAINTS_INFO \<equiv> 0x201002"
abbreviation (input) HFI_PROPERTY_PARAM_BUFFER_ALLOC_MODE :: u32 where "HFI_PROPERTY_PARAM_BUFFER_ALLOC_MODE \<equiv> 0x201008"
abbreviation (input) HFI_PROPERTY_PARAM_BUFFER_SIZE_ACTUAL :: u32 where "HFI_PROPERTY_PARAM_BUFFER_SIZE_ACTUAL \<equiv> 0x20100c"
abbreviation (input) HFI_PROPERTY_CONFIG_BUFFER_REQUIREMENTS :: u32 where "HFI_PROPERTY_CONFIG_BUFFER_REQUIREMENTS \<equiv> 0x202001"
abbreviation (input) HFI_PROPERTY_PARAM_VDEC_OUTPUT_ORDER :: u32 where "HFI_PROPERTY_PARAM_VDEC_OUTPUT_ORDER \<equiv> 0x1203005"
abbreviation (input) HFI_PROPERTY_PARAM_VDEC_DPB_COUNTS :: u32 where "HFI_PROPERTY_PARAM_VDEC_DPB_COUNTS \<equiv> 0x120300e"
abbreviation (input) HFI_PROPERTY_CONFIG_VDEC_ENTROPY :: u32 where "HFI_PROPERTY_CONFIG_VDEC_ENTROPY \<equiv> 0x1204004"
abbreviation (input) HFI_OUTPUT_ORDER_DISPLAY :: u32 where "HFI_OUTPUT_ORDER_DISPLAY \<equiv> 0x1000001"
abbreviation (input) HFI_OUTPUT_ORDER_DECODE :: u32 where "HFI_OUTPUT_ORDER_DECODE \<equiv> 0x1000002"
abbreviation (input) HFI_BUFFER_INPUT :: u32 where "HFI_BUFFER_INPUT \<equiv> 0x1"
abbreviation (input) HFI_BUFFER_OUTPUT :: u32 where "HFI_BUFFER_OUTPUT \<equiv> 0x2"
abbreviation (input) HFI_BUFFER_OUTPUT2 :: u32 where "HFI_BUFFER_OUTPUT2 \<equiv> 0x3"
abbreviation (input) HFI_BUFFER_INTERNAL_PERSIST :: u32 where "HFI_BUFFER_INTERNAL_PERSIST \<equiv> 0x4"
abbreviation (input) HFI_BUFFER_INTERNAL_PERSIST_1 :: u32 where "HFI_BUFFER_INTERNAL_PERSIST_1 \<equiv> 0x5"
abbreviation (input) HFI_BUFFER_INTERNAL_SCRATCH :: u32 where "HFI_BUFFER_INTERNAL_SCRATCH \<equiv> 0x6"
abbreviation (input) HFI_BUFFER_INTERNAL_SCRATCH_1 :: u32 where "HFI_BUFFER_INTERNAL_SCRATCH_1 \<equiv> 0x7"
abbreviation (input) HFI_BUFFER_MODE_DYNAMIC :: u32 where "HFI_BUFFER_MODE_DYNAMIC \<equiv> 0x1000003"
abbreviation (input) HFI_BUFFER_INTERNAL_SCRATCH_2 :: u32 where "HFI_BUFFER_INTERNAL_SCRATCH_2 \<equiv> 0x8"
abbreviation (input) HFI_PROPERTY_SYS_DEBUG_CONFIG :: u32 where "HFI_PROPERTY_SYS_DEBUG_CONFIG \<equiv> 0x1"
abbreviation (input) HFI_PROPERTY_SYS_CODEC_POWER_PLANE_CTRL :: u32 where "HFI_PROPERTY_SYS_CODEC_POWER_PLANE_CTRL \<equiv> 0x5"
abbreviation (input) HFI_PROPERTY_SYS_IMAGE_VERSION :: u32 where "HFI_PROPERTY_SYS_IMAGE_VERSION \<equiv> 0x6"
abbreviation (input) HFI_DEBUG_MSG_ERROR :: u32 where "HFI_DEBUG_MSG_ERROR \<equiv> 0x00000008"
abbreviation (input) HFI_DEBUG_MSG_FATAL :: u32 where "HFI_DEBUG_MSG_FATAL \<equiv> 0x00000010"
abbreviation (input) HFI_DEBUG_MODE_QUEUE :: u32 where "HFI_DEBUG_MODE_QUEUE \<equiv> 0x00000001"
abbreviation (input) HFI_RESOURCE_SYSCACHE :: u32 where "HFI_RESOURCE_SYSCACHE \<equiv> 0x00000002"
abbreviation (input) HFI_PROPERTY_PARAM_FRAME_SIZE :: u32 where "HFI_PROPERTY_PARAM_FRAME_SIZE \<equiv> 0x1001"
abbreviation (input) HFI_PROPERTY_PARAM_UNCOMPRESSED_PLANE_ACTUAL_INFO :: u32 where "HFI_PROPERTY_PARAM_UNCOMPRESSED_PLANE_ACTUAL_INFO \<equiv> 0x1002"
abbreviation (input) HFI_PROPERTY_PARAM_UNCOMPRESSED_FORMAT_SELECT :: u32 where "HFI_PROPERTY_PARAM_UNCOMPRESSED_FORMAT_SELECT \<equiv> 0x1003"
abbreviation (input) HFI_PROPERTY_PARAM_PROFILE_LEVEL_CURRENT :: u32 where "HFI_PROPERTY_PARAM_PROFILE_LEVEL_CURRENT \<equiv> 0x1005"
abbreviation (input) HFI_PROPERTY_PARAM_WORK_MODE :: u32 where "HFI_PROPERTY_PARAM_WORK_MODE \<equiv> 0x1015"
abbreviation (input) HFI_PROPERTY_PARAM_WORK_ROUTE :: u32 where "HFI_PROPERTY_PARAM_WORK_ROUTE \<equiv> 0x1017"
abbreviation (input) HFI_PROPERTY_CONFIG_FRAME_RATE :: u32 where "HFI_PROPERTY_CONFIG_FRAME_RATE \<equiv> 0x2001"
abbreviation (input) HFI_PROPERTY_CONFIG_VIDEOCORES_USAGE :: u32 where "HFI_PROPERTY_CONFIG_VIDEOCORES_USAGE \<equiv> 0x2002"
abbreviation (input) HFI_PROPERTY_PARAM_VDEC_MULTI_STREAM :: u32 where "HFI_PROPERTY_PARAM_VDEC_MULTI_STREAM \<equiv> 0x1003001"
abbreviation (input) HFI_PROPERTY_PARAM_VDEC_PIXEL_BITDEPTH :: u32 where "HFI_PROPERTY_PARAM_VDEC_PIXEL_BITDEPTH \<equiv> 0x1003007"
abbreviation (input) HFI_PROPERTY_PARAM_VDEC_PIC_STRUCT :: u32 where "HFI_PROPERTY_PARAM_VDEC_PIC_STRUCT \<equiv> 0x1003009"
abbreviation (input) HFI_PROPERTY_PARAM_VDEC_COLOUR_SPACE :: u32 where "HFI_PROPERTY_PARAM_VDEC_COLOUR_SPACE \<equiv> 0x100300a"
abbreviation (input) HFI_CORE_ID_1 :: u32 where "HFI_CORE_ID_1 \<equiv> 1"
abbreviation (input) HFI_CORE_ID_2 :: u32 where "HFI_CORE_ID_2 \<equiv> 2"
abbreviation (input) HFI_COLOR_FORMAT_NV12 :: u32 where "HFI_COLOR_FORMAT_NV12 \<equiv> 0x02"
abbreviation (input) HFI_COLOR_FORMAT_NV12_UBWC :: u32 where "HFI_COLOR_FORMAT_NV12_UBWC \<equiv> 0x8002"
abbreviation (input) HFI_COLOR_FORMAT_YUV420_TP10_UBWC :: u32 where "HFI_COLOR_FORMAT_YUV420_TP10_UBWC \<equiv> 0xc002"
abbreviation (input) HFI_COLOR_FORMAT_P010 :: u32 where "HFI_COLOR_FORMAT_P010 \<equiv> 0x4003"
abbreviation (input) HFI_BIT_DEPTH_8 :: u32 where "HFI_BIT_DEPTH_8 \<equiv> 0x00000"
abbreviation (input) HFI_BIT_DEPTH_10 :: u32 where "HFI_BIT_DEPTH_10 \<equiv> 0x20002"
abbreviation (input) HFI_MSG_SYS_INIT :: u32 where "HFI_MSG_SYS_INIT \<equiv> 0x20001"
abbreviation (input) HFI_MSG_SYS_PC_PREP :: u32 where "HFI_MSG_SYS_PC_PREP \<equiv> 0x20002"
abbreviation (input) HFI_MSG_SYS_SESSION_INIT :: u32 where "HFI_MSG_SYS_SESSION_INIT \<equiv> 0x20006"
abbreviation (input) HFI_MSG_SYS_SESSION_END :: u32 where "HFI_MSG_SYS_SESSION_END \<equiv> 0x20007"
abbreviation (input) HFI_MSG_SYS_COV :: u32 where "HFI_MSG_SYS_COV \<equiv> 0x20009"
abbreviation (input) HFI_MSG_SYS_PROPERTY_INFO :: u32 where "HFI_MSG_SYS_PROPERTY_INFO \<equiv> 0x2000a"
abbreviation (input) HFI_MSG_EVENT_NOTIFY :: u32 where "HFI_MSG_EVENT_NOTIFY \<equiv> 0x21001"
abbreviation (input) HFI_MSG_SESSION_LOAD_RESOURCES :: u32 where "HFI_MSG_SESSION_LOAD_RESOURCES \<equiv> 0x221001"
abbreviation (input) HFI_MSG_SESSION_START :: u32 where "HFI_MSG_SESSION_START \<equiv> 0x221002"
abbreviation (input) HFI_MSG_SESSION_STOP :: u32 where "HFI_MSG_SESSION_STOP \<equiv> 0x221003"
abbreviation (input) HFI_MSG_SESSION_FLUSH :: u32 where "HFI_MSG_SESSION_FLUSH \<equiv> 0x221006"
abbreviation (input) HFI_MSG_SESSION_EMPTY_BUFFER :: u32 where "HFI_MSG_SESSION_EMPTY_BUFFER \<equiv> 0x221007"
abbreviation (input) HFI_MSG_SESSION_FILL_BUFFER :: u32 where "HFI_MSG_SESSION_FILL_BUFFER \<equiv> 0x221008"
abbreviation (input) HFI_MSG_SESSION_PROPERTY_INFO :: u32 where "HFI_MSG_SESSION_PROPERTY_INFO \<equiv> 0x221009"
abbreviation (input) HFI_MSG_SESSION_RELEASE_RESOURCES :: u32 where "HFI_MSG_SESSION_RELEASE_RESOURCES \<equiv> 0x22100a"
abbreviation (input) HFI_MSG_SESSION_RELEASE_BUFFERS :: u32 where "HFI_MSG_SESSION_RELEASE_BUFFERS \<equiv> 0x22100c"
abbreviation (input) HFI_GEN1_PICTURE_I :: u32 where "HFI_GEN1_PICTURE_I \<equiv> 0x00000001"
abbreviation (input) HFI_GEN1_PICTURE_P :: u32 where "HFI_GEN1_PICTURE_P \<equiv> 0x00000002"
abbreviation (input) HFI_GEN1_PICTURE_B :: u32 where "HFI_GEN1_PICTURE_B \<equiv> 0x00000004"
abbreviation (input) HFI_GEN1_PICTURE_IDR :: u32 where "HFI_GEN1_PICTURE_IDR \<equiv> 0x00000008"
abbreviation (input) HFI_FRAME_NOTCODED :: u32 where "HFI_FRAME_NOTCODED \<equiv> 0x7f002000"
abbreviation (input) HFI_FRAME_YUV :: u32 where "HFI_FRAME_YUV \<equiv> 0x7f004000"
abbreviation (input) HFI_UNUSED_PICT :: u32 where "HFI_UNUSED_PICT \<equiv> 0x10000000"
abbreviation (input) HFI_BUFFERFLAG_DATACORRUPT :: u32 where "HFI_BUFFERFLAG_DATACORRUPT \<equiv> 0x00000008"
abbreviation (input) HFI_BUFFERFLAG_DROP_FRAME :: u32 where "HFI_BUFFERFLAG_DROP_FRAME \<equiv> 0x20000000"
abbreviation (input) HFI_RATE_CONTROL_VBR_VFR :: u32 where "HFI_RATE_CONTROL_VBR_VFR \<equiv> 0x1000002"
abbreviation (input) HFI_RATE_CONTROL_VBR_CFR :: u32 where "HFI_RATE_CONTROL_VBR_CFR \<equiv> 0x1000003"
abbreviation (input) HFI_RATE_CONTROL_CBR_VFR :: u32 where "HFI_RATE_CONTROL_CBR_VFR \<equiv> 0x1000004"
abbreviation (input) HFI_RATE_CONTROL_CBR_CFR :: u32 where "HFI_RATE_CONTROL_CBR_CFR \<equiv> 0x1000005"
abbreviation (input) HFI_H264_ENTROPY_CAVLC :: u32 where "HFI_H264_ENTROPY_CAVLC \<equiv> 0x1"
abbreviation (input) HFI_H264_ENTROPY_CABAC :: u32 where "HFI_H264_ENTROPY_CABAC \<equiv> 0x2"
abbreviation (input) HFI_PROPERTY_PARAM_VENC_H264_ENTROPY_CONTROL :: u32 where "HFI_PROPERTY_PARAM_VENC_H264_ENTROPY_CONTROL \<equiv> 0x2005002"
abbreviation (input) HFI_PROPERTY_PARAM_VENC_H264_DEBLOCK_CONTROL :: u32 where "HFI_PROPERTY_PARAM_VENC_H264_DEBLOCK_CONTROL \<equiv> 0x2005003"
abbreviation (input) HFI_PROPERTY_PARAM_VENC_RATE_CONTROL :: u32 where "HFI_PROPERTY_PARAM_VENC_RATE_CONTROL \<equiv> 0x2005004"
abbreviation (input) HFI_PROPERTY_PARAM_VENC_SESSION_QP_RANGE_V2 :: u32 where "HFI_PROPERTY_PARAM_VENC_SESSION_QP_RANGE_V2 \<equiv> 0x2005009"
abbreviation (input) HFI_PROPERTY_PARAM_VENC_MAX_NUM_B_FRAMES :: u32 where "HFI_PROPERTY_PARAM_VENC_MAX_NUM_B_FRAMES \<equiv> 0x2005020"
abbreviation (input) HFI_PROPERTY_CONFIG_VENC_TARGET_BITRATE :: u32 where "HFI_PROPERTY_CONFIG_VENC_TARGET_BITRATE \<equiv> 0x2006001"
abbreviation (input) HFI_PROPERTY_CONFIG_VENC_INTRA_PERIOD :: u32 where "HFI_PROPERTY_CONFIG_VENC_INTRA_PERIOD \<equiv> 0x2006003"
abbreviation (input) HFI_PROPERTY_CONFIG_VENC_SYNC_FRAME_SEQUENCE_HEADER :: u32 where "HFI_PROPERTY_CONFIG_VENC_SYNC_FRAME_SEQUENCE_HEADER \<equiv> 0x2006008"
abbreviation (input) HFI_H264_CABAC_MODEL_0 :: u32 where "HFI_H264_CABAC_MODEL_0 \<equiv> 0x1"

end
