(* ===== verification/IrisCaps.thy ===== *)
theory IrisCaps
  imports IrisGen1Defs
begin

text \<open>
  The capabilities of a session (\<open>iris_platform_common.h\<close>, \<open>iris_platform_sm8250.c\<close>): the
  controls a client can set, with the range the control framework enforces, the property of
  the firmware behind each and the routine that sends it. The routine is a function pointer
  in the code; here it is its name, which \<open>IrisCtrls\<close> resolves.
\<close>

section \<open>Numbers\<close>

text \<open>\<open>enum platform_inst_fw_cap_type\<close>; the array of an instance has an unused slot 0.\<close>

abbreviation (input) PROFILE_H264 :: nat where "PROFILE_H264 \<equiv> 1"
abbreviation (input) PROFILE_HEVC :: nat where "PROFILE_HEVC \<equiv> 2"
abbreviation (input) PROFILE_VP9 :: nat where "PROFILE_VP9 \<equiv> 3"
abbreviation (input) LEVEL_H264 :: nat where "LEVEL_H264 \<equiv> 4"
abbreviation (input) LEVEL_HEVC :: nat where "LEVEL_HEVC \<equiv> 5"
abbreviation (input) LEVEL_VP9 :: nat where "LEVEL_VP9 \<equiv> 6"
abbreviation (input) INPUT_BUF_HOST_MAX_COUNT :: nat where "INPUT_BUF_HOST_MAX_COUNT \<equiv> 7"
abbreviation (input) OUTPUT_BUF_HOST_MAX_COUNT :: nat where "OUTPUT_BUF_HOST_MAX_COUNT \<equiv> 8"
abbreviation (input) STAGE :: nat where "STAGE \<equiv> 9"
abbreviation (input) PIPE :: nat where "PIPE \<equiv> 10"
abbreviation (input) POC :: nat where "POC \<equiv> 11"
abbreviation (input) CODED_FRAMES :: nat where "CODED_FRAMES \<equiv> 12"
abbreviation (input) BIT_DEPTH :: nat where "BIT_DEPTH \<equiv> 13"
abbreviation (input) RAP_FRAME :: nat where "RAP_FRAME \<equiv> 14"
abbreviation (input) TIER :: nat where "TIER \<equiv> 15"
abbreviation (input) HEADER_MODE :: nat where "HEADER_MODE \<equiv> 16"
abbreviation (input) PREPEND_SPSPPS_TO_IDR :: nat where "PREPEND_SPSPPS_TO_IDR \<equiv> 17"
abbreviation (input) BITRATE :: nat where "BITRATE \<equiv> 18"
abbreviation (input) BITRATE_PEAK :: nat where "BITRATE_PEAK \<equiv> 19"
abbreviation (input) BITRATE_MODE :: nat where "BITRATE_MODE \<equiv> 20"
abbreviation (input) FRAME_SKIP_MODE :: nat where "FRAME_SKIP_MODE \<equiv> 21"
abbreviation (input) FRAME_RC_ENABLE :: nat where "FRAME_RC_ENABLE \<equiv> 22"
abbreviation (input) GOP_SIZE :: nat where "GOP_SIZE \<equiv> 23"
abbreviation (input) ENTROPY_MODE :: nat where "ENTROPY_MODE \<equiv> 24"
abbreviation (input) MIN_FRAME_QP_H264 :: nat where "MIN_FRAME_QP_H264 \<equiv> 25"
abbreviation (input) MIN_FRAME_QP_HEVC :: nat where "MIN_FRAME_QP_HEVC \<equiv> 26"
abbreviation (input) MAX_FRAME_QP_H264 :: nat where "MAX_FRAME_QP_H264 \<equiv> 27"
abbreviation (input) MAX_FRAME_QP_HEVC :: nat where "MAX_FRAME_QP_HEVC \<equiv> 28"
abbreviation (input) I_FRAME_MIN_QP_H264 :: nat where "I_FRAME_MIN_QP_H264 \<equiv> 29"
abbreviation (input) I_FRAME_MIN_QP_HEVC :: nat where "I_FRAME_MIN_QP_HEVC \<equiv> 30"
abbreviation (input) P_FRAME_MIN_QP_H264 :: nat where "P_FRAME_MIN_QP_H264 \<equiv> 31"
abbreviation (input) P_FRAME_MIN_QP_HEVC :: nat where "P_FRAME_MIN_QP_HEVC \<equiv> 32"
abbreviation (input) B_FRAME_MIN_QP_H264 :: nat where "B_FRAME_MIN_QP_H264 \<equiv> 33"
abbreviation (input) B_FRAME_MIN_QP_HEVC :: nat where "B_FRAME_MIN_QP_HEVC \<equiv> 34"
abbreviation (input) I_FRAME_MAX_QP_H264 :: nat where "I_FRAME_MAX_QP_H264 \<equiv> 35"
abbreviation (input) I_FRAME_MAX_QP_HEVC :: nat where "I_FRAME_MAX_QP_HEVC \<equiv> 36"
abbreviation (input) P_FRAME_MAX_QP_H264 :: nat where "P_FRAME_MAX_QP_H264 \<equiv> 37"
abbreviation (input) P_FRAME_MAX_QP_HEVC :: nat where "P_FRAME_MAX_QP_HEVC \<equiv> 38"
abbreviation (input) B_FRAME_MAX_QP_H264 :: nat where "B_FRAME_MAX_QP_H264 \<equiv> 39"
abbreviation (input) B_FRAME_MAX_QP_HEVC :: nat where "B_FRAME_MAX_QP_HEVC \<equiv> 40"
abbreviation (input) I_FRAME_QP_H264 :: nat where "I_FRAME_QP_H264 \<equiv> 41"
abbreviation (input) I_FRAME_QP_HEVC :: nat where "I_FRAME_QP_HEVC \<equiv> 42"
abbreviation (input) P_FRAME_QP_H264 :: nat where "P_FRAME_QP_H264 \<equiv> 43"
abbreviation (input) P_FRAME_QP_HEVC :: nat where "P_FRAME_QP_HEVC \<equiv> 44"
abbreviation (input) B_FRAME_QP_H264 :: nat where "B_FRAME_QP_H264 \<equiv> 45"
abbreviation (input) B_FRAME_QP_HEVC :: nat where "B_FRAME_QP_HEVC \<equiv> 46"
abbreviation (input) INST_FW_CAP_MAX :: nat where "INST_FW_CAP_MAX \<equiv> 47"

text \<open>The numbers of the V4L2 menus (\<open>v4l2-controls.h\<close>).\<close>

abbreviation (input) V4L2_MPEG_VIDEO_H264_PROFILE_BASELINE :: int where "V4L2_MPEG_VIDEO_H264_PROFILE_BASELINE \<equiv> 0"
abbreviation (input) V4L2_MPEG_VIDEO_H264_PROFILE_CONSTRAINED_BASELINE :: int where "V4L2_MPEG_VIDEO_H264_PROFILE_CONSTRAINED_BASELINE \<equiv> 1"
abbreviation (input) V4L2_MPEG_VIDEO_H264_PROFILE_MAIN :: int where "V4L2_MPEG_VIDEO_H264_PROFILE_MAIN \<equiv> 2"
abbreviation (input) V4L2_MPEG_VIDEO_H264_PROFILE_HIGH :: int where "V4L2_MPEG_VIDEO_H264_PROFILE_HIGH \<equiv> 4"
abbreviation (input) V4L2_MPEG_VIDEO_H264_PROFILE_STEREO_HIGH :: int where "V4L2_MPEG_VIDEO_H264_PROFILE_STEREO_HIGH \<equiv> 15"
abbreviation (input) V4L2_MPEG_VIDEO_H264_PROFILE_MULTIVIEW_HIGH :: int where "V4L2_MPEG_VIDEO_H264_PROFILE_MULTIVIEW_HIGH \<equiv> 16"
abbreviation (input) V4L2_MPEG_VIDEO_H264_PROFILE_CONSTRAINED_HIGH :: int where "V4L2_MPEG_VIDEO_H264_PROFILE_CONSTRAINED_HIGH \<equiv> 17"
abbreviation (input) V4L2_MPEG_VIDEO_HEVC_PROFILE_MAIN :: int where "V4L2_MPEG_VIDEO_HEVC_PROFILE_MAIN \<equiv> 0"
abbreviation (input) V4L2_MPEG_VIDEO_HEVC_PROFILE_MAIN_STILL_PICTURE :: int where "V4L2_MPEG_VIDEO_HEVC_PROFILE_MAIN_STILL_PICTURE \<equiv> 1"
abbreviation (input) V4L2_MPEG_VIDEO_HEVC_PROFILE_MAIN_10 :: int where "V4L2_MPEG_VIDEO_HEVC_PROFILE_MAIN_10 \<equiv> 2"
abbreviation (input) V4L2_MPEG_VIDEO_H264_LEVEL_1_0 :: int where "V4L2_MPEG_VIDEO_H264_LEVEL_1_0 \<equiv> 0"
abbreviation (input) V4L2_MPEG_VIDEO_H264_LEVEL_1B :: int where "V4L2_MPEG_VIDEO_H264_LEVEL_1B \<equiv> 1"
abbreviation (input) V4L2_MPEG_VIDEO_H264_LEVEL_1_1 :: int where "V4L2_MPEG_VIDEO_H264_LEVEL_1_1 \<equiv> 2"
abbreviation (input) V4L2_MPEG_VIDEO_H264_LEVEL_1_2 :: int where "V4L2_MPEG_VIDEO_H264_LEVEL_1_2 \<equiv> 3"
abbreviation (input) V4L2_MPEG_VIDEO_H264_LEVEL_1_3 :: int where "V4L2_MPEG_VIDEO_H264_LEVEL_1_3 \<equiv> 4"
abbreviation (input) V4L2_MPEG_VIDEO_H264_LEVEL_2_0 :: int where "V4L2_MPEG_VIDEO_H264_LEVEL_2_0 \<equiv> 5"
abbreviation (input) V4L2_MPEG_VIDEO_H264_LEVEL_2_1 :: int where "V4L2_MPEG_VIDEO_H264_LEVEL_2_1 \<equiv> 6"
abbreviation (input) V4L2_MPEG_VIDEO_H264_LEVEL_2_2 :: int where "V4L2_MPEG_VIDEO_H264_LEVEL_2_2 \<equiv> 7"
abbreviation (input) V4L2_MPEG_VIDEO_H264_LEVEL_3_0 :: int where "V4L2_MPEG_VIDEO_H264_LEVEL_3_0 \<equiv> 8"
abbreviation (input) V4L2_MPEG_VIDEO_H264_LEVEL_3_1 :: int where "V4L2_MPEG_VIDEO_H264_LEVEL_3_1 \<equiv> 9"
abbreviation (input) V4L2_MPEG_VIDEO_H264_LEVEL_3_2 :: int where "V4L2_MPEG_VIDEO_H264_LEVEL_3_2 \<equiv> 10"
abbreviation (input) V4L2_MPEG_VIDEO_H264_LEVEL_4_0 :: int where "V4L2_MPEG_VIDEO_H264_LEVEL_4_0 \<equiv> 11"
abbreviation (input) V4L2_MPEG_VIDEO_H264_LEVEL_4_1 :: int where "V4L2_MPEG_VIDEO_H264_LEVEL_4_1 \<equiv> 12"
abbreviation (input) V4L2_MPEG_VIDEO_H264_LEVEL_4_2 :: int where "V4L2_MPEG_VIDEO_H264_LEVEL_4_2 \<equiv> 13"
abbreviation (input) V4L2_MPEG_VIDEO_H264_LEVEL_5_0 :: int where "V4L2_MPEG_VIDEO_H264_LEVEL_5_0 \<equiv> 14"
abbreviation (input) V4L2_MPEG_VIDEO_H264_LEVEL_5_1 :: int where "V4L2_MPEG_VIDEO_H264_LEVEL_5_1 \<equiv> 15"
abbreviation (input) V4L2_MPEG_VIDEO_HEVC_LEVEL_1 :: int where "V4L2_MPEG_VIDEO_HEVC_LEVEL_1 \<equiv> 0"
abbreviation (input) V4L2_MPEG_VIDEO_HEVC_LEVEL_2 :: int where "V4L2_MPEG_VIDEO_HEVC_LEVEL_2 \<equiv> 1"
abbreviation (input) V4L2_MPEG_VIDEO_HEVC_LEVEL_2_1 :: int where "V4L2_MPEG_VIDEO_HEVC_LEVEL_2_1 \<equiv> 2"
abbreviation (input) V4L2_MPEG_VIDEO_HEVC_LEVEL_3 :: int where "V4L2_MPEG_VIDEO_HEVC_LEVEL_3 \<equiv> 3"
abbreviation (input) V4L2_MPEG_VIDEO_HEVC_LEVEL_3_1 :: int where "V4L2_MPEG_VIDEO_HEVC_LEVEL_3_1 \<equiv> 4"
abbreviation (input) V4L2_MPEG_VIDEO_HEVC_LEVEL_4 :: int where "V4L2_MPEG_VIDEO_HEVC_LEVEL_4 \<equiv> 5"
abbreviation (input) V4L2_MPEG_VIDEO_HEVC_LEVEL_4_1 :: int where "V4L2_MPEG_VIDEO_HEVC_LEVEL_4_1 \<equiv> 6"
abbreviation (input) V4L2_MPEG_VIDEO_HEVC_LEVEL_5 :: int where "V4L2_MPEG_VIDEO_HEVC_LEVEL_5 \<equiv> 7"
abbreviation (input) V4L2_MPEG_VIDEO_HEVC_LEVEL_5_1 :: int where "V4L2_MPEG_VIDEO_HEVC_LEVEL_5_1 \<equiv> 8"
abbreviation (input) V4L2_MPEG_VIDEO_HEVC_LEVEL_5_2 :: int where "V4L2_MPEG_VIDEO_HEVC_LEVEL_5_2 \<equiv> 9"
abbreviation (input) V4L2_MPEG_VIDEO_HEVC_LEVEL_6 :: int where "V4L2_MPEG_VIDEO_HEVC_LEVEL_6 \<equiv> 10"
abbreviation (input) V4L2_MPEG_VIDEO_HEVC_LEVEL_6_1 :: int where "V4L2_MPEG_VIDEO_HEVC_LEVEL_6_1 \<equiv> 11"
abbreviation (input) V4L2_MPEG_VIDEO_HEVC_LEVEL_6_2 :: int where "V4L2_MPEG_VIDEO_HEVC_LEVEL_6_2 \<equiv> 12"
abbreviation (input) V4L2_MPEG_VIDEO_HEADER_MODE_SEPARATE :: int where "V4L2_MPEG_VIDEO_HEADER_MODE_SEPARATE \<equiv> 0"
abbreviation (input) V4L2_MPEG_VIDEO_HEADER_MODE_JOINED_WITH_1ST_FRAME :: int where "V4L2_MPEG_VIDEO_HEADER_MODE_JOINED_WITH_1ST_FRAME \<equiv> 1"
abbreviation (input) V4L2_MPEG_VIDEO_BITRATE_MODE_VBR :: int where "V4L2_MPEG_VIDEO_BITRATE_MODE_VBR \<equiv> 0"
abbreviation (input) V4L2_MPEG_VIDEO_BITRATE_MODE_CBR :: int where "V4L2_MPEG_VIDEO_BITRATE_MODE_CBR \<equiv> 1"
abbreviation (input) V4L2_MPEG_VIDEO_BITRATE_MODE_CQ :: int where "V4L2_MPEG_VIDEO_BITRATE_MODE_CQ \<equiv> 2"
abbreviation (input) V4L2_MPEG_VIDEO_FRAME_SKIP_MODE_DISABLED :: int where "V4L2_MPEG_VIDEO_FRAME_SKIP_MODE_DISABLED \<equiv> 0"
abbreviation (input) V4L2_MPEG_VIDEO_FRAME_SKIP_MODE_BUF_LIMIT :: int where "V4L2_MPEG_VIDEO_FRAME_SKIP_MODE_BUF_LIMIT \<equiv> 2"
abbreviation (input) V4L2_MPEG_VIDEO_H264_ENTROPY_MODE_CAVLC :: int where "V4L2_MPEG_VIDEO_H264_ENTROPY_MODE_CAVLC \<equiv> 0"
abbreviation (input) V4L2_MPEG_VIDEO_H264_ENTROPY_MODE_CABAC :: int where "V4L2_MPEG_VIDEO_H264_ENTROPY_MODE_CABAC \<equiv> 1"

definition CAP_FLAG_DYNAMIC_ALLOWED :: u32 where "CAP_FLAG_DYNAMIC_ALLOWED = BIT 0"
definition CAP_FLAG_MENU :: u32 where "CAP_FLAG_MENU = BIT 1"
definition CAP_FLAG_INPUT_PORT :: u32 where "CAP_FLAG_INPUT_PORT = BIT 2"
definition CAP_FLAG_OUTPUT_PORT :: u32 where "CAP_FLAG_OUTPUT_PORT = BIT 3"
definition CAP_FLAG_CLIENT_SET :: u32 where "CAP_FLAG_CLIENT_SET = BIT 4"

definition BITRATE_MIN :: int where "BITRATE_MIN = 32000"
definition BITRATE_MAX :: int where "BITRATE_MAX = 160000000"
definition BITRATE_STEP :: int where "BITRATE_STEP = 100"
definition BITRATE_DEFAULT :: int where "BITRATE_DEFAULT = 20000000"
definition MIN_QP_8BIT :: int where "MIN_QP_8BIT = 1"
definition MAX_QP :: int where "MAX_QP = 51"
definition MAX_QP_HEVC :: int where "MAX_QP_HEVC = 63"

abbreviation (input) STAGE_1 :: int where "STAGE_1 \<equiv> 1"
abbreviation (input) STAGE_2 :: int where "STAGE_2 \<equiv> 2"
abbreviation (input) PIPE_1 :: int where "PIPE_1 \<equiv> 1"
abbreviation (input) PIPE_2 :: int where "PIPE_2 \<equiv> 2"
abbreviation (input) PIPE_4 :: int where "PIPE_4 \<equiv> 4"

section \<open>Capabilities\<close>

text \<open>The routines the tables of the Gen1 platforms point to.\<close>

datatype cap_setter =
    Set_pipe | Set_stage | Set_profile_level_gen1 | Set_header_mode_gen1 | Set_bitrate
  | Set_bitrate_mode_gen1 | Set_gop_size_gen1 | Set_entropy_mode_gen1 | Set_qp_range

text \<open>
  \<open>struct platform_inst_fw_cap\<close>. The signed 64-bit numbers hold table entries and 32-bit
  control values, so they are integers here.
\<close>

record platform_inst_fw_cap =
  cap_id :: nat
  cap_min :: int
  cap_max :: int
  step_or_mask :: int
  cap_value :: int
  hfi_id :: u32
  cap_flags :: u32
  cap_set :: "cap_setter option"

definition zero_cap :: platform_inst_fw_cap where
  "zero_cap = \<lparr>cap_id = 0, cap_min = 0, cap_max = 0, step_or_mask = 0, cap_value = 0, hfi_id = 0,
     cap_flags = 0, cap_set = None\<rparr>"

text \<open>The mask of a menu: \<open>BIT(a) | BIT(b) | ...\<close>.\<close>

definition menu_mask :: "int list \<Rightarrow> int" where
  "menu_mask xs = foldr (\<lambda>x m. or (2 ^ nat x) m) xs 0"

section \<open>The tables\<close>

definition inst_fw_cap_sm8250_dec :: "platform_inst_fw_cap list" where
  "inst_fw_cap_sm8250_dec =
     [\<lparr>cap_id = PIPE, cap_min = PIPE_1, cap_max = PIPE_4, step_or_mask = 1,
        cap_value = PIPE_4, hfi_id = HFI_PROPERTY_PARAM_WORK_ROUTE, cap_flags = 0,
        cap_set = Some Set_pipe\<rparr>,
      \<lparr>cap_id = STAGE, cap_min = STAGE_1, cap_max = STAGE_2, step_or_mask = 1,
        cap_value = STAGE_2, hfi_id = HFI_PROPERTY_PARAM_WORK_MODE, cap_flags = 0,
        cap_set = Some Set_stage\<rparr>]"

definition inst_fw_cap_sm8150_dec :: "platform_inst_fw_cap list" where
  "inst_fw_cap_sm8150_dec =
     [\<lparr>cap_id = PIPE, cap_min = PIPE_1, cap_max = PIPE_2, step_or_mask = 1,
        cap_value = PIPE_2, hfi_id = HFI_PROPERTY_PARAM_WORK_ROUTE, cap_flags = 0,
        cap_set = Some Set_pipe\<rparr>,
      \<lparr>cap_id = STAGE, cap_min = STAGE_1, cap_max = STAGE_2, step_or_mask = 1,
        cap_value = STAGE_2, hfi_id = HFI_PROPERTY_PARAM_WORK_MODE, cap_flags = 0,
        cap_set = Some Set_stage\<rparr>]"

definition inst_fw_cap_sm8250_enc :: "platform_inst_fw_cap list" where
  "inst_fw_cap_sm8250_enc =
     [\<lparr>cap_id = STAGE, cap_min = STAGE_1, cap_max = STAGE_2, step_or_mask = 1,
        cap_value = STAGE_2, hfi_id = HFI_PROPERTY_PARAM_WORK_MODE, cap_flags = 0,
        cap_set = Some Set_stage\<rparr>,
      \<lparr>cap_id = PROFILE_H264, cap_min = V4L2_MPEG_VIDEO_H264_PROFILE_BASELINE,
        cap_max = V4L2_MPEG_VIDEO_H264_PROFILE_MULTIVIEW_HIGH, step_or_mask = menu_mask
        [V4L2_MPEG_VIDEO_H264_PROFILE_BASELINE,
        V4L2_MPEG_VIDEO_H264_PROFILE_CONSTRAINED_BASELINE, V4L2_MPEG_VIDEO_H264_PROFILE_MAIN,
        V4L2_MPEG_VIDEO_H264_PROFILE_HIGH, V4L2_MPEG_VIDEO_H264_PROFILE_STEREO_HIGH,
        V4L2_MPEG_VIDEO_H264_PROFILE_MULTIVIEW_HIGH],
        cap_value = V4L2_MPEG_VIDEO_H264_PROFILE_HIGH,
        hfi_id = HFI_PROPERTY_PARAM_PROFILE_LEVEL_CURRENT,
        cap_flags = CAP_FLAG_OUTPUT_PORT OR CAP_FLAG_MENU,
        cap_set = Some Set_profile_level_gen1\<rparr>,
      \<lparr>cap_id = PROFILE_HEVC, cap_min = V4L2_MPEG_VIDEO_HEVC_PROFILE_MAIN,
        cap_max = V4L2_MPEG_VIDEO_HEVC_PROFILE_MAIN_10, step_or_mask = menu_mask
        [V4L2_MPEG_VIDEO_HEVC_PROFILE_MAIN, V4L2_MPEG_VIDEO_HEVC_PROFILE_MAIN_STILL_PICTURE,
        V4L2_MPEG_VIDEO_HEVC_PROFILE_MAIN_10], cap_value = V4L2_MPEG_VIDEO_HEVC_PROFILE_MAIN,
        hfi_id = HFI_PROPERTY_PARAM_PROFILE_LEVEL_CURRENT,
        cap_flags = CAP_FLAG_OUTPUT_PORT OR CAP_FLAG_MENU,
        cap_set = Some Set_profile_level_gen1\<rparr>,
      \<lparr>cap_id = LEVEL_H264, cap_min = V4L2_MPEG_VIDEO_H264_LEVEL_1_0,
        cap_max = V4L2_MPEG_VIDEO_H264_LEVEL_5_1, step_or_mask = menu_mask
        [V4L2_MPEG_VIDEO_H264_LEVEL_1_0, V4L2_MPEG_VIDEO_H264_LEVEL_1B,
        V4L2_MPEG_VIDEO_H264_LEVEL_1_1, V4L2_MPEG_VIDEO_H264_LEVEL_1_2,
        V4L2_MPEG_VIDEO_H264_LEVEL_1_3, V4L2_MPEG_VIDEO_H264_LEVEL_2_0,
        V4L2_MPEG_VIDEO_H264_LEVEL_2_1, V4L2_MPEG_VIDEO_H264_LEVEL_2_2,
        V4L2_MPEG_VIDEO_H264_LEVEL_3_0, V4L2_MPEG_VIDEO_H264_LEVEL_3_1,
        V4L2_MPEG_VIDEO_H264_LEVEL_3_2, V4L2_MPEG_VIDEO_H264_LEVEL_4_0,
        V4L2_MPEG_VIDEO_H264_LEVEL_4_1, V4L2_MPEG_VIDEO_H264_LEVEL_4_2,
        V4L2_MPEG_VIDEO_H264_LEVEL_5_0, V4L2_MPEG_VIDEO_H264_LEVEL_5_1],
        cap_value = V4L2_MPEG_VIDEO_H264_LEVEL_1_0,
        hfi_id = HFI_PROPERTY_PARAM_PROFILE_LEVEL_CURRENT,
        cap_flags = CAP_FLAG_OUTPUT_PORT OR CAP_FLAG_MENU,
        cap_set = Some Set_profile_level_gen1\<rparr>,
      \<lparr>cap_id = LEVEL_HEVC, cap_min = V4L2_MPEG_VIDEO_HEVC_LEVEL_1,
        cap_max = V4L2_MPEG_VIDEO_HEVC_LEVEL_6_2, step_or_mask = menu_mask
        [V4L2_MPEG_VIDEO_HEVC_LEVEL_1, V4L2_MPEG_VIDEO_HEVC_LEVEL_2,
        V4L2_MPEG_VIDEO_HEVC_LEVEL_2_1, V4L2_MPEG_VIDEO_HEVC_LEVEL_3,
        V4L2_MPEG_VIDEO_HEVC_LEVEL_3_1, V4L2_MPEG_VIDEO_HEVC_LEVEL_4,
        V4L2_MPEG_VIDEO_HEVC_LEVEL_4_1, V4L2_MPEG_VIDEO_HEVC_LEVEL_5,
        V4L2_MPEG_VIDEO_HEVC_LEVEL_5_1, V4L2_MPEG_VIDEO_HEVC_LEVEL_5_2,
        V4L2_MPEG_VIDEO_HEVC_LEVEL_6, V4L2_MPEG_VIDEO_HEVC_LEVEL_6_1,
        V4L2_MPEG_VIDEO_HEVC_LEVEL_6_2], cap_value = V4L2_MPEG_VIDEO_HEVC_LEVEL_1,
        hfi_id = HFI_PROPERTY_PARAM_PROFILE_LEVEL_CURRENT,
        cap_flags = CAP_FLAG_OUTPUT_PORT OR CAP_FLAG_MENU,
        cap_set = Some Set_profile_level_gen1\<rparr>,
      \<lparr>cap_id = HEADER_MODE, cap_min = V4L2_MPEG_VIDEO_HEADER_MODE_SEPARATE,
        cap_max = V4L2_MPEG_VIDEO_HEADER_MODE_JOINED_WITH_1ST_FRAME, step_or_mask = menu_mask
        [V4L2_MPEG_VIDEO_HEADER_MODE_SEPARATE,
        V4L2_MPEG_VIDEO_HEADER_MODE_JOINED_WITH_1ST_FRAME],
        cap_value = V4L2_MPEG_VIDEO_HEADER_MODE_JOINED_WITH_1ST_FRAME,
        hfi_id = HFI_PROPERTY_CONFIG_VENC_SYNC_FRAME_SEQUENCE_HEADER,
        cap_flags = CAP_FLAG_OUTPUT_PORT OR CAP_FLAG_MENU,
        cap_set = Some Set_header_mode_gen1\<rparr>,
      \<lparr>cap_id = BITRATE, cap_min = BITRATE_MIN, cap_max = BITRATE_MAX,
        step_or_mask = BITRATE_STEP, cap_value = BITRATE_DEFAULT,
        hfi_id = HFI_PROPERTY_CONFIG_VENC_TARGET_BITRATE,
        cap_flags = CAP_FLAG_OUTPUT_PORT OR CAP_FLAG_INPUT_PORT OR CAP_FLAG_DYNAMIC_ALLOWED,
        cap_set = Some Set_bitrate\<rparr>,
      \<lparr>cap_id = BITRATE_MODE, cap_min = V4L2_MPEG_VIDEO_BITRATE_MODE_VBR,
        cap_max = V4L2_MPEG_VIDEO_BITRATE_MODE_CBR, step_or_mask = menu_mask
        [V4L2_MPEG_VIDEO_BITRATE_MODE_VBR, V4L2_MPEG_VIDEO_BITRATE_MODE_CBR],
        cap_value = V4L2_MPEG_VIDEO_BITRATE_MODE_VBR,
        hfi_id = HFI_PROPERTY_PARAM_VENC_RATE_CONTROL,
        cap_flags = CAP_FLAG_OUTPUT_PORT OR CAP_FLAG_MENU,
        cap_set = Some Set_bitrate_mode_gen1\<rparr>,
      \<lparr>cap_id = FRAME_SKIP_MODE, cap_min = V4L2_MPEG_VIDEO_FRAME_SKIP_MODE_DISABLED,
        cap_max = V4L2_MPEG_VIDEO_FRAME_SKIP_MODE_BUF_LIMIT, step_or_mask = menu_mask
        [V4L2_MPEG_VIDEO_FRAME_SKIP_MODE_DISABLED, V4L2_MPEG_VIDEO_FRAME_SKIP_MODE_BUF_LIMIT],
        cap_value = V4L2_MPEG_VIDEO_FRAME_SKIP_MODE_DISABLED, hfi_id = 0,
        cap_flags = CAP_FLAG_OUTPUT_PORT OR CAP_FLAG_MENU, cap_set = None\<rparr>,
      \<lparr>cap_id = FRAME_RC_ENABLE, cap_min = 0, cap_max = 1, step_or_mask = 1,
        cap_value = 1, hfi_id = 0, cap_flags = 0, cap_set = None\<rparr>,
      \<lparr>cap_id = GOP_SIZE, cap_min = 0, cap_max = 2 ^ 16 - 1, step_or_mask = 1,
        cap_value = 30, hfi_id = HFI_PROPERTY_CONFIG_VENC_INTRA_PERIOD, cap_flags = 0,
        cap_set = Some Set_gop_size_gen1\<rparr>,
      \<lparr>cap_id = ENTROPY_MODE, cap_min = V4L2_MPEG_VIDEO_H264_ENTROPY_MODE_CAVLC,
        cap_max = V4L2_MPEG_VIDEO_H264_ENTROPY_MODE_CABAC, step_or_mask = menu_mask
        [V4L2_MPEG_VIDEO_H264_ENTROPY_MODE_CAVLC, V4L2_MPEG_VIDEO_H264_ENTROPY_MODE_CABAC],
        cap_value = V4L2_MPEG_VIDEO_H264_ENTROPY_MODE_CAVLC,
        hfi_id = HFI_PROPERTY_PARAM_VENC_H264_ENTROPY_CONTROL,
        cap_flags = CAP_FLAG_OUTPUT_PORT OR CAP_FLAG_MENU,
        cap_set = Some Set_entropy_mode_gen1\<rparr>,
      \<lparr>cap_id = MIN_FRAME_QP_H264, cap_min = MIN_QP_8BIT, cap_max = MAX_QP,
        step_or_mask = 1, cap_value = MIN_QP_8BIT,
        hfi_id = HFI_PROPERTY_PARAM_VENC_SESSION_QP_RANGE_V2, cap_flags = CAP_FLAG_OUTPUT_PORT,
        cap_set = Some Set_qp_range\<rparr>,
      \<lparr>cap_id = MIN_FRAME_QP_HEVC, cap_min = MIN_QP_8BIT, cap_max = MAX_QP_HEVC,
        step_or_mask = 1, cap_value = MIN_QP_8BIT,
        hfi_id = HFI_PROPERTY_PARAM_VENC_SESSION_QP_RANGE_V2, cap_flags = CAP_FLAG_OUTPUT_PORT,
        cap_set = Some Set_qp_range\<rparr>,
      \<lparr>cap_id = MAX_FRAME_QP_H264, cap_min = MIN_QP_8BIT, cap_max = MAX_QP,
        step_or_mask = 1, cap_value = MAX_QP,
        hfi_id = HFI_PROPERTY_PARAM_VENC_SESSION_QP_RANGE_V2, cap_flags = CAP_FLAG_OUTPUT_PORT,
        cap_set = Some Set_qp_range\<rparr>,
      \<lparr>cap_id = MAX_FRAME_QP_HEVC, cap_min = MIN_QP_8BIT, cap_max = MAX_QP_HEVC,
        step_or_mask = 1, cap_value = MAX_QP_HEVC,
        hfi_id = HFI_PROPERTY_PARAM_VENC_SESSION_QP_RANGE_V2, cap_flags = CAP_FLAG_OUTPUT_PORT,
        cap_set = Some Set_qp_range\<rparr>]"

end
