(* ===== verification/IrisPlatform.thy ===== *)
theory IrisPlatform
  imports IrisCaps
begin

text \<open>
  The platform description (\<open>iris_platform_common.h\<close>) and its two HFI Gen1 instances
  (\<open>iris_platform_sm8250.c\<close>): the tables and limits that parameterise the rest of the
  driver. Kept are the fields that the modelled components read. Of the reset and
  power-domain tables only the lengths matter to the code. The preset-register callback is
  the list of register writes it performs; the firmware file name is left out.
\<close>

section \<open>Enumerations\<close>

text \<open>\<open>enum iris_buffer_type\<close> (\<open>iris_buffer.h\<close>).\<close>

datatype iris_buffer_type =
    BUF_INPUT | BUF_OUTPUT | BUF_BIN | BUF_ARP | BUF_COMV | BUF_NON_COMV | BUF_LINE | BUF_DPB
  | BUF_PERSIST | BUF_SCRATCH_1 | BUF_SCRATCH_2 | BUF_VPSS

text \<open>\<open>enum domain_type\<close> (\<open>iris_core.h\<close>).\<close>

datatype domain_type = ENCODER | DECODER

text \<open>\<open>enum platform_clk_type\<close>.\<close>

datatype platform_clk_type =
    IRIS_AXI_CLK | IRIS_BUS_CLK | IRIS_CTRL_CLK | IRIS_HW_AXI_CLK | IRIS_HW_CLK
  | IRIS_AUX_HW_AXI_CLK | IRIS_AUX_HW_CLK

text \<open>\<open>enum platform_pm_domain_type\<close>.\<close>

datatype platform_pm_domain_type =
    IRIS_CTRL_POWER_DOMAIN | IRIS_HW_POWER_DOMAIN | IRIS_AUX_HW_POWER_DOMAIN

definition IRIS_AUX_HW_POWER_DOMAIN_index :: nat where
  "IRIS_AUX_HW_POWER_DOMAIN_index = 2"

section \<open>Platform data\<close>

abbreviation (input) DEFAULT_FPS :: u32 where "DEFAULT_FPS \<equiv> 30"
abbreviation (input) MAXIMUM_FPS :: u32 where "MAXIMUM_FPS \<equiv> 480"

definition NUM_MBS_8K :: u32 where
  "NUM_MBS_8K = (8192 * 4352) div 256"

record platform_inst_caps =
  min_frame_width :: u32
  max_frame_width :: u32
  min_frame_height :: u32
  max_frame_height :: u32
  max_mbpf :: u32
  mb_cycles_vsp :: u32
  mb_cycles_vpp :: u32
  mb_cycles_fw :: u32
  mb_cycles_fw_vpp :: u32
  num_comv :: u32
  max_frame_rate :: u32
  max_operating_rate :: u32

record icc_info =
  icc_name :: string
  bw_min_kbps :: u64
  bw_max_kbps :: u64

record bw_info =
  mbs_per_sec :: u32
  bw_ddr :: u32

record ubwc_config_data =
  max_channels :: u32
  mal_length :: u32
  highest_bank_bit :: u32
  bank_swzl_level :: u32
  bank_swz2_level :: u32
  bank_swz3_level :: u32
  bank_spreading :: u32

record iris_platform_data =
  preset_registers :: "(u32 \<times> u32) list"
  icc_info_tbl :: "icc_info list"
  clk_tbl :: "(platform_clk_type \<times> string) list"
  clk_rst_tbl_size :: nat
  pas_id :: u32
  hw_response_timeout :: nat
  bw_tbl_dec :: "bw_info list"
  pmdomain_tbl_size :: nat
  inst_caps :: platform_inst_caps
  inst_fw_caps_dec :: "platform_inst_fw_cap list"
  inst_fw_caps_enc :: "platform_inst_fw_cap list"
  core_arch :: u32
  use_vcodec_hw_control :: bool
  defer_vcodec_power :: bool
  legacy_vpu5 :: bool
  num_vpp_pipe :: u32
  max_session_count :: u32
  max_core_mbpf :: u32
  max_core_mbps :: u32
  dec_ip_int_buf_tbl :: "iris_buffer_type list"
  dec_op_int_buf_tbl :: "iris_buffer_type list"
  enc_ip_int_buf_tbl :: "iris_buffer_type list"
  enc_op_int_buf_tbl :: "iris_buffer_type list"
  dec_input_config_params_default :: "u32 list"
  enc_input_config_params :: "u32 list"
  dec_input_config_params_hevc :: "u32 list"
  dec_input_config_params_vp9 :: "u32 list"
  dec_output_config_params :: "u32 list"
  enc_output_config_params :: "u32 list"
  dec_input_prop :: "u32 list"
  dec_output_prop_avc :: "u32 list"
  dec_output_prop_hevc :: "u32 list"
  dec_output_prop_vp9 :: "u32 list"
  ubwc_config :: ubwc_config_data

section \<open>SM8250 and SM8150\<close>

definition platform_inst_cap_sm8250 :: platform_inst_caps where
  "platform_inst_cap_sm8250 =
     \<lparr>min_frame_width = 128, max_frame_width = 8192, min_frame_height = 128,
      max_frame_height = 8192, max_mbpf = 138240, mb_cycles_vsp = 25, mb_cycles_vpp = 200,
      mb_cycles_fw = 0, mb_cycles_fw_vpp = 0, num_comv = 0, max_frame_rate = MAXIMUM_FPS,
      max_operating_rate = MAXIMUM_FPS\<rparr>"

definition platform_inst_cap_sm8150 :: platform_inst_caps where
  "platform_inst_cap_sm8150 =
     \<lparr>min_frame_width = 96, max_frame_width = 8192, min_frame_height = 96,
      max_frame_height = 8192, max_mbpf = 138240, mb_cycles_vsp = 10, mb_cycles_vpp = 200,
      mb_cycles_fw = 0, mb_cycles_fw_vpp = 0, num_comv = 0, max_frame_rate = MAXIMUM_FPS,
      max_operating_rate = MAXIMUM_FPS\<rparr>"

definition sm8250_bw_table_dec :: "bw_info list" where
  "sm8250_bw_table_dec =
     [\<lparr>mbs_per_sec = ((4096 * 2160) div 256) * 60, bw_ddr = 2403000\<rparr>,
      \<lparr>mbs_per_sec = ((4096 * 2160) div 256) * 30, bw_ddr = 1224000\<rparr>,
      \<lparr>mbs_per_sec = ((1920 * 1080) div 256) * 60, bw_ddr = 812000\<rparr>,
      \<lparr>mbs_per_sec = ((1920 * 1080) div 256) * 30, bw_ddr = 416000\<rparr>]"

definition sm8250_icc_table :: "icc_info list" where
  "sm8250_icc_table =
     [\<lparr>icc_name = ''cpu-cfg'', bw_min_kbps = 1000, bw_max_kbps = 1000\<rparr>,
      \<lparr>icc_name = ''video-mem'', bw_min_kbps = 1000, bw_max_kbps = 15000000\<rparr>]"

definition sm8250_clk_table :: "(platform_clk_type \<times> string) list" where
  "sm8250_clk_table =
     [(IRIS_AXI_CLK, ''iface''), (IRIS_CTRL_CLK, ''core''), (IRIS_HW_CLK, ''vcodec0_core'')]"

definition sm8150_clk_table :: "(platform_clk_type \<times> string) list" where
  "sm8150_clk_table =
     [(IRIS_AXI_CLK, ''iface''), (IRIS_BUS_CLK, ''bus''), (IRIS_CTRL_CLK, ''core''),
      (IRIS_HW_AXI_CLK, ''vcodec0_bus''), (IRIS_HW_CLK, ''vcodec0_core''),
      (IRIS_AUX_HW_AXI_CLK, ''vcodec1_bus''), (IRIS_AUX_HW_CLK, ''vcodec1_core'')]"

text \<open>The register writes of the two \<open>set_preset_registers\<close> callbacks.\<close>

definition iris_set_sm8250_preset_registers :: "(u32 \<times> u32) list" where
  "iris_set_sm8250_preset_registers = [(0xB0088, 0)]"

definition iris_set_sm8150_preset_registers :: "(u32 \<times> u32) list" where
  "iris_set_sm8150_preset_registers = [(0xE2010, 0), (0xE2000, 0)]"

definition sm8250_dec_ip_int_buf_tbl :: "iris_buffer_type list" where
  "sm8250_dec_ip_int_buf_tbl = [BUF_BIN, BUF_SCRATCH_1]"

definition sm8250_dec_op_int_buf_tbl :: "iris_buffer_type list" where
  "sm8250_dec_op_int_buf_tbl = [BUF_DPB]"

definition sm8250_enc_ip_int_buf_tbl :: "iris_buffer_type list" where
  "sm8250_enc_ip_int_buf_tbl = [BUF_BIN, BUF_SCRATCH_1, BUF_SCRATCH_2]"

definition sm8250_vdec_input_config_param_default :: "u32 list" where
  "sm8250_vdec_input_config_param_default =
     [HFI_PROPERTY_CONFIG_VIDEOCORES_USAGE, HFI_PROPERTY_PARAM_UNCOMPRESSED_FORMAT_SELECT,
      HFI_PROPERTY_PARAM_UNCOMPRESSED_PLANE_ACTUAL_CONSTRAINTS_INFO,
      HFI_PROPERTY_PARAM_BUFFER_COUNT_ACTUAL, HFI_PROPERTY_PARAM_VDEC_MULTI_STREAM,
      HFI_PROPERTY_PARAM_FRAME_SIZE, HFI_PROPERTY_PARAM_BUFFER_SIZE_ACTUAL,
      HFI_PROPERTY_PARAM_BUFFER_ALLOC_MODE]"

definition sm8250_venc_input_config_param :: "u32 list" where
  "sm8250_venc_input_config_param =
     [HFI_PROPERTY_CONFIG_FRAME_RATE, HFI_PROPERTY_PARAM_UNCOMPRESSED_PLANE_ACTUAL_INFO,
      HFI_PROPERTY_PARAM_FRAME_SIZE, HFI_PROPERTY_PARAM_UNCOMPRESSED_FORMAT_SELECT,
      HFI_PROPERTY_PARAM_BUFFER_COUNT_ACTUAL]"

text \<open>Fields the C initialisers do not name are zero, so an unnamed table is empty.\<close>

definition zero_ubwc :: ubwc_config_data where
  "zero_ubwc = \<lparr>max_channels = 0, mal_length = 0, highest_bank_bit = 0, bank_swzl_level = 0,
     bank_swz2_level = 0, bank_swz3_level = 0, bank_spreading = 0\<rparr>"

definition sm8250_data :: iris_platform_data where
  "sm8250_data =
     \<lparr>preset_registers = iris_set_sm8250_preset_registers, icc_info_tbl = sm8250_icc_table,
      clk_tbl = sm8250_clk_table, clk_rst_tbl_size = 2, pas_id = 9, hw_response_timeout = 1000,
      bw_tbl_dec = sm8250_bw_table_dec, pmdomain_tbl_size = 2,
      inst_caps = platform_inst_cap_sm8250, inst_fw_caps_dec = inst_fw_cap_sm8250_dec,
      inst_fw_caps_enc = inst_fw_cap_sm8250_enc, core_arch = 0,
      use_vcodec_hw_control = False, defer_vcodec_power = False, legacy_vpu5 = False,
      num_vpp_pipe = 4, max_session_count = 16, max_core_mbpf = NUM_MBS_8K,
      max_core_mbps = ((7680 * 4320) div 256) * 60,
      dec_ip_int_buf_tbl = sm8250_dec_ip_int_buf_tbl,
      dec_op_int_buf_tbl = sm8250_dec_op_int_buf_tbl,
      enc_ip_int_buf_tbl = sm8250_enc_ip_int_buf_tbl,
      enc_op_int_buf_tbl = [],
      dec_input_config_params_default = sm8250_vdec_input_config_param_default,
      enc_input_config_params = sm8250_venc_input_config_param,
      dec_input_config_params_hevc = [], dec_input_config_params_vp9 = [],
      dec_output_config_params = [], enc_output_config_params = [], dec_input_prop = [],
      dec_output_prop_avc = [], dec_output_prop_hevc = [], dec_output_prop_vp9 = [],
      ubwc_config = zero_ubwc\<rparr>"

definition SM8150_MAX_CORE_MBPS :: u32 where
  "SM8150_MAX_CORE_MBPS = ((3840 * 2176) div 256) * 120"

definition sm8150_data :: iris_platform_data where
  "sm8150_data =
     \<lparr>preset_registers = iris_set_sm8150_preset_registers, icc_info_tbl = sm8250_icc_table,
      clk_tbl = sm8150_clk_table, clk_rst_tbl_size = 4, pas_id = 9, hw_response_timeout = 1000,
      bw_tbl_dec = sm8250_bw_table_dec, pmdomain_tbl_size = 3,
      inst_caps = platform_inst_cap_sm8150, inst_fw_caps_dec = inst_fw_cap_sm8150_dec,
      inst_fw_caps_enc = inst_fw_cap_sm8250_enc, core_arch = 0,
      use_vcodec_hw_control = True, defer_vcodec_power = True, legacy_vpu5 = True,
      num_vpp_pipe = 2, max_session_count = 16, max_core_mbpf = NUM_MBS_8K,
      max_core_mbps = SM8150_MAX_CORE_MBPS,
      dec_ip_int_buf_tbl = sm8250_dec_ip_int_buf_tbl,
      dec_op_int_buf_tbl = sm8250_dec_op_int_buf_tbl,
      enc_ip_int_buf_tbl = sm8250_enc_ip_int_buf_tbl,
      enc_op_int_buf_tbl = [],
      dec_input_config_params_default = sm8250_vdec_input_config_param_default,
      enc_input_config_params = sm8250_venc_input_config_param,
      dec_input_config_params_hevc = [], dec_input_config_params_vp9 = [],
      dec_output_config_params = [], enc_output_config_params = [], dec_input_prop = [],
      dec_output_prop_avc = [], dec_output_prop_hevc = [], dec_output_prop_vp9 = [],
      ubwc_config = zero_ubwc\<rparr>"

end
