(* ===== verification/IrisQueue.thy ===== *)
theory IrisQueue
  imports IrisPlatform
begin

text \<open>
  The shared HFI queues (\<open>iris_hfi_queue.c\<close>): three rings of bytes in memory that the
  host and the VPU firmware both map, each described by a header with a read and a write
  index in 32-bit words. Memory at a pointer is a function from byte offsets to bytes, so
  that a copy that would leave the ring is visible as such. A write is modelled as the
  sequence of stores the code issues, with its barriers, because what the firmware may see
  between two of them matters; its effect is their composition. The file holds the ring
  operations and the refinement of the ring to a queue of packets.
\<close>

section \<open>Constants and headers\<close>

definition IFACEQ_MAX_PKT_SIZE :: u32 where "IFACEQ_MAX_PKT_SIZE = 1024"
definition IFACEQ_MAX_BUF_COUNT :: u32 where "IFACEQ_MAX_BUF_COUNT = 50"
definition IFACE_MAX_PARALLEL_SESSIONS :: u32 where "IFACE_MAX_PARALLEL_SESSIONS = 16"
definition IFACEQ_DFLT_QHDR :: u16 where "IFACEQ_DFLT_QHDR = 0x0101"

definition IFACEQ_QUEUE_SIZE :: u32 where
  "IFACEQ_QUEUE_SIZE = IFACEQ_MAX_PKT_SIZE * IFACEQ_MAX_BUF_COUNT * IFACE_MAX_PARALLEL_SESSIONS"

abbreviation (input) SZ_4K :: u32 where "SZ_4K \<equiv> 4096"
abbreviation (input) SZ_1M :: u32 where "SZ_1M \<equiv> 0x100000"

definition SFR_SIZE :: u32 where "SFR_SIZE = SZ_4K"
definition IFACEQ_CORE_PKT_SIZE :: u32 where "IFACEQ_CORE_PKT_SIZE = 1024 * 4"

abbreviation (input) IFACEQ_CMDQ_ID :: u32 where "IFACEQ_CMDQ_ID \<equiv> 0"
abbreviation (input) IFACEQ_MSGQ_ID :: u32 where "IFACEQ_MSGQ_ID \<equiv> 1"
abbreviation (input) IFACEQ_DBGQ_ID :: u32 where "IFACEQ_DBGQ_ID \<equiv> 2"
abbreviation (input) IFACEQ_NUMQ :: u32 where "IFACEQ_NUMQ \<equiv> 3"

record iris_hfi_queue_header =
  status :: u32
  start_addr :: u32
  queue_type :: u16
  header_type :: u16
  q_size :: u32
  pkt_size :: u32
  pkt_drop_cnt :: u32
  rx_wm :: u32
  tx_wm :: u32
  rx_req :: u32
  tx_req :: u32
  rx_irq_status :: u32
  tx_irq_status :: u32
  read_idx :: u32
  write_idx :: u32

definition zero_queue_header :: iris_hfi_queue_header where
  "zero_queue_header =
     \<lparr>status = 0, start_addr = 0, queue_type = 0, header_type = 0, q_size = 0, pkt_size = 0,
      pkt_drop_cnt = 0, rx_wm = 0, tx_wm = 0, rx_req = 0, tx_req = 0, rx_irq_status = 0,
      tx_irq_status = 0, read_idx = 0, write_idx = 0\<rparr>"

section \<open>Memory\<close>

type_synonym bytes = "nat \<Rightarrow> u8"

text \<open>\<open>memcpy(dst + d, src + s, n)\<close>.\<close>

definition memcpy :: "bytes \<Rightarrow> nat \<Rightarrow> bytes \<Rightarrow> nat \<Rightarrow> nat \<Rightarrow> bytes" where
  "memcpy dst d src s n = (\<lambda>i. if d \<le> i \<and> i < d + n then src (s + (i - d)) else dst i)"

text \<open>The little-endian 32-bit word at an offset.\<close>

definition load_u32 :: "bytes \<Rightarrow> nat \<Rightarrow> u32" where
  "load_u32 m i = word_of_nat (unat (m i) + 2 ^ 8 * unat (m (i + 1)) +
     2 ^ 16 * unat (m (i + 2)) + 2 ^ 24 * unat (m (i + 3)))"

text \<open>A ring: the queue header and the memory from the queue's \<open>kernel_vaddr\<close> on.\<close>

record hfi_ring =
  qhdr :: iris_hfi_queue_header
  qmem :: bytes

section \<open>Ring operations\<close>

text \<open>The stores of a queue write, in program order.\<close>

datatype queue_store =
    St_tx_req u32
  | St_copy nat bytes nat nat
  | St_mb
  | St_write_idx u32

fun apply_store :: "queue_store \<Rightarrow> hfi_ring \<Rightarrow> hfi_ring" where
  "apply_store (St_tx_req v) q = q\<lparr>qhdr := (qhdr q)\<lparr>tx_req := v\<rparr>\<rparr>"
| "apply_store (St_copy d src s n) q = q\<lparr>qmem := memcpy (qmem q) d src s n\<rparr>"
| "apply_store St_mb q = q"
| "apply_store (St_write_idx v) q = q\<lparr>qhdr := (qhdr q)\<lparr>write_idx := v\<rparr>\<rparr>"

text \<open>
  \<open>iris_hfi_queue_write()\<close>: the return code and the stores issued. The pointer check of
  the code compares \<open>write_ptr\<close> with the ends of the ring; a 32-bit offset cannot wrap the
  pointer, so only its upper bound can fail.
\<close>

definition iris_hfi_queue_write_stores ::
    "hfi_ring \<Rightarrow> bytes \<Rightarrow> u32 \<Rightarrow> int \<times> queue_store list" where
  "iris_hfi_queue_write_stores q packet packet_size =
     (let wr = write_idx (qhdr q) * 4;
          rd = read_idx (qhdr q) * 4;
          empty_space = (if wr < rd then rd - wr else IFACEQ_QUEUE_SIZE - (wr - rd))
      in if empty_space < packet_size then (- ENOSPC, [])
         else let new_write_idx = wr + packet_size
         in if IFACEQ_QUEUE_SIZE < wr then (- EINVAL, [St_tx_req 0])
         else if new_write_idx < IFACEQ_QUEUE_SIZE then
           (0, [St_tx_req 0, St_copy (unat wr) packet 0 (unat packet_size), St_mb,
                St_write_idx (new_write_idx div 4), St_mb])
         else let residue = new_write_idx - IFACEQ_QUEUE_SIZE
         in (0, [St_tx_req 0,
                 St_copy (unat wr) packet 0 (unat (packet_size - residue)),
                 St_copy 0 packet (unat (packet_size - residue)) (unat residue), St_mb,
                 St_write_idx (residue div 4), St_mb]))"

definition iris_hfi_queue_write :: "hfi_ring \<Rightarrow> bytes \<Rightarrow> u32 \<Rightarrow> int \<times> hfi_ring" where
  "iris_hfi_queue_write q packet packet_size =
     (case iris_hfi_queue_write_stores q packet packet_size of
        (ret, sts) \<Rightarrow> (ret, fold apply_store sts q))"

text \<open>\<open>iris_hfi_queue_read()\<close>: the return code, the ring and the caller's packet buffer.\<close>

definition iris_hfi_queue_read :: "hfi_ring \<Rightarrow> bytes \<Rightarrow> int \<times> hfi_ring \<times> bytes" where
  "iris_hfi_queue_read q packet =
     (let h = qhdr q;
          wr = write_idx h * 4;
          rd = read_idx h * 4;
          receive_request = (if queue_type h = ucast IFACEQ_MSGQ_ID then 1 else 0)
      in if rd = wr then (- ENODATA, q\<lparr>qhdr := h\<lparr>rx_req := receive_request\<rparr>\<rparr>, packet)
         else if IFACEQ_QUEUE_SIZE - 4 < rd then (- ENODATA, q, packet)
         else let packet_size = load_u32 (qmem q) (unat rd)
         in if packet_size = 0 then (- EINVAL, q, packet)
         else let new_read_idx = rd + packet_size;
                  residue = new_read_idx - IFACEQ_QUEUE_SIZE;
                  (ret, next_idx, packet') =
                    (if packet_size \<le> IFACEQ_CORE_PKT_SIZE then
                       (if new_read_idx < IFACEQ_QUEUE_SIZE then
                          (0, new_read_idx,
                           memcpy packet 0 (qmem q) (unat rd) (unat packet_size))
                        else
                          (0, residue,
                           memcpy (memcpy packet 0 (qmem q) (unat rd)
                                     (unat (packet_size - residue)))
                             (unat (packet_size - residue)) (qmem q) 0 (unat residue)))
                     else (- EBADMSG, wr, packet))
         in (ret, q\<lparr>qhdr := h\<lparr>rx_req := receive_request, read_idx := next_idx div 4\<rparr>\<rparr>,
             packet'))"


section \<open>The ring as a queue of bytes\<close>

text \<open>
  The abstraction of a ring: its read and write offsets in bytes, the number of bytes
  between them, and those bytes in order. A ring is sane when both offsets are inside it.
\<close>

abbreviation ring_size :: nat where "ring_size \<equiv> 819200"

definition rd_off :: "hfi_ring \<Rightarrow> nat" where "rd_off q = 4 * unat (read_idx (qhdr q))"
definition wr_off :: "hfi_ring \<Rightarrow> nat" where "wr_off q = 4 * unat (write_idx (qhdr q))"
definition ring_ok :: "hfi_ring \<Rightarrow> bool" where
  "ring_ok q \<longleftrightarrow> rd_off q < ring_size \<and> wr_off q < ring_size"
definition ring_fill :: "hfi_ring \<Rightarrow> nat" where
  "ring_fill q = (if rd_off q \<le> wr_off q then wr_off q - rd_off q else wr_off q + ring_size - rd_off q)"
definition ring_byte :: "hfi_ring \<Rightarrow> nat \<Rightarrow> u8" where
  "ring_byte q i = qmem q ((rd_off q + i) mod ring_size)"
definition ring_pending :: "hfi_ring \<Rightarrow> u8 list" where
  "ring_pending q = map (ring_byte q) [0..<ring_fill q]"

lemma unat_QUEUE_SIZE: "unat IFACEQ_QUEUE_SIZE = ring_size"
  by (simp add: IFACEQ_QUEUE_SIZE_def IFACEQ_MAX_PKT_SIZE_def IFACEQ_MAX_BUF_COUNT_def
      IFACE_MAX_PARALLEL_SESSIONS_def)

lemma mod_ring: "x < 2 * ring_size \<Longrightarrow> x mod ring_size = (if x < ring_size then x else x - ring_size)"
  by (simp add: mod_if)

lemma unat_idx4: "4 * unat i < ring_size \<Longrightarrow> unat (i * 4) = 4 * unat i" for i :: u32
  by (simp add: unat_word_ariths)

lemma unat_div4: "unat (x div 4) = unat x div 4" for x :: u32
  by (simp add: unat_div_distrib)

lemma of_nat_unat_div4: "x div 4 = word_of_nat (unat x div 4)" for x :: u32
proof -
  have "unat x div 4 < 2 ^ 32" using unsigned_less[of x, where ?'a = nat] by simp
  then show ?thesis by (simp add: word_unat_eq_iff unat_of_nat unat_div_distrib)
qed

text \<open>What a write does, by the three outcomes on a sane ring.\<close>

lemma write_no_space:
  assumes "ring_ok q" "ring_size - ring_fill q < unat n"
  shows "iris_hfi_queue_write_stores q p n = (- ENOSPC, [])"
  using assms
  by (auto simp: iris_hfi_queue_write_stores_def Let_def ring_ok_def ring_fill_def rd_off_def wr_off_def
      word_less_nat_alt unat_idx4 unat_QUEUE_SIZE unat_sub_if_size word_size word_le_nat_alt split: if_splits)

lemma write_fits:
  assumes "ring_ok q" "unat n \<le> ring_size - ring_fill q" "wr_off q + unat n < ring_size"
  shows "iris_hfi_queue_write_stores q p n =
    (0, [St_tx_req 0, St_copy (wr_off q) p 0 (unat n), St_mb,
         St_write_idx (word_of_nat ((wr_off q + unat n) div 4)), St_mb])"
proof -
  have w: "unat (write_idx (qhdr q) * 4) = wr_off q" "unat (read_idx (qhdr q) * 4) = rd_off q"
    using assms(1) by (simp_all add: ring_ok_def rd_off_def wr_off_def unat_idx4)
  have s: "unat (write_idx (qhdr q) * 4 + n) = wr_off q + unat n"
    using assms(3) w by (simp add: unat_word_ariths)
  have d: "(write_idx (qhdr q) * 4 + n) div 4 = word_of_nat ((wr_off q + unat n) div 4)"
    using of_nat_unat_div4[of "write_idx (qhdr q) * 4 + n"] s by simp
  show ?thesis
    using assms w s d
    by (auto simp: iris_hfi_queue_write_stores_def Let_def ring_ok_def ring_fill_def
      word_less_nat_alt unat_QUEUE_SIZE unat_sub_if_size word_size word_le_nat_alt split: if_splits)
qed

lemma write_wraps:
  assumes "ring_ok q" "unat n \<le> ring_size - ring_fill q" "ring_size \<le> wr_off q + unat n"
  shows "iris_hfi_queue_write_stores q p n =
    (0, [St_tx_req 0, St_copy (wr_off q) p 0 (ring_size - wr_off q),
         St_copy 0 p (ring_size - wr_off q) (wr_off q + unat n - ring_size), St_mb,
         St_write_idx (word_of_nat ((wr_off q + unat n - ring_size) div 4)), St_mb])"
proof -
  have w: "unat (write_idx (qhdr q) * 4) = wr_off q" "unat (read_idx (qhdr q) * 4) = rd_off q"
    using assms(1) by (simp_all add: ring_ok_def rd_off_def wr_off_def unat_idx4)
  have b: "wr_off q < ring_size" "unat n \<le> ring_size"
    using assms by (auto simp: ring_ok_def)
  have s: "unat (write_idx (qhdr q) * 4 + n) = wr_off q + unat n"
    using b w by (simp add: unat_word_ariths)
  have r: "unat (write_idx (qhdr q) * 4 + n - IFACEQ_QUEUE_SIZE) = wr_off q + unat n - ring_size"
    using assms(3) s by (simp add: unat_sub_if_size word_size unat_QUEUE_SIZE)
  have r': "unat (n - (write_idx (qhdr q) * 4 + n - IFACEQ_QUEUE_SIZE)) = ring_size - wr_off q"
    using b w by (simp add: unat_sub_if_size word_size unat_QUEUE_SIZE)
  have d: "(write_idx (qhdr q) * 4 + n - IFACEQ_QUEUE_SIZE) div 4 = word_of_nat ((wr_off q + unat n - ring_size) div 4)"
    using of_nat_unat_div4[of "write_idx (qhdr q) * 4 + n - IFACEQ_QUEUE_SIZE"] r by simp
  show ?thesis
    using assms w s r r' d b
    by (auto simp: iris_hfi_queue_write_stores_def Let_def ring_ok_def ring_fill_def
      word_less_nat_alt unat_QUEUE_SIZE unat_sub_if_size word_size word_le_nat_alt split: if_splits)
qed

definition ring_dist :: "hfi_ring \<Rightarrow> nat \<Rightarrow> nat" where
  "ring_dist q x = (if wr_off q \<le> x then x - wr_off q else ring_size + x - wr_off q)"

definition copied :: "hfi_ring \<Rightarrow> bytes \<Rightarrow> nat \<Rightarrow> hfi_ring \<Rightarrow> bool" where
  "copied q p n q' \<longleftrightarrow>
     (\<forall>x < ring_size. qmem q' x = (if ring_dist q x < n then p (ring_dist q x) else qmem q x))"

lemma fill_less: "ring_ok q \<Longrightarrow> ring_fill q < ring_size"
  by (auto simp: ring_ok_def ring_fill_def)

lemma copied_byte:
  assumes "ring_ok q" "n \<le> ring_size - ring_fill q" "copied q p n q'" "rd_off q' = rd_off q"
    and i: "i < ring_fill q + n"
  shows "ring_byte q' i = (if i < ring_fill q then ring_byte q i else p (i - ring_fill q))"
proof -
  define x where "x = (rd_off q + i) mod ring_size"
  have il: "i < ring_size" using assms fill_less[OF assms(1)] by linarith
  have x: "x = (if rd_off q + i < ring_size then rd_off q + i else rd_off q + i - ring_size)"
    using assms(1) il by (auto simp: x_def ring_ok_def mod_if)
  then have xl: "x < ring_size" using assms(1) il by (auto simp: ring_ok_def)
  have d: "ring_dist q x = (if i < ring_fill q then i + (ring_size - ring_fill q) else i - ring_fill q)"
    using assms(1) i il unfolding x ring_dist_def ring_fill_def ring_ok_def
    by (auto split: if_splits)
  show ?thesis
    using assms(3,4) xl d assms(2) i by (auto simp: ring_byte_def copied_def x_def[symmetric])
qed

lemma ring_fieldsI:
  "read_idx (qhdr q') = read_idx (qhdr q) \<Longrightarrow> rd_off q' = rd_off q"
  "write_idx (qhdr q') = write_idx (qhdr q) \<Longrightarrow> wr_off q' = wr_off q"
  by (simp_all add: rd_off_def wr_off_def)

fun hidden_store :: "hfi_ring \<Rightarrow> queue_store \<Rightarrow> bool" where
  "hidden_store q (St_copy d src s n) \<longleftrightarrow>
     (\<forall>x. d \<le> x \<and> x < d + n \<longrightarrow> x < ring_size \<and> ring_dist q x < ring_size - ring_fill q)"
| "hidden_store q (St_write_idx v) \<longleftrightarrow> False"
| "hidden_store q _ \<longleftrightarrow> True"

lemma pending_dist:
  assumes "ring_ok q" "i < ring_fill q"
  shows "ring_dist q ((rd_off q + i) mod ring_size) = i + (ring_size - ring_fill q)"
proof -
  have il: "i < ring_size" using assms fill_less[OF assms(1)] by linarith
  have "(rd_off q + i) mod ring_size = (if rd_off q + i < ring_size then rd_off q + i else rd_off q + i - ring_size)"
    using assms(1) il by (auto simp: ring_ok_def mod_if)
  then show ?thesis
    using assms il unfolding ring_dist_def ring_fill_def ring_ok_def by (auto split: if_splits)
qed

lemma hidden_store_keeps:
  assumes "ring_ok q" "hidden_store q st"
  shows "rd_off (apply_store st q) = rd_off q" "wr_off (apply_store st q) = wr_off q"
    and "ring_pending (apply_store st q) = ring_pending q"
proof -
  show rw: "rd_off (apply_store st q) = rd_off q" "wr_off (apply_store st q) = wr_off q"
    using assms(2) by (cases st; simp add: rd_off_def wr_off_def)+
  have f: "ring_fill (apply_store st q) = ring_fill q"
    using rw by (simp add: ring_fill_def)
  have "ring_byte (apply_store st q) i = ring_byte q i" if i: "i < ring_fill q" for i
  proof (cases st)
    case (St_copy d src s n)
    let ?x = "(rd_off q + i) mod ring_size"
    have "ring_size - ring_fill q \<le> ring_dist q ?x"
      using pending_dist[OF assms(1) i] by simp
    then have "\<not> (d \<le> ?x \<and> ?x < d + n)"
      using assms(2) St_copy by (auto simp: not_less)
    then have "memcpy (qmem q) d src s n ?x = qmem q ?x" by (auto simp: memcpy_def)
    moreover have "rd_off (apply_store st q) = rd_off q" by (rule rw)
    ultimately show ?thesis using St_copy by (simp only: ring_byte_def) simp
  qed (simp_all add: ring_byte_def rd_off_def)
  then show "ring_pending (apply_store st q) = ring_pending q"
    by (simp add: ring_pending_def f)
qed

lemma hidden_cong:
  assumes "rd_off q' = rd_off q" "wr_off q' = wr_off q"
  shows "hidden_store q' = hidden_store q"
proof
  show "hidden_store q' st = hidden_store q st" for st
    using assms by (cases st) (simp_all add: ring_dist_def ring_fill_def)
qed

lemma hidden_stores_keep:
  assumes "ring_ok q" "list_all (hidden_store q) sts"
  shows "rd_off (fold apply_store sts q) = rd_off q \<and> wr_off (fold apply_store sts q) = wr_off q \<and>
    ring_pending (fold apply_store sts q) = ring_pending q"
  using assms
proof (induction sts arbitrary: q)
  case (Cons st sts)
  let ?q = "apply_store st q"
  have k: "rd_off ?q = rd_off q" "wr_off ?q = wr_off q" "ring_pending ?q = ring_pending q"
    using hidden_store_keeps[of q st] Cons.prems by auto
  have "ring_ok ?q" using Cons.prems(1) k by (simp add: ring_ok_def)
  moreover have "list_all (hidden_store ?q) sts"
    using Cons.prems(2) hidden_cong[OF k(1,2)] by simp
  ultimately show ?case using Cons.IH k by simp
qed simp
definition publish :: "queue_store \<Rightarrow> bool" where
  "publish st \<longleftrightarrow> (case st of St_write_idx _ \<Rightarrow> True | _ \<Rightarrow> False)"

lemma write_cases:
  assumes "ring_ok q"
  obtains "ring_size - ring_fill q < unat n"
  | "unat n \<le> ring_size - ring_fill q" "wr_off q + unat n < ring_size"
  | "unat n \<le> ring_size - ring_fill q" "ring_size \<le> wr_off q + unat n"
  by (meson not_le)

definition data_stores :: "hfi_ring \<Rightarrow> bytes \<Rightarrow> nat \<Rightarrow> queue_store list" where
  "data_stores q p n = (if wr_off q + n < ring_size
     then [St_tx_req 0, St_copy (wr_off q) p 0 n, St_mb]
     else [St_tx_req 0, St_copy (wr_off q) p 0 (ring_size - wr_off q),
           St_copy 0 p (ring_size - wr_off q) (wr_off q + n - ring_size), St_mb])"

lemma write_stores_split:
  assumes "ring_ok q" "unat n \<le> ring_size - ring_fill q"
  shows "iris_hfi_queue_write_stores q p n =
    (0, data_stores q p (unat n) @ [St_write_idx (word_of_nat ((wr_off q + unat n) mod ring_size div 4)), St_mb])"
proof (cases "wr_off q + unat n < ring_size")
  case True then show ?thesis using write_fits[OF assms] by (simp add: data_stores_def)
next
  case False
  have "wr_off q + unat n < 2 * ring_size" using assms by (auto simp: ring_ok_def)
  then have "(wr_off q + unat n) mod ring_size = wr_off q + unat n - ring_size"
    using False by (simp add: mod_if)
  then show ?thesis using write_wraps[OF assms] False by (simp add: data_stores_def)
qed

lemma data_stores_hidden:
  assumes "ring_ok q" "n \<le> ring_size - ring_fill q"
  shows "list_all (hidden_store q) (data_stores q p n)"
  using assms by (auto simp: data_stores_def ring_dist_def ring_ok_def)

lemma data_stores_copied:
  assumes "ring_ok q" "n \<le> ring_size - ring_fill q"
  shows "copied q p n (fold apply_store (data_stores q p n) q)"
  using assms by (auto simp: data_stores_def copied_def ring_dist_def ring_ok_def memcpy_def)

lemma write_refused:
  assumes "ring_ok q" "ring_size - ring_fill q < unat n"
  shows "iris_hfi_queue_write q p n = (- ENOSPC, q)"
  using write_no_space[OF assms] by (simp add: iris_hfi_queue_write_def)

lemma write_accepted:
  assumes ok: "ring_ok q" and n: "unat n \<le> ring_size - ring_fill q" "4 dvd unat n"
  obtains q' where "iris_hfi_queue_write q p n = (0, q')" "copied q p (unat n) q'"
    "rd_off q' = rd_off q" "wr_off q' = (wr_off q + unat n) mod ring_size"
    "qhdr q' = (qhdr q)\<lparr>tx_req := 0, write_idx := word_of_nat ((wr_off q + unat n) mod ring_size div 4)\<rparr>"
proof -
  let ?v = "word_of_nat ((wr_off q + unat n) mod ring_size div 4) :: u32"
  define q1 where "q1 = fold apply_store (data_stores q p (unat n)) q"
  define q' where "q' = q1\<lparr>qhdr := (qhdr q1)\<lparr>write_idx := ?v\<rparr>\<rparr>"
  have h: "qhdr q1 = (qhdr q)\<lparr>tx_req := 0\<rparr>"
    by (simp add: q1_def data_stores_def)
  have "4 dvd (wr_off q + unat n) mod ring_size"
    using n(2) by (simp add: wr_off_def dvd_mod)
  moreover have "unat ?v = (wr_off q + unat n) mod ring_size div 4"
  proof -
    have "(wr_off q + unat n) mod ring_size div 4 < 2 ^ 32"
      by (rule le_less_trans[OF div_le_dividend]) (rule less_trans[of _ ring_size], simp_all)
    then show ?thesis by (simp add: unat_of_nat)
  qed
  ultimately have w: "wr_off q' = (wr_off q + unat n) mod ring_size"
    by (simp add: wr_off_def q'_def)
  have "copied q p (unat n) q'"
    using data_stores_copied[OF ok n(1), of p] by (simp add: copied_def q'_def q1_def)
  moreover have "iris_hfi_queue_write q p n = (0, q')"
    using write_stores_split[OF ok n(1)] by (simp add: iris_hfi_queue_write_def q'_def q1_def)
  ultimately show thesis
    using that[of q'] w h by (simp add: q'_def rd_off_def)
qed

lemma write_appends:
  assumes ok: "ring_ok q" and n: "unat n < ring_size - ring_fill q" "4 dvd unat n"
  shows "\<exists>q'. iris_hfi_queue_write q p n = (0, q') \<and> ring_ok q' \<and>
    ring_pending q' = ring_pending q @ map p [0..<unat n]"
proof -
  obtain q' where q': "iris_hfi_queue_write q p n = (0, q')" "copied q p (unat n) q'"
    "rd_off q' = rd_off q" "wr_off q' = (wr_off q + unat n) mod ring_size"
    using write_accepted[OF ok less_imp_le[OF n(1)] n(2)] by metis
  have w: "wr_off q' = (if wr_off q + unat n < ring_size then wr_off q + unat n else wr_off q + unat n - ring_size)"
    unfolding q'(4) using ok n(1) by (intro mod_ring) (auto simp: ring_ok_def)
  have f: "ring_fill q' = ring_fill q + unat n"
    using ok n(1) q'(3) w unfolding ring_fill_def ring_ok_def by (auto split: if_splits)
  have b: "ring_byte q' i = (if i < ring_fill q then ring_byte q i else p (i - ring_fill q))"
    if "i < ring_fill q + unat n" for i
    using copied_byte[OF ok less_imp_le[OF n(1)] q'(2,3) that] .
  have "ring_pending q' = ring_pending q @ map p [0..<unat n]"
    by (rule nth_equalityI) (auto simp: ring_pending_def f b nth_append)
  moreover have "ring_ok q'"
    using ok q'(3,4) by (simp add: ring_ok_def)
  ultimately show ?thesis using q'(1) by blast
qed

definition hfi_frame :: "u8 list \<Rightarrow> bool" where
  "hfi_frame p \<longleftrightarrow> 4 \<le> length p \<and> length p \<le> 4096 \<and> 4 dvd length p \<and>
     unat (load_u32 (nth p) 0) = length p"

lemma unat_CORE_PKT_SIZE: "unat IFACEQ_CORE_PKT_SIZE = 4096"
  by (simp add: IFACEQ_CORE_PKT_SIZE_def)

lemma load_u32_append: "4 \<le> length p \<Longrightarrow> load_u32 (nth (p @ r)) 0 = load_u32 (nth p) 0"
  by (simp add: load_u32_def nth_append del: append_eq_conv_conj)
     (metis length_greater_0_conv less_le_trans zero_less_numeral)

lemma read_empty:
  assumes "ring_ok q" "ring_pending q = []"
  shows "\<exists>h. iris_hfi_queue_read q b = (- ENODATA, q\<lparr>qhdr := (qhdr q)\<lparr>rx_req := h\<rparr>\<rparr>, b)"
proof -
  have "rd_off q = wr_off q"
    using assms by (auto simp: ring_pending_def ring_fill_def ring_ok_def split: if_splits)
  then have "read_idx (qhdr q) * 4 = write_idx (qhdr q) * 4"
    using assms(1) unat_idx4 by (simp add: ring_ok_def rd_off_def wr_off_def word_unat_eq_iff)
  then show ?thesis
    by (auto simp: iris_hfi_queue_read_def Let_def)
qed

text \<open>The two ways a read copies a packet out, as one: byte by byte round the ring.\<close>

definition ring_copy_out :: "bytes \<Rightarrow> nat \<Rightarrow> nat \<Rightarrow> bytes \<Rightarrow> bytes" where
  "ring_copy_out m r n b = (\<lambda>i. if i < n then m ((r + i) mod ring_size) else b i)"

lemma copy_out_straight:
  "r + n < ring_size \<Longrightarrow> memcpy b 0 m r n = ring_copy_out m r n b"
  by (auto simp: memcpy_def ring_copy_out_def fun_eq_iff)

lemma copy_out_wrapped:
  assumes "r < ring_size" "ring_size \<le> r + n" "n \<le> ring_size"
  shows "memcpy (memcpy b 0 m r (ring_size - r)) (ring_size - r) m 0 (r + n - ring_size) =
    ring_copy_out m r n b"
proof
  fix i
  show "memcpy (memcpy b 0 m r (ring_size - r)) (ring_size - r) m 0 (r + n - ring_size) i =
      ring_copy_out m r n b i"
    using assms by (auto simp: memcpy_def ring_copy_out_def mod_ring add.commute)
qed

definition receive_request :: "hfi_ring \<Rightarrow> u32" where
  "receive_request q = (if queue_type (qhdr q) = ucast IFACEQ_MSGQ_ID then 1 else 0)"

text \<open>
  A read that accepts the packet at the read offset, whatever the header says: the firmware
  side of the header is not assumed to be sane.
\<close>

lemma read_accepts:
  assumes r: "unat (read_idx (qhdr q) * 4) = r" "r \<le> ring_size - 4"
    and ne: "read_idx (qhdr q) * 4 \<noteq> write_idx (qhdr q) * 4"
    and n: "unat (load_u32 (qmem q) r) = n" "0 < n" "n \<le> 4096"
  shows "iris_hfi_queue_read q b =
    (0, q\<lparr>qhdr := (qhdr q)\<lparr>rx_req := receive_request q,
          read_idx := word_of_nat ((r + n) mod ring_size div 4)\<rparr>\<rparr>,
     ring_copy_out (qmem q) r n b)"
proof -
  define ps where "ps = load_u32 (qmem q) r"
  let ?rd = "read_idx (qhdr q) * 4"
  let ?res = "?rd + ps - IFACEQ_QUEUE_SIZE"
  have nz: "ps \<noteq> 0" "ps \<le> IFACEQ_CORE_PKT_SIZE" "unat ps = n"
    using n unat_CORE_PKT_SIZE by (auto simp: ps_def word_le_nat_alt)
  have upd: "unat (?rd + ps) = r + n"
    using nz(3) r n by (simp add: unat_word_ariths)
  have "unat (IFACEQ_QUEUE_SIZE - 4) = ring_size - 4"
    by (simp add: unat_sub_if_size word_size unat_QUEUE_SIZE)
  then have in_range: "\<not> IFACEQ_QUEUE_SIZE - 4 < ?rd"
    using r by (simp add: word_less_nat_alt)
  have branch: "?rd + ps < IFACEQ_QUEUE_SIZE \<longleftrightarrow> r + n < ring_size"
    by (simp add: word_less_nat_alt unat_QUEUE_SIZE upd)
  note start = iris_hfi_queue_read_def receive_request_def Let_def ne in_range r(1) nz
    ps_def[symmetric] branch
  show ?thesis
  proof (cases "r + n < ring_size")
    case True
    have "(?rd + ps) div 4 = word_of_nat ((r + n) mod ring_size div 4)"
      using of_nat_unat_div4[of "?rd + ps"] upd True by simp
    then show ?thesis
      by (simp add: start True copy_out_straight)
  next
    case False
    have "unat ?res = r + n - ring_size"
      using False upd by (simp add: unat_sub_if_size word_size unat_QUEUE_SIZE)
    moreover have "ps - ?res = IFACEQ_QUEUE_SIZE - ?rd" by simp
    then have "unat (ps - ?res) = ring_size - r"
      using r by (simp add: unat_sub_if_size word_size unat_QUEUE_SIZE)
    moreover have "(r + n) mod ring_size = r + n - ring_size"
      using False r(2) n(3) by (subst mod_ring) auto
    ultimately show ?thesis
      using False r n of_nat_unat_div4[of ?res]
      by (simp add: start copy_out_wrapped del: diff_add_eq_diff_diff_swap add_diff_eq diff_diff_eq2)
  qed
qed

text \<open>Every other read leaves the caller's buffer as it was.\<close>

lemma read_rejects:
  assumes "iris_hfi_queue_read q b = (ret, q', b')"
    and "b' \<noteq> b"
  obtains r n where "unat (read_idx (qhdr q) * 4) = r" "r \<le> ring_size - 4"
    "read_idx (qhdr q) * 4 \<noteq> write_idx (qhdr q) * 4"
    "unat (load_u32 (qmem q) r) = n" "0 < n" "n \<le> 4096"
proof -
  let ?r = "unat (read_idx (qhdr q) * 4)"
  have "\<not> IFACEQ_QUEUE_SIZE - 4 < read_idx (qhdr q) * 4"
    and *: "read_idx (qhdr q) * 4 \<noteq> write_idx (qhdr q) * 4" "load_u32 (qmem q) ?r \<noteq> 0"
      "load_u32 (qmem q) ?r \<le> IFACEQ_CORE_PKT_SIZE"
    using assms by (auto simp: iris_hfi_queue_read_def Let_def split: if_splits)
  then have "?r \<le> ring_size - 4"
    by (simp add: word_less_nat_alt unat_sub_if_size word_size unat_QUEUE_SIZE)
  with * that show thesis
    by (auto simp: word_le_nat_alt unat_CORE_PKT_SIZE unat_gt_0)
qed

lemma pending_word:
  assumes ok: "ring_ok q" and "4 \<le> ring_fill q"
  shows "load_u32 (qmem q) (rd_off q) = load_u32 (nth (ring_pending q)) 0"
proof -
  have "rd_off q \<le> ring_size - 4" using ok by (auto simp: ring_ok_def rd_off_def)
  then have "ring_pending q ! i = qmem q (rd_off q + i)" if "i < 4" for i
    using that assms(2) by (simp add: ring_pending_def ring_byte_def)
  from this[of 0] this[of 1] this[of 2] this[of 3] show ?thesis
    by (simp add: load_u32_def numeral_2_eq_2)
qed

lemma read_frame:
  assumes ok: "ring_ok q" and pend: "ring_pending q = pkt @ rest" and fr: "hfi_frame pkt"
  shows "\<exists>q' b'. iris_hfi_queue_read q b = (0, q', b') \<and> ring_ok q' \<and> ring_pending q' = rest \<and>
     b' = (\<lambda>i. if i < length pkt then pkt ! i else b i)"
proof -
  let ?n = "length pkt" and ?nx = "(rd_off q + length pkt) mod ring_size"
  have n: "4 \<le> ?n" "?n \<le> 4096" "4 dvd ?n" using fr by (auto simp: hfi_frame_def)
  have len: "ring_fill q = ?n + length rest"
    using arg_cong[OF pend, of length] by (simp add: ring_pending_def)
  have byte: "ring_byte q i = pkt ! i" if "i < ?n" for i
    using arg_cong[OF pend, of "\<lambda>xs. xs ! i"] that len by (simp add: ring_pending_def nth_append)
  have "unat (load_u32 (qmem q) (rd_off q)) = ?n"
    using pending_word[OF ok] fr len n by (simp add: hfi_frame_def pend load_u32_append)
  moreover have "rd_off q \<noteq> wr_off q" using len n by (auto simp: ring_fill_def)
  moreover have "unat (read_idx (qhdr q) * 4) = rd_off q" "unat (write_idx (qhdr q) * 4) = wr_off q"
    "rd_off q \<le> ring_size - 4"
    using ok by (auto simp: ring_ok_def rd_off_def wr_off_def unat_idx4)
  ultimately have v: "iris_hfi_queue_read q b =
      (0, q\<lparr>qhdr := (qhdr q)\<lparr>rx_req := receive_request q, read_idx := word_of_nat (?nx div 4)\<rparr>\<rparr>,
       ring_copy_out (qmem q) (rd_off q) ?n b)"
    using n by (intro read_accepts) auto
  define q' where "q' = q\<lparr>qhdr := (qhdr q)\<lparr>rx_req := receive_request q, read_idx := word_of_nat (?nx div 4)\<rparr>\<rparr>"
  have "4 dvd ?nx" using n(3) by (simp add: rd_off_def dvd_mod)
  moreover have "?nx div 4 < 2 ^ 32"
    by (rule le_less_trans[OF div_le_dividend]) (rule less_trans[of _ ring_size], simp_all)
  ultimately have rd': "rd_off q' = ?nx" by (simp add: rd_off_def q'_def unat_of_nat)
  have wr': "wr_off q' = wr_off q" "qmem q' = qmem q" by (simp_all add: wr_off_def q'_def)
  have "rd_off q + ?n < 2 * ring_size" using ok n by (simp add: ring_ok_def)
  then have nx: "?nx = (if rd_off q + ?n < ring_size then rd_off q + ?n else rd_off q + ?n - ring_size)"
    by (rule mod_ring)
  have f': "ring_fill q' = length rest"
    using len rd' wr' ok unfolding nx ring_fill_def ring_ok_def by (auto split: if_splits)
  have "ring_pending q' = drop ?n (ring_pending q)"
    by (rule nth_equalityI)
       (auto simp: ring_pending_def f' len ring_byte_def rd' wr' mod_add_left_eq add.assoc)
  then have "ring_pending q' = rest" using pend by simp
  moreover have "ring_ok q'" using ok rd' wr' by (simp add: ring_ok_def)
  moreover have "ring_copy_out (qmem q) (rd_off q) ?n b = (\<lambda>i. if i < ?n then pkt ! i else b i)"
    using byte by (auto simp: ring_copy_out_def ring_byte_def fun_eq_iff)
  ultimately show ?thesis using v unfolding q'_def by blast
qed


lemma load_u32_cong: "(\<And>j. i \<le> j \<Longrightarrow> j < i + 4 \<Longrightarrow> m j = m' j) \<Longrightarrow> load_u32 m i = load_u32 m' i"
  by (simp add: load_u32_def)

lemma read_buffer_bounds:
  assumes "iris_hfi_queue_read q b = (ret, q', b')" "4096 \<le> i"
  shows "b' i = b i"
proof (cases "b' = b")
  case False
  with assms(1) show ?thesis
  proof (rule read_rejects)
    fix r n
    assume a: "unat (read_idx (qhdr q) * 4) = r" "r \<le> ring_size - 4"
      "read_idx (qhdr q) * 4 \<noteq> write_idx (qhdr q) * 4"
      "unat (load_u32 (qmem q) r) = n" "0 < n" "n \<le> 4096"
    have "b' = ring_copy_out (qmem q) r n b"
      using read_accepts[OF a, of b] assms(1) by simp
    then show "b' i = b i"
      using assms(2) a(6) by (simp add: ring_copy_out_def)
  qed
qed simp

lemma read_confined:
  assumes agree: "\<And>i. i < ring_size \<Longrightarrow> qmem q i = m i"
    and rd: "iris_hfi_queue_read q b = (ret, q', b')"
  shows "iris_hfi_queue_read (q\<lparr>qmem := m\<rparr>) b = (ret, q'\<lparr>qmem := m\<rparr>, b')"
proof (cases "IFACEQ_QUEUE_SIZE - 4 < read_idx (qhdr q) * 4 \<or>
    read_idx (qhdr q) * 4 = write_idx (qhdr q) * 4")
  case True then show ?thesis using rd by (auto simp: iris_hfi_queue_read_def Let_def)
next
  case False
  let ?r = "unat (read_idx (qhdr q) * 4)" and ?q = "q\<lparr>qmem := m\<rparr>"
  let ?ps = "load_u32 (qmem q) ?r"
  have r: "?r \<le> ring_size - 4"
    using False by (simp add: word_less_nat_alt unat_sub_if_size word_size unat_QUEUE_SIZE)
  have l: "load_u32 m ?r = ?ps"
    using agree r by (intro load_u32_cong) simp
  show ?thesis
  proof (cases "?ps = 0 \<or> \<not> ?ps \<le> IFACEQ_CORE_PKT_SIZE")
    case True then show ?thesis
      using rd l False by (auto simp: iris_hfi_queue_read_def Let_def)
  next
    case ok: False
    then have n: "0 < unat ?ps" "unat ?ps \<le> 4096"
      by (auto simp: word_le_nat_alt unat_CORE_PKT_SIZE unat_gt_0)
    have "ring_copy_out m ?r (unat ?ps) b = ring_copy_out (qmem q) ?r (unat ?ps) b"
      using agree by (auto simp: ring_copy_out_def)
    then show ?thesis
      using rd read_accepts[of q ?r "unat ?ps" b] read_accepts[of ?q ?r "unat ?ps" b] r n False l
      by (auto simp: receive_request_def)
  qed
qed

lemma read_keeps_mem: "iris_hfi_queue_read q b = (ret, q', b') \<Longrightarrow> qmem q' = qmem q"
  by (auto simp: iris_hfi_queue_read_def Let_def split: if_splits)


section \<open>Memory bounds of a write\<close>

fun copy_in_ring :: "nat \<Rightarrow> queue_store \<Rightarrow> bool" where
  "copy_in_ring n (St_copy d src s k) \<longleftrightarrow> d + k \<le> ring_size \<and> s + k \<le> n"
| "copy_in_ring n _ \<longleftrightarrow> True"

section \<open>A ring is a channel of packets\<close>

text \<open>
  What the users of a ring rely on: packets come out in the order they went in. A channel
  has a put that may refuse, a get, an abstraction to the packets held, and a condition
  under which a put is accepted.
\<close>

locale packet_channel =
  fixes put :: "'q \<Rightarrow> 'p \<Rightarrow> 'q option"
    and get :: "'q \<Rightarrow> ('p \<times> 'q) option"
    and holds :: "'q \<Rightarrow> 'p list \<Rightarrow> bool"
    and room :: "'q \<Rightarrow> 'p \<Rightarrow> bool"
  assumes put_appends: "holds q ps \<Longrightarrow> room q p \<Longrightarrow> \<exists>q'. put q p = Some q' \<and> holds q' (ps @ [p])"
    and get_first: "holds q (p # ps) \<Longrightarrow> \<exists>q'. get q = Some (p, q') \<and> holds q' ps"
    and get_none: "holds q [] \<Longrightarrow> get q = None"

text \<open>
  A run of a channel: puts and gets in any order, with the packets sent and received so far.
\<close>

inductive chan_run ::
    "('q \<Rightarrow> 'p \<Rightarrow> 'q option) \<Rightarrow> ('q \<Rightarrow> ('p \<times> 'q) option) \<Rightarrow> ('q \<Rightarrow> 'p \<Rightarrow> bool) \<Rightarrow> 'q \<Rightarrow>
     'p list \<Rightarrow> 'p list \<Rightarrow> 'q \<Rightarrow> bool"
  for put get room q0 where
  chan_start: "chan_run put get room q0 [] [] q0"
| chan_send: "chan_run put get room q0 sent recd q \<Longrightarrow> room q p \<Longrightarrow> put q p = Some q' \<Longrightarrow>
    chan_run put get room q0 (sent @ [p]) recd q'"
| chan_recv: "chan_run put get room q0 sent recd q \<Longrightarrow> get q = Some (p, q') \<Longrightarrow>
    chan_run put get room q0 sent (recd @ [p]) q'"

context packet_channel
begin

lemma fifo:
  assumes "chan_run put get room q0 sent recd q" "holds q0 ps0"
  shows "\<exists>ps. holds q ps \<and> ps0 @ sent = recd @ ps"
  using assms
proof (induction rule: chan_run.induct)
  case chan_start then show ?case by auto
next
  case (chan_send sent recd q p q')
  then obtain ps where ps: "holds q ps" "ps0 @ sent = recd @ ps" by blast
  then have "holds q' (ps @ [p])"
    using put_appends[of q ps p] chan_send.hyps by auto
  moreover have "ps0 @ (sent @ [p]) = recd @ (ps @ [p])" using ps(2) by (metis append.assoc)
  ultimately show ?case by blast
next
  case (chan_recv sent recd q p q')
  then obtain ps where ps: "holds q ps" "ps0 @ sent = recd @ ps" by blast
  with chan_recv.hyps get_none obtain p' ps' where "ps = p' # ps'" by (cases ps) auto
  then have "p' = p" "holds q' ps'"
    using get_first[of q p' ps'] ps(1) chan_recv.hyps by auto
  then show ?case using ps(2) \<open>ps = p' # ps'\<close> by auto
qed

lemma drains:
  assumes "holds q ps"
  shows "\<exists>q'. chan_run put get room q [] ps q' \<and> get q' = None"
proof -
  have "\<exists>q'. chan_run put get room q [] (recd @ ps) q' \<and> get q' = None"
    if "chan_run put get room q [] recd q1" "holds q1 ps" for recd q1
    using that
  proof (induction ps arbitrary: recd q1)
    case Nil then show ?case using get_none by auto
  next
    case (Cons p ps)
    obtain q2 where "get q1 = Some (p, q2)" "holds q2 ps" using get_first[OF Cons.prems(2)] by blast
    then show ?case using Cons.IH[of "recd @ [p]" q2] chan_recv[OF Cons.prems(1)] by auto
  qed
  from this[OF chan_start assms] show ?thesis by simp
qed

end

definition bytes_of :: "u8 list \<Rightarrow> bytes" where
  "bytes_of p = (\<lambda>i. if i < length p then p ! i else 0)"

definition ring_put :: "hfi_ring \<Rightarrow> u8 list \<Rightarrow> hfi_ring option" where
  "ring_put q p = (case iris_hfi_queue_write q (bytes_of p) (word_of_nat (length p)) of
     (ret, q') \<Rightarrow> if ret = 0 then Some q' else None)"

definition ring_get :: "hfi_ring \<Rightarrow> (u8 list \<times> hfi_ring) option" where
  "ring_get q = (case iris_hfi_queue_read q (\<lambda>_. 0) of
     (ret, q', b) \<Rightarrow> if ret = 0 then Some (map b [0..<unat (load_u32 b 0)], q') else None)"

definition ring_holds :: "hfi_ring \<Rightarrow> u8 list list \<Rightarrow> bool" where
  "ring_holds q ps \<longleftrightarrow> ring_ok q \<and> ring_pending q = concat ps \<and> list_all hfi_frame ps"

text \<open>Room excludes the packet that would fill the ring to the last byte.\<close>

definition ring_room :: "hfi_ring \<Rightarrow> u8 list \<Rightarrow> bool" where
  "ring_room q p \<longleftrightarrow> hfi_frame p \<and> length p < ring_size - ring_fill q"

lemma map_bytes_of: "map (bytes_of p) [0..<length p] = p"
  by (rule nth_equalityI) (auto simp: bytes_of_def)

interpretation ring: packet_channel ring_put ring_get ring_holds ring_room
proof unfold_locales
  fix q ps p
  assume h: "ring_holds q ps" "ring_room q p"
  have "unat (word_of_nat (length p) :: u32) = length p"
    using h(2) by (simp add: ring_room_def hfi_frame_def unat_of_nat)
  then show "\<exists>q'. ring_put q p = Some q' \<and> ring_holds q' (ps @ [p])"
    using write_appends[of q "word_of_nat (length p)" "bytes_of p"] h
    by (auto simp: ring_holds_def ring_room_def ring_put_def hfi_frame_def map_bytes_of)
next
  fix q p ps
  assume h: "ring_holds q (p # ps)"
  then obtain q' where q': "iris_hfi_queue_read q (\<lambda>_. 0) = (0, q', bytes_of p)" "ring_ok q'"
    "ring_pending q' = concat ps"
    using read_frame[of q p "concat ps" "\<lambda>_. 0"]
    by (auto simp: ring_holds_def bytes_of_def)
  have f: "hfi_frame p" using h by (simp add: ring_holds_def)
  then have "load_u32 (bytes_of p) 0 = load_u32 (nth p) 0"
    by (intro load_u32_cong) (simp add: hfi_frame_def bytes_of_def)
  with f have "unat (load_u32 (bytes_of p) 0) = length p"
    by (simp add: hfi_frame_def)
  then show "\<exists>q'. ring_get q = Some (p, q') \<and> ring_holds q' ps"
    using q' h by (auto simp: ring_get_def ring_holds_def map_bytes_of)
next
  fix q
  assume "ring_holds q []"
  then show "ring_get q = None"
    using read_empty[of q "\<lambda>_. 0"] by (auto simp: ring_holds_def ring_get_def)
qed

section \<open>Properties\<close>

definition empty_ring :: hfi_ring where
  "empty_ring = \<lparr>qhdr = zero_queue_header, qmem = (\<lambda>_. 0)\<rparr>"

lemma empty_ring_simps [simp]:
  "rd_off empty_ring = 0" "wr_off empty_ring = 0" "ring_ok empty_ring" "ring_fill empty_ring = 0"
  "ring_pending empty_ring = []" "ring_holds empty_ring []"
  by (simp_all add: empty_ring_def zero_queue_header_def rd_off_def wr_off_def ring_ok_def
      ring_fill_def ring_pending_def ring_holds_def)

definition tiny_frame :: "u8 list" where "tiny_frame = [4, 0, 0, 0]"

lemma tiny_frame_room: "ring_room empty_ring tiny_frame"
proof -
  have "length tiny_frame = 4" by (simp add: tiny_frame_def)
  then show ?thesis
    by (simp add: ring_room_def hfi_frame_def) (simp add: tiny_frame_def load_u32_def)
qed

text \<open>
  C1. First in, first out. Whatever order packets are written to and read from a queue in,
  and wherever the ring wraps, the packets already queued followed by those sent are exactly
  the packets received followed by those still in the ring: none is lost, duplicated,
  reordered or changed, as long as no packet is written that fills the ring completely.
\<close>

theorem queue_fifo:
  assumes "ring_holds q0 ps0" "chan_run ring_put ring_get ring_room q0 sent recd q"
  shows "\<exists>ps. ring_holds q ps \<and> ps0 @ sent = recd @ ps"
  using ring.fifo[OF assms(2,1)] .

lemma queue_fifo_witness:
  "\<exists>q ps. chan_run ring_put ring_get ring_room empty_ring [tiny_frame] [] q \<and>
     ring_holds q ps \<and> [] @ [tiny_frame] = [] @ ps"
proof -
  obtain q where "ring_put empty_ring tiny_frame = Some q"
    using ring.put_appends[of empty_ring "[]" tiny_frame] tiny_frame_room by auto
  then have q: "chan_run ring_put ring_get ring_room empty_ring [tiny_frame] [] q"
    using chan_send[of ring_put ring_get ring_room empty_ring "[]"] chan_start tiny_frame_room
    by fastforce
  then show ?thesis using queue_fifo[of empty_ring "[]" "[tiny_frame]" "[]" q] by auto
qed

text \<open>
  C2. A packet is published atomically: as long as the store to \<open>write_idx\<close> has not been
  issued, every prefix of the stores of a queue write leaves the firmware's view of the
  queue, the pending bytes, exactly as it was.
\<close>

theorem queue_publish_atomic:
  assumes ok: "ring_ok q" and w: "iris_hfi_queue_write_stores q p n = (0, sts)"
    and k: "\<not> list_ex publish (take k sts)"
  shows "ring_pending (fold apply_store (take k sts) q) = ring_pending q"
proof -
  have n: "unat n \<le> ring_size - ring_fill q"
    using write_no_space[OF ok, of n p] w by (cases "unat n \<le> ring_size - ring_fill q") auto
  let ?d = "data_stores q p (unat n)"
  have sts: "sts = ?d @ [St_write_idx (word_of_nat ((wr_off q + unat n) mod ring_size div 4)), St_mb]"
    using write_stores_split[OF ok n, of p] w by simp
  have "take k sts = take k ?d"
    using k unfolding sts by (cases "k \<le> length ?d") (auto simp: publish_def take_Cons split: nat.splits)
  moreover have "list_all (hidden_store q) (take k ?d)"
    using data_stores_hidden[OF ok n, of p] by (auto simp: list_all_iff dest: in_set_takeD)
  ultimately show ?thesis
    using hidden_stores_keep[OF ok] by simp
qed

lemma queue_publish_atomic_witness:
  "\<exists>sts. iris_hfi_queue_write_stores empty_ring (bytes_of tiny_frame) 4 = (0, sts) \<and>
     ring_pending (fold apply_store (take 3 sts) empty_ring) = []"
proof -
  have s: "iris_hfi_queue_write_stores empty_ring (bytes_of tiny_frame) 4 =
    (0, data_stores empty_ring (bytes_of tiny_frame) 4 @ [St_write_idx 1, St_mb])"
    by (subst write_stores_split) simp_all
  show ?thesis
    using queue_publish_atomic[OF _ s, of 3] s by (simp add: data_stores_def publish_def)
qed

text \<open>
  C3. Whatever the shared header holds, even indices the firmware has corrupted, a write of
  a packet no larger than the queue copies only from the packet and only into the ring.
\<close>

theorem queue_write_bounds:
  assumes "unat n \<le> ring_size"
    and w: "iris_hfi_queue_write_stores q p n = (ret, sts)"
  shows "list_all (copy_in_ring (unat n)) sts"
proof -
  let ?wr = "write_idx (qhdr q) * 4"
  have up: "unat (?wr + n) = unat ?wr + unat n" if "unat ?wr \<le> ring_size"
    using that assms(1) by (simp only: unat_word_ariths) simp
  have res: "unat (?wr + n - IFACEQ_QUEUE_SIZE) = unat ?wr + unat n - ring_size"
    "unat (n - (?wr + n - IFACEQ_QUEUE_SIZE)) = ring_size - unat ?wr"
    if "unat ?wr \<le> ring_size" "ring_size \<le> unat ?wr + unat n"
  proof -
    show "unat (?wr + n - IFACEQ_QUEUE_SIZE) = unat ?wr + unat n - ring_size"
      using up that by (simp add: unat_sub_if_size word_size unat_QUEUE_SIZE)
    have "n - (?wr + n - IFACEQ_QUEUE_SIZE) = IFACEQ_QUEUE_SIZE - ?wr" by simp
    then show "unat (n - (?wr + n - IFACEQ_QUEUE_SIZE)) = ring_size - unat ?wr"
      using that by (simp add: unat_sub_if_size word_size unat_QUEUE_SIZE)
  qed
  show ?thesis
  proof (cases "unat ?wr \<le> ring_size")
    case True
    then show ?thesis
      using w up res assms(1)
      by (auto simp: iris_hfi_queue_write_stores_def Let_def word_less_nat_alt unat_QUEUE_SIZE
          split: if_splits simp del: diff_add_eq_diff_diff_swap add_diff_eq diff_diff_eq2)
  next
    case False
    then show ?thesis
      using w by (auto simp: iris_hfi_queue_write_stores_def Let_def word_less_nat_alt
          unat_QUEUE_SIZE split: if_splits)
  qed
qed

lemma queue_write_bounds_witness:
  "list_all (copy_in_ring 4)
     (snd (iris_hfi_queue_write_stores empty_ring (bytes_of tiny_frame) 4))"
  using queue_write_bounds[OF _ prod.collapse[symmetric], of 4 empty_ring "bytes_of tiny_frame"]
  by simp

text \<open>
  C4. Whatever the firmware left in the shared header and memory, a read changes only the
  first 4096 bytes of the caller's packet buffer, the size it is allocated with, and depends
  only on the memory of the ring itself: it never reads past it.
\<close>

theorem queue_read_memory_safe:
  assumes "iris_hfi_queue_read q b = (ret, q', b')"
  shows "(\<forall>i. b' i \<noteq> b i \<longrightarrow> i < 4096) \<and> qmem q' = qmem q \<and>
    (\<forall>m. (\<forall>i<ring_size. qmem q i = m i) \<longrightarrow>
      iris_hfi_queue_read (q\<lparr>qmem := m\<rparr>) b = (ret, q'\<lparr>qmem := m\<rparr>, b'))"
  using read_buffer_bounds[OF assms] read_confined[OF _ assms] read_keeps_mem[OF assms]
  by (meson not_le)

lemma queue_read_memory_safe_witness:
  "iris_hfi_queue_read (empty_ring\<lparr>qmem := (\<lambda>i. if i < ring_size then 0 else 7)\<rparr>) (\<lambda>_. 0) =
     (- ENODATA, empty_ring\<lparr>qhdr := (qhdr empty_ring)\<lparr>rx_req := 0\<rparr>,
                             qmem := (\<lambda>i. if i < ring_size then 0 else 7)\<rparr>, \<lambda>_. 0)"
proof -
  have r: "iris_hfi_queue_read empty_ring (\<lambda>_. 0) =
      (- ENODATA, empty_ring\<lparr>qhdr := (qhdr empty_ring)\<lparr>rx_req := 0\<rparr>\<rparr>, \<lambda>_. 0)"
    by (simp add: iris_hfi_queue_read_def empty_ring_def zero_queue_header_def Let_def)
  show ?thesis
    using queue_read_memory_safe[OF r] by (auto simp: empty_ring_def)
qed

text \<open>
  C5. The exception to first-in-first-out: a packet as long as the free space of the ring is accepted with
  success, and afterwards the queue looks empty, so the packet and everything that was
  pending is lost. The space check admits it because it compares with \<open>>=\<close> although equal
  indices mean empty.
\<close>

theorem queue_exact_fill_loses:
  assumes ok: "ring_ok q" and n: "unat n = ring_size - ring_fill q" "4 dvd unat n"
  shows "\<exists>q'. iris_hfi_queue_write q p n = (0, q') \<and> ring_pending q' = []"
proof -
  have le: "unat n \<le> ring_size - ring_fill q" using n(1) by simp
  obtain q' where q': "iris_hfi_queue_write q p n = (0, q')"
    "rd_off q' = rd_off q" "wr_off q' = (wr_off q + unat n) mod ring_size"
    using write_accepted[OF ok le n(2)] by metis
  have "wr_off q' = rd_off q"
    using ok n(1) q'(3) by (auto simp: ring_ok_def ring_fill_def mod_if split: if_splits)
  then have "ring_fill q' = 0" using q'(2) by (simp add: ring_fill_def)
  then show ?thesis using q'(1) by (simp add: ring_pending_def)
qed

lemma queue_exact_fill_loses_witness:
  "\<exists>q'. iris_hfi_queue_write empty_ring (\<lambda>_. 1) 819200 = (0, q') \<and> ring_pending q' = []"
  by (rule queue_exact_fill_loses) simp_all

end
