(* ===== verification/IrisDevice.thy ===== *)
theory IrisDevice
  imports IrisQueue
begin

text \<open>
  The core device (\<open>struct iris_core\<close>, \<open>iris_core.h\<close>) and its calls into the kernel. The
  clock, power-domain, interconnect, reset, firmware and register interfaces are not part of
  this code base, so every such call is recorded in a log and takes its result from an
  environment \<open>env\<close>: the result of the \<open>n\<close>-th call of the log is \<open>env n\<close>, any integer.
  A statement that holds for every \<open>env\<close> holds for every behaviour of the kernel, and what a
  routine did to a clock or a power domain is read off the log: \<open>balance\<close> counts the
  successful enables less the disables. Registers are read and written through the same log.
\<close>

section \<open>The calls\<close>

datatype pm_device = Core_dev | Pd_dev platform_pm_domain_type

text \<open>The calls of opening and closing a file, with the fences a client attaches to its surfaces.\<close>

datatype file_call =
    Free_instance nat
  | Fence_context_alloc int
  | Fh_init
  | Fh_deinit
  | M2m_init int
  | M2m_release
  | M2m_ctx_init int
  | M2m_ctx_release
  | Ctrl_handler_free
  | M2m_job_finish
  | Dma_buf_get int int
  | Dma_buf_put int
  | Fence_init u64
  | Fence_signal u64
  | Fence_put u64
  | Resv_lock int
  | Resv_reserve int
  | Resv_add_fence u64
  | Resv_unlock

datatype kcall =
    Clk_prepare_enable nat int
  | Clk_disable_unprepare nat
  | Pm_get_sync pm_device int
  | Pm_resume_and_get pm_device int
  | Pm_put_sync pm_device
  | Pm_put_autosuspend pm_device
  | Opp_set_rate u64 int
  | Opp_find_freq_ceil int
  | Icc_bulk_set_bw "u64 list" int
  | Genpd_set_hwmode bool int
  | Reset_assert nat int
  | Reset_deassert nat int
  | Reset_bulk nat int
  | Writel u32 u32
  | Readl u32 int
  | Poll u32 int
  | Enable_irq
  | Disable_irq
  | Dma_alloc u32 int
  | Dma_handle int
  | Dma_free u32 u64
  | Llcc_put
  | Firmware_path int
  | Of_parse_phandle int
  | Of_node_put
  | Of_reserved_mem_lookup int
  | Reserved_mem_size int
  | Request_firmware int
  | Release_firmware
  | Mdt_get_size int
  | Memremap int
  | Memunmap
  | Mdt_load int
  | Pas_auth_and_reset int
  | Mem_protect int
  | Pas_shutdown int
  | Set_remote_state bool int
  | Wait_completion int
  | Hfi_sys_init int
  | Hfi_sys_image_version int
  | Hfi_sys_interframe_powercollapse int
  | Hfi_sys_pc_prep int
  | Queue_pc_work
  | Cancel_pc_work
  | Response_thread int
  | Mark_last_busy
  | Pm_suspended int
  | Kzalloc int
  | Llcc_getd u32 int
  | Llcc_activate u32 int
  | Llcc_deactivate u32
  | Llcc_putd u32
  | Llcc_read u32 int
  | Reinit_completion bool
  | Wait_session bool int
  | Complete bool
  | Buf_done u32 u32 int
  | V4l2_event u32
  | Vb2_num_buffers u32 int
  | Ktime int
  | Vb2_payload u32 u32 u64
  | Vb2_timestamp u32 u32 u64
  | Vb2_flags u32 u32 u32
  | Vb2_sequence u32 u32 u32
  | Vb2_field u32 u32 u32
  | Vb2_timecode u32 u32 u64
  | Vb2_queue_error u32
  | Vb2_clear_last
  | Vb2_min_reqbufs u32
  | Vb2_non_coherent
  | Ctrl_min_buffers u32
  | M2m_has_stopped int
  | M2m_mark_stopped
  | Cancel_error_work
  | Queue_error_work
  | Complete_core_init
  | File file_call
  | Oops

section \<open>The core\<close>

datatype iris_core_state = IRIS_CORE_DEINIT | IRIS_CORE_INIT | IRIS_CORE_ERROR

text \<open>\<open>struct iris_iface_q_info\<close>; the ring is \<open>None\<close> while \<open>qhdr\<close> is NULL.\<close>

record iris_iface_q_info =
  q_ring :: "hfi_ring option"
  qhdr_offset :: u32
  q_device_addr :: u64
  q_kernel_vaddr :: u64

text \<open>The fields of the queue table header that both layouts have.\<close>

record iris_hfi_queue_table_header =
  tbl_version :: u32
  tbl_size :: u32
  qhdr0_offset :: u32
  qhdr_size :: u32
  num_q :: u32
  num_active_q :: u32

record iris_core_power =
  clk_freq :: u64
  power_icc_bw :: u64

record iris_core =
  env :: "nat \<Rightarrow> int"
  klog :: "kcall list"
  platform :: iris_platform_data
  clock_names :: "string list"
  icc_avg_bw :: "u64 list"
  power :: iris_core_power
  core_state :: iris_core_state
  iface_q_table_vaddr :: u64
  iface_q_table_daddr :: u64
  sfr_vaddr :: u64
  sfr_daddr :: u64
  table_header :: iris_hfi_queue_table_header
  sfr_word :: u32
  command_queue :: iris_iface_q_info
  message_queue :: iris_iface_q_info
  debug_queue :: iris_iface_q_info
  core_intr_status :: u32
  llcc_active :: bool
  syscache_set :: bool
  recovery_pending :: bool
  core_fw_caps_dec :: "nat \<Rightarrow> platform_inst_fw_cap"
  core_fw_caps_enc :: "nat \<Rightarrow> platform_inst_fw_cap"
  power_collapse :: bool
  vpu_suspended :: bool
  vpu_powered :: bool
  instances :: "nat list"
  header_id :: u32
  packet_id :: u32

text \<open>
  The core as \<open>iris_probe()\<close> leaves it: zeroed memory, the platform's tables, the
  interconnect votes of \<open>iris_init_icc()\<close>, and the clocks the device tree names.
  \<open>power_collapse\<close> is the module parameter of \<open>iris_hfi_common.c\<close>, on by default.
\<close>

definition zero_iface_q_info :: iris_iface_q_info where
  "zero_iface_q_info = \<lparr>q_ring = None, qhdr_offset = 0, q_device_addr = 0, q_kernel_vaddr = 0\<rparr>"

definition iris_init_icc :: "iris_platform_data \<Rightarrow> u64 list" where
  "iris_init_icc pd = List.map bw_min_kbps (icc_info_tbl pd)"

text \<open>\<open>iris_session_init_caps()\<close> (\<open>iris_ctrls.c\<close>): the entries of a table at their places.\<close>

definition iris_valid_cap_id :: "nat \<Rightarrow> bool" where
  "iris_valid_cap_id c \<longleftrightarrow> 1 \<le> c \<and> c < INST_FW_CAP_MAX"

definition session_caps :: "platform_inst_fw_cap list \<Rightarrow> nat \<Rightarrow> platform_inst_fw_cap" where
  "session_caps caps = fold (\<lambda>c m. if iris_valid_cap_id (cap_id c) then m(cap_id c := c) else m) caps
     (\<lambda>_. zero_cap)"

definition probed_core :: "iris_platform_data \<Rightarrow> string list \<Rightarrow> (nat \<Rightarrow> int) \<Rightarrow> iris_core" where
  "probed_core pd clks e =
     \<lparr>env = e, klog = [], platform = pd, clock_names = clks, icc_avg_bw = iris_init_icc pd,
      power = \<lparr>clk_freq = 0, power_icc_bw = 0\<rparr>, core_state = IRIS_CORE_DEINIT,
      iface_q_table_vaddr = 0, iface_q_table_daddr = 0, sfr_vaddr = 0, sfr_daddr = 0,
      table_header = \<lparr>tbl_version = 0, tbl_size = 0, qhdr0_offset = 0, qhdr_size = 0, num_q = 0,
                      num_active_q = 0\<rparr>,
      sfr_word = 0, command_queue = zero_iface_q_info, message_queue = zero_iface_q_info,
      debug_queue = zero_iface_q_info, core_intr_status = 0, llcc_active = False,
      syscache_set = False, recovery_pending = False,
      core_fw_caps_dec = session_caps (inst_fw_caps_dec pd),
      core_fw_caps_enc = session_caps (inst_fw_caps_enc pd), power_collapse = True, vpu_suspended = False,
      vpu_powered = False, instances = [], header_id = 0, packet_id = 0\<rparr>"

section \<open>Making a call\<close>

text \<open>
  \<open>ask k\<close> makes a call whose result the caller looks at, \<open>tell k\<close> one that returns nothing.
\<close>

definition ask :: "(int \<Rightarrow> kcall) \<Rightarrow> 'a iris_core_scheme \<Rightarrow> int \<times> 'a iris_core_scheme" where
  "ask k s = (let r = env s (length (klog s)) in (r, s\<lparr>klog := klog s @ [k r]\<rparr>))"

definition tell :: "kcall \<Rightarrow> 'a iris_core_scheme \<Rightarrow> 'a iris_core_scheme" where
  "tell k s = s\<lparr>klog := klog s @ [k]\<rparr>"

definition writel :: "u32 \<Rightarrow> u32 \<Rightarrow> 'a iris_core_scheme \<Rightarrow> 'a iris_core_scheme" where
  "writel v reg = tell (Writel reg v)"

definition readl :: "u32 \<Rightarrow> 'a iris_core_scheme \<Rightarrow> u32 \<times> 'a iris_core_scheme" where
  "readl reg s = (case ask (Readl reg) s of (r, s') \<Rightarrow> (word_of_int r, s'))"

text \<open>\<open>pm_runtime_resume_and_get()\<close> returns 0 or a negative error.\<close>

definition pm_runtime_resume_and_get ::
    "pm_device \<Rightarrow> 'a iris_core_scheme \<Rightarrow> int \<times> 'a iris_core_scheme" where
  "pm_runtime_resume_and_get d s =
     (case ask (Pm_resume_and_get d) s of (r, s') \<Rightarrow> (min r 0, s'))"

section \<open>Reading the log\<close>

text \<open>
  The weight of a call for a clock, for a power domain and for the interrupt line: what it
  adds to the number of times it is enabled. \<open>pm_runtime_get_sync()\<close> takes its reference
  even when it fails; \<open>pm_runtime_resume_and_get()\<close> does not.
\<close>

fun clk_weight :: "nat \<Rightarrow> kcall \<Rightarrow> int" where
  "clk_weight c (Clk_prepare_enable d r) = (if c = d \<and> r = 0 then 1 else 0)"
| "clk_weight c (Clk_disable_unprepare d) = (if c = d then - 1 else 0)"
| "clk_weight c _ = 0"

fun pm_weight :: "pm_device \<Rightarrow> kcall \<Rightarrow> int" where
  "pm_weight d (Pm_get_sync e r) = (if d = e then 1 else 0)"
| "pm_weight d (Pm_resume_and_get e r) = (if d = e \<and> 0 \<le> r then 1 else 0)"
| "pm_weight d (Pm_put_sync e) = (if d = e then - 1 else 0)"
| "pm_weight d (Pm_put_autosuspend e) = (if d = e then - 1 else 0)"
| "pm_weight d _ = 0"

fun irq_weight :: "kcall \<Rightarrow> int" where
  "irq_weight Enable_irq = 1"
| "irq_weight Disable_irq = - 1"
| "irq_weight _ = 0"

text \<open>The bytes of DMA memory allocated at an address and not freed.\<close>

fun dma_weight :: "u64 \<Rightarrow> kcall \<Rightarrow> int" where
  "dma_weight a (Dma_alloc n r) = (if a \<noteq> 0 \<and> word_of_int r = a then int (unat n) else 0)"
| "dma_weight a (Dma_free n b) = (if a = b then - int (unat n) else 0)"
| "dma_weight a _ = 0"

definition balance :: "(kcall \<Rightarrow> int) \<Rightarrow> 'a iris_core_scheme \<Rightarrow> int" where
  "balance w s = sum_list (List.map w (klog s))"

named_theorems kernel_simps \<open>symbolic execution of the calls into the kernel\<close>

lemma balance_tell [kernel_simps]: "balance w (tell k s) = balance w s + w k"
  by (simp add: balance_def tell_def)

lemma balance_ask [kernel_simps]: "balance w (snd (ask k s)) = balance w s + w (k (fst (ask k s)))"
  by (simp add: balance_def ask_def Let_def)

text \<open>Two states with the same log and tables are the same to the lemmas on balances.\<close>

lemma balance_cong: "klog s = klog t \<Longrightarrow> balance w s = balance w t"
  by (simp add: balance_def)

end
