(* ===== verification/IrisTypes.thy ===== *)
theory IrisTypes
  imports IrisDevice
begin

text \<open>
  The per-session data (\<open>iris_instance.h\<close>, \<open>iris_buffer.h\<close>, \<open>iris_utils.h\<close>): the instance
  record, driver buffers, formats and rectangles, and the V4L2 and HFI numbers the code
  compares with. An instance does not hold a pointer to its core; operations that follow
  \<open>inst->core\<close> take what they use of it as an argument.
\<close>

section \<open>V4L2 numbers\<close>

text \<open>\<open>v4l2_fourcc(a, b, c, d)\<close> of the four characters.\<close>

definition v4l2_fourcc :: "u32 \<Rightarrow> u32 \<Rightarrow> u32 \<Rightarrow> u32 \<Rightarrow> u32" where
  "v4l2_fourcc a b c d = a OR push_bit 8 b OR push_bit 16 c OR push_bit 24 d"

definition V4L2_PIX_FMT_H264 :: u32 where "V4L2_PIX_FMT_H264 = v4l2_fourcc 0x48 0x32 0x36 0x34"
definition V4L2_PIX_FMT_HEVC :: u32 where "V4L2_PIX_FMT_HEVC = v4l2_fourcc 0x48 0x45 0x56 0x43"
definition V4L2_PIX_FMT_VP9 :: u32 where "V4L2_PIX_FMT_VP9 = v4l2_fourcc 0x56 0x50 0x39 0x30"
definition V4L2_PIX_FMT_NV12 :: u32 where "V4L2_PIX_FMT_NV12 = v4l2_fourcc 0x4E 0x56 0x31 0x32"
definition V4L2_PIX_FMT_P010 :: u32 where "V4L2_PIX_FMT_P010 = v4l2_fourcc 0x50 0x30 0x31 0x30"
definition V4L2_PIX_FMT_QC08C :: u32 where "V4L2_PIX_FMT_QC08C = v4l2_fourcc 0x51 0x30 0x38 0x43"

lemmas fourcc_defs = V4L2_PIX_FMT_H264_def V4L2_PIX_FMT_HEVC_def V4L2_PIX_FMT_VP9_def
  V4L2_PIX_FMT_NV12_def V4L2_PIX_FMT_P010_def V4L2_PIX_FMT_QC08C_def v4l2_fourcc_def

text \<open>The number of buffers a queue can have, of \<open>videodev2.h\<close>.\<close>

abbreviation (input) VIDEO_MAX_FRAME :: u32 where "VIDEO_MAX_FRAME \<equiv> 32"

abbreviation (input) OUTPUT_MPLANE :: u32 where "OUTPUT_MPLANE \<equiv> 10"
abbreviation (input) CAPTURE_MPLANE :: u32 where "CAPTURE_MPLANE \<equiv> 9"

definition V4L2_TYPE_IS_OUTPUT :: "u32 \<Rightarrow> bool" where
  "V4L2_TYPE_IS_OUTPUT p \<longleftrightarrow> p \<in> {2, 3, 5, 7, 8, 10, 12, 14}"

definition V4L2_TYPE_IS_CAPTURE :: "u32 \<Rightarrow> bool" where
  "V4L2_TYPE_IS_CAPTURE p \<longleftrightarrow> \<not> V4L2_TYPE_IS_OUTPUT p"

section \<open>Formats, rectangles and buffers\<close>

record v4l2_pix_mp =
  pix_width :: u32
  pix_height :: u32
  pixelformat :: u32
  pix_field :: u32
  colorspace :: u32
  xfer_func :: u32
  ycbcr_enc :: u32
  quantization :: u32
  num_planes :: u32
  bytesperline :: u32
  sizeimage :: u32

record iris_hfi_rect_desc =
  rect_left :: u32
  rect_top :: u32
  rect_width :: u32
  rect_height :: u32

record iris_ts_metadata =
  ts_ns :: u64
  ts_us :: u64
  ts_flags :: u32
  ts_tc :: u64

definition BUF_ATTR_DEFERRED :: u32 where "BUF_ATTR_DEFERRED = BIT 0"
definition BUF_ATTR_PENDING_RELEASE :: u32 where "BUF_ATTR_PENDING_RELEASE = BIT 1"
definition BUF_ATTR_QUEUED :: u32 where "BUF_ATTR_QUEUED = BIT 2"
definition BUF_ATTR_DEQUEUED :: u32 where "BUF_ATTR_DEQUEUED = BIT 3"
definition BUF_ATTR_BUFFER_DONE :: u32 where "BUF_ATTR_BUFFER_DONE = BIT 4"

record iris_buffer =
  buf_type :: iris_buffer_type
  buf_index :: u32
  buf_fd :: int
  buffer_size :: u64
  data_offset :: u32
  data_size :: u64
  device_addr :: u64
  kvaddr :: u64
  buf_flags :: u32
  buf_timestamp :: u64
  buf_attr :: u32
  vb_flags :: u32
  vb_timecode :: u64
  buf_crop :: iris_hfi_rect_desc

text \<open>\<open>struct iris_buffers\<close>: the internal buffers of a type.\<close>

record iris_buffers =
  buf_list :: "iris_buffer list"
  min_count :: u32
  buf_size :: u32

text \<open>\<open>struct iris_surface_fence\<close>: the token the client signals it by, and its number in the context.\<close>

record iris_surface_fence =
  fence_token :: u64
  fence_seqno :: u64

text \<open>
  What \<open>struct iris_inst_hfi_gen2\<close> adds to an instance: whether its packet buffer is there, what
  was announced to the firmware, the frame a response is about, and the parameters of the stream.
\<close>

record iris_hfi_frame_info =
  picture_type :: u32
  no_output :: u32
  data_corrupt :: u32
  overflow :: u32

record hfi_subscription_params =
  bitstream_resolution :: u32
  crop_offset_start :: u32
  crop_offset_end :: u32
  sub_bit_depth :: u32
  sub_coded_frames :: u32
  sub_min_count :: u32
  pic_order_cnt :: u32
  color_info :: u32
  sub_profile :: u32
  sub_level :: u32
  sub_tier :: u32

record iris_inst_hfi_gen2 =
  gen2_packet :: bool
  ipsc_properties_set :: bool
  opsc_properties_set :: bool
  hfi_frame_info :: iris_hfi_frame_info
  src_subcr_params :: hfi_subscription_params
  dst_subcr_params :: hfi_subscription_params

definition zero_subcr :: hfi_subscription_params where
  "zero_subcr = \<lparr>bitstream_resolution = 0, crop_offset_start = 0, crop_offset_end = 0, sub_bit_depth = 0,
     sub_coded_frames = 0, sub_min_count = 0, pic_order_cnt = 0, color_info = 0, sub_profile = 0,
     sub_level = 0, sub_tier = 0\<rparr>"

definition zero_frame_info :: iris_hfi_frame_info where
  "zero_frame_info = \<lparr>picture_type = 0, no_output = 0, data_corrupt = 0, overflow = 0\<rparr>"

definition zero_gen2 :: iris_inst_hfi_gen2 where
  "zero_gen2 = \<lparr>gen2_packet = False, ipsc_properties_set = False, opsc_properties_set = False,
     hfi_frame_info = zero_frame_info, src_subcr_params = zero_subcr, dst_subcr_params = zero_subcr\<rparr>"

section \<open>The instance\<close>

datatype iris_inst_state =
    IRIS_INST_DEINIT | IRIS_INST_INIT | IRIS_INST_INPUT_STREAMING | IRIS_INST_OUTPUT_STREAMING
  | IRIS_INST_STREAMING | IRIS_INST_ERROR

record iris_inst =
  session_id :: u32
  fmt_src :: v4l2_pix_mp
  fmt_dst :: v4l2_pix_mp
  domain :: domain_type
  crop :: iris_hfi_rect_desc
  compose :: iris_hfi_rect_desc
  dqbuf_crop :: iris_hfi_rect_desc
  dqbuf_crop_valid :: bool
  flush_responses_pending :: u32
  fw_caps :: "nat \<Rightarrow> platform_inst_fw_cap"
  buffers :: "iris_buffer_type \<Rightarrow> iris_buffers"
  fw_min_count :: u32
  inst_state :: iris_inst_state
  sub_state :: u32
  hfi_session_opened :: bool
  hfi_core_id :: u32
  core_load_reserved :: bool
  core_load_rejected :: bool
  admission_frame_rate :: u32
  max_input_data_size :: u64
  min_freq :: u64
  inst_icc_bw :: u32
  tss :: "iris_ts_metadata list"
  metadata_idx :: u32
  codec :: u32
  last_buffer_dequeued :: bool
  frame_rate :: u32
  operating_rate :: u32
  streamoff_pending :: bool
  hfi_rc_type :: u32
  src_streaming :: bool
  dst_streaming :: bool
  m2m_src :: "iris_buffer list"
  m2m_dst :: "iris_buffer list"
  src_busy :: bool
  dst_busy :: bool
  fw_buffer_sizes :: "iris_buffer_type \<Rightarrow> u32"
  capture_format_changed :: bool
  interlaced :: bool
  last_buf_ns :: u64
  rate_min_timestamp :: u64
  rate_max_timestamp :: u64
  frame_counter :: u32
  frame_rate_down_count :: u32
  last_input_timestamp :: u64
  input_timestamp_valid :: bool
  sequence_cap :: u32
  sequence_out :: u32
  corrupt_output_drops :: u32
  pending_output :: "iris_buffer option"
  display_delay :: u32
  display_delay_enable :: bool
  start_streaming_rollback_type :: u32
  vp9_iova_hole_vaddr :: u64
  vp9_iova_hole_daddr :: u64
  vp9_iova_hole_size :: u32
  surface_fences :: "iris_surface_fence list"
  surface_fence_context :: u64
  surface_fence_seqno :: u64
  gen2 :: iris_inst_hfi_gen2

text \<open>
  The fields with no counterpart in the structure: \<open>src_streaming\<close>, \<open>src_busy\<close> and \<open>m2m_src\<close> are
  what \<open>vb2_is_streaming()\<close>, \<open>vb2_is_busy()\<close> and the walks over the memory-to-memory context
  see of the OUTPUT queue, and likewise for the CAPTURE queue. \<open>zero_inst\<close> is the memory
  \<open>get_instance()\<close> returns; in the source-less types a zero is the first constructor.
\<close>

definition zero_pix :: v4l2_pix_mp where
  "zero_pix = \<lparr>pix_width = 0, pix_height = 0, pixelformat = 0, pix_field = 0, colorspace = 0,
     xfer_func = 0, ycbcr_enc = 0, quantization = 0, num_planes = 0, bytesperline = 0,
     sizeimage = 0\<rparr>"

definition zero_rect :: iris_hfi_rect_desc where
  "zero_rect = \<lparr>rect_left = 0, rect_top = 0, rect_width = 0, rect_height = 0\<rparr>"

definition zero_ts :: iris_ts_metadata where
  "zero_ts = \<lparr>ts_ns = 0, ts_us = 0, ts_flags = 0, ts_tc = 0\<rparr>"

definition zero_buffer :: iris_buffer where
  "zero_buffer = \<lparr>buf_type = BUF_INPUT, buf_index = 0, buf_fd = 0, buffer_size = 0, data_offset = 0,
     data_size = 0, device_addr = 0, kvaddr = 0, buf_flags = 0, buf_timestamp = 0, buf_attr = 0,
     vb_flags = 0, vb_timecode = 0, buf_crop = zero_rect\<rparr>"

definition zero_inst :: iris_inst where
  "zero_inst =
     \<lparr>session_id = 0, fmt_src = zero_pix, fmt_dst = zero_pix, domain = DECODER, crop = zero_rect,
      compose = zero_rect, dqbuf_crop = zero_rect, dqbuf_crop_valid = False, flush_responses_pending = 0, fw_caps = (\<lambda>_. zero_cap),
      buffers = (\<lambda>_. \<lparr>buf_list = [], min_count = 0, buf_size = 0\<rparr>),
      fw_min_count = 0, inst_state = IRIS_INST_DEINIT, sub_state = 0, hfi_session_opened = False,
      hfi_core_id = 0, core_load_reserved = False, core_load_rejected = False,
      admission_frame_rate = 0, max_input_data_size = 0, min_freq = 0, inst_icc_bw = 0,
      tss = replicate 32 zero_ts, metadata_idx = 0, codec = 0, last_buffer_dequeued = False,
      frame_rate = 0, operating_rate = 0, streamoff_pending = False, hfi_rc_type = 0,
      src_streaming = False, dst_streaming = False, m2m_src = [], m2m_dst = [], src_busy = False,
      dst_busy = False, fw_buffer_sizes = (\<lambda>_. 0), capture_format_changed = False,
      interlaced = False, last_buf_ns = 0, rate_min_timestamp = 0, rate_max_timestamp = 0,
      frame_counter = 0, frame_rate_down_count = 0, last_input_timestamp = 0,
      input_timestamp_valid = False, sequence_cap = 0, sequence_out = 0, corrupt_output_drops = 0,
      pending_output = None, display_delay = 0, display_delay_enable = False,
      start_streaming_rollback_type = 0, vp9_iova_hole_vaddr = 0, vp9_iova_hole_daddr = 0,
      vp9_iova_hole_size = 0, surface_fences = [], surface_fence_context = 0, surface_fence_seqno = 0,
      gen2 = zero_gen2\<rparr>"

section \<open>The sessions of a core\<close>

text \<open>
  The instances live in a heap; \<open>instances\<close> of the core is the list of the addresses the
  driver has on \<open>core->instances\<close>. An operation on a \<open>struct iris_inst *\<close> takes its address.
  A thread that waits for the firmware drops the lock of its instance, and the response
  handler may change the instance meanwhile: \<open>fw_effect n\<close> is what it does to the instance
  during the \<open>n\<close>-th call of the log, any function.
\<close>

record iris_sys = iris_core +
  inst_heap :: "nat \<Rightarrow> iris_inst"
  fw_effect :: "nat \<Rightarrow> iris_inst \<Rightarrow> iris_inst"

definition modify_inst :: "nat \<Rightarrow> (iris_inst \<Rightarrow> iris_inst) \<Rightarrow> iris_sys \<Rightarrow> iris_sys" where
  "modify_inst i f s = s\<lparr>inst_heap := (inst_heap s)(i := f (inst_heap s i))\<rparr>"

lemma modify_inst_simps [simp]:
  "inst_heap (modify_inst i f s) = (inst_heap s)(i := f (inst_heap s i))"
  "instances (modify_inst i f s) = instances s"
  "platform (modify_inst i f s) = platform s"
  "recovery_pending (modify_inst i f s) = recovery_pending s"
  "core_state (modify_inst i f s) = core_state s"
  "klog (modify_inst i f s) = klog s"
  "env (modify_inst i f s) = env s"
  "power (modify_inst i f s) = power s"
  "fw_effect (modify_inst i f s) = fw_effect s"
  by (simp_all add: modify_inst_def)

text \<open>The system after \<open>iris_probe()\<close>, with no session.\<close>

definition probed_sys ::
    "iris_platform_data \<Rightarrow> string list \<Rightarrow> (nat \<Rightarrow> int) \<Rightarrow> (nat \<Rightarrow> iris_inst \<Rightarrow> iris_inst) \<Rightarrow> iris_sys" where
  "probed_sys pd clks e eff =
     iris_core.extend (probed_core pd clks e) (iris_sys.fields (\<lambda>_. zero_inst) eff)"

lemmas probed_sys_defs = probed_sys_def probed_core_def iris_core.extend_def iris_sys.fields_def

text \<open>A call changes the log only.\<close>

lemma ask_simps [simp]:
  "power (snd (ask k s)) = power s" "instances (snd (ask k s)) = instances s"
  "platform (snd (ask k s)) = platform s" "icc_avg_bw (snd (ask k s)) = icc_avg_bw s"
  "inst_heap (snd (ask k t)) = inst_heap t"
  by (simp_all add: ask_def Let_def)

section \<open>HFI numbers\<close>

definition HFI_RATE_CONTROL_OFF :: u32 where "HFI_RATE_CONTROL_OFF = 0x1000001"
definition HFI_RATE_CONTROL_CQ :: u32 where "HFI_RATE_CONTROL_CQ = 0x1000008"
abbreviation (input) HFI_RC_CQ :: u32 where "HFI_RC_CQ \<equiv> 2"
abbreviation (input) HFI_RC_OFF :: u32 where "HFI_RC_OFF \<equiv> 3"
abbreviation (input) HFI_CODEC_ENCODE_AVC :: u32 where "HFI_CODEC_ENCODE_AVC \<equiv> 2"
abbreviation (input) HFI_CODEC_ENCODE_HEVC :: u32 where "HFI_CODEC_ENCODE_HEVC \<equiv> 4"

section \<open>Macroblocks\<close>

definition NUM_MBS_PER_FRAME :: "u32 \<Rightarrow> u32 \<Rightarrow> u32" where
  "NUM_MBS_PER_FRAME height width = DIV_ROUND_UP height 16 * DIV_ROUND_UP width 16"

definition iris_get_mbpf :: "iris_inst \<Rightarrow> u32" where
  "iris_get_mbpf inst =
     NUM_MBS_PER_FRAME (max (pix_height (fmt_src inst)) (rect_height (crop inst)))
                       (max (pix_width (fmt_src inst)) (rect_width (crop inst)))"

definition iris_split_mode_enabled :: "iris_inst \<Rightarrow> bool" where
  "iris_split_mode_enabled inst \<longleftrightarrow>
     pixelformat (fmt_dst inst) = V4L2_PIX_FMT_NV12 \<or> pixelformat (fmt_dst inst) = V4L2_PIX_FMT_P010"

definition iris_res_is_less_than :: "u32 \<Rightarrow> u32 \<Rightarrow> u32 \<Rightarrow> u32 \<Rightarrow> bool" where
  "iris_res_is_less_than width height ref_width ref_height \<longleftrightarrow>
     (let num_mbs = NUM_MBS_PER_FRAME height width;
          max_side = max ref_width ref_height
      in num_mbs < NUM_MBS_PER_FRAME ref_height ref_width \<and> width < max_side \<and> height < max_side)"

end
