(* ===== verification/IrisState.thy ===== *)
theory IrisState
  imports IrisTypes
begin

text \<open>
  The state machine of a session (\<open>iris_state.c\<close>, \<open>iris_state.h\<close>): the streaming state, its
  permitted changes, the sub-state flags of source change, drain and pause, and the decoder
  commands they admit. A change of state acts on the whole system because entering the error
  state asks for a recovery of the core; a change of the flags acts on the instance alone.
  The abstract machine of a session is the set of its streaming planes; the theorems show
  that the code's states are exactly those sets, with an absorbing error state.
\<close>

section \<open>Sub-state flags\<close>

definition IRIS_INST_SUB_FIRST_IPSC :: u32 where "IRIS_INST_SUB_FIRST_IPSC = BIT 0"
definition IRIS_INST_SUB_DRC :: u32 where "IRIS_INST_SUB_DRC = BIT 1"
definition IRIS_INST_SUB_DRC_LAST :: u32 where "IRIS_INST_SUB_DRC_LAST = BIT 2"
definition IRIS_INST_SUB_DRAIN :: u32 where "IRIS_INST_SUB_DRAIN = BIT 3"
definition IRIS_INST_SUB_DRAIN_LAST :: u32 where "IRIS_INST_SUB_DRAIN_LAST = BIT 4"
definition IRIS_INST_SUB_INPUT_PAUSE :: u32 where "IRIS_INST_SUB_INPUT_PAUSE = BIT 5"
definition IRIS_INST_SUB_OUTPUT_PAUSE :: u32 where "IRIS_INST_SUB_OUTPUT_PAUSE = BIT 6"
definition IRIS_INST_SUB_LOAD_RESOURCES :: u32 where "IRIS_INST_SUB_LOAD_RESOURCES = BIT 7"

definition IRIS_INST_MAX_SUB_STATE_VALUE :: u32 where
  "IRIS_INST_MAX_SUB_STATE_VALUE = push_bit 8 1 - 1"

lemmas sub_state_defs = IRIS_INST_SUB_FIRST_IPSC_def IRIS_INST_SUB_DRC_def
  IRIS_INST_SUB_DRC_LAST_def IRIS_INST_SUB_DRAIN_def IRIS_INST_SUB_DRAIN_LAST_def
  IRIS_INST_SUB_INPUT_PAUSE_def IRIS_INST_SUB_OUTPUT_PAUSE_def
  IRIS_INST_SUB_LOAD_RESOURCES_def IRIS_INST_MAX_SUB_STATE_VALUE_def BIT_def

text \<open>A flag test in the code is a test of one bit.\<close>

lemma has_BIT: "has w (BIT n) \<longleftrightarrow> bit w n" for w :: "'a::len word"
  by (simp add: has_def BIT_def bit_iff_and_push_bit_not_eq_0)

lemma has_sub_state [simp]:
  "has w IRIS_INST_SUB_FIRST_IPSC \<longleftrightarrow> bit w 0" "has w IRIS_INST_SUB_DRC \<longleftrightarrow> bit w 1"
  "has w IRIS_INST_SUB_DRC_LAST \<longleftrightarrow> bit w 2" "has w IRIS_INST_SUB_DRAIN \<longleftrightarrow> bit w 3"
  "has w IRIS_INST_SUB_DRAIN_LAST \<longleftrightarrow> bit w 4" "has w IRIS_INST_SUB_INPUT_PAUSE \<longleftrightarrow> bit w 5"
  "has w IRIS_INST_SUB_OUTPUT_PAUSE \<longleftrightarrow> bit w 6" "has w IRIS_INST_SUB_LOAD_RESOURCES \<longleftrightarrow> bit w 7"
  unfolding sub_state_defs(1-8) by (rule has_BIT)+

section \<open>The streaming state\<close>

definition iris_request_core_recovery :: "iris_sys \<Rightarrow> iris_sys" where
  "iris_request_core_recovery s = s\<lparr>recovery_pending := True\<rparr>"

fun iris_allow_inst_state_change :: "iris_inst_state \<Rightarrow> iris_inst_state \<Rightarrow> bool" where
  "iris_allow_inst_state_change IRIS_INST_INIT req \<longleftrightarrow>
     req = IRIS_INST_INPUT_STREAMING \<or> req = IRIS_INST_OUTPUT_STREAMING \<or> req = IRIS_INST_DEINIT"
| "iris_allow_inst_state_change IRIS_INST_INPUT_STREAMING req \<longleftrightarrow>
     req = IRIS_INST_INIT \<or> req = IRIS_INST_STREAMING \<or> req = IRIS_INST_DEINIT"
| "iris_allow_inst_state_change IRIS_INST_OUTPUT_STREAMING req \<longleftrightarrow>
     req = IRIS_INST_INIT \<or> req = IRIS_INST_STREAMING \<or> req = IRIS_INST_DEINIT"
| "iris_allow_inst_state_change IRIS_INST_STREAMING req \<longleftrightarrow>
     req = IRIS_INST_INPUT_STREAMING \<or> req = IRIS_INST_OUTPUT_STREAMING \<or> req = IRIS_INST_DEINIT"
| "iris_allow_inst_state_change IRIS_INST_DEINIT req \<longleftrightarrow> req = IRIS_INST_INIT"
| "iris_allow_inst_state_change IRIS_INST_ERROR req \<longleftrightarrow> False"

definition iris_inst_change_state :: "nat \<Rightarrow> iris_inst_state \<Rightarrow> iris_sys \<Rightarrow> int \<times> iris_sys" where
  "iris_inst_change_state i request_state s =
     (let st = inst_state (inst_heap s i) in
      if st = IRIS_INST_ERROR then (0, s)
      else if st = request_state then (0, s)
      else if request_state = IRIS_INST_ERROR then
        (0, modify_inst i (inst_state_update (\<lambda>_. request_state)) (iris_request_core_recovery s))
      else if \<not> iris_allow_inst_state_change st request_state then (- EINVAL, s)
      else (0, modify_inst i (inst_state_update (\<lambda>_. request_state)) s))"

definition iris_inst_state_change_streamon :: "nat \<Rightarrow> u32 \<Rightarrow> iris_sys \<Rightarrow> int \<times> iris_sys" where
  "iris_inst_state_change_streamon i plane s =
     (let st = inst_state (inst_heap s i);
          new_state =
            (if V4L2_TYPE_IS_OUTPUT plane then
               (if st = IRIS_INST_INIT then IRIS_INST_INPUT_STREAMING
                else if st = IRIS_INST_OUTPUT_STREAMING then IRIS_INST_STREAMING
                else IRIS_INST_ERROR)
             else if V4L2_TYPE_IS_CAPTURE plane then
               (if st = IRIS_INST_INIT then IRIS_INST_OUTPUT_STREAMING
                else if st = IRIS_INST_INPUT_STREAMING then IRIS_INST_STREAMING
                else IRIS_INST_ERROR)
             else IRIS_INST_ERROR)
      in iris_inst_change_state i new_state s)"

definition iris_inst_state_change_streamoff :: "nat \<Rightarrow> u32 \<Rightarrow> iris_sys \<Rightarrow> int \<times> iris_sys" where
  "iris_inst_state_change_streamoff i plane s =
     (let st = inst_state (inst_heap s i);
          new_state =
            (if V4L2_TYPE_IS_OUTPUT plane then
               (if st = IRIS_INST_INPUT_STREAMING then IRIS_INST_INIT
                else if st = IRIS_INST_STREAMING then IRIS_INST_OUTPUT_STREAMING
                else IRIS_INST_ERROR)
             else if V4L2_TYPE_IS_CAPTURE plane then
               (if st = IRIS_INST_OUTPUT_STREAMING then IRIS_INST_INIT
                else if st = IRIS_INST_STREAMING then IRIS_INST_INPUT_STREAMING
                else IRIS_INST_ERROR)
             else IRIS_INST_ERROR)
      in iris_inst_change_state i new_state s)"

section \<open>The sub-state\<close>

definition iris_inst_allow_sub_state :: "iris_inst \<Rightarrow> u32 \<Rightarrow> bool" where
  "iris_inst_allow_sub_state inst sub \<longleftrightarrow>
     (if sub = 0 then True
      else case inst_state inst of
        IRIS_INST_INIT \<Rightarrow> has sub IRIS_INST_SUB_LOAD_RESOURCES
      | IRIS_INST_INPUT_STREAMING \<Rightarrow>
          has sub (IRIS_INST_SUB_FIRST_IPSC OR IRIS_INST_SUB_DRC OR IRIS_INST_SUB_DRAIN OR
                   IRIS_INST_SUB_INPUT_PAUSE)
      | IRIS_INST_OUTPUT_STREAMING \<Rightarrow>
          has sub (IRIS_INST_SUB_DRC_LAST OR IRIS_INST_SUB_DRAIN_LAST OR
                   IRIS_INST_SUB_OUTPUT_PAUSE OR IRIS_INST_SUB_LOAD_RESOURCES)
      | IRIS_INST_STREAMING \<Rightarrow>
          has sub (IRIS_INST_SUB_DRC OR IRIS_INST_SUB_DRAIN OR IRIS_INST_SUB_DRC_LAST OR
                   IRIS_INST_SUB_DRAIN_LAST OR IRIS_INST_SUB_INPUT_PAUSE OR
                   IRIS_INST_SUB_OUTPUT_PAUSE)
      | IRIS_INST_DEINIT \<Rightarrow>
          has sub (IRIS_INST_SUB_DRC OR IRIS_INST_SUB_DRAIN OR IRIS_INST_SUB_DRC_LAST OR
                   IRIS_INST_SUB_DRAIN_LAST OR IRIS_INST_SUB_INPUT_PAUSE OR
                   IRIS_INST_SUB_OUTPUT_PAUSE)
      | IRIS_INST_ERROR \<Rightarrow> False)"

definition iris_inst_change_sub_state :: "u32 \<Rightarrow> u32 \<Rightarrow> iris_inst \<Rightarrow> int \<times> iris_inst" where
  "iris_inst_change_sub_state clear_sub set_sub inst =
     (if inst_state inst = IRIS_INST_ERROR then (0, inst)
      else if clear_sub = 0 \<and> set_sub = 0 then (0, inst)
      else if has clear_sub set_sub \<or> IRIS_INST_MAX_SUB_STATE_VALUE < set_sub \<or>
              IRIS_INST_MAX_SUB_STATE_VALUE < clear_sub then (- EINVAL, inst)
      else if \<not> iris_inst_allow_sub_state inst set_sub then (- EINVAL, inst)
      else (0, inst\<lparr>sub_state := (sub_state inst OR set_sub) AND NOT clear_sub\<rparr>))"

definition iris_inst_sub_state_change_drc :: "iris_inst \<Rightarrow> int \<times> iris_inst" where
  "iris_inst_sub_state_change_drc inst =
     (if has (sub_state inst) IRIS_INST_SUB_DRC then (- EINVAL, inst)
      else iris_inst_change_sub_state 0
        (if inst_state inst = IRIS_INST_INPUT_STREAMING \<or> inst_state inst = IRIS_INST_INIT
         then IRIS_INST_SUB_FIRST_IPSC OR IRIS_INST_SUB_INPUT_PAUSE
         else IRIS_INST_SUB_DRC OR IRIS_INST_SUB_INPUT_PAUSE) inst)"

definition iris_inst_sub_state_change_drain_last :: "iris_inst \<Rightarrow> int \<times> iris_inst" where
  "iris_inst_sub_state_change_drain_last inst =
     (if has (sub_state inst) IRIS_INST_SUB_DRAIN_LAST then (- EINVAL, inst)
      else if \<not> has (sub_state inst) IRIS_INST_SUB_DRAIN then (- EINVAL, inst)
      else iris_inst_change_sub_state 0
        (IRIS_INST_SUB_DRAIN_LAST OR IRIS_INST_SUB_OUTPUT_PAUSE) inst)"

definition iris_inst_sub_state_change_drc_last :: "iris_inst \<Rightarrow> int \<times> iris_inst" where
  "iris_inst_sub_state_change_drc_last inst =
     (if has (sub_state inst) IRIS_INST_SUB_DRC_LAST then (- EINVAL, inst)
      else if \<not> has (sub_state inst) IRIS_INST_SUB_DRC \<or>
              \<not> has (sub_state inst) IRIS_INST_SUB_INPUT_PAUSE then (- EINVAL, inst)
      else if has (sub_state inst) IRIS_INST_SUB_FIRST_IPSC then (0, inst)
      else iris_inst_change_sub_state 0
        (IRIS_INST_SUB_DRC_LAST OR IRIS_INST_SUB_OUTPUT_PAUSE) inst)"

definition iris_inst_sub_state_change_pause :: "u32 \<Rightarrow> iris_inst \<Rightarrow> int \<times> iris_inst" where
  "iris_inst_sub_state_change_pause plane inst =
     (if V4L2_TYPE_IS_OUTPUT plane then
        (if has (sub_state inst) IRIS_INST_SUB_DRC \<and>
            \<not> has (sub_state inst) IRIS_INST_SUB_DRC_LAST then (- EINVAL, inst)
         else if has (sub_state inst) IRIS_INST_SUB_DRAIN \<and>
                 \<not> has (sub_state inst) IRIS_INST_SUB_DRAIN_LAST then (- EINVAL, inst)
         else iris_inst_change_sub_state 0 IRIS_INST_SUB_INPUT_PAUSE inst)
      else iris_inst_change_sub_state 0 IRIS_INST_SUB_OUTPUT_PAUSE inst)"

definition iris_drc_pending :: "iris_inst \<Rightarrow> bool" where
  "iris_drc_pending inst \<longleftrightarrow>
     has (sub_state inst) IRIS_INST_SUB_DRC \<and> has (sub_state inst) IRIS_INST_SUB_DRC_LAST"

definition iris_drain_pending :: "iris_inst \<Rightarrow> bool" where
  "iris_drain_pending inst \<longleftrightarrow>
     has (sub_state inst) IRIS_INST_SUB_DRAIN \<and> has (sub_state inst) IRIS_INST_SUB_DRAIN_LAST"

text \<open>\<open>V4L2_DEC_CMD_START\<close> and \<open>V4L2_ENC_CMD_START\<close> are 0, the STOP commands are 1.\<close>

definition iris_allow_cmd :: "iris_inst \<Rightarrow> u32 \<Rightarrow> bool" where
  "iris_allow_cmd inst cmd \<longleftrightarrow>
     (if cmd = 0 then
        (src_streaming inst \<or> dst_streaming inst) \<and>
        (iris_drc_pending inst \<or> iris_drain_pending inst)
      else if cmd = 1 then src_streaming inst \<and> sub_state inst \<noteq> IRIS_INST_SUB_DRAIN
      else False)"

text \<open>An operation on the instance alone, run at an address.\<close>

definition on_inst :: "nat \<Rightarrow> (iris_inst \<Rightarrow> int \<times> iris_inst) \<Rightarrow> iris_sys \<Rightarrow> int \<times> iris_sys" where
  "on_inst i f s = (case f (inst_heap s i) of (r, x) \<Rightarrow> (r, modify_inst i (\<lambda>_. x) s))"

section \<open>The session as a set of streaming planes\<close>

datatype plane = Input | Output

datatype session = Closed | Open "plane set" | Dead

fun session_of :: "iris_inst_state \<Rightarrow> session" where
  "session_of IRIS_INST_DEINIT = Closed"
| "session_of IRIS_INST_INIT = Open {}"
| "session_of IRIS_INST_INPUT_STREAMING = Open {Input}"
| "session_of IRIS_INST_OUTPUT_STREAMING = Open {Output}"
| "session_of IRIS_INST_STREAMING = Open {Input, Output}"
| "session_of IRIS_INST_ERROR = Dead"

definition plane_of :: "u32 \<Rightarrow> plane" where
  "plane_of p = (if V4L2_TYPE_IS_OUTPUT p then Input else Output)"

fun session_streamon :: "plane \<Rightarrow> session \<Rightarrow> session" where
  "session_streamon p (Open P) = (if p \<in> P then Dead else Open (insert p P))"
| "session_streamon p _ = Dead"

fun session_streamoff :: "plane \<Rightarrow> session \<Rightarrow> session" where
  "session_streamoff p (Open P) = (if p \<in> P then Open (P - {p}) else Dead)"
| "session_streamoff p _ = Dead"

lemma session_of_inject: "session_of st = session_of st' \<longleftrightarrow> st = st'"
  by (cases st; cases st') auto

text \<open>
  C11. Stream-on and stream-off are the insertion and removal of a plane: the state change the code makes
  refines the operation on the set of streaming planes, a plane switched on twice or off
  while it is off kills the session, the result is always 0, a recovery of the core is requested exactly
  when a live session dies, and no other session is touched.
\<close>

theorem stream_refines_planes:
  "(case iris_inst_state_change_streamon i p s of (r, s') \<Rightarrow>
      r = 0 \<and>
      session_of (inst_state (inst_heap s' i)) =
        session_streamon (plane_of p) (session_of (inst_state (inst_heap s i))) \<and>
      recovery_pending s' =
        (recovery_pending s \<or> session_of (inst_state (inst_heap s i)) \<noteq> Dead \<and>
                              session_of (inst_state (inst_heap s' i)) = Dead) \<and>
      inst_heap s' = (inst_heap s)(i := inst_heap s i\<lparr>inst_state := inst_state (inst_heap s' i)\<rparr>)) \<and>
   (case iris_inst_state_change_streamoff i p s of (r, s') \<Rightarrow>
      r = 0 \<and>
      session_of (inst_state (inst_heap s' i)) =
        session_streamoff (plane_of p) (session_of (inst_state (inst_heap s i))) \<and>
      recovery_pending s' =
        (recovery_pending s \<or> session_of (inst_state (inst_heap s i)) \<noteq> Dead \<and>
                              session_of (inst_state (inst_heap s' i)) = Dead) \<and>
      inst_heap s' = (inst_heap s)(i := inst_heap s i\<lparr>inst_state := inst_state (inst_heap s' i)\<rparr>))"
  by (cases "inst_state (inst_heap s i)"; cases "V4L2_TYPE_IS_OUTPUT p")
     (auto simp: iris_inst_state_change_streamon_def iris_inst_state_change_streamoff_def
       iris_inst_change_state_def iris_request_core_recovery_def plane_of_def
       V4L2_TYPE_IS_CAPTURE_def modify_inst_def)

lemma bit_u32_less: "bit (w :: u32) n \<Longrightarrow> n < 32"
  using bit_imp_le_length[of w n] by simp

lemma is_drain_iff: "w = IRIS_INST_SUB_DRAIN \<longleftrightarrow> (\<forall>n. bit w n \<longleftrightarrow> n = 3)"
proof
  have b: "bit IRIS_INST_SUB_DRAIN n \<longleftrightarrow> n = 3" for n
    unfolding IRIS_INST_SUB_DRAIN_def BIT_def bit_push_bit_iff bit_1_iff by auto
  show "w = IRIS_INST_SUB_DRAIN \<Longrightarrow> \<forall>n. bit w n \<longleftrightarrow> n = 3"
    by (simp only: b) simp
  show "\<forall>n. bit w n \<longleftrightarrow> n = 3 \<Longrightarrow> w = IRIS_INST_SUB_DRAIN"
    by (rule bit_word_eqI) (simp only: b)
qed

lemma change_sub_state_bits:
  "iris_inst_change_sub_state c t inst = (r, x) \<Longrightarrow>
     x = inst \<or> r = 0 \<and> (\<forall>n. bit (sub_state x) n \<longleftrightarrow> (bit (sub_state inst) n \<or> bit t n) \<and> \<not> bit c n) \<and>
       x = inst\<lparr>sub_state := sub_state x\<rparr>"
  by (auto simp: iris_inst_change_sub_state_def bit_simps split: if_splits intro: bit_u32_less)

lemma change_sub_state_set:
  "t \<noteq> 0 \<Longrightarrow> t \<le> 255 \<Longrightarrow>
   iris_inst_change_sub_state 0 t inst =
     (if inst_state inst = IRIS_INST_ERROR then (0, inst)
      else if iris_inst_allow_sub_state inst t then (0, inst\<lparr>sub_state := sub_state inst OR t\<rparr>)
      else (- EINVAL, inst))"
  by (auto simp: iris_inst_change_sub_state_def has_def IRIS_INST_MAX_SUB_STATE_VALUE_def)

lemma allow_source_change:
  "iris_inst_allow_sub_state inst (IRIS_INST_SUB_FIRST_IPSC OR IRIS_INST_SUB_INPUT_PAUSE) \<longleftrightarrow>
     inst_state inst \<in> {IRIS_INST_INPUT_STREAMING, IRIS_INST_STREAMING, IRIS_INST_DEINIT}"
  "iris_inst_allow_sub_state inst (IRIS_INST_SUB_DRC OR IRIS_INST_SUB_INPUT_PAUSE) \<longleftrightarrow>
     inst_state inst \<in> {IRIS_INST_INPUT_STREAMING, IRIS_INST_STREAMING, IRIS_INST_DEINIT}"
  by (cases "inst_state inst";
      simp add: iris_inst_allow_sub_state_def sub_state_defs has_def)+

lemma source_change_masks:
  "IRIS_INST_SUB_FIRST_IPSC OR IRIS_INST_SUB_INPUT_PAUSE = 0x21"
  "IRIS_INST_SUB_DRC OR IRIS_INST_SUB_INPUT_PAUSE = 0x22"
  by (simp_all add: sub_state_defs)

text \<open>
  What a source change does in every state: it sets the first-sequence or the
  source-change flag together with the input pause; it is refused while a source change is
  in progress, in the output-streaming state, and in the initial state, although the code has a case for the
  initial state; in the error state nothing happens.
\<close>

theorem source_change_flags:
  "iris_inst_sub_state_change_drc inst =
    (if has (sub_state inst) IRIS_INST_SUB_DRC \<or>
        inst_state inst \<in> {IRIS_INST_INIT, IRIS_INST_OUTPUT_STREAMING} then (- EINVAL, inst)
     else if inst_state inst = IRIS_INST_ERROR then (0, inst)
     else (0, inst\<lparr>sub_state := sub_state inst OR
        (if inst_state inst = IRIS_INST_INPUT_STREAMING
         then IRIS_INST_SUB_FIRST_IPSC OR IRIS_INST_SUB_INPUT_PAUSE
         else IRIS_INST_SUB_DRC OR IRIS_INST_SUB_INPUT_PAUSE)\<rparr>))"
  using allow_source_change[of inst]
  by (cases "inst_state inst")
     (simp_all add: iris_inst_sub_state_change_drc_def change_sub_state_set source_change_masks)

text \<open>
  The STOP command is refused only while the sub-state is the drain flag and nothing
  else: once the session has any other flag, a second drain is admitted while the first is in progress.
\<close>

theorem drain_guard:
  assumes "src_streaming inst"
  shows "iris_allow_cmd inst 1 \<longleftrightarrow>
     \<not> (has (sub_state inst) IRIS_INST_SUB_DRAIN \<and> (\<forall>n. n \<noteq> 3 \<longrightarrow> \<not> bit (sub_state inst) n))"
  using assms by (auto simp: iris_allow_cmd_def is_drain_iff)

lemma drain_guard_witness:
  "iris_allow_cmd (zero_inst\<lparr>src_streaming := True, sub_state := IRIS_INST_SUB_DRAIN OR IRIS_INST_SUB_LOAD_RESOURCES\<rparr>) 1"
proof -
  have "bit (IRIS_INST_SUB_DRAIN OR IRIS_INST_SUB_LOAD_RESOURCES) 7"
    by (simp add: sub_state_defs)
  moreover have "(7::nat) \<noteq> 3" by simp
  ultimately show ?thesis
    by (subst drain_guard) (auto intro: exI[of _ 7])
qed

end
