(* ===== verification/IrisBufSize.thy ===== *)
theory IrisBufSize
  imports IrisTypes
begin

text \<open>
  Buffer sizes and counts (\<open>iris_vpu_buffer.c\<close>, \<open>iris_vpu_buffer.h\<close> and the size functions
  of \<open>iris_buffer.c\<close>): how many bytes each client and internal buffer of the decoder and the
  encoder needs, in the unsigned 32-bit arithmetic of the code. The platform data is what the
  code reads through \<open>inst->core\<close>; a platform with no VPP pipe, for which the code would divide
  by zero, does not exist.
\<close>

section \<open>Constants\<close>

abbreviation (input) DMA_ALIGNMENT :: u32 where "DMA_ALIGNMENT \<equiv> 256"
abbreviation (input) PIXELS_4K :: u32 where "PIXELS_4K \<equiv> 4096"
abbreviation (input) SZ_8K :: u32 where "SZ_8K \<equiv> 0x2000"
abbreviation (input) SZ_16K :: u32 where "SZ_16K \<equiv> 0x4000"
abbreviation (input) NUM_HW_PIC_BUF :: u32 where "NUM_HW_PIC_BUF \<equiv> 32"
abbreviation (input) LCU_MAX_SIZE_PELS :: u32 where "LCU_MAX_SIZE_PELS \<equiv> 64"
abbreviation (input) LCU_MIN_SIZE_PELS :: u32 where "LCU_MIN_SIZE_PELS \<equiv> 16"
abbreviation (input) HDR10_HIST_EXTRADATA_SIZE :: u32 where "HDR10_HIST_EXTRADATA_SIZE \<equiv> 4096"
abbreviation (input) H264D_MAX_SLICE :: u32 where "H264D_MAX_SLICE \<equiv> 1800"
abbreviation (input) H265D_MAX_SLICE :: u32 where "H265D_MAX_SLICE \<equiv> 1200"
abbreviation (input) VPP_CMD_MAX_SIZE :: u32 where "VPP_CMD_MAX_SIZE \<equiv> 0x100000"
abbreviation (input) HFI_MAX_COL_FRAME :: u32 where "HFI_MAX_COL_FRAME \<equiv> 6"
abbreviation (input) MAX_TILE_COLUMNS :: u32 where "MAX_TILE_COLUMNS \<equiv> 32"
abbreviation (input) MIN_BUFFERS :: u32 where "MIN_BUFFERS \<equiv> 4"
abbreviation (input) STAGE_2 :: u32 where "STAGE_2 \<equiv> 2"
abbreviation (input) MAX_FE_NBR_CTRL :: u32 where "MAX_FE_NBR_CTRL \<equiv> 64"
abbreviation (input) MAX_SE_NBR_CTRL :: u32 where "MAX_SE_NBR_CTRL \<equiv> 16"
abbreviation (input) MAX_PE_NBR_DATA :: u32 where "MAX_PE_NBR_DATA \<equiv> 384"
abbreviation (input) MAX_FE_NBR_DATA_LUMA :: u32 where "MAX_FE_NBR_DATA_LUMA \<equiv> 640"

definition BIN_BUFFER_THRESHOLD :: u32 where "BIN_BUFFER_THRESHOLD = 1280 * 736"
definition NUM_MBS_4K :: u32 where "NUM_MBS_4K = DIV_ROUND_UP 4096 16 * DIV_ROUND_UP 2304 16"
definition NUM_MBS_720P :: u32 where
  "NUM_MBS_720P = drop_bit 4 (ALIGN 1280 16) * drop_bit 4 (ALIGN 736 16)"

section \<open>Decoder line buffers of H.264\<close>

definition size_h264d_lb_fe_top_data :: "u32 \<Rightarrow> u32" where
  "size_h264d_lb_fe_top_data frame_width = MAX_FE_NBR_DATA_LUMA * ALIGN frame_width 16 * 3"

definition size_h264d_lb_fe_top_ctrl :: "u32 \<Rightarrow> u32" where
  "size_h264d_lb_fe_top_ctrl frame_width = MAX_FE_NBR_CTRL * DIV_ROUND_UP frame_width 16"

definition size_h264d_lb_fe_left_ctrl :: "u32 \<Rightarrow> u32" where
  "size_h264d_lb_fe_left_ctrl frame_height = MAX_FE_NBR_CTRL * DIV_ROUND_UP frame_height 16"

definition size_h264d_lb_se_top_ctrl :: "u32 \<Rightarrow> u32" where
  "size_h264d_lb_se_top_ctrl frame_width = MAX_SE_NBR_CTRL * DIV_ROUND_UP frame_width 16"

definition size_h264d_lb_se_left_ctrl :: "u32 \<Rightarrow> u32" where
  "size_h264d_lb_se_left_ctrl frame_height = MAX_SE_NBR_CTRL * DIV_ROUND_UP frame_height 16"

definition size_h264d_lb_pe_top_data :: "u32 \<Rightarrow> u32" where
  "size_h264d_lb_pe_top_data frame_width = MAX_PE_NBR_DATA * DIV_ROUND_UP frame_width 16"

definition size_h264d_lb_vsp_top :: "u32 \<Rightarrow> u32" where
  "size_h264d_lb_vsp_top frame_width = push_bit 7 (DIV_ROUND_UP frame_width 16)"

definition size_h264d_lb_recon_dma_metadata_wr :: "u32 \<Rightarrow> u32" where
  "size_h264d_lb_recon_dma_metadata_wr frame_height = ALIGN frame_height 16 * 32"

definition size_h264d_qp :: "u32 \<Rightarrow> u32 \<Rightarrow> u32" where
  "size_h264d_qp frame_width frame_height =
     DIV_ROUND_UP frame_width 64 * DIV_ROUND_UP frame_height 64 * 128"

section \<open>Decoder bin buffers\<close>

definition size_h264d_hw_bin_buffer :: "u32 \<Rightarrow> u32 \<Rightarrow> u32 \<Rightarrow> u32" where
  "size_h264d_hw_bin_buffer frame_width frame_height num_vpp_pipes =
     (let size_yuv = (if frame_width * frame_height \<le> BIN_BUFFER_THRESHOLD
                      then drop_bit 1 (BIN_BUFFER_THRESHOLD * 3)
                      else drop_bit 1 (frame_width * frame_height * 3));
          size_bin_hdr = size_yuv * 1;
          size_bin_res = size_yuv * 3;
          size_bin_hdr = ALIGN (size_bin_hdr div num_vpp_pipes) DMA_ALIGNMENT * num_vpp_pipes;
          size_bin_res = ALIGN (size_bin_res div num_vpp_pipes) DMA_ALIGNMENT * num_vpp_pipes
      in size_bin_hdr + size_bin_res)"

definition hfi_buffer_bin_h264d :: "u32 \<Rightarrow> u32 \<Rightarrow> u32 \<Rightarrow> u32" where
  "hfi_buffer_bin_h264d frame_width frame_height num_vpp_pipes =
     (let n_aligned_h = ALIGN frame_height 16;
          n_aligned_w = ALIGN frame_width 16
      in size_h264d_hw_bin_buffer n_aligned_w n_aligned_h num_vpp_pipes)"

definition size_h265d_hw_bin_buffer :: "u32 \<Rightarrow> u32 \<Rightarrow> u32 \<Rightarrow> u32" where
  "size_h265d_hw_bin_buffer frame_width frame_height num_vpp_pipes =
     (let product = frame_width * frame_height;
          size_yuv = (if product \<le> BIN_BUFFER_THRESHOLD
                      then drop_bit 1 (BIN_BUFFER_THRESHOLD * 3)
                      else drop_bit 1 (product * 3));
          size_bin_hdr = size_yuv * 2;
          size_bin_res = size_yuv * 2;
          size_bin_hdr = ALIGN (size_bin_hdr div num_vpp_pipes) DMA_ALIGNMENT * num_vpp_pipes;
          size_bin_res = ALIGN (size_bin_res div num_vpp_pipes) DMA_ALIGNMENT * num_vpp_pipes
      in size_bin_hdr + size_bin_res)"

definition hfi_buffer_bin_vp9d :: "u32 \<Rightarrow> u32 \<Rightarrow> u32 \<Rightarrow> u32" where
  "hfi_buffer_bin_vp9d frame_width frame_height num_vpp_pipes =
     (let size_yuv = ALIGN frame_width 16 * ALIGN frame_height 16 * 3 div 2;
          big = max size_yuv (drop_bit 1 (BIN_BUFFER_THRESHOLD * 3));
          sz = ALIGN ((big * 1 div 2 * 2) div num_vpp_pipes) DMA_ALIGNMENT +
               ALIGN ((big * 3 div 2 * 2) div num_vpp_pipes) DMA_ALIGNMENT
      in sz * num_vpp_pipes)"

definition hfi_buffer_bin_h265d :: "u32 \<Rightarrow> u32 \<Rightarrow> u32 \<Rightarrow> u32" where
  "hfi_buffer_bin_h265d frame_width frame_height num_vpp_pipes =
     (let n_aligned_w = ALIGN frame_width 16;
          n_aligned_h = ALIGN frame_height 16
      in size_h265d_hw_bin_buffer n_aligned_w n_aligned_h num_vpp_pipes)"

section \<open>Decoder motion vectors, commands and persistent buffers\<close>

definition hfi_buffer_comv_h264d :: "u32 \<Rightarrow> u32 \<Rightarrow> u32 \<Rightarrow> u32" where
  "hfi_buffer_comv_h264d frame_width frame_height comv_bufcount =
     (let frame_height_in_mbs = DIV_ROUND_UP frame_height 16;
          frame_width_in_mbs = DIV_ROUND_UP frame_width 16;
          col_zero_aligned_width = push_bit 2 frame_width_in_mbs;
          col_mv_aligned_width = push_bit 7 frame_width_in_mbs;
          col_mv_aligned_width = ALIGN col_mv_aligned_width 16;
          col_zero_aligned_width = ALIGN col_zero_aligned_width 16;
          col_zero_size = col_zero_aligned_width * drop_bit 1 (frame_height_in_mbs + 1);
          col_zero_size = ALIGN col_zero_size 64;
          col_zero_size = push_bit 1 col_zero_size;
          col_zero_size = ALIGN col_zero_size 512;
          size_colloc = col_mv_aligned_width * drop_bit 1 (frame_height_in_mbs + 1);
          size_colloc = ALIGN size_colloc 64;
          size_colloc = push_bit 1 size_colloc;
          size_colloc = ALIGN size_colloc 512;
          size_colloc = size_colloc + (col_zero_size + 256 * 2)
      in size_colloc * comv_bufcount + 512)"

definition hfi_buffer_comv_h265d :: "u32 \<Rightarrow> u32 \<Rightarrow> u32 \<Rightarrow> u32" where
  "hfi_buffer_comv_h265d frame_width frame_height comv_bufcount =
     (let frame_height_in_mbs = drop_bit 4 (frame_height + 15);
          frame_width_in_mbs = drop_bit 4 (frame_width + 15);
          sz = ALIGN (push_bit 8 (frame_width_in_mbs * frame_height_in_mbs)) 512
      in sz * comv_bufcount + 512)"

definition size_h264d_bse_cmd_buf :: "u32 \<Rightarrow> u32" where
  "size_h264d_bse_cmd_buf frame_height =
     (let height = ALIGN frame_height 32
      in min (DIV_ROUND_UP height 16 * 48) H264D_MAX_SLICE * (32 * 4))"

definition size_h265d_bse_cmd_buf :: "u32 \<Rightarrow> u32 \<Rightarrow> u32" where
  "size_h265d_bse_cmd_buf frame_width frame_height =
     (let sz = ALIGN ((ALIGN frame_width LCU_MAX_SIZE_PELS div LCU_MIN_SIZE_PELS) *
                      (ALIGN frame_height LCU_MAX_SIZE_PELS div LCU_MIN_SIZE_PELS) *
                      NUM_HW_PIC_BUF) DMA_ALIGNMENT;
          sz = min sz (H265D_MAX_SLICE + 1)
      in 2 * sz * (16 * 4))"

definition hfi_buffer_persist_h265d :: "u32 \<Rightarrow> u32" where
  "hfi_buffer_persist_h265d rpu_enabled =
     ALIGN (1024 * (80 + 20) + 48 * 3072 + (128 * 32 + 1) * 4 + NUM_HW_PIC_BUF * 4096 +
            rpu_enabled * NUM_HW_PIC_BUF * (41 * 1024)) DMA_ALIGNMENT"

definition hfi_iris3_vp9d_comv_size :: u32 where
  "hfi_iris3_vp9d_comv_size =
     drop_bit 6 (8192 + 63) * drop_bit 6 (4320 + 63) * 8 * 8 * 2 * 8"

definition hfi_buffer_persist_vp9d :: u32 where
  "hfi_buffer_persist_vp9d =
     ALIGN ((32 + 4) * 3840) DMA_ALIGNMENT + ALIGN hfi_iris3_vp9d_comv_size DMA_ALIGNMENT +
     ALIGN 34 DMA_ALIGNMENT + ALIGN (3 * 128) DMA_ALIGNMENT +
     ALIGN (32 * ALIGN (32 * 4 * 4) 32) DMA_ALIGNMENT + ALIGN (32 * 6144) DMA_ALIGNMENT +
     HDR10_HIST_EXTRADATA_SIZE"

definition size_h264d_vpp_cmd_buf :: "u32 \<Rightarrow> u32" where
  "size_h264d_vpp_cmd_buf frame_height =
     (let height = ALIGN frame_height 32;
          sz = min (DIV_ROUND_UP height 16 * 48) H264D_MAX_SLICE * 512
      in if VPP_CMD_MAX_SIZE < sz then VPP_CMD_MAX_SIZE else sz)"

definition hfi_buffer_persist_h264d :: u32 where
  "hfi_buffer_persist_h264d =
     ALIGN (512 * (256 + 32) + 3328 * 66 + NUM_HW_PIC_BUF * 4096) DMA_ALIGNMENT"

definition hfi_buffer_non_comv_h264d :: "u32 \<Rightarrow> u32 \<Rightarrow> u32 \<Rightarrow> u32" where
  "hfi_buffer_non_comv_h264d frame_width frame_height num_vpp_pipes =
     (let size_bse = size_h264d_bse_cmd_buf frame_height;
          size_vpp = size_h264d_vpp_cmd_buf frame_height;
          sz = ALIGN size_bse DMA_ALIGNMENT + ALIGN size_vpp DMA_ALIGNMENT +
               ALIGN (NUM_HW_PIC_BUF * 2048) DMA_ALIGNMENT
      in ALIGN sz DMA_ALIGNMENT)"

definition size_h265d_vpp_cmd_buf :: "u32 \<Rightarrow> u32 \<Rightarrow> u32" where
  "size_h265d_vpp_cmd_buf frame_width frame_height =
     (let sz = ALIGN ((ALIGN frame_width LCU_MAX_SIZE_PELS div LCU_MIN_SIZE_PELS) *
                      (ALIGN frame_height LCU_MAX_SIZE_PELS div LCU_MIN_SIZE_PELS) *
                      NUM_HW_PIC_BUF) DMA_ALIGNMENT;
          sz = min sz (H265D_MAX_SLICE + 1);
          sz = ALIGN sz 4;
          sz = 2 * sz * 256
      in if VPP_CMD_MAX_SIZE < sz then VPP_CMD_MAX_SIZE else sz)"

definition hfi_buffer_non_comv_h265d :: "u32 \<Rightarrow> u32 \<Rightarrow> u32 \<Rightarrow> u32" where
  "hfi_buffer_non_comv_h265d frame_width frame_height num_vpp_pipes =
     (let size_bse = size_h265d_bse_cmd_buf frame_width frame_height;
          size_vpp = size_h265d_vpp_cmd_buf frame_width frame_height;
          sz = ALIGN size_bse DMA_ALIGNMENT + ALIGN size_vpp DMA_ALIGNMENT +
               ALIGN (NUM_HW_PIC_BUF * 20 * 22 * 4) DMA_ALIGNMENT +
               ALIGN (2 * 2 * (ALIGN frame_width LCU_MAX_SIZE_PELS div LCU_MIN_SIZE_PELS) *
                      (ALIGN frame_height LCU_MAX_SIZE_PELS div LCU_MIN_SIZE_PELS))
                 DMA_ALIGNMENT +
               ALIGN (NUM_HW_PIC_BUF * 2048) DMA_ALIGNMENT + HDR10_HIST_EXTRADATA_SIZE
      in ALIGN sz DMA_ALIGNMENT)"

definition size_vpss_lb :: "u32 \<Rightarrow> u32 \<Rightarrow> u32" where
  "size_vpss_lb frame_width frame_height =
     (let macrotiling_size = 32;
          luma = ALIGN frame_width macrotiling_size div macrotiling_size * 256;
          luma = ALIGN luma DMA_ALIGNMENT + (MAX_TILE_COLUMNS - 1) * 256;
          luma = max luma (32 * ALIGN frame_height 8);
          chroma = luma;
          uv = ALIGN (ALIGN frame_height 8 div 2 * 64) 32;
          y = ALIGN (ALIGN frame_height 8 div 2 * 64) 32
      in luma + chroma + uv + y)"

section \<open>Decoder line buffers of HEVC and VP9\<close>

definition size_h265d_lb_fe_top_data :: "u32 \<Rightarrow> u32 \<Rightarrow> u32" where
  "size_h265d_lb_fe_top_data frame_width frame_height =
     MAX_FE_NBR_DATA_LUMA * (ALIGN frame_width 64 + 8) * 2"

definition size_h265d_lb_fe_top_ctrl :: "u32 \<Rightarrow> u32 \<Rightarrow> u32" where
  "size_h265d_lb_fe_top_ctrl frame_width frame_height =
     MAX_FE_NBR_CTRL * (ALIGN frame_width LCU_MAX_SIZE_PELS div LCU_MIN_SIZE_PELS)"

definition size_h265d_lb_fe_left_ctrl :: "u32 \<Rightarrow> u32 \<Rightarrow> u32" where
  "size_h265d_lb_fe_left_ctrl frame_width frame_height =
     MAX_FE_NBR_CTRL * (ALIGN frame_height LCU_MAX_SIZE_PELS div LCU_MIN_SIZE_PELS)"

definition size_h265d_lb_se_top_ctrl :: "u32 \<Rightarrow> u32 \<Rightarrow> u32" where
  "size_h265d_lb_se_top_ctrl frame_width frame_height =
     (LCU_MAX_SIZE_PELS div 8 * (128 div 8)) * drop_bit 4 (frame_width + 15)"

definition size_h265d_lb_se_left_ctrl :: "u32 \<Rightarrow> u32 \<Rightarrow> u32" where
  "size_h265d_lb_se_left_ctrl frame_width frame_height =
     max ((frame_height + 16 - 1) div 8 * (128 div 8))
       (max ((frame_height + 32 - 1) div 8 * (128 div 8))
            ((frame_height + 64 - 1) div 8 * MAX_SE_NBR_CTRL))"

definition size_h265d_lb_pe_top_data :: "u32 \<Rightarrow> u32 \<Rightarrow> u32" where
  "size_h265d_lb_pe_top_data frame_width frame_height =
     MAX_PE_NBR_DATA * (ALIGN frame_width LCU_MIN_SIZE_PELS div LCU_MIN_SIZE_PELS)"

definition size_h265d_lb_vsp_top :: "u32 \<Rightarrow> u32 \<Rightarrow> u32" where
  "size_h265d_lb_vsp_top frame_width frame_height = drop_bit 6 (frame_width + 63) * 128"

definition size_h265d_lb_vsp_left :: "u32 \<Rightarrow> u32 \<Rightarrow> u32" where
  "size_h265d_lb_vsp_left frame_width frame_height = drop_bit 6 (frame_height + 63) * 128"

definition size_h265d_lb_recon_dma_metadata_wr :: "u32 \<Rightarrow> u32 \<Rightarrow> u32" where
  "size_h265d_lb_recon_dma_metadata_wr frame_width frame_height =
     size_h264d_lb_recon_dma_metadata_wr frame_height"

definition size_h265d_qp :: "u32 \<Rightarrow> u32 \<Rightarrow> u32" where
  "size_h265d_qp frame_width frame_height = size_h264d_qp frame_width frame_height"

definition hfi_buffer_line_h265d :: "u32 \<Rightarrow> u32 \<Rightarrow> bool \<Rightarrow> u32 \<Rightarrow> u32" where
  "hfi_buffer_line_h265d frame_width frame_height is_opb num_vpp_pipes =
     (let sz =
        ALIGN (size_h265d_lb_fe_top_data frame_width frame_height) DMA_ALIGNMENT +
        ALIGN (size_h265d_lb_fe_top_ctrl frame_width frame_height) DMA_ALIGNMENT +
        ALIGN (size_h265d_lb_fe_left_ctrl frame_width frame_height) DMA_ALIGNMENT * num_vpp_pipes +
        ALIGN (size_h265d_lb_se_left_ctrl frame_width frame_height) DMA_ALIGNMENT * num_vpp_pipes +
        ALIGN (size_h265d_lb_se_top_ctrl frame_width frame_height) DMA_ALIGNMENT +
        ALIGN (size_h265d_lb_pe_top_data frame_width frame_height) DMA_ALIGNMENT +
        ALIGN (size_h265d_lb_vsp_top frame_width frame_height) DMA_ALIGNMENT +
        ALIGN (size_h265d_lb_vsp_left frame_width frame_height) DMA_ALIGNMENT * num_vpp_pipes +
        ALIGN (size_h265d_lb_recon_dma_metadata_wr frame_width frame_height) DMA_ALIGNMENT * 4 +
        ALIGN (size_h265d_qp frame_width frame_height) DMA_ALIGNMENT;
          vpss_lb_size = (if is_opb then size_vpss_lb frame_width frame_height else 0)
      in ALIGN (sz + vpss_lb_size) DMA_ALIGNMENT)"

definition size_vpxd_lb_fe_left_ctrl :: "u32 \<Rightarrow> u32 \<Rightarrow> u32" where
  "size_vpxd_lb_fe_left_ctrl frame_width frame_height =
     max (drop_bit 4 (frame_height + 15) * MAX_FE_NBR_CTRL)
       (max (drop_bit 5 (frame_height + 31) * MAX_FE_NBR_CTRL)
            (drop_bit 6 (frame_height + 63) * MAX_FE_NBR_CTRL))"

definition size_vpxd_lb_fe_top_ctrl :: "u32 \<Rightarrow> u32 \<Rightarrow> u32" where
  "size_vpxd_lb_fe_top_ctrl frame_width frame_height = (ALIGN frame_width 64 + 8) * 10 * 2"

definition size_vpxd_lb_se_top_ctrl :: "u32 \<Rightarrow> u32 \<Rightarrow> u32" where
  "size_vpxd_lb_se_top_ctrl frame_width frame_height =
     drop_bit 4 (frame_width + 15) * MAX_FE_NBR_CTRL"

definition size_vpxd_lb_se_left_ctrl :: "u32 \<Rightarrow> u32 \<Rightarrow> u32" where
  "size_vpxd_lb_se_left_ctrl frame_width frame_height =
     max (drop_bit 4 (frame_height + 15) * (128 div 8))
       (max (drop_bit 5 (frame_height + 31) * (128 div 8))
            (drop_bit 6 (frame_height + 63) * MAX_SE_NBR_CTRL))"

definition size_vpxd_lb_recon_dma_metadata_wr :: "u32 \<Rightarrow> u32 \<Rightarrow> u32" where
  "size_vpxd_lb_recon_dma_metadata_wr frame_width frame_height =
     ALIGN (ALIGN frame_height 8 div 2 * 64) 32"

definition size_mp2d_lb_fe_top_data :: "u32 \<Rightarrow> u32 \<Rightarrow> u32" where
  "size_mp2d_lb_fe_top_data frame_width frame_height = (ALIGN frame_width 16 + 8) * 10 * 2"

definition size_vp9d_lb_fe_top_data :: "u32 \<Rightarrow> u32 \<Rightarrow> u32" where
  "size_vp9d_lb_fe_top_data frame_width frame_height =
     (ALIGN (ALIGN frame_width 8) 64 + 8) * 10 * 2"

definition size_vp9d_lb_pe_top_data :: "u32 \<Rightarrow> u32 \<Rightarrow> u32" where
  "size_vp9d_lb_pe_top_data frame_width frame_height =
     drop_bit 6 (ALIGN (ALIGN frame_width 8) 64) * 176"

definition size_vp9d_lb_vsp_top :: "u32 \<Rightarrow> u32 \<Rightarrow> u32" where
  "size_vp9d_lb_vsp_top frame_width frame_height =
     drop_bit 6 (ALIGN (ALIGN frame_width 8) 64) * 64 * 8 + 256"

definition size_vp9d_qp :: "u32 \<Rightarrow> u32 \<Rightarrow> u32" where
  "size_vp9d_qp frame_width frame_height = size_h264d_qp frame_width frame_height"

definition hfi_iris3_vp9d_lb_size :: "u32 \<Rightarrow> u32 \<Rightarrow> u32 \<Rightarrow> u32" where
  "hfi_iris3_vp9d_lb_size frame_width frame_height num_vpp_pipes =
     ALIGN (size_vpxd_lb_fe_left_ctrl frame_width frame_height) DMA_ALIGNMENT * num_vpp_pipes +
     ALIGN (size_vpxd_lb_se_left_ctrl frame_width frame_height) DMA_ALIGNMENT * num_vpp_pipes +
     ALIGN (size_vp9d_lb_vsp_top frame_width frame_height) DMA_ALIGNMENT +
     ALIGN (size_vpxd_lb_fe_top_ctrl frame_width frame_height) DMA_ALIGNMENT +
     2 * ALIGN (size_vpxd_lb_recon_dma_metadata_wr frame_width frame_height) DMA_ALIGNMENT +
     ALIGN (size_vpxd_lb_se_top_ctrl frame_width frame_height) DMA_ALIGNMENT +
     ALIGN (size_vp9d_lb_pe_top_data frame_width frame_height) DMA_ALIGNMENT +
     ALIGN (size_vp9d_lb_fe_top_data frame_width frame_height) DMA_ALIGNMENT +
     ALIGN (size_vp9d_qp frame_width frame_height) DMA_ALIGNMENT"

definition hfi_buffer_line_vp9d :: "u32 \<Rightarrow> u32 \<Rightarrow> u32 \<Rightarrow> bool \<Rightarrow> u32 \<Rightarrow> u32" where
  "hfi_buffer_line_vp9d frame_width frame_height yuv_bufcount_min is_opb num_vpp_pipes =
     (let lb_size = hfi_iris3_vp9d_lb_size frame_width frame_height num_vpp_pipes;
          vpss_lb_size = (if is_opb then size_vpss_lb frame_width frame_height else 0)
      in lb_size + vpss_lb_size + 4096)"

definition hfi_buffer_line_h264d :: "u32 \<Rightarrow> u32 \<Rightarrow> bool \<Rightarrow> u32 \<Rightarrow> u32" where
  "hfi_buffer_line_h264d frame_width frame_height is_opb num_vpp_pipes =
     (let sz =
        ALIGN (size_h264d_lb_fe_top_data frame_width) DMA_ALIGNMENT +
        ALIGN (size_h264d_lb_fe_top_ctrl frame_width) DMA_ALIGNMENT +
        ALIGN (size_h264d_lb_fe_left_ctrl frame_height) DMA_ALIGNMENT * num_vpp_pipes +
        ALIGN (size_h264d_lb_se_top_ctrl frame_width) DMA_ALIGNMENT +
        ALIGN (size_h264d_lb_se_left_ctrl frame_height) DMA_ALIGNMENT * num_vpp_pipes +
        ALIGN (size_h264d_lb_pe_top_data frame_width) DMA_ALIGNMENT +
        ALIGN (size_h264d_lb_vsp_top frame_width) DMA_ALIGNMENT +
        ALIGN (size_h264d_lb_recon_dma_metadata_wr frame_height) DMA_ALIGNMENT * 2 +
        ALIGN (size_h264d_qp frame_width frame_height) DMA_ALIGNMENT;
          sz = ALIGN sz DMA_ALIGNMENT;
          vpss_lb_size = (if is_opb then size_vpss_lb frame_width frame_height else 0)
      in ALIGN (sz + vpss_lb_size) DMA_ALIGNMENT)"

end
