(* ===== verification/IrisEncSize.thy ===== *)
theory IrisEncSize
  imports IrisBufSize
begin

text \<open>
  The encoder's buffer sizes and the entry points \<open>iris_vpu_buf_size()\<close>,
  \<open>iris_vpu_buf_count()\<close> and \<open>iris_get_buffer_size()\<close>, which choose the size function of a
  buffer type from the domain and the codec of the session.
\<close>

section \<open>Bin buffers\<close>

definition size_enc_single_pipe :: "u32 \<Rightarrow> u32 \<Rightarrow> u32 \<Rightarrow> u32 \<Rightarrow> u32 \<Rightarrow> u32 \<Rightarrow> u32" where
  "size_enc_single_pipe rc_type bitbin_size num_vpp_pipes frame_width frame_height lcu_size =
     (let size_aligned_height = ALIGN frame_height lcu_size;
          size_aligned_width = ALIGN frame_width lcu_size;
          size_single_pipe_eval =
            (if 3840 * 2160 < size_aligned_width * size_aligned_height
             then bitbin_size div num_vpp_pipes
             else if 2 < num_vpp_pipes then bitbin_size div 2 else bitbin_size);
          sao_bin_buffer_size = 64 * drop_bit 10 ((frame_width + 32) * (frame_height + 32)) + 384;
          padded_bin_sz = ALIGN size_single_pipe_eval 256;
          size_single_pipe_eval = sao_bin_buffer_size + padded_bin_sz
      in ALIGN size_single_pipe_eval 256)"

definition size_bin_bitstream_enc :: "u32 \<Rightarrow> u32 \<Rightarrow> u32 \<Rightarrow> u32" where
  "size_bin_bitstream_enc width height rc_type =
     (let aligned_height = ALIGN height 32;
          aligned_width = ALIGN width 32;
          frame_size = width * height * 3;
          mbs_per_frame = ALIGN aligned_height 16 * ALIGN aligned_width 16 div 256;
          frame_size = (if mbs_per_frame < NUM_MBS_720P then push_bit 1 frame_size
                        else if mbs_per_frame \<le> NUM_MBS_4K then drop_bit 2 frame_size
                        else drop_bit 3 frame_size);
          frame_size = (if rc_type = HFI_RATE_CONTROL_OFF \<or> rc_type = HFI_RATE_CONTROL_CQ \<or>
                           rc_type = HFI_RC_OFF \<or> rc_type = HFI_RC_CQ
                        then push_bit 1 frame_size else frame_size);
          frame_size = frame_size * 5;
          frame_size = frame_size div 4
      in ALIGN frame_size SZ_4K)"

definition hfi_buffer_bin_enc :: "u32 \<Rightarrow> u32 \<Rightarrow> u32 \<Rightarrow> u32 \<Rightarrow> u32 \<Rightarrow> u32 \<Rightarrow> u32" where
  "hfi_buffer_bin_enc width height work_mode lcu_size num_vpp_pipes rc_type =
     (let aligned_height = ALIGN height lcu_size;
          aligned_width = ALIGN width lcu_size;
          bitstream_size = ALIGN (size_bin_bitstream_enc width height rc_type) 256;
          (total_bitbin_buffers, bitbin_size) =
            (if work_mode = STAGE_2 then (3, ALIGN (bitstream_size * 17 div 10) 256)
             else (1, ALIGN (aligned_width * aligned_height * 3) 256));
          size_single_pipe = (if 2 < num_vpp_pipes then bitbin_size div 2 else bitbin_size);
          size_single_pipe = ALIGN size_single_pipe 256;
          sao_bin_buffer_size = 64 * drop_bit 10 ((width + 32) * (height + 32)) + 384;
          padded_bin_size = ALIGN size_single_pipe 256;
          size_single_pipe = sao_bin_buffer_size + padded_bin_size;
          size_single_pipe = ALIGN size_single_pipe 256;
          bitbin_size = size_single_pipe * num_vpp_pipes
      in ALIGN bitbin_size 256 * total_bitbin_buffers + 512)"

section \<open>Motion vectors and control buffers\<close>

definition hfi_buffer_comv_enc :: "u32 \<Rightarrow> u32 \<Rightarrow> u32 \<Rightarrow> u32 \<Rightarrow> u32 \<Rightarrow> u32" where
  "hfi_buffer_comv_enc frame_width frame_height lcu_size num_recon standard =
     (let height_in_lcus = (frame_height + lcu_size - 1) div lcu_size;
          width_in_lcus = (frame_width + lcu_size - 1) div lcu_size;
          num_lcu_in_frame = width_in_lcus * height_in_lcus;
          mb_height = drop_bit 4 (frame_height + 15);
          mb_width = drop_bit 4 (frame_width + 15);
          size_colloc_mv = (if standard = HFI_CODEC_ENCODE_HEVC
                            then 16 * (push_bit 2 num_lcu_in_frame + 32)
                            else 3 * 16 * (width_in_lcus * height_in_lcus + 32));
          size_colloc_mv = ALIGN size_colloc_mv 256 * num_recon;
          size_colloc_rc = drop_bit 3 (mb_width + 7) * 16 * 2 * mb_height;
          size_colloc_rc = ALIGN size_colloc_rc 256 * HFI_MAX_COL_FRAME
      in size_colloc_mv + size_colloc_rc)"

definition size_frame_rc_buf_size :: "u32 \<Rightarrow> u32 \<Rightarrow> u32 \<Rightarrow> u32" where
  "size_frame_rc_buf_size standard frame_height_coded num_vpp_pipes_enc =
     (let sz = (if standard = HFI_CODEC_ENCODE_HEVC
                then 256 + 16 * (14 + drop_bit 3 (drop_bit 5 frame_height_coded + 7))
                else 256 + 16 * (14 + drop_bit 3 (drop_bit 4 frame_height_coded + 7)));
          sz = sz * 11;
          sz = (if 1 < num_vpp_pipes_enc then ALIGN sz 256 * num_vpp_pipes_enc else sz)
      in ALIGN sz 512 * HFI_MAX_COL_FRAME)"

definition size_enc_slice_info_buf :: "u32 \<Rightarrow> u32" where
  "size_enc_slice_info_buf num_lcu_in_frame = ALIGN (256 + push_bit 4 num_lcu_in_frame) 256"

definition enc_bitcnt_buf_size :: "u32 \<Rightarrow> u32" where
  "enc_bitcnt_buf_size num_lcu_in_frame = ALIGN (256 + 4 * num_lcu_in_frame) 256"

definition enc_bitmap_buf_size :: "u32 \<Rightarrow> u32" where
  "enc_bitmap_buf_size num_lcu_in_frame = ALIGN (256 + drop_bit 3 num_lcu_in_frame) 256"

definition size_override_buf :: "u32 \<Rightarrow> u32" where
  "size_override_buf num_lcumb = ALIGN (16 * drop_bit 3 (num_lcumb + 7)) 256 * 2"

definition size_ir_buf :: "u32 \<Rightarrow> u32" where
  "size_ir_buf num_lcu_in_frame =
     ALIGN (((push_bit 1 num_lcu_in_frame + 7) AND NOT 7) * 3) 256"

definition hfi_buffer_non_comv_enc :: "u32 \<Rightarrow> u32 \<Rightarrow> u32 \<Rightarrow> u32 \<Rightarrow> u32 \<Rightarrow> u32" where
  "hfi_buffer_non_comv_enc frame_width frame_height num_vpp_pipes_enc lcu_size standard =
     (let height_in_lcus = (frame_height + lcu_size - 1) div lcu_size;
          width_in_lcus = (frame_width + lcu_size - 1) div lcu_size;
          num_lcu_in_frame = width_in_lcus * height_in_lcus;
          frame_height_coded = height_in_lcus * lcu_size;
          frame_width_coded = width_in_lcus * lcu_size;
          num_lcumb = (frame_height_coded div lcu_size) *
                      ((frame_width_coded + lcu_size * 8) div lcu_size);
          frame_rc_buf_size =
            size_frame_rc_buf_size standard frame_height_coded num_vpp_pipes_enc
      in size_enc_slice_info_buf num_lcu_in_frame + ALIGN 20480 256 + (2048 + 4096) +
         frame_rc_buf_size + enc_bitcnt_buf_size num_lcu_in_frame +
         enc_bitmap_buf_size num_lcu_in_frame + ((push_bit 2 8192 + 7) AND NOT 7) * 3 +
         256 * 11 + size_override_buf num_lcumb + size_ir_buf num_lcu_in_frame)"

section \<open>Line buffers\<close>

definition size_linebuff_data :: "bool \<Rightarrow> u32 \<Rightarrow> u32" where
  "size_linebuff_data is_ten_bit frame_width_coded =
     (if is_ten_bit then
        (((10 * frame_width_coded + 1024) + (256 - 1)) AND NOT (256 - 1)) * 1 +
        ((drop_bit 1 (10 * frame_width_coded + 1024) + (256 - 1)) AND NOT (256 - 1)) * 2
      else
        (((8 * frame_width_coded + 1024) + (256 - 1)) AND NOT (256 - 1)) * 1 +
        ((drop_bit 1 (8 * frame_width_coded + 1024) + (256 - 1)) AND NOT (256 - 1)) * 2)"

definition size_left_linebuff_ctrl :: "u32 \<Rightarrow> u32 \<Rightarrow> u32 \<Rightarrow> u32" where
  "size_left_linebuff_ctrl standard frame_height_coded num_vpp_pipes_enc =
     (let sz = (if standard = HFI_CODEC_ENCODE_HEVC
                then (frame_height_coded + 32) div 32 * 4 * 16
                else (frame_height_coded + 15) div 16 * 5 * 16);
          sz = (if 1 < num_vpp_pipes_enc then ALIGN (sz + 512) 512 * num_vpp_pipes_enc else sz)
      in ALIGN sz 256)"

definition size_left_linebuff_recon_pix :: "bool \<Rightarrow> u32 \<Rightarrow> u32 \<Rightarrow> u32" where
  "size_left_linebuff_recon_pix is_ten_bit frame_height_coded num_vpp_pipes_enc =
     (let a = push_bit (unat (num_vpp_pipes_enc - 1)) 256
      in (((of_bool is_ten_bit + 1) * 2 * frame_height_coded + 256) + a - 1) AND NOT (a - 1))"

definition size_top_linebuff_ctrl_fe :: "u32 \<Rightarrow> u32 \<Rightarrow> u32" where
  "size_top_linebuff_ctrl_fe frame_width_coded standard =
     (if standard = HFI_CODEC_ENCODE_HEVC then ALIGN (64 * drop_bit 5 frame_width_coded) 256
      else ALIGN (256 + 16 * drop_bit 4 frame_width_coded) 256)"

definition size_left_linebuff_ctrl_fe :: "u32 \<Rightarrow> u32 \<Rightarrow> u32" where
  "size_left_linebuff_ctrl_fe frame_height_coded num_vpp_pipes_enc =
     (let a = push_bit (unat (num_vpp_pipes_enc - 1)) 256
      in (((256 + 64 * drop_bit 4 frame_height_coded) + a - 1) AND NOT (a - 1)) *
         num_vpp_pipes_enc)"

definition size_left_linebuff_metadata_recon_y :: "u32 \<Rightarrow> bool \<Rightarrow> u32 \<Rightarrow> u32" where
  "size_left_linebuff_metadata_recon_y frame_height_coded is_ten_bit num_vpp_pipes_enc =
     ALIGN (256 + 64 * (frame_height_coded div (8 * (if is_ten_bit then 4 else 8)))) 256 *
     num_vpp_pipes_enc"

definition size_left_linebuff_metadata_recon_uv :: "u32 \<Rightarrow> bool \<Rightarrow> u32 \<Rightarrow> u32" where
  "size_left_linebuff_metadata_recon_uv frame_height_coded is_ten_bit num_vpp_pipes_enc =
     ALIGN (256 + 64 * (frame_height_coded div (4 * (if is_ten_bit then 4 else 8)))) 256 *
     num_vpp_pipes_enc"

definition size_linebuff_recon_pix :: "bool \<Rightarrow> u32 \<Rightarrow> u32" where
  "size_linebuff_recon_pix is_ten_bit frame_width_coded =
     ALIGN ((if is_ten_bit then 3 else 2) * frame_width_coded) 256"

definition size_line_buf_ctrl :: "u32 \<Rightarrow> u32" where
  "size_line_buf_ctrl frame_width_coded = ALIGN frame_width_coded 256"

definition size_line_buf_ctrl_id2 :: "u32 \<Rightarrow> u32" where
  "size_line_buf_ctrl_id2 frame_width_coded = ALIGN frame_width_coded 256"

definition size_line_buf_sde :: "u32 \<Rightarrow> u32" where
  "size_line_buf_sde frame_width_coded = ALIGN (256 + 16 * drop_bit 4 frame_width_coded) 256"

definition size_vpss_line_buf :: "u32 \<Rightarrow> u32 \<Rightarrow> u32 \<Rightarrow> u32" where
  "size_vpss_line_buf num_vpp_pipes_enc frame_height_coded frame_width_coded =
     ALIGN ((push_bit 5 (drop_bit 2 8192) * num_vpp_pipes_enc + 64) +
            (push_bit 5 (drop_bit 2 (max frame_width_coded frame_height_coded + 3)) + 256) * 16)
       256"

definition size_top_line_buf_first_stg_sao :: "u32 \<Rightarrow> u32" where
  "size_top_line_buf_first_stg_sao frame_width_coded =
     ALIGN (16 * drop_bit 5 frame_width_coded) 256"

definition hfi_buffer_line_enc :: "u32 \<Rightarrow> u32 \<Rightarrow> bool \<Rightarrow> u32 \<Rightarrow> u32 \<Rightarrow> u32 \<Rightarrow> u32" where
  "hfi_buffer_line_enc frame_width frame_height is_ten_bit num_vpp_pipes_enc lcu_size standard =
     (let width_in_lcus = (frame_width + lcu_size - 1) div lcu_size;
          height_in_lcus = (frame_height + lcu_size - 1) div lcu_size;
          frame_height_coded = height_in_lcus * lcu_size;
          frame_width_coded = width_in_lcus * lcu_size
      in size_line_buf_ctrl frame_width_coded + size_line_buf_ctrl_id2 frame_width_coded +
         size_linebuff_data is_ten_bit frame_width_coded +
         size_left_linebuff_ctrl standard frame_height_coded num_vpp_pipes_enc +
         size_left_linebuff_recon_pix is_ten_bit frame_height_coded num_vpp_pipes_enc +
         size_top_linebuff_ctrl_fe frame_width_coded standard +
         size_left_linebuff_metadata_recon_y frame_height_coded is_ten_bit num_vpp_pipes_enc +
         size_left_linebuff_metadata_recon_uv frame_height_coded is_ten_bit num_vpp_pipes_enc +
         size_linebuff_recon_pix is_ten_bit frame_width_coded +
         size_left_linebuff_ctrl_fe frame_height_coded num_vpp_pipes_enc +
         size_line_buf_sde frame_width_coded +
         size_vpss_line_buf num_vpp_pipes_enc frame_height_coded frame_width_coded +
         size_top_line_buf_first_stg_sao frame_width_coded)"

section \<open>Reference buffers\<close>

definition size_enc_ref_buffer :: "u32 \<Rightarrow> u32 \<Rightarrow> u32" where
  "size_enc_ref_buffer frame_width frame_height =
     (let u_chroma_buffer_height = ALIGN (drop_bit 1 frame_height) 32;
          u_buffer_height = ALIGN frame_height 32;
          u_buffer_width = ALIGN frame_width 32
      in (u_buffer_height + u_chroma_buffer_height) * u_buffer_width)"

definition size_enc_ten_bit_ref_buffer :: "u32 \<Rightarrow> u32 \<Rightarrow> u32" where
  "size_enc_ten_bit_ref_buffer frame_width frame_height =
     (let ref_luma_stride_in_bytes = ((frame_width + 192 - 1) div 192) * 192;
          ref_buf_height = (frame_height + (32 - 1)) AND NOT (32 - 1);
          u_ref_stride = 4 * (ref_luma_stride_in_bytes div 3);
          u_ref_stride = (u_ref_stride + (128 - 1)) AND NOT (128 - 1);
          luma_size = ref_buf_height * u_ref_stride;
          luma_size = (luma_size + (4096 - 1)) AND NOT (4096 - 1);
          ref_chrm_height_in_bytes =
            (drop_bit 1 (frame_height + 1) + (32 - 1)) AND NOT (32 - 1);
          chroma_size = u_ref_stride * ref_chrm_height_in_bytes;
          chroma_size = (chroma_size + (4096 - 1)) AND NOT (4096 - 1)
      in luma_size + chroma_size)"

definition hfi_ubwc_calc_metadata_plane_stride :: "u32 \<Rightarrow> u32 \<Rightarrow> u32 \<Rightarrow> u32" where
  "hfi_ubwc_calc_metadata_plane_stride frame_width metadata_stride_multiple tile_width_in_pels =
     ALIGN ((frame_width + (tile_width_in_pels - 1)) div tile_width_in_pels)
       metadata_stride_multiple"

definition hfi_ubwc_metadata_plane_bufheight :: "u32 \<Rightarrow> u32 \<Rightarrow> u32 \<Rightarrow> u32" where
  "hfi_ubwc_metadata_plane_bufheight frame_height metadata_height_multiple tile_height_in_pels =
     ALIGN ((frame_height + (tile_height_in_pels - 1)) div tile_height_in_pels)
       metadata_height_multiple"

definition hfi_ubwc_metadata_plane_buffer_size :: "u32 \<Rightarrow> u32 \<Rightarrow> u32" where
  "hfi_ubwc_metadata_plane_buffer_size metadata_stride metadata_buf_height =
     ALIGN (metadata_stride * metadata_buf_height) 4096"

definition hfi_buffer_dpb_enc :: "u32 \<Rightarrow> u32 \<Rightarrow> bool \<Rightarrow> u32" where
  "hfi_buffer_dpb_enc frame_width frame_height is_ten_bit =
     (if \<not> is_ten_bit then
        let ref_buf_size = size_enc_ref_buffer frame_width frame_height;
            metadata_stride = hfi_ubwc_calc_metadata_plane_stride frame_width 64 32;
            metadata_buf_height = hfi_ubwc_metadata_plane_bufheight frame_height 16 8;
            meta_size_y = hfi_ubwc_metadata_plane_buffer_size metadata_stride metadata_buf_height;
            meta_size_c = hfi_ubwc_metadata_plane_buffer_size metadata_stride metadata_buf_height
        in ref_buf_size + meta_size_y + meta_size_c
      else
        let ten_bit_ref_buf_size = size_enc_ten_bit_ref_buffer frame_width frame_height;
            metadata_stride = hfi_ubwc_calc_metadata_plane_stride frame_width 64 48;
            metadata_buf_height = hfi_ubwc_metadata_plane_bufheight frame_height 16 4;
            meta_size_y = hfi_ubwc_metadata_plane_buffer_size metadata_stride metadata_buf_height;
            meta_size_c = hfi_ubwc_metadata_plane_buffer_size metadata_stride metadata_buf_height
        in ten_bit_ref_buf_size + meta_size_y + meta_size_c)"

definition is_scaling_enabled :: "iris_inst \<Rightarrow> bool" where
  "is_scaling_enabled inst \<longleftrightarrow>
     rect_left (crop inst) \<noteq> rect_left (compose inst) \<or>
     rect_top (crop inst) \<noteq> rect_top (compose inst) \<or>
     rect_width (crop inst) \<noteq> rect_width (compose inst) \<or>
     rect_height (crop inst) \<noteq> rect_height (compose inst)"

definition hfi_buffer_vpss_enc :: "u32 \<Rightarrow> u32 \<Rightarrow> bool \<Rightarrow> u32 \<Rightarrow> bool \<Rightarrow> u32" where
  "hfi_buffer_vpss_enc dswidth dsheight ds_enable blur is_ten_bit =
     (if ds_enable \<or> blur \<noteq> 0 then hfi_buffer_dpb_enc dswidth dsheight is_ten_bit else 0)"

section \<open>Scratch buffers\<close>

definition hfi_buffer_scratch1_enc ::
    "u32 \<Rightarrow> u32 \<Rightarrow> u32 \<Rightarrow> u32 \<Rightarrow> bool \<Rightarrow> u32 \<Rightarrow> bool \<Rightarrow> u32" where
  "hfi_buffer_scratch1_enc frame_width frame_height lcu_size num_ref ten_bit num_vpp_pipes is_h265 =
     (let width_lcu_num = (frame_width + lcu_size - 1) div lcu_size;
          height_lcu_num = (frame_height + lcu_size - 1) div lcu_size;
          frame_num_lcu = width_lcu_num * height_lcu_num;
          width_coded = width_lcu_num * lcu_size;
          height_coded = height_lcu_num * lcu_size;
          num_lcu_mb = (height_coded div lcu_size) * ((width_coded + lcu_size * 8) div lcu_size);
          pipe_align = push_bit (unat (num_vpp_pipes - 1)) 256;
          slice_info_bufsize = ALIGN (256 + push_bit 4 frame_num_lcu) 256;
          line_buf_ctrl_size = ALIGN width_coded 256;
          line_buf_ctrl_size_buffid2 = ALIGN width_coded 256;
          bit_depth = (if ten_bit then 10 else 8);
          line_buf_data_size =
            (((bit_depth * width_coded + 1024) + (256 - 1)) AND NOT (256 - 1)) * 1 +
            ((drop_bit 1 (bit_depth * width_coded + 1024) + (256 - 1)) AND NOT (256 - 1)) * 2;
          leftline_buf_ctrl_size = (if is_h265 then (height_coded + 32) div 32 * 4 * 16
                                    else (height_coded + 15) div 16 * 5 * 16);
          leftline_buf_ctrl_size =
            (if 1 < num_vpp_pipes then ALIGN (leftline_buf_ctrl_size + 512) 512 * num_vpp_pipes
             else leftline_buf_ctrl_size);
          leftline_buf_ctrl_size = ALIGN leftline_buf_ctrl_size 256;
          leftline_buf_recon_pix_size =
            (((of_bool ten_bit + 1) * 2 * height_coded + 256) + pipe_align - 1)
            AND NOT (pipe_align - 1);
          topline_buf_ctrl_size_FE = (if is_h265 then 64 * drop_bit 5 width_coded
                                      else 256 + 16 * drop_bit 4 width_coded);
          topline_buf_ctrl_size_FE = ALIGN topline_buf_ctrl_size_FE 256;
          leftline_buf_ctrl_size_FE =
            (((256 + 64 * drop_bit 4 height_coded) + pipe_align - 1) AND NOT (pipe_align - 1)) *
            num_vpp_pipes;
          leftline_buf_meta_recony =
            ALIGN (256 + 64 * (height_coded div (8 * (if ten_bit then 4 else 8)))) 256 *
            num_vpp_pipes;
          linebuf_meta_recon_uv =
            ALIGN (256 + 64 * (height_coded div (4 * (if ten_bit then 4 else 8)))) 256 *
            num_vpp_pipes;
          line_buf_recon_pix_size = ALIGN ((if ten_bit then 3 else 2) * width_coded) 256;
          slice_cmd_buffer_size = ALIGN 20480 256;
          sps_pps_slice_hdr = 2048 + 4096;
          col_mv_buf_size = (if is_h265 then 16 * (push_bit 2 frame_num_lcu + 32)
                             else 3 * 16 * (width_lcu_num * height_lcu_num + 32));
          col_mv_buf_size = ALIGN col_mv_buf_size 256 * (num_ref + 1);
          h265e_colrcbuf_size = drop_bit 3 (width_lcu_num + 7) * 16 * 2 * height_lcu_num;
          h265e_colrcbuf_size =
            (if 1 < num_vpp_pipes then ALIGN h265e_colrcbuf_size 256 * num_vpp_pipes
             else h265e_colrcbuf_size);
          h265e_colrcbuf_size = ALIGN h265e_colrcbuf_size 256 * HFI_MAX_COL_FRAME;
          h265e_framerc_bufsize =
            (if is_h265 then 256 + 16 * (14 + drop_bit 3 (drop_bit 5 height_coded + 7))
             else 256 + 16 * (14 + drop_bit 3 (drop_bit 4 height_coded + 7)));
          h265e_framerc_bufsize = h265e_framerc_bufsize * 6;
          h265e_framerc_bufsize =
            (if 1 < num_vpp_pipes then ALIGN h265e_framerc_bufsize 256 * num_vpp_pipes
             else h265e_framerc_bufsize);
          h265e_framerc_bufsize = ALIGN h265e_framerc_bufsize 512 * HFI_MAX_COL_FRAME;
          h265e_lcubitcnt_bufsize = ALIGN (256 + 4 * frame_num_lcu) 256;
          h265e_lcubitmap_bufsize = ALIGN (256 + drop_bit 3 frame_num_lcu) 256;
          line_buf_sde_size = ALIGN (256 + 16 * drop_bit 4 width_coded) 256;
          se_stats_bufsize =
            (if 4096 * 2160 < width_coded * height_coded then 0
             else if 1920 * 1088 < width_coded * height_coded
             then 40 * 4 * frame_num_lcu + 256 + 256
             else 1024 * frame_num_lcu + 256 + 256);
          se_stats_bufsize = ALIGN se_stats_bufsize 256 * 2;
          bse_slice_cmd_buffer_size = ((push_bit 2 8192 + 7) AND NOT 7) * 6;
          bse_reg_buffer_size = ((push_bit 3 512 + 7) AND NOT 7) * 4;
          vpp_reg_buffer_size = ((push_bit 3 2048 + 31) AND NOT 31) * 10;
          lambda_lut_size = 256 * 11;
          override_buffer_size = 16 * drop_bit 3 (num_lcu_mb + 7);
          override_buffer_size = ALIGN override_buffer_size 256 * 2;
          ir_buffer_size = ((push_bit 1 frame_num_lcu + 7) AND NOT 7) * 3;
          vpss_line_buffer_size_1 = push_bit 5 (drop_bit 2 8192) * num_vpp_pipes + 64;
          vpss_line_buf =
            (push_bit 5 (drop_bit 2 (max width_coded height_coded + 3)) + 256) * 16 +
            vpss_line_buffer_size_1;
          topline_bufsize_fe_1stg_sao = ALIGN (16 * drop_bit 5 width_coded) 256
      in line_buf_ctrl_size + line_buf_data_size + line_buf_ctrl_size_buffid2 +
         leftline_buf_ctrl_size + vpss_line_buf + col_mv_buf_size + topline_buf_ctrl_size_FE +
         leftline_buf_ctrl_size_FE + line_buf_recon_pix_size + leftline_buf_recon_pix_size +
         leftline_buf_meta_recony + linebuf_meta_recon_uv + h265e_colrcbuf_size +
         h265e_framerc_bufsize + h265e_lcubitcnt_bufsize + h265e_lcubitmap_bufsize +
         line_buf_sde_size + topline_bufsize_fe_1stg_sao + override_buffer_size +
         bse_reg_buffer_size + vpp_reg_buffer_size + sps_pps_slice_hdr + slice_cmd_buffer_size +
         bse_slice_cmd_buffer_size + ir_buffer_size + slice_info_bufsize + lambda_lut_size +
         se_stats_bufsize + 1024)"

definition ubwc_metadata_plane_stride :: "u32 \<Rightarrow> u32 \<Rightarrow> u32 \<Rightarrow> u32" where
  "ubwc_metadata_plane_stride width metadata_stride_multi tile_width_pels =
     ALIGN ((width + (tile_width_pels - 1)) div tile_width_pels) metadata_stride_multi"

definition ubwc_metadata_plane_bufheight :: "u32 \<Rightarrow> u32 \<Rightarrow> u32 \<Rightarrow> u32" where
  "ubwc_metadata_plane_bufheight height metadata_height_multi tile_height_pels =
     ALIGN ((height + (tile_height_pels - 1)) div tile_height_pels) metadata_height_multi"

definition ubwc_metadata_plane_buffer_size :: "u32 \<Rightarrow> u32 \<Rightarrow> u32" where
  "ubwc_metadata_plane_buffer_size metadata_stride metadata_buf_height =
     ALIGN (metadata_stride * metadata_buf_height) SZ_4K"

definition hfi_buffer_scratch2_enc :: "u32 \<Rightarrow> u32 \<Rightarrow> u32 \<Rightarrow> bool \<Rightarrow> u32" where
  "hfi_buffer_scratch2_enc frame_width frame_height num_ref ten_bit =
     (if \<not> ten_bit then
        let aligned_height = ALIGN frame_height 32;
            chroma_height = ALIGN (drop_bit 1 frame_height) 32;
            aligned_width = ALIGN frame_width 128;
            metadata_stride = ubwc_metadata_plane_stride frame_width 64 32;
            meta_buf_height = ubwc_metadata_plane_bufheight frame_height 16 8;
            meta_size_y = ubwc_metadata_plane_buffer_size metadata_stride meta_buf_height;
            meta_size_c = ubwc_metadata_plane_buffer_size metadata_stride meta_buf_height;
            sz = (aligned_height + chroma_height) * aligned_width + meta_size_y + meta_size_c
        in sz * (num_ref + 3) + 4096
      else
        let ref_buf_height = (frame_height + (32 - 1)) AND NOT (32 - 1);
            ref_luma_stride_bytes = ((frame_width + 192 - 1) div 192) * 192;
            ref_stride = 4 * (ref_luma_stride_bytes div 3);
            ref_stride = (ref_stride + (128 - 1)) AND NOT (128 - 1);
            luma_size = ref_buf_height * ref_stride;
            ref_chroma_height_bytes =
              (drop_bit 1 (frame_height + 1) + (32 - 1)) AND NOT (32 - 1);
            chroma_size = ref_stride * ref_chroma_height_bytes;
            luma_size = (luma_size + (SZ_4K - 1)) AND NOT (SZ_4K - 1);
            chroma_size = (chroma_size + (SZ_4K - 1)) AND NOT (SZ_4K - 1);
            ref_buf_size = luma_size + chroma_size;
            metadata_stride = ubwc_metadata_plane_stride frame_width 64 48;
            meta_buf_height = ubwc_metadata_plane_bufheight frame_height 16 4;
            meta_size_y = ubwc_metadata_plane_buffer_size metadata_stride meta_buf_height;
            meta_size_c = ubwc_metadata_plane_buffer_size metadata_stride meta_buf_height;
            sz = ref_buf_size + meta_size_y + meta_size_c
        in sz * (num_ref + 3) + 4096)"

end
