(* ===== verification/IrisVpuBuffer.thy ===== *)
theory IrisVpuBuffer
  imports IrisEncSize
begin

text \<open>
  Which size and how many buffers: the client buffer sizes of \<open>iris_buffer.c\<close>, the internal
  buffer sizes of \<open>iris_vpu_buffer.c\<close> by domain and codec, and the buffer counts. The C
  functions return the unsigned size as an \<open>int\<close>; \<open>sint\<close> is that
  conversion. \<open>IrisBufBounds\<close> proves the sizes right.
\<close>

section \<open>Client buffers\<close>

definition iris_yuv_buffer_size_nv12 :: "iris_inst \<Rightarrow> u32" where
  "iris_yuv_buffer_size_nv12 inst =
     (let f = (if domain inst = DECODER then fmt_dst inst else fmt_src inst);
          y_stride = ALIGN (pix_width f) 128;
          uv_stride = ALIGN (pix_width f) 128;
          y_scanlines = ALIGN (pix_height f) 32;
          uv_scanlines = ALIGN (drop_bit 1 (pix_height f + 1)) 16;
          y_plane = y_stride * y_scanlines;
          uv_plane = uv_stride * uv_scanlines
      in ALIGN (y_plane + uv_plane) PIXELS_4K)"

definition iris_yuv_buffer_size_p010 :: "iris_inst \<Rightarrow> u32" where
  "iris_yuv_buffer_size_p010 inst =
     (let f = fmt_dst inst;
          y_stride = ALIGN (pix_width f * 2) 128;
          uv_stride = ALIGN (pix_width f * 2) 128;
          y_scanlines = ALIGN (pix_height f) 32;
          uv_scanlines = ALIGN (drop_bit 1 (pix_height f + 1)) 16;
          y_plane = y_stride * y_scanlines;
          uv_plane = uv_stride * uv_scanlines
      in ALIGN (y_plane + uv_plane) PIXELS_4K)"

definition iris_yuv_buffer_size_qc08c :: "iris_inst \<Rightarrow> u32" where
  "iris_yuv_buffer_size_qc08c inst =
     (let f = fmt_dst inst;
          y_meta_stride = ALIGN (DIV_ROUND_UP (pix_width f) 32) 64;
          y_meta_plane = y_meta_stride * ALIGN (DIV_ROUND_UP (pix_height f) 8) 16;
          y_meta_plane = ALIGN y_meta_plane PIXELS_4K;
          y_stride = ALIGN (pix_width f) 128;
          y_plane = ALIGN (y_stride * ALIGN (pix_height f) 32) PIXELS_4K;
          uv_meta_stride = ALIGN (DIV_ROUND_UP (pix_width f div 2) 16) 64;
          uv_meta_plane = uv_meta_stride * ALIGN (DIV_ROUND_UP (pix_height f div 2) 8) 16;
          uv_meta_plane = ALIGN uv_meta_plane PIXELS_4K;
          uv_stride = ALIGN (pix_width f) 128;
          uv_plane = ALIGN (uv_stride * ALIGN (pix_height f div 2) 32) PIXELS_4K
      in ALIGN (y_meta_plane + y_plane + uv_meta_plane + uv_plane) PIXELS_4K)"

definition iris_yuv_buffer_size_qc10c :: "iris_inst \<Rightarrow> u32" where
  "iris_yuv_buffer_size_qc10c inst =
     (let f = fmt_dst inst;
          extradata = SZ_16K;
          y_stride = ALIGN (pix_width f * 4 div 3) 256;
          uv_stride = ALIGN (pix_width f * 4 div 3) 256;
          y_scanlines = ALIGN (pix_height f) 16;
          uv_scanlines = ALIGN (drop_bit 1 (pix_height f + 1)) 16;
          y_plane = ALIGN (y_stride * y_scanlines) SZ_4K;
          uv_plane = ALIGN (uv_stride * uv_scanlines) SZ_4K;
          y_meta_stride = ALIGN (DIV_ROUND_UP (pix_width f) 48) 64;
          y_meta_scanlines = ALIGN (DIV_ROUND_UP (pix_height f) 4) 16;
          y_meta_plane = ALIGN (y_meta_stride * y_meta_scanlines) SZ_4K;
          uv_meta_stride = ALIGN (DIV_ROUND_UP (drop_bit 1 (pix_width f + 1)) 24) 64;
          uv_meta_scanlines = ALIGN (DIV_ROUND_UP (drop_bit 1 (pix_height f + 1)) 4) 16;
          uv_meta_plane = ALIGN (uv_meta_stride * uv_meta_scanlines) SZ_4K;
          sz = y_plane + uv_plane + y_meta_plane + uv_meta_plane;
          sz = sz + max (extradata + SZ_8K) (y_stride * 48)
      in ALIGN sz SZ_4K)"

definition iris_dec_bitstream_buffer_size :: "iris_platform_data \<Rightarrow> iris_inst \<Rightarrow> u32" where
  "iris_dec_bitstream_buffer_size pd inst =
     (let num_mbs = iris_get_mbpf inst;
          (div_factor, base_res_mbs) =
            (if NUM_MBS_4K < num_mbs then (4, max_mbpf (inst_caps pd))
             else (if codec inst = V4L2_PIX_FMT_VP9 then 1 else 2, NUM_MBS_4K));
          frame_size = base_res_mbs * (16 * 16) * 3 div 2 div div_factor
      in ALIGN frame_size PIXELS_4K)"

definition iris_enc_bitstream_buffer_size :: "iris_inst \<Rightarrow> u32" where
  "iris_enc_bitstream_buffer_size inst =
     (let f = fmt_dst inst;
          aligned_width = ALIGN (pix_width f) 32;
          aligned_height = ALIGN (pix_height f) 32;
          bitstream_size = aligned_width * aligned_height * 3;
          yuv_size = drop_bit 1 (aligned_width * aligned_height * 3);
          bitstream_size =
            (if 4096 * 2176 < aligned_width * aligned_height then drop_bit 3 bitstream_size
             else if 1280 * 720 < aligned_width * aligned_height then drop_bit 2 bitstream_size
             else bitstream_size);
          bitstream_size =
            (if (cap_value (fw_caps inst FRAME_RC_ENABLE) = 0 \<or>
                 cap_value (fw_caps inst BITRATE_MODE) = V4L2_MPEG_VIDEO_BITRATE_MODE_CQ) \<and>
                bitstream_size < yuv_size
             then push_bit 1 bitstream_size else bitstream_size)
      in ALIGN bitstream_size 4096)"

definition iris_get_buffer_size :: "iris_platform_data \<Rightarrow> iris_inst \<Rightarrow> iris_buffer_type \<Rightarrow> int" where
  "iris_get_buffer_size pd inst buffer_type = sint
     (if domain inst = DECODER then
        (case buffer_type of
           BUF_INPUT \<Rightarrow> iris_dec_bitstream_buffer_size pd inst
         | BUF_OUTPUT \<Rightarrow>
             (if pixelformat (fmt_dst inst) = V4L2_PIX_FMT_P010
              then iris_yuv_buffer_size_p010 inst else iris_yuv_buffer_size_nv12 inst)
         | BUF_DPB \<Rightarrow>
             (if pixelformat (fmt_dst inst) = V4L2_PIX_FMT_P010
              then iris_yuv_buffer_size_qc10c inst else iris_yuv_buffer_size_qc08c inst)
         | _ \<Rightarrow> 0)
      else
        (case buffer_type of
           BUF_INPUT \<Rightarrow> iris_yuv_buffer_size_nv12 inst
         | BUF_OUTPUT \<Rightarrow> iris_enc_bitstream_buffer_size inst
         | _ \<Rightarrow> 0))"

section \<open>Internal buffers of the decoder\<close>

definition iris_vpu_dec_bin_size :: "iris_platform_data \<Rightarrow> iris_inst \<Rightarrow> u32" where
  "iris_vpu_dec_bin_size pd inst =
     (let num_vpp_pipes = num_vpp_pipe pd;
          height = pix_height (fmt_src inst);
          width = pix_width (fmt_src inst)
      in if codec inst = V4L2_PIX_FMT_H264 then hfi_buffer_bin_h264d width height num_vpp_pipes
         else if codec inst = V4L2_PIX_FMT_HEVC then hfi_buffer_bin_h265d width height num_vpp_pipes
         else if codec inst = V4L2_PIX_FMT_VP9 then hfi_buffer_bin_vp9d width height num_vpp_pipes
         else 0)"

definition iris_vpu_dec_comv_size :: "iris_platform_data \<Rightarrow> iris_inst \<Rightarrow> u32" where
  "iris_vpu_dec_comv_size pd inst =
     (let num_comv = VIDEO_MAX_FRAME;
          height = pix_height (fmt_src inst);
          width = pix_width (fmt_src inst)
      in if codec inst = V4L2_PIX_FMT_H264 then hfi_buffer_comv_h264d width height num_comv
         else if codec inst = V4L2_PIX_FMT_HEVC then hfi_buffer_comv_h265d width height num_comv
         else 0)"

definition iris_vpu_dec_persist_size :: "iris_platform_data \<Rightarrow> iris_inst \<Rightarrow> u32" where
  "iris_vpu_dec_persist_size pd inst =
     (if codec inst = V4L2_PIX_FMT_H264 then hfi_buffer_persist_h264d
      else if codec inst = V4L2_PIX_FMT_HEVC then hfi_buffer_persist_h265d 0
      else if codec inst = V4L2_PIX_FMT_VP9 then hfi_buffer_persist_vp9d
      else 0)"

definition iris_vpu_dec_dpb_size :: "iris_platform_data \<Rightarrow> iris_inst \<Rightarrow> u32" where
  "iris_vpu_dec_dpb_size pd inst =
     (if iris_split_mode_enabled inst then word_of_int (iris_get_buffer_size pd inst BUF_DPB)
      else 0)"

definition iris_vpu_dec_non_comv_size :: "iris_platform_data \<Rightarrow> iris_inst \<Rightarrow> u32" where
  "iris_vpu_dec_non_comv_size pd inst =
     (let num_vpp_pipes = num_vpp_pipe pd;
          height = pix_height (fmt_src inst);
          width = pix_width (fmt_src inst)
      in if codec inst = V4L2_PIX_FMT_H264 then hfi_buffer_non_comv_h264d width height num_vpp_pipes
         else if codec inst = V4L2_PIX_FMT_HEVC
         then hfi_buffer_non_comv_h265d width height num_vpp_pipes
         else 0)"

definition iris_vpu_dec_line_size :: "iris_platform_data \<Rightarrow> iris_inst \<Rightarrow> u32" where
  "iris_vpu_dec_line_size pd inst =
     (let num_vpp_pipes = num_vpp_pipe pd;
          height = pix_height (fmt_src inst);
          width = pix_width (fmt_src inst);
          out_min_count = min_count (buffers inst BUF_OUTPUT);
          is_opb = iris_split_mode_enabled inst
      in if codec inst = V4L2_PIX_FMT_H264
         then hfi_buffer_line_h264d width height is_opb num_vpp_pipes
         else if codec inst = V4L2_PIX_FMT_HEVC
         then hfi_buffer_line_h265d width height is_opb num_vpp_pipes
         else if codec inst = V4L2_PIX_FMT_VP9
         then hfi_buffer_line_vp9d width height out_min_count is_opb num_vpp_pipes
         else 0)"

definition iris_vpu_dec_scratch1_size :: "iris_platform_data \<Rightarrow> iris_inst \<Rightarrow> u32" where
  "iris_vpu_dec_scratch1_size pd inst =
     iris_vpu_dec_comv_size pd inst + iris_vpu_dec_non_comv_size pd inst +
     iris_vpu_dec_line_size pd inst"

section \<open>Internal buffers of the encoder\<close>

definition iris_vpu_enc_bin_size :: "iris_platform_data \<Rightarrow> iris_inst \<Rightarrow> u32" where
  "iris_vpu_enc_bin_size pd inst =
     (let height = pix_height (fmt_dst inst);
          width = pix_width (fmt_dst inst);
          lcu_size = (if codec inst = V4L2_PIX_FMT_HEVC then 32 else 16)
      in hfi_buffer_bin_enc width height (word_of_int (cap_value (fw_caps inst STAGE))) lcu_size (num_vpp_pipe pd)
           (hfi_rc_type inst))"

definition iris_vpu_enc_comv_size :: "iris_platform_data \<Rightarrow> iris_inst \<Rightarrow> u32" where
  "iris_vpu_enc_comv_size pd inst =
     (let height = pix_height (fmt_dst inst);
          width = pix_width (fmt_dst inst);
          num_recon = 1
      in if codec inst = V4L2_PIX_FMT_HEVC
         then hfi_buffer_comv_enc width height 32 (num_recon + 1) HFI_CODEC_ENCODE_HEVC
         else hfi_buffer_comv_enc width height 16 (num_recon + 1) HFI_CODEC_ENCODE_AVC)"

definition iris_vpu_enc_non_comv_size :: "iris_platform_data \<Rightarrow> iris_inst \<Rightarrow> u32" where
  "iris_vpu_enc_non_comv_size pd inst =
     (let height = pix_height (fmt_dst inst);
          width = pix_width (fmt_dst inst);
          num_vpp_pipes = num_vpp_pipe pd
      in if codec inst = V4L2_PIX_FMT_HEVC
         then hfi_buffer_non_comv_enc width height num_vpp_pipes 32 HFI_CODEC_ENCODE_HEVC + 256
         else hfi_buffer_non_comv_enc width height num_vpp_pipes 16 HFI_CODEC_ENCODE_AVC)"

definition iris_vpu_enc_line_size :: "iris_platform_data \<Rightarrow> iris_inst \<Rightarrow> u32" where
  "iris_vpu_enc_line_size pd inst =
     (let height = pix_height (fmt_dst inst);
          width = pix_width (fmt_dst inst);
          num_vpp_pipes = num_vpp_pipe pd
      in if codec inst = V4L2_PIX_FMT_HEVC
         then hfi_buffer_line_enc width height False num_vpp_pipes 32 HFI_CODEC_ENCODE_HEVC
         else hfi_buffer_line_enc width height False num_vpp_pipes 16 HFI_CODEC_ENCODE_AVC)"

definition iris_vpu_enc_arp_size :: "iris_platform_data \<Rightarrow> iris_inst \<Rightarrow> u32" where
  "iris_vpu_enc_arp_size pd inst = 204800"

definition iris_vpu_enc_scratch1_size :: "iris_platform_data \<Rightarrow> iris_inst \<Rightarrow> u32" where
  "iris_vpu_enc_scratch1_size pd inst =
     (let frame_height = pix_height (fmt_dst inst);
          frame_width = pix_width (fmt_dst inst);
          num_ref = 1
      in if codec inst = V4L2_PIX_FMT_H264
         then hfi_buffer_scratch1_enc frame_width frame_height 16 num_ref False
                (num_vpp_pipe pd) False
         else if codec inst = V4L2_PIX_FMT_HEVC
         then hfi_buffer_scratch1_enc frame_width frame_height 32 num_ref False
                (num_vpp_pipe pd) True
         else 0)"

definition iris_vpu_enc_scratch2_size :: "iris_platform_data \<Rightarrow> iris_inst \<Rightarrow> u32" where
  "iris_vpu_enc_scratch2_size pd inst =
     hfi_buffer_scratch2_enc (pix_width (fmt_dst inst)) (pix_height (fmt_dst inst)) 1 False"

definition iris_vpu_enc_vpss_size :: "iris_platform_data \<Rightarrow> iris_inst \<Rightarrow> u32" where
  "iris_vpu_enc_vpss_size pd inst =
     (let ds_enable = is_scaling_enabled inst;
          height = pix_height (fmt_dst inst);
          width = pix_width (fmt_dst inst)
      in hfi_buffer_vpss_enc width height ds_enable 0 False)"

section \<open>Sizes and counts by type\<close>

definition iris_vpu_buf_size :: "iris_platform_data \<Rightarrow> iris_inst \<Rightarrow> iris_buffer_type \<Rightarrow> int" where
  "iris_vpu_buf_size pd inst buffer_type = sint
     (case domain inst of
        DECODER \<Rightarrow>
          (case buffer_type of
             BUF_BIN \<Rightarrow> iris_vpu_dec_bin_size pd inst
           | BUF_COMV \<Rightarrow> iris_vpu_dec_comv_size pd inst
           | BUF_NON_COMV \<Rightarrow> iris_vpu_dec_non_comv_size pd inst
           | BUF_LINE \<Rightarrow> iris_vpu_dec_line_size pd inst
           | BUF_PERSIST \<Rightarrow> iris_vpu_dec_persist_size pd inst
           | BUF_DPB \<Rightarrow> iris_vpu_dec_dpb_size pd inst
           | BUF_SCRATCH_1 \<Rightarrow> iris_vpu_dec_scratch1_size pd inst
           | _ \<Rightarrow> 0)
      | ENCODER \<Rightarrow>
          (case buffer_type of
             BUF_BIN \<Rightarrow> iris_vpu_enc_bin_size pd inst
           | BUF_COMV \<Rightarrow> iris_vpu_enc_comv_size pd inst
           | BUF_NON_COMV \<Rightarrow> iris_vpu_enc_non_comv_size pd inst
           | BUF_LINE \<Rightarrow> iris_vpu_enc_line_size pd inst
           | BUF_ARP \<Rightarrow> iris_vpu_enc_arp_size pd inst
           | BUF_VPSS \<Rightarrow> iris_vpu_enc_vpss_size pd inst
           | BUF_SCRATCH_1 \<Rightarrow> iris_vpu_enc_scratch1_size pd inst
           | BUF_SCRATCH_2 \<Rightarrow> iris_vpu_enc_scratch2_size pd inst
           | _ \<Rightarrow> 0))"

definition output_min_count :: "iris_inst \<Rightarrow> int" where
  "output_min_count inst =
     (if fw_min_count inst \<noteq> 0 then
        (if iris_split_mode_enabled inst \<and> codec inst = V4L2_PIX_FMT_VP9
         then sint (min 4 (fw_min_count inst)) else sint (fw_min_count inst))
      else if codec inst = V4L2_PIX_FMT_VP9 then 9 else 4)"

definition internal_buffer_count :: "iris_inst \<Rightarrow> iris_buffer_type \<Rightarrow> u32" where
  "internal_buffer_count inst buffer_type =
     (if buffer_type = BUF_BIN \<or> buffer_type = BUF_LINE \<or> buffer_type = BUF_PERSIST then 1
      else if (buffer_type = BUF_COMV \<or> buffer_type = BUF_NON_COMV) \<and>
              (codec inst = V4L2_PIX_FMT_H264 \<or> codec inst = V4L2_PIX_FMT_HEVC) then 1
      else 0)"

definition iris_vpu_dpb_count :: "iris_platform_data \<Rightarrow> iris_inst \<Rightarrow> int" where
  "iris_vpu_dpb_count pd inst =
     (if iris_split_mode_enabled inst then
        (if fw_min_count inst = 0 \<and> legacy_vpu5 pd then sint VIDEO_MAX_FRAME
         else sint (if fw_min_count inst \<noteq> 0 then fw_min_count inst
                    else min_count (buffers inst BUF_OUTPUT)))
      else 0)"

definition iris_vpu_buf_count :: "iris_platform_data \<Rightarrow> iris_inst \<Rightarrow> iris_buffer_type \<Rightarrow> int" where
  "iris_vpu_buf_count pd inst buffer_type =
     (case buffer_type of
        BUF_INPUT \<Rightarrow> sint MIN_BUFFERS
      | BUF_OUTPUT \<Rightarrow> (if domain inst = ENCODER then sint MIN_BUFFERS else output_min_count inst)
      | BUF_DPB \<Rightarrow> iris_vpu_dpb_count pd inst
      | BUF_SCRATCH_1 \<Rightarrow> 1
      | BUF_SCRATCH_2 \<Rightarrow> 1
      | BUF_VPSS \<Rightarrow> 1
      | BUF_ARP \<Rightarrow> 1
      | _ \<Rightarrow> sint (internal_buffer_count inst buffer_type))"

end
