(* ===== verification/IrisBufBounds.thy ===== *)
theory IrisBufBounds
  imports IrisVpuBuffer
begin

text \<open>
  The buffer sizes are right: a small calculus of upper bounds for 32-bit expressions, the
  frames the driver accepts (the checks of \<open>iris_vb2.c\<close>), and the theorems that for every
  such frame the sizes of \<open>IrisVpuBuffer\<close> neither wrap nor turn negative as the \<open>int\<close> the
  driver returns, that the combined scratch buffer holds its parts, and that a client buffer
  holds the frame.
\<close>

section \<open>Bounds on word expressions\<close>

text \<open>
  \<open>below x N\<close> bounds the value of a word. Wrapping only makes a value smaller, so the rules
  follow the shape of the term without side conditions; where the bound of a sum or product
  fits the word, the operation is the one on natural numbers.
\<close>

definition below :: "u32 \<Rightarrow> nat \<Rightarrow> bool" where
  "below x N \<longleftrightarrow> unat x \<le> N"

named_theorems below_rules \<open>upper bounds of word expressions\<close>

lemma below_mono: "below x M \<Longrightarrow> M \<le> N \<Longrightarrow> below x N"
  by (simp add: below_def)

lemma below_unat: "below x (unat x)"
  by (simp add: below_def)

lemmas below_numeral [below_rules] = below_unat[of "numeral k" for k]
lemmas below_numeral_minus [below_rules] = below_unat[of "numeral k - 1" for k]
lemmas below_0 [below_rules] = below_unat[of 0]
lemmas below_1 [below_rules] = below_unat[of 1]

lemma below_add [below_rules]: "below x M \<Longrightarrow> below y N \<Longrightarrow> below (x + y) (M + N)"
  unfolding below_def unat_word_ariths by (meson add_mono mod_less_eq_dividend order_trans)

lemma below_mult [below_rules]: "below x M \<Longrightarrow> below y N \<Longrightarrow> below (x * y) (M * N)"
  unfolding below_def unat_word_ariths by (meson mod_less_eq_dividend mult_le_mono order_trans)

lemma below_div_le: "below x M \<Longrightarrow> below (x div y) M"
  unfolding below_def unat_div_distrib by (meson div_le_dividend order_trans)

lemma below_div [below_rules]: "below x M \<Longrightarrow> below (x div y) (M div unat y)"
  unfolding below_def unat_div_distrib by (rule div_le_mono)

lemma below_drop_bit [below_rules]: "below x M \<Longrightarrow> below (drop_bit k x) (M div 2 ^ k)"
  unfolding below_def unat_drop_bit_eq
  unfolding drop_bit_eq_div by (rule div_le_mono)

lemma below_push_bit [below_rules]: "below x M \<Longrightarrow> below (push_bit k x) (M * 2 ^ k)"
  unfolding below_def unsigned_push_bit_eq
  unfolding take_bit_eq_mod push_bit_eq_mult
  by (meson mod_less_eq_dividend mult_le_mono1 order_trans)

lemma below_max [below_rules]: "below x M \<Longrightarrow> below y N \<Longrightarrow> below (max x y) (max M N)"
  unfolding below_def by (simp add: max_def word_le_nat_alt)

lemma below_min [below_rules]: "below y N \<Longrightarrow> below (min x y) N"
  unfolding below_def by (simp add: min_def word_le_nat_alt)

lemma below_if [below_rules]:
  "below x M \<Longrightarrow> below y N \<Longrightarrow> below (if b then x else y) (max M N)"
  unfolding below_def by (simp add: le_max_iff_disj)

lemma below_and: "below x M \<Longrightarrow> below (x AND y) M"
  unfolding below_def using word_and_le2 word_le_nat_alt order_trans by (metis and.commute)

lemma below_ALIGN [below_rules]: "below x M \<Longrightarrow> below (a - 1) A \<Longrightarrow> below (ALIGN x a) (M + A)"
  unfolding ALIGN_def by (intro below_and below_add)

lemma below_DIV_ROUND_UP [below_rules]:
  "below x M \<Longrightarrow> below (d - 1) D \<Longrightarrow> below (DIV_ROUND_UP x d) ((M + D) div unat d)"
  unfolding DIV_ROUND_UP_def add_diff_eq[symmetric] by (intro below_div below_add)

lemma below_round_up [below_rules]:
  "below x M \<Longrightarrow> below (d - 1) D \<Longrightarrow> below (x + d - 1) (M + D)"
  unfolding add_diff_eq[symmetric] by (rule below_add)

lemma unat_add_below: "below x M \<Longrightarrow> below y N \<Longrightarrow> M + N < 2 ^ 32 \<Longrightarrow> unat (x + y) = unat x + unat y"
  unfolding below_def by (simp add: unat_word_ariths)

lemma unat_mult_below:
  "below x M \<Longrightarrow> below y N \<Longrightarrow> M * N < 2 ^ 32 \<Longrightarrow> unat (x * y) = unat x * unat y"
  unfolding below_def unat_word_ariths using mult_le_mono[of "unat x" M "unat y" N]
  by simp

lemma sint_below: assumes "below x N" "N < 2 ^ 31" shows "sint x = int (unat x)"
proof -
  have "unat x < 2147483648"
    using assms unfolding below_def by simp
  then have "uint x < 2147483648"
    by (metis of_nat_less_iff of_nat_numeral uint_nat)
  then show ?thesis
    unfolding sint_uint
    by (subst signed_take_bit_int_eq_self) (use order_trans[OF _ uint_ge_0[of x], of "- 2147483648"] in auto)
qed

section \<open>Frames the driver accepts\<close>

definition iris_check_inst_mbpf :: "iris_platform_data \<Rightarrow> iris_inst \<Rightarrow> int" where
  "iris_check_inst_mbpf pd inst =
     (if max_mbpf (inst_caps pd) < iris_get_mbpf inst then - ENOMEM else 0)"

definition iris_check_resolution_supported :: "iris_platform_data \<Rightarrow> iris_inst \<Rightarrow> int" where
  "iris_check_resolution_supported pd inst =
     (let width = pix_width (fmt_src inst); height = pix_height (fmt_src inst);
          caps = inst_caps pd
      in if \<not> (min_frame_width caps \<le> width \<and> width \<le> max_frame_width caps) \<or>
            \<not> (min_frame_height caps \<le> height \<and> height \<le> max_frame_height caps)
         then - EINVAL else 0)"

text \<open>
  A Gen1 session whose frame passed the checks of \<open>queue_setup\<close>, with a crop rectangle that
  does not make the macroblock count itself wrap.
\<close>

definition accepted :: "iris_platform_data \<Rightarrow> iris_inst \<Rightarrow> bool" where
  "accepted pd inst \<longleftrightarrow>
     pd \<in> {sm8150_data, sm8250_data} \<and> iris_check_resolution_supported pd inst = 0 \<and>
     iris_check_inst_mbpf pd inst = 0 \<and> rect_width (crop inst) \<le> 8192 \<and> rect_height (crop inst) \<le> 8192"

lemma accepted_dest:
  assumes "accepted pd inst"
  shows accepted_pipes: "below (num_vpp_pipe pd) 4"
    and accepted_width: "below (pix_width (fmt_src inst)) 8192"
    and accepted_height: "below (pix_height (fmt_src inst)) 8192"
    and accepted_mbpf: "below (iris_get_mbpf inst) 138240"
  using assms unfolding accepted_def iris_check_resolution_supported_def iris_check_inst_mbpf_def below_def
  by (auto simp: sm8150_data_def sm8250_data_def platform_inst_cap_sm8150_def platform_inst_cap_sm8250_def
     word_le_nat_alt word_less_nat_alt not_less Let_def split: if_splits)

lemma unat_div16: "below x 8192 \<Longrightarrow> unat (drop_bit 4 (x + 15)) = div_up_nat (unat x) 16"
  unfolding unat_drop_bit_eq
  unfolding drop_bit_eq_div div_up_nat_def
  by (subst unat_add_below[where M=8192 and N=15]) (auto simp: below_def)

lemma unat_mb: "below x 8192 \<Longrightarrow> unat (DIV_ROUND_UP x 16) = div_up_nat (unat x) 16"
  unfolding DIV_ROUND_UP_def unat_div_distrib div_up_nat_def add_diff_eq[symmetric]
  by (subst unat_add_below[where M=8192 and N=15]) (auto simp: below_def)

lemma below_max8192: "below x 8192 \<Longrightarrow> y \<le> 8192 \<Longrightarrow> below (max x y) 8192"
  by (auto simp: below_def max_def word_le_nat_alt)

lemma div_up_mono: "x \<le> y \<Longrightarrow> div_up_nat x d \<le> div_up_nat y d"
  by (simp add: div_up_nat_def div_le_mono)

lemma accepted_mbs:
  assumes a: "accepted pd inst"
  shows "div_up_nat (unat (pix_width (fmt_src inst))) 16 * div_up_nat (unat (pix_height (fmt_src inst))) 16 \<le> 138240"
proof -
  let ?w = "max (pix_width (fmt_src inst)) (rect_width (crop inst))"
  let ?h = "max (pix_height (fmt_src inst)) (rect_height (crop inst))"
  have w: "below ?w 8192" "below ?h 8192"
    using a accepted_width[OF a] accepted_height[OF a] by (auto intro!: below_max8192 simp: accepted_def)
  have s: "below (DIV_ROUND_UP ?w 16) 512" "below (DIV_ROUND_UP ?h 16) 512"
    by (rule below_mono, (rule below_rules w)+, simp)+
  have "unat (iris_get_mbpf inst) = div_up_nat (unat ?h) 16 * div_up_nat (unat ?w) 16"
    unfolding iris_get_mbpf_def NUM_MBS_PER_FRAME_def unat_mult_below[OF s(2,1), simplified] unat_mb[OF w(1)] unat_mb[OF w(2)] ..
  moreover have "div_up_nat (unat (pix_width (fmt_src inst))) 16 * div_up_nat (unat (pix_height (fmt_src inst))) 16
     \<le> div_up_nat (unat ?w) 16 * div_up_nat (unat ?h) 16"
    by (intro mult_le_mono div_up_mono) (auto simp: max_def word_le_nat_alt)
  ultimately show ?thesis
    using accepted_mbpf[OF a] by (simp add: below_def mult.commute)
qed

section \<open>Bounds of the decoder's internal buffers\<close>

lemma below_bin_h264d: "\<lbrakk>below w 8192; below h 8192; below p 4\<rbrakk> \<Longrightarrow> below (hfi_buffer_bin_h264d w h p) 1700000000"
  unfolding hfi_buffer_bin_h264d_def size_h264d_hw_bin_buffer_def BIN_BUFFER_THRESHOLD_def Let_def
  by (rule below_mono, (assumption | rule below_rules below_div_le)+, simp)

lemma below_bin_h265d: "\<lbrakk>below w 8192; below h 8192; below p 4\<rbrakk> \<Longrightarrow> below (hfi_buffer_bin_h265d w h p) 1700000000"
  unfolding hfi_buffer_bin_h265d_def size_h265d_hw_bin_buffer_def BIN_BUFFER_THRESHOLD_def Let_def
  by (rule below_mono, (assumption | rule below_rules below_div_le)+, simp)

lemma below_bin_vp9d: "\<lbrakk>below w 8192; below h 8192; below p 4\<rbrakk> \<Longrightarrow> below (hfi_buffer_bin_vp9d w h p) 1700000000"
  unfolding hfi_buffer_bin_vp9d_def BIN_BUFFER_THRESHOLD_def Let_def
  by (rule below_mono, (assumption | rule below_div_le below_rules)+, simp)

lemma below_comv_h264d: "\<lbrakk>below w 8192; below h 8192; below c 32\<rbrakk> \<Longrightarrow> below (hfi_buffer_comv_h264d w h c) 1200000000"
  unfolding hfi_buffer_comv_h264d_def Let_def
  by (rule below_mono, (assumption | rule below_rules)+, simp)

lemma below_non_comv_h264d: "\<lbrakk>below w 8192; below h 8192; below p 4\<rbrakk> \<Longrightarrow> below (hfi_buffer_non_comv_h264d w h p) 10000000"
  unfolding hfi_buffer_non_comv_h264d_def size_h264d_bse_cmd_buf_def size_h264d_vpp_cmd_buf_def Let_def
  by (rule below_mono, (assumption | rule below_rules)+, simp)

lemma below_non_comv_h265d: "\<lbrakk>below w 8192; below h 8192; below p 4\<rbrakk> \<Longrightarrow> below (hfi_buffer_non_comv_h265d w h p) 10000000"
  unfolding hfi_buffer_non_comv_h265d_def size_h265d_bse_cmd_buf_def size_h265d_vpp_cmd_buf_def Let_def
  by (rule below_mono, (assumption | rule below_rules)+, simp)

lemma below_vpss_lb: "\<lbrakk>below w 8192; below h 8192\<rbrakk> \<Longrightarrow> below (size_vpss_lb w h) 3000000"
  unfolding size_vpss_lb_def Let_def
  by (rule below_mono, (assumption | rule below_rules)+, simp)

lemma below_line_h264d: "\<lbrakk>below w 8192; below h 8192; below p 4\<rbrakk> \<Longrightarrow> below (hfi_buffer_line_h264d w h opb p) 30000000"
  unfolding hfi_buffer_line_h264d_def size_h264d_lb_fe_top_data_def size_h264d_lb_fe_top_ctrl_def
    size_h264d_lb_fe_left_ctrl_def size_h264d_lb_se_top_ctrl_def size_h264d_lb_se_left_ctrl_def
    size_h264d_lb_pe_top_data_def size_h264d_lb_vsp_top_def
    size_h264d_lb_recon_dma_metadata_wr_def size_h264d_qp_def Let_def
  by (rule below_mono, (assumption | rule below_rules below_vpss_lb)+, simp)

lemma below_line_h265d: "\<lbrakk>below w 8192; below h 8192; below p 4\<rbrakk> \<Longrightarrow> below (hfi_buffer_line_h265d w h opb p) 30000000"
  unfolding hfi_buffer_line_h265d_def size_h265d_lb_fe_top_data_def size_h265d_lb_fe_top_ctrl_def
    size_h265d_lb_fe_left_ctrl_def size_h265d_lb_se_top_ctrl_def size_h265d_lb_se_left_ctrl_def
    size_h265d_lb_pe_top_data_def size_h265d_lb_vsp_top_def size_h265d_lb_vsp_left_def
    size_h265d_lb_recon_dma_metadata_wr_def size_h265d_qp_def
    size_h264d_lb_recon_dma_metadata_wr_def size_h264d_qp_def Let_def
  by (rule below_mono, (assumption | rule below_rules below_vpss_lb)+, simp)

lemma below_line_vp9d: "\<lbrakk>below w 8192; below h 8192; below p 4\<rbrakk> \<Longrightarrow> below (hfi_buffer_line_vp9d w h c opb p) 30000000"
  unfolding hfi_buffer_line_vp9d_def hfi_iris3_vp9d_lb_size_def size_vpxd_lb_fe_left_ctrl_def
    size_vpxd_lb_se_left_ctrl_def size_vp9d_lb_vsp_top_def size_vpxd_lb_fe_top_ctrl_def
    size_vpxd_lb_recon_dma_metadata_wr_def size_vpxd_lb_se_top_ctrl_def size_vp9d_lb_pe_top_data_def
    size_vp9d_lb_fe_top_data_def size_vp9d_qp_def size_h264d_qp_def Let_def
  by (rule below_mono, (assumption | rule below_rules below_vpss_lb)+, simp)

lemma below_comv_h265d:
  assumes w: "below w 8192" and h: "below h 8192" and c: "below c 32"
    and mbs: "div_up_nat (unat w) 16 * div_up_nat (unat h) 16 \<le> 138240"
  shows "below (hfi_buffer_comv_h265d w h c) 1200000000"
proof -
  have "below (drop_bit 4 (w + 15) * drop_bit 4 (h + 15)) 138240"
    using mbs unfolding below_def unat_word_ariths unat_div16[OF w] unat_div16[OF h]
    by (meson mod_less_eq_dividend order_trans)
  note b = this
  show ?thesis
    unfolding hfi_buffer_comv_h265d_def Let_def
    by (rule below_mono, (rule b c | rule below_rules)+, simp)
qed

lemma below_persist: "below (iris_vpu_dec_persist_size pd inst) 200000000"
  unfolding iris_vpu_dec_persist_size_def hfi_buffer_persist_h264d_def hfi_buffer_persist_h265d_def
    hfi_buffer_persist_vp9d_def hfi_iris3_vp9d_comv_size_def
  by (rule below_mono, (assumption | rule below_rules)+, simp)

section \<open>The decoder's internal buffers together\<close>

text \<open>The frame of the raw side, which \<open>try_fmt\<close> and the source-change handler keep within the platform's limits.\<close>

definition raw_frame_ok :: "iris_inst \<Rightarrow> bool" where
  "raw_frame_ok inst \<longleftrightarrow> pix_width (fmt_dst inst) \<le> 8192 \<and> pix_height (fmt_dst inst) \<le> 8192"

lemma raw_frame_dest:
  assumes "raw_frame_ok inst"
  shows raw_width: "below (pix_width (fmt_dst inst)) 8192"
    and raw_height: "below (pix_height (fmt_dst inst)) 8192"
  using assms by (simp_all add: raw_frame_ok_def below_def word_le_nat_alt)

lemma below_qc08c: "raw_frame_ok inst \<Longrightarrow> below (iris_yuv_buffer_size_qc08c inst) 400000000"
  unfolding iris_yuv_buffer_size_qc08c_def Let_def
  by (rule below_mono, (erule raw_width raw_height | rule below_rules)+, simp)

lemma below_qc10c: "raw_frame_ok inst \<Longrightarrow> below (iris_yuv_buffer_size_qc10c inst) 400000000"
  unfolding iris_yuv_buffer_size_qc10c_def Let_def
  by (rule below_mono, (erule raw_width raw_height | rule below_rules)+, simp)

lemma below_dec_bin: "accepted pd inst \<Longrightarrow> below (iris_vpu_dec_bin_size pd inst) 1700000000"
  by (auto simp: iris_vpu_dec_bin_size_def Let_def accepted_width accepted_height accepted_pipes
      below_bin_h264d below_bin_h265d below_bin_vp9d below_def[of 0])

lemma below_dec_comv: "accepted pd inst \<Longrightarrow> below (iris_vpu_dec_comv_size pd inst) 1200000000"
  by (auto simp: iris_vpu_dec_comv_size_def Let_def accepted_width accepted_height below_def[of 0] below_def[of 32]
      intro!: below_comv_h264d below_comv_h265d accepted_mbs)

lemma below_dec_non_comv: "accepted pd inst \<Longrightarrow> below (iris_vpu_dec_non_comv_size pd inst) 10000000"
  by (auto simp: iris_vpu_dec_non_comv_size_def Let_def accepted_width accepted_height accepted_pipes
      below_non_comv_h264d below_non_comv_h265d below_def[of 0])

lemma below_dec_line: "accepted pd inst \<Longrightarrow> below (iris_vpu_dec_line_size pd inst) 30000000"
  by (auto simp: iris_vpu_dec_line_size_def Let_def accepted_width accepted_height accepted_pipes
      below_line_h264d below_line_h265d below_line_vp9d below_def[of 0])

lemma dec_scratch1_exact:
  assumes a: "accepted pd inst"
  shows "unat (iris_vpu_dec_scratch1_size pd inst) =
    unat (iris_vpu_dec_comv_size pd inst) + unat (iris_vpu_dec_non_comv_size pd inst) + unat (iris_vpu_dec_line_size pd inst)"
    "below (iris_vpu_dec_scratch1_size pd inst) 1240000000"
proof -
  note b = below_dec_comv[OF a] below_dec_non_comv[OF a] below_dec_line[OF a]
  show "unat (iris_vpu_dec_scratch1_size pd inst) =
    unat (iris_vpu_dec_comv_size pd inst) + unat (iris_vpu_dec_non_comv_size pd inst) + unat (iris_vpu_dec_line_size pd inst)"
    unfolding iris_vpu_dec_scratch1_size_def
    by (subst unat_add_below[OF below_add[OF b(1,2)] b(3)], simp, subst unat_add_below[OF b(1,2)], simp, simp)
  show "below (iris_vpu_dec_scratch1_size pd inst) 1240000000"
    unfolding iris_vpu_dec_scratch1_size_def using below_add[OF below_add[OF b(1,2)] b(3)] by simp
qed

lemma below_dec_dpb: "raw_frame_ok inst \<Longrightarrow> below (iris_vpu_dec_dpb_size pd inst) 400000000"
  unfolding iris_vpu_dec_dpb_size_def iris_get_buffer_size_def
  by (auto simp: below_def[of 0] below_qc08c below_qc10c)

lemma sint_nonneg: "below x N \<Longrightarrow> N < 2 ^ 31 \<Longrightarrow> 0 \<le> sint x"
  by (simp add: sint_below)


text \<open>A decoder session of a codec with frames of a size.\<close>

definition frame_inst :: "u32 \<Rightarrow> u32 \<Rightarrow> u32 \<Rightarrow> iris_inst" where
  "frame_inst c w h = zero_inst\<lparr>codec := c,
     fmt_src := zero_pix\<lparr>pix_width := w, pix_height := h, pixelformat := c\<rparr>,
     fmt_dst := zero_pix\<lparr>pix_width := w, pix_height := h, pixelformat := V4L2_PIX_FMT_NV12\<rparr>\<rparr>"


section \<open>The decoder's client buffers\<close>

text \<open>
  The 4:2:0 layout on unbounded numbers: a luma plane and an interleaved chroma plane of half
  as many lines, with rows of \<open>row\<close> bytes.
\<close>

definition yuv420_size :: "nat \<Rightarrow> nat \<Rightarrow> nat" where
  "yuv420_size row h =
     align_nat (align_nat row 128 * align_nat h 32 + align_nat row 128 * align_nat ((h + 1) div 2) 16) 4096"

lemma yuv420_size_holds: "row * h + row * ((h + 1) div 2) \<le> yuv420_size row h"
  unfolding yuv420_size_def
  by (rule order_trans[OF _ align_nat_ge]) (auto intro!: add_mono mult_le_mono align_nat_ge)

lemma unat_ALIGN_below:
  fixes x :: u32
  assumes "below x M" and "a = 2 ^ k" "k \<le> 32" "M + (2 ^ k - 1) < 2 ^ 32"
  shows "unat (ALIGN x a) = align_nat (unat x) (2 ^ k)"
  using assms by (intro unat_ALIGN_pow2) (auto simp: below_def)

lemma yuv420_size_word:
  fixes row h :: u32
  assumes b: "below row 16384" "below h 8192"
  shows "unat (ALIGN (ALIGN row 128 * ALIGN h 32 + ALIGN row 128 * ALIGN (drop_bit 1 (h + 1)) 16) 4096)
         = yuv420_size (unat row) (unat h)"
    and "yuv420_size (unat row) (unat h) < 2 ^ 31"
proof -
  have s: "below (ALIGN row 128) 16511" "below (ALIGN h 32) 8223" "below (ALIGN (drop_bit 1 (h + 1)) 16) 4111"
    "below (drop_bit 1 (h + 1)) 4096"
    by (rule below_mono, (rule b below_rules)+, simp)+
  have h1: "unat (drop_bit 1 (h + 1)) = (unat h + 1) div 2"
    unfolding unat_drop_bit_eq
    unfolding drop_bit_eq_div by (subst unat_add_below[OF b(2) below_1]) simp_all
  have e: "unat (ALIGN row 128) = align_nat (unat row) 128" "unat (ALIGN h 32) = align_nat (unat h) 32"
    "unat (ALIGN (drop_bit 1 (h + 1)) 16) = align_nat ((unat h + 1) div 2) 16"
    using unat_ALIGN_below[OF b(1), of 128 7] unat_ALIGN_below[OF b(2), of 32 5]
      unat_ALIGN_below[OF s(4), of 16 4] h1 by simp_all
  note m = unat_mult_below[OF s(1,2)] unat_mult_below[OF s(1,3)]
  show r: "unat (ALIGN (ALIGN row 128 * ALIGN h 32 + ALIGN row 128 * ALIGN (drop_bit 1 (h + 1)) 16) 4096)
         = yuv420_size (unat row) (unat h)"
    unfolding yuv420_size_def
    using unat_ALIGN_below[OF below_add[OF below_mult[OF s(1,2)] below_mult[OF s(1,3)]], of 4096 12]
      unat_add_below[OF below_mult[OF s(1,2)] below_mult[OF s(1,3)]] m e by simp
  have "below (ALIGN (ALIGN row 128 * ALIGN h 32 + ALIGN row 128 * ALIGN (drop_bit 1 (h + 1)) 16) 4096) 2147483647"
    by (rule below_mono, (rule s below_rules)+, simp)
  then show "yuv420_size (unat row) (unat h) < 2 ^ 31"
    unfolding r[symmetric] by (simp add: below_def)
qed

text \<open>
  A decoded frame fits its client buffer: for every raw frame up to 8192 by 8192 the size
  the driver asks for is the 4:2:0 size computed without overflow (two bytes per sample for
  P010), and it holds the luma and the chroma lines.
\<close>

theorem dec_output_size:
  assumes r: "raw_frame_ok inst" and d: "domain inst = DECODER"
  shows "let w = unat (pix_width (fmt_dst inst)); h = unat (pix_height (fmt_dst inst));
             row = (if pixelformat (fmt_dst inst) = V4L2_PIX_FMT_P010 then 2 * w else w)
         in iris_get_buffer_size pd inst BUF_OUTPUT = int (yuv420_size row h) \<and>
            row * h + row * ((h + 1) div 2) \<le> yuv420_size row h"
proof -
  let ?w = "pix_width (fmt_dst inst)" and ?h = "pix_height (fmt_dst inst)"
  note b = raw_width[OF r] raw_height[OF r]
  have w2: "below (?w * 2) 16384" "below ?w 16384"
    using b by (auto intro: below_mono below_mult[OF b(1) below_numeral, of Num.One, simplified] below_mono[OF below_mult[OF b(1) below_numeral]])
  have e2: "unat (?w * 2) = 2 * unat ?w"
    using unat_mult_below[OF b(1) below_unat[of 2]] by simp
  have s: "iris_get_buffer_size pd inst BUF_OUTPUT = int (yuv420_size (unat x) (unat ?h))"
    if "x = (if pixelformat (fmt_dst inst) = V4L2_PIX_FMT_P010 then ?w * 2 else ?w)" for x
  proof -
    have x: "below x 16384" using w2 that by simp
    have "iris_get_buffer_size pd inst BUF_OUTPUT = 
      sint (ALIGN (ALIGN x 128 * ALIGN ?h 32 + ALIGN x 128 * ALIGN (drop_bit 1 (?h + 1)) 16) 4096)"
      using that d by (simp add: iris_get_buffer_size_def iris_yuv_buffer_size_nv12_def iris_yuv_buffer_size_p010_def Let_def)
    also have "\<dots> = int (unat (ALIGN (ALIGN x 128 * ALIGN ?h 32 + ALIGN x 128 * ALIGN (drop_bit 1 (?h + 1)) 16) 4096))"
      by (rule sint_below[OF below_unat]) (use yuv420_size_word[OF x b(2)] in simp)
    finally show ?thesis
      unfolding yuv420_size_word(1)[OF x b(2)] .
  qed
  show ?thesis
    unfolding Let_def using s[OF refl] e2 yuv420_size_holds by (auto split: if_splits)
qed

lemma dec_output_size_witness:
  "iris_get_buffer_size sm8150_data
     (zero_inst\<lparr>fmt_dst := zero_pix\<lparr>pix_width := 1920, pix_height := 1080, pixelformat := V4L2_PIX_FMT_NV12\<rparr>\<rparr>)
     BUF_OUTPUT = 3133440"
  using dec_output_size[of "zero_inst\<lparr>fmt_dst := zero_pix\<lparr>pix_width := 1920, pix_height := 1080, pixelformat := V4L2_PIX_FMT_NV12\<rparr>\<rparr>" sm8150_data]
  by (simp add: zero_inst_def zero_pix_def raw_frame_ok_def fourcc_defs yuv420_size_def align_nat_def)

text \<open>
  The compressed-input buffer of an accepted session has one of three sizes, by frame size
  and codec. The VP9 buffer of a frame above 4K is smaller than that of a 4K frame.
\<close>

theorem dec_bitstream_size:
  assumes a: "accepted pd inst" and d: "domain inst = DECODER"
  shows "iris_get_buffer_size pd inst BUF_INPUT =
     (if NUM_MBS_4K < iris_get_mbpf inst then 13271040
      else if codec inst = V4L2_PIX_FMT_VP9 then 14155776 else 7077888)"
proof -
  have m: "max_mbpf (inst_caps pd) = 138240"
    using a by (auto simp: accepted_def sm8150_data_def sm8250_data_def platform_inst_cap_sm8150_def platform_inst_cap_sm8250_def)
  show ?thesis
    unfolding iris_get_buffer_size_def iris_dec_bitstream_buffer_size_def Let_def m using d
    by (auto simp: NUM_MBS_4K_def DIV_ROUND_UP_def ALIGN_def)
qed

text \<open>
  The macroblock check is needed: the largest frame the resolution limits alone admit makes
  the HEVC motion-vector size negative, and it is the macroblock check that rejects it.
\<close>

theorem dec_sizes_need_mbpf_check:
  "iris_check_resolution_supported sm8150_data (frame_inst V4L2_PIX_FMT_HEVC 8192 8192) = 0 \<and>
   iris_check_inst_mbpf sm8150_data (frame_inst V4L2_PIX_FMT_HEVC 8192 8192) = - ENOMEM \<and>
   iris_vpu_buf_size sm8150_data (frame_inst V4L2_PIX_FMT_HEVC 8192 8192) BUF_COMV = 512 - 2 ^ 31"
  by (simp add: frame_inst_def zero_inst_def zero_pix_def zero_rect_def fourcc_defs
     iris_check_resolution_supported_def iris_check_inst_mbpf_def sm8150_data_def platform_inst_cap_sm8150_def
     iris_get_mbpf_def NUM_MBS_PER_FRAME_def DIV_ROUND_UP_def iris_vpu_buf_size_def iris_vpu_dec_comv_size_def
     hfi_buffer_comv_h265d_def ALIGN_def)

lemma dec_bitstream_size_witness:
  "iris_get_buffer_size sm8150_data (frame_inst V4L2_PIX_FMT_VP9 1920 1088) BUF_INPUT = 14155776"
  using dec_bitstream_size[of sm8150_data "frame_inst V4L2_PIX_FMT_VP9 1920 1088"]
  by (simp add: accepted_def frame_inst_def zero_inst_def zero_pix_def NUM_MBS_4K_def
     iris_check_resolution_supported_def iris_check_inst_mbpf_def sm8150_data_def platform_inst_cap_sm8150_def
     iris_get_mbpf_def NUM_MBS_PER_FRAME_def DIV_ROUND_UP_def zero_rect_def fourcc_defs)

end
