(* ===== verification/IrisHfi.thy ===== *)
theory IrisHfi
  imports IrisDevice
begin

text \<open>
  The life of the shared queues and the locked entry points to them
  (\<open>iris_hfi_queue.c\<close>): the layout of the queue region, its allocation and release, and
  the command, message and debug queue operations with the core state that guards them.
  An operation that would dereference a NULL queue header has no result (\<open>None\<close>).
\<close>

section \<open>Register layout and doorbell\<close>

text \<open>The register blocks of \<open>iris_vpu_register_defines.h\<close> and \<open>iris_vpu_common.c\<close>.\<close>

definition CPU_CS_BASE_OFFS :: u32 where "CPU_CS_BASE_OFFS = 0x000A0000"
definition WRAPPER_BASE_OFFS :: u32 where "WRAPPER_BASE_OFFS = 0x000B0000"
definition VPU5_CPU_CS_BASE_OFFS :: u32 where "VPU5_CPU_CS_BASE_OFFS = 0x000D2000"
definition VPU5_CPU_IC_BASE_OFFS :: u32 where "VPU5_CPU_IC_BASE_OFFS = 0x000DF000"
definition VPU5_WRAPPER_BASE_OFFS :: u32 where "VPU5_WRAPPER_BASE_OFFS = 0x000E0000"
definition CPU_IC_SOFTINT :: u32 where "CPU_IC_SOFTINT = CPU_CS_BASE_OFFS + 0x150"

definition iris_vpu_uses_legacy_vpu5 :: "'a iris_core_scheme \<Rightarrow> bool" where
  "iris_vpu_uses_legacy_vpu5 s = legacy_vpu5 (platform s)"

definition iris_vpu_raise_interrupt :: "'a iris_core_scheme \<Rightarrow> 'a iris_core_scheme" where
  "iris_vpu_raise_interrupt s =
     (if iris_vpu_uses_legacy_vpu5 s then writel (BIT 15) (VPU5_CPU_IC_BASE_OFFS + 0x18) s
      else writel (BIT 0) CPU_IC_SOFTINT s)"

section \<open>Layout of the queue region\<close>

text \<open>
  The sizes of the C structures: a queue header is twelve 32-bit words and two 16-bit ones;
  the legacy table is six 32-bit words and three headers; the other one has a pointer and a
  256-byte name besides.
\<close>

definition sizeof_queue_header :: u32 where "sizeof_queue_header = 56"
definition sizeof_legacy_table_header :: u32 where
  "sizeof_legacy_table_header = 6 * 4 + 3 * sizeof_queue_header"
definition sizeof_table_header :: u32 where
  "sizeof_table_header = 6 * 4 + 8 + 256 + 3 * sizeof_queue_header"

definition iris_hfi_queue_table_size :: "'a iris_core_scheme \<Rightarrow> u32" where
  "iris_hfi_queue_table_size s =
     (if legacy_vpu5 (platform s) then sizeof_legacy_table_header else sizeof_table_header)"

definition iris_hfi_queue_alloc_size :: "'a iris_core_scheme \<Rightarrow> u32" where
  "iris_hfi_queue_alloc_size s =
     (let queue_size = ALIGN (iris_hfi_queue_table_size s + IFACEQ_QUEUE_SIZE * IFACEQ_NUMQ) SZ_4K
      in if legacy_vpu5 (platform s) then ALIGN (SFR_SIZE + queue_size) SZ_1M else queue_size)"

section \<open>Initialisation and release\<close>

definition iris_hfi_queue_set_header ::
    "u32 \<Rightarrow> u64 \<Rightarrow> iris_hfi_queue_header \<Rightarrow> iris_hfi_queue_header" where
  "iris_hfi_queue_set_header queue_id device_addr h =
     h\<lparr>status := 1, start_addr := ucast device_addr, header_type := IFACEQ_DFLT_QHDR,
       queue_type := ucast queue_id, q_size := IFACEQ_QUEUE_SIZE div 4, pkt_size := 0,
       rx_wm := 1, tx_wm := 1, rx_req := (if queue_id = IFACEQ_DBGQ_ID then 0 else 1),
       tx_req := 0, rx_irq_status := 0, tx_irq_status := 0, read_idx := 0, write_idx := 0\<rparr>"

text \<open>
  The header and the ring lie in the table memory, which \<open>iris_hfi_queues_init()\<close> has
  zeroed.
\<close>

definition iris_hfi_queue_init :: "'a iris_core_scheme \<Rightarrow> u32 \<Rightarrow> iris_iface_q_info" where
  "iris_hfi_queue_init s queue_id =
     (let off = iris_hfi_queue_table_size s + queue_id * IFACEQ_QUEUE_SIZE;
          daddr = iface_q_table_daddr s + ucast off
      in \<lparr>q_ring = Some \<lparr>qhdr = iris_hfi_queue_set_header queue_id daddr zero_queue_header,
                        qmem = (\<lambda>_. 0)\<rparr>,
          qhdr_offset = iris_hfi_queue_table_size s - 3 * sizeof_queue_header
                        + queue_id * sizeof_queue_header,
          q_device_addr = daddr,
          q_kernel_vaddr = iface_q_table_vaddr s + ucast off\<rparr>)"

definition iris_hfi_queue_deinit :: "iris_iface_q_info \<Rightarrow> iris_iface_q_info" where
  "iris_hfi_queue_deinit q = q\<lparr>q_ring := None, q_kernel_vaddr := 0, q_device_addr := 0\<rparr>"

text \<open>\<open>dma_alloc_attrs()\<close>: the CPU address, 0 when it fails, and the device address.\<close>

definition dma_alloc_attrs ::
    "u32 \<Rightarrow> 'a iris_core_scheme \<Rightarrow> u64 \<times> u64 \<times> 'a iris_core_scheme" where
  "dma_alloc_attrs n s =
     (case ask (Dma_alloc n) s of (v, s1) \<Rightarrow>
      case ask Dma_handle s1 of (d, s2) \<Rightarrow> (word_of_int v, word_of_int d, s2))"

definition iris_hfi_queues_init :: "'a iris_core_scheme \<Rightarrow> int \<times> 'a iris_core_scheme" where
  "iris_hfi_queues_init s0 =
     (let queue_size = iris_hfi_queue_alloc_size s0 in
      case dma_alloc_attrs queue_size s0 of (vaddr, daddr, s1) \<Rightarrow>
      let s2 = s1\<lparr>iface_q_table_vaddr := vaddr, iface_q_table_daddr := daddr\<rparr>
      in if vaddr = 0 then (- ENOMEM, s2)
      else case dma_alloc_attrs SFR_SIZE s2 of (sv, sd, s3) \<Rightarrow>
      let s4 = s3\<lparr>sfr_vaddr := sv, sfr_daddr := sd\<rparr>
      in if sv = 0 then (- ENOMEM, tell (Dma_free queue_size (iface_q_table_vaddr s4)) s4)
      else let s5 = s4\<lparr>command_queue := iris_hfi_queue_init s4 IFACEQ_CMDQ_ID\<rparr>;
               s6 = s5\<lparr>message_queue := iris_hfi_queue_init s5 IFACEQ_MSGQ_ID\<rparr>;
               s7 = s6\<lparr>debug_queue := iris_hfi_queue_init s6 IFACEQ_DBGQ_ID\<rparr>;
               sz = iris_hfi_queue_table_size s7
      in (0, s7\<lparr>table_header :=
                  \<lparr>tbl_version = 0, tbl_size = sz,
                   qhdr0_offset = (if legacy_vpu5 (platform s7) then 6 * 4
                                   else sz - IFACEQ_NUMQ * sizeof_queue_header),
                   qhdr_size = sizeof_queue_header, num_q = IFACEQ_NUMQ,
                   num_active_q = IFACEQ_NUMQ\<rparr>,
                sfr_word := SFR_SIZE\<rparr>))"

definition iris_hfi_queues_deinit :: "'a iris_core_scheme \<Rightarrow> 'a iris_core_scheme" where
  "iris_hfi_queues_deinit s0 =
     (if iface_q_table_vaddr s0 = 0 then s0
      else let s1 = s0\<lparr>debug_queue := iris_hfi_queue_deinit (debug_queue s0),
                       message_queue := iris_hfi_queue_deinit (message_queue s0),
                       command_queue := iris_hfi_queue_deinit (command_queue s0)\<rparr>;
               s2 = (tell (Dma_free SFR_SIZE (sfr_vaddr s1)) s1)\<lparr>sfr_vaddr := 0, sfr_daddr := 0\<rparr>;
               s3 = tell (Dma_free (iris_hfi_queue_alloc_size s2) (iface_q_table_vaddr s2)) s2
      in s3\<lparr>iface_q_table_vaddr := 0, iface_q_table_daddr := 0\<rparr>)"

section \<open>Entry points\<close>

definition iris_hfi_queue_cmd_write_locked ::
    "'a iris_core_scheme \<Rightarrow> bytes \<Rightarrow> u32 \<Rightarrow> (int \<times> 'a iris_core_scheme) option" where
  "iris_hfi_queue_cmd_write_locked s pkt n =
     (if core_state s = IRIS_CORE_ERROR \<or> core_state s = IRIS_CORE_DEINIT
      then Some (- EINVAL, s)
      else case q_ring (command_queue s) of
        None \<Rightarrow> None
      | Some q \<Rightarrow>
          (case iris_hfi_queue_write q pkt n of (ret, q') \<Rightarrow>
             let s' = s\<lparr>command_queue := (command_queue s)\<lparr>q_ring := Some q'\<rparr>\<rparr>
             in if ret = 0 then Some (0, iris_vpu_raise_interrupt s')
                else Some (- ENODATA, s')))"

definition iris_hfi_queue_cmd_write ::
    "'a iris_core_scheme \<Rightarrow> bytes \<Rightarrow> u32 \<Rightarrow> (int \<times> 'a iris_core_scheme) option" where
  "iris_hfi_queue_cmd_write s0 pkt n =
     (case pm_runtime_resume_and_get Core_dev s0 of (ret, s1) \<Rightarrow>
      if ret < 0 then Some (ret, tell (Pm_put_sync Core_dev) s1)
      else case iris_hfi_queue_cmd_write_locked s1 pkt n of
        None \<Rightarrow> None
      | Some (r, s2) \<Rightarrow>
          if r \<noteq> 0 then Some (r, tell (Pm_put_sync Core_dev) s2)
          else Some (0, tell (Pm_put_autosuspend Core_dev) s2))"

definition iris_hfi_queue_msg_read ::
    "'a iris_core_scheme \<Rightarrow> bytes \<Rightarrow> (int \<times> 'a iris_core_scheme \<times> bytes) option" where
  "iris_hfi_queue_msg_read s pkt =
     (if core_state s \<noteq> IRIS_CORE_INIT then Some (- EINVAL, s, pkt)
      else case q_ring (message_queue s) of
        None \<Rightarrow> None
      | Some q \<Rightarrow>
          (case iris_hfi_queue_read q pkt of (ret, q', pkt') \<Rightarrow>
             Some (if ret \<noteq> 0 then - ENODATA else 0,
                   s\<lparr>message_queue := (message_queue s)\<lparr>q_ring := Some q'\<rparr>\<rparr>, pkt')))"

definition iris_hfi_queue_dbg_read ::
    "'a iris_core_scheme \<Rightarrow> bytes \<Rightarrow> (int \<times> 'a iris_core_scheme \<times> bytes) option" where
  "iris_hfi_queue_dbg_read s pkt =
     (if core_state s \<noteq> IRIS_CORE_INIT then Some (- EINVAL, s, pkt)
      else case q_ring (debug_queue s) of
        None \<Rightarrow> None
      | Some q \<Rightarrow>
          (case iris_hfi_queue_read q pkt of (ret, q', pkt') \<Rightarrow>
             Some (if ret \<noteq> 0 then - ENODATA else 0,
                   s\<lparr>debug_queue := (debug_queue s)\<lparr>q_ring := Some q'\<rparr>\<rparr>, pkt')))"


section \<open>Lemmas\<close>

lemmas queue_sizes = IFACEQ_QUEUE_SIZE_def IFACEQ_MAX_PKT_SIZE_def IFACEQ_MAX_BUF_COUNT_def
  IFACE_MAX_PARALLEL_SESSIONS_def SFR_SIZE_def sizeof_queue_header_def
  sizeof_legacy_table_header_def sizeof_table_header_def ALIGN_def

lemma table_size: "iris_hfi_queue_table_size s = (if legacy_vpu5 (platform s) then 192 else 456)"
  by (simp add: iris_hfi_queue_table_size_def queue_sizes)

lemma alloc_size:
  "iris_hfi_queue_alloc_size s = (if legacy_vpu5 (platform s) then 0x300000 else 2461696)"
  by (simp add: iris_hfi_queue_alloc_size_def table_size queue_sizes)

lemma QUEUE_SIZE: "IFACEQ_QUEUE_SIZE = 819200"
  by (simp add: queue_sizes)

lemma ask_sel [kernel_simps]:
  "platform (snd (ask k s)) = platform s" "iface_q_table_vaddr (snd (ask k s)) = iface_q_table_vaddr s"
  by (simp_all add: ask_def Let_def)

text \<open>The offset and length of each part of the queue region.\<close>

definition queue_parts :: "'a iris_core_scheme \<Rightarrow> (nat \<times> nat) list" where
  "queue_parts s =
     (0, unat (qhdr_offset (iris_hfi_queue_init s IFACEQ_CMDQ_ID))) #
     map (\<lambda>q. (unat (qhdr_offset (iris_hfi_queue_init s q)), unat sizeof_queue_header))
       [IFACEQ_CMDQ_ID, IFACEQ_MSGQ_ID, IFACEQ_DBGQ_ID] @
     map (\<lambda>q. (unat (q_kernel_vaddr (iris_hfi_queue_init s q) - iface_q_table_vaddr s), ring_size))
       [IFACEQ_CMDQ_ID, IFACEQ_MSGQ_ID, IFACEQ_DBGQ_ID]"

fun consecutive :: "nat \<Rightarrow> (nat \<times> nat) list \<Rightarrow> nat \<Rightarrow> bool" where
  "consecutive off [] lim \<longleftrightarrow> off \<le> lim"
| "consecutive off ((o', n) # ps) lim \<longleftrightarrow> o' = off \<and> 0 < n \<and> consecutive (off + n) ps lim"

lemma queue_layout:
  "consecutive 0 (queue_parts s) (unat (iris_hfi_queue_alloc_size s))"
  "4096 dvd unat (iris_hfi_queue_alloc_size s)"
  by (simp_all add: queue_parts_def iris_hfi_queue_init_def Let_def table_size alloc_size queue_sizes)


definition queues_up :: "'a iris_core_scheme \<Rightarrow> bool" where
  "queues_up s \<longleftrightarrow> iface_q_table_vaddr s \<noteq> 0 \<and> sfr_vaddr s \<noteq> 0 \<and>
     (\<forall>q \<in> {command_queue s, message_queue s, debug_queue s}. \<exists>r. q_ring q = Some r \<and> ring_ok r)"

definition queues_fresh :: "'a iris_core_scheme \<Rightarrow> bool" where
  "queues_fresh s \<longleftrightarrow>
     (\<forall>(q, i) \<in> {(command_queue s, IFACEQ_CMDQ_ID), (message_queue s, IFACEQ_MSGQ_ID),
                (debug_queue s, IFACEQ_DBGQ_ID)}.
        \<exists>r. q_ring q = Some r \<and> ring_holds r [] \<and> queue_type (qhdr r) = ucast i \<and>
            start_addr (qhdr r) = ucast (iface_q_table_daddr s + ucast (iris_hfi_queue_table_size s) +
              ucast (i * IFACEQ_QUEUE_SIZE)))"

lemma fresh_ring:
  "ring_holds \<lparr>qhdr = iris_hfi_queue_set_header i d zero_queue_header, qmem = m\<rparr> []"
  by (simp add: ring_holds_def ring_ok_def ring_pending_def ring_fill_def rd_off_def wr_off_def
      iris_hfi_queue_set_header_def)

lemma set_header_sel:
  "queue_type (iris_hfi_queue_set_header i d h) = ucast i"
  "start_addr (iris_hfi_queue_set_header i d h) = ucast d"
  by (simp_all add: iris_hfi_queue_set_header_def)

lemma init_device_addr:
  "i < IFACEQ_NUMQ \<Longrightarrow> q_device_addr (iris_hfi_queue_init s i) =
    iface_q_table_daddr s + ucast (iris_hfi_queue_table_size s) + ucast (i * IFACEQ_QUEUE_SIZE)"
proof -
  assume "i < IFACEQ_NUMQ"
  then have "i = 0 \<or> i = 1 \<or> i = 2"
    by (simp add: word_less_nat_alt word_unat_eq_iff) linarith
  then show ?thesis
    by (auto simp: iris_hfi_queue_init_def Let_def table_size QUEUE_SIZE)
qed

lemma dma_alloc_attrs_eq:
  "dma_alloc_attrs n s =
     (word_of_int (env s (length (klog s))), word_of_int (env s (Suc (length (klog s)))),
      s\<lparr>klog := klog s @ [Dma_alloc n (env s (length (klog s))),
                          Dma_handle (env s (Suc (length (klog s))))]\<rparr>)"
  by (simp add: dma_alloc_attrs_def ask_def Let_def)

text \<open>What \<open>iris_hfi_queues_init()\<close> does on success, as one update.\<close>

lemma queues_init_cases:
  assumes "iris_hfi_queues_init s = (r, s')"
  obtains v d sv sd where "r = 0" "word_of_int v \<noteq> (0::u64)" "word_of_int sv \<noteq> (0::u64)"
      "iface_q_table_vaddr s' = word_of_int v" "iface_q_table_daddr s' = word_of_int d"
      "sfr_vaddr s' = word_of_int sv" "platform s' = platform s"
      "command_queue s' = iris_hfi_queue_init s' 0" "message_queue s' = iris_hfi_queue_init s' 1"
      "debug_queue s' = iris_hfi_queue_init s' 2"
      "klog s' = klog s @ [Dma_alloc (iris_hfi_queue_alloc_size s) v, Dma_handle d,
                           Dma_alloc SFR_SIZE sv, Dma_handle sd]"
  | v d where "r = - ENOMEM" "word_of_int v = (0::u64)" "iface_q_table_vaddr s' = 0"
      "klog s' = klog s @ [Dma_alloc (iris_hfi_queue_alloc_size s) v, Dma_handle d]"
  | v d sv sd where "r = - ENOMEM" "word_of_int v \<noteq> (0::u64)" "word_of_int sv = (0::u64)"
      "iface_q_table_vaddr s' = word_of_int v" "platform s' = platform s"
      "klog s' = klog s @ [Dma_alloc (iris_hfi_queue_alloc_size s) v, Dma_handle d,
        Dma_alloc SFR_SIZE sv, Dma_handle sd, Dma_free (iris_hfi_queue_alloc_size s) (word_of_int v)]"
  using assms
  by (auto simp: iris_hfi_queues_init_def Let_def dma_alloc_attrs_eq tell_def iris_hfi_queue_init_def
      iris_hfi_queue_table_size_def split: if_splits)

lemma queues_init_up:
  assumes "iris_hfi_queues_init s = (0, s')"
  shows "queues_up s'" "queues_fresh s'"
  using assms init_device_addr[of 0 s'] init_device_addr[of 1 s'] init_device_addr[of 2 s']
  by (auto elim!: queues_init_cases simp: queues_up_def queues_fresh_def iris_hfi_queue_init_def
      Let_def add.assoc fresh_ring fresh_ring[unfolded ring_holds_def] set_header_sel)

lemma queues_deinit_balance:
  "iface_q_table_vaddr s \<noteq> 0 \<Longrightarrow>
   balance (dma_weight a) (iris_hfi_queues_deinit s) = balance (dma_weight a) s
     - (if a = sfr_vaddr s then int (unat SFR_SIZE) else 0)
     - (if a = iface_q_table_vaddr s then int (unat (iris_hfi_queue_alloc_size s)) else 0)"
  by (simp add: iris_hfi_queues_deinit_def Let_def balance_def tell_def alloc_size)


definition doorbell_weight :: "kcall \<Rightarrow> int" where
  "doorbell_weight k = (case k of Writel reg v \<Rightarrow>
     if (reg, v) \<in> {(VPU5_CPU_IC_BASE_OFFS + 0x18, BIT 15), (CPU_IC_SOFTINT, BIT 0)} then 1 else 0
   | _ \<Rightarrow> 0)"

lemma raise_interrupt_sel [kernel_simps]:
  "klog (iris_vpu_raise_interrupt s) = klog s @
     [if legacy_vpu5 (platform s) then Writel (VPU5_CPU_IC_BASE_OFFS + 0x18) (BIT 15)
      else Writel CPU_IC_SOFTINT (BIT 0)]"
  "command_queue (iris_vpu_raise_interrupt s) = command_queue s"
  by (simp_all add: iris_vpu_raise_interrupt_def writel_def tell_def iris_vpu_uses_legacy_vpu5_def)

section \<open>Properties\<close>

text \<open>
  The queue region of both platforms is laid out without overlap: the table up to its
  first header, the three headers and the three rings, in this order, each starting where the
  one before ends, all within the allocation, whose size is a multiple of 4 KiB.
\<close>

theorem hfi_queue_layout:
  "consecutive 0 (queue_parts s) (unat (iris_hfi_queue_alloc_size s)) \<and>
   4096 dvd unat (iris_hfi_queue_alloc_size s)"
  using queue_layout by blast

text \<open>
  C6. Bringing the queues up either succeeds, and then all three queues are empty rings of
  their type with the device address of their own part of the region, and releasing them
  frees exactly what was allocated; or it fails with \<open>-ENOMEM\<close> and no DMA memory is left
  allocated.
\<close>

theorem hfi_queues_init:
  assumes "iris_hfi_queues_init s = (r, s')"
  shows "(r = 0 \<and> queues_up s' \<and> queues_fresh s' \<and>
           (\<forall>a. balance (dma_weight a) (iris_hfi_queues_deinit s') = balance (dma_weight a) s)) \<or>
         (r = - ENOMEM \<and> (\<forall>a. balance (dma_weight a) s' = balance (dma_weight a) s))"
proof (cases "r = 0")
  case True
  then show ?thesis
    using assms queues_init_up[of s s']
    by (auto elim!: queues_init_cases simp: queues_deinit_balance alloc_size) 
       (auto simp: balance_def alloc_size)
next
  case False
  with assms show ?thesis
    by (auto elim!: queues_init_cases simp: balance_def)
qed

lemma hfi_queues_init_witness:
  "\<exists>s'. iris_hfi_queues_init (probed_core sm8150_data [] (\<lambda>_. 1)) = (0, s') \<and> queues_up s' \<and>
     (\<forall>a. balance (dma_weight a) (iris_hfi_queues_deinit s') = 0)"
proof -
  let ?s = "probed_core sm8150_data [] (\<lambda>_. 1)"
  obtain r s' where i: "iris_hfi_queues_init ?s = (r, s')" by (metis surj_pair)
  have "r = 0"
    using i by (auto elim!: queues_init_cases simp: iris_hfi_queues_init_def dma_alloc_attrs_eq
        Let_def probed_core_def)
  moreover have "balance (dma_weight a) ?s = 0" for a
    by (simp add: balance_def probed_core_def)
  ultimately show ?thesis using hfi_queues_init[OF i] i by auto
qed

text \<open>
  Sending a command. With the queues up, the doorbell is rung exactly when the packet was
  put in the command ring, a packet the ring refuses is reported as \<open>-ENODATA\<close>, and the
  runtime-PM reference taken is always released. The one exception is the
  failure to take it: then a reference that was never taken is released.
\<close>

theorem hfi_queue_cmd_write_effect:
  assumes "core_state s = IRIS_CORE_INIT" "q_ring (command_queue s) = Some q"
    and w: "iris_hfi_queue_write q pkt n = (wret, q')"
  shows "\<exists>r s'. iris_hfi_queue_cmd_write s pkt n = Some (r, s') \<and>
    (let pm = env s (length (klog s)) in
     if pm < 0 then
       r = pm \<and> q_ring (command_queue s') = Some q \<and>
       balance doorbell_weight s' = balance doorbell_weight s \<and>
       balance (pm_weight Core_dev) s' = balance (pm_weight Core_dev) s - 1
     else
       r = (if wret = 0 then 0 else - ENODATA) \<and> q_ring (command_queue s') = Some q' \<and>
       balance doorbell_weight s' = balance doorbell_weight s + (if wret = 0 then 1 else 0) \<and>
       balance (pm_weight Core_dev) s' = balance (pm_weight Core_dev) s)"
  using assms
  by (auto simp: iris_hfi_queue_cmd_write_def pm_runtime_resume_and_get_def
      iris_hfi_queue_cmd_write_locked_def ask_def Let_def
      kernel_simps tell_def balance_def doorbell_weight_def)

lemma hfi_queue_cmd_write_effect_witness:
  "\<exists>s'. iris_hfi_queue_cmd_write
      (probed_core sm8150_data [] (\<lambda>_. - EAGAIN)\<lparr>core_state := IRIS_CORE_INIT,
         command_queue := zero_iface_q_info\<lparr>q_ring := Some empty_ring\<rparr>\<rparr>)
      (bytes_of tiny_frame) 4 = Some (- EAGAIN, s') \<and>
    balance (pm_weight Core_dev) s' = - 1"
proof -
  obtain wret q' where w: "iris_hfi_queue_write empty_ring (bytes_of tiny_frame) 4 = (wret, q')"
    by (metis surj_pair)
  show ?thesis
    using hfi_queue_cmd_write_effect[of "probed_core sm8150_data [] (\<lambda>_. - EAGAIN)\<lparr>core_state :=
      IRIS_CORE_INIT, command_queue := zero_iface_q_info\<lparr>q_ring := Some empty_ring\<rparr>\<rparr>", OF _ _ w]
    by (auto simp: Let_def probed_core_def balance_def)
qed

end
