(* ===== verification/IrisVpu.thy ===== *)
theory IrisVpu
  imports IrisHfi
begin

text \<open>
  Powering and booting the VPU (\<open>iris_vpu_common.c\<close>, \<open>iris_resources.c\<close>): the clocks, power
  domains, interconnect votes and resets in the order the code takes them, with every
  unwinding label as a local function, the register programming of the queue region, the
  boot loop and the power-collapse handshake. The codec power-off and controller power-off
  hooks are those of \<open>iris_vpu2_ops\<close> (\<open>iris_vpu2.c\<close>), which both modelled platforms use.
\<close>

section \<open>Interconnect, power domains and clocks\<close>

definition BW_THRESHOLD :: u64 where "BW_THRESHOLD = 50000"

definition video_mem_index :: "icc_info list \<Rightarrow> nat option" where
  "video_mem_index tbl =
     (let is = filter (\<lambda>i. icc_name (tbl ! i) = ''video-mem'') [0..<length tbl]
      in if is = [] then None else Some (hd is))"

definition iris_set_icc_bw :: "'a iris_core_scheme \<Rightarrow> u64 \<Rightarrow> int \<times> 'a iris_core_scheme" where
  "iris_set_icc_bw s icc_bw =
     (let tbl = icc_info_tbl (platform s) in
      case video_mem_index tbl of
        None \<Rightarrow> ask (Icc_bulk_set_bw (icc_avg_bw s)) s
      | Some i \<Rightarrow>
          let bw_prev = power_icc_bw (power s);
              bw_kbps = min (max icc_bw (bw_min_kbps (tbl ! i))) (bw_max_kbps (tbl ! i))
          in if bw_prev \<noteq> 0 \<and>
                (if bw_prev < bw_kbps then bw_kbps - bw_prev else bw_prev - bw_kbps) < BW_THRESHOLD
             then (0, s)
             else let s1 = s\<lparr>icc_avg_bw := (icc_avg_bw s)[i := bw_kbps]\<rparr> in
             case ask (Icc_bulk_set_bw (icc_avg_bw s1)) s1 of (ret, s2) \<Rightarrow>
             (ret, if ret = 0 then s2\<lparr>power := (power s2)\<lparr>power_icc_bw := bw_kbps\<rparr>\<rparr>
                   else s2\<lparr>icc_avg_bw := (icc_avg_bw s2)[i := bw_prev]\<rparr>))"

definition iris_unset_icc_bw :: "'a iris_core_scheme \<Rightarrow> int \<times> 'a iris_core_scheme" where
  "iris_unset_icc_bw s =
     (let s1 = s\<lparr>power := (power s)\<lparr>power_icc_bw := 0\<rparr>,
                 icc_avg_bw := List.map (\<lambda>_. 0) (icc_avg_bw s)\<rparr>
      in ask (Icc_bulk_set_bw (icc_avg_bw s1)) s1)"

abbreviation (input) ULONG_MAX :: u64 where "ULONG_MAX \<equiv> - 1"
abbreviation (input) INT_MAX :: u64 where "INT_MAX \<equiv> 0x7FFFFFFF"

definition iris_enable_power_domains ::
    "'a iris_core_scheme \<Rightarrow> pm_device \<Rightarrow> int \<times> 'a iris_core_scheme" where
  "iris_enable_power_domains s pd_dev =
     (case ask (Opp_set_rate ULONG_MAX) s of (ret, s1) \<Rightarrow>
      if ret \<noteq> 0 then (ret, s1) else ask (Pm_get_sync pd_dev) s1)"

definition iris_disable_power_domains ::
    "'a iris_core_scheme \<Rightarrow> pm_device \<Rightarrow> int \<times> 'a iris_core_scheme" where
  "iris_disable_power_domains s pd_dev =
     (case ask (Opp_set_rate 0) s of (ret, s1) \<Rightarrow>
      if ret \<noteq> 0 then (ret, s1) else (0, tell (Pm_put_sync pd_dev) s1))"

text \<open>The first clock the device tree names for a type, as its index in \<open>clock_tbl\<close>.\<close>

fun name_index :: "string \<Rightarrow> string list \<Rightarrow> nat option" where
  "name_index x [] = None"
| "name_index x (y # ys) = (if x = y then Some 0 else map_option Suc (name_index x ys))"

fun clk_lookup ::
    "(platform_clk_type \<times> string) list \<Rightarrow> string list \<Rightarrow> platform_clk_type \<Rightarrow> nat option" where
  "clk_lookup [] names ty = None"
| "clk_lookup ((t, name) # tbl) names ty =
     (case (if t = ty then name_index name names else None) of
        Some j \<Rightarrow> Some j
      | None \<Rightarrow> clk_lookup tbl names ty)"

definition iris_get_clk_by_type ::
    "'a iris_core_scheme \<Rightarrow> platform_clk_type \<Rightarrow> nat option" where
  "iris_get_clk_by_type s ty = clk_lookup (clk_tbl (platform s)) (clock_names s) ty"

definition iris_prepare_enable_clock ::
    "'a iris_core_scheme \<Rightarrow> platform_clk_type \<Rightarrow> int \<times> 'a iris_core_scheme" where
  "iris_prepare_enable_clock s ty =
     (case iris_get_clk_by_type s ty of
        None \<Rightarrow> (- EINVAL, s)
      | Some c \<Rightarrow> ask (Clk_prepare_enable c) s)"

text \<open>No caller looks at the result of \<open>iris_disable_unprepare_clock()\<close>.\<close>

definition iris_disable_unprepare_clock ::
    "platform_clk_type \<Rightarrow> 'a iris_core_scheme \<Rightarrow> 'a iris_core_scheme" where
  "iris_disable_unprepare_clock ty s =
     (case iris_get_clk_by_type s ty of
        None \<Rightarrow> s
      | Some c \<Rightarrow> tell (Clk_disable_unprepare c) s)"

section \<open>Registers and interrupts\<close>

definition iris_vpu_cpu_cs_base :: "'a iris_core_scheme \<Rightarrow> u32" where
  "iris_vpu_cpu_cs_base s =
     (if iris_vpu_uses_legacy_vpu5 s then VPU5_CPU_CS_BASE_OFFS else CPU_CS_BASE_OFFS)"

definition iris_vpu_wrapper_base :: "'a iris_core_scheme \<Rightarrow> u32" where
  "iris_vpu_wrapper_base s =
     (if iris_vpu_uses_legacy_vpu5 s then VPU5_WRAPPER_BASE_OFFS else WRAPPER_BASE_OFFS)"

definition WRAPPER_TZ_BASE_OFFS :: u32 where "WRAPPER_TZ_BASE_OFFS = 0x000C0000"
definition AON_BASE_OFFS :: u32 where "AON_BASE_OFFS = 0x000E0000"
definition CTRL_STATUS :: u32 where "CTRL_STATUS = CPU_CS_BASE_OFFS + 0x4C"
definition VPU5_CTRL_STATUS :: u32 where "VPU5_CTRL_STATUS = VPU5_CPU_CS_BASE_OFFS + 0x4C"
definition VPU5_WRAPPER_CPU_STATUS :: u32 where
  "VPU5_WRAPPER_CPU_STATUS = VPU5_WRAPPER_BASE_OFFS + 0x2014"
definition WRAPPER_TZ_CPU_STATUS :: u32 where
  "WRAPPER_TZ_CPU_STATUS = WRAPPER_TZ_BASE_OFFS + 0x10"
definition CTRL_INIT_IDLE_MSG_BMSK :: u32 where "CTRL_INIT_IDLE_MSG_BMSK = 0x40000000"
definition CTRL_ERROR_STATUS__M :: u32 where "CTRL_ERROR_STATUS__M = 0xfe"
definition CTRL_STATUS_PC_READY :: u32 where "CTRL_STATUS_PC_READY = 0x100"

definition iris_vpu_interrupt_init :: "'a iris_core_scheme \<Rightarrow> 'a iris_core_scheme" where
  "iris_vpu_interrupt_init s =
     (let wrapper_base = iris_vpu_wrapper_base s in
      case readl (wrapper_base + 0x10) s of (v, s1) \<Rightarrow>
      let mask_val = (if iris_vpu_uses_legacy_vpu5 s then (v OR BIT 4) AND NOT (BIT 2)
                      else v AND NOT (BIT 3 OR BIT 2))
      in writel mask_val (wrapper_base + 0x10) s1)"

definition iris_vpu_clear_interrupt :: "'a iris_core_scheme \<Rightarrow> 'a iris_core_scheme" where
  "iris_vpu_clear_interrupt s =
     (let cpu_cs_base = iris_vpu_cpu_cs_base s;
          wrapper_base = iris_vpu_wrapper_base s in
      case readl (wrapper_base + 0x0c) s of (intr_status, s1) \<Rightarrow>
      let mask_val = BIT 2 OR CTRL_INIT_IDLE_MSG_BMSK OR
                     (if iris_vpu_uses_legacy_vpu5 s then BIT 4 else BIT 3);
          s2 = (if has intr_status mask_val
                then s1\<lparr>core_intr_status := core_intr_status s1 OR intr_status\<rparr> else s1);
          s3 = writel (BIT 0) (cpu_cs_base + 0x1c) s2
      in if iris_vpu_uses_legacy_vpu5 s then writel intr_status (wrapper_base + 0x14) s3 else s3)"

definition iris_vpu_watchdog :: "'a iris_core_scheme \<Rightarrow> u32 \<Rightarrow> int" where
  "iris_vpu_watchdog s intr_status =
     (if has intr_status (if iris_vpu_uses_legacy_vpu5 s then BIT 4 else BIT 3)
      then - ETIME else 0)"

section \<open>Booting the firmware\<close>

definition uc_region_size :: u32 where
  "uc_region_size =
     ALIGN (SFR_SIZE + ALIGN (sizeof_table_header + IFACEQ_QUEUE_SIZE * IFACEQ_NUMQ) SZ_4K) SZ_1M"

definition iris_vpu_setup_ucregion_memory_map ::
    "'a iris_core_scheme \<Rightarrow> 'a iris_core_scheme" where
  "iris_vpu_setup_ucregion_memory_map s =
     (let b = iris_vpu_cpu_cs_base s;
          daddr = ucast (iface_q_table_daddr s);
          s1 = writel daddr (b + 0x64) s;
          s2 = writel uc_region_size (b + 0x68) s1;
          s3 = writel daddr (b + 0x54) s2;
          s4 = writel (BIT 0) (b + 0x50) s3;
          s5 = (if iris_vpu_uses_legacy_vpu5 s
                then writel uc_region_size (b + 0x3c) (writel daddr (b + 0x38)
                       (writel daddr (b + 0x34) s4))
                else s4)
      in if sfr_daddr s \<noteq> 0
         then writel (ucast (sfr_daddr s) + core_arch (platform s)) (b + 0x5c) s5
         else s5)"

text \<open>
  The boot loop: \<open>tries\<close> is \<open>max_tries - count\<close>. The result is what is left of it, and the
  loop also ends, without counting, on an error status.
\<close>

fun boot_poll :: "u32 \<Rightarrow> nat \<Rightarrow> u32 \<Rightarrow> 'a iris_core_scheme \<Rightarrow> nat \<times> 'a iris_core_scheme" where
  "boot_poll reg 0 ctrl_status s = (0, s)"
| "boot_poll reg (Suc tries) ctrl_status s =
     (if ctrl_status \<noteq> 0 then (Suc tries, s)
      else case readl reg s of (st, s') \<Rightarrow>
        if st AND CTRL_ERROR_STATUS__M = 4 then (Suc tries, s')
        else boot_poll reg tries st s')"

definition iris_vpu_boot_firmware :: "'a iris_core_scheme \<Rightarrow> int \<times> 'a iris_core_scheme" where
  "iris_vpu_boot_firmware s =
     (let b = iris_vpu_cpu_cs_base s;
          s1 = iris_vpu_setup_ucregion_memory_map s;
          s2 = writel (BIT 0) (b + 0x48) s1 in
      case boot_poll (b + 0x4c) 1000 0 s2 of (tries, s3) \<Rightarrow>
      if tries = 0 then (- ETIME, s3)
      else if iris_vpu_uses_legacy_vpu5 s then (0, s3)
      else (0, writel 0 (CPU_CS_BASE_OFFS + 0x168)
                 (writel (BIT 0) (CPU_CS_BASE_OFFS + 0x148) (writel 1 (b + 0x58) s3))))"

section \<open>The power-collapse handshake\<close>

definition iris_vpu5_prepare_pc :: "'a iris_core_scheme \<Rightarrow> int \<times> 'a iris_core_scheme" where
  "iris_vpu5_prepare_pc s =
     (case readl VPU5_CTRL_STATUS s of (ctrl_status, s1) \<Rightarrow>
      case readl VPU5_WRAPPER_CPU_STATUS s1 of (cpu_status, s2) \<Rightarrow>
      if has ctrl_status CTRL_STATUS_PC_READY then (0, s2)
      else if \<not> has cpu_status (BIT 0) \<or> \<not> has ctrl_status CTRL_INIT_IDLE_MSG_BMSK
      then (- EBUSY, s2)
      else case ask Hfi_sys_pc_prep s2 of (ret, s3) \<Rightarrow>
      if ret \<noteq> 0 then (ret, s3) else ask (Poll VPU5_CTRL_STATUS) s3)"

definition iris_vpu_prepare_pc :: "'a iris_core_scheme \<Rightarrow> int \<times> 'a iris_core_scheme" where
  "iris_vpu_prepare_pc s =
     (if iris_vpu_uses_legacy_vpu5 s then iris_vpu5_prepare_pc s
      else let skip_power_off = (\<lambda>t.
                 case readl CTRL_STATUS t of (_, t1) \<Rightarrow>
                 case readl WRAPPER_TZ_CPU_STATUS t1 of (_, t2) \<Rightarrow> (- EAGAIN, t2)) in
      case readl CTRL_STATUS s of (ctrl_status, s1) \<Rightarrow>
      if has ctrl_status CTRL_STATUS_PC_READY then (0, s1)
      else case readl WRAPPER_TZ_CPU_STATUS s1 of (wfi_status, s2) \<Rightarrow>
      if \<not> has wfi_status (BIT 0) \<or> \<not> has ctrl_status (BIT 30) then skip_power_off s2
      else case ask Hfi_sys_pc_prep s2 of (ret, s3) \<Rightarrow>
      if ret \<noteq> 0 then skip_power_off s3
      else case ask (Poll CTRL_STATUS) s3 of (ret, s4) \<Rightarrow>
      if ret \<noteq> 0 then skip_power_off s4
      else case ask (Poll WRAPPER_TZ_CPU_STATUS) s4 of (ret, s5) \<Rightarrow>
      if ret \<noteq> 0 then skip_power_off s5 else (0, s5))"

section \<open>Power off\<close>

definition iris_vpu_power_off_controller :: "'a iris_core_scheme \<Rightarrow> 'a iris_core_scheme" where
  "iris_vpu_power_off_controller s =
     (let pd_dev = Pd_dev IRIS_CTRL_POWER_DOMAIN;
          clocks_off = (\<lambda>t.
            let t1 = iris_disable_unprepare_clock IRIS_CTRL_CLK t;
                t2 = iris_disable_unprepare_clock IRIS_AXI_CLK t1
            in if defer_vcodec_power (platform s)
               then iris_disable_unprepare_clock IRIS_BUS_CLK t2 else t2);
          disable_power = (\<lambda>t. snd (iris_disable_power_domains (clocks_off t) pd_dev))
      in if iris_vpu_uses_legacy_vpu5 s then tell (Pm_put_sync pd_dev) (clocks_off s)
      else let s1 = writel 3 (CPU_CS_BASE_OFFS + 0x168) s;
               s2 = writel (BIT 0) AON_BASE_OFFS s1 in
      case ask (Poll (AON_BASE_OFFS + 4)) s2 of (ret, s3) \<Rightarrow>
      if ret \<noteq> 0 then disable_power s3
      else case ask (Poll (WRAPPER_BASE_OFFS + 0x60))
                    (writel (BIT 0) (WRAPPER_BASE_OFFS + 0x5C) s3) of (ret, s4) \<Rightarrow>
      if ret \<noteq> 0 then disable_power s4
      else case ask (Poll (WRAPPER_BASE_OFFS + 0x58))
                    (writel 0 (WRAPPER_BASE_OFFS + 0x54) s4) of (ret, s5) \<Rightarrow>
      if ret \<noteq> 0 then disable_power s5
      else disable_power
        (writel 0 (WRAPPER_TZ_BASE_OFFS + 0x14) (writel 0 (WRAPPER_TZ_BASE_OFFS + 0x18)
          (writel (BIT 0) (WRAPPER_TZ_BASE_OFFS + 0x18)
            (writel 3 (WRAPPER_TZ_BASE_OFFS + 0x14) s5)))))"

definition iris_vpu_set_vcodec_hw_control ::
    "'a iris_core_scheme \<Rightarrow> bool \<Rightarrow> int \<times> 'a iris_core_scheme" where
  "iris_vpu_set_vcodec_hw_control s enable =
     ask (Poll (WRAPPER_BASE_OFFS + 0x90))
       (writel (if enable then 0 else 1) (WRAPPER_BASE_OFFS + 0x94) s)"

text \<open>Whether the platform has the auxiliary codec power domain the code looks for.\<close>

definition has_aux_pd :: "'a iris_core_scheme \<Rightarrow> bool" where
  "has_aux_pd s \<longleftrightarrow> defer_vcodec_power (platform s) \<and>
     IRIS_AUX_HW_POWER_DOMAIN_index < pmdomain_tbl_size (platform s)"

definition iris_vpu_power_off_hw :: "'a iris_core_scheme \<Rightarrow> 'a iris_core_scheme" where
  "iris_vpu_power_off_hw s =
     (let pd_dev = Pd_dev IRIS_HW_POWER_DOMAIN;
          aux_pd_dev = Pd_dev IRIS_AUX_HW_POWER_DOMAIN;
          s1 =
            (if use_vcodec_hw_control (platform s) \<and> \<not> defer_vcodec_power (platform s) then
               snd (iris_vpu_set_vcodec_hw_control
                 (iris_disable_unprepare_clock IRIS_HW_CLK
                    (snd (iris_vpu_set_vcodec_hw_control s True))) False)
             else if defer_vcodec_power (platform s) then
               let t1 = (if has_aux_pd s then iris_disable_unprepare_clock IRIS_AUX_HW_CLK s else s);
                   t2 = iris_disable_unprepare_clock IRIS_HW_CLK t1;
                   t3 = (if has_aux_pd s then iris_disable_unprepare_clock IRIS_AUX_HW_AXI_CLK t2
                         else t2)
               in iris_disable_unprepare_clock IRIS_HW_AXI_CLK t3
             else iris_disable_unprepare_clock IRIS_HW_CLK (snd (ask (Genpd_set_hwmode False) s)))
      in if defer_vcodec_power (platform s) then
           tell (Pm_put_sync pd_dev) (if has_aux_pd s then tell (Pm_put_sync aux_pd_dev) s1 else s1)
         else snd (iris_disable_power_domains s1 pd_dev))"

definition iris_vpu_power_off :: "'a iris_core_scheme \<Rightarrow> 'a iris_core_scheme" where
  "iris_vpu_power_off s =
     (if \<not> vpu_powered s then s
      else let s1 = s\<lparr>vpu_powered := False\<rparr>;
               s2 = (if llcc_active s1
                     then (tell Llcc_put (tell Llcc_put s1))
                            \<lparr>llcc_active := False, syscache_set := False\<rparr>
                     else s1);
               s3 = snd (ask (Opp_set_rate 0) s2);
               s4 = iris_vpu_power_off_hw s3;
               s5 = iris_vpu_power_off_controller s4;
               s6 = snd (iris_unset_icc_bw s5)
      in if iris_vpu_watchdog s6 (core_intr_status s6) = 0 then tell Disable_irq s6 else s6)"

section \<open>Power on\<close>

fun reset_loop :: "nat list \<Rightarrow> 'a iris_core_scheme \<Rightarrow> int \<times> 'a iris_core_scheme" where
  "reset_loop [] s = (0, s)"
| "reset_loop (i # is) s =
     (case ask (Reset_assert i) s of (ret, s1) \<Rightarrow>
      if ret \<noteq> 0 then (ret, s1)
      else case ask (Reset_deassert i) s1 of (ret, s2) \<Rightarrow>
      if ret \<noteq> 0 then (ret, s2) else reset_loop is s2)"

definition iris_vpu_power_on_controller :: "'a iris_core_scheme \<Rightarrow> int \<times> 'a iris_core_scheme" where
  "iris_vpu_power_on_controller s =
     (let defr = defer_vcodec_power (platform s);
          n = clk_rst_tbl_size (platform s);
          pd_dev = Pd_dev IRIS_CTRL_POWER_DOMAIN;
          err_disable_power = (\<lambda>t. if defr then tell (Pm_put_sync pd_dev) t
                                    else snd (iris_disable_power_domains t pd_dev));
          err_disable_bus_clock = (\<lambda>t. err_disable_power
            (if defr then iris_disable_unprepare_clock IRIS_BUS_CLK t else t));
          err_disable_clock = (\<lambda>t.
            err_disable_bus_clock (iris_disable_unprepare_clock IRIS_AXI_CLK t)) in
      case (if defr then ask (Pm_get_sync pd_dev) s else iris_enable_power_domains s pd_dev) of
        (ret, s1) \<Rightarrow>
      if ret < 0 then (ret, s1)
      else case (if defr then reset_loop [0..<n] s1 else ask (Reset_bulk n) s1) of (ret, s2) \<Rightarrow>
      if ret \<noteq> 0 then (ret, err_disable_power s2)
      else case (if defr then iris_prepare_enable_clock s2 IRIS_BUS_CLK else (0, s2)) of
        (ret, s3) \<Rightarrow>
      if ret \<noteq> 0 then (ret, err_disable_power s3)
      else case iris_prepare_enable_clock s3 IRIS_AXI_CLK of (ret, s4) \<Rightarrow>
      if ret \<noteq> 0 then (ret, err_disable_bus_clock s4)
      else case iris_prepare_enable_clock s4 IRIS_CTRL_CLK of (ret, s5) \<Rightarrow>
      if ret \<noteq> 0 then (ret, err_disable_clock s5) else (0, s5))"

definition iris_vpu_power_on_hw :: "'a iris_core_scheme \<Rightarrow> int \<times> 'a iris_core_scheme" where
  "iris_vpu_power_on_hw s =
     (let defr = defer_vcodec_power (platform s);
          hwc = use_vcodec_hw_control (platform s) \<and> \<not> defer_vcodec_power (platform s);
          aux = has_aux_pd s;
          pd_dev = Pd_dev IRIS_HW_POWER_DOMAIN;
          aux_pd_dev = Pd_dev IRIS_AUX_HW_POWER_DOMAIN;
          err_disable_power = (\<lambda>t. if defr then tell (Pm_put_sync pd_dev) t
                                    else snd (iris_disable_power_domains t pd_dev));
          err_disable_aux_power = (\<lambda>t.
            let t1 = (if aux then tell (Pm_put_sync aux_pd_dev) t else t)
            in err_disable_power (if hwc then snd (iris_vpu_set_vcodec_hw_control t1 False) else t1));
          err_disable_hw_axi_clock = (\<lambda>t. err_disable_aux_power
            (if defr then iris_disable_unprepare_clock IRIS_HW_AXI_CLK t else t));
          err_disable_aux_hw_axi_clock = (\<lambda>t. err_disable_hw_axi_clock
            (if defr then iris_disable_unprepare_clock IRIS_AUX_HW_AXI_CLK t else t));
          err_disable_clock = (\<lambda>t. err_disable_aux_hw_axi_clock
            (iris_disable_unprepare_clock IRIS_HW_CLK
              (if aux then iris_disable_unprepare_clock IRIS_AUX_HW_CLK t else t))) in
      case (if defr then pm_runtime_resume_and_get pd_dev s
            else iris_enable_power_domains s pd_dev) of (ret, s1) \<Rightarrow>
      if ret \<noteq> 0 then (ret, s1)
      else case (if aux then pm_runtime_resume_and_get aux_pd_dev s1
                 else (0, s1)) of (ret, s2) \<Rightarrow>
      if ret \<noteq> 0 then (ret, err_disable_power s2)
      else case (if defr then iris_prepare_enable_clock s2 IRIS_HW_AXI_CLK else (0, s2)) of
        (ret, s3) \<Rightarrow>
      if ret \<noteq> 0 then (ret, err_disable_aux_power s3)
      else case (if defr then iris_prepare_enable_clock s3 IRIS_AUX_HW_AXI_CLK else (0, s3)) of
        (ret, s4) \<Rightarrow>
      if ret \<noteq> 0 then (ret, err_disable_hw_axi_clock s4)
      else case (if hwc then iris_vpu_set_vcodec_hw_control s4 True else (0, s4)) of (ret, s5) \<Rightarrow>
      if ret \<noteq> 0 then (ret, err_disable_aux_hw_axi_clock s5)
      else case iris_prepare_enable_clock s5 IRIS_HW_CLK of (ret, s6) \<Rightarrow>
      if ret \<noteq> 0 then (ret, err_disable_aux_hw_axi_clock s6)
      else case (if aux then iris_prepare_enable_clock s6 IRIS_AUX_HW_CLK else (0, s6)) of
        (ret, s7) \<Rightarrow>
      if ret \<noteq> 0 then (ret, err_disable_clock s7)
      else case (if hwc then iris_vpu_set_vcodec_hw_control s7 False
                 else if defr then (0, s7)
                 else ask (Genpd_set_hwmode True) s7) of (ret, s8) \<Rightarrow>
      if ret \<noteq> 0 then (ret, err_disable_clock s8) else (0, s8))"

definition write_presets ::
    "(u32 \<times> u32) list \<Rightarrow> 'a iris_core_scheme \<Rightarrow> 'a iris_core_scheme" where
  "write_presets ws s = fold (\<lambda>(reg, v). writel v reg) ws s"

definition iris_vpu_power_on :: "'a iris_core_scheme \<Rightarrow> int \<times> 'a iris_core_scheme" where
  "iris_vpu_power_on s0 =
     (let defr = defer_vcodec_power (platform s0);
          s = s0\<lparr>vpu_powered := True\<rparr>;
          err_unvote_icc = (\<lambda>t. snd (iris_unset_icc_bw t));
          err_power_off_ctrl = (\<lambda>t. err_unvote_icc (iris_vpu_power_off_controller t));
          err_clear_opp = (\<lambda>t. err_power_off_ctrl (snd (ask (Opp_set_rate 0) t))) in
      case iris_set_icc_bw s INT_MAX of (ret, s1) \<Rightarrow>
      if ret \<noteq> 0 then (ret, s1)
      else case iris_vpu_power_on_controller s1 of (ret, s2) \<Rightarrow>
      if ret \<noteq> 0 then (ret, err_unvote_icc s2)
      else case (if defr then (0, s2) else iris_vpu_power_on_hw s2) of (ret, s3) \<Rightarrow>
      if ret \<noteq> 0 then (ret, err_power_off_ctrl s3)
      else let freq = (ucast (if clk_freq (power s3) \<noteq> 0 then clk_freq (power s3)
                              else 0xFFFFFFFF) :: u32) in
      case ask (Opp_set_rate (ucast freq)) s3 of (ret, s4) \<Rightarrow>
      if ret \<noteq> 0 then (ret, err_power_off_ctrl s4)
      else case (if defr then iris_vpu_power_on_hw s4 else (0, s4)) of (ret, s5) \<Rightarrow>
      if ret \<noteq> 0 then (ret, err_clear_opp s5)
      else let s6 = write_presets (preset_registers (platform s5)) s5;
               s7 = iris_vpu_interrupt_init s6
      in (0, tell Enable_irq (s7\<lparr>core_intr_status := 0\<rparr>)))"

section \<open>The tables and the frame of a call\<close>

text \<open>
  The tables fixed at probe time, and everything the calls into the kernel leave alone: all of
  the core but the log, the votes and the latched interrupt status.
\<close>

definition tables :: "'a iris_core_scheme \<Rightarrow> iris_platform_data \<times> string list" where
  "tables s = (platform s, clock_names s)"

text \<open>1 for the clock of a type, 0 for every other clock.\<close>

definition clk_on :: "iris_platform_data \<times> string list \<Rightarrow> platform_clk_type \<Rightarrow> nat \<Rightarrow> int" where
  "clk_on T ty c = (if clk_lookup (clk_tbl (fst T)) (snd T) ty = Some c then 1 else 0)"

definition frame :: "'a iris_core_scheme \<Rightarrow> 'a iris_core_scheme" where
  "frame s = s\<lparr>klog := [], icc_avg_bw := [], power := \<lparr>clk_freq = 0, power_icc_bw = 0\<rparr>,
               core_intr_status := 0\<rparr>"

lemma frame_eqD:
  assumes "frame s = frame t"
  shows "platform s = platform t" "clock_names s = clock_names t" "tables s = tables t"
    "has_aux_pd s = has_aux_pd t" "iris_vpu_uses_legacy_vpu5 s = iris_vpu_uses_legacy_vpu5 t"
    "vpu_powered s = vpu_powered t" "vpu_suspended s = vpu_suspended t"
    "core_state s = core_state t" "llcc_active s = llcc_active t" "env s = env t"
    "instances s = instances t" "iface_q_table_vaddr s = iface_q_table_vaddr t"
    "iface_q_table_daddr s = iface_q_table_daddr t" "sfr_vaddr s = sfr_vaddr t"
    "sfr_daddr s = sfr_daddr t" "command_queue s = command_queue t"
    "message_queue s = message_queue t" "debug_queue s = debug_queue t"
proof -
  note eq = arg_cong[OF assms[unfolded frame_def]]
  show p: "platform s = platform t" using eq[of platform] by simp
  show c: "clock_names s = clock_names t" using eq[of clock_names] by simp
  show "tables s = tables t" "has_aux_pd s = has_aux_pd t"
    "iris_vpu_uses_legacy_vpu5 s = iris_vpu_uses_legacy_vpu5 t"
    using p c by (simp_all add: tables_def has_aux_pd_def iris_vpu_uses_legacy_vpu5_def)
  show "vpu_powered s = vpu_powered t" using eq[of vpu_powered] by simp
  show "vpu_suspended s = vpu_suspended t" using eq[of vpu_suspended] by simp
  show "core_state s = core_state t" using eq[of core_state] by simp
  show "llcc_active s = llcc_active t" using eq[of llcc_active] by simp
  show "env s = env t" using eq[of env] by simp
  show "instances s = instances t" using eq[of instances] by simp
  show "iface_q_table_vaddr s = iface_q_table_vaddr t" using eq[of iface_q_table_vaddr] by simp
  show "iface_q_table_daddr s = iface_q_table_daddr t" using eq[of iface_q_table_daddr] by simp
  show "sfr_vaddr s = sfr_vaddr t" using eq[of sfr_vaddr] by simp
  show "sfr_daddr s = sfr_daddr t" using eq[of sfr_daddr] by simp
  show "command_queue s = command_queue t" using eq[of command_queue] by simp
  show "message_queue s = message_queue t" using eq[of message_queue] by simp
  show "debug_queue s = debug_queue t" using eq[of debug_queue] by simp
qed

lemma frame_prim [kernel_simps]:
  "frame (snd (ask k s)) = frame s"
  "frame (tell k' s) = frame s"
  "frame (snd (iris_prepare_enable_clock s ty)) = frame s"
  "frame (iris_disable_unprepare_clock ty s) = frame s"
  "frame (snd (iris_enable_power_domains s d)) = frame s"
  "frame (snd (iris_disable_power_domains s d)) = frame s"
  "frame (snd (iris_vpu_set_vcodec_hw_control s e)) = frame s"
  "frame (snd (iris_unset_icc_bw s)) = frame s"
  "frame (writel v reg s) = frame s"
  "frame (snd (readl reg s)) = frame s"
  "frame (s\<lparr>power := p\<rparr>) = frame s" "frame (s\<lparr>icc_avg_bw := a\<rparr>) = frame s"
  "frame (s\<lparr>core_intr_status := i\<rparr>) = frame s"
  by (simp_all add: frame_def ask_def tell_def Let_def iris_prepare_enable_clock_def
      iris_disable_unprepare_clock_def iris_enable_power_domains_def iris_disable_power_domains_def
      iris_vpu_set_vcodec_hw_control_def writel_def readl_def iris_unset_icc_bw_def
      split: option.split)

lemmas frame_tables [kernel_simps] = frame_prim[THEN frame_eqD(3)]

lemma balance_update_core [kernel_simps]:
  "balance w (s\<lparr>power := p\<rparr>) = balance w s" "balance w (s\<lparr>icc_avg_bw := a\<rparr>) = balance w s"
  "balance w (s\<lparr>vpu_powered := v\<rparr>) = balance w s"
  "balance w (s\<lparr>core_intr_status := i\<rparr>) = balance w s"
  "balance w (s\<lparr>llcc_active := l, syscache_set := l\<rparr>) = balance w s"
  "tables (s\<lparr>vpu_powered := v\<rparr>) = tables s"
  "tables (s\<lparr>llcc_active := l, syscache_set := l\<rparr>) = tables s"
  by (simp_all add: tables_def balance_def)

lemma balance_prim [kernel_simps]:
  "balance (clk_weight c) (snd (iris_prepare_enable_clock s ty)) =
     balance (clk_weight c) s + (if fst (iris_prepare_enable_clock s ty) = 0 then clk_on (tables s) ty c else 0)"
  "balance (clk_weight c) (iris_disable_unprepare_clock ty s) =
     balance (clk_weight c) s - clk_on (tables s) ty c"
  "balance (pm_weight d) (snd (iris_prepare_enable_clock s ty)) = balance (pm_weight d) s"
  "balance (pm_weight d) (iris_disable_unprepare_clock ty s) = balance (pm_weight d) s"
  "balance (clk_weight c) (snd (iris_unset_icc_bw s)) = balance (clk_weight c) s"
  "balance (pm_weight d) (snd (iris_unset_icc_bw s)) = balance (pm_weight d) s"
  by (auto simp: balance_def ask_def tell_def Let_def iris_prepare_enable_clock_def clk_on_def iris_get_clk_by_type_def tables_def
      iris_disable_unprepare_clock_def iris_unset_icc_bw_def split: option.split)

lemma reset_loop_sel [kernel_simps]:
  "balance (clk_weight c) (snd (reset_loop is s)) = balance (clk_weight c) s"
  "balance (pm_weight d) (snd (reset_loop is s)) = balance (pm_weight d) s"
  "frame (snd (reset_loop is s)) = frame s"
  by (induction "is" arbitrary: s) (simp_all add: kernel_simps split_beta)

text \<open>
  What a routine does to the clocks and the power domains, as a relation between the states
  before and after, and rules that walk through a routine call by call.
\<close>

definition effect ::
    "'a iris_core_scheme \<Rightarrow> 'a iris_core_scheme \<Rightarrow> (nat \<Rightarrow> int) \<Rightarrow> (pm_device \<Rightarrow> int) \<Rightarrow> bool" where
  "effect s t dc dp \<longleftrightarrow> frame t = frame s \<and>
     (\<forall>c. balance (clk_weight c) t = balance (clk_weight c) s + dc c) \<and>
     (\<forall>d. balance (pm_weight d) t = balance (pm_weight d) s + dp d)"

definition ensures :: "'b \<Rightarrow> ('b \<Rightarrow> bool) \<Rightarrow> bool" where
  "ensures x P \<longleftrightarrow> P x"

named_theorems vcg \<open>walking through a routine call by call\<close>

lemma ensures_pair [vcg]: "P (r, s) \<Longrightarrow> ensures (r, s) P"
  by (simp add: ensures_def)
lemma ensures_if [vcg]: "(b \<Longrightarrow> ensures x P) \<Longrightarrow> (\<not> b \<Longrightarrow> ensures y P) \<Longrightarrow> ensures (if b then x else y) P"
  by simp
lemma ensures_case [vcg]: "(\<And>r t. x = (r, t) \<Longrightarrow> ensures (f r t) P) \<Longrightarrow> ensures (case x of (r, t) \<Rightarrow> f r t) P"
  by (cases x) simp

lemma effect_snd:
  assumes "x = (r, t)"
    and "frame (snd x) = frame s"
    and "\<And>c. balance (clk_weight c) (snd x) = balance (clk_weight c) s + dc (fst x) c"
    and "\<And>d. balance (pm_weight d) (snd x) = balance (pm_weight d) s + dp (fst x) d"
  shows "effect s t (dc r) (dp r)"
  using assms by (simp add: effect_def)

lemma ask_effect:
  "ask k s = (r, t) \<Longrightarrow> effect s t (\<lambda>c. clk_weight c (k r)) (\<lambda>d. pm_weight d (k r))"
  by (erule effect_snd) (simp_all add: kernel_simps)

lemma prepare_effect:
  "iris_prepare_enable_clock s ty = (r, t) \<Longrightarrow>
   effect s t (\<lambda>c. if r = 0 then clk_on (tables s) ty c else 0) (\<lambda>_. 0)"
  by (erule effect_snd) (simp_all add: kernel_simps)

lemma resume_and_get_effect:
  "pm_runtime_resume_and_get d s = (r, t) \<Longrightarrow>
   effect s t (\<lambda>_. 0) (\<lambda>d'. if r = 0 \<and> d' = d then 1 else 0)"
  by (erule effect_snd)
     (auto simp: pm_runtime_resume_and_get_def kernel_simps split: prod.split dest!: ask_effect
       simp: effect_def)

lemma reset_loop_effect:
  "reset_loop is s = (r, t) \<Longrightarrow> effect s t (\<lambda>_. 0) (\<lambda>_. 0)"
  by (erule effect_snd) (simp_all add: kernel_simps)

lemma icc_vote_effect:
  assumes "ask (Icc_bulk_set_bw x) (s\<lparr>icc_avg_bw := a\<rparr>) = (ret, s2)"
  shows "effect s (if b then s2\<lparr>power := p\<rparr> else s2\<lparr>icc_avg_bw := a'\<rparr>) (\<lambda>_. 0) (\<lambda>_. 0)"
  using ask_effect[OF assms] by (simp add: effect_def kernel_simps)

lemma set_icc_effect:
  assumes "iris_set_icc_bw s w = (r, t)"
  shows "effect s t (\<lambda>_. 0) (\<lambda>_. 0)"
proof (cases "video_mem_index (icc_info_tbl (platform s))")
  case None
  then have "ask (Icc_bulk_set_bw (icc_avg_bw s)) s = (r, t)"
    using assms by (simp add: iris_set_icc_bw_def)
  then show ?thesis using ask_effect by fastforce
next
  case (Some i)
  have refl: "effect s s (\<lambda>_. 0) (\<lambda>_. 0)" by (simp add: effect_def)
  have "ensures (iris_set_icc_bw s w) (\<lambda>(r, t). effect s t (\<lambda>_. 0) (\<lambda>_. 0))"
    unfolding iris_set_icc_bw_def Let_def Some option.case
    by (intro vcg; unfold prod.case) (rule refl | erule icc_vote_effect)+
  then show ?thesis using assms by (simp add: ensures_def)
qed

lemma effect_tables: "effect s t dc dp \<Longrightarrow> effect s t dc dp \<and> tables t = tables s"
  by (auto simp: effect_def dest: frame_eqD(3))

lemmas effects = ask_effect[THEN effect_tables] prepare_effect[THEN effect_tables]
  resume_and_get_effect[THEN effect_tables] reset_loop_effect[THEN effect_tables]
  set_icc_effect[THEN effect_tables]

abbreviation (input) CTRL_PD :: pm_device where "CTRL_PD \<equiv> Pd_dev IRIS_CTRL_POWER_DOMAIN"
abbreviation (input) HW_PD :: pm_device where "HW_PD \<equiv> Pd_dev IRIS_HW_POWER_DOMAIN"
abbreviation (input) AUX_PD :: pm_device where "AUX_PD \<equiv> Pd_dev IRIS_AUX_HW_POWER_DOMAIN"

lemma power_on_hw_ensures:
  assumes "has_aux_pd s"
  shows "ensures (iris_vpu_power_on_hw s) (\<lambda>(r, t).
    if r = 0 then effect s t (\<lambda>c. clk_on (tables s) IRIS_HW_AXI_CLK c + clk_on (tables s) IRIS_AUX_HW_AXI_CLK c +
        clk_on (tables s) IRIS_HW_CLK c + clk_on (tables s) IRIS_AUX_HW_CLK c)
      (\<lambda>d. if d = HW_PD \<or> d = AUX_PD then 1 else 0)
    else frame t = frame s \<and> (\<forall>d. balance (pm_weight d) t = balance (pm_weight d) s) \<and>
      (\<forall>c. balance (clk_weight c) t = balance (clk_weight c) s \<or>
           balance (clk_weight c) t = balance (clk_weight c) s - clk_on (tables s) IRIS_AUX_HW_CLK c))"
proof -
  have d: "defer_vcodec_power (platform s)" using assms by (simp add: has_aux_pd_def)
  show ?thesis
    unfolding iris_vpu_power_on_hw_def Let_def
    by (simp only: d assms simp_thms if_True if_False HOL.simp_thms, intro vcg)
      (auto simp: effect_def kernel_simps split: if_splits dest!: effects)
qed

lemma power_on_controller_ensures:
  assumes "defer_vcodec_power (platform s)"
  shows "ensures (iris_vpu_power_on_controller s) (\<lambda>(r, t).
    frame t = frame s \<and>
    (\<forall>c. balance (clk_weight c) t = balance (clk_weight c) s + (if r = 0 then
        clk_on (tables s) IRIS_BUS_CLK c + clk_on (tables s) IRIS_AXI_CLK c +
        clk_on (tables s) IRIS_CTRL_CLK c else 0)) \<and>
    (\<forall>d. d \<noteq> CTRL_PD \<longrightarrow> balance (pm_weight d) t = balance (pm_weight d) s) \<and>
    (if r = 0 then balance (pm_weight CTRL_PD) t = balance (pm_weight CTRL_PD) s + 1
     else balance (pm_weight CTRL_PD) t - balance (pm_weight CTRL_PD) s \<in> {0, 1}))"
  unfolding iris_vpu_power_on_controller_def Let_def
  by (simp only: assms simp_thms if_True if_False HOL.simp_thms, intro vcg)
    (auto simp: effect_def kernel_simps split: if_splits dest!: effects)

section \<open>Power off\<close>

lemma balance_put [kernel_simps]:
  "balance (pm_weight d) (snd (iris_disable_power_domains s e)) = balance (pm_weight d) s -
     (if d = e \<and> fst (iris_disable_power_domains s e) = 0 then 1 else 0)"
  "balance (clk_weight c) (snd (iris_disable_power_domains s e)) = balance (clk_weight c) s"
  by (simp_all add: iris_disable_power_domains_def split_beta kernel_simps)

lemma power_off_hw_effect:
  "has_aux_pd s \<Longrightarrow> effect s (iris_vpu_power_off_hw s)
     (\<lambda>c. - (clk_on (tables s) IRIS_HW_AXI_CLK c + clk_on (tables s) IRIS_AUX_HW_AXI_CLK c +
        clk_on (tables s) IRIS_HW_CLK c + clk_on (tables s) IRIS_AUX_HW_CLK c))
     (\<lambda>d. if d = HW_PD \<or> d = AUX_PD then - 1 else 0)"
  by (auto simp: iris_vpu_power_off_hw_def Let_def has_aux_pd_def effect_def kernel_simps)

lemma power_off_controller_effect:
  assumes "iris_vpu_uses_legacy_vpu5 s" "defer_vcodec_power (platform s)"
  shows "effect s (iris_vpu_power_off_controller s)
     (\<lambda>c. - (clk_on (tables s) IRIS_BUS_CLK c + clk_on (tables s) IRIS_AXI_CLK c +
        clk_on (tables s) IRIS_CTRL_CLK c))
     (\<lambda>d. if d = CTRL_PD then - 1 else 0)"
proof -
  have "iris_vpu_power_off_controller s = tell (Pm_put_sync CTRL_PD)
      (iris_disable_unprepare_clock IRIS_BUS_CLK (iris_disable_unprepare_clock IRIS_AXI_CLK
        (iris_disable_unprepare_clock IRIS_CTRL_CLK s)))"
    by (simp only: iris_vpu_power_off_controller_def Let_def assms if_True)
  then show ?thesis by (simp add: effect_def kernel_simps)
qed

text \<open>The software-controlled platforms: SM8150.\<close>

definition vpu5 :: "'a iris_core_scheme \<Rightarrow> bool" where
  "vpu5 s \<longleftrightarrow> iris_vpu_uses_legacy_vpu5 s \<and> has_aux_pd s"

lemma vpu5D: "vpu5 s \<Longrightarrow> iris_vpu_uses_legacy_vpu5 s" "vpu5 s \<Longrightarrow> has_aux_pd s"
  "vpu5 s \<Longrightarrow> defer_vcodec_power (platform s)"
  by (auto simp: vpu5_def has_aux_pd_def)

lemma vpu5_frame: "frame s = frame t \<Longrightarrow> vpu5 s = vpu5 t"
  by (auto simp: vpu5_def dest: frame_eqD(4,5))

text \<open>All the clocks and all the power domains of the VPU, once each.\<close>

definition vpu5_clks :: "iris_platform_data \<times> string list \<Rightarrow> nat \<Rightarrow> int" where
  "vpu5_clks T c = clk_on T IRIS_BUS_CLK c + clk_on T IRIS_AXI_CLK c + clk_on T IRIS_CTRL_CLK c +
     clk_on T IRIS_HW_AXI_CLK c + clk_on T IRIS_AUX_HW_AXI_CLK c + clk_on T IRIS_HW_CLK c +
     clk_on T IRIS_AUX_HW_CLK c"

definition vpu5_pds :: "pm_device \<Rightarrow> int" where
  "vpu5_pds d = (case d of Pd_dev _ \<Rightarrow> 1 | Core_dev \<Rightarrow> 0)"

lemma frame_power [kernel_simps]:
  "frame (s\<lparr>vpu_powered := v\<rparr>) = (frame s)\<lparr>vpu_powered := v\<rparr>"
  "frame (s\<lparr>llcc_active := l, syscache_set := l\<rparr>) = (frame s)\<lparr>llcc_active := l, syscache_set := l\<rparr>"
  by (simp_all add: frame_def)

lemma opp_effect: "effect s (snd (ask (Opp_set_rate x) s)) (\<lambda>_. 0) (\<lambda>_. 0)"
  using ask_effect[of "Opp_set_rate x" s] by (cases "ask (Opp_set_rate x) s") auto

lemma effect_trans:
  "effect s t f g \<Longrightarrow> effect t u f' g' \<Longrightarrow> effect s u (\<lambda>c. f c + f' c) (\<lambda>d. g d + g' d)"
  by (simp add: effect_def)

lemma unset_icc_effect: "effect s (snd (iris_unset_icc_bw s)) (\<lambda>_. 0) (\<lambda>_. 0)"
  by (simp add: effect_def kernel_simps)

lemma vpu5_clks_split:
  "vpu5_clks T c = (clk_on T IRIS_BUS_CLK c + clk_on T IRIS_AXI_CLK c + clk_on T IRIS_CTRL_CLK c) +
     (clk_on T IRIS_HW_AXI_CLK c + clk_on T IRIS_AUX_HW_AXI_CLK c + clk_on T IRIS_HW_CLK c +
     clk_on T IRIS_AUX_HW_CLK c)"
  by (simp add: vpu5_clks_def)

lemma vpu5_pds_split:
  "vpu5_pds d = (if d = CTRL_PD then 1 else 0) + (if d = HW_PD \<or> d = AUX_PD then 1 else 0)"
  by (cases d) (auto simp: vpu5_pds_def intro: platform_pm_domain_type.exhaust)

text \<open>From the codec power-off on, \<open>iris_vpu_power_off()\<close> undoes one full power-on.\<close>

lemma power_off_tail:
  assumes "vpu5 s"
  shows "effect s (snd (iris_unset_icc_bw (iris_vpu_power_off_controller
      (iris_vpu_power_off_hw (snd (ask (Opp_set_rate 0) s))))))
    (\<lambda>c. - vpu5_clks (tables s) c) (\<lambda>d. - vpu5_pds d)"
proof -
  define s3 where "s3 = snd (ask (Opp_set_rate 0) s)"
  define s4 where "s4 = iris_vpu_power_off_hw s3"
  define s5 where "s5 = iris_vpu_power_off_controller s4"
  have e3: "effect s s3 (\<lambda>_. 0) (\<lambda>_. 0)" by (simp add: s3_def opp_effect)
  then have f3: "frame s3 = frame s" by (simp add: effect_def)
  have e4: "effect s3 s4 (\<lambda>c. - (clk_on (tables s) IRIS_HW_AXI_CLK c + clk_on (tables s) IRIS_AUX_HW_AXI_CLK c +
        clk_on (tables s) IRIS_HW_CLK c + clk_on (tables s) IRIS_AUX_HW_CLK c))
     (\<lambda>d. if d = HW_PD \<or> d = AUX_PD then - 1 else 0)"
    using power_off_hw_effect[of s3] vpu5D(2)[of s3] assms frame_eqD(3)[OF f3] vpu5_frame[OF f3]
    by (simp add: s4_def)
  then have f4: "frame s4 = frame s" using f3 by (simp add: effect_def)
  have e5: "effect s4 s5 (\<lambda>c. - (clk_on (tables s) IRIS_BUS_CLK c + clk_on (tables s) IRIS_AXI_CLK c +
        clk_on (tables s) IRIS_CTRL_CLK c)) (\<lambda>d. if d = CTRL_PD then - 1 else 0)"
    using power_off_controller_effect[of s4] vpu5D(1,3)[of s4] assms frame_eqD(3)[OF f4] vpu5_frame[OF f4]
    by (simp add: s5_def)
  show ?thesis
    using effect_trans[OF effect_trans[OF effect_trans[OF e3 e4] e5] unset_icc_effect]
    by (simp add: effect_def s3_def s4_def s5_def vpu5_clks_split vpu5_pds_split)
qed

definition powered_off :: "'a iris_core_scheme \<Rightarrow> 'a iris_core_scheme" where
  "powered_off s = s\<lparr>vpu_powered := False, llcc_active := False,
      syscache_set := (if llcc_active s then False else syscache_set s)\<rparr>"

lemma powered_off_vpu5: "vpu5 (powered_off s) = vpu5 s" "tables (powered_off s) = tables s"
  "balance w (powered_off s) = balance w s"
  by (simp_all add: powered_off_def vpu5_def has_aux_pd_def iris_vpu_uses_legacy_vpu5_def tables_def
      balance_def)

lemma effect_idle: "(\<And>c. clk_weight c k = 0) \<Longrightarrow> (\<And>d. pm_weight d k = 0) \<Longrightarrow>
    effect s (if b then tell k s else s) (\<lambda>_. 0) (\<lambda>_. 0)"
  by (simp add: effect_def kernel_simps)

lemma power_off_effect:
  assumes "vpu5 s" "vpu_powered s"
  shows "effect (powered_off s) (iris_vpu_power_off s)
    (\<lambda>c. - vpu5_clks (tables s) c) (\<lambda>d. - vpu5_pds d)"
proof -
  define s1 where "s1 = s\<lparr>vpu_powered := False\<rparr>"
  define s2 where "s2 = (if llcc_active s1 then (tell Llcc_put (tell Llcc_put s1))
      \<lparr>llcc_active := False, syscache_set := False\<rparr> else s1)"
  define s6 where "s6 = snd (iris_unset_icc_bw (iris_vpu_power_off_controller
      (iris_vpu_power_off_hw (snd (ask (Opp_set_rate 0) s2)))))"
  have e2: "effect (powered_off s) s2 (\<lambda>_. 0) (\<lambda>_. 0)"
    by (auto simp: effect_def s2_def s1_def powered_off_def frame_def tell_def balance_def)
  have "vpu5 s2" 
    using assms(1) vpu5_frame[of s2 "powered_off s"] e2 by (simp add: effect_def powered_off_vpu5)
  then have e6: "effect s2 s6 (\<lambda>c. - vpu5_clks (tables s) c) (\<lambda>d. - vpu5_pds d)"
    using power_off_tail[of s2] frame_eqD(3)[of s2 "powered_off s"] e2
    by (simp add: s6_def effect_def powered_off_vpu5)
  have "iris_vpu_power_off s =
      (if iris_vpu_watchdog s6 (core_intr_status s6) = 0 then tell Disable_irq s6 else s6)"
    using assms(2) by (simp add: iris_vpu_power_off_def Let_def s1_def s2_def s6_def)
  then show ?thesis
    using effect_trans[OF effect_trans[OF e2 e6]
        effect_idle[of Disable_irq s6 "iris_vpu_watchdog s6 (core_intr_status s6) = 0"]]
    by simp
qed

lemma write_presets_effect: "effect s (write_presets ws s) (\<lambda>_. 0) (\<lambda>_. 0)"
proof (induction ws arbitrary: s)
  case (Cons w ws)
  have "effect s (writel (snd w) (fst w) s) (\<lambda>_. 0) (\<lambda>_. 0)"
    by (simp add: effect_def writel_def kernel_simps)
  from effect_trans[OF this Cons.IH] show ?case
    by (simp add: write_presets_def split_beta)
qed (simp add: write_presets_def effect_def)

lemma interrupt_init_effect: "effect s (iris_vpu_interrupt_init s) (\<lambda>_. 0) (\<lambda>_. 0)"
  by (simp add: iris_vpu_interrupt_init_def Let_def split_beta effect_def kernel_simps writel_def readl_def)

text \<open>Powering on, from the state that has recorded the attempt.\<close>

definition attempt :: "'a iris_core_scheme \<Rightarrow> 'a iris_core_scheme" where
  "attempt s = s\<lparr>vpu_powered := True\<rparr>"

lemma attempt_simps: "vpu5 (attempt s) = vpu5 s" "tables (attempt s) = tables s"
  "balance w (attempt s) = balance w s" "platform (attempt s) = platform s"
  by (simp_all add: attempt_def vpu5_def has_aux_pd_def iris_vpu_uses_legacy_vpu5_def tables_def
      balance_def)

lemma vpu5_calls:
  assumes "vpu5 s"
  shows "iris_set_icc_bw s w = (r, t) \<Longrightarrow> effect s t (\<lambda>_. 0) (\<lambda>_. 0) \<and> vpu5 t \<and> tables t = tables s"
    "ask (Opp_set_rate x) s = (r, t) \<Longrightarrow> effect s t (\<lambda>_. 0) (\<lambda>_. 0) \<and> vpu5 t \<and> tables t = tables s"
    "frame t = frame s \<Longrightarrow> vpu5 t \<and> tables t = tables s"
  using assms set_icc_effect[of s w r t] ask_effect[of "Opp_set_rate x" s r t]
    vpu5_frame[of t s] frame_eqD(3)[of t s] by (auto simp: effect_def)

text \<open>What a failed power-on leaves behind.\<close>

definition unwound :: "'a iris_core_scheme \<Rightarrow> 'a iris_core_scheme \<Rightarrow> bool" where
  "unwound s t \<longleftrightarrow> frame t = frame s \<and>
     (\<forall>c. balance (clk_weight c) t = balance (clk_weight c) s \<or>
          balance (clk_weight c) t = balance (clk_weight c) s - clk_on (tables s) IRIS_AUX_HW_CLK c) \<and>
     (\<forall>d. d \<noteq> CTRL_PD \<longrightarrow> balance (pm_weight d) t = balance (pm_weight d) s) \<and>
     balance (pm_weight CTRL_PD) t - balance (pm_weight CTRL_PD) s \<in> {0, 1}"

lemma power_on_controller_cases:
  assumes "vpu5 s" "iris_vpu_power_on_controller s = (r, t)"
  shows "r = 0 \<Longrightarrow> effect s t (\<lambda>c. clk_on (tables s) IRIS_BUS_CLK c + clk_on (tables s) IRIS_AXI_CLK c +
        clk_on (tables s) IRIS_CTRL_CLK c) (\<lambda>d. if d = CTRL_PD then 1 else 0)"
    "r \<noteq> 0 \<Longrightarrow> unwound s t"
  using power_on_controller_ensures[of s] vpu5D(3)[OF assms(1)] assms(2)
  by (auto simp: ensures_def effect_def unwound_def)

lemma power_on_hw_cases:
  assumes "vpu5 s" "iris_vpu_power_on_hw s = (r, t)"
  shows "r = 0 \<Longrightarrow> effect s t (\<lambda>c. clk_on (tables s) IRIS_HW_AXI_CLK c +
        clk_on (tables s) IRIS_AUX_HW_AXI_CLK c + clk_on (tables s) IRIS_HW_CLK c +
        clk_on (tables s) IRIS_AUX_HW_CLK c) (\<lambda>d. if d = HW_PD \<or> d = AUX_PD then 1 else 0)"
    "r \<noteq> 0 \<Longrightarrow> unwound s t"
  using power_on_hw_ensures[of s] vpu5D(2)[OF assms(1)] assms(2)
  by (auto simp: ensures_def effect_def unwound_def)

lemma effectD:
  assumes "effect s t f g"
  shows "frame t = frame s" "balance (clk_weight c) t = balance (clk_weight c) s + f c"
    "balance (pm_weight d) t = balance (pm_weight d) s + g d" "tables t = tables s"
  using assms by (auto simp: effect_def dest: frame_eqD(3))

lemma unwound_effect:
  assumes "effect s t f g" "unwound t u" "effect u v (\<lambda>c. - f c) (\<lambda>d. - g d)"
  shows "unwound s v"
proof -
  have "balance (clk_weight c) v = balance (clk_weight c) s \<or>
      balance (clk_weight c) v = balance (clk_weight c) s - clk_on (tables s) IRIS_AUX_HW_CLK c" for c
  proof -
    have "balance (clk_weight c) u = balance (clk_weight c) t \<or>
        balance (clk_weight c) u = balance (clk_weight c) t - clk_on (tables s) IRIS_AUX_HW_CLK c"
      using assms(2) effectD(4)[OF assms(1)] by (auto simp: unwound_def)
    then show ?thesis
      using effectD(2)[OF assms(1), of c] effectD(2)[OF assms(3), of c] by linarith
  qed
  moreover have diff: "balance (pm_weight d) v - balance (pm_weight d) s =
      balance (pm_weight d) u - balance (pm_weight d) t" for d
    using effectD(3)[OF assms(1), of d] effectD(3)[OF assms(3), of d] by simp
  have "balance (pm_weight d) v = balance (pm_weight d) s" if "d \<noteq> CTRL_PD" for d
  proof -
    have "balance (pm_weight d) u = balance (pm_weight d) t"
      using assms(2) that unfolding unwound_def by blast
    then show ?thesis using diff[of d] by simp
  qed
  moreover have "balance (pm_weight CTRL_PD) v - balance (pm_weight CTRL_PD) s \<in> {0, 1}"
    using assms(2) unfolding diff unwound_def by blast
  moreover have "frame v = frame s"
    using effectD(1)[OF assms(1)] effectD(1)[OF assms(3)] assms(2) by (simp add: unwound_def)
  ultimately show ?thesis unfolding unwound_def by blast
qed

lemma controller_undone:
  assumes "vpu5 s" "tables s = T"
  shows "effect s (snd (iris_unset_icc_bw (iris_vpu_power_off_controller s)))
    (\<lambda>c. - (clk_on T IRIS_BUS_CLK c + clk_on T IRIS_AXI_CLK c + clk_on T IRIS_CTRL_CLK c))
    (\<lambda>d. - (if d = CTRL_PD then 1 else 0))"
  using effect_trans[OF power_off_controller_effect unset_icc_effect, of s] vpu5D[OF assms(1)] assms(2)
  by (simp add: effect_def)

lemma unwound_refl: "unwound s s" by (simp add: unwound_def)

lemma power_on_unwind:
  assumes ok: "vpu5 s" and step: "effect s t (\<lambda>c. clk_on (tables s) IRIS_BUS_CLK c +
      clk_on (tables s) IRIS_AXI_CLK c + clk_on (tables s) IRIS_CTRL_CLK c)
      (\<lambda>d. if d = CTRL_PD then 1 else 0)" and u: "unwound t u"
  shows "unwound s (snd (iris_unset_icc_bw (iris_vpu_power_off_controller u)))"
    "unwound s (snd (iris_unset_icc_bw (iris_vpu_power_off_controller (snd (ask (Opp_set_rate x) u)))))"
proof -
  have f: "frame u = frame s" using step u by (simp add: effect_def unwound_def)
  note v = vpu5_calls(3)[OF ok f]
  show "unwound s (snd (iris_unset_icc_bw (iris_vpu_power_off_controller u)))"
    using unwound_effect[OF step u controller_undone[of u "tables s"]] v by simp
  let ?u = "snd (ask (Opp_set_rate x) u)"
  have e: "effect u ?u (\<lambda>_. 0) (\<lambda>_. 0)" by (rule opp_effect)
  then have fu: "frame ?u = frame s" using f by (simp add: effect_def)
  then have "effect u (snd (iris_unset_icc_bw (iris_vpu_power_off_controller ?u)))
      (\<lambda>c. - (clk_on (tables s) IRIS_BUS_CLK c + clk_on (tables s) IRIS_AXI_CLK c +
         clk_on (tables s) IRIS_CTRL_CLK c)) (\<lambda>d. - (if d = CTRL_PD then 1 else 0))"
    using effect_trans[OF e controller_undone[of ?u "tables s"]] vpu5_calls(3)[OF ok fu] by simp
  then show "unwound s (snd (iris_unset_icc_bw (iris_vpu_power_off_controller ?u)))"
    by (rule unwound_effect[OF step u])
qed

lemma power_on_up_to_opp:
  assumes ok: "vpu5 s" and i: "iris_set_icc_bw s w = (ri, s1)"
    and c: "iris_vpu_power_on_controller s1 = (0, s2)"
  shows "effect s s2 (\<lambda>c. clk_on (tables s) IRIS_BUS_CLK c + clk_on (tables s) IRIS_AXI_CLK c +
        clk_on (tables s) IRIS_CTRL_CLK c) (\<lambda>d. if d = CTRL_PD then 1 else 0)"
    and "ask (Opp_set_rate x) s2 = (ro, s4) \<Longrightarrow>
      effect s s4 (\<lambda>c. clk_on (tables s) IRIS_BUS_CLK c + clk_on (tables s) IRIS_AXI_CLK c +
        clk_on (tables s) IRIS_CTRL_CLK c) (\<lambda>d. if d = CTRL_PD then 1 else 0)"
proof -
  note 1 = vpu5_calls(1)[OF ok i]
  from effect_trans[OF conjunct1[OF 1] power_on_controller_cases(1)[OF _ c refl]]
  show 2: "effect s s2 (\<lambda>c. clk_on (tables s) IRIS_BUS_CLK c + clk_on (tables s) IRIS_AXI_CLK c +
        clk_on (tables s) IRIS_CTRL_CLK c) (\<lambda>d. if d = CTRL_PD then 1 else 0)"
    using 1 by simp
  show "effect s s4 (\<lambda>c. clk_on (tables s) IRIS_BUS_CLK c + clk_on (tables s) IRIS_AXI_CLK c +
        clk_on (tables s) IRIS_CTRL_CLK c) (\<lambda>d. if d = CTRL_PD then 1 else 0)"
    if "ask (Opp_set_rate x) s2 = (ro, s4)"
    using effect_trans[OF 2 ask_effect[OF that]] by simp
qed

lemma unwound_id: "effect s t (\<lambda>_. 0) (\<lambda>_. 0) \<Longrightarrow> unwound s t"
  by (simp add: effect_def unwound_def)

lemma unwound_0: "unwound s t \<Longrightarrow> effect t u (\<lambda>_. 0) (\<lambda>_. 0) \<Longrightarrow> unwound s u"
  "effect s t (\<lambda>_. 0) (\<lambda>_. 0) \<Longrightarrow> unwound t u \<Longrightarrow> unwound s u"
  using frame_eqD(3)[of t s] by (simp_all add: unwound_def effect_def)

lemma power_on_finish:
  "effect s (tell Enable_irq ((iris_vpu_interrupt_init (write_presets ws s))\<lparr>core_intr_status := 0\<rparr>))
     (\<lambda>_. 0) (\<lambda>_. 0)"
  using effect_trans[OF write_presets_effect[of s ws] interrupt_init_effect]
  by (simp add: effect_def kernel_simps)

lemma power_on_complete:
  assumes ok: "vpu5 s" and i: "iris_set_icc_bw s w = (ri, s1)"
    and c: "iris_vpu_power_on_controller s1 = (0, s2)" and o: "ask (Opp_set_rate x) s2 = (ro, s4)"
    and h: "iris_vpu_power_on_hw s4 = (0, s5)"
  shows "effect s (tell Enable_irq ((iris_vpu_interrupt_init (write_presets ws s5))
      \<lparr>core_intr_status := 0\<rparr>)) (vpu5_clks (tables s)) vpu5_pds"
proof -
  note 4 = power_on_up_to_opp(2)[OF ok i c o]
  note v = vpu5_calls(3)[OF ok effectD(1)[OF 4]]
  have "vpu5_clks (tables s) = (\<lambda>c. (clk_on (tables s) IRIS_BUS_CLK c + clk_on (tables s) IRIS_AXI_CLK c +
      clk_on (tables s) IRIS_CTRL_CLK c) + (clk_on (tables s) IRIS_HW_AXI_CLK c +
      clk_on (tables s) IRIS_AUX_HW_AXI_CLK c + clk_on (tables s) IRIS_HW_CLK c +
      clk_on (tables s) IRIS_AUX_HW_CLK c) + 0)"
    by (simp add: fun_eq_iff vpu5_clks_split)
  moreover have "vpu5_pds = (\<lambda>d. (if d = CTRL_PD then 1 else 0) +
      (if d = HW_PD \<or> d = AUX_PD then 1 else 0) + 0)"
    by (simp add: fun_eq_iff vpu5_pds_split)
  ultimately show ?thesis
    using effect_trans[OF effect_trans[OF 4 power_on_hw_cases(1)[OF conjunct1[OF v] h refl]]
        power_on_finish] v by (simp only:) 
qed

lemma power_on_ensures:
  assumes "vpu5 s0"
  shows "ensures (iris_vpu_power_on s0) (\<lambda>(r, t).
    if r = 0 then effect (attempt s0) t (vpu5_clks (tables s0)) vpu5_pds else unwound (attempt s0) t)"
proof -
  define s where "s = attempt s0"
  have d: "defer_vcodec_power (platform s0)" "vpu5 s" "tables s0 = tables s"
    using assms by (simp_all add: vpu5D s_def attempt_simps)
  note up = power_on_up_to_opp[OF d(2)]
  have hw: "vpu5 s4" if "effect s s4 f g" for s4 f g
    using vpu5_calls(3)[OF d(2), of s4] effectD(1)[OF that] by simp
  show ?thesis
    unfolding iris_vpu_power_on_def Let_def attempt_def[symmetric] s_def[symmetric] d(3)
    apply (simp only: d(1) simp_thms if_True if_False prod.case)
    apply (intro vcg)
        apply (simp_all only: prod.case if_True if_False simp_thms)
    subgoal by (rule unwound_id, rule set_icc_effect)
    subgoal for ri s1 rc s2
      by (rule unwound_0(1)[OF unwound_0(2) unset_icc_effect, OF set_icc_effect, of s _ ri s1])
        (auto intro: power_on_controller_cases(2) dest: vpu5_calls(1)[OF d(2)])
    subgoal by (rule power_on_unwind(1)[OF d(2) up(2) unwound_refl])
    subgoal by (rule power_on_unwind(2)[OF d(2) up(2) power_on_hw_cases(2)[OF hw[OF up(2)]]])
    subgoal by (rule power_on_complete[OF d(2)])
    done
qed

section \<open>The boot loop\<close>

definition status_read :: "'a iris_core_scheme \<Rightarrow> nat \<Rightarrow> u32" where
  "status_read s i = word_of_int (env s (length (klog s) + i))"

text \<open>The firmware came up: a status other than 0 within the tries, the last one not counting.\<close>

definition boots_within :: "nat \<Rightarrow> 'a iris_core_scheme \<Rightarrow> bool" where
  "boots_within n s \<longleftrightarrow> (\<exists>i<n. (\<forall>j<i. status_read s j = 0) \<and> status_read s i \<noteq> 0 \<and>
     (Suc i < n \<or> status_read s i AND CTRL_ERROR_STATUS__M = 4))"

lemma readl_eq: "readl reg s = (status_read s 0, tell (Readl reg (env s (length (klog s)))) s)"
  by (simp add: readl_def ask_def tell_def Let_def status_read_def)

lemma status_read_tell: "status_read (tell k s) i = status_read s (Suc i)"
  by (simp add: status_read_def tell_def)

lemma boots_within_Suc:
  "boots_within (Suc n) s \<longleftrightarrow>
     (if status_read s 0 AND CTRL_ERROR_STATUS__M = 4 then True
      else if status_read s 0 \<noteq> 0 then 0 < n else boots_within n (tell k s))"
proof -
  have ex: "(\<exists>i<Suc n. P i) \<longleftrightarrow> P 0 \<or> (\<exists>i<n. P (Suc i))" for P
    using less_Suc_eq_0_disj by auto
  have all: "(\<forall>j<Suc i. P j) \<longleftrightarrow> P 0 \<and> (\<forall>j<i. P (Suc j))" for P i
    using less_Suc_eq_0_disj by auto
  have "status_read s 0 = 0 \<Longrightarrow> \<not> status_read s 0 AND CTRL_ERROR_STATUS__M = 4" by simp
  then show ?thesis
    unfolding boots_within_def ex all by (auto simp: status_read_tell)
qed

lemma boot_poll_result: "fst (boot_poll reg n 0 s) = 0 \<longleftrightarrow> \<not> boots_within n s"
proof (induction n arbitrary: s)
  case 0 then show ?case by (simp add: boots_within_def)
next
  case (Suc n)
  let ?t = "tell (Readl reg (env s (length (klog s)))) s"
  have "fst (boot_poll reg n st ?t) = 0 \<longleftrightarrow> n = 0" if "st \<noteq> 0" for st
    using that by (cases n) auto
  then show ?case
    using Suc.IH[of ?t] boots_within_Suc[of n s "Readl reg (env s (length (klog s)))"]
    by (auto simp: readl_eq)
qed

text \<open>The clocks the nabu device tree names, in its order.\<close>

definition nabu_clocks :: "string list" where
  "nabu_clocks = [''core'', ''iface'', ''bus'', ''vcodec0_core'', ''vcodec0_bus'', ''vcodec1_core'', ''vcodec1_bus'']"

definition nabu_core :: "(nat \<Rightarrow> int) \<Rightarrow> iris_core" where
  "nabu_core = probed_core sm8150_data nabu_clocks"

lemma nabu_vpu5: "vpu5 (nabu_core e)" "balance w (nabu_core e) = 0"
  by (simp_all add: nabu_core_def probed_core_def sm8150_data_def vpu5_def has_aux_pd_def
      iris_vpu_uses_legacy_vpu5_def IRIS_AUX_HW_POWER_DOMAIN_index_def balance_def)

lemma nabu_tables: "tables (nabu_core e) = (sm8150_data, nabu_clocks)"
  by (simp add: tables_def nabu_core_def probed_core_def)

text \<open>The core just before the boot loop.\<close>

definition booting :: "'a iris_core_scheme \<Rightarrow> 'a iris_core_scheme" where
  "booting s = writel (BIT 0) (iris_vpu_cpu_cs_base s + 0x48) (iris_vpu_setup_ucregion_memory_map s)"

section \<open>Properties\<close>

text \<open>
  C7. A power cycle of the SM8150 VPU is balanced. A successful power-on enables each of the
  seven clocks and takes each of the three power domains exactly once and records that it did;
  a following power-off gives back exactly that, whatever the kernel calls in it return, and a
  second power-off does nothing.
\<close>

theorem vpu_power_cycle:
  assumes "vpu5 s" "iris_vpu_power_on s = (0, t)"
  shows "vpu_powered t \<and>
    (\<forall>c. balance (clk_weight c) t = balance (clk_weight c) s + vpu5_clks (tables s) c) \<and>
    (\<forall>d. balance (pm_weight d) t = balance (pm_weight d) s + vpu5_pds d) \<and>
    (\<forall>c. balance (clk_weight c) (iris_vpu_power_off t) = balance (clk_weight c) s) \<and>
    (\<forall>d. balance (pm_weight d) (iris_vpu_power_off t) = balance (pm_weight d) s) \<and>
    iris_vpu_power_off (iris_vpu_power_off t) = iris_vpu_power_off t"
proof -
  have on: "effect (attempt s) t (vpu5_clks (tables s)) vpu5_pds"
    using power_on_ensures[OF assms(1)] assms(2) by (simp add: ensures_def)
  note f = effectD(1)[OF on]
  have t: "vpu5 t" "vpu_powered t" "tables t = tables s"
    using vpu5_frame[OF f] frame_eqD(6)[OF f] frame_eqD(3)[OF f] assms(1)
    by (simp_all add: attempt_simps) (simp add: attempt_def)
  note off = power_off_effect[OF t(1,2)]
  have "\<not> vpu_powered (iris_vpu_power_off t)"
    using frame_eqD(6)[OF effectD(1)[OF off]] by (simp add: powered_off_def)
  then have "iris_vpu_power_off (iris_vpu_power_off t) = iris_vpu_power_off t"
    by (simp add: iris_vpu_power_off_def)
  then show ?thesis
    using on off t by (simp add: effect_def powered_off_vpu5 attempt_simps)
qed

lemma vpu_power_cycle_witness:
  "\<exists>t. iris_vpu_power_on (nabu_core (\<lambda>_. 0)) = (0, t) \<and> balance (clk_weight 3) t = 1 \<and>
     balance (clk_weight 3) (iris_vpu_power_off t) = 0"
proof -
  obtain r t where p: "iris_vpu_power_on (nabu_core (\<lambda>_. 0)) = (r, t)" by (metis surj_pair)
  have "fst (iris_vpu_power_on (nabu_core (\<lambda>_. 0))) = 0" by code_simp
  with p have p0: "iris_vpu_power_on (nabu_core (\<lambda>_. 0)) = (0, t)" by simp
  have "vpu5_clks (sm8150_data, nabu_clocks) 3 = 1" by code_simp
  then show ?thesis
    using vpu_power_cycle[OF nabu_vpu5(1) p0] p0 by (simp add: nabu_vpu5 nabu_tables)
qed

text \<open>
  C8. A power-on of the SM8150 VPU that fails undoes itself: it leaves every power domain but
  the controller's as it found it, and every clock but the auxiliary codec clock, which it may
  leave disabled once too often, and the controller domain, which it may leave taken once. It
  does leave the VPU marked as powered.
\<close>

theorem vpu_power_on_fails:
  assumes "vpu5 s" "iris_vpu_power_on s = (r, t)" "r \<noteq> 0"
  shows "vpu_powered t \<and>
    (\<forall>c. clk_on (tables s) IRIS_AUX_HW_CLK c = 0 \<longrightarrow>
       balance (clk_weight c) t = balance (clk_weight c) s) \<and>
    (\<forall>c. balance (clk_weight c) t - balance (clk_weight c) s \<in> {- 1, 0}) \<and>
    (\<forall>d. d \<noteq> CTRL_PD \<longrightarrow> balance (pm_weight d) t = balance (pm_weight d) s) \<and>
    balance (pm_weight CTRL_PD) t - balance (pm_weight CTRL_PD) s \<in> {0, 1}"
proof -
  have u: "unwound (attempt s) t"
    using power_on_ensures[OF assms(1)] assms(2,3) by (simp add: ensures_def)
  then have "vpu_powered t"
    using frame_eqD(6)[of t "attempt s"] by (simp add: unwound_def attempt_def)
  moreover have "balance (clk_weight c) t - balance (clk_weight c) s \<in> {- 1, 0}" for c
  proof -
    have "clk_on (tables s) IRIS_AUX_HW_CLK c \<in> {0, 1}" by (simp add: clk_on_def)
    moreover have "balance (clk_weight c) t - balance (clk_weight c) s \<in>
        {- clk_on (tables s) IRIS_AUX_HW_CLK c, 0}"
      using u unfolding unwound_def attempt_simps by auto
    ultimately show ?thesis by auto
  qed
  ultimately show ?thesis
    using u by (auto simp: unwound_def attempt_simps)
qed

lemma vpu_power_on_fails_witness:
  "\<exists>t. iris_vpu_power_on (nabu_core (\<lambda>n. if n = 19 then - EIO else 0)) = (- EIO, t) \<and> vpu_powered t \<and>
     balance (clk_weight 5) t = - 1 \<and> balance (clk_weight 3) t = 0"
proof -
  let ?s = "nabu_core (\<lambda>n. if n = 19 then - EIO else 0)"
  obtain r t where p: "iris_vpu_power_on ?s = (r, t)" by (metis surj_pair)
  have "fst (iris_vpu_power_on ?s) = - EIO" by code_simp
  with p have p0: "iris_vpu_power_on ?s = (- EIO, t)" by simp
  have "balance (clk_weight 5) (snd (iris_vpu_power_on ?s)) = - 1" by code_simp
  moreover have "clk_on (sm8150_data, nabu_clocks) IRIS_AUX_HW_CLK 3 = 0" by code_simp
  ultimately show ?thesis
    using vpu_power_on_fails[OF nabu_vpu5(1) p0] p0 by (simp add: nabu_vpu5 nabu_tables)
qed



text \<open>
  The boot of the firmware succeeds exactly when a status other than 0 is read within the
  first 999 polls, or an error status within 1000: an error status, a rejected queue region
  included, is reported as success.
\<close>

theorem vpu_boot_result:
  "fst (iris_vpu_boot_firmware s) = (if boots_within 1000 (booting s) then 0 else - ETIME)"
  using boot_poll_result[of "iris_vpu_cpu_cs_base s + 0x4c" 1000 "booting s"]
  by (auto simp: iris_vpu_boot_firmware_def Let_def booting_def split_beta)

text \<open>
  The region advertised to the firmware starts at the queue table and covers the whole
  queue allocation. On SM8150 it is exactly what was allocated; on the other platforms it is
  larger than the allocation.
\<close>

theorem vpu_uc_region:
  "\<exists>ws. klog (iris_vpu_setup_ucregion_memory_map s) = klog s @ ws \<and>
     Writel (iris_vpu_cpu_cs_base s + 0x64) (ucast (iface_q_table_daddr s)) \<in> set ws \<and>
     Writel (iris_vpu_cpu_cs_base s + 0x68) uc_region_size \<in> set ws \<and>
     (if legacy_vpu5 (platform s) then iris_hfi_queue_alloc_size s = uc_region_size
      else iris_hfi_queue_alloc_size s < uc_region_size)"
  by (simp add: iris_vpu_setup_ucregion_memory_map_def Let_def writel_def tell_def alloc_size
      uc_region_size_def queue_sizes)

end
