(* ===== verification/IrisPower.thy ===== *)
theory IrisPower
  imports IrisState IrisBufBounds IrisVpu
begin

text \<open>
  Power votes (\<open>iris_power.c\<close>, \<open>iris_vpu2.c\<close>) and the load checks of \<open>iris_utils.c\<close>: the
  bandwidth and the clock rate a session needs, their sum over the sessions that have a
  firmware session and input data, and the votes that go to the interconnect and the OPP
  framework. The arithmetic has the width of the code.
\<close>

section \<open>Frame rate, bandwidth and frequency of a session\<close>

definition DEFAULT_FPS :: u32 where "DEFAULT_FPS = 30"

definition iris_get_operating_fps :: "iris_inst \<Rightarrow> u32" where
  "iris_get_operating_fps inst = (if frame_rate inst \<noteq> 0 then frame_rate inst else DEFAULT_FPS)"

text \<open>The loop over the rows of the table; \<open>i\<close> is 0 for the first row only.\<close>

fun calc_bw_loop :: "nat \<Rightarrow> bw_info list \<Rightarrow> u32 \<Rightarrow> u32 \<Rightarrow> u32" where
  "calc_bw_loop i [] mbps icc_bw = icc_bw"
| "calc_bw_loop i (row # rows) mbps icc_bw =
     (if i \<noteq> 0 \<and> mbs_per_sec row < mbps then icc_bw
      else calc_bw_loop (Suc i) rows mbps (bw_ddr row))"

definition iris_calc_bw :: "iris_platform_data \<Rightarrow> u32 \<Rightarrow> u32 \<Rightarrow> u32 \<Rightarrow> u32" where
  "iris_calc_bw pd width height fps =
     (let mbs = DIV_ROUND_UP height 16 * DIV_ROUND_UP width 16;
          mbps = mbs * fps
      in if mbps = 0 then 0 else calc_bw_loop 0 (bw_tbl_dec pd) mbps 0)"

definition iris_vpu2_calc_freq :: "iris_platform_data \<Rightarrow> iris_inst \<Rightarrow> u64 \<Rightarrow> u64" where
  "iris_vpu2_calc_freq pd inst input_bytes =
     (let caps = inst_caps pd;
          fps = iris_get_operating_fps inst;
          width = max (pix_width (fmt_src inst)) (rect_width (crop inst));
          height = max (pix_height (fmt_src inst)) (rect_height (crop inst));
          mbpf = NUM_MBS_PER_FRAME height width;
          mbs_per_second = mbpf * fps;
          vpp_freq = (ucast (mbs_per_second * mb_cycles_vpp caps) :: u64);
          vpp_freq = vpp_freq + vpp_freq div 20;
          vsp_freq = (ucast (mbs_per_second * mb_cycles_vsp caps) :: u64);
          vsp_freq = vsp_freq + ((ucast fps * input_bytes * 8) * 10) div 7
      in max vpp_freq vsp_freq)"

section \<open>Votes\<close>

text \<open>The sessions whose votes count.\<close>

definition voting :: "iris_inst \<Rightarrow> bool" where
  "voting inst \<longleftrightarrow> \<not> (\<not> hfi_session_opened inst \<or> max_input_data_size inst = 0)"

definition iris_set_interconnects :: "iris_sys \<Rightarrow> int \<times> iris_sys" where
  "iris_set_interconnects s =
     (let total_bw_ddr = fold (\<lambda>j total. if voting (inst_heap s j)
                                then total + ucast (inst_icc_bw (inst_heap s j)) else total)
                           (instances s) (0 :: u64)
      in iris_set_icc_bw s total_bw_ddr)"

definition iris_vote_interconnects :: "nat \<Rightarrow> iris_sys \<Rightarrow> int \<times> iris_sys" where
  "iris_vote_interconnects i s =
     (let inst = inst_heap s i;
          bw = iris_calc_bw (platform s) (pix_width (fmt_src inst)) (pix_height (fmt_src inst))
                 (iris_get_operating_fps inst)
      in iris_set_interconnects (modify_inst i (inst_icc_bw_update (\<lambda>_. bw)) s))"

text \<open>The OPP lookup gives the lowest rate, or an error (a result that is not positive).\<close>

definition iris_vpu_min_freq :: "'a iris_core_scheme \<Rightarrow> u64 \<times> 'a iris_core_scheme" where
  "iris_vpu_min_freq s =
     (case ask Opp_find_freq_ceil s of (r, s1) \<Rightarrow> (if r \<le> 0 then 0 else word_of_int r, s1))"

definition set_rate :: "u64 \<Rightarrow> 'a iris_core_scheme \<Rightarrow> int \<times> 'a iris_core_scheme" where
  "set_rate freq s =
     (case ask (Opp_set_rate freq) s of (ret, s1) \<Rightarrow>
      (ret, if ret = 0 then s1\<lparr>power := (power s1)\<lparr>clk_freq := freq\<rparr>\<rparr> else s1))"

definition iris_set_clocks :: "iris_sys \<Rightarrow> int \<times> iris_sys" where
  "iris_set_clocks s =
     (let freq = fold (\<lambda>j total. if voting (inst_heap s j)
                        then total + min_freq (inst_heap s j) else total) (instances s) 0 in
      case (if freq = 0 then iris_vpu_min_freq s else (freq, s)) of (freq, s1) \<Rightarrow>
      if freq = 0 \<or> freq = clk_freq (power s1) then (0, s1)
      else set_rate freq s1)"

definition iris_scale_clocks :: "nat \<Rightarrow> iris_sys \<Rightarrow> int \<times> iris_sys" where
  "iris_scale_clocks i s =
     (let biggest = fold (\<lambda>buf sz. max sz (data_size buf)) (m2m_src (inst_heap s i)) 0;
          s1 = modify_inst i (max_input_data_size_update (\<lambda>_. biggest)) s
      in if biggest = 0 then (0, s1)
         else let freq = iris_vpu2_calc_freq (platform s1) (inst_heap s1 i) biggest
         in iris_set_clocks (modify_inst i (min_freq_update (\<lambda>_. freq)) s1))"

definition iris_scale_power :: "nat \<Rightarrow> iris_sys \<Rightarrow> int \<times> iris_sys" where
  "iris_scale_power i s =
     (let scale = (\<lambda>t. case iris_scale_clocks i t of (ret, t1) \<Rightarrow>
                        if ret \<noteq> 0 then (ret, t1) else iris_vote_interconnects i t1) in
      case ask Pm_suspended s of (suspended, s1) \<Rightarrow>
      if suspended \<noteq> 0 then
        (case pm_runtime_resume_and_get Core_dev s1 of (ret, s2) \<Rightarrow>
         if ret < 0 then (ret, s2) else scale (tell (Pm_put_autosuspend Core_dev) s2))
      else scale s1)"

definition iris_set_idle_opp :: "'a iris_core_scheme \<Rightarrow> int \<times> 'a iris_core_scheme" where
  "iris_set_idle_opp s =
     (case iris_vpu_min_freq s of (freq, s1) \<Rightarrow>
      if freq = 0 then (0, s1)
      else if freq = clk_freq (power s1) then (0, s1)
      else set_rate freq s1)"

definition iris_unvote_power :: "nat \<Rightarrow> iris_sys \<Rightarrow> int \<times> iris_sys" where
  "iris_unvote_power i s =
     (let s1 = modify_inst i (\<lambda>inst. inst\<lparr>max_input_data_size := 0, min_freq := 0,
                                        inst_icc_bw := 0\<rparr>) s in
      case iris_set_clocks s1 of (ret, s2) \<Rightarrow>
      case iris_set_interconnects s2 of (ret2, s3) \<Rightarrow>
      (if ret \<noteq> 0 then ret else ret2, s3))"

section \<open>Load of the core\<close>

text \<open>The instance in question counts whether or not it has a firmware session.\<close>

definition counted :: "iris_sys \<Rightarrow> nat \<Rightarrow> nat list" where
  "counted s i = filter (\<lambda>j. \<not> (j \<noteq> i \<and> \<not> hfi_session_opened (inst_heap s j))) (instances s)"

definition iris_check_core_mbpf :: "nat \<Rightarrow> iris_sys \<Rightarrow> int" where
  "iris_check_core_mbpf i s =
     (let total_mbpf = fold (\<lambda>j total. total + iris_get_mbpf (inst_heap s j)) (counted s i) 0
      in if max_core_mbpf (platform s) < total_mbpf then - ENOMEM else 0)"

definition iris_check_core_mbps :: "nat \<Rightarrow> iris_sys \<Rightarrow> int" where
  "iris_check_core_mbps i s =
     (let total_mbps = fold (\<lambda>j total. total + iris_get_mbpf (inst_heap s j) *
                               max (frame_rate (inst_heap s j)) (operating_rate (inst_heap s j)))
                         (counted s i) 0
      in if max_core_mbps (platform s) < total_mbps then - ENOMEM else 0)"

section \<open>The least sufficient bandwidth\<close>

lemma calc_bw_loop_takeWhile:
  "calc_bw_loop (Suc i) rows mbps bw =
     (case rev (takeWhile (\<lambda>r. mbps \<le> mbs_per_sec r) rows) of [] \<Rightarrow> bw | r # _ \<Rightarrow> bw_ddr r)"
proof (induction rows arbitrary: i bw)
  case (Cons r rows)
  then show ?case
    by (cases "rev (takeWhile (\<lambda>r. mbps \<le> mbs_per_sec r) rows)") (auto simp: not_less)
qed simp

text \<open>
  The bandwidth of a session is that of a row of the platform's table, and when the table
  is sorted by falling load it is the smallest row that carries the load, or the first row
  when none does.
\<close>

theorem calc_bw_least:
  assumes tbl: "bw_tbl_dec pd = r # rows"
    and sorted: "sorted_wrt (\<lambda>a b. mbs_per_sec b \<le> mbs_per_sec a) (r # rows)"
    and load: "mbps = DIV_ROUND_UP height 16 * DIV_ROUND_UP width 16 * fps" "mbps \<noteq> 0"
  shows "\<exists>x \<in> set (r # rows). iris_calc_bw pd width height fps = bw_ddr x \<and>
           (x = r \<or> mbps \<le> mbs_per_sec x) \<and>
           (\<forall>y \<in> set (r # rows). mbps \<le> mbs_per_sec y \<longrightarrow> mbs_per_sec x \<le> mbs_per_sec y)"
proof -
  define ok where "ok = (\<lambda>x :: bw_info. mbps \<le> mbs_per_sec x)"
  have e: "iris_calc_bw pd width height fps =
      (case rev (takeWhile ok rows) of [] \<Rightarrow> bw_ddr r | x # _ \<Rightarrow> bw_ddr x)"
    using load by (simp add: iris_calc_bw_def tbl calc_bw_loop_takeWhile ok_def del: rev_is_Nil_conv)
  have le: "mbs_per_sec x \<le> mbs_per_sec r" if "x \<in> set rows" for x
    using sorted that by simp
  show ?thesis
  proof (cases "rev (takeWhile ok rows)")
    case Nil
    then have "takeWhile ok rows = []" by simp
    then have none: "\<not> ok y" if "y \<in> set rows" for y
      using sorted that unfolding ok_def by (cases rows) (auto split: if_splits dest: order.trans)
    show ?thesis
      using e Nil none by (intro bexI[of _ r]) (auto simp: ok_def)
  next
    case (Cons x ys)
    then have tw: "takeWhile ok rows = rev ys @ [x]" by (metis rev.simps(2) rev_rev_ident)
    obtain zs where zs: "rows = (rev ys @ [x]) @ zs" "zs = [] \<or> \<not> ok (hd zs)"
      using takeWhile_dropWhile_id[of ok rows] hd_dropWhile[of ok rows] tw
      by (metis)
    have okx: "ok x"
      using tw set_takeWhileD[of x ok rows] by simp
    have least: "mbs_per_sec x \<le> mbs_per_sec y" if "y \<in> set (r # rows)" "ok y" for y
    proof -
      have "y \<notin> set zs"
        using that(2) zs(2) sorted unfolding zs(1) ok_def
        by (cases zs) (auto simp: sorted_wrt_append dest: order.trans)
      then show ?thesis
        using that(1) sorted unfolding zs(1) by (auto simp: sorted_wrt_append)
    qed
    show ?thesis
      using e Cons okx least zs(1) by (intro bexI[of _ x]) (auto simp: ok_def)
  qed
qed

lemma calc_bw_least_witness:
  "\<exists>x \<in> set (bw_tbl_dec sm8250_data). iris_calc_bw sm8250_data 1920 1080 60 = bw_ddr x"
proof -
  have "bw_tbl_dec sm8250_data = hd sm8250_bw_table_dec # tl sm8250_bw_table_dec"
    by (simp add: sm8250_data_def sm8250_bw_table_dec_def)
  moreover have "sorted_wrt (\<lambda>a b. mbs_per_sec b \<le> mbs_per_sec a)
      (hd sm8250_bw_table_dec # tl sm8250_bw_table_dec)"
    by (simp add: sm8250_bw_table_dec_def)
  moreover have "(DIV_ROUND_UP 1080 16 * DIV_ROUND_UP 1920 16 * 60 :: u32) \<noteq> 0"
    by (simp add: DIV_ROUND_UP_def)
  ultimately show ?thesis
    using calc_bw_least[of sm8250_data _ _ _ 1080 1920 60] by fastforce
qed

section \<open>The votes of all sessions\<close>

definition freq_votes :: "iris_sys \<Rightarrow> u64" where
  "freq_votes s = (\<Sum>j \<leftarrow> instances s. if voting (inst_heap s j) then min_freq (inst_heap s j) else 0)"

definition bw_votes :: "iris_sys \<Rightarrow> u64" where
  "bw_votes s =
     (\<Sum>j \<leftarrow> instances s. if voting (inst_heap s j) then ucast (inst_icc_bw (inst_heap s j)) else 0)"

lemma fold_add_if:
  "fold (\<lambda>j total. if P j then total + f j else total) js a = a + (\<Sum>j \<leftarrow> js. if P j then f j else 0)"
  for f :: "'a \<Rightarrow> 'b::comm_monoid_add"
  by (induction js arbitrary: a) (simp_all add: add.assoc)

lemma set_rate_result:
  "set_rate f s = (0, s') \<Longrightarrow> clk_freq (power s') = f"
  by (auto simp: set_rate_def split: prod.splits if_splits)

lemma set_rate_frame:
  "set_rate f s = (r, s') \<Longrightarrow> instances s' = instances s \<and> platform s' = platform s \<and>
     inst_heap s' = inst_heap s \<and> icc_avg_bw s' = icc_avg_bw s \<and>
     power_icc_bw (power s') = power_icc_bw (power s)"
  by (auto simp: set_rate_def ask_def Let_def split: if_splits)

lemma min_freq_frame:
  "iris_vpu_min_freq s = (f, s') \<Longrightarrow> instances s' = instances s \<and> platform s' = platform s \<and>
     inst_heap s' = inst_heap s \<and> icc_avg_bw s' = icc_avg_bw s \<and> power s' = power s"
  by (auto simp: iris_vpu_min_freq_def ask_def Let_def)

lemma set_clocks_frame:
  "iris_set_clocks s = (r, s') \<Longrightarrow> instances s' = instances s \<and> platform s' = platform s \<and>
     inst_heap s' = inst_heap s \<and> icc_avg_bw s' = icc_avg_bw s \<and>
     power_icc_bw (power s') = power_icc_bw (power s)"
  unfolding iris_set_clocks_def Let_def
  by (auto split: prod.splits if_splits dest!: set_rate_frame min_freq_frame)

lemma set_clocks_result:
  assumes "iris_set_clocks s = (0, s')"
  defines "target \<equiv> if freq_votes s = 0 then fst (iris_vpu_min_freq s) else freq_votes s"
  shows "target = 0 \<or> clk_freq (power s') = target"
proof -
  have f: "fold (\<lambda>j total. if voting (inst_heap s j) then total + min_freq (inst_heap s j) else total)
             (instances s) 0 = freq_votes s"
    by (simp add: fold_add_if freq_votes_def)
  obtain f1 s1 where m: "iris_vpu_min_freq s = (f1, s1)" by fastforce
  show ?thesis
    using assms(1) unfolding iris_set_clocks_def f target_def m
    by (auto simp: Let_def split: if_splits dest: set_rate_result)
qed

text \<open>The distance of two rates, and the rate the code votes for a sum of bandwidths.\<close>

definition clamp_bw :: "icc_info \<Rightarrow> u64 \<Rightarrow> u64" where
  "clamp_bw info bw = min (max bw (bw_min_kbps info)) (bw_max_kbps info)"

lemma abs_diff_word:
  "(if a < b then b - a else a - b) < c \<Longrightarrow> \<bar>int (unat a) - int (unat b)\<bar> < int (unat c)"
  for a b c :: u64
  by (cases "a < b") (auto simp: word_less_nat_alt unat_sub_if_size simp del: of_nat_unat)

lemma set_icc_bw_close:
  assumes "iris_set_icc_bw s bw = (0, s')"
    and "video_mem_index (icc_info_tbl (platform s)) = Some k"
  shows "\<bar>int (unat (power_icc_bw (power s'))) -
          int (unat (clamp_bw (icc_info_tbl (platform s) ! k) bw))\<bar> < 50000"
proof -
  let ?b = "clamp_bw (icc_info_tbl (platform s) ! k) bw" and ?a = "power_icc_bw (power s)"
  consider "power_icc_bw (power s') = ?b"
    | "s' = s" "(if ?a < ?b then ?b - ?a else ?a - ?b) < BW_THRESHOLD"
    using assms unfolding iris_set_icc_bw_def clamp_bw_def
    by (auto simp: Let_def split: prod.splits if_splits)
  then show ?thesis
  proof cases
    case 2
    then show ?thesis
      using abs_diff_word[OF 2(2)] by (simp add: BW_THRESHOLD_def)
  qed simp
qed

lemma set_interconnects_result:
  assumes "iris_set_interconnects s = (0, s')"
    and "video_mem_index (icc_info_tbl (platform s)) = Some k"
  shows "\<bar>int (unat (power_icc_bw (power s'))) -
          int (unat (clamp_bw (icc_info_tbl (platform s) ! k) (bw_votes s)))\<bar> < 50000"
proof (rule set_icc_bw_close[OF _ assms(2)])
  show "iris_set_icc_bw s (bw_votes s) = (0, s')"
    using assms(1) by (simp add: iris_set_interconnects_def fold_add_if bw_votes_def)
qed


text \<open>A session with votes next to one that has none of the core, for the witnesses.\<close>

definition voting_inst :: "u64 \<Rightarrow> u32 \<Rightarrow> iris_inst" where
  "voting_inst f bw = zero_inst\<lparr>hfi_session_opened := True, max_input_data_size := 1,
                                min_freq := f, inst_icc_bw := bw\<rparr>"


section \<open>The clock rate of a session\<close>

lemma calc_freq_mbpf:
  "iris_vpu2_calc_freq pd inst sz =
     (let mbps = iris_get_mbpf inst * iris_get_operating_fps inst;
          vpp = ucast (mbps * mb_cycles_vpp (inst_caps pd));
          vsp = ucast (mbps * mb_cycles_vsp (inst_caps pd))
      in max (vpp + vpp div 20)
             (vsp + (ucast (iris_get_operating_fps inst) * sz * 8 * 10) div 7))"
  by (simp add: iris_vpu2_calc_freq_def iris_get_mbpf_def Let_def)

lemma unat_u64_of_u32: "unat (ucast x :: u64) = unat x" for x :: u32
proof -
  have "unat x < 2 ^ 32" using unsigned_less[of x] by simp
  then show ?thesis by (simp add: unsigned_ucast_eq take_bit_nat_eq_self)
qed

lemma unat_max: "unat (max a b) = max (unat a) (unat b)" for a b :: "'a::len word"
  by (simp add: max_def word_le_nat_alt)

text \<open>The clock rate a session needs, on numbers of any size.\<close>

definition freq_needed :: "iris_platform_data \<Rightarrow> iris_inst \<Rightarrow> nat \<Rightarrow> nat" where
  "freq_needed pd inst bytes =
    (let fps = unat (iris_get_operating_fps inst);
         mbps = unat (iris_get_mbpf inst) * fps;
         vpp = mbps * unat (mb_cycles_vpp (inst_caps pd));
         vsp = mbps * unat (mb_cycles_vsp (inst_caps pd))
     in max (vpp + vpp div 20) (vsp + (fps * bytes * 80) div 7))"

text \<open>
  C13. The machine arithmetic of the clock request is equivalent to its formula on numbers, the
  cycles of the pixel pipes with 5 per cent of overhead or those of the bitstream engine, whichever
  is more, as long as the products of the code stay below 2^32.
\<close>

theorem calc_freq_exact:
  assumes vpp: "unat (iris_get_mbpf inst) * unat (iris_get_operating_fps inst) *
              unat (mb_cycles_vpp (inst_caps pd)) < 2 ^ 32"
    and vsp: "unat (iris_get_mbpf inst) * unat (iris_get_operating_fps inst) *
              unat (mb_cycles_vsp (inst_caps pd)) < 2 ^ 32"
    and "0 < mb_cycles_vpp (inst_caps pd)"
    and sz: "unat sz < 2 ^ 24"
  shows "unat (iris_vpu2_calc_freq pd inst sz) = freq_needed pd inst (unat sz)"
proof -
  define M F P S where d: "M = unat (iris_get_mbpf inst)" "F = unat (iris_get_operating_fps inst)"
    "P = unat (mb_cycles_vpp (inst_caps pd))" "S = unat (mb_cycles_vsp (inst_caps pd))"
  have P0: "0 < P" using assms(3) by (simp add: d word_less_nat_alt)
  have b: "M * F * P < 2 ^ 32" "M * F * S < 2 ^ 32"
    using vpp vsp by (simp_all add: d)
  have MF: "M * F < 2 ^ 32"
  proof -
    have "M * F * 1 \<le> M * F * P" using P0 by (intro mult_le_mono2) simp
    with b show ?thesis by linarith
  qed
  have u1: "unat (iris_get_mbpf inst * iris_get_operating_fps inst) = M * F"
    using MF by (simp add: unat_word_ariths d)
  have u2: "unat (iris_get_mbpf inst * iris_get_operating_fps inst * mb_cycles_vpp (inst_caps pd)) = M * F * P"
    and u3: "unat (iris_get_mbpf inst * iris_get_operating_fps inst * mb_cycles_vsp (inst_caps pd)) = M * F * S"
    using b by (simp_all add: unat_word_ariths(2)[of "iris_get_mbpf inst * iris_get_operating_fps inst"] u1 d[symmetric])
  have Fl: "F < 2 ^ 32"
    unfolding d using unsigned_less[of "iris_get_operating_fps inst"] by simp
  have sz4: "F * unat sz < 2 ^ 32 * 2 ^ 24"
    using Fl sz by (intro mult_strict_mono) auto
  have u4: "unat (ucast (iris_get_operating_fps inst) * sz * 8 * 10) = F * unat sz * 80"
  proof -
    have "unat sz * 80 < 2 ^ 64" "F * (unat sz * 80) < 2 ^ 64"
      using sz sz4 by simp_all
    then show ?thesis
      by (simp add: unat_word_ariths unat_u64_of_u32 d mod_mult_left_eq mult.assoc)
  qed
  have e: "M * F * P div 20 \<le> M * F * P" by simp
  have v1: "unat (x + x div 20) = unat x + unat x div 20" if "unat x < 2 ^ 32" for x :: u64
  proof -
    have "unat x div 20 \<le> unat x" by simp
    then show ?thesis using that by (simp add: unat_word_ariths unat_div)
  qed
  have v2: "unat (x + y div 7) = unat x + unat y div 7"
    if "unat x < 2 ^ 32" "unat y < 2 ^ 63" for x y :: u64
  proof -
    have "unat y div 7 \<le> unat y" by simp
    then show ?thesis using that by (simp add: unat_word_ariths unat_div)
  qed
  show ?thesis
    unfolding freq_needed_def calc_freq_mbpf Let_def unat_max
    by (subst v1, use b in \<open>simp add: unat_u64_of_u32 u2\<close>,
        subst v2, use b in \<open>simp add: unat_u64_of_u32 u3\<close>, use sz4 in \<open>simp only: u4, simp\<close>)
       (simp_all only: unat_u64_of_u32 u2 u3 u4 d[symmetric])
qed

text \<open>
  The frame rate is not part of the size check, so the products can wrap: on SM8150 a
  stream of 3008 by 3808 at 480 frames per second passes it and asks for 214 MHz for an empty buffer, although
  its pixel pipes need twenty times as much.
\<close>

theorem calc_freq_wraps:
  "\<exists>inst. accepted sm8150_data inst \<and> frame_rate inst \<le> max_frame_rate (inst_caps sm8150_data) \<and>
     unat (iris_vpu2_calc_freq sm8150_data inst 0) = 214771200 \<and>
     unat (iris_get_mbpf inst) * unat (frame_rate inst) *
         unat (mb_cycles_vpp (inst_caps sm8150_data)) = 4295424000"
  by (rule exI[of _ "(frame_inst V4L2_PIX_FMT_H264 3008 3808)\<lparr>frame_rate := 480\<rparr>"])
     (simp add: accepted_def frame_inst_def zero_inst_def zero_pix_def zero_rect_def sm8150_data_def
       platform_inst_cap_sm8150_def iris_check_resolution_supported_def iris_check_inst_mbpf_def
       iris_get_mbpf_def NUM_MBS_PER_FRAME_def DIV_ROUND_UP_def iris_vpu2_calc_freq_def
       iris_get_operating_fps_def Let_def)

text \<open>A 1080p session at 60 frames per second, within the bounds.\<close>

lemma calc_freq_exact_witness:
  "unat (iris_vpu2_calc_freq sm8150_data
     ((frame_inst V4L2_PIX_FMT_H264 1920 1088)\<lparr>frame_rate := 60\<rparr>) 100000) = 102816000"
  by (subst calc_freq_exact)
     (simp_all add: freq_needed_def frame_inst_def zero_inst_def zero_pix_def zero_rect_def sm8150_data_def
       platform_inst_cap_sm8150_def iris_get_mbpf_def NUM_MBS_PER_FRAME_def DIV_ROUND_UP_def
       iris_get_operating_fps_def Let_def)

section \<open>The vote of the register interconnect\<close>

text \<open>
  The first power-off sets the bandwidth of both interconnects to zero and no later
  vote restores that of the register path, which probe had set to 1000: the platform table
  is read for the memory path only.
\<close>

theorem cpu_cfg_vote_lost:
  assumes "icc_info_tbl (platform s) = sm8250_icc_table" "length (icc_avg_bw s) = 2"
  shows "iris_init_icc (platform s) ! 0 = 1000 \<and>
    icc_avg_bw (snd (iris_set_icc_bw (snd (iris_unset_icc_bw s)) w)) ! 0 = 0"
proof -
  obtain a b where "icc_avg_bw s = [a, b]"
    using assms(2) by (auto simp: numeral_2_eq_2 length_Suc_conv)
  then show ?thesis
    by (auto simp: iris_init_icc_def assms(1) iris_set_icc_bw_def iris_unset_icc_bw_def
        video_mem_index_def sm8250_icc_table_def ask_def Let_def)
qed

lemma cpu_cfg_vote_lost_witness:
  "icc_avg_bw (snd (iris_set_icc_bw (snd (iris_unset_icc_bw (nabu_core (\<lambda>_. 0)))) 5000000)) ! 0 = 0"
  using cpu_cfg_vote_lost[of "nabu_core (\<lambda>_. 0)" 5000000]
  by (simp add: nabu_core_def probed_core_def sm8150_data_def iris_init_icc_def sm8250_icc_table_def)

end
