(* ===== verification/IrisCore.thy ===== *)
theory IrisCore
  imports IrisPower
begin

text \<open>
  The life of the core (\<open>iris_core.c\<close>, \<open>iris_firmware.c\<close>, \<open>iris_hfi_common.c\<close>): loading and
  unloading the firmware, bringing the core up and down, recovery, the idle power collapse,
  system sleep and the two halves of the interrupt handler. The commands of \<open>hfi_ops\<close> that go
  to the whole core (\<open>Hfi_sys_init\<close> and others) are calls of the log, since they are reached
  through a table of function pointers.
\<close>

section \<open>The firmware image\<close>

text \<open>
  \<open>Firmware_path\<close> stands for the look-up of the name in the device tree or the platform
  data; its result is the length of the name. A pointer is its result as a number, 0 for NULL.
\<close>

definition MAX_FIRMWARE_NAME_SIZE :: int where "MAX_FIRMWARE_NAME_SIZE = 128"

definition iris_load_fw_to_memory :: "int \<Rightarrow> 'a iris_core_scheme \<Rightarrow> int \<times> 'a iris_core_scheme" where
  "iris_load_fw_to_memory name_len s =
     (if MAX_FIRMWARE_NAME_SIZE - 4 \<le> name_len then (- EINVAL, s)
      else case ask Of_parse_phandle s of (node, s1) \<Rightarrow>
      if node = 0 then (- EINVAL, s1)
      else case ask Of_reserved_mem_lookup s1 of (rmem, s2) \<Rightarrow>
      let s3 = tell Of_node_put s2 in
      if rmem = 0 then (- EINVAL, s3)
      else case ask Reserved_mem_size s3 of (res_size, s4) \<Rightarrow>
      case ask Request_firmware s4 of (ret, s5) \<Rightarrow>
      if ret \<noteq> 0 then (ret, s5)
      else case ask Mdt_get_size s5 of (fw_size, s6) \<Rightarrow>
      if fw_size < 0 \<or> (word_of_int res_size :: u64) < word_of_int fw_size
      then (- EINVAL, tell Release_firmware s6)
      else case ask Memremap s6 of (mem_virt, s7) \<Rightarrow>
      if mem_virt = 0 then (- ENOMEM, tell Release_firmware s7)
      else case ask Mdt_load s7 of (ret, s8) \<Rightarrow>
      let s9 = tell Release_firmware (tell Memunmap s8) in
      if ret \<noteq> 0 then (ret, s9) else ask Pas_auth_and_reset s9)"

definition iris_fw_unload :: "'a iris_core_scheme \<Rightarrow> int \<times> 'a iris_core_scheme" where
  "iris_fw_unload s = ask Pas_shutdown s"

definition iris_fw_load :: "'a iris_core_scheme \<Rightarrow> int \<times> 'a iris_core_scheme" where
  "iris_fw_load s =
     (case ask Firmware_path s of (name_len, s1) \<Rightarrow>
      case iris_load_fw_to_memory name_len s1 of (ret, s2) \<Rightarrow>
      if ret \<noteq> 0 then (- ENOMEM, s2)
      else case ask Mem_protect s2 of (ret, s3) \<Rightarrow>
      if ret \<noteq> 0 then (ret, snd (ask Pas_shutdown s3)) else (ret, s3))"

definition iris_set_hw_state :: "'a iris_core_scheme \<Rightarrow> bool \<Rightarrow> int \<times> 'a iris_core_scheme" where
  "iris_set_hw_state s resume = ask (Set_remote_state resume) s"

section \<open>Bringing the core up and down\<close>

definition iris_hfi_core_init :: "'a iris_core_scheme \<Rightarrow> int \<times> 'a iris_core_scheme" where
  "iris_hfi_core_init s =
     (if legacy_vpu5 (platform s) then ask Hfi_sys_init s
      else case ask Hfi_sys_init s of (ret, s1) \<Rightarrow>
      if ret \<noteq> 0 then (ret, s1)
      else case ask Hfi_sys_image_version s1 of (ret, s2) \<Rightarrow>
      if ret \<noteq> 0 then (ret, s2) else ask Hfi_sys_interframe_powercollapse s2)"

definition iris_core_deinit :: "'a iris_core_scheme \<Rightarrow> 'a iris_core_scheme" where
  "iris_core_deinit s0 =
     (if core_state s0 = IRIS_CORE_DEINIT then s0
      else let s1 = snd (pm_runtime_resume_and_get Core_dev s0);
               s2 = snd (iris_fw_unload s1);
               s3 = iris_vpu_power_off s2;
               s4 = iris_hfi_queues_deinit s3;
               s5 = (tell Cancel_pc_work s4)
                      \<lparr>vpu_suspended := False, core_state := IRIS_CORE_DEINIT\<rparr>
      in tell (Pm_put_sync Core_dev) s5)"

text \<open>
  With the core lock dropped, the response thread may find a firmware error and mark the
  core; \<open>Response_thread\<close> is a point where it may have run, its result whether it did so.
\<close>

definition response_thread :: "'a iris_core_scheme \<Rightarrow> 'a iris_core_scheme" where
  "response_thread s =
     (case ask Response_thread s of (error, s1) \<Rightarrow>
      if error \<noteq> 0 then s1\<lparr>core_state := IRIS_CORE_ERROR\<rparr> else s1)"

definition iris_wait_for_system_response :: "'a iris_core_scheme \<Rightarrow> int \<times> 'a iris_core_scheme" where
  "iris_wait_for_system_response s =
     (let s1 = response_thread s in
      if core_state s1 = IRIS_CORE_ERROR then (- EIO, s1)
      else case ask Wait_completion s1 of (ret, s2) \<Rightarrow>
      let s3 = response_thread s2 in
      if ret = 0 then (- ETIMEDOUT, s3\<lparr>core_state := IRIS_CORE_ERROR\<rparr>) else (0, s3))"

definition iris_core_init :: "'a iris_core_scheme \<Rightarrow> int \<times> 'a iris_core_scheme" where
  "iris_core_init s =
     (let error = (\<lambda>ret t. (ret, t\<lparr>core_state := IRIS_CORE_DEINIT\<rparr>));
          error_queue_deinit = (\<lambda>ret t. error ret (iris_hfi_queues_deinit t));
          error_power_off = (\<lambda>ret t. error_queue_deinit ret (iris_vpu_power_off t));
          error_unload_fw = (\<lambda>ret t. error_power_off ret (snd (iris_fw_unload t))) in
      if core_state s = IRIS_CORE_INIT then (0, s)
      else if core_state s = IRIS_CORE_ERROR then error (- EINVAL) s
      else case iris_hfi_queues_init (s\<lparr>core_state := IRIS_CORE_INIT\<rparr>) of (ret, s1) \<Rightarrow>
      if ret \<noteq> 0 then error ret s1
      else case iris_vpu_power_on s1 of (ret, s2) \<Rightarrow>
      if ret \<noteq> 0 then error_queue_deinit ret s2
      else case iris_fw_load s2 of (ret, s3) \<Rightarrow>
      if ret \<noteq> 0 then error_power_off ret s3
      else case (if legacy_vpu5 (platform s3) then iris_set_hw_state s3 True else (0, s3)) of
        (ret, s4) \<Rightarrow>
      if ret \<noteq> 0 then error_unload_fw ret s4
      else case iris_vpu_boot_firmware s4 of (ret, s5) \<Rightarrow>
      if ret \<noteq> 0 then error_unload_fw ret s5
      else case iris_hfi_core_init s5 of (ret, s6) \<Rightarrow>
      if ret \<noteq> 0 then error_unload_fw ret s6
      else case iris_wait_for_system_response s6 of (ret, s7) \<Rightarrow>
      if ret \<noteq> 0 then (ret, s7) else (0, snd (iris_set_idle_opp s7)))"

definition iris_core_recover :: "'a iris_core_scheme \<Rightarrow> int \<times> 'a iris_core_scheme" where
  "iris_core_recover s = iris_core_init (iris_core_deinit s)"

definition iris_sys_error_handler :: "'a iris_core_scheme \<Rightarrow> 'a iris_core_scheme" where
  "iris_sys_error_handler s = (snd (iris_core_recover s))\<lparr>recovery_pending := False\<rparr>"

section \<open>Interrupts\<close>

definition iris_hfi_isr :: "'a iris_core_scheme \<Rightarrow> 'a iris_core_scheme" where
  "iris_hfi_isr s =
     (let s1 = tell Disable_irq s
      in if legacy_vpu5 (platform s) then iris_vpu_clear_interrupt s1 else s1)"

text \<open>The response handler of the firmware interface is an argument.\<close>

definition iris_hfi_isr_handler ::
    "('a iris_core_scheme \<Rightarrow> 'a iris_core_scheme) \<Rightarrow> 'a iris_core_scheme \<Rightarrow> 'a iris_core_scheme" where
  "iris_hfi_isr_handler hfi_response_handler s =
     (let s1 = tell Mark_last_busy s;
          s2 = (if legacy_vpu5 (platform s) then s1 else iris_vpu_clear_interrupt s1);
          s3 = hfi_response_handler s2
      in if iris_vpu_watchdog s3 (core_intr_status s3) = 0 then tell Enable_irq s3 else s3)"

section \<open>Power collapse and system sleep\<close>

definition iris_pc_enter :: "'a iris_core_scheme \<Rightarrow> int \<times> 'a iris_core_scheme" where
  "iris_pc_enter s =
     (case iris_vpu_prepare_pc s of (ret, s1) \<Rightarrow>
      if ret \<noteq> 0 then (ret, s1)
      else case iris_set_hw_state s1 False of (ret, s2) \<Rightarrow>
      if ret \<noteq> 0 then (ret, s2)
      else (0, (iris_vpu_power_off s2)\<lparr>vpu_suspended := True\<rparr>))"

text \<open>The restart of a collapsed VPU, which \<open>iris_pc_exit()\<close> and \<open>iris_hfi_pm_resume()\<close> share.\<close>

definition vpu_restart :: "'a iris_core_scheme \<Rightarrow> int \<times> 'a iris_core_scheme" where
  "vpu_restart s =
     (let error = (\<lambda>t. (- EBUSY, t));
          err_power_off = (\<lambda>t. error (iris_vpu_power_off t));
          err_suspend_hw = (\<lambda>t. err_power_off (snd (iris_set_hw_state t False))) in
      case iris_vpu_power_on s of (ret, s1) \<Rightarrow>
      if ret \<noteq> 0 then error s1
      else case iris_set_hw_state s1 True of (ret, s2) \<Rightarrow>
      if ret \<noteq> 0 then err_power_off s2
      else case iris_vpu_boot_firmware s2 of (ret, s3) \<Rightarrow>
      if ret \<noteq> 0 then err_suspend_hw s3
      else case (if legacy_vpu5 (platform s3) then (0, s3)
                 else ask Hfi_sys_interframe_powercollapse s3) of (ret, s4) \<Rightarrow>
      if ret \<noteq> 0 then err_suspend_hw s4 else (0, s4\<lparr>vpu_suspended := False\<rparr>))"

definition iris_pc_exit :: "'a iris_core_scheme \<Rightarrow> int \<times> 'a iris_core_scheme" where
  "iris_pc_exit s = (if \<not> vpu_suspended s then (0, s) else vpu_restart s)"

definition iris_pc_resume :: "'a iris_core_scheme \<Rightarrow> int \<times> 'a iris_core_scheme" where
  "iris_pc_resume s =
     (if \<not> legacy_vpu5 (platform s) \<or> \<not> power_collapse s then (0, s)
      else let s1 = tell Cancel_pc_work s
      in if vpu_suspended s1 then iris_pc_exit s1 else (0, s1))"

definition iris_pc_schedule :: "'a iris_core_scheme \<Rightarrow> 'a iris_core_scheme" where
  "iris_pc_schedule s =
     (if \<not> legacy_vpu5 (platform s) \<or> \<not> power_collapse s then s
      else if instances s \<noteq> [] then s
      else tell Queue_pc_work s)"

definition iris_pc_handler :: "'a iris_core_scheme \<Rightarrow> 'a iris_core_scheme" where
  "iris_pc_handler s =
     (let s1 = (if \<not> vpu_suspended s \<and> instances s = [] then snd (iris_pc_enter s) else s)
      in if \<not> vpu_suspended s1 then iris_pc_schedule s1 else s1)"

definition iris_hfi_pm_suspend :: "'a iris_core_scheme \<Rightarrow> int \<times> 'a iris_core_scheme" where
  "iris_hfi_pm_suspend s =
     (if instances s \<noteq> [] then (0, s)
      else if vpu_suspended s then (0, s)
      else case iris_vpu_prepare_pc s of (ret, s1) \<Rightarrow>
      if ret \<noteq> 0 then
        (if legacy_vpu5 (platform s1) then (0, s1) else (- EAGAIN, tell Mark_last_busy s1))
      else case iris_set_hw_state s1 False of (ret, s2) \<Rightarrow>
      if ret \<noteq> 0 then (ret, s2)
      else (0, (iris_vpu_power_off s2)\<lparr>vpu_suspended := True\<rparr>))"

definition iris_hfi_pm_resume :: "'a iris_core_scheme \<Rightarrow> int \<times> 'a iris_core_scheme" where
  "iris_hfi_pm_resume s =
     (if \<not> vpu_suspended s then (0, s)
      else case vpu_restart s of (ret, s1) \<Rightarrow>
      if ret \<noteq> 0 then (ret, s1) else (0, iris_pc_schedule s1))"

definition iris_pm_suspend :: "'a iris_core_scheme \<Rightarrow> int \<times> 'a iris_core_scheme" where
  "iris_pm_suspend s = (if core_state s \<noteq> IRIS_CORE_INIT then (0, s) else iris_hfi_pm_suspend s)"

definition iris_pm_resume :: "'a iris_core_scheme \<Rightarrow> int \<times> 'a iris_core_scheme" where
  "iris_pm_resume s =
     (if core_state s \<noteq> IRIS_CORE_INIT then (0, s)
      else case iris_hfi_pm_resume s of (ret, s1) \<Rightarrow> (ret, tell Mark_last_busy s1))"

end
