(* ===== verification/IrisLifecycle.thy ===== *)
theory IrisLifecycle
  imports IrisCore
begin

text \<open>
  What the operations of \<open>IrisCore\<close> do to the resources of the machine: the clocks and power
  domains of the VPU, the memory of the queues, the running firmware and the interrupt line.
  \<open>quiet\<close> weights are those the power routines do not touch, \<open>still\<close> is a step that moves
  nothing, \<open>powered_from\<close> and \<open>queues_from\<close> say what a start has taken so far; the outcome of
  a start, its undoing, suspend and resume, and the interrupt line follow.
\<close>

section \<open>Calls of the VPU routines\<close>

text \<open>
  The calls the power, boot and collapse routines of the VPU make, apart from those on the
  interrupt line. A weight that is zero on them is not changed by those routines.
\<close>

fun vpu_call :: "kcall \<Rightarrow> bool" where
  "vpu_call (Clk_prepare_enable _ _) = True" | "vpu_call (Clk_disable_unprepare _) = True"
| "vpu_call (Pm_get_sync _ _) = True" | "vpu_call (Pm_resume_and_get _ _) = True"
| "vpu_call (Pm_put_sync _) = True" | "vpu_call (Opp_set_rate _ _) = True"
| "vpu_call (Icc_bulk_set_bw _ _) = True" | "vpu_call (Genpd_set_hwmode _ _) = True"
| "vpu_call (Reset_assert _ _) = True" | "vpu_call (Reset_deassert _ _) = True"
| "vpu_call (Reset_bulk _ _) = True" | "vpu_call (Writel _ _) = True"
| "vpu_call (Readl _ _) = True" | "vpu_call (Poll _ _) = True" | "vpu_call Llcc_put = True"
| "vpu_call (Hfi_sys_pc_prep _) = True" | "vpu_call _ = False"

definition quiet :: "(kcall \<Rightarrow> int) \<Rightarrow> bool" where
  "quiet w \<longleftrightarrow> (\<forall>k. vpu_call k \<longrightarrow> w k = 0)"

lemma quietD: "quiet w \<Longrightarrow> vpu_call k \<Longrightarrow> w k = 0"
  by (simp add: quiet_def)

lemma quiet_prim:
  assumes "quiet w"
  shows "(\<And>r. vpu_call (k r)) \<Longrightarrow> balance w (snd (ask k s)) = balance w s"
    "vpu_call k' \<Longrightarrow> balance w (tell k' s) = balance w s"
    "balance w (snd (iris_prepare_enable_clock s ty)) = balance w s"
    "balance w (iris_disable_unprepare_clock ty s) = balance w s"
    "balance w (snd (iris_enable_power_domains s d)) = balance w s"
    "balance w (snd (iris_disable_power_domains s d)) = balance w s"
    "balance w (snd (iris_vpu_set_vcodec_hw_control s e)) = balance w s"
    "balance w (snd (iris_unset_icc_bw s)) = balance w s"
    "balance w (writel v reg s) = balance w s"
    "balance w (snd (readl reg s)) = balance w s"
    "balance w (snd (pm_runtime_resume_and_get d s)) = balance w s"
  using assms
  by (simp_all add: kernel_simps quietD iris_prepare_enable_clock_def iris_disable_unprepare_clock_def
      iris_enable_power_domains_def iris_disable_power_domains_def Let_def split_beta
      iris_vpu_set_vcodec_hw_control_def writel_def readl_def iris_unset_icc_bw_def
      pm_runtime_resume_and_get_def split: option.split)

lemma quiet_pair:
  assumes "quiet w"
  shows "ask k s = (r, t) \<Longrightarrow> (\<And>r. vpu_call (k r)) \<Longrightarrow> balance w t = balance w s"
    "iris_prepare_enable_clock s ty = (r, t) \<Longrightarrow> balance w t = balance w s"
    "iris_enable_power_domains s d = (r, t) \<Longrightarrow> balance w t = balance w s"
    "iris_vpu_set_vcodec_hw_control s e = (r, t) \<Longrightarrow> balance w t = balance w s"
    "pm_runtime_resume_and_get d s = (r, t) \<Longrightarrow> balance w t = balance w s"
  using quiet_prim[OF assms] by (metis snd_conv)+

lemma quiet_set_icc_bw:
  assumes "quiet w" "iris_set_icc_bw s b = (r, t)" shows "balance w t = balance w s"
proof -
  have "ensures (iris_set_icc_bw s b) (\<lambda>(r, t). balance w t = balance w s)"
    unfolding iris_set_icc_bw_def Let_def
    by (cases "video_mem_index (icc_info_tbl (platform s))"; simp only: option.case; (intro vcg)?)
       (auto simp: quiet_prim(1)[OF assms(1)] quietD[OF assms(1)] ensures_def kernel_simps split_beta dest!: quiet_pair(1)[OF assms(1)])
  then show ?thesis using assms(2) by (simp add: ensures_def)
qed

lemma quiet_reset_loop:
  "quiet w \<Longrightarrow> balance w (snd (reset_loop is s)) = balance w s"
  by (induction "is" arbitrary: s) (simp_all add: quiet_prim split_beta)

lemma quiet_reset_loop_pair:
  "quiet w \<Longrightarrow> reset_loop is s = (r, t) \<Longrightarrow> balance w t = balance w s"
  using quiet_reset_loop[of w "is" s] by simp

lemmas quiet_calls = quiet_pair quiet_set_icc_bw quiet_reset_loop_pair

lemma quiet_power_on_hw:
  assumes "quiet w" "iris_vpu_power_on_hw s = (r, t)" shows "balance w t = balance w s"
proof -
  have "ensures (iris_vpu_power_on_hw s) (\<lambda>(r, t). balance w t = balance w s)"
    unfolding iris_vpu_power_on_hw_def Let_def
    by (intro vcg)
       (auto simp: quiet_prim[OF assms(1)] split: if_splits dest!: quiet_calls[OF assms(1)])
  then show ?thesis using assms(2) by (simp add: ensures_def)
qed

lemma quiet_power_on_controller:
  assumes "quiet w" "iris_vpu_power_on_controller s = (r, t)" shows "balance w t = balance w s"
proof -
  have "ensures (iris_vpu_power_on_controller s) (\<lambda>(r, t). balance w t = balance w s)"
    unfolding iris_vpu_power_on_controller_def Let_def
    by (intro vcg)
       (auto simp: quiet_prim[OF assms(1)] split: if_splits dest!: quiet_calls[OF assms(1)])
  then show ?thesis using assms(2) by (simp add: ensures_def)
qed

lemma quiet_power_off_parts:
  assumes "quiet w"
  shows "balance w (iris_vpu_power_off_hw s) = balance w s"
    "balance w (iris_vpu_power_off_controller s) = balance w s"
  by (simp_all add: iris_vpu_power_off_hw_def iris_vpu_power_off_controller_def Let_def split_beta
      quiet_prim[OF assms])

lemma quiet_interrupt_init: "quiet w \<Longrightarrow> balance w (iris_vpu_interrupt_init s) = balance w s"
  by (simp add: iris_vpu_interrupt_init_def Let_def split_beta quiet_prim)

lemma quiet_write_presets: "quiet w \<Longrightarrow> balance w (write_presets ws s) = balance w s"
proof (induction ws arbitrary: s)
  case (Cons x ws)
  then show ?case
    using Cons.IH[of "writel (snd x) (fst x) s"] by (simp add: write_presets_def split_beta quiet_prim)
qed (simp add: write_presets_def)

lemma quiet_power_on:
  assumes "quiet w" "iris_vpu_power_on s = (r, t)"
  shows "balance w t = balance w s + (if r = 0 then w Enable_irq else 0)"
proof -
  have "ensures (iris_vpu_power_on s)
      (\<lambda>(r, t). balance w t = balance w s + (if r = 0 then w Enable_irq else 0))"
    unfolding iris_vpu_power_on_def Let_def
    by (intro vcg)
       (auto simp: quiet_prim[OF assms(1)] quiet_power_off_parts[OF assms(1)] kernel_simps quietD[OF assms(1)]
          quiet_interrupt_init[OF assms(1)] quiet_write_presets[OF assms(1)] split: if_splits
          dest!: quiet_calls[OF assms(1)] quiet_power_on_controller[OF assms(1)]
            quiet_power_on_hw[OF assms(1)])
  then show ?thesis using assms(2) by (simp add: ensures_def)
qed

lemma core_intr_prim [simp]:
  "core_intr_status (snd (ask k s)) = core_intr_status s"
  "core_intr_status (tell k' s) = core_intr_status s"
  by (simp_all add: ask_def tell_def Let_def)

text \<open>Powering off leaves the latched interrupt status and the platform alone.\<close>

definition watchdog_latched :: "'a iris_core_scheme \<Rightarrow> bool" where
  "watchdog_latched s \<longleftrightarrow> has (core_intr_status s) (if legacy_vpu5 (platform s) then BIT 4 else BIT 3)"

lemma latched_prim [simp]:
  "watchdog_latched (snd (ask k s)) = watchdog_latched s"
  "watchdog_latched (tell k' s) = watchdog_latched s"
  "watchdog_latched (s\<lparr>vpu_powered := v\<rparr>) = watchdog_latched s"
  "watchdog_latched (s\<lparr>power := p\<rparr>) = watchdog_latched s"
  "watchdog_latched (s\<lparr>icc_avg_bw := a\<rparr>) = watchdog_latched s"
  "watchdog_latched (s\<lparr>llcc_active := l, syscache_set := l'\<rparr>) = watchdog_latched s"
  by (simp_all add: watchdog_latched_def ask_def tell_def Let_def)

lemma latched_calls [simp]:
  "watchdog_latched (iris_disable_unprepare_clock ty s) = watchdog_latched s"
  "watchdog_latched (snd (iris_disable_power_domains s d)) = watchdog_latched s"
  "watchdog_latched (snd (iris_vpu_set_vcodec_hw_control s e)) = watchdog_latched s"
  "watchdog_latched (snd (iris_unset_icc_bw s)) = watchdog_latched s"
  "watchdog_latched (writel v reg s) = watchdog_latched s"
  by (simp_all add: iris_disable_unprepare_clock_def iris_disable_power_domains_def Let_def split_beta
      iris_vpu_set_vcodec_hw_control_def writel_def iris_unset_icc_bw_def split: option.split)

lemma latched_power_off_parts [simp]:
  "watchdog_latched (iris_vpu_power_off_hw s) = watchdog_latched s"
  "watchdog_latched (iris_vpu_power_off_controller s) = watchdog_latched s"
  by (simp_all add: iris_vpu_power_off_hw_def iris_vpu_power_off_controller_def Let_def split_beta)

lemma watchdog_iff:
  "iris_vpu_watchdog s (core_intr_status s) = 0 \<longleftrightarrow> \<not> watchdog_latched s"
  by (simp add: iris_vpu_watchdog_def watchdog_latched_def iris_vpu_uses_legacy_vpu5_def)

lemma quiet_power_off:
  assumes "quiet w"
  shows "balance w (iris_vpu_power_off s) =
     balance w s + (if vpu_powered s \<and> \<not> watchdog_latched s then w Disable_irq else 0)"
proof -
  have u: "balance w (s\<lparr>llcc_active := l, syscache_set := l\<rparr>) = balance w s" for s :: "'b iris_core_scheme" and l
    by (simp add: balance_def)
  show ?thesis
    unfolding iris_vpu_power_off_def Let_def
    by (auto simp: watchdog_iff quiet_prim[OF assms] quiet_power_off_parts[OF assms] kernel_simps u
        quietD[OF assms])
qed

section \<open>What the steps of the start do to clocks, firmware and memory\<close>

text \<open>The firmware image is running once more or once less.\<close>

fun fw_weight :: "kcall \<Rightarrow> int" where
  "fw_weight (Pas_auth_and_reset r) = (if r = 0 then 1 else 0)"
| "fw_weight (Pas_shutdown r) = - 1"
| "fw_weight _ = 0"

lemma quiet_weights: "quiet fw_weight" "quiet (dma_weight a)" "quiet irq_weight"
proof -
  show "quiet fw_weight" unfolding quiet_def by (auto elim: vpu_call.elims)
  show "quiet (dma_weight a)" unfolding quiet_def by (auto elim: vpu_call.elims)
  show "quiet irq_weight" unfolding quiet_def by (auto elim: vpu_call.elims)
qed

text \<open>A step that leaves the frame, the clocks, the power domains, the memory and the firmware alone.\<close>

definition still :: "'a iris_core_scheme \<Rightarrow> 'a iris_core_scheme \<Rightarrow> bool" where
  "still s t \<longleftrightarrow> effect s t (\<lambda>_. 0) (\<lambda>_. 0) \<and> balance fw_weight t = balance fw_weight s \<and>
     (\<forall>a. balance (dma_weight a) t = balance (dma_weight a) s)"

lemma still_refl [simp, intro]: "still s s"
  by (simp add: still_def effect_def)

lemma still_trans [trans]: "still s t \<Longrightarrow> still t u \<Longrightarrow> still s u"
  by (simp add: still_def effect_def)

definition no_weight :: "kcall \<Rightarrow> bool" where
  "no_weight k \<longleftrightarrow> (\<forall>c. clk_weight c k = 0) \<and> (\<forall>d. pm_weight d k = 0) \<and> fw_weight k = 0 \<and>
     (\<forall>a. dma_weight a k = 0)"

lemma still_calls:
  "(\<And>r. no_weight (k r)) \<Longrightarrow> still s (snd (ask k s))"
  "no_weight k' \<Longrightarrow> still s (tell k' s)"
  by (simp_all add: still_def effect_def kernel_simps no_weight_def)

lemma still_readl: "still s (snd (readl reg s))" and still_writel: "still s (writel v reg s)"
  by (simp_all add: readl_def writel_def split_beta still_calls no_weight_def)

lemma still_boot_poll: "still s (snd (boot_poll reg n st s))"
proof (induction n arbitrary: st s)
  case (Suc n)
  obtain st' s' where r: "readl reg s = (st', s')" by fastforce
  have "still s s'" using still_readl[of s reg] r by simp
  then show ?case using Suc.IH[of s' st'] by (auto simp: r intro: still_trans)
qed simp

lemma still_ucregion: "still s (iris_vpu_setup_ucregion_memory_map s)"
  unfolding iris_vpu_setup_ucregion_memory_map_def Let_def
  by (auto intro!: still_refl still_trans[OF _ still_writel])

lemma still_boot: "still s (snd (iris_vpu_boot_firmware s))"
proof -
  define b where "b = iris_vpu_cpu_cs_base s"
  define s2 where "s2 = writel (BIT 0) (b + 0x48) (iris_vpu_setup_ucregion_memory_map s)"
  have 2: "still s s2"
    unfolding s2_def by (rule still_trans[OF still_ucregion still_writel])
  obtain n s3 where p: "boot_poll (b + 0x4c) 1000 0 s2 = (n, s3)" by fastforce
  have 3: "still s s3" using still_trans[OF 2 still_boot_poll[of s2 "b + 0x4c" 1000 0]] p by simp
  show ?thesis
    unfolding iris_vpu_boot_firmware_def Let_def b_def[symmetric] s2_def[symmetric] p prod.case
    by (auto intro: 3 still_trans[OF _ still_writel])
qed

lemma still_frame_calls:
  "still s (snd (iris_set_hw_state s b))"
  "still s (snd (iris_hfi_core_init s))"
  by (simp_all add: iris_set_hw_state_def iris_hfi_core_init_def split_beta still_def effect_def
      kernel_simps)

lemma ensures_call: "(\<And>r t. x = (r, t) \<Longrightarrow> P (r, t)) \<Longrightarrow> ensures x P"
  by (cases x) (simp add: ensures_def)

lemma ask_log:
  "ask k s = (r, t) \<Longrightarrow> frame t = frame s \<and> (\<forall>w. balance w t = balance w s + w (k r))"
  by (auto simp: ask_def Let_def balance_def frame_def)

definition fw_moves :: "int \<Rightarrow> 'a iris_core_scheme \<Rightarrow> 'a iris_core_scheme \<Rightarrow> bool" where
  "fw_moves n s t \<longleftrightarrow> effect s t (\<lambda>_. 0) (\<lambda>_. 0) \<and>
     balance fw_weight t = balance fw_weight s + n \<and>
     (\<forall>a. balance (dma_weight a) t = balance (dma_weight a) s)"

lemma load_fw_result:
  assumes "iris_load_fw_to_memory n s = (r, t)"
  shows "fw_moves (if r = 0 then 1 else 0) s t"
proof -
  have "ensures (iris_load_fw_to_memory n s) (\<lambda>(r, t). fw_moves (if r = 0 then 1 else 0) s t)"
    unfolding iris_load_fw_to_memory_def Let_def
    apply (intro vcg)
    apply (simp_all only: prod.case)
    by (auto simp: fw_moves_def effect_def kernel_simps intro!: ensures_call dest!: ask_log)
  then show ?thesis using assms by (simp add: ensures_def)
qed

lemma fw_load_result:
  assumes "iris_fw_load s = (r, t)"
  shows "fw_moves (if r = 0 then 1 else 0) s t"
proof -
  have "ensures (iris_fw_load s) (\<lambda>(r, t). fw_moves (if r = 0 then 1 else 0) s t)"
    unfolding iris_fw_load_def Let_def
    apply (intro vcg)
    apply (simp_all only: prod.case)
    by (auto simp: fw_moves_def effect_def kernel_simps dest!: ask_log load_fw_result)
  then show ?thesis using assms by (simp add: ensures_def)
qed

lemma fw_unload_moves: "fw_moves (- 1) s (snd (iris_fw_unload s))"
  by (simp add: iris_fw_unload_def fw_moves_def effect_def kernel_simps)

lemma fw_moves_trans: "fw_moves m s t \<Longrightarrow> fw_moves n t u \<Longrightarrow> fw_moves (m + n) s u"
  by (simp add: fw_moves_def effect_def)

lemma still_fw_moves: "still s t \<longleftrightarrow> fw_moves 0 s t"
  by (simp add: still_def fw_moves_def)

section \<open>The queues and the power during a start\<close>

lemma balance_core [simp]:
  "balance w (s\<lparr>core_state := x\<rparr>) = balance w s" "balance w (s\<lparr>vpu_suspended := b\<rparr>) = balance w s"
  by (simp_all add: balance_def)

definition queue_mem :: "'a iris_core_scheme \<Rightarrow> u64 \<Rightarrow> int" where
  "queue_mem s a = (if a = sfr_vaddr s then int (unat SFR_SIZE) else 0) +
     (if a = iface_q_table_vaddr s then int (unat (iris_hfi_queue_alloc_size s)) else 0)"

lemma queue_mem_frame: "frame s = frame t \<Longrightarrow> queue_mem s = queue_mem t"
  unfolding queue_mem_def fun_eq_iff alloc_size
  by (metis frame_eqD(1) frame_eqD(12) frame_eqD(14))

lemma dma_alloc_keeps:
  "dma_alloc_attrs n s = (v, d, t) \<Longrightarrow>
   platform t = platform s \<and> clock_names t = clock_names s \<and> core_state t = core_state s"
  by (auto simp: dma_alloc_attrs_eq)

lemma queues_init_keeps:
  assumes "iris_hfi_queues_init s = (r, t)"
  shows "tables t = tables s" "vpu5 t = vpu5 s" "core_state t = core_state s"
    "platform t = platform s"
proof -
  have "ensures (iris_hfi_queues_init s) (\<lambda>(r, t).
      platform t = platform s \<and> clock_names t = clock_names s \<and> core_state t = core_state s)"
    unfolding iris_hfi_queues_init_def Let_def
    by (intro vcg) (auto simp: tell_def dest!: dma_alloc_keeps)
  then have k: "platform t = platform s \<and> clock_names t = clock_names s \<and> core_state t = core_state s"
    using assms by (simp add: ensures_def)
  then show "tables t = tables s" "vpu5 t = vpu5 s" "core_state t = core_state s" "platform t = platform s"
    by (simp_all add: tables_def vpu5_def has_aux_pd_def iris_vpu_uses_legacy_vpu5_def)
qed

lemma queues_init_balance:
  assumes "iris_hfi_queues_init s = (r, t)"
  shows "balance (clk_weight c) t = balance (clk_weight c) s"
    "balance (pm_weight d) t = balance (pm_weight d) s"
    "balance fw_weight t = balance fw_weight s"
    "balance (dma_weight a) t = balance (dma_weight a) s + (if r = 0 then queue_mem t a else 0)"
    "r = 0 \<Longrightarrow> iface_q_table_vaddr t \<noteq> 0"
  using assms by (auto elim!: queues_init_cases simp: balance_def queue_mem_def alloc_size)

lemma queues_deinit_balances:
  "balance (clk_weight c) (iris_hfi_queues_deinit s) = balance (clk_weight c) s"
  "balance (pm_weight d) (iris_hfi_queues_deinit s) = balance (pm_weight d) s"
  "balance fw_weight (iris_hfi_queues_deinit s) = balance fw_weight s"
  "iface_q_table_vaddr s \<noteq> 0 \<Longrightarrow>
     balance (dma_weight a) (iris_hfi_queues_deinit s) = balance (dma_weight a) s - queue_mem s a"
  by (simp_all add: iris_hfi_queues_deinit_def Let_def balance_def tell_def alloc_size queue_mem_def)

lemma queue_mem_off: "queue_mem (powered_off s) = queue_mem s" "queue_mem (attempt s) = queue_mem s"
  by (simp_all add: queue_mem_def powered_off_def attempt_def fun_eq_iff alloc_size)

text \<open>The core powered from \<open>s\<close> with the firmware started \<open>n\<close> times.\<close>

definition powered_from :: "int \<Rightarrow> 'a iris_core_scheme \<Rightarrow> 'a iris_core_scheme \<Rightarrow> bool" where
  "powered_from n s t \<longleftrightarrow> effect (attempt s) t (vpu5_clks (tables s)) vpu5_pds \<and>
     balance fw_weight t = balance fw_weight s + n \<and>
     (\<forall>a. balance (dma_weight a) t = balance (dma_weight a) s)"

lemma power_on_powered:
  assumes "vpu5 s" "iris_vpu_power_on s = (r, t)"
  shows "r = 0 \<Longrightarrow> powered_from 0 s t" "r \<noteq> 0 \<Longrightarrow> unwound (attempt s) t"
    "balance fw_weight t = balance fw_weight s" "balance (dma_weight a) t = balance (dma_weight a) s"
  using power_on_ensures[OF assms(1)] assms(2) quiet_power_on[OF quiet_weights(1) assms(2)]
    quiet_power_on[OF quiet_weights(2) assms(2)]
  by (auto simp: ensures_def powered_from_def)

lemma powered_moves: "powered_from m s t \<Longrightarrow> fw_moves n t u \<Longrightarrow> powered_from (m + n) s u"
  by (simp add: powered_from_def fw_moves_def effect_def)

lemma powered_frame:
  assumes "powered_from n s t" "vpu5 s"
  shows "frame t = frame (attempt s)" "vpu5 t" "vpu_powered t" "tables t = tables s"
    "queue_mem t = queue_mem s" "iface_q_table_vaddr t = iface_q_table_vaddr s"
    "core_state t = core_state s"
proof -
  show f: "frame t = frame (attempt s)" using assms(1) by (simp add: powered_from_def effect_def)
  show "vpu5 t" using vpu5_frame[OF f] assms(2) by (simp add: attempt_simps)
  show "vpu_powered t" using frame_eqD(6)[OF f] by (simp add: attempt_def)
  show "tables t = tables s" using frame_eqD(3)[OF f] by (simp add: attempt_simps)
  show "queue_mem t = queue_mem s"
    using queue_mem_frame[OF f] by (simp add: queue_mem_off)
  show "iface_q_table_vaddr t = iface_q_table_vaddr s" using frame_eqD(12)[OF f] by (simp add: attempt_def)
  show "core_state t = core_state s" using frame_eqD(8)[OF f] by (simp add: attempt_def)
qed

text \<open>Everything a start takes, the same in two states.\<close>

definition same_resources :: "'a iris_core_scheme \<Rightarrow> 'a iris_core_scheme \<Rightarrow> bool" where
  "same_resources s t \<longleftrightarrow> balance fw_weight t = balance fw_weight s \<and>
     (\<forall>a. balance (dma_weight a) t = balance (dma_weight a) s) \<and>
     (\<forall>c. balance (clk_weight c) t = balance (clk_weight c) s) \<and>
     (\<forall>d. balance (pm_weight d) t = balance (pm_weight d) s)"

text \<open>The queues brought up from \<open>s\<close>, and nothing else taken.\<close>

definition queues_from :: "'a iris_core_scheme \<Rightarrow> 'a iris_core_scheme \<Rightarrow> bool" where
  "queues_from s t \<longleftrightarrow> iface_q_table_vaddr t \<noteq> 0 \<and> tables t = tables s \<and> balance fw_weight t = balance fw_weight s \<and>
     (\<forall>a. balance (dma_weight a) t = balance (dma_weight a) s + queue_mem t a) \<and>
     (\<forall>c. balance (clk_weight c) t = balance (clk_weight c) s) \<and>
     (\<forall>d. balance (pm_weight d) t = balance (pm_weight d) s)"

lemma core_state_update [simp]:
  "queue_mem (s\<lparr>core_state := x\<rparr>) = queue_mem s" "vpu5 (s\<lparr>core_state := x\<rparr>) = vpu5 s"
  "tables (s\<lparr>core_state := x\<rparr>) = tables s"
  by (simp_all add: queue_mem_def fun_eq_iff alloc_size vpu5_def has_aux_pd_def
      iris_vpu_uses_legacy_vpu5_def tables_def)

lemma queues_from_core_state [simp]:
  "queues_from (s\<lparr>core_state := x\<rparr>) t = queues_from s t"
  "queues_from s (t\<lparr>core_state := x\<rparr>) = queues_from s t"
  by (simp_all add: queues_from_def)

lemma frame_core_state:
  "frame (s\<lparr>core_state := x\<rparr>) = (frame s)\<lparr>core_state := x\<rparr>"
  "attempt (s\<lparr>core_state := x\<rparr>) = (attempt s)\<lparr>core_state := x\<rparr>"
  by (simp_all add: frame_def attempt_def)

lemma powered_from_core_state:
  "powered_from n s t \<Longrightarrow> powered_from n (s\<lparr>core_state := x\<rparr>) (t\<lparr>core_state := x\<rparr>)"
  by (simp add: powered_from_def effect_def frame_core_state)

lemma queues_init_from: "iris_hfi_queues_init s = (0, t) \<Longrightarrow> queues_from s t"
  by (simp add: queues_from_def queues_init_balance queues_init_keeps)

text \<open>Powering off and releasing the queues returns all of it.\<close>

lemma release_balances:
  assumes ok: "vpu5 t" "vpu_powered t" and iface: "iface_q_table_vaddr t \<noteq> 0"
  defines "u \<equiv> iris_hfi_queues_deinit (iris_vpu_power_off t)"
  shows "balance (clk_weight c) u = balance (clk_weight c) t - vpu5_clks (tables t) c"
    "balance (pm_weight d) u = balance (pm_weight d) t - vpu5_pds d"
    "balance fw_weight u = balance fw_weight t"
    "balance (dma_weight a) u = balance (dma_weight a) t - queue_mem t a"
proof -
  define v where "v = iris_vpu_power_off t"
  have e: "effect (powered_off t) v (\<lambda>c. - vpu5_clks (tables t) c) (\<lambda>d. - vpu5_pds d)"
    using power_off_effect[OF ok] by (simp add: v_def)
  have f: "frame v = frame (powered_off t)" using effectD(1)[OF e] .
  have qm: "queue_mem v = queue_mem t" "iface_q_table_vaddr v \<noteq> 0"
    using queue_mem_frame[OF f] frame_eqD(12)[OF f] iface
    by (simp_all only: queue_mem_off) (simp add: powered_off_def)
  show "balance (clk_weight c) u = balance (clk_weight c) t - vpu5_clks (tables t) c"
    "balance (pm_weight d) u = balance (pm_weight d) t - vpu5_pds d"
    using effectD(2,3)[OF e] by (simp_all add: u_def v_def[symmetric] queues_deinit_balances powered_off_vpu5)
  show "balance fw_weight u = balance fw_weight t"
    using quiet_power_off[OF quiet_weights(1), of t]
    by (simp add: u_def queues_deinit_balances)
  show "balance (dma_weight a) u = balance (dma_weight a) t - queue_mem t a"
    using quiet_power_off[OF quiet_weights(2), of a t] queues_deinit_balances(4)[OF qm(2), of a]
    by (simp add: u_def v_def[symmetric] qm(1))
qed

lemma power_off_released:
  assumes q: "queues_from s s1" and ok: "vpu5 s1" and p: "powered_from 0 s1 t"
  shows "same_resources s (iris_hfi_queues_deinit (iris_vpu_power_off t))"
proof -
  note pf = powered_frame[OF p ok]
  have i: "iface_q_table_vaddr t \<noteq> 0" using q pf(6) by (simp add: queues_from_def)
  show ?thesis
    using p q by (simp add: same_resources_def release_balances[OF pf(2,3) i] powered_from_def
        effect_def attempt_simps queues_from_def pf(4,5))
qed

section \<open>The outcome of a start\<close>

text \<open>As before, but for what a failed power-on of the VPU leaves behind.\<close>

definition nearly_same :: "'a iris_core_scheme \<Rightarrow> 'a iris_core_scheme \<Rightarrow> bool" where
  "nearly_same s t \<longleftrightarrow> balance fw_weight t = balance fw_weight s \<and>
     (\<forall>a. balance (dma_weight a) t = balance (dma_weight a) s) \<and>
     (\<forall>c. balance (clk_weight c) t = balance (clk_weight c) s \<or>
          balance (clk_weight c) t = balance (clk_weight c) s - clk_on (tables s) IRIS_AUX_HW_CLK c) \<and>
     (\<forall>d. d \<noteq> CTRL_PD \<longrightarrow> balance (pm_weight d) t = balance (pm_weight d) s) \<and>
     balance (pm_weight CTRL_PD) t - balance (pm_weight CTRL_PD) s \<in> {0, 1}"

lemma same_nearly: "same_resources s t \<Longrightarrow> nearly_same s (t\<lparr>core_state := x\<rparr>)"
  by (simp add: same_resources_def nearly_same_def)

definition failed_start :: "'a iris_core_scheme \<Rightarrow> int \<Rightarrow> 'a iris_core_scheme \<Rightarrow> bool" where
  "failed_start s r t \<longleftrightarrow> r \<noteq> 0 \<and> core_state t = IRIS_CORE_DEINIT \<and> nearly_same s t"

definition started :: "'a iris_core_scheme \<Rightarrow> int \<Rightarrow> 'a iris_core_scheme \<Rightarrow> bool" where
  "started s r t \<longleftrightarrow> core_state t \<noteq> IRIS_CORE_DEINIT \<and> (r = 0 \<or> core_state t = IRIS_CORE_ERROR) \<and>
     (\<exists>s1. queues_from s s1 \<and> vpu5 s1 \<and> powered_from 1 s1 t)"

lemma same_resources_core_state [simp]:
  "same_resources s (t\<lparr>core_state := x\<rparr>) = same_resources s t"
  by (simp add: same_resources_def)

lemma start_power_off:
  assumes "queues_from s s1" "vpu5 s1" "powered_from 0 s1 t" "r \<noteq> 0"
  shows "failed_start s r ((iris_hfi_queues_deinit (iris_vpu_power_off t))\<lparr>core_state := IRIS_CORE_DEINIT\<rparr>)"
  using power_off_released[OF assms(1-3)] assms(4)
  by (simp add: failed_start_def same_nearly)

lemma start_unload:
  assumes "queues_from s s1" "vpu5 s1" "powered_from 1 s1 t" "r \<noteq> 0"
  shows "failed_start s r ((iris_hfi_queues_deinit (iris_vpu_power_off (snd (iris_fw_unload t))))
    \<lparr>core_state := IRIS_CORE_DEINIT\<rparr>)"
  using start_power_off[OF assms(1,2) _ assms(4)] powered_moves[OF assms(3) fw_unload_moves] by simp

lemma start_no_power:
  assumes "queues_from s s1" "vpu5 s1" "tables s1 = tables s" "iris_vpu_power_on s1 = (r, t)" "r \<noteq> 0"
  shows "failed_start s r ((iris_hfi_queues_deinit t)\<lparr>core_state := IRIS_CORE_DEINIT\<rparr>)"
proof -
  note p = power_on_powered[OF assms(2,4)]
  have u: "unwound (attempt s1) t" using p(2) assms(5) .
  then have f: "frame t = frame (attempt s1)" by (simp add: unwound_def)
  have qm: "queue_mem t = queue_mem s1"
    using queue_mem_frame[OF f] by (simp only: queue_mem_off)
  have iface: "iface_q_table_vaddr t \<noteq> 0"
    using frame_eqD(12)[OF f] assms(1) by (simp add: attempt_def queues_from_def)
  show ?thesis
    using u assms(1,3,5) p(3,4)
    by (simp add: failed_start_def nearly_same_def queues_deinit_balances(1-3)
        queues_deinit_balances(4)[OF iface] qm unwound_def attempt_simps queues_from_def)
qed

lemma still_idle_opp: "still s (snd (iris_set_idle_opp s))"
proof -
  obtain f s1 where m: "iris_vpu_min_freq s = (f, s1)" by fastforce
  then have 1: "still s s1"
    by (auto simp: iris_vpu_min_freq_def still_def effect_def kernel_simps split: prod.splits
        dest!: ask_log)
  have 2: "still s1 (snd (set_rate f s1))"
    by (auto simp: set_rate_def still_def effect_def kernel_simps split: prod.splits dest!: ask_log)
  show ?thesis
    using 1 still_trans[OF 1 2] by (simp add: iris_set_idle_opp_def m)
qed

lemma response_thread_cases:
  "still s (response_thread s) \<or>
   (\<exists>u. still s u \<and> response_thread s = u\<lparr>core_state := IRIS_CORE_ERROR\<rparr>)"
  by (cases "ask Response_thread s")
     (auto simp: response_thread_def still_def effect_def kernel_simps dest!: ask_log)

text \<open>What holds of a started core while its state may turn to error.\<close>

definition running :: "'a iris_core_scheme \<Rightarrow> 'a iris_core_scheme \<Rightarrow> bool" where
  "running s t \<longleftrightarrow> core_state t \<noteq> IRIS_CORE_DEINIT \<and>
     (\<exists>s1. queues_from s s1 \<and> vpu5 s1 \<and> powered_from 1 s1 t)"

lemma running_still: "running s t \<Longrightarrow> still t u \<Longrightarrow> running s u"
proof -
  assume r: "running s t" and u: "still t u"
  obtain s1 where s1: "queues_from s s1" "vpu5 s1" "powered_from 1 s1 t"
    using r by (auto simp: running_def)
  have "powered_from 1 s1 u"
    using powered_moves[OF s1(3), of 0 u] u by (simp add: still_fw_moves)
  moreover have "core_state u = core_state t"
    using u frame_eqD(8)[of u t] by (simp add: still_def effect_def)
  ultimately show ?thesis using r s1 by (auto simp: running_def)
qed

lemma running_error:
  assumes "running s t" "x \<noteq> IRIS_CORE_DEINIT"
  shows "running s (t\<lparr>core_state := x\<rparr>)"
proof -
  obtain s1 where s1: "queues_from s s1" "vpu5 s1" "powered_from 1 s1 t"
    using assms(1) by (auto simp: running_def)
  show ?thesis
    using s1 powered_from_core_state[OF s1(3), of x] assms(2)
    by (auto simp: running_def intro!: exI[of _ "s1\<lparr>core_state := x\<rparr>"])
qed

lemma running_response: "running s t \<Longrightarrow> running s (response_thread t)"
  using response_thread_cases[of t] running_still[of s t] running_error
  by (metis iris_core_state.distinct(3))

lemma running_call: "running s t \<Longrightarrow> (\<And>r. no_weight (k r)) \<Longrightarrow> ask k t = (r, u) \<Longrightarrow> running s u"
  using running_still still_calls(1) by (metis snd_conv)

lemma wait_running:
  assumes "running s t" "iris_wait_for_system_response t = (r, u)"
  shows "running s u \<and> (r = 0 \<or> core_state u = IRIS_CORE_ERROR)"
proof -
  have 1: "running s (response_thread t)" by (rule running_response[OF assms(1)])
  have 2: "running s (response_thread s2)" if "ask Wait_completion (response_thread t) = (ret, s2)" for ret s2
    by (rule running_response[OF running_call[OF 1 _ that]]) (simp add: no_weight_def)
  have "ensures (iris_wait_for_system_response t)
      (\<lambda>(r, u). running s u \<and> (r = 0 \<or> core_state u = IRIS_CORE_ERROR))"
    unfolding iris_wait_for_system_response_def Let_def
    by (intro vcg) (auto intro: running_error 1 2)
  then show ?thesis using assms(2) by (simp add: ensures_def)
qed

lemmas wait_runs = wait_running[THEN conjunct1]

lemma wait_error:
  "running s t \<Longrightarrow> iris_wait_for_system_response t = (r, u) \<Longrightarrow> r \<noteq> 0 \<Longrightarrow> core_state u = IRIS_CORE_ERROR"
  using wait_running by blast

text \<open>The core of \<open>s\<close> on its way up: queues and power taken, the firmware started \<open>n\<close> times.\<close>

definition up :: "int \<Rightarrow> 'a iris_core_scheme \<Rightarrow> 'a iris_core_scheme \<Rightarrow> bool" where
  "up n s t \<longleftrightarrow> core_state t = IRIS_CORE_INIT \<and>
     (\<exists>s1. queues_from s s1 \<and> vpu5 s1 \<and> powered_from n s1 t)"

lemma up_moves:
  assumes "up m s t" "fw_moves n t u" shows "up (m + n) s u"
proof -
  have "frame u = frame t" using assms(2) by (simp add: fw_moves_def effect_def)
  then have "core_state u = core_state t" by (rule frame_eqD(8))
  then show ?thesis using assms powered_moves by (fastforce simp: up_def)
qed

lemma up_still: "up m s t \<Longrightarrow> still t u \<Longrightarrow> up m s u"
  using up_moves[of m s t 0 u] by (simp add: still_fw_moves)

lemma queues_init_start:
  assumes "iris_hfi_queues_init (s\<lparr>core_state := IRIS_CORE_INIT\<rparr>) = (r, s1)" "vpu5 s"
  shows "vpu5 s1" "tables s1 = tables s" "core_state s1 = IRIS_CORE_INIT" "r = 0 \<Longrightarrow> queues_from s s1"
    "r \<noteq> 0 \<Longrightarrow> failed_start s r (s1\<lparr>core_state := IRIS_CORE_DEINIT\<rparr>)"
  using queues_init_keeps[OF assms(1)] queues_init_balance[OF assms(1)] assms
  by (auto simp: failed_start_def nearly_same_def queues_from_def)

lemma up_power:
  assumes "iris_hfi_queues_init (s\<lparr>core_state := IRIS_CORE_INIT\<rparr>) = (0, s1)" "vpu5 s"
    and "iris_vpu_power_on s1 = (0, t)"
  shows "up 0 s t"
proof -
  note q = queues_init_start[OF assms(1,2)]
  note p = power_on_powered(1)[OF q(1) assms(3) refl]
  show ?thesis using q p powered_frame(7)[OF p q(1)] by (auto simp: up_def)
qed

lemma up_steps:
  "up 0 s t \<Longrightarrow> iris_fw_load t = (0, u) \<Longrightarrow> up 1 s u"
  "up 0 s t \<Longrightarrow> iris_fw_load t = (r, u) \<Longrightarrow> r \<noteq> 0 \<Longrightarrow> up 0 s u"
  "up 1 s t \<Longrightarrow> (if b then iris_set_hw_state t True else (0, t)) = (r, u) \<Longrightarrow> up 1 s u"
  "up 1 s t \<Longrightarrow> iris_vpu_boot_firmware t = (r, u) \<Longrightarrow> up 1 s u"
  "up 1 s t \<Longrightarrow> iris_hfi_core_init t = (r, u) \<Longrightarrow> up 1 s u"
proof -
  show "up 0 s t \<Longrightarrow> iris_fw_load t = (0, u) \<Longrightarrow> up 1 s u"
    using up_moves[of 0 s t 1 u] fw_load_result[of t 0 u] by simp
  show "up 0 s t \<Longrightarrow> iris_fw_load t = (r, u) \<Longrightarrow> r \<noteq> 0 \<Longrightarrow> up 0 s u"
    using up_moves[of 0 s t 0 u] fw_load_result[of t r u] by simp
  show "up 1 s t \<Longrightarrow> (if b then iris_set_hw_state t True else (0, t)) = (r, u) \<Longrightarrow> up 1 s u"
    using up_still[of 1 s t u] still_frame_calls(1)[of t True] by (auto split: if_splits)
  show "up 1 s t \<Longrightarrow> iris_vpu_boot_firmware t = (r, u) \<Longrightarrow> up 1 s u"
    using up_still[of 1 s t u] still_boot[of t] by simp
  show "up 1 s t \<Longrightarrow> iris_hfi_core_init t = (r, u) \<Longrightarrow> up 1 s u"
    using up_still[of 1 s t u] still_frame_calls(2)[of t] by simp
qed

lemma up_fails:
  "up 0 s t \<Longrightarrow> r \<noteq> 0 \<Longrightarrow> failed_start s r
     ((iris_hfi_queues_deinit (iris_vpu_power_off t))\<lparr>core_state := IRIS_CORE_DEINIT\<rparr>)"
  "up 1 s t \<Longrightarrow> r \<noteq> 0 \<Longrightarrow> failed_start s r
     ((iris_hfi_queues_deinit (iris_vpu_power_off (snd (iris_fw_unload t))))
        \<lparr>core_state := IRIS_CORE_DEINIT\<rparr>)"
  unfolding up_def using start_power_off start_unload by blast+

lemma up_running: "up 1 s t \<Longrightarrow> running s t"
  by (auto simp: up_def running_def)

lemma core_init_ensures:
  assumes ok: "vpu5 s" and d: "core_state s = IRIS_CORE_DEINIT"
  shows "ensures (iris_core_init s)
    (\<lambda>(r, t). failed_start s r t \<or> running s t \<and> (r = 0 \<or> core_state t = IRIS_CORE_ERROR))"
proof -
  have d2: "core_state s \<noteq> IRIS_CORE_INIT" "core_state s \<noteq> IRIS_CORE_ERROR" using d by simp_all
  have p: "up 0 s s2" if "iris_hfi_queues_init (s\<lparr>core_state := IRIS_CORE_INIT\<rparr>) = (rq, s1)" "\<not> rq \<noteq> 0"
    "iris_vpu_power_on s1 = (rp, s2)" "\<not> rp \<noteq> 0" for rq s1 rp s2
    using up_power[OF _ ok] that by simp
  have n: "failed_start s rp ((iris_hfi_queues_deinit s2)\<lparr>core_state := IRIS_CORE_DEINIT\<rparr>)"
    if "iris_hfi_queues_init (s\<lparr>core_state := IRIS_CORE_INIT\<rparr>) = (rq, s1)" "\<not> rq \<noteq> 0"
    "iris_vpu_power_on s1 = (rp, s2)" "rp \<noteq> 0" for rq s1 rp s2
    using start_no_power[OF _ _ _ that(3,4)] queues_init_start[OF that(1) ok] that(2) by simp
  have f: "up 1 s s3" if "up 0 s s2" "iris_fw_load s2 = (rf, s3)" "\<not> rf \<noteq> 0" for s2 rf s3
    using up_steps(1) that by simp
  show ?thesis
    unfolding iris_core_init_def Let_def
    apply (simp only: d2 if_False simp_thms)
    apply (intro vcg)
    apply (simp_all only: prod.case)
    subgoal by (rule disjI1, rule queues_init_start(5)[OF _ ok])
    subgoal by (rule disjI1) (rule n)
    subgoal by (rule disjI1, rule up_fails(1)[OF up_steps(2)[OF p]]) assumption+
    subgoal by (rule disjI1, rule up_fails(2)[OF up_steps(3)[OF f[OF p]]]) assumption+
    subgoal by (rule disjI1, rule up_fails(2)[OF up_steps(4)[OF up_steps(3)[OF f[OF p]]]]) assumption+
    subgoal by (rule disjI1, rule up_fails(2)[OF up_steps(5)[OF up_steps(4)[OF up_steps(3)[OF f[OF p]]]]]) assumption+
    subgoal
      by (intro disjI2 conjI; (rule wait_runs[OF up_running[OF up_steps(5)[OF up_steps(4)[OF up_steps(3)[OF f[OF p]]]]]]
          | rule wait_error[OF up_running[OF up_steps(5)[OF up_steps(4)[OF up_steps(3)[OF f[OF p]]]]]]); assumption)
    subgoal
      by (intro disjI2 conjI running_still[OF _ still_idle_opp] disjI1 refl;
          rule wait_runs[OF up_running[OF up_steps(5)[OF up_steps(4)[OF up_steps(3)[OF f[OF p]]]]]]; assumption)
    done
qed

text \<open>Taking a running core down returns all it holds.\<close>

lemma powered_off_sel [simp]:
  "core_state (powered_off s) = core_state s" "iface_q_table_vaddr (powered_off s) = iface_q_table_vaddr s"
  by (simp_all add: powered_off_def)

lemma deinit_running:
  assumes "running s t"
  defines "u \<equiv> iris_core_deinit t"
  shows "core_state u = IRIS_CORE_DEINIT" "\<not> vpu_suspended u"
    "balance fw_weight u = balance fw_weight s"
    "balance (dma_weight a) u = balance (dma_weight a) s"
    "balance (clk_weight c) u = balance (clk_weight c) s"
    "d \<noteq> Core_dev \<Longrightarrow> balance (pm_weight d) u = balance (pm_weight d) s"
proof -
  obtain s1 where s1: "queues_from s s1" "vpu5 s1" "powered_from 1 s1 t" and n: "core_state t \<noteq> IRIS_CORE_DEINIT"
    using assms(1) by (auto simp: running_def)
  define t2 where "t2 = snd (iris_fw_unload (snd (pm_runtime_resume_and_get Core_dev t)))"
  define v where "v = iris_hfi_queues_deinit (iris_vpu_power_off t2)"
  have f: "frame t2 = frame t" and b: "balance fw_weight t2 = balance fw_weight t - 1"
    "balance (dma_weight a) t2 = balance (dma_weight a) t"
    "balance (clk_weight c) t2 = balance (clk_weight c) t"
    "d \<noteq> Core_dev \<Longrightarrow> balance (pm_weight d) t2 = balance (pm_weight d) t"
    by (simp_all add: t2_def iris_fw_unload_def pm_runtime_resume_and_get_def split_beta kernel_simps)
  note pf = powered_frame[OF s1(3,2)]
  have 2: "vpu5 t2" "vpu_powered t2" "iface_q_table_vaddr t2 \<noteq> 0" "tables t2 = tables s1"
      "queue_mem t2 = queue_mem s1"
    using vpu5_frame[OF f] frame_eqD(3,6,12)[OF f] queue_mem_frame[OF f] pf s1(1)
    by (simp_all add: queues_from_def)
  have u: "u = tell (Pm_put_sync Core_dev) ((tell Cancel_pc_work v)
      \<lparr>vpu_suspended := False, core_state := IRIS_CORE_DEINIT\<rparr>)"
    using n by (simp add: assms(2) iris_core_deinit_def Let_def t2_def v_def)
  show "core_state u = IRIS_CORE_DEINIT" "\<not> vpu_suspended u"
    by (simp_all add: u tell_def)
  have w: "balance w u = balance w v + w (Pm_put_sync Core_dev) + w Cancel_pc_work" for w
    by (simp add: u balance_def tell_def)
  show "balance fw_weight u = balance fw_weight s"
    "balance (dma_weight a) u = balance (dma_weight a) s"
    "balance (clk_weight c) u = balance (clk_weight c) s"
    "d \<noteq> Core_dev \<Longrightarrow> balance (pm_weight d) u = balance (pm_weight d) s"
    using s1(1,3) unfolding w v_def
    by (simp_all add: release_balances[OF 2(1-3)] 2(4,5) b powered_from_def effect_def
        attempt_simps queues_from_def)
qed

section \<open>Interrupts while the core is powered\<close>

text \<open>
  The line can fire only while it is enabled, once more enabled than disabled. A run of
  interrupts is a sequence of hard handlers, each with its thread.
\<close>

inductive interrupts ::
    "('a iris_core_scheme \<Rightarrow> 'a iris_core_scheme) \<Rightarrow> 'a iris_core_scheme \<Rightarrow> 'a iris_core_scheme \<Rightarrow> bool"
  for h where
  quiet_line: "interrupts h s s"
| one_more: "interrupts h s t \<Longrightarrow> balance irq_weight t = 1 \<Longrightarrow>
     interrupts h s (iris_hfi_isr_handler h (iris_hfi_isr t))"

definition irq_safe :: "('a iris_core_scheme \<Rightarrow> 'a iris_core_scheme) \<Rightarrow> bool" where
  "irq_safe h \<longleftrightarrow> (\<forall>s. balance irq_weight (h s) = balance irq_weight s \<and>
     watchdog_latched (h s) = watchdog_latched s \<and> vpu_powered (h s) = vpu_powered s)"

lemma clear_interrupt_keeps:
  "balance irq_weight (iris_vpu_clear_interrupt s) = balance irq_weight s"
  "vpu_powered (iris_vpu_clear_interrupt s) = vpu_powered s"
  by (auto simp: iris_vpu_clear_interrupt_def readl_def writel_def Let_def split_beta ask_def tell_def
      balance_def)

lemma tell_sel [simp]: "vpu_powered (tell k s) = vpu_powered s" "platform (tell k s) = platform s"
  by (simp_all add: tell_def)

lemma handler_effect:
  fixes s :: "'a iris_core_scheme"
  assumes "irq_safe h"
  defines "t \<equiv> iris_hfi_isr_handler h (iris_hfi_isr s)"
  shows "balance irq_weight t = balance irq_weight s - (if watchdog_latched t then 1 else 0)"
    "vpu_powered t = vpu_powered s"
  using assms(1)
  by (simp_all add: assms(2) iris_hfi_isr_handler_def iris_hfi_isr_def Let_def irq_safe_def watchdog_iff
      balance_tell clear_interrupt_keeps)

lemma power_on_irq:
  assumes "iris_vpu_power_on s = (0, t)"
  shows "balance irq_weight t = balance irq_weight s + 1" "\<not> watchdog_latched t"
proof -
  show "balance irq_weight t = balance irq_weight s + 1"
    using quiet_power_on[OF quiet_weights(3) assms] by simp
  have "ensures (iris_vpu_power_on s) (\<lambda>(r, t). r = 0 \<longrightarrow> core_intr_status t = 0)"
    unfolding iris_vpu_power_on_def Let_def by (intro vcg) auto
  then show "\<not> watchdog_latched t"
    using assms by (simp add: ensures_def watchdog_latched_def has_def)
qed


section \<open>Properties of the life cycle\<close>

text \<open>
  C14. A start from the idle state on SM8150 has three outcomes. It succeeds, or it times out
  or sees a firmware error and leaves the core in the error state: in both cases the
  firmware runs once, the queues are allocated and every clock and power domain of the VPU is on. Or
  it fails and the core is idle again, and then memory, firmware and all clocks and domains
  are as before, up to what a failed power-on of the VPU itself leaves behind.
\<close>

theorem core_start:
  assumes "vpu5 s" "core_state s = IRIS_CORE_DEINIT" "iris_core_init s = (r, t)"
  shows "if core_state t = IRIS_CORE_DEINIT then r \<noteq> 0 \<and> nearly_same s t
    else (r = 0 \<or> core_state t = IRIS_CORE_ERROR) \<and> vpu_powered t \<and>
      balance fw_weight t = balance fw_weight s + 1 \<and>
      (\<forall>a. balance (dma_weight a) t = balance (dma_weight a) s + queue_mem t a) \<and>
      (\<forall>c. balance (clk_weight c) t = balance (clk_weight c) s + vpu5_clks (tables s) c) \<and>
      (\<forall>d. balance (pm_weight d) t = balance (pm_weight d) s + vpu5_pds d)"
proof -
  consider "failed_start s r t" | "running s t" "r = 0 \<or> core_state t = IRIS_CORE_ERROR"
    using core_init_ensures[OF assms(1,2)] assms(3) by (auto simp: ensures_def)
  then show ?thesis
  proof cases
    case 2
    then obtain s1 where s1: "queues_from s s1" "vpu5 s1" "powered_from 1 s1 t"
        and n: "core_state t \<noteq> IRIS_CORE_DEINIT"
      by (auto simp: running_def)
    show ?thesis
      using 2(2) n s1 powered_frame(3,5)[OF s1(3,2)]
      by (simp add: powered_from_def queues_from_def effect_def attempt_simps)
  qed (simp add: failed_start_def)
qed

text \<open>
  C15. Taking the core down after any start gives back everything: firmware, queue memory, clocks and
  the power domains of the VPU.
\<close>

theorem core_stop:
  assumes "vpu5 s" "core_state s = IRIS_CORE_DEINIT" "iris_core_init s = (r, t)"
    and "core_state t \<noteq> IRIS_CORE_DEINIT"
  defines "u \<equiv> iris_core_deinit t"
  shows "core_state u = IRIS_CORE_DEINIT \<and> balance fw_weight u = balance fw_weight s \<and>
    (\<forall>a. balance (dma_weight a) u = balance (dma_weight a) s) \<and>
    (\<forall>c. balance (clk_weight c) u = balance (clk_weight c) s) \<and>
    (\<forall>p. balance (pm_weight (Pd_dev p)) u = balance (pm_weight (Pd_dev p)) s)"
proof -
  have "running s t"
    using core_init_ensures[OF assms(1,2)] assms(3,4) by (auto simp: ensures_def failed_start_def)
  from deinit_running[OF this] show ?thesis by (simp add: u_def)
qed

text \<open>
  A start in the error state, which a timeout or a firmware error leaves, only overwrites
  the state: it fails with \<open>-EINVAL\<close>, the core then counts as idle, everything it holds stays
  taken, and taking the core down no longer has an effect.
\<close>

theorem core_start_in_error:
  assumes "core_state s = IRIS_CORE_ERROR"
  shows "\<exists>t. iris_core_init s = (- EINVAL, t) \<and> core_state t = IRIS_CORE_DEINIT \<and>
    same_resources s t \<and> vpu_powered t = vpu_powered s \<and> iris_core_deinit t = t"
  using assms by (simp add: iris_core_init_def iris_core_deinit_def Let_def same_resources_def)

text \<open>The log only grows.\<close>

definition log_grows :: "'a iris_core_scheme \<Rightarrow> 'a iris_core_scheme \<Rightarrow> bool" where
  "log_grows s t \<longleftrightarrow> (\<exists>ks. klog t = klog s @ ks)"

lemma log_grows_trans: "log_grows s t \<Longrightarrow> log_grows t u \<Longrightarrow> log_grows s u"
  by (auto simp: log_grows_def)

lemma log_grows_prim:
  "log_grows s s" "log_grows s (snd (ask k s))" "log_grows s (tell k' s)"
  by (auto simp: log_grows_def ask_def tell_def Let_def)

text \<open>
  C16. The work that collapses an idle VPU does not look at the state of the core: when it runs with
  the core down, it begins by reading a status register of the unpowered VPU.
\<close>

theorem collapse_reads_dead_vpu:
  assumes "legacy_vpu5 (platform s)" "core_state s = IRIS_CORE_DEINIT" "\<not> vpu_powered s"
    and "\<not> vpu_suspended s" "instances s = []"
  shows "\<exists>v calls. klog (iris_pc_handler s) = klog s @ Readl VPU5_CTRL_STATUS v # calls"
proof -
  obtain c s1 where r: "readl VPU5_CTRL_STATUS s = (c, s1)" by fastforce
  then have 1: "klog s1 = klog s @ [Readl VPU5_CTRL_STATUS (env s (length (klog s)))]"
    and p: "platform s1 = platform s" "vpu_powered s1 = vpu_powered s"
    by (auto simp: readl_def ask_def Let_def)
  obtain q s2 where r2: "readl VPU5_WRAPPER_CPU_STATUS s1 = (q, s2)" by fastforce
  have 2: "log_grows s1 s2" "platform s2 = platform s1" "vpu_powered s2 = vpu_powered s1"
    using r2 by (auto simp: readl_def ask_def Let_def log_grows_def)
  obtain ret s3 where e: "iris_vpu_prepare_pc s = (ret, s3)" by fastforce
  have 3: "log_grows s1 s3" "vpu_powered s3 = vpu_powered s1"
    using e 2 assms(1) unfolding iris_vpu_prepare_pc_def iris_vpu5_prepare_pc_def r r2 prod.case
    by (auto simp: iris_vpu_uses_legacy_vpu5_def ask_def Let_def log_grows_def split: if_splits)
  have 4: "log_grows s1 (snd (iris_pc_enter s))"
    using 3 assms(3) p
    by (auto simp: iris_pc_enter_def e iris_set_hw_state_def ask_def Let_def iris_vpu_power_off_def
        log_grows_def split: if_splits)
  have "log_grows s1 (iris_pc_handler s)"
    using 4 assms(4,5) log_grows_trans[OF 4 log_grows_prim(3)]
    by (auto simp: iris_pc_handler_def iris_pc_schedule_def Let_def)
  then show ?thesis using 1 by (auto simp: log_grows_def)
qed

lemma still_eqs: "still s t \<longleftrightarrow> frame t = frame s \<and> balance fw_weight t = balance fw_weight s \<and>
    (\<forall>a. balance (dma_weight a) t = balance (dma_weight a) s) \<and>
    (\<forall>c. balance (clk_weight c) t = balance (clk_weight c) s) \<and>
    (\<forall>d. balance (pm_weight d) t = balance (pm_weight d) s)"
  by (auto simp: still_def effect_def)

lemma readl_still: "readl reg s = (v, t) \<Longrightarrow> still s t"
  using still_readl[of s reg] by simp

lemma still_prepare_pc:
  assumes "iris_vpu_prepare_pc s = (r, t)" shows "still s t"
proof -
  have "ensures (iris_vpu_prepare_pc s) (\<lambda>(r, t). still s t)"
    unfolding iris_vpu_prepare_pc_def iris_vpu5_prepare_pc_def Let_def
    by (intro vcg ensures_call) (auto simp: still_eqs dest!: ask_log readl_still)
  then show "still s t" using assms by (simp add: ensures_def)
qed

lemma powered_steps:
  "powered_from n s t \<Longrightarrow> iris_set_hw_state t b = (r, v) \<Longrightarrow> powered_from n s v"
  "powered_from n s t \<Longrightarrow> iris_vpu_boot_firmware t = (r, v) \<Longrightarrow> powered_from n s v"
  "powered_from n s t \<Longrightarrow> (if c then (0, t) else ask Hfi_sys_interframe_powercollapse t) = (r, v) \<Longrightarrow>
     powered_from n s v"
  using powered_moves[of n s t 0 v] still_frame_calls(1)[of t b] still_boot[of t]
    still_calls(1)[of Hfi_sys_interframe_powercollapse t]
  by (auto simp: still_fw_moves no_weight_def split: if_splits)

lemma restart_powered:
  assumes "vpu5 s" "vpu_restart s = (0, u)"
  shows "\<exists>v. powered_from 0 s v \<and> u = v\<lparr>vpu_suspended := False\<rparr>"
proof -
  have "ensures (vpu_restart s) (\<lambda>(r, u). r = 0 \<longrightarrow>
      (\<exists>v. powered_from 0 s v \<and> u = v\<lparr>vpu_suspended := False\<rparr>))"
    unfolding vpu_restart_def Let_def
    apply (intro vcg)
    apply (auto dest!: power_on_powered(1)[OF assms(1)])
    apply (rule exI, rule conjI[rotated], rule refl)
    by (rule powered_steps(3)[OF powered_steps(2)[OF powered_steps(1)]])
  then show ?thesis using assms(2) by (simp add: ensures_def)
qed

lemma suspended_update:
  "vpu5 (s\<lparr>vpu_suspended := b\<rparr>) = vpu5 s" "tables (s\<lparr>vpu_suspended := b\<rparr>) = tables s"
  by (simp_all add: vpu5_def has_aux_pd_def iris_vpu_uses_legacy_vpu5_def tables_def)

lemma pc_schedule_same: "same_resources s (iris_pc_schedule s)" "vpu_powered (iris_pc_schedule s) = vpu_powered s"
  "vpu_suspended (iris_pc_schedule s) = vpu_suspended s"
  by (simp_all add: iris_pc_schedule_def same_resources_def balance_tell) (simp_all add: tell_def)

text \<open>
  C18. Suspending an idle powered core and resuming it gives the same clocks, power domains, firmware
  and memory as before, with the VPU powered; and while the VPU is suspended none of its
  clocks and domains is held.
\<close>

theorem suspend_resume:
  assumes "vpu5 s" "vpu_powered s" "\<not> vpu_suspended s"
    and sus: "iris_hfi_pm_suspend s = (0, t)" and res: "iris_hfi_pm_resume t = (0, u)"
  shows "same_resources s u \<and> vpu_powered u \<and> \<not> vpu_suspended u \<and>
    (vpu_suspended t \<longrightarrow> \<not> vpu_powered t \<and>
      (\<forall>c. balance (clk_weight c) t = balance (clk_weight c) s - vpu5_clks (tables s) c) \<and>
      (\<forall>d. balance (pm_weight d) t = balance (pm_weight d) s - vpu5_pds d))"
proof -
  obtain r s1 where p: "iris_vpu_prepare_pc s = (r, s1)" by fastforce
  obtain r2 s2 where h: "iris_set_hw_state s1 False = (r2, s2)" by fastforce
  have 1: "still s s1" by (rule still_prepare_pc[OF p])
  then have f1: "frame s1 = frame s" by (simp add: still_eqs)
  have 2: "still s s2" using still_trans[OF 1 still_frame_calls(1)[of s1 False]] h by simp
  then have f2: "frame s2 = frame s" by (simp add: still_eqs)
  have s2: "vpu5 s2" "vpu_powered s2" "tables s2 = tables s"
    using vpu5_frame[OF f2] frame_eqD(3,6)[OF f2] assms by simp_all
  define v where "v = iris_vpu_power_off s2"
  note q = quiet_power_off[OF quiet_weights(1), of s2] quiet_power_off[OF quiet_weights(2), of _ s2]
  have e: "effect (powered_off s2) v (\<lambda>c. - vpu5_clks (tables s) c) (\<lambda>d. - vpu5_pds d)"
    using power_off_effect[OF s2(1,2)] s2(3) by (simp add: v_def)
  consider (awake) "\<not> vpu_suspended t" "same_resources s t" "vpu_powered t"
    | (asleep) "t = v\<lparr>vpu_suspended := True\<rparr>"
    using sus p h assms(2,3) 1 2 frame_eqD(6,7)[OF f1]
    unfolding iris_hfi_pm_suspend_def v_def
    by (auto simp: same_resources_def still_eqs split: if_splits)
  then show ?thesis
  proof cases
    case awake
    then show ?thesis using res by (simp add: iris_hfi_pm_resume_def)
  next
    case asleep
    have fv: "frame v = frame (powered_off s2)" using effectD(1)[OF e] .
    have t: "vpu5 t" "tables t = tables s" "\<not> vpu_powered t" "vpu_suspended t"
      using vpu5_frame[OF fv] frame_eqD(3,6)[OF fv] s2 asleep
      by (simp_all add: powered_off_vpu5 suspended_update) (simp add: powered_off_def)
    obtain w where w: "powered_from 0 t w" "u = iris_pc_schedule (w\<lparr>vpu_suspended := False\<rparr>)"
      using res t(4) restart_powered[OF t(1)]
      by (auto simp: iris_hfi_pm_resume_def split: prod.splits if_splits)
    have ts: "balance (clk_weight c) t = balance (clk_weight c) s - vpu5_clks (tables s) c"
      "balance (pm_weight d) t = balance (pm_weight d) s - vpu5_pds d"
      "balance fw_weight t = balance fw_weight s" "balance (dma_weight a) t = balance (dma_weight a) s" for c d a
      using 2 q effectD(2,3)[OF e] by (simp_all add: asleep still_eqs powered_off_vpu5 v_def)
    show ?thesis
      using w(1) ts t powered_frame(3)[OF w(1) t(1)] pc_schedule_same[of "w\<lparr>vpu_suspended := False\<rparr>"]
      by (simp add: w(2) same_resources_def powered_from_def effect_def attempt_simps)
  qed
qed

section \<open>Concrete runs\<close>

text \<open>
  A kernel in which a start of the SM8150 core of the Nabu board succeeds: allocations and
  look-ups give 1, the boot status is 1, the response arrives, everything else returns 0.
\<close>

definition good_env :: "nat \<Rightarrow> int" where
  "good_env n = (if n \<in> {0, 1, 2, 3, 30, 31, 36, 52, 55} then 1 else 0)"

lemma nabu_core_idle: "vpu5 (nabu_core e)" "core_state (nabu_core e) = IRIS_CORE_DEINIT"
  by (simp_all add: nabu_vpu5) (simp add: nabu_core_def probed_core_def)

lemma good_start:
  "case iris_core_init (nabu_core good_env) of (r, t) \<Rightarrow> r = 0 \<and> core_state t = IRIS_CORE_INIT"
  by code_simp

lemma core_start_witness:
  "\<exists>t. iris_core_init (nabu_core good_env) = (0, t) \<and> vpu_powered t \<and> balance fw_weight t = 1"
proof -
  obtain t where t: "iris_core_init (nabu_core good_env) = (0, t)" "core_state t = IRIS_CORE_INIT"
    using good_start by (auto split: prod.splits)
  have "balance fw_weight (nabu_core good_env) = 0"
    by (simp add: balance_def nabu_core_def probed_core_def)
  then show ?thesis
    using core_start[OF nabu_core_idle t(1)] t by auto
qed

lemma core_stop_witness:
  "\<exists>t. iris_core_init (nabu_core good_env) = (0, t) \<and> balance fw_weight (iris_core_deinit t) = 0"
proof -
  obtain t where t: "iris_core_init (nabu_core good_env) = (0, t)" "core_state t = IRIS_CORE_INIT"
    using good_start by (auto split: prod.splits)
  have "balance fw_weight (nabu_core good_env) = 0"
    by (simp add: balance_def nabu_core_def probed_core_def)
  then show ?thesis
    using core_stop[OF nabu_core_idle t(1)] t by auto
qed

lemma core_start_in_error_witness:
  "\<exists>t. iris_core_init ((nabu_core (\<lambda>_. 0))\<lparr>core_state := IRIS_CORE_ERROR, vpu_powered := True\<rparr>) =
     (- EINVAL, t) \<and> vpu_powered t \<and> iris_core_deinit t = t"
  using core_start_in_error[of "(nabu_core (\<lambda>_. 0))\<lparr>core_state := IRIS_CORE_ERROR, vpu_powered := True\<rparr>"]
  by auto

text \<open>A recovery that cannot allocate the queues leaves the core as the next statement assumes it.\<close>

definition failed_recovery :: iris_core where
  "failed_recovery = snd (iris_core_recover ((nabu_core (\<lambda>_. 0))\<lparr>core_state := IRIS_CORE_INIT\<rparr>))"

lemma collapse_reads_dead_vpu_witness:
  "\<exists>v calls. klog (iris_pc_handler failed_recovery) =
     klog failed_recovery @ Readl VPU5_CTRL_STATUS v # calls"
  by (rule collapse_reads_dead_vpu)
     (simp_all add: failed_recovery_def iris_core_recover_def iris_core_deinit_def iris_core_init_def
       nabu_core_def probed_core_def pm_runtime_resume_and_get_def iris_fw_unload_def ask_def tell_def
       iris_vpu_power_off_def iris_hfi_queues_deinit_def iris_hfi_queues_init_def dma_alloc_attrs_eq
       Let_def sm8150_data_def)

lemma nabu_power_on: "fst (iris_vpu_power_on (nabu_core (\<lambda>_. 0))) = 0"
  by code_simp


text \<open>A firmware that is ready for power collapse, and boots again at the third look.\<close>

definition sleepy_core :: iris_core where
  "sleepy_core = (nabu_core (\<lambda>n. if n = 0 then 0x100 else if n = 52 then 1 else 0))\<lparr>vpu_powered := True\<rparr>"

lemma sleepy_run:
  "case iris_hfi_pm_suspend sleepy_core of (r, t) \<Rightarrow> r = 0 \<and> vpu_suspended t \<and>
     fst (iris_hfi_pm_resume t) = 0"
  by code_simp

lemma sleepy_core_sel: "vpu5 sleepy_core" "vpu_powered sleepy_core" "\<not> vpu_suspended sleepy_core"
  "balance w sleepy_core = 0" "tables sleepy_core = (sm8150_data, nabu_clocks)"
  using nabu_vpu5(1) nabu_vpu5(2)[of w] nabu_tables
  by (simp_all add: sleepy_core_def vpu5_def has_aux_pd_def iris_vpu_uses_legacy_vpu5_def balance_def
      tables_def) (simp_all add: nabu_core_def probed_core_def)

lemma suspend_resume_witness:
  "\<exists>t u. iris_hfi_pm_suspend sleepy_core = (0, t) \<and> iris_hfi_pm_resume t = (0, u) \<and>
     balance (clk_weight 3) t = - 1 \<and> balance (clk_weight 3) u = 0"
proof -
  obtain t where t: "iris_hfi_pm_suspend sleepy_core = (0, t)" "vpu_suspended t"
    "fst (iris_hfi_pm_resume t) = 0"
    using sleepy_run by (auto split: prod.splits)
  then obtain u where u: "iris_hfi_pm_resume t = (0, u)" by (metis prod.collapse)
  have "vpu5_clks (sm8150_data, nabu_clocks) 3 = 1" by code_simp
  then show ?thesis
    using suspend_resume[OF sleepy_core_sel(1-3) t(1) u] t u
    by (auto simp: sleepy_core_sel same_resources_def)
qed

end
