(* ===== verification/IrisHfiOps.thy ===== *)
theory IrisHfiOps
  imports IrisCore
begin

text \<open>
  The interface between a session and the firmware (\<open>struct iris_hfi_command_ops\<close> of
  \<open>iris_hfi_common.h\<close>, \<open>iris_utils.c\<close>): the table of operations, how a packet reaches the
  command queue, the wait for a response, and the contract every operation of the table
  keeps. The session layer is written against the table; the contract is the locale
  \<open>firmware_ops\<close>, which the theory of each firmware generation interprets.
\<close>

section \<open>Sequencing\<close>

text \<open>
  \<open>and_then f g\<close> is the idiom \<open>ret = f(); if (ret) return ret; return g();\<close>, \<open>run_all\<close> the
  same along a list.
\<close>

definition and_then :: "('s \<Rightarrow> int \<times> 's) \<Rightarrow> ('s \<Rightarrow> int \<times> 's) \<Rightarrow> 's \<Rightarrow> int \<times> 's" where
  "and_then f g s = (case f s of (ret, s1) \<Rightarrow> if ret \<noteq> 0 then (ret, s1) else g s1)"

definition run :: "('s \<Rightarrow> 's) \<Rightarrow> 's \<Rightarrow> int \<times> 's" where
  "run h s = (0, h s)"

fun run_all :: "('s \<Rightarrow> int \<times> 's) list \<Rightarrow> 's \<Rightarrow> int \<times> 's" where
  "run_all [] s = (0, s)"
| "run_all (f # fs) s = and_then f (run_all fs) s"

section \<open>Packets and responses\<close>

text \<open>A packet as its 32-bit words, little-endian in memory; the first is \<open>hdr.size\<close>.\<close>

definition packet_bytes :: "u32 list \<Rightarrow> bytes" where
  "packet_bytes ws =
     (\<lambda>k. if k div 4 < length ws then ucast (drop_bit (8 * (k mod 4)) (ws ! (k div 4))) else 0)"

text \<open>
  Sending the number of bytes the header announces. The queues exist whenever the core is up,
  so the entry points never follow a NULL ring; if they did, that is the event \<open>Oops\<close>.
\<close>

definition or_oops :: "(int \<times> 'a iris_core_scheme) option \<Rightarrow> 'a iris_core_scheme \<Rightarrow> int \<times> 'a iris_core_scheme" where
  "or_oops x s = (case x of Some y \<Rightarrow> y | None \<Rightarrow> (- EIO, tell Oops s))"

definition send :: "u32 list \<Rightarrow> 'a iris_core_scheme \<Rightarrow> int \<times> 'a iris_core_scheme" where
  "send ws s = or_oops (iris_hfi_queue_cmd_write s (packet_bytes ws) (hd ws)) s"

definition send_locked :: "u32 list \<Rightarrow> 'a iris_core_scheme \<Rightarrow> int \<times> 'a iris_core_scheme" where
  "send_locked ws s = or_oops (iris_hfi_queue_cmd_write_locked s (packet_bytes ws) (hd ws)) s"

text \<open>\<open>kzalloc f\<close> is \<open>-ENOMEM\<close> if the allocation fails, else \<open>f\<close>.\<close>

definition kzalloc :: "(iris_sys \<Rightarrow> int \<times> iris_sys) \<Rightarrow> iris_sys \<Rightarrow> int \<times> iris_sys" where
  "kzalloc f s = (case ask Kzalloc s of (p, s1) \<Rightarrow> if p = 0 then (- ENOMEM, s1) else f s1)"

text \<open>
  The wait drops the lock of the session: the response thread may mark the core and change
  the session. A result 0 of the wait is the timeout.
\<close>

definition firmware_runs :: "nat \<Rightarrow> iris_sys \<Rightarrow> iris_sys" where
  "firmware_runs i s = modify_inst i (fw_effect s (length (klog s))) (response_thread s)"

definition iris_wait_for_session_response :: "nat \<Rightarrow> bool \<Rightarrow> iris_sys \<Rightarrow> int \<times> iris_sys" where
  "iris_wait_for_session_response i is_flush s =
     (case ask (Wait_session is_flush) s of (ret, s1) \<Rightarrow>
      let s2 = firmware_runs i s1 in
      if ret = 0 then (- ETIMEDOUT, snd (iris_inst_change_state i IRIS_INST_ERROR s2)) else (0, s2))"

definition reinit_completion :: "bool \<Rightarrow> 'a iris_core_scheme \<Rightarrow> int \<times> 'a iris_core_scheme" where
  "reinit_completion is_flush = run (tell (Reinit_completion is_flush))"

text \<open>Every buffer the memory-to-memory context holds of a queue is given back.\<close>

definition iris_helper_buffers_done :: "nat \<Rightarrow> u32 \<Rightarrow> int \<Rightarrow> iris_sys \<Rightarrow> iris_sys" where
  "iris_helper_buffers_done i plane state s =
     (if V4L2_TYPE_IS_OUTPUT plane then
        modify_inst i (m2m_src_update (\<lambda>_. []))
          (fold (\<lambda>b. tell (Buf_done plane (buf_index b) state)) (m2m_src (inst_heap s i)) s)
      else if V4L2_TYPE_IS_CAPTURE plane then
        modify_inst i (m2m_dst_update (\<lambda>_. []))
          (fold (\<lambda>b. tell (Buf_done plane (buf_index b) state)) (m2m_dst (inst_heap s i)) s)
      else s)"

definition iris_get_instance :: "iris_sys \<Rightarrow> u32 \<Rightarrow> nat option" where
  "iris_get_instance s sid = List.find (\<lambda>j. session_id (inst_heap s j) = sid) (instances s)"

text \<open>\<open>VB2_BUF_STATE_DONE\<close>, \<open>VB2_BUF_STATE_QUEUED\<close> and \<open>VB2_BUF_STATE_ERROR\<close>.\<close>

abbreviation (input) VB2_BUF_STATE_QUEUED :: int where "VB2_BUF_STATE_QUEUED \<equiv> 3"
abbreviation (input) VB2_BUF_STATE_DONE :: int where "VB2_BUF_STATE_DONE \<equiv> 5"
abbreviation (input) VB2_BUF_STATE_ERROR :: int where "VB2_BUF_STATE_ERROR \<equiv> 6"

section \<open>The table of operations\<close>

text \<open>
  An instance is its address, a plane a V4L2 buffer type. The payload of a property is what
  its pointer points to, word by word. An operation a generation does not have is \<open>None\<close>.
\<close>

type_synonym payload = "nat \<Rightarrow> u32"

text \<open>The pointer to a structure on the stack, of the given words.\<close>

definition words :: "u32 list \<Rightarrow> payload" where
  "words ws = (\<lambda>k. if k < length ws then ws ! k else 0)"

record iris_hfi_command_ops =
  sys_init :: "iris_sys \<Rightarrow> int \<times> iris_sys"
  sys_image_version :: "iris_sys \<Rightarrow> int \<times> iris_sys"
  sys_interframe_powercollapse :: "iris_sys \<Rightarrow> int \<times> iris_sys"
  sys_pc_prep :: "iris_sys \<Rightarrow> int \<times> iris_sys"
  session_set_config_params :: "nat \<Rightarrow> u32 \<Rightarrow> iris_sys \<Rightarrow> int \<times> iris_sys"
  session_set_property :: "nat \<Rightarrow> u32 \<Rightarrow> u32 \<Rightarrow> u32 \<Rightarrow> u32 \<Rightarrow> payload \<Rightarrow> u32 \<Rightarrow> iris_sys \<Rightarrow> int \<times> iris_sys"
  session_open :: "nat \<Rightarrow> iris_sys \<Rightarrow> int \<times> iris_sys"
  session_start :: "nat \<Rightarrow> u32 \<Rightarrow> iris_sys \<Rightarrow> int \<times> iris_sys"
  session_queue_buf :: "nat \<Rightarrow> iris_buffer \<Rightarrow> iris_sys \<Rightarrow> int \<times> iris_sys"
  session_release_buf :: "nat \<Rightarrow> iris_buffer \<Rightarrow> iris_sys \<Rightarrow> int \<times> iris_sys"
  session_pause :: "(nat \<Rightarrow> u32 \<Rightarrow> iris_sys \<Rightarrow> int \<times> iris_sys) option"
  session_resume_drc :: "nat \<Rightarrow> u32 \<Rightarrow> iris_sys \<Rightarrow> int \<times> iris_sys"
  session_stop :: "nat \<Rightarrow> u32 \<Rightarrow> iris_sys \<Rightarrow> int \<times> iris_sys"
  session_drain :: "nat \<Rightarrow> u32 \<Rightarrow> iris_sys \<Rightarrow> int \<times> iris_sys"
  session_resume_drain :: "(nat \<Rightarrow> u32 \<Rightarrow> iris_sys \<Rightarrow> int \<times> iris_sys) option"
  session_close :: "nat \<Rightarrow> iris_sys \<Rightarrow> int \<times> iris_sys"

section \<open>The contract\<close>

text \<open>
  What a session owns and the firmware does not change, its fences and internal DMA buffers among it,
  what an operation on a session keeps of the system, and the two together: \<open>touches i s t\<close>.
  The firmware side keeps what the session owns if the response handler does. A call is
  quiet if it neither allocates nor frees DMA memory.
\<close>

definition int_mem :: "iris_inst \<Rightarrow> iris_buffer_type \<Rightarrow> (u64 \<times> u64) list" where
  "int_mem x ty = List.map (\<lambda>b. (kvaddr b, buffer_size b)) (buf_list (buffers x ty))"

definition owned ::
    "iris_inst \<Rightarrow> u32 \<times> domain_type \<times> u32 \<times> bool \<times> bool \<times> bool \<times> iris_surface_fence list \<times>
     (iris_buffer_type \<Rightarrow> (u64 \<times> u64) list)" where
  "owned x = (session_id x, domain x, codec x, hfi_session_opened x, core_load_reserved x,
              core_load_rejected x, surface_fences x, int_mem x)"

lemmas owned_simps = owned_def int_mem_def fun_eq_iff

definition quiet :: "kcall \<Rightarrow> bool" where
  "quiet k \<longleftrightarrow> (\<forall>a. dma_weight a k = 0)"

definition firmware_keeps_owned :: "iris_sys \<Rightarrow> bool" where
  "firmware_keeps_owned s \<longleftrightarrow> (\<forall>n x. owned (fw_effect s n x) = owned x)"

definition session_frame :: "iris_sys \<Rightarrow> iris_sys" where
  "session_frame s = s\<lparr>klog := [], command_queue := zero_iface_q_info, core_state := IRIS_CORE_DEINIT,
     recovery_pending := False, llcc_active := False, syscache_set := False,
     inst_heap := (\<lambda>_. zero_inst), header_id := 0, packet_id := 0\<rparr>"

definition touches :: "nat \<Rightarrow> iris_sys \<Rightarrow> iris_sys \<Rightarrow> bool" where
  "touches i s t \<longleftrightarrow>
     (\<forall>j. j \<noteq> i \<longrightarrow> inst_heap t j = inst_heap s j) \<and>
     (firmware_keeps_owned s \<longrightarrow> owned (inst_heap t i) = owned (inst_heap s i)) \<and>
     session_frame t = session_frame s \<and>
     (\<exists>l. klog t = klog s @ l \<and> list_all quiet l) \<and>
     (core_state t = core_state s \<or> core_state t = IRIS_CORE_ERROR) \<and>
     (q_ring (command_queue t) = None \<longleftrightarrow> q_ring (command_queue s) = None)"

definition does :: "nat \<Rightarrow> (iris_sys \<Rightarrow> 'r \<times> iris_sys) \<Rightarrow> bool" where
  "does i f \<longleftrightarrow> (\<forall>s. touches i s (snd (f s)))"

definition acts :: "nat \<Rightarrow> (iris_sys \<Rightarrow> iris_sys) \<Rightarrow> bool" where
  "acts i h \<longleftrightarrow> (\<forall>s. touches i s (h s))"

lemma session_frame_fw: "session_frame t = session_frame s \<Longrightarrow> fw_effect t = fw_effect s"
proof -
  assume "session_frame t = session_frame s"
  then have "fw_effect (session_frame t) = fw_effect (session_frame s)" by simp
  then show ?thesis by (simp add: session_frame_def)
qed

lemma session_frame_sel:
  assumes "session_frame t = session_frame s"
  shows "instances t = instances s" "platform t = platform s" "env t = env s" "power t = power s"
    "icc_avg_bw t = icc_avg_bw s" "vpu_powered t = vpu_powered s" "vpu_suspended t = vpu_suspended s"
proof -
  note e = arg_cong[OF assms]
  show "instances t = instances s" using e[of instances] by (simp add: session_frame_def)
  show "platform t = platform s" using e[of platform] by (simp add: session_frame_def)
  show "env t = env s" using e[of env] by (simp add: session_frame_def)
  show "power t = power s" using e[of power] by (simp add: session_frame_def)
  show "icc_avg_bw t = icc_avg_bw s" using e[of icc_avg_bw] by (simp add: session_frame_def)
  show "vpu_powered t = vpu_powered s" using e[of vpu_powered] by (simp add: session_frame_def)
  show "vpu_suspended t = vpu_suspended s" using e[of vpu_suspended] by (simp add: session_frame_def)
qed

lemma touches_refl [simp]: "touches i s s"
  by (simp add: touches_def)

lemma touches_trans: "touches i s t \<Longrightarrow> touches i t u \<Longrightarrow> touches i s u"
  using session_frame_fw[of t s]
  by (auto simp: touches_def firmware_keeps_owned_def list_all_append)

section \<open>Rules for the contract\<close>

named_theorems does_rules \<open>what an operation on a session touches, by its structure\<close>

lemma does_bind [does_rules]:
  "does i f \<Longrightarrow> (\<And>r. does i (g r)) \<Longrightarrow> does i (\<lambda>s. case f s of (r, s1) \<Rightarrow> g r s1)"
  unfolding does_def by (metis (mono_tags, lifting) case_prod_conv prod.collapse touches_trans)

lemma does_if [does_rules]:
  "does i f \<Longrightarrow> does i g \<Longrightarrow> does i (\<lambda>s. if b s then f s else g s)"
  by (simp add: does_def)

lemma does_option [does_rules]:
  "does i f \<Longrightarrow> (\<And>x. does i (g x)) \<Longrightarrow> does i (\<lambda>s. case b s of None \<Rightarrow> f s | Some x \<Rightarrow> g x s)"
  by (simp add: does_def split: option.splits)

lemma does_sum [does_rules]:
  "(\<And>x. does i (f x)) \<Longrightarrow> (\<And>x. does i (g x)) \<Longrightarrow>
   does i (\<lambda>s. case b s of Inl x \<Rightarrow> f x s | Inr x \<Rightarrow> g x s)"
  by (simp add: does_def split: sum.splits)

lemma does_use: "(\<And>x. does i (f x)) \<Longrightarrow> does i (\<lambda>s. f (e s) s)"
  by (simp add: does_def)

lemma does_return [does_rules]: "does i (\<lambda>s. (r s, s))"
  by (simp add: does_def)

lemma does_pair [does_rules]: "acts i h \<Longrightarrow> does i (\<lambda>s. (r s, h s))"
  by (simp add: does_def acts_def)

lemma does_run [does_rules]: "acts i h \<Longrightarrow> does i (run h)"
  by (simp add: does_def acts_def run_def)

lemma acts_snd [does_rules]: "does i f \<Longrightarrow> acts i (\<lambda>s. snd (f s))"
  by (simp add: does_def acts_def)

lemma acts_comp: "acts i g \<Longrightarrow> acts i h \<Longrightarrow> acts i (\<lambda>s. g (h s))"
  unfolding acts_def by (metis touches_trans)

lemma does_and_then [does_rules]: "does i f \<Longrightarrow> does i g \<Longrightarrow> does i (and_then f g)"
  unfolding and_then_def by (rule does_bind, assumption) (simp add: does_def)

lemma does_run_all [does_rules]: "(\<And>f. f \<in> set fs \<Longrightarrow> does i f) \<Longrightarrow> does i (run_all fs)"
proof (induction fs)
  case Nil
  then show ?case by (simp add: does_def)
next
  case (Cons f fs)
  then have "does i (and_then f (run_all fs))" by (auto intro: does_and_then)
  then show ?case by (simp add: does_def)
qed

lemma quiet_calls [does_rules, simp]:
  "quiet Oops" "quiet (Kzalloc r)" "quiet (Llcc_getd a r)" "quiet (Llcc_activate a r)"
  "quiet (Llcc_deactivate a)" "quiet (Llcc_putd a)" "quiet (Llcc_read a r)"
  "quiet (Reinit_completion b)" "quiet (Wait_session b r)" "quiet (Complete b)"
  "quiet (Buf_done a c r)" "quiet (V4l2_event a)" "quiet (Vb2_num_buffers a r)"
  "quiet (Response_thread r)" "quiet (Pm_resume_and_get d r)" "quiet (Pm_put_sync d)"
  "quiet (Pm_put_autosuspend d)" "quiet (Writel a c)" "quiet (Mark_last_busy)"
  "quiet (Vb2_payload a c n)" "quiet (Vb2_timestamp a c n)" "quiet (Vb2_flags a c e)"
  "quiet (Vb2_sequence a c e)" "quiet (Vb2_queue_error a)" "quiet (M2m_has_stopped r)"
  "quiet M2m_mark_stopped" "quiet (Ktime r)" "quiet Queue_error_work" "quiet Cancel_error_work"
  "quiet (Vb2_field a c e)" "quiet (Vb2_timecode a c n)" "quiet Vb2_clear_last"
  "quiet (Vb2_min_reqbufs a)" "quiet Vb2_non_coherent" "quiet (Ctrl_min_buffers a)"
  "quiet (Pm_suspended r)" "quiet (Opp_set_rate n r)" "quiet (Opp_find_freq_ceil r)"
  "quiet (Icc_bulk_set_bw bs r)" "quiet Complete_core_init" "quiet (File fc)"
  by (simp_all add: quiet_def)

lemma acts_tell [does_rules]: "quiet k \<Longrightarrow> acts i (tell k)"
  by (simp add: acts_def touches_def tell_def session_frame_def)

lemma does_ask [does_rules]: "(\<And>r. quiet (k r)) \<Longrightarrow> does i (ask k)"
  by (simp add: does_def touches_def ask_def session_frame_def Let_def)

lemma acts_modify [does_rules]:
  "(\<And>s x. owned (h s x) = owned x) \<Longrightarrow> acts i (\<lambda>s. modify_inst i (h s) s)"
  by (simp add: acts_def touches_def modify_inst_def session_frame_def)

lemma acts_response_thread [does_rules]: "acts i response_thread"
  by (auto simp: acts_def touches_def response_thread_def ask_def session_frame_def Let_def)

lemma acts_raise [does_rules]: "acts i iris_vpu_raise_interrupt"
  unfolding iris_vpu_raise_interrupt_def writel_def
  by (simp add: acts_def touches_def tell_def session_frame_def)

lemma cmd_write_locked_touches:
  "iris_hfi_queue_cmd_write_locked s p n = Some (r, t) \<Longrightarrow> touches i s t"
proof -
  assume h: "iris_hfi_queue_cmd_write_locked s p n = Some (r, t)"
  have ring: "touches i s (s\<lparr>command_queue := (command_queue s)\<lparr>q_ring := Some q'\<rparr>\<rparr>)"
    if "q_ring (command_queue s) = Some q" for q q'
    using that by (simp add: touches_def session_frame_def)
  have raise: "touches i s u \<Longrightarrow> touches i s (iris_vpu_raise_interrupt u)" for u
    using acts_raise[of i] touches_trans by (auto simp: acts_def)
  show ?thesis using h
    by (auto simp: iris_hfi_queue_cmd_write_locked_def Let_def ring raise
        split: if_splits option.splits prod.splits)
qed

lemma does_send_locked [does_rules]: "does i (\<lambda>s. send_locked (ws s) s)"
  using acts_tell[of Oops i, OF quiet_calls(1)]
  by (auto simp: does_def acts_def send_locked_def or_oops_def cmd_write_locked_touches split: option.splits)

lemma does_put_sync: "does i (pm_runtime_resume_and_get d)"
  unfolding pm_runtime_resume_and_get_def by (intro does_rules)

lemma cmd_write_touches: "iris_hfi_queue_cmd_write s p n = Some (r, t) \<Longrightarrow> touches i s t"
proof -
  assume h: "iris_hfi_queue_cmd_write s p n = Some (r, t)"
  obtain ret s1 where g: "pm_runtime_resume_and_get Core_dev s = (ret, s1)" by fastforce
  then have "touches i s s1" using does_put_sync[of i Core_dev] by (metis does_def snd_conv)
  moreover have "quiet k \<Longrightarrow> touches i u (tell k u)" for k u
    using acts_tell[of k i] by (simp add: acts_def)
  ultimately show ?thesis using h g
    by (auto simp: iris_hfi_queue_cmd_write_def dest!: cmd_write_locked_touches[where i = i]
        split: if_splits option.splits prod.splits intro: touches_trans)
qed

lemma does_send [does_rules]: "does i (\<lambda>s. send (ws s) s)"
  using acts_tell[of Oops i, OF quiet_calls(1)]
  by (auto simp: does_def acts_def send_def or_oops_def cmd_write_touches split: option.splits)

lemma does_change_state [does_rules]: "does i (iris_inst_change_state i st)"
  by (auto simp: does_def touches_def iris_inst_change_state_def Let_def session_frame_def owned_simps
      modify_inst_def iris_request_core_recovery_def)

lemma acts_firmware_runs [does_rules]: "acts i (firmware_runs i)"
proof -
  have "touches i s (response_thread s)" for s
    using acts_response_thread[of i] by (simp add: acts_def)
  moreover have "touches i s t \<Longrightarrow> touches i s (modify_inst i (fw_effect s n) t)" for s t n
    by (auto simp: touches_def modify_inst_def session_frame_def firmware_keeps_owned_def)
  ultimately show ?thesis by (simp add: acts_def firmware_runs_def)
qed

lemma does_wait [does_rules]: "does i (iris_wait_for_session_response i is_flush)"
proof -
  note error = acts_comp[OF acts_snd[OF does_change_state[of i IRIS_INST_ERROR]]
      acts_firmware_runs[of i]]
  show ?thesis
    unfolding iris_wait_for_session_response_def Let_def
    by (intro does_rules does_if[where b = "\<lambda>_. b" for b] does_pair[OF error])
qed

lemma does_reinit [does_rules]: "does i (reinit_completion is_flush)"
  unfolding reinit_completion_def by (intro does_rules)

lemma acts_fold [does_rules]: "(\<And>x. acts i (f x)) \<Longrightarrow> acts i (\<lambda>s. fold f (xs s) s)"
proof -
  assume f: "\<And>x. acts i (f x)"
  have "touches i s (fold f ys s)" for s ys
    using f by (induction ys arbitrary: s) (auto simp: acts_def intro: touches_trans)
  then show ?thesis by (simp add: acts_def)
qed

lemma acts_buffers_done [does_rules]: "acts i (iris_helper_buffers_done i plane st)"
proof -
  have src: "acts i (modify_inst i (m2m_src_update (\<lambda>_. [])))"
    "acts i (modify_inst i (m2m_dst_update (\<lambda>_. [])))"
    by (rule acts_modify; simp add: owned_simps)+
  have "acts i (\<lambda>s. fold (\<lambda>b. tell (Buf_done plane (buf_index b) st)) (m2m_src (inst_heap s i)) s)"
    "acts i (\<lambda>s. fold (\<lambda>b. tell (Buf_done plane (buf_index b) st)) (m2m_dst (inst_heap s i)) s)"
    by (intro does_rules)+
  from acts_comp[OF src(1) this(1)] acts_comp[OF src(2) this(2)] show ?thesis
    by (simp add: acts_def iris_helper_buffers_done_def)
qed

lemma does_on_inst [does_rules]:
  assumes "\<And>x. owned (snd (f x)) = owned x"
  shows "does i (on_inst i f)"
proof -
  have "modify_inst i (\<lambda>_. snd (f (inst_heap s i))) s = modify_inst i (\<lambda>x. snd (f x)) s" for s
    by (simp add: modify_inst_def)
  then show ?thesis
    using acts_modify[of "\<lambda>_ x. snd (f x)" i] assms
    by (simp add: does_def acts_def on_inst_def split: prod.splits) (metis snd_conv)
qed

section \<open>The interface\<close>

text \<open>
  The contract of a generation: every operation on a session is confined to the session, the
  command queue and the log. The client's lemmas are proved from it once.
\<close>

text \<open>The commands the driver can send for a session, and sequences of them.\<close>

inductive session_command :: "iris_hfi_command_ops \<Rightarrow> nat \<Rightarrow> (iris_sys \<Rightarrow> int \<times> iris_sys) \<Rightarrow> bool"
  for ops :: iris_hfi_command_ops where
  "session_command ops i (session_open ops i)"
| "session_command ops i (session_set_config_params ops i plane)"
| "session_command ops i (session_set_property ops i ptype flag port ty p n)"
| "session_command ops i (session_start ops i plane)"
| "session_command ops i (session_queue_buf ops i b)"
| "session_command ops i (session_release_buf ops i b)"
| "session_command ops i (session_resume_drc ops i plane)"
| "session_command ops i (session_stop ops i plane)"
| "session_command ops i (session_drain ops i plane)"
| "session_command ops i (session_close ops i)"
| "session_pause ops = Some f \<Longrightarrow> session_command ops i (f i plane)"
| "session_resume_drain ops = Some f \<Longrightarrow> session_command ops i (f i plane)"

inductive command_run :: "iris_hfi_command_ops \<Rightarrow> nat set \<Rightarrow> iris_sys \<Rightarrow> iris_sys \<Rightarrow> bool"
  for ops :: iris_hfi_command_ops where
  nothing: "command_run ops S s s"
| command: "i \<in> S \<Longrightarrow> session_command ops i f \<Longrightarrow> f s = (r, t) \<Longrightarrow> command_run ops S t u \<Longrightarrow>
    command_run ops S s u"

locale firmware_ops =
  fixes ops :: iris_hfi_command_ops
  assumes open_does: "does i (session_open ops i)"
    and config_does: "does i (session_set_config_params ops i plane)"
    and property_does: "does i (session_set_property ops i ptype flag port ty p n)"
    and start_does: "does i (session_start ops i plane)"
    and queue_buf_does: "does i (session_queue_buf ops i b)"
    and release_buf_does: "does i (session_release_buf ops i b)"
    and resume_drc_does: "does i (session_resume_drc ops i plane)"
    and stop_does: "does i (session_stop ops i plane)"
    and drain_does: "does i (session_drain ops i plane)"
    and close_does: "does i (session_close ops i)"
    and pause_does: "session_pause ops = Some f \<Longrightarrow> does i (f i plane)"
    and resume_drain_does: "session_resume_drain ops = Some f \<Longrightarrow> does i (f i plane)"
begin

text \<open>Any sequence of commands to the sessions of a set leaves the others alone.\<close>

lemma command_does: "session_command ops i f \<Longrightarrow> does i f"
  by (induction rule: session_command.induct)
    (simp_all add: open_does config_does property_does start_does queue_buf_does release_buf_does
      resume_drc_does stop_does drain_does close_does pause_does resume_drain_does)

lemma run_confined:
  assumes "command_run ops S s t"
  shows "(\<forall>j. j \<notin> S \<longrightarrow> inst_heap t j = inst_heap s j) \<and> session_frame t = session_frame s \<and>
    (firmware_keeps_owned s \<longrightarrow> (\<forall>j. owned (inst_heap t j) = owned (inst_heap s j))) \<and>
    (core_state t = core_state s \<or> core_state t = IRIS_CORE_ERROR) \<and> (\<exists>l. klog t = klog s @ l)"
  using assms
proof (induction rule: command_run.induct)
  case (nothing S s)
  then show ?case by simp
next
  case (command i S f s r t u)
  have "touches i s t" using command_does[OF command(2)] command(3) by (metis does_def snd_conv)
  then have "\<forall>j. j \<noteq> i \<longrightarrow> inst_heap t j = inst_heap s j" "session_frame t = session_frame s"
    "firmware_keeps_owned s \<longrightarrow> owned (inst_heap t i) = owned (inst_heap s i)"
    "core_state t = core_state s \<or> core_state t = IRIS_CORE_ERROR" "\<exists>l. klog t = klog s @ l"
    by (auto simp: touches_def)
  with command(1,5) session_frame_fw[of t s] show ?case
    by (auto simp: firmware_keeps_owned_def)
qed

lemmas ops_does = open_does config_does property_does start_does queue_buf_does release_buf_does
  resume_drc_does stop_does drain_does close_does pause_does resume_drain_does

end

end
