(* ===== verification/IrisCtrls.thy ===== *)
theory IrisCtrls
  imports IrisHfiOps
begin

text \<open>
  The controls of a session (\<open>iris_ctrls.c\<close>): the map between the control numbers of V4L2 and
  the capabilities, the change of a control, and the routines that turn the value of a
  capability into a property of the firmware. They are written against the table of
  operations. The V4L2 control numbers are names; registering them with the control framework
  is left out, and what the framework then guarantees of a value is \<open>admits\<close>.
\<close>

section \<open>Control numbers\<close>

text \<open>\<open>V4L2_CID_MPEG_VIDEO_H264_PROFILE\<close> is \<open>CID_H264_PROFILE\<close>, and so on.\<close>

datatype v4l2_cid =
    CID_H264_PROFILE | CID_HEVC_PROFILE | CID_VP9_PROFILE | CID_H264_LEVEL | CID_HEVC_LEVEL |
  CID_VP9_LEVEL | CID_HEVC_TIER | CID_HEADER_MODE | CID_PREPEND_SPSPPS_TO_IDR | CID_BITRATE |
  CID_BITRATE_PEAK | CID_BITRATE_MODE | CID_FRAME_SKIP_MODE | CID_FRAME_RC_ENABLE |
  CID_GOP_SIZE | CID_H264_ENTROPY_MODE | CID_H264_MIN_QP | CID_HEVC_MIN_QP | CID_H264_MAX_QP |
  CID_HEVC_MAX_QP | CID_H264_I_FRAME_MIN_QP | CID_HEVC_I_FRAME_MIN_QP | CID_H264_P_FRAME_MIN_QP
  | CID_HEVC_P_FRAME_MIN_QP | CID_H264_B_FRAME_MIN_QP | CID_HEVC_B_FRAME_MIN_QP |
  CID_H264_I_FRAME_MAX_QP | CID_HEVC_I_FRAME_MAX_QP | CID_H264_P_FRAME_MAX_QP |
  CID_HEVC_P_FRAME_MAX_QP | CID_H264_B_FRAME_MAX_QP | CID_HEVC_B_FRAME_MAX_QP |
  CID_H264_I_FRAME_QP | CID_HEVC_I_FRAME_QP | CID_H264_P_FRAME_QP | CID_HEVC_P_FRAME_QP |
  CID_H264_B_FRAME_QP | CID_HEVC_B_FRAME_QP | CID_DEC_DISPLAY_DELAY |
  CID_DEC_DISPLAY_DELAY_ENABLE

fun iris_get_cap_id :: "v4l2_cid \<Rightarrow> nat" where
  "iris_get_cap_id CID_H264_PROFILE = PROFILE_H264"
| "iris_get_cap_id CID_HEVC_PROFILE = PROFILE_HEVC"
| "iris_get_cap_id CID_VP9_PROFILE = PROFILE_VP9"
| "iris_get_cap_id CID_H264_LEVEL = LEVEL_H264"
| "iris_get_cap_id CID_HEVC_LEVEL = LEVEL_HEVC"
| "iris_get_cap_id CID_VP9_LEVEL = LEVEL_VP9"
| "iris_get_cap_id CID_HEVC_TIER = TIER"
| "iris_get_cap_id CID_HEADER_MODE = HEADER_MODE"
| "iris_get_cap_id CID_PREPEND_SPSPPS_TO_IDR = PREPEND_SPSPPS_TO_IDR"
| "iris_get_cap_id CID_BITRATE = BITRATE"
| "iris_get_cap_id CID_BITRATE_PEAK = BITRATE_PEAK"
| "iris_get_cap_id CID_BITRATE_MODE = BITRATE_MODE"
| "iris_get_cap_id CID_FRAME_SKIP_MODE = FRAME_SKIP_MODE"
| "iris_get_cap_id CID_FRAME_RC_ENABLE = FRAME_RC_ENABLE"
| "iris_get_cap_id CID_GOP_SIZE = GOP_SIZE"
| "iris_get_cap_id CID_H264_ENTROPY_MODE = ENTROPY_MODE"
| "iris_get_cap_id CID_H264_MIN_QP = MIN_FRAME_QP_H264"
| "iris_get_cap_id CID_HEVC_MIN_QP = MIN_FRAME_QP_HEVC"
| "iris_get_cap_id CID_H264_MAX_QP = MAX_FRAME_QP_H264"
| "iris_get_cap_id CID_HEVC_MAX_QP = MAX_FRAME_QP_HEVC"
| "iris_get_cap_id CID_H264_I_FRAME_MIN_QP = I_FRAME_MIN_QP_H264"
| "iris_get_cap_id CID_HEVC_I_FRAME_MIN_QP = I_FRAME_MIN_QP_HEVC"
| "iris_get_cap_id CID_H264_P_FRAME_MIN_QP = P_FRAME_MIN_QP_H264"
| "iris_get_cap_id CID_HEVC_P_FRAME_MIN_QP = P_FRAME_MIN_QP_HEVC"
| "iris_get_cap_id CID_H264_B_FRAME_MIN_QP = B_FRAME_MIN_QP_H264"
| "iris_get_cap_id CID_HEVC_B_FRAME_MIN_QP = B_FRAME_MIN_QP_HEVC"
| "iris_get_cap_id CID_H264_I_FRAME_MAX_QP = I_FRAME_MAX_QP_H264"
| "iris_get_cap_id CID_HEVC_I_FRAME_MAX_QP = I_FRAME_MAX_QP_HEVC"
| "iris_get_cap_id CID_H264_P_FRAME_MAX_QP = P_FRAME_MAX_QP_H264"
| "iris_get_cap_id CID_HEVC_P_FRAME_MAX_QP = P_FRAME_MAX_QP_HEVC"
| "iris_get_cap_id CID_H264_B_FRAME_MAX_QP = B_FRAME_MAX_QP_H264"
| "iris_get_cap_id CID_HEVC_B_FRAME_MAX_QP = B_FRAME_MAX_QP_HEVC"
| "iris_get_cap_id CID_H264_I_FRAME_QP = I_FRAME_QP_H264"
| "iris_get_cap_id CID_HEVC_I_FRAME_QP = I_FRAME_QP_HEVC"
| "iris_get_cap_id CID_H264_P_FRAME_QP = P_FRAME_QP_H264"
| "iris_get_cap_id CID_HEVC_P_FRAME_QP = P_FRAME_QP_HEVC"
| "iris_get_cap_id CID_H264_B_FRAME_QP = B_FRAME_QP_H264"
| "iris_get_cap_id CID_HEVC_B_FRAME_QP = B_FRAME_QP_HEVC"
| "iris_get_cap_id _ = INST_FW_CAP_MAX"

definition iris_get_v4l2_id :: "nat \<Rightarrow> v4l2_cid option" where
  "iris_get_v4l2_id c =
     (if \<not> iris_valid_cap_id c then None
      else if c = PROFILE_H264 then Some CID_H264_PROFILE
      else if c = PROFILE_HEVC then Some CID_HEVC_PROFILE
      else if c = PROFILE_VP9 then Some CID_VP9_PROFILE
      else if c = LEVEL_H264 then Some CID_H264_LEVEL
      else if c = LEVEL_HEVC then Some CID_HEVC_LEVEL
      else if c = LEVEL_VP9 then Some CID_VP9_LEVEL
      else if c = TIER then Some CID_HEVC_TIER
      else if c = HEADER_MODE then Some CID_HEADER_MODE
      else if c = PREPEND_SPSPPS_TO_IDR then Some CID_PREPEND_SPSPPS_TO_IDR
      else if c = BITRATE then Some CID_BITRATE
      else if c = BITRATE_PEAK then Some CID_BITRATE_PEAK
      else if c = BITRATE_MODE then Some CID_BITRATE_MODE
      else if c = FRAME_SKIP_MODE then Some CID_FRAME_SKIP_MODE
      else if c = FRAME_RC_ENABLE then Some CID_FRAME_RC_ENABLE
      else if c = GOP_SIZE then Some CID_GOP_SIZE
      else if c = ENTROPY_MODE then Some CID_H264_ENTROPY_MODE
      else if c = MIN_FRAME_QP_H264 then Some CID_H264_MIN_QP
      else if c = MIN_FRAME_QP_HEVC then Some CID_HEVC_MIN_QP
      else if c = MAX_FRAME_QP_H264 then Some CID_H264_MAX_QP
      else if c = MAX_FRAME_QP_HEVC then Some CID_HEVC_MAX_QP
      else if c = I_FRAME_MIN_QP_H264 then Some CID_H264_I_FRAME_MIN_QP
      else if c = I_FRAME_MIN_QP_HEVC then Some CID_HEVC_I_FRAME_MIN_QP
      else if c = P_FRAME_MIN_QP_H264 then Some CID_H264_P_FRAME_MIN_QP
      else if c = P_FRAME_MIN_QP_HEVC then Some CID_HEVC_P_FRAME_MIN_QP
      else if c = B_FRAME_MIN_QP_H264 then Some CID_H264_B_FRAME_MIN_QP
      else if c = B_FRAME_MIN_QP_HEVC then Some CID_HEVC_B_FRAME_MIN_QP
      else if c = I_FRAME_MAX_QP_H264 then Some CID_H264_I_FRAME_MAX_QP
      else if c = I_FRAME_MAX_QP_HEVC then Some CID_HEVC_I_FRAME_MAX_QP
      else if c = P_FRAME_MAX_QP_H264 then Some CID_H264_P_FRAME_MAX_QP
      else if c = P_FRAME_MAX_QP_HEVC then Some CID_HEVC_P_FRAME_MAX_QP
      else if c = B_FRAME_MAX_QP_H264 then Some CID_H264_B_FRAME_MAX_QP
      else if c = B_FRAME_MAX_QP_HEVC then Some CID_HEVC_B_FRAME_MAX_QP
      else if c = I_FRAME_QP_H264 then Some CID_H264_I_FRAME_QP
      else if c = I_FRAME_QP_HEVC then Some CID_HEVC_I_FRAME_QP
      else if c = P_FRAME_QP_H264 then Some CID_H264_P_FRAME_QP
      else if c = P_FRAME_QP_HEVC then Some CID_HEVC_P_FRAME_QP
      else if c = B_FRAME_QP_H264 then Some CID_H264_B_FRAME_QP
      else if c = B_FRAME_QP_HEVC then Some CID_HEVC_B_FRAME_QP
      else None)"

section \<open>Values of capabilities as properties\<close>

abbreviation (input) HFI_HOST_FLAGS_NONE :: u32 where "HFI_HOST_FLAGS_NONE \<equiv> 0"
abbreviation (input) HFI_PORT_NONE :: u32 where "HFI_PORT_NONE \<equiv> 0"
abbreviation (input) HFI_PORT_BITSTREAM :: u32 where "HFI_PORT_BITSTREAM \<equiv> 1"
abbreviation (input) HFI_PORT_RAW :: u32 where "HFI_PORT_RAW \<equiv> 2"
abbreviation (input) HFI_PAYLOAD_U32 :: u32 where "HFI_PAYLOAD_U32 \<equiv> 1"
abbreviation (input) HFI_PAYLOAD_U32_ENUM :: u32 where "HFI_PAYLOAD_U32_ENUM \<equiv> 9"
abbreviation (input) HFI_PAYLOAD_32_PACKED :: u32 where "HFI_PAYLOAD_32_PACKED \<equiv> 10"
abbreviation (input) HFI_SEQ_HEADER_SEPERATE_FRAME :: u32 where "HFI_SEQ_HEADER_SEPERATE_FRAME \<equiv> 1"
abbreviation (input) HFI_SEQ_HEADER_JOINED_WITH_1ST_FRAME :: u32 where
  "HFI_SEQ_HEADER_JOINED_WITH_1ST_FRAME \<equiv> 2"
abbreviation (input) HFI_SEQ_HEADER_PREFIX_WITH_SYNC_FRAME :: u32 where
  "HFI_SEQ_HEADER_PREFIX_WITH_SYNC_FRAME \<equiv> 4"
abbreviation (input) HFI_RC_VBR_CFR :: u32 where "HFI_RC_VBR_CFR \<equiv> 0"
abbreviation (input) HFI_RC_CBR_CFR :: u32 where "HFI_RC_CBR_CFR \<equiv> 1"
abbreviation (input) HFI_RC_CBR_VFR :: u32 where "HFI_RC_CBR_VFR \<equiv> 4"

definition CABAC_MAX_BITRATE :: u32 where "CABAC_MAX_BITRATE = 160000000"
definition CAVLC_MAX_BITRATE :: u32 where "CAVLC_MAX_BITRATE = 220000000"

definition iris_get_port_info :: "iris_inst \<Rightarrow> nat \<Rightarrow> u32" where
  "iris_get_port_info inst c =
     (let flags = cap_flags (fw_caps inst c) in
      if domain inst = DECODER then
        (if has flags CAP_FLAG_INPUT_PORT then HFI_PORT_BITSTREAM
         else if has flags CAP_FLAG_OUTPUT_PORT then HFI_PORT_RAW else HFI_PORT_NONE)
      else
        (if has flags CAP_FLAG_INPUT_PORT then HFI_PORT_RAW
         else if has flags CAP_FLAG_OUTPUT_PORT then HFI_PORT_BITSTREAM else HFI_PORT_NONE))"

text \<open>
  The call all routines end in: the property \<open>hid\<close> with the port of capability \<open>c\<close> and a
  payload of \<open>n\<close> bytes that starts with the words \<open>ws\<close>. The value of a capability is read
  as an unsigned 32-bit number.
\<close>

definition put_property :: "iris_hfi_command_ops \<Rightarrow> nat \<Rightarrow> nat \<Rightarrow> u32 \<Rightarrow> u32 \<Rightarrow> u32 list \<Rightarrow> u32 \<Rightarrow> iris_sys \<Rightarrow> int \<times> iris_sys" where
  "put_property ops i c hid ty ws n s =
     session_set_property ops i hid HFI_HOST_FLAGS_NONE (iris_get_port_info (inst_heap s i) c) ty
       (words ws) n s"

definition cap_u32 :: "iris_inst \<Rightarrow> nat \<Rightarrow> u32" where
  "cap_u32 inst c = word_of_int (cap_value (fw_caps inst c))"

definition iris_set_u32_enum :: "iris_hfi_command_ops \<Rightarrow> nat \<Rightarrow> nat \<Rightarrow> iris_sys \<Rightarrow> int \<times> iris_sys" where
  "iris_set_u32_enum ops i c s =
     (let inst = inst_heap s i
      in put_property ops i c (hfi_id (fw_caps inst c)) HFI_PAYLOAD_U32_ENUM [cap_u32 inst c] 4 s)"

definition iris_set_u32 :: "iris_hfi_command_ops \<Rightarrow> nat \<Rightarrow> nat \<Rightarrow> iris_sys \<Rightarrow> int \<times> iris_sys" where
  "iris_set_u32 ops i c s =
     (let inst = inst_heap s i
      in put_property ops i c (hfi_id (fw_caps inst c)) HFI_PAYLOAD_U32 [cap_u32 inst c] 4 s)"

definition iris_set_stage :: "iris_hfi_command_ops \<Rightarrow> nat \<Rightarrow> nat \<Rightarrow> iris_sys \<Rightarrow> int \<times> iris_sys" where
  "iris_set_stage ops i c s =
     (let inst = inst_heap s i;
          work_mode = (if domain inst = DECODER \<and>
              iris_res_is_less_than (pix_width (fmt_src inst)) (pix_height (fmt_src inst)) 1280 720
            then 1 else 2)
      in put_property ops i c (hfi_id (fw_caps inst c)) HFI_PAYLOAD_U32 [work_mode] 4 s)"

definition iris_set_pipe :: "iris_hfi_command_ops \<Rightarrow> nat \<Rightarrow> nat \<Rightarrow> iris_sys \<Rightarrow> int \<times> iris_sys" where
  "iris_set_pipe ops i c s =
     (let inst = inst_heap s i
      in put_property ops i c (hfi_id (fw_caps inst c)) HFI_PAYLOAD_U32 [cap_u32 inst PIPE] 4 s)"

definition iris_set_profile :: "iris_hfi_command_ops \<Rightarrow> nat \<Rightarrow> nat \<Rightarrow> iris_sys \<Rightarrow> int \<times> iris_sys" where
  "iris_set_profile ops i c s =
     (let inst = inst_heap s i;
          p = (if codec inst = V4L2_PIX_FMT_H264 then PROFILE_H264 else PROFILE_HEVC)
      in put_property ops i c (hfi_id (fw_caps inst p)) HFI_PAYLOAD_U32_ENUM [cap_u32 inst p] 4 s)"

definition iris_set_level :: "iris_hfi_command_ops \<Rightarrow> nat \<Rightarrow> nat \<Rightarrow> iris_sys \<Rightarrow> int \<times> iris_sys" where
  "iris_set_level ops i c s =
     (let inst = inst_heap s i;
          l = (if codec inst = V4L2_PIX_FMT_H264 then LEVEL_H264 else LEVEL_HEVC)
      in put_property ops i c (hfi_id (fw_caps inst l)) HFI_PAYLOAD_U32_ENUM [cap_u32 inst l] 4 s)"

definition h264_profile_bit :: "int \<Rightarrow> u32 option" where
  "h264_profile_bit p =
     (if p = V4L2_MPEG_VIDEO_H264_PROFILE_BASELINE then Some (BIT 0)
      else if p = V4L2_MPEG_VIDEO_H264_PROFILE_MAIN then Some (BIT 1)
      else if p = V4L2_MPEG_VIDEO_H264_PROFILE_HIGH then Some (BIT 2)
      else if p = V4L2_MPEG_VIDEO_H264_PROFILE_STEREO_HIGH then Some (BIT 3)
      else if p = V4L2_MPEG_VIDEO_H264_PROFILE_MULTIVIEW_HIGH then Some (BIT 4)
      else if p = V4L2_MPEG_VIDEO_H264_PROFILE_CONSTRAINED_BASELINE then Some (BIT 5)
      else if p = V4L2_MPEG_VIDEO_H264_PROFILE_CONSTRAINED_HIGH then Some (BIT 6)
      else None)"

definition hevc_profile_bit :: "int \<Rightarrow> u32 option" where
  "hevc_profile_bit p =
     (if p = V4L2_MPEG_VIDEO_HEVC_PROFILE_MAIN then Some (BIT 0)
      else if p = V4L2_MPEG_VIDEO_HEVC_PROFILE_MAIN_10 then Some (BIT 1)
      else if p = V4L2_MPEG_VIDEO_HEVC_PROFILE_MAIN_STILL_PICTURE then Some (BIT 2)
      else None)"

text \<open>A level is the bit of its menu position, which is below 32 in the tables.\<close>

definition iris_set_profile_level_gen1 :: "iris_hfi_command_ops \<Rightarrow> nat \<Rightarrow> nat \<Rightarrow> iris_sys \<Rightarrow> int \<times> iris_sys" where
  "iris_set_profile_level_gen1 ops i c s =
     (let inst = inst_heap s i;
          (profile, level) =
            (if codec inst = V4L2_PIX_FMT_H264
             then (h264_profile_bit (cap_value (fw_caps inst PROFILE_H264)),
                   BIT (nat (cap_value (fw_caps inst LEVEL_H264))))
             else (hevc_profile_bit (cap_value (fw_caps inst PROFILE_HEVC)),
                   BIT (nat (cap_value (fw_caps inst LEVEL_HEVC)))))
      in case profile of
           None \<Rightarrow> (- EINVAL, s)
         | Some p \<Rightarrow>
             put_property ops i c (hfi_id (fw_caps inst c)) HFI_PAYLOAD_U32_ENUM [p, level] 8 s)"

definition iris_set_header_mode_gen1 :: "iris_hfi_command_ops \<Rightarrow> nat \<Rightarrow> nat \<Rightarrow> iris_sys \<Rightarrow> int \<times> iris_sys" where
  "iris_set_header_mode_gen1 ops i c s =
     (let inst = inst_heap s i;
          hfi_val = (if cap_value (fw_caps inst c) = V4L2_MPEG_VIDEO_HEADER_MODE_SEPARATE then 0 else 1)
      in put_property ops i c (hfi_id (fw_caps inst c)) HFI_PAYLOAD_U32 [hfi_val] 4 s)"

definition iris_set_header_mode_gen2 :: "iris_hfi_command_ops \<Rightarrow> nat \<Rightarrow> nat \<Rightarrow> iris_sys \<Rightarrow> int \<times> iris_sys" where
  "iris_set_header_mode_gen2 ops i c s =
     (let inst = inst_heap s i;
          hfi_val =
            (if cap_value (fw_caps inst PREPEND_SPSPPS_TO_IDR) \<noteq> 0
             then HFI_SEQ_HEADER_PREFIX_WITH_SYNC_FRAME
             else if cap_value (fw_caps inst c) = V4L2_MPEG_VIDEO_HEADER_MODE_JOINED_WITH_1ST_FRAME
             then HFI_SEQ_HEADER_JOINED_WITH_1ST_FRAME else HFI_SEQ_HEADER_SEPERATE_FRAME)
      in put_property ops i c (hfi_id (fw_caps inst c)) HFI_PAYLOAD_U32_ENUM [hfi_val] 4 s)"

text \<open>The first assignment of \<open>max_bitrate\<close>, for HEVC, is overwritten by the second.\<close>

definition iris_set_bitrate :: "iris_hfi_command_ops \<Rightarrow> nat \<Rightarrow> nat \<Rightarrow> iris_sys \<Rightarrow> int \<times> iris_sys" where
  "iris_set_bitrate ops i c s =
     (let inst = inst_heap s i;
          max_bitrate =
            (if cap_value (fw_caps inst ENTROPY_MODE) = V4L2_MPEG_VIDEO_H264_ENTROPY_MODE_CABAC
             then CABAC_MAX_BITRATE else CAVLC_MAX_BITRATE)
      in put_property ops i c (hfi_id (fw_caps inst c)) HFI_PAYLOAD_U32
           [min (cap_u32 inst c) max_bitrate] 4 s)"

definition iris_set_gop_size_gen1 :: "iris_hfi_command_ops \<Rightarrow> nat \<Rightarrow> nat \<Rightarrow> iris_sys \<Rightarrow> int \<times> iris_sys" where
  "iris_set_gop_size_gen1 ops i c s =
     (let inst = inst_heap s i; gop_size = cap_u32 inst c
      in put_property ops i c (hfi_id (fw_caps inst c)) HFI_PAYLOAD_U32
           [if gop_size \<noteq> 0 then gop_size - 1 else 0, 0] 8 s)"

definition set_cap_value :: "nat \<Rightarrow> int \<Rightarrow> iris_inst \<Rightarrow> iris_inst" where
  "set_cap_value c v inst = inst\<lparr>fw_caps := (fw_caps inst)(c := (fw_caps inst c)\<lparr>cap_value := v\<rparr>)\<rparr>"

definition iris_set_peak_bitrate :: "iris_hfi_command_ops \<Rightarrow> nat \<Rightarrow> nat \<Rightarrow> iris_sys \<Rightarrow> int \<times> iris_sys" where
  "iris_set_peak_bitrate ops i c s =
     (let inst = inst_heap s i; bitrate = cap_u32 inst BITRATE;
          peak = (if has (cap_flags (fw_caps inst c)) CAP_FLAG_CLIENT_SET
                  then max (cap_u32 inst c) bitrate else bitrate)
      in if cap_value (fw_caps inst BITRATE_MODE) \<noteq> V4L2_MPEG_VIDEO_BITRATE_MODE_CBR then (0, s)
         else put_property ops i c (hfi_id (fw_caps inst c)) HFI_PAYLOAD_U32 [peak] 4
                (modify_inst i (set_cap_value c (uint peak)) s))"

definition iris_set_bitrate_mode_gen1 :: "iris_hfi_command_ops \<Rightarrow> nat \<Rightarrow> nat \<Rightarrow> iris_sys \<Rightarrow> int \<times> iris_sys" where
  "iris_set_bitrate_mode_gen1 ops i c s =
     (let inst = inst_heap s i;
          bitrate_mode = cap_value (fw_caps inst BITRATE_MODE);
          frame_skip = cap_value (fw_caps inst FRAME_SKIP_MODE) \<noteq> 0;
          rc_mode =
            (if cap_value (fw_caps inst FRAME_RC_ENABLE) = 0 then HFI_RATE_CONTROL_OFF
             else if bitrate_mode = V4L2_MPEG_VIDEO_BITRATE_MODE_VBR
             then (if frame_skip then HFI_RATE_CONTROL_VBR_VFR else HFI_RATE_CONTROL_VBR_CFR)
             else if bitrate_mode = V4L2_MPEG_VIDEO_BITRATE_MODE_CBR
             then (if frame_skip then HFI_RATE_CONTROL_CBR_VFR else HFI_RATE_CONTROL_CBR_CFR)
             else if bitrate_mode = V4L2_MPEG_VIDEO_BITRATE_MODE_CQ then HFI_RATE_CONTROL_CQ
             else 0)
      in put_property ops i c (hfi_id (fw_caps inst c)) HFI_PAYLOAD_U32_ENUM [rc_mode] 4
           (modify_inst i (hfi_rc_type_update (\<lambda>_. rc_mode)) s))"

definition iris_set_bitrate_mode_gen2 :: "iris_hfi_command_ops \<Rightarrow> nat \<Rightarrow> nat \<Rightarrow> iris_sys \<Rightarrow> int \<times> iris_sys" where
  "iris_set_bitrate_mode_gen2 ops i c s =
     (let inst = inst_heap s i;
          bitrate_mode = cap_value (fw_caps inst BITRATE_MODE);
          frame_skip = cap_value (fw_caps inst FRAME_SKIP_MODE) \<noteq> 0;
          rc_mode =
            (if cap_value (fw_caps inst FRAME_RC_ENABLE) = 0 then HFI_RC_OFF
             else if bitrate_mode = V4L2_MPEG_VIDEO_BITRATE_MODE_VBR then HFI_RC_VBR_CFR
             else if bitrate_mode = V4L2_MPEG_VIDEO_BITRATE_MODE_CBR
             then (if frame_skip then HFI_RC_CBR_VFR else HFI_RC_CBR_CFR)
             else if bitrate_mode = V4L2_MPEG_VIDEO_BITRATE_MODE_CQ then HFI_RC_CQ
             else 0)
      in put_property ops i c (hfi_id (fw_caps inst c)) HFI_PAYLOAD_U32_ENUM [rc_mode] 4
           (modify_inst i (hfi_rc_type_update (\<lambda>_. rc_mode)) s))"

definition iris_set_entropy_mode_gen1 :: "iris_hfi_command_ops \<Rightarrow> nat \<Rightarrow> nat \<Rightarrow> iris_sys \<Rightarrow> int \<times> iris_sys" where
  "iris_set_entropy_mode_gen1 ops i c s =
     (let inst = inst_heap s i;
          hfi_val = (if cap_value (fw_caps inst c) = V4L2_MPEG_VIDEO_H264_ENTROPY_MODE_CAVLC
                     then HFI_H264_ENTROPY_CAVLC else HFI_H264_ENTROPY_CABAC)
      in if codec inst \<noteq> V4L2_PIX_FMT_H264 then (0, s)
         else put_property ops i c (hfi_id (fw_caps inst c)) HFI_PAYLOAD_U32 [hfi_val] 4 s)"

definition iris_set_entropy_mode_gen2 :: "iris_hfi_command_ops \<Rightarrow> nat \<Rightarrow> nat \<Rightarrow> iris_sys \<Rightarrow> int \<times> iris_sys" where
  "iris_set_entropy_mode_gen2 ops i c s =
     (let inst = inst_heap s i;
          profile = cap_value (fw_caps inst PROFILE_H264);
          entropy_mode =
            (if profile = V4L2_MPEG_VIDEO_H264_PROFILE_BASELINE \<or>
                profile = V4L2_MPEG_VIDEO_H264_PROFILE_CONSTRAINED_BASELINE
             then V4L2_MPEG_VIDEO_H264_ENTROPY_MODE_CAVLC else uint (cap_u32 inst c))
      in if codec inst \<noteq> V4L2_PIX_FMT_H264 then (0, s)
         else put_property ops i c (hfi_id (fw_caps inst c)) HFI_PAYLOAD_U32
                [word_of_int entropy_mode] 4 (modify_inst i (set_cap_value c entropy_mode) s))"

section \<open>Quantisation\<close>

text \<open>
  The three frame types share one routine: \<open>fr\<close>, \<open>i\<close>, \<open>p\<close> and \<open>b\<close> are the capabilities of all
  frames and of each type, and \<open>pick\<close> is \<open>max\<close> or \<open>min\<close>.
\<close>

definition client_set :: "iris_inst \<Rightarrow> nat \<Rightarrow> bool" where
  "client_set inst c \<longleftrightarrow> has (cap_flags (fw_caps inst c)) CAP_FLAG_CLIENT_SET"

definition pack_enables :: "bool \<Rightarrow> bool \<Rightarrow> bool \<Rightarrow> u32" where
  "pack_enables i p b = of_bool i OR push_bit 1 (of_bool p) OR push_bit 2 (of_bool b)"

definition pack_qp :: "u32 \<Rightarrow> u32 \<Rightarrow> u32 \<Rightarrow> u32 \<Rightarrow> u32" where
  "pack_qp i p b enable = i OR push_bit 8 p OR push_bit 16 b OR push_bit 24 enable"

definition qp_bound :: "(int \<Rightarrow> int \<Rightarrow> int) \<Rightarrow> nat \<Rightarrow> nat \<Rightarrow> nat \<Rightarrow> nat \<Rightarrow> iris_inst \<Rightarrow> u32 option" where
  "qp_bound pick fr ci cp cb inst =
     (let all = client_set inst fr;
          enable = pack_enables (all \<or> client_set inst ci) (all \<or> client_set inst cp)
                     (all \<or> client_set inst cb);
          qp = (\<lambda>c. word_of_int (pick (cap_value (fw_caps inst c)) (cap_value (fw_caps inst fr))))
      in if enable = 0 then None else Some (pack_qp (qp ci) (qp cp) (qp cb) enable))"

definition put_qp :: "iris_hfi_command_ops \<Rightarrow> nat \<Rightarrow> nat \<Rightarrow> (iris_inst \<Rightarrow> u32 option) \<Rightarrow> iris_sys \<Rightarrow> int \<times> iris_sys" where
  "put_qp ops i c f s =
     (let inst = inst_heap s i in
      case f inst of
        None \<Rightarrow> (0, s)
      | Some v \<Rightarrow> put_property ops i c (hfi_id (fw_caps inst c)) HFI_PAYLOAD_32_PACKED [v] 4 s)"

definition iris_set_min_qp :: "iris_hfi_command_ops \<Rightarrow> nat \<Rightarrow> nat \<Rightarrow> iris_sys \<Rightarrow> int \<times> iris_sys" where
  "iris_set_min_qp ops i c = put_qp ops i c (\<lambda>inst.
     if codec inst = V4L2_PIX_FMT_H264
     then qp_bound max MIN_FRAME_QP_H264 I_FRAME_MIN_QP_H264 P_FRAME_MIN_QP_H264 B_FRAME_MIN_QP_H264 inst
     else qp_bound max MIN_FRAME_QP_HEVC I_FRAME_MIN_QP_HEVC P_FRAME_MIN_QP_HEVC B_FRAME_MIN_QP_HEVC inst)"

definition iris_set_max_qp :: "iris_hfi_command_ops \<Rightarrow> nat \<Rightarrow> nat \<Rightarrow> iris_sys \<Rightarrow> int \<times> iris_sys" where
  "iris_set_max_qp ops i c = put_qp ops i c (\<lambda>inst.
     if codec inst = V4L2_PIX_FMT_H264
     then qp_bound min MAX_FRAME_QP_H264 I_FRAME_MAX_QP_H264 P_FRAME_MAX_QP_H264 B_FRAME_MAX_QP_H264 inst
     else qp_bound min MAX_FRAME_QP_HEVC I_FRAME_MAX_QP_HEVC P_FRAME_MAX_QP_HEVC B_FRAME_MAX_QP_HEVC inst)"

definition frame_qp :: "nat \<Rightarrow> nat \<Rightarrow> nat \<Rightarrow> iris_inst \<Rightarrow> u32 option" where
  "frame_qp ci cp cb inst =
     (let off = hfi_rc_type inst = HFI_RC_OFF;
          enable = pack_enables (off \<or> client_set inst ci) (off \<or> client_set inst cp)
                     (off \<or> client_set inst cb)
      in if enable = 0 then None
         else Some (pack_qp (cap_u32 inst ci) (cap_u32 inst cp) (cap_u32 inst cb) enable))"

definition iris_set_frame_qp :: "iris_hfi_command_ops \<Rightarrow> nat \<Rightarrow> nat \<Rightarrow> iris_sys \<Rightarrow> int \<times> iris_sys" where
  "iris_set_frame_qp ops i c = put_qp ops i c (\<lambda>inst.
     if dst_streaming inst \<and> hfi_rc_type inst \<noteq> HFI_RC_OFF then None
     else if codec inst = V4L2_PIX_FMT_H264
     then frame_qp I_FRAME_QP_H264 P_FRAME_QP_H264 B_FRAME_QP_H264 inst
     else frame_qp I_FRAME_QP_HEVC P_FRAME_QP_HEVC B_FRAME_QP_HEVC inst)"

text \<open>The other words of the structure are not initialised; none is read.\<close>

definition iris_set_qp_range :: "iris_hfi_command_ops \<Rightarrow> nat \<Rightarrow> nat \<Rightarrow> iris_sys \<Rightarrow> int \<times> iris_sys" where
  "iris_set_qp_range ops i c s =
     (let inst = inst_heap s i;
          (min_qp, max_qp) =
            (if codec inst = V4L2_PIX_FMT_HEVC
             then (cap_u32 inst MIN_FRAME_QP_HEVC, cap_u32 inst MAX_FRAME_QP_HEVC)
             else (cap_u32 inst MIN_FRAME_QP_H264, cap_u32 inst MAX_FRAME_QP_H264))
      in put_property ops i c (hfi_id (fw_caps inst c)) HFI_PAYLOAD_32_PACKED
           [min_qp, 0, 0, 0, 0, 0, max_qp] 64 s)"

section \<open>Setting and applying controls\<close>

fun run_setter :: "iris_hfi_command_ops \<Rightarrow> cap_setter \<Rightarrow> nat \<Rightarrow> nat \<Rightarrow> iris_sys \<Rightarrow> int \<times> iris_sys" where
  "run_setter ops Set_pipe = iris_set_pipe ops"
| "run_setter ops Set_stage = iris_set_stage ops"
| "run_setter ops Set_profile_level_gen1 = iris_set_profile_level_gen1 ops"
| "run_setter ops Set_header_mode_gen1 = iris_set_header_mode_gen1 ops"
| "run_setter ops Set_bitrate = iris_set_bitrate ops"
| "run_setter ops Set_bitrate_mode_gen1 = iris_set_bitrate_mode_gen1 ops"
| "run_setter ops Set_gop_size_gen1 = iris_set_gop_size_gen1 ops"
| "run_setter ops Set_entropy_mode_gen1 = iris_set_entropy_mode_gen1 ops"
| "run_setter ops Set_qp_range = iris_set_qp_range ops"

text \<open>The result of a setter is ignored by both of its callers.\<close>

definition apply_cap :: "iris_hfi_command_ops \<Rightarrow> nat \<Rightarrow> nat \<Rightarrow> iris_sys \<Rightarrow> iris_sys" where
  "apply_cap ops i c s =
     (let cap = fw_caps (inst_heap s i) c in
      if \<not> iris_valid_cap_id (cap_id cap) then s
      else case cap_set cap of None \<Rightarrow> s | Some st \<Rightarrow> snd (run_setter ops st i c s))"

definition iris_set_properties :: "iris_hfi_command_ops \<Rightarrow> nat \<Rightarrow> u32 \<Rightarrow> iris_sys \<Rightarrow> int \<times> iris_sys" where
  "iris_set_properties ops i plane =
     and_then (session_set_config_params ops i plane)
              (run (fold (apply_cap ops i) [1..<INST_FW_CAP_MAX]))"

definition set_control :: "nat \<Rightarrow> int \<Rightarrow> iris_inst \<Rightarrow> iris_inst" where
  "set_control c v inst = inst\<lparr>fw_caps := (fw_caps inst)(c := (fw_caps inst c)
     \<lparr>cap_flags := cap_flags (fw_caps inst c) OR CAP_FLAG_CLIENT_SET, cap_value := v\<rparr>)\<rparr>"

definition iris_op_s_ctrl :: "iris_hfi_command_ops \<Rightarrow> nat \<Rightarrow> v4l2_cid \<Rightarrow> int \<Rightarrow> iris_sys \<Rightarrow> int \<times> iris_sys" where
  "iris_op_s_ctrl ops i ctrl val s =
     (let inst = inst_heap s i; c = iris_get_cap_id ctrl in
      if ctrl = CID_DEC_DISPLAY_DELAY then
        (if domain inst \<noteq> DECODER \<or> src_streaming inst then (- EINVAL, s)
         else (0, modify_inst i (display_delay_update (\<lambda>_. word_of_int val)) s))
      else if ctrl = CID_DEC_DISPLAY_DELAY_ENABLE then
        (if domain inst \<noteq> DECODER \<or> src_streaming inst then (- EINVAL, s)
         else (0, modify_inst i (display_delay_enable_update (\<lambda>_. val \<noteq> 0)) s))
      else if \<not> iris_valid_cap_id c then (- EINVAL, s)
      else if src_streaming inst \<and> \<not> has (cap_flags (fw_caps inst c)) CAP_FLAG_DYNAMIC_ALLOWED
      then (- EINVAL, s)
      else let s1 = modify_inst i (set_control c val) s in
        (0, if src_streaming inst
            then case cap_set (fw_caps inst c) of None \<Rightarrow> s1 | Some st \<Rightarrow> snd (run_setter ops st i c s1)
            else s1))"

section \<open>What the controls touch\<close>

context firmware_ops
begin

lemma put_property_touches [simp]: "touches i s (snd (put_property ops i c h ty ws n s))"
  using property_does[of i] by (simp add: does_def put_property_def)

lemma put_property_modified [simp]:
  assumes "owned (f (inst_heap s i)) = owned (inst_heap s i)"
  shows "touches i s (snd (put_property ops i c h ty ws n (modify_inst i f s)))"
proof -
  have "touches i s (modify_inst i f s)"
    using assms by (simp add: touches_def modify_inst_def session_frame_def)
  then show ?thesis by (rule touches_trans) simp
qed

lemma run_setter_does: "does i (run_setter ops st i c)"
proof -
  have own: "owned (set_cap_value c v x) = owned x" "owned (hfi_rc_type_update f x) = owned x" for c v x f
    by (simp_all add: set_cap_value_def owned_simps)
  show ?thesis
    by (cases st)
      (auto simp: does_def own iris_set_pipe_def iris_set_stage_def iris_set_profile_level_gen1_def
        iris_set_header_mode_gen1_def iris_set_bitrate_def iris_set_bitrate_mode_gen1_def
        iris_set_gop_size_gen1_def iris_set_entropy_mode_gen1_def iris_set_qp_range_def Let_def
        simp del: bit_0 split: option.split prod.split)
qed

lemma apply_cap_acts: "acts i (apply_cap ops i c)"
  using run_setter_does[of i] by (auto simp: acts_def does_def apply_cap_def Let_def split: option.split)

lemma set_properties_does: "does i (iris_set_properties ops i plane)"
  unfolding iris_set_properties_def
  using acts_fold[of i "apply_cap ops i" "\<lambda>_. [1..<47]", OF apply_cap_acts]
  by (intro does_and_then does_run config_does) (simp only:)

end

end
