(* ===== verification/IrisGen1Cmd.thy ===== *)
theory IrisGen1Cmd
  imports IrisHfiOps
begin

text \<open>
  The commands of the Gen1 firmware interface (\<open>iris_hfi_gen1_command.c\<close>): the packets, word by
  word in the order of the structures of \<open>iris_hfi_gen1_defines.h\<close> and with the size the code
  puts in their header, and the operations that send them. \<open>gen1_ops\<close> is the table the
  driver installs on SM8250 and SM8150.
\<close>

section \<open>System commands\<close>

definition iris_hfi_gen1_buf_type_from_driver :: "iris_buffer_type \<Rightarrow> u32" where
  "iris_hfi_gen1_buf_type_from_driver buffer_type =
     (case buffer_type of
        BUF_INPUT \<Rightarrow> HFI_BUFFER_INPUT
      | BUF_OUTPUT \<Rightarrow> HFI_BUFFER_OUTPUT
      | BUF_PERSIST \<Rightarrow> HFI_BUFFER_INTERNAL_PERSIST_1
      | BUF_BIN \<Rightarrow> HFI_BUFFER_INTERNAL_SCRATCH
      | BUF_SCRATCH_1 \<Rightarrow> HFI_BUFFER_INTERNAL_SCRATCH_1
      | BUF_SCRATCH_2 \<Rightarrow> HFI_BUFFER_INTERNAL_SCRATCH_2
      | BUF_ARP \<Rightarrow> HFI_BUFFER_INTERNAL_PERSIST
      | _ \<Rightarrow> word_of_int (- EINVAL))"

definition iris_hfi_gen1_sys_init :: "iris_sys \<Rightarrow> int \<times> iris_sys" where
  "iris_hfi_gen1_sys_init = send_locked [12, HFI_CMD_SYS_INIT, HFI_VIDEO_ARCH_OX]"

definition iris_hfi_gen1_sys_image_version :: "iris_sys \<Rightarrow> int \<times> iris_sys" where
  "iris_hfi_gen1_sys_image_version =
     send_locked [16, HFI_CMD_SYS_GET_PROPERTY, 1, HFI_PROPERTY_SYS_IMAGE_VERSION]"

definition iris_hfi_gen1_sys_power_control :: "bool \<Rightarrow> iris_sys \<Rightarrow> int \<times> iris_sys" where
  "iris_hfi_gen1_sys_power_control enable =
     kzalloc (send_locked [16 + 4, HFI_CMD_SYS_SET_PROPERTY, 1,
       HFI_PROPERTY_SYS_CODEC_POWER_PLANE_CTRL, if enable then 1 else 0])"

definition iris_hfi_gen1_sys_debug_config :: "iris_sys \<Rightarrow> int \<times> iris_sys" where
  "iris_hfi_gen1_sys_debug_config =
     kzalloc (send [16 + 8, HFI_CMD_SYS_SET_PROPERTY, 1, HFI_PROPERTY_SYS_DEBUG_CONFIG,
       HFI_DEBUG_MSG_ERROR OR HFI_DEBUG_MSG_FATAL, HFI_DEBUG_MODE_QUEUE])"

text \<open>
  The two system cache slices, named by their position. An error pointer is a negative
  result of \<open>Llcc_getd\<close>.
\<close>

definition llcc_get :: "u32 \<Rightarrow> iris_sys \<Rightarrow> int \<times> iris_sys" where
  "llcc_get k s = (case ask (Llcc_getd k) s of (r, s1) \<Rightarrow> (if r < 0 then r else 0, s1))"

definition llcc_put_all :: "int \<Rightarrow> iris_sys \<Rightarrow> int \<times> iris_sys" where
  "llcc_put_all ret s = (ret, fold (\<lambda>k. tell (Llcc_putd k)) [0, 1] s)"

definition llcc_deactivate_below :: "u32 list \<Rightarrow> int \<Rightarrow> iris_sys \<Rightarrow> int \<times> iris_sys" where
  "llcc_deactivate_below active ret s =
     llcc_put_all ret ((fold (\<lambda>k. tell (Llcc_deactivate k)) (rev active) s)\<lparr>llcc_active := False\<rparr>)"

definition syscache_packet :: "iris_sys \<Rightarrow> int \<times> iris_sys" where
  "syscache_packet s =
     (case ask (Llcc_read 0) s of (size0, s1) \<Rightarrow>
      case ask (Llcc_read 0) s1 of (id0, s2) \<Rightarrow>
      case ask (Llcc_read 1) s2 of (size1, s3) \<Rightarrow>
      case ask (Llcc_read 1) s3 of (id1, s4) \<Rightarrow>
      send [16 + 20, HFI_CMD_SYS_SET_RESOURCE, 1, HFI_RESOURCE_SYSCACHE, 2,
            word_of_int size0, word_of_int id0, word_of_int size1, word_of_int id1] s4)"

definition iris_hfi_gen1_syscache_config :: "iris_sys \<Rightarrow> int \<times> iris_sys" where
  "iris_hfi_gen1_syscache_config s =
     (if syscache_set s then (0, s)
      else case llcc_get 0 s of (ret, s1) \<Rightarrow> if ret \<noteq> 0 then llcc_put_all ret s1
      else case llcc_get 1 s1 of (ret, s2) \<Rightarrow> if ret \<noteq> 0 then llcc_put_all ret s2
      else case ask (Llcc_activate 0) s2 of (ret, s3) \<Rightarrow>
      if ret \<noteq> 0 then llcc_deactivate_below [] ret s3
      else case ask (Llcc_activate 1) s3 of (ret, s4) \<Rightarrow>
      if ret \<noteq> 0 then llcc_deactivate_below [0] ret s4
      else case kzalloc syscache_packet (s4\<lparr>llcc_active := True\<rparr>) of (ret, s5) \<Rightarrow>
      if ret \<noteq> 0 then llcc_deactivate_below [0, 1] ret s5
      else (0, s5\<lparr>syscache_set := True\<rparr>))"

definition iris_hfi_gen1_sys_interframe_powercollapse :: "iris_sys \<Rightarrow> int \<times> iris_sys" where
  "iris_hfi_gen1_sys_interframe_powercollapse = iris_hfi_gen1_sys_power_control True"

definition iris_hfi_gen1_sys_pc_prep :: "iris_sys \<Rightarrow> int \<times> iris_sys" where
  "iris_hfi_gen1_sys_pc_prep = send_locked [8, HFI_CMD_SYS_PC_PREP]"

section \<open>Opening, starting and stopping a session\<close>

definition gen1_codec :: "u32 \<Rightarrow> u32" where
  "gen1_codec c =
     (if c = V4L2_PIX_FMT_H264 then HFI_VIDEO_CODEC_H264
      else if c = V4L2_PIX_FMT_HEVC then HFI_VIDEO_CODEC_HEVC
      else if c = V4L2_PIX_FMT_VP9 then HFI_VIDEO_CODEC_VP9 else 0)"

text \<open>A command of the session whose completion is awaited.\<close>

definition command :: "nat \<Rightarrow> bool \<Rightarrow> (iris_inst \<Rightarrow> u32 list) \<Rightarrow> iris_sys \<Rightarrow> int \<times> iris_sys" where
  "command i is_flush pkt =
     and_then (reinit_completion is_flush)
    (and_then (\<lambda>s. send (pkt (inst_heap s i)) s)
              (iris_wait_for_session_response i is_flush))"

definition session_open_packet :: "iris_inst \<Rightarrow> u32 list" where
  "session_open_packet inst =
     [20, HFI_CMD_SYS_SESSION_INIT, session_id inst,
      if domain inst = DECODER then HFI_SESSION_TYPE_DEC else HFI_SESSION_TYPE_ENC,
      gen1_codec (codec inst)]"

definition iris_hfi_gen1_session_open :: "nat \<Rightarrow> iris_sys \<Rightarrow> int \<times> iris_sys" where
  "iris_hfi_gen1_session_open i s =
     (if inst_state (inst_heap s i) \<noteq> IRIS_INST_DEINIT then (- EALREADY, s)
      else and_then
        (\<lambda>s. if legacy_vpu5 (platform s)
             then and_then iris_hfi_gen1_sys_debug_config
                 (and_then iris_hfi_gen1_syscache_config
                           (iris_hfi_gen1_sys_power_control False)) s
             else (0, s))
        (command i False session_open_packet) s)"

definition iris_hfi_gen1_packet_session_cmd :: "u32 \<Rightarrow> iris_inst \<Rightarrow> u32 list" where
  "iris_hfi_gen1_packet_session_cmd ptype inst = [12, ptype, session_id inst]"

definition iris_hfi_gen1_session_close :: "nat \<Rightarrow> iris_sys \<Rightarrow> int \<times> iris_sys" where
  "iris_hfi_gen1_session_close i s =
     send (iris_hfi_gen1_packet_session_cmd HFI_CMD_SYS_SESSION_END (inst_heap s i)) s"

definition iris_hfi_gen1_session_start :: "nat \<Rightarrow> u32 \<Rightarrow> iris_sys \<Rightarrow> int \<times> iris_sys" where
  "iris_hfi_gen1_session_start i plane s =
     (if \<not> V4L2_TYPE_IS_OUTPUT plane then (0, s)
      else if has (sub_state (inst_heap s i)) IRIS_INST_SUB_LOAD_RESOURCES then (0, s)
      else and_then
        (command i False (iris_hfi_gen1_packet_session_cmd HFI_CMD_SESSION_LOAD_RESOURCES))
       (and_then
        (command i False (iris_hfi_gen1_packet_session_cmd HFI_CMD_SESSION_START))
        (on_inst i (iris_inst_change_sub_state 0 IRIS_INST_SUB_LOAD_RESOURCES))) s)"

text \<open>Stopping and unloading: a failure of the first command does not keep the second back.\<close>

definition stop_and_unload :: "nat \<Rightarrow> iris_sys \<Rightarrow> int \<times> iris_sys" where
  "stop_and_unload i s =
     (case command i False (iris_hfi_gen1_packet_session_cmd HFI_CMD_SESSION_STOP) s of (_, s1) \<Rightarrow>
      case command i False (iris_hfi_gen1_packet_session_cmd HFI_CMD_SESSION_RELEASE_RESOURCES) s1 of
        (ret, s2) \<Rightarrow>
      case on_inst i (iris_inst_change_sub_state IRIS_INST_SUB_LOAD_RESOURCES 0) s2 of
        (_, s3) \<Rightarrow> (ret, s3))"

definition return_buffers :: "nat \<Rightarrow> iris_sys \<Rightarrow> int \<times> iris_sys" where
  "return_buffers i =
     and_then (run (iris_helper_buffers_done i OUTPUT_MPLANE VB2_BUF_STATE_ERROR))
              (run (iris_helper_buffers_done i CAPTURE_MPLANE VB2_BUF_STATE_ERROR))"

definition flush_packet :: "u32 \<Rightarrow> iris_inst \<Rightarrow> u32 list" where
  "flush_packet plane inst =
     [16, HFI_CMD_SESSION_FLUSH, session_id inst,
      if V4L2_TYPE_IS_OUTPUT plane then HFI_FLUSH_ALL
      else if V4L2_TYPE_IS_CAPTURE plane then HFI_FLUSH_OUTPUT else 0]"

definition count_flush :: "nat \<Rightarrow> iris_sys \<Rightarrow> iris_sys" where
  "count_flush i = modify_inst i (\<lambda>x. x\<lparr>flush_responses_pending := flush_responses_pending x + 1\<rparr>)"

definition session_flush :: "nat \<Rightarrow> u32 \<Rightarrow> iris_sys \<Rightarrow> int \<times> iris_sys" where
  "session_flush i plane =
     and_then (reinit_completion True)
    (and_then (\<lambda>s. send (flush_packet plane (inst_heap s i)) s)
    (and_then (run (count_flush i))
              (iris_wait_for_session_response i True)))"

definition iris_hfi_gen1_session_stop :: "nat \<Rightarrow> u32 \<Rightarrow> iris_sys \<Rightarrow> int \<times> iris_sys" where
  "iris_hfi_gen1_session_stop i plane s =
     (if domain (inst_heap s i) = DECODER then
        (if inst_state (inst_heap s i) = IRIS_INST_STREAMING then session_flush i plane s
         else if has (sub_state (inst_heap s i)) IRIS_INST_SUB_LOAD_RESOURCES then
           (case stop_and_unload i s of (ret, s1) \<Rightarrow>
            case return_buffers i s1 of (_, s2) \<Rightarrow> (ret, s2))
         else (0, s))
      else
        (case (if inst_state (inst_heap s i) \<in>
                    {IRIS_INST_STREAMING, IRIS_INST_INPUT_STREAMING, IRIS_INST_ERROR}
               then stop_and_unload i s else (0, s)) of (ret, s1) \<Rightarrow>
         case return_buffers i s1 of (_, s2) \<Rightarrow> (ret, s2)))"

definition iris_hfi_gen1_session_continue :: "nat \<Rightarrow> u32 \<Rightarrow> iris_sys \<Rightarrow> int \<times> iris_sys" where
  "iris_hfi_gen1_session_continue i plane s =
     send (iris_hfi_gen1_packet_session_cmd HFI_CMD_SESSION_CONTINUE (inst_heap s i)) s"

section \<open>Buffers\<close>

definition upper_32_bits :: "u64 \<Rightarrow> u32" where "upper_32_bits x = ucast (drop_bit 32 x)"
definition lower_32_bits :: "u64 \<Rightarrow> u32" where "lower_32_bits x = ucast x"

definition empty_buffer_compressed :: "iris_inst \<Rightarrow> u64 \<Rightarrow> u32 \<Rightarrow> iris_buffer \<Rightarrow> u32 list" where
  "empty_buffer_compressed inst ts flags buf =
     [60, HFI_CMD_SESSION_EMPTY_BUFFER, session_id inst, upper_32_bits ts, lower_32_bits ts, flags, 0, 0,
      data_offset buf, ucast (buffer_size buf), ucast (data_size buf), buf_index buf,
      ucast (device_addr buf), 0, 0]"

definition empty_buffer_uncompressed :: "iris_inst \<Rightarrow> u64 \<Rightarrow> u32 \<Rightarrow> iris_buffer \<Rightarrow> u32 list" where
  "empty_buffer_uncompressed inst ts flags buf =
     [64, HFI_CMD_SESSION_EMPTY_BUFFER, session_id inst, 0, upper_32_bits ts, lower_32_bits ts, flags, 0, 0,
      ucast (buffer_size buf), ucast (data_size buf), data_offset buf, buf_index buf,
      ucast (device_addr buf), 0, 0]"

definition iris_hfi_gen1_queue_input_buffer :: "nat \<Rightarrow> iris_buffer \<Rightarrow> iris_sys \<Rightarrow> int \<times> iris_sys" where
  "iris_hfi_gen1_queue_input_buffer i buf s =
     send (if domain (inst_heap s i) = DECODER
           then empty_buffer_compressed (inst_heap s i) (buf_timestamp buf) 0 buf
           else empty_buffer_uncompressed (inst_heap s i) (buf_timestamp buf) (buf_flags buf) buf) s"

definition fill_buffer :: "iris_platform_data \<Rightarrow> iris_inst \<Rightarrow> iris_buffer \<Rightarrow> u32 list" where
  "fill_buffer pd inst buf =
     [44, HFI_CMD_SESSION_FILL_BUFFER, session_id inst,
      if buf_type buf = BUF_OUTPUT \<and> iris_split_mode_enabled inst then 1 else 0,
      data_offset buf, ucast (buffer_size buf), ucast (data_size buf), buf_index buf,
      ucast (device_addr buf),
      if legacy_vpu5 pd \<and> codec inst = V4L2_PIX_FMT_VP9
      then ucast (device_addr buf + buffer_size buf) else 0, 0]"

definition iris_hfi_gen1_queue_output_buffer :: "nat \<Rightarrow> iris_buffer \<Rightarrow> iris_sys \<Rightarrow> int \<times> iris_sys" where
  "iris_hfi_gen1_queue_output_buffer i buf s = send (fill_buffer (platform s) (inst_heap s i) buf) s"

definition set_buffers :: "iris_inst \<Rightarrow> u32 \<Rightarrow> iris_buffer \<Rightarrow> u32 list" where
  "set_buffers inst buffer_type buf =
     [32 + 4, HFI_CMD_SESSION_SET_BUFFERS, session_id inst, buffer_type, ucast (buffer_size buf), 0,
      ucast (buffer_size buf), 1, ucast (device_addr buf)]"

definition iris_hfi_gen1_queue_internal_buffer :: "nat \<Rightarrow> iris_buffer \<Rightarrow> iris_sys \<Rightarrow> int \<times> iris_sys" where
  "iris_hfi_gen1_queue_internal_buffer i buf =
     kzalloc (\<lambda>s.
       let buffer_type = iris_hfi_gen1_buf_type_from_driver (buf_type buf) in
       if buffer_type = word_of_int (- EINVAL) then (- EINVAL, s)
       else send (set_buffers (inst_heap s i) buffer_type buf) s)"

definition iris_hfi_gen1_session_queue_buffer :: "nat \<Rightarrow> iris_buffer \<Rightarrow> iris_sys \<Rightarrow> int \<times> iris_sys" where
  "iris_hfi_gen1_session_queue_buffer i buf =
     (case buf_type buf of
        BUF_INPUT \<Rightarrow> iris_hfi_gen1_queue_input_buffer i buf
      | BUF_OUTPUT \<Rightarrow> iris_hfi_gen1_queue_output_buffer i buf
      | BUF_DPB \<Rightarrow> iris_hfi_gen1_queue_output_buffer i buf
      | BUF_PERSIST \<Rightarrow> iris_hfi_gen1_queue_internal_buffer i buf
      | BUF_BIN \<Rightarrow> iris_hfi_gen1_queue_internal_buffer i buf
      | BUF_SCRATCH_1 \<Rightarrow> iris_hfi_gen1_queue_internal_buffer i buf
      | BUF_SCRATCH_2 \<Rightarrow> iris_hfi_gen1_queue_internal_buffer i buf
      | BUF_ARP \<Rightarrow> iris_hfi_gen1_queue_internal_buffer i buf
      | _ \<Rightarrow> (\<lambda>s. (- EINVAL, s)))"

text \<open>\<open>response_req\<close> is \<open>true\<close>, the word 1. The completion is not reset before this wait.\<close>

definition release_buffers :: "iris_inst \<Rightarrow> u32 \<Rightarrow> iris_buffer \<Rightarrow> u32 list" where
  "release_buffers inst buffer_type buf =
     [if buffer_type = HFI_BUFFER_OUTPUT \<or> buffer_type = HFI_BUFFER_OUTPUT2 then 32 + 8 else 32 + 4,
      HFI_CMD_SESSION_RELEASE_BUFFERS, session_id inst, buffer_type, ucast (buffer_size buf), 0, 1, 1,
      ucast (device_addr buf)] @
     (if buffer_type = HFI_BUFFER_OUTPUT \<or> buffer_type = HFI_BUFFER_OUTPUT2 then [0] else [])"

definition iris_hfi_gen1_session_unset_buffers :: "nat \<Rightarrow> iris_buffer \<Rightarrow> iris_sys \<Rightarrow> int \<times> iris_sys" where
  "iris_hfi_gen1_session_unset_buffers i buf =
     (let buffer_type = iris_hfi_gen1_buf_type_from_driver (buf_type buf) in
      if buffer_type = word_of_int (- EINVAL) then (\<lambda>s. (- EINVAL, s))
      else if buffer_type = HFI_BUFFER_INPUT then (\<lambda>s. (0, s))
      else kzalloc (and_then (\<lambda>s. send (release_buffers (inst_heap s i) buffer_type buf) s)
                             (iris_wait_for_session_response i False)))"

definition eos_packet :: "iris_inst \<Rightarrow> u32 list" where
  "eos_packet inst =
     (let buf = zero_buffer\<lparr>device_addr := 0xdeadb000\<rparr> in
      if domain inst = DECODER then empty_buffer_compressed inst 0 HFI_BUFFERFLAG_EOS buf
      else empty_buffer_uncompressed inst 0 HFI_BUFFERFLAG_EOS buf)"

definition iris_hfi_gen1_session_drain :: "nat \<Rightarrow> u32 \<Rightarrow> iris_sys \<Rightarrow> int \<times> iris_sys" where
  "iris_hfi_gen1_session_drain i plane s = send (eos_packet (inst_heap s i)) s"

section \<open>Setting a property\<close>

text \<open>
  The body of a set-property packet: the size the code adds to the 16 bytes of the header and
  the words it writes after the property number, or an error. The words of the structures
  are in their order in memory; what the code leaves alone is zero from the allocation.
\<close>

definition plane_constraints :: "u32 \<Rightarrow> u32 list" where
  "plane_constraints stride_multiple =
     [HFI_BUFFER_OUTPUT2, 2, stride_multiple, 8192, 32, 256, stride_multiple, 8192, 16, 256]"

definition stride_multiple :: "iris_inst \<Rightarrow> u32" where
  "stride_multiple inst = (if pixelformat (fmt_dst inst) = V4L2_PIX_FMT_P010 then 256 else 128)"

definition property_body :: "iris_inst \<Rightarrow> u32 \<Rightarrow> payload \<Rightarrow> int + u32 \<times> u32 list" where
  "property_body inst ptype pdata =
    (if ptype = HFI_PROPERTY_PARAM_FRAME_SIZE then Inr (4 + 12, [pdata 0, pdata 1, pdata 2])
     else if ptype = HFI_PROPERTY_CONFIG_VIDEOCORES_USAGE then Inr (4 + 4, [pdata 0])
     else if ptype = HFI_PROPERTY_PARAM_UNCOMPRESSED_FORMAT_SELECT then
       Inr (4 + 8, [pdata 0, pdata 1])
     else if ptype = HFI_PROPERTY_PARAM_UNCOMPRESSED_PLANE_ACTUAL_CONSTRAINTS_INFO then
       Inr (4 + 40, plane_constraints (stride_multiple inst))
     else if ptype = HFI_PROPERTY_PARAM_BUFFER_COUNT_ACTUAL then
       Inr (4 + 12, [pdata 0, pdata 1, pdata 2])
     else if ptype = HFI_PROPERTY_PARAM_VDEC_MULTI_STREAM then Inr (4 + 8, [pdata 0, pdata 1])
     else if ptype = HFI_PROPERTY_PARAM_VDEC_OUTPUT_ORDER then
       (if pdata 0 \<noteq> HFI_OUTPUT_ORDER_DECODE \<and> pdata 0 \<noteq> HFI_OUTPUT_ORDER_DISPLAY
        then Inl (- EINVAL) else Inr (4 * 2, [pdata 0]))
     else if ptype = HFI_PROPERTY_PARAM_BUFFER_SIZE_ACTUAL then Inr (4 + 8, [pdata 0, pdata 1])
     else if ptype = HFI_PROPERTY_PARAM_WORK_ROUTE then Inr (4 + 4, [pdata 0])
     else if ptype = HFI_PROPERTY_PARAM_WORK_MODE then Inr (4 + 4, [pdata 0])
     else if ptype = HFI_PROPERTY_PARAM_PROFILE_LEVEL_CURRENT then
       Inr (4 + 8, [if pdata 0 \<le> 0 then BIT 2 else pdata 0, if pdata 1 = 0 then 1 else pdata 1])
     else if ptype = HFI_PROPERTY_CONFIG_VENC_SYNC_FRAME_SEQUENCE_HEADER then
       Inr (4 + 4, [pdata 0])
     else if ptype = HFI_PROPERTY_CONFIG_VENC_TARGET_BITRATE then Inr (4 + 8, [pdata 0, 0])
     else if ptype = HFI_PROPERTY_CONFIG_VENC_INTRA_PERIOD then Inr (4 + 8, [pdata 0, pdata 1])
     else if ptype = HFI_PROPERTY_PARAM_VENC_RATE_CONTROL then
       (if pdata 0 \<in> {HFI_RATE_CONTROL_OFF, HFI_RATE_CONTROL_CBR_CFR, HFI_RATE_CONTROL_CBR_VFR,
           HFI_RATE_CONTROL_VBR_CFR, HFI_RATE_CONTROL_VBR_VFR, HFI_RATE_CONTROL_CQ}
        then Inr (4 * 2, [pdata 0]) else Inl (- EINVAL))
     else if ptype = HFI_PROPERTY_PARAM_VENC_H264_ENTROPY_CONTROL then
       Inr (4 + 8, [pdata 0, if pdata 0 = HFI_H264_ENTROPY_CABAC then HFI_H264_CABAC_MODEL_0 else 0])
     else if ptype = HFI_PROPERTY_PARAM_VENC_SESSION_QP_RANGE_V2 then
       (let min_qp = pdata 0; max_qp = pdata 6;
            pack = (\<lambda>q. (q AND 0xFF) OR push_bit 8 (q AND 0xFF) OR push_bit 16 (q AND 0xFF)) in
        if 0xff < min_qp \<or> 0xff < max_qp then Inl (- ERANGE)
        else Inr (4 + 64, [pack min_qp, 0xFF, 7, 0, 0, 0, pack max_qp, 0xFF, 7, 0, 0, 0, 0, 0, 0, 0]))
     else if ptype = HFI_PROPERTY_CONFIG_FRAME_RATE then Inr (4 + 8, [pdata 0, pdata 1])
     else if ptype = HFI_PROPERTY_PARAM_UNCOMPRESSED_PLANE_ACTUAL_INFO then
       Inr (4 + 24, [pdata 0, pdata 1, pdata 2, pdata 3] @
                    (if 1 < pdata 1 then [pdata 4, pdata 5] else [0, 0]))
     else Inl (- EINVAL))"

definition iris_hfi_gen1_packet_session_set_property ::
    "iris_inst \<Rightarrow> u32 \<Rightarrow> payload \<Rightarrow> int + u32 list" where
  "iris_hfi_gen1_packet_session_set_property inst ptype pdata =
     (case property_body inst ptype pdata of
        Inl e \<Rightarrow> Inl e
      | Inr (extra, ws) \<Rightarrow>
          Inr ([16 + extra, HFI_CMD_SESSION_SET_PROPERTY, session_id inst, 1, ptype] @ ws))"

text \<open>
  The allocation has room for \<open>payload_size\<close> bytes of payload. A packet with more words is
  built, and sent, past its end: the event \<open>Oops\<close>.
\<close>

definition hfi_gen1_set_property :: "nat \<Rightarrow> u32 \<Rightarrow> payload \<Rightarrow> u32 \<Rightarrow> iris_sys \<Rightarrow> int \<times> iris_sys" where
  "hfi_gen1_set_property i packet_type p payload_size =
     kzalloc (\<lambda>s.
       case iris_hfi_gen1_packet_session_set_property (inst_heap s i) packet_type p of
         Inl e \<Rightarrow> (if e = - EOPNOTSUPP then 0 else e, s)
       | Inr ws \<Rightarrow>
           and_then (run (if unat (16 + 4 + payload_size) < 4 * length ws then tell Oops else id))
                    (send ws) s)"

definition iris_hfi_gen1_session_set_property ::
    "nat \<Rightarrow> u32 \<Rightarrow> u32 \<Rightarrow> u32 \<Rightarrow> u32 \<Rightarrow> payload \<Rightarrow> u32 \<Rightarrow> iris_sys \<Rightarrow> int \<times> iris_sys" where
  "iris_hfi_gen1_session_set_property i packet_type flag plane payload_type p payload_size =
     hfi_gen1_set_property i packet_type p payload_size"

definition set_words :: "nat \<Rightarrow> u32 \<Rightarrow> (iris_platform_data \<Rightarrow> iris_inst \<Rightarrow> u32 list) \<Rightarrow> iris_sys \<Rightarrow> int \<times> iris_sys" where
  "set_words i ptype f s =
     (let ws = f (platform s) (inst_heap s i)
      in hfi_gen1_set_property i ptype (words ws) (4 * word_of_nat (length ws)) s)"

section \<open>The configuration of a session\<close>

definition iris_hfi_gen1_set_resolution :: "nat \<Rightarrow> u32 \<Rightarrow> iris_sys \<Rightarrow> int \<times> iris_sys" where
  "iris_hfi_gen1_set_resolution i plane =
     and_then
       (\<lambda>s. if \<not> iris_drc_pending (inst_heap s i)
            then set_words i HFI_PROPERTY_PARAM_FRAME_SIZE (\<lambda>_ inst.
                   [HFI_BUFFER_INPUT, pix_width (fmt_src inst), pix_height (fmt_src inst)]) s
            else (0, s))
       (set_words i HFI_PROPERTY_PARAM_FRAME_SIZE (\<lambda>_ inst.
          [if domain inst = DECODER then HFI_BUFFER_OUTPUT2 else HFI_BUFFER_OUTPUT,
           pix_width (fmt_dst inst), pix_height (fmt_dst inst)]))"

text \<open>The load of the other decoder sessions on a core, as the sum over the list.\<close>

definition decide_fps :: "iris_inst \<Rightarrow> u32" where
  "decide_fps inst =
     (let fps = max (frame_rate inst) (operating_rate inst);
          fps = (if fps = MAXIMUM_FPS then DEFAULT_FPS else fps)
      in max fps 1)"

definition core_load_on :: "u32 \<Rightarrow> nat \<Rightarrow> iris_sys \<Rightarrow> u64" where
  "core_load_on c i s =
     fold (\<lambda>j load.
       let x = inst_heap s j in
       if j = i \<or> \<not> hfi_session_opened x \<or> domain x \<noteq> DECODER then load
       else if hfi_core_id x = c then load + scast (iris_get_mbpf x) * ucast (decide_fps x)
       else load) (instances s) 0"

definition chosen_core :: "nat \<Rightarrow> iris_sys \<Rightarrow> u32" where
  "chosen_core i s =
     (if legacy_vpu5 (platform s) \<and> 1 < num_vpp_pipe (platform s) \<and>
         core_load_on HFI_CORE_ID_2 i s < core_load_on HFI_CORE_ID_1 i s
      then HFI_CORE_ID_2 else HFI_CORE_ID_1)"

definition iris_hfi_gen1_decide_core :: "nat \<Rightarrow> u32 \<Rightarrow> iris_sys \<Rightarrow> int \<times> iris_sys" where
  "iris_hfi_gen1_decide_core i plane s =
     (let new_assignment = hfi_core_id (inst_heap s i) = 0;
          s1 = (if new_assignment
                then modify_inst i (hfi_core_id_update (\<lambda>_. chosen_core i s)) s else s);
          mask = hfi_core_id (inst_heap s1 i)
      in case hfi_gen1_set_property i HFI_PROPERTY_CONFIG_VIDEOCORES_USAGE (words [mask]) 4 s1 of
        (ret, s2) \<Rightarrow>
      if ret \<noteq> 0 \<and> new_assignment then
        (ret, if hfi_core_id (inst_heap s2 i) = mask
              then modify_inst i (hfi_core_id_update (\<lambda>_. 0)) s2 else s2)
      else (ret, s2))"

definition p010_or :: "iris_inst \<Rightarrow> u32 \<Rightarrow> u32 \<Rightarrow> u32" where
  "p010_or inst a b = (if pixelformat (fmt_dst inst) = V4L2_PIX_FMT_P010 then a else b)"

definition iris_hfi_gen1_set_raw_format :: "nat \<Rightarrow> u32 \<Rightarrow> iris_sys \<Rightarrow> int \<times> iris_sys" where
  "iris_hfi_gen1_set_raw_format i plane s =
     (let set = set_words i HFI_PROPERTY_PARAM_UNCOMPRESSED_FORMAT_SELECT in
      if domain (inst_heap s i) = DECODER then
        (if iris_split_mode_enabled (inst_heap s i) then
           and_then (set (\<lambda>_ inst. [HFI_BUFFER_OUTPUT,
                       p010_or inst HFI_COLOR_FORMAT_YUV420_TP10_UBWC HFI_COLOR_FORMAT_NV12_UBWC]))
                    (set (\<lambda>_ inst. [HFI_BUFFER_OUTPUT2,
                       p010_or inst HFI_COLOR_FORMAT_P010 HFI_COLOR_FORMAT_NV12])) s
         else set (\<lambda>_ inst. [HFI_BUFFER_OUTPUT,
                     p010_or inst HFI_COLOR_FORMAT_P010 HFI_COLOR_FORMAT_NV12]) s)
      else set (\<lambda>_ inst. [HFI_BUFFER_INPUT,
                  if pixelformat (fmt_src inst) = V4L2_PIX_FMT_NV12 then HFI_COLOR_FORMAT_NV12 else 0]) s)"

definition iris_hfi_gen1_set_format_constraints :: "nat \<Rightarrow> u32 \<Rightarrow> iris_sys \<Rightarrow> int \<times> iris_sys" where
  "iris_hfi_gen1_set_format_constraints i plane =
     set_words i HFI_PROPERTY_PARAM_UNCOMPRESSED_PLANE_ACTUAL_CONSTRAINTS_INFO
       (\<lambda>_ inst. plane_constraints (stride_multiple inst))"

definition set_count :: "nat \<Rightarrow> u32 \<Rightarrow> (iris_platform_data \<Rightarrow> iris_inst \<Rightarrow> u32) \<Rightarrow> iris_sys \<Rightarrow> int \<times> iris_sys" where
  "set_count i ty n =
     set_words i HFI_PROPERTY_PARAM_BUFFER_COUNT_ACTUAL (\<lambda>pd inst. [ty, n pd inst, n pd inst])"

definition iris_hfi_gen1_set_num_bufs :: "nat \<Rightarrow> u32 \<Rightarrow> iris_sys \<Rightarrow> int \<times> iris_sys" where
  "iris_hfi_gen1_set_num_bufs i plane =
     and_then (set_count i HFI_BUFFER_INPUT (\<lambda>_ _. VIDEO_MAX_FRAME))
       (\<lambda>s. if domain (inst_heap s i) = DECODER \<and> iris_split_mode_enabled (inst_heap s i) then
              and_then (set_count i HFI_BUFFER_OUTPUT (\<lambda>_ _. VIDEO_MAX_FRAME))
                (set_count i HFI_BUFFER_OUTPUT2
                  (\<lambda>pd inst. word_of_int (iris_vpu_buf_count pd inst BUF_DPB))) s
            else set_count i HFI_BUFFER_OUTPUT (\<lambda>_ _. VIDEO_MAX_FRAME) s)"

definition iris_hfi_gen1_set_multistream :: "nat \<Rightarrow> u32 \<Rightarrow> iris_sys \<Rightarrow> int \<times> iris_sys" where
  "iris_hfi_gen1_set_multistream i plane s =
     (let set = (\<lambda>ty en. set_words i HFI_PROPERTY_PARAM_VDEC_MULTI_STREAM (\<lambda>_ _. [ty, en])) in
      if iris_split_mode_enabled (inst_heap s i)
      then and_then (set HFI_BUFFER_OUTPUT2 1) (set HFI_BUFFER_OUTPUT 0) s
      else and_then (set HFI_BUFFER_OUTPUT 1) (set HFI_BUFFER_OUTPUT2 0) s)"

definition set_size :: "nat \<Rightarrow> u32 \<Rightarrow> (iris_platform_data \<Rightarrow> iris_inst \<Rightarrow> u32) \<Rightarrow> iris_sys \<Rightarrow> int \<times> iris_sys" where
  "set_size i ty n = set_words i HFI_PROPERTY_PARAM_BUFFER_SIZE_ACTUAL (\<lambda>pd inst. [ty, n pd inst])"

definition output_size :: "iris_platform_data \<Rightarrow> iris_inst \<Rightarrow> u32" where
  "output_size pd inst = buf_size (buffers inst BUF_OUTPUT)"

definition iris_hfi_gen1_set_bufsize :: "nat \<Rightarrow> u32 \<Rightarrow> iris_sys \<Rightarrow> int \<times> iris_sys" where
  "iris_hfi_gen1_set_bufsize i plane s =
     (if iris_split_mode_enabled (inst_heap s i)
      then and_then (set_size i HFI_BUFFER_OUTPUT (\<lambda>pd inst. word_of_int (iris_vpu_buf_size pd inst BUF_DPB)))
                    (set_size i HFI_BUFFER_OUTPUT2 output_size) s
      else and_then (set_size i HFI_BUFFER_OUTPUT output_size)
                    (set_size i HFI_BUFFER_OUTPUT2 (\<lambda>_ _. 0)) s)"

definition iris_hfi_gen1_get_buffer_requirements :: "nat \<Rightarrow> iris_sys \<Rightarrow> int \<times> iris_sys" where
  "iris_hfi_gen1_get_buffer_requirements i =
     command i False (\<lambda>inst. [20, HFI_CMD_SESSION_GET_PROPERTY, session_id inst, 1,
                              HFI_PROPERTY_CONFIG_BUFFER_REQUIREMENTS])"

text \<open>The counts are read before the requirements are refreshed, the sizes after.\<close>

definition dpb_size :: "iris_platform_data \<Rightarrow> iris_inst \<Rightarrow> u32" where
  "dpb_size pd inst = (if fw_buffer_sizes inst BUF_DPB \<noteq> 0 then fw_buffer_sizes inst BUF_DPB
                       else word_of_int (iris_vpu_buf_size pd inst BUF_DPB))"

definition capture_config :: "nat \<Rightarrow> u32 \<Rightarrow> u32 \<Rightarrow> (iris_sys \<Rightarrow> int \<times> iris_sys) list" where
  "capture_config i dpb_count output2_count =
     [iris_hfi_gen1_get_buffer_requirements i,
      set_words i HFI_PROPERTY_PARAM_FRAME_SIZE
        (\<lambda>_ inst. [HFI_BUFFER_OUTPUT2, pix_width (fmt_src inst), pix_height (fmt_src inst)]),
      set_count i HFI_BUFFER_OUTPUT2 (\<lambda>_ _. output2_count),
      set_size i HFI_BUFFER_OUTPUT2 output_size,
      set_size i HFI_BUFFER_OUTPUT dpb_size,
      set_count i HFI_BUFFER_OUTPUT (\<lambda>_ _. dpb_count)]"

definition iris_hfi_gen1_set_first_capture_config :: "nat \<Rightarrow> iris_sys \<Rightarrow> int \<times> iris_sys" where
  "iris_hfi_gen1_set_first_capture_config i =
     and_then
       (\<lambda>s. if capture_format_changed (inst_heap s i)
            then and_then (iris_hfi_gen1_set_raw_format i CAPTURE_MPLANE)
                (and_then (iris_hfi_gen1_set_format_constraints i CAPTURE_MPLANE)
                          (run (modify_inst i (capture_format_changed_update (\<lambda>_. False))))) s
            else (0, s))
       (\<lambda>s. case (word_of_int (iris_vpu_buf_count (platform s) (inst_heap s i) BUF_DPB), s) of
          (dpb_count, s1) \<Rightarrow>
        case ask (Vb2_num_buffers CAPTURE_MPLANE) s1 of (n, s2) \<Rightarrow>
        if dpb_count = 0 \<or> (word_of_int n :: u32) = 0 then (- EINVAL, s2)
        else run_all (capture_config i dpb_count (word_of_int n)) s2)"

definition iris_hfi_gen1_set_frame_rate :: "nat \<Rightarrow> u32 \<Rightarrow> iris_sys \<Rightarrow> int \<times> iris_sys" where
  "iris_hfi_gen1_set_frame_rate i plane s =
     (if V4L2_TYPE_IS_OUTPUT plane then (0, s)
      else set_words i HFI_PROPERTY_CONFIG_FRAME_RATE
             (\<lambda>_ inst. [HFI_BUFFER_OUTPUT, push_bit 16 (frame_rate inst)]) s)"

definition iris_hfi_gen1_set_stride :: "nat \<Rightarrow> u32 \<Rightarrow> iris_sys \<Rightarrow> int \<times> iris_sys" where
  "iris_hfi_gen1_set_stride i plane =
     set_words i HFI_PROPERTY_PARAM_UNCOMPRESSED_PLANE_ACTUAL_INFO (\<lambda>_ inst.
       [HFI_BUFFER_INPUT, 2, ALIGN (pix_width (fmt_src inst)) 128, ALIGN (pix_height (fmt_src inst)) 32,
        ALIGN (pix_width (fmt_src inst)) 128, ALIGN (pix_height (fmt_src inst)) 32 div 2])"

type_synonym prop_handler = "u32 \<times> (nat \<Rightarrow> u32 \<Rightarrow> iris_sys \<Rightarrow> int \<times> iris_sys)"

definition vdec_prop_type_handle_out_arr :: "prop_handler list" where
  "vdec_prop_type_handle_out_arr =
     [(HFI_PROPERTY_PARAM_FRAME_SIZE, iris_hfi_gen1_set_resolution),
      (HFI_PROPERTY_PARAM_UNCOMPRESSED_FORMAT_SELECT, iris_hfi_gen1_set_raw_format),
      (HFI_PROPERTY_PARAM_UNCOMPRESSED_PLANE_ACTUAL_CONSTRAINTS_INFO, iris_hfi_gen1_set_format_constraints),
      (HFI_PROPERTY_PARAM_BUFFER_COUNT_ACTUAL, iris_hfi_gen1_set_num_bufs),
      (HFI_PROPERTY_PARAM_VDEC_MULTI_STREAM, iris_hfi_gen1_set_multistream),
      (HFI_PROPERTY_PARAM_BUFFER_SIZE_ACTUAL, iris_hfi_gen1_set_bufsize)]"

definition vdec_prop_type_handle_inp_arr :: "prop_handler list" where
  "vdec_prop_type_handle_inp_arr =
     [(HFI_PROPERTY_PARAM_FRAME_SIZE, iris_hfi_gen1_set_resolution),
      (HFI_PROPERTY_CONFIG_VIDEOCORES_USAGE, iris_hfi_gen1_decide_core),
      (HFI_PROPERTY_PARAM_UNCOMPRESSED_FORMAT_SELECT, iris_hfi_gen1_set_raw_format),
      (HFI_PROPERTY_PARAM_UNCOMPRESSED_PLANE_ACTUAL_CONSTRAINTS_INFO, iris_hfi_gen1_set_format_constraints),
      (HFI_PROPERTY_PARAM_BUFFER_COUNT_ACTUAL, iris_hfi_gen1_set_num_bufs),
      (HFI_PROPERTY_PARAM_VDEC_MULTI_STREAM, iris_hfi_gen1_set_multistream),
      (HFI_PROPERTY_PARAM_BUFFER_SIZE_ACTUAL, iris_hfi_gen1_set_bufsize)]"

definition venc_prop_type_handle_inp_arr :: "prop_handler list" where
  "venc_prop_type_handle_inp_arr =
     [(HFI_PROPERTY_CONFIG_FRAME_RATE, iris_hfi_gen1_set_frame_rate),
      (HFI_PROPERTY_PARAM_UNCOMPRESSED_PLANE_ACTUAL_INFO, iris_hfi_gen1_set_stride),
      (HFI_PROPERTY_PARAM_FRAME_SIZE, iris_hfi_gen1_set_resolution),
      (HFI_PROPERTY_PARAM_UNCOMPRESSED_FORMAT_SELECT, iris_hfi_gen1_set_raw_format),
      (HFI_PROPERTY_PARAM_BUFFER_COUNT_ACTUAL, iris_hfi_gen1_set_num_bufs)]"

definition config_steps :: "prop_handler list \<Rightarrow> u32 list \<Rightarrow> nat \<Rightarrow> u32 \<Rightarrow> (iris_sys \<Rightarrow> int \<times> iris_sys) list" where
  "config_steps handler params i plane =
     concat (List.map (\<lambda>p. case map_of handler p of None \<Rightarrow> [] | Some h \<Rightarrow> [h i plane]) params)"

text \<open>A plane is an output or a capture plane, so a decoder always has a table of handlers.\<close>

definition iris_hfi_gen1_session_set_config_params :: "nat \<Rightarrow> u32 \<Rightarrow> iris_sys \<Rightarrow> int \<times> iris_sys" where
  "iris_hfi_gen1_session_set_config_params i plane s =
     (let inst = inst_heap s i; pd = platform s in
      if domain inst = DECODER \<and> V4L2_TYPE_IS_CAPTURE plane \<and>
         (legacy_vpu5 pd \<and> codec inst = V4L2_PIX_FMT_H264 \<or> codec inst = V4L2_PIX_FMT_HEVC \<or>
          codec inst = V4L2_PIX_FMT_VP9) \<and>
         (legacy_vpu5 pd \<or> has (sub_state inst) IRIS_INST_SUB_FIRST_IPSC)
      then iris_hfi_gen1_set_first_capture_config i s
      else and_then
        (run_all
          (if domain inst = DECODER
           then config_steps (if V4L2_TYPE_IS_OUTPUT plane then vdec_prop_type_handle_inp_arr
                              else vdec_prop_type_handle_out_arr)
                  (dec_input_config_params_default pd) i plane
           else config_steps venc_prop_type_handle_inp_arr (enc_input_config_params pd) i plane))
        (\<lambda>s. if V4L2_TYPE_IS_OUTPUT plane then iris_hfi_gen1_get_buffer_requirements i s else (0, s)) s)"

definition gen1_ops :: iris_hfi_command_ops where
  "gen1_ops =
     \<lparr>sys_init = iris_hfi_gen1_sys_init, sys_image_version = iris_hfi_gen1_sys_image_version,
      sys_interframe_powercollapse = iris_hfi_gen1_sys_interframe_powercollapse,
      sys_pc_prep = iris_hfi_gen1_sys_pc_prep,
      session_set_config_params = iris_hfi_gen1_session_set_config_params,
      session_set_property = iris_hfi_gen1_session_set_property,
      session_open = iris_hfi_gen1_session_open,
      session_start = iris_hfi_gen1_session_start,
      session_queue_buf = iris_hfi_gen1_session_queue_buffer,
      session_release_buf = iris_hfi_gen1_session_unset_buffers,
      session_pause = None, session_resume_drc = iris_hfi_gen1_session_continue,
      session_stop = iris_hfi_gen1_session_stop, session_drain = iris_hfi_gen1_session_drain,
      session_resume_drain = None, session_close = iris_hfi_gen1_session_close\<rparr>"

end
