(* ===== verification/IrisGen1Ops.thy ===== *)
theory IrisGen1Ops
  imports IrisGen1Cmd
begin

text \<open>
  The Gen1 commands keep the contract of \<open>IrisHfiOps\<close>, what their packets carry to the
  firmware, and how decoder sessions are spread over the cores.
\<close>

section \<open>The contract\<close>

lemma owned_sub_state [simp]: "owned (snd (iris_inst_change_sub_state c t x)) = owned x"
  by (simp add: iris_inst_change_sub_state_def owned_simps)

lemma does_change_sub_state [does_rules]: "does i (on_inst i (iris_inst_change_sub_state c t))"
  by (rule does_on_inst) simp

lemma does_kzalloc [does_rules]: "does i f \<Longrightarrow> does i (kzalloc f)"
  unfolding kzalloc_def by (intro does_rules)

lemma does_send_const [does_rules]: "does i (send ws)"
  by (rule does_send)

lemma does_send_locked_const [does_rules]: "does i (send_locked ws)"
  by (rule does_send_locked)

lemma does_power_control [does_rules]: "does i (iris_hfi_gen1_sys_power_control en)"
  unfolding iris_hfi_gen1_sys_power_control_def by (intro does_rules)

lemma does_debug_config [does_rules]: "does i iris_hfi_gen1_sys_debug_config"
  unfolding iris_hfi_gen1_sys_debug_config_def by (intro does_rules)

lemma does_llcc_get [does_rules]: "does i (llcc_get k)"
  unfolding llcc_get_def by (intro does_rules)

lemma does_put_all [does_rules]: "does i (llcc_put_all ret)"
  unfolding llcc_put_all_def by (intro does_rules)

lemma acts_llcc_flag: "acts i (\<lambda>s. s\<lparr>llcc_active := b\<rparr>)" "acts i (\<lambda>s. s\<lparr>syscache_set := b\<rparr>)"
  by (simp_all add: acts_def touches_def session_frame_def)

lemma does_then: "acts i h \<Longrightarrow> does i f \<Longrightarrow> does i (\<lambda>s. f (h s))"
  unfolding acts_def does_def by (metis touches_trans)

lemma does_deactivate [does_rules]: "does i (llcc_deactivate_below ks ret)"
proof -
  have "acts i (\<lambda>s. fold (\<lambda>k. tell (Llcc_deactivate k)) (rev ks) s)"
    by (intro does_rules)
  from acts_comp[OF acts_llcc_flag(1) this] show ?thesis
    unfolding llcc_deactivate_below_def by (rule does_then) (rule does_put_all)
qed

lemma does_syscache_packet [does_rules]: "does i syscache_packet"
  unfolding syscache_packet_def by (intro does_rules)

lemma does_syscache [does_rules]: "does i iris_hfi_gen1_syscache_config"
  unfolding iris_hfi_gen1_syscache_config_def
  by (intro does_rules acts_llcc_flag does_then[OF acts_llcc_flag(1)[where b = True]])

lemma does_command [does_rules]: "does i (command i is_flush pkt)"
  unfolding command_def by (intro does_rules)

lemma does_open [does_rules]: "does i (iris_hfi_gen1_session_open i)"
  unfolding iris_hfi_gen1_session_open_def by (intro does_rules)

lemma does_start [does_rules]: "does i (iris_hfi_gen1_session_start i plane)"
  unfolding iris_hfi_gen1_session_start_def by (intro does_rules)

lemma does_stop_and_unload [does_rules]: "does i (stop_and_unload i)"
  unfolding stop_and_unload_def by (intro does_rules)

lemma does_return_buffers [does_rules]: "does i (return_buffers i)"
  unfolding return_buffers_def by (intro does_rules)

lemma acts_count_flush [does_rules]: "acts i (count_flush i)"
  unfolding count_flush_def by (rule acts_modify) (simp add: owned_simps)

lemma does_flush [does_rules]: "does i (session_flush i plane)"
  unfolding session_flush_def by (intro does_rules)

lemma does_stop [does_rules]: "does i (iris_hfi_gen1_session_stop i plane)"
  unfolding iris_hfi_gen1_session_stop_def by (intro does_rules)

lemma does_queue_internal [does_rules]: "does i (iris_hfi_gen1_queue_internal_buffer i b)"
  unfolding iris_hfi_gen1_queue_internal_buffer_def Let_def by (intro does_rules)

lemma does_queue_buffer [does_rules]: "does i (iris_hfi_gen1_session_queue_buffer i b)"
proof -
  have "does i (iris_hfi_gen1_queue_input_buffer i b)" "does i (iris_hfi_gen1_queue_output_buffer i b)"
    "does i (\<lambda>s. (- EINVAL, s))"
    unfolding iris_hfi_gen1_queue_input_buffer_def iris_hfi_gen1_queue_output_buffer_def
    by (intro does_rules)+
  then show ?thesis
    by (cases "buf_type b") (simp_all add: iris_hfi_gen1_session_queue_buffer_def does_queue_internal)
qed

lemma does_unset_buffers [does_rules]: "does i (iris_hfi_gen1_session_unset_buffers i b)"
  unfolding iris_hfi_gen1_session_unset_buffers_def Let_def
  by (simp; intro conjI impI does_rules)

lemma does_set_property [does_rules]: "does i (hfi_gen1_set_property k ty p n)"
proof -
  have "acts i (if c then tell Oops else id)" for c
    using does_rules by (auto simp: acts_def)
  then have "does i (\<lambda>s. case iris_hfi_gen1_packet_session_set_property (inst_heap s k) ty p of
         Inl e \<Rightarrow> (if e = - EOPNOTSUPP then 0 else e, s)
       | Inr ws \<Rightarrow> and_then (run (if unat (16 + 4 + n) < 4 * length ws then tell Oops else id))
                    (send ws) s)"
    by (intro does_rules)
  then show ?thesis unfolding hfi_gen1_set_property_def by (rule does_kzalloc)
qed

lemma does_set_words [does_rules]: "does i (set_words i ty f)"
  unfolding set_words_def Let_def
  using does_set_property by (simp add: does_def)

lemma does_set_resolution [does_rules]: "does i (iris_hfi_gen1_set_resolution i plane)"
  unfolding iris_hfi_gen1_set_resolution_def by (intro does_rules)

lemma does_set_raw_format [does_rules]: "does i (iris_hfi_gen1_set_raw_format i plane)"
  unfolding iris_hfi_gen1_set_raw_format_def Let_def by (intro does_rules)

lemma does_set_format_constraints [does_rules]: "does i (iris_hfi_gen1_set_format_constraints i plane)"
  unfolding iris_hfi_gen1_set_format_constraints_def by (intro does_rules)

lemma does_set_count [does_rules]: "does i (set_count i ty n)" "does i (set_size i ty n)"
  unfolding set_count_def set_size_def by (intro does_rules)+

lemma does_set_num_bufs [does_rules]: "does i (iris_hfi_gen1_set_num_bufs i plane)"
  unfolding iris_hfi_gen1_set_num_bufs_def by (intro does_rules)

lemma does_set_multistream [does_rules]: "does i (iris_hfi_gen1_set_multistream i plane)"
  unfolding iris_hfi_gen1_set_multistream_def Let_def by (intro does_rules)

lemma does_set_bufsize [does_rules]: "does i (iris_hfi_gen1_set_bufsize i plane)"
  unfolding iris_hfi_gen1_set_bufsize_def by (intro does_rules)

lemma does_get_requirements [does_rules]: "does i (iris_hfi_gen1_get_buffer_requirements i)"
  unfolding iris_hfi_gen1_get_buffer_requirements_def by (intro does_rules)

lemma does_set_stride [does_rules]: "does i (iris_hfi_gen1_set_stride i plane)"
  unfolding iris_hfi_gen1_set_stride_def by (intro does_rules)

lemma does_set_frame_rate [does_rules]: "does i (iris_hfi_gen1_set_frame_rate i plane)"
  unfolding iris_hfi_gen1_set_frame_rate_def by (intro does_rules)

lemma touches_modify: "(\<And>x. owned (h x) = owned x) \<Longrightarrow> touches i s (modify_inst i h s)"
  using acts_modify[of "\<lambda>_. h" i] by (simp add: acts_def)

lemma does_decide_core [does_rules]: "does i (iris_hfi_gen1_decide_core i plane)"
proof -
  have m: "touches i s (modify_inst i (hfi_core_id_update (\<lambda>_. c)) s)" for s c
    by (rule touches_modify) (simp add: owned_simps)
  have p: "hfi_gen1_set_property i ty q n s = (r, t) \<Longrightarrow> touches i s t" for ty q n s r t
    using does_set_property[of i i ty q n] by (metis does_def snd_conv)
  have a: "touches i s (if hfi_core_id (inst_heap s i) = 0
      then modify_inst i (hfi_core_id_update (\<lambda>_. chosen_core i s)) s else s)" for s
    by (simp add: m)
  have u: "touches i s t \<Longrightarrow> touches i s (modify_inst i (hfi_core_id_update (\<lambda>_. 0)) t)" for s t
    using m touches_trans by blast
  show ?thesis
    unfolding does_def iris_hfi_gen1_decide_core_def
    by (simp only: Let_def split: prod.splits)
      (auto simp only: snd_conv split: if_splits dest!: p intro!: u intro: touches_trans[OF a])
qed

lemma does_capture_config [does_rules]: "does i (iris_hfi_gen1_set_first_capture_config i)"
proof -
  have "does i (run_all (capture_config i a b))" for a b
    by (rule does_run_all) (auto simp: capture_config_def intro!: does_rules)
  note config = this
  have flag: "acts i (modify_inst i (capture_format_changed_update (\<lambda>_. False)))"
    by (rule acts_modify) (simp add: owned_simps)
  show ?thesis
    unfolding iris_hfi_gen1_set_first_capture_config_def
    by (intro config flag does_bind does_if does_and_then does_run does_return does_ask
        does_set_raw_format does_set_format_constraints quiet_calls)
qed

lemma handlers_do:
  "(ty, h) \<in> set vdec_prop_type_handle_inp_arr \<union> set vdec_prop_type_handle_out_arr \<union>
     set venc_prop_type_handle_inp_arr \<Longrightarrow> does i (h i plane)"
  by (auto simp: vdec_prop_type_handle_inp_arr_def vdec_prop_type_handle_out_arr_def
      venc_prop_type_handle_inp_arr_def intro: does_rules)

lemma steps_do:
  "hs \<in> {vdec_prop_type_handle_inp_arr, vdec_prop_type_handle_out_arr, venc_prop_type_handle_inp_arr} \<Longrightarrow>
   f \<in> set (config_steps hs ps i plane) \<Longrightarrow> does i f"
  by (auto simp: config_steps_def split: option.splits dest!: map_of_SomeD[OF sym] intro: handlers_do)

lemma touches_if: "touches i s (snd x) \<Longrightarrow> touches i s (snd y) \<Longrightarrow> touches i s (snd (if c then x else y))"
  by simp

lemma does_config [does_rules]: "does i (iris_hfi_gen1_session_set_config_params i plane)"
proof -
  have r: "does i (\<lambda>s. if V4L2_TYPE_IS_OUTPUT plane then iris_hfi_gen1_get_buffer_requirements i s else (0, s))"
    by (intro does_rules)
  have steps: "touches i s (snd (and_then (run_all fs)
      (\<lambda>s. if V4L2_TYPE_IS_OUTPUT plane then iris_hfi_gen1_get_buffer_requirements i s else (0, s)) s))"
    if "\<And>f. f \<in> set fs \<Longrightarrow> does i f" for fs s
    using does_and_then[OF does_run_all[OF that] r] by (simp only: does_def)
  have "touches i s (snd (iris_hfi_gen1_set_first_capture_config i s))" for s
    using does_capture_config by (simp only: does_def)
  then show ?thesis
    unfolding does_def iris_hfi_gen1_session_set_config_params_def Let_def
    by (intro allI touches_if steps) (auto split: if_splits intro: steps_do[rotated])
qed

lemma does_send_session [does_rules]:
  "does i (iris_hfi_gen1_session_continue i plane)" "does i (iris_hfi_gen1_session_drain i plane)"
  "does i (iris_hfi_gen1_session_close i)"
  unfolding iris_hfi_gen1_session_continue_def iris_hfi_gen1_session_drain_def
    iris_hfi_gen1_session_close_def
  by (intro does_rules)+

interpretation gen1: firmware_ops gen1_ops
  by unfold_locales
    (simp_all add: gen1_ops_def iris_hfi_gen1_session_set_property_def does_rules)

lemma property_body_sizes:
  assumes "property_body inst ty p = Inr (n, ws)"
  shows "16 + n = 4 * word_of_nat (5 + length ws) \<and> length ws \<le> 16 \<and> ws \<noteq> [] \<and>
    (1 < length ws \<longleftrightarrow> ty \<notin> {HFI_PROPERTY_CONFIG_VIDEOCORES_USAGE, HFI_PROPERTY_PARAM_VDEC_OUTPUT_ORDER,
       HFI_PROPERTY_PARAM_WORK_ROUTE, HFI_PROPERTY_PARAM_WORK_MODE,
       HFI_PROPERTY_CONFIG_VENC_SYNC_FRAME_SEQUENCE_HEADER, HFI_PROPERTY_PARAM_VENC_RATE_CONTROL})"
  using assms unfolding property_body_def Let_def plane_constraints_def
  by (simp only: split: if_split_asm) auto

section \<open>The size of a property packet\<close>

text \<open>
  C19. A set-property packet announces exactly the bytes written to it, at most 84 of them. A
  caller that allows for four bytes of payload gets a packet within its allocation for six
  properties only; the bitrate and the entropy mode, which the controls set with four bytes,
  are not among them, so their packets are built and sent past the end of the allocation.
\<close>

theorem gen1_property_packet:
  assumes "iris_hfi_gen1_packet_session_set_property inst ty p = Inr ws"
  shows "hd ws = 4 * word_of_nat (length ws) \<and> 6 \<le> length ws \<and> length ws \<le> 21 \<and>
    (4 * length ws \<le> unat (16 + 4 + 4 :: u32) \<longleftrightarrow>
       ty \<in> {HFI_PROPERTY_CONFIG_VIDEOCORES_USAGE, HFI_PROPERTY_PARAM_VDEC_OUTPUT_ORDER,
         HFI_PROPERTY_PARAM_WORK_ROUTE, HFI_PROPERTY_PARAM_WORK_MODE,
         HFI_PROPERTY_CONFIG_VENC_SYNC_FRAME_SEQUENCE_HEADER, HFI_PROPERTY_PARAM_VENC_RATE_CONTROL})"
proof -
  from assms obtain n b where b: "property_body inst ty p = Inr (n, b)"
    and ws: "ws = [16 + n, HFI_CMD_SESSION_SET_PROPERTY, session_id inst, 1, ty] @ b"
    by (auto simp: iris_hfi_gen1_packet_session_set_property_def split: sum.splits prod.splits)
  have "4 * length ws \<le> unat (16 + 4 + 4 :: u32) \<longleftrightarrow> \<not> 1 < length b"
    using property_body_sizes[OF b] by (auto simp: ws)
  then show ?thesis
    using property_body_sizes[OF b] by (cases b) (auto simp: ws)
qed

lemma gen1_property_packet_witness:
  "\<exists>ws. iris_hfi_gen1_packet_session_set_property zero_inst HFI_PROPERTY_CONFIG_VENC_TARGET_BITRATE (\<lambda>_. 7) = Inr ws \<and>
     \<not> 4 * length ws \<le> unat (16 + 4 + 4 :: u32)"
proof -
  have "iris_hfi_gen1_packet_session_set_property zero_inst HFI_PROPERTY_CONFIG_VENC_TARGET_BITRATE (\<lambda>_. 7) =
    Inr [28, HFI_CMD_SESSION_SET_PROPERTY, 0, 1, HFI_PROPERTY_CONFIG_VENC_TARGET_BITRATE, 7, 0]"
    by (simp add: iris_hfi_gen1_packet_session_set_property_def property_body_def zero_inst_def)
  with gen1_property_packet[OF this] show ?thesis by simp
qed

section \<open>Which core a decoder session runs on\<close>

lemma does_any_heap:
  assumes "\<And>i. does i f"
  shows "inst_heap (snd (f s)) = inst_heap s"
proof
  fix j
  show "inst_heap (snd (f s)) j = inst_heap s j"
    using assms[of "Suc j"] by (simp add: does_def touches_def)
qed

lemma set_property_heap: "hfi_gen1_set_property i ty p n s = (r, t) \<Longrightarrow> inst_heap t = inst_heap s"
  using does_any_heap[OF does_set_property] by (metis snd_conv)

lemma decide_core_assigns:
  assumes "iris_hfi_gen1_decide_core i plane s = (r, t)"
  shows "inst_heap t = (inst_heap s)(i := (inst_heap s i)\<lparr>hfi_core_id :=
      (if hfi_core_id (inst_heap s i) \<noteq> 0 then hfi_core_id (inst_heap s i)
       else if r \<noteq> 0 then 0
       else if legacy_vpu5 (platform s) \<and> 1 < num_vpp_pipe (platform s) \<and>
               core_load_on HFI_CORE_ID_2 i s < core_load_on HFI_CORE_ID_1 i s then HFI_CORE_ID_2
       else HFI_CORE_ID_1)\<rparr>)"
  using assms
  by (auto simp: iris_hfi_gen1_decide_core_def Let_def chosen_core_def fun_upd_def fun_eq_iff
      split: if_splits prod.splits dest!: set_property_heap)

section \<open>Packets on their way to the firmware\<close>

text \<open>The bytes of a packet in the ring, and the words the firmware reads there.\<close>

definition frame_of :: "u32 list \<Rightarrow> u8 list" where
  "frame_of ws = List.map (packet_bytes ws) [0..<4 * length ws]"

definition frame_words :: "u8 list \<Rightarrow> u32 list" where
  "frame_words p = List.map (\<lambda>k. load_u32 (nth p) (4 * k)) [0..<length p div 4]"

lemma bytes_join:
  "word_of_nat (unat (ucast w :: u8) + 2 ^ 8 * unat (ucast (drop_bit 8 w) :: u8) +
     2 ^ 16 * unat (ucast (drop_bit 16 w) :: u8) + 2 ^ 24 * unat (ucast (drop_bit 24 w) :: u8)) = w"
  for w :: u32
proof -
  let ?n = "unat w"
  have "unat (drop_bit k w) = ?n div 2 ^ k" for k
    by (simp only: unat_drop_bit_eq) (simp only: drop_bit_eq_div)
  then have byte: "unat (ucast (drop_bit k w) :: u8) = ?n div 2 ^ k mod 256" for k
    by (simp add: unsigned_ucast_eq take_bit_eq_mod)
  have p: "(2::nat) ^ 8 = 256" "(2::nat) ^ 16 = 65536" "(2::nat) ^ 24 = 16777216" by simp_all
  define a b c where "a = ?n div 2 ^ 8" and "b = ?n div 2 ^ 16" and "c = ?n div 2 ^ 24"
  have "b = a div 256" "c = b div 256"
    by (simp_all add: a_def b_def c_def div_mult2_eq[symmetric])
  moreover have "c < 256"
    using unsigned_less[of w, where 'a = nat] by (simp add: c_def less_mult_imp_div_less)
  moreover have "?n = 256 * a + ?n mod 256" by (simp add: a_def)
  moreover have "a = 256 * (a div 256) + a mod 256" "b = 256 * (b div 256) + b mod 256" by simp_all
  ultimately have "?n mod 256 + 2 ^ 8 * (a mod 256) + 2 ^ 16 * (b mod 256) + 2 ^ 24 * (c mod 256) = ?n"
    unfolding p using mod_less[of c 256] by linarith
  then have "?n mod 256 + 2 ^ 8 * (?n div 2 ^ 8 mod 256) + 2 ^ 16 * (?n div 2 ^ 16 mod 256) +
      2 ^ 24 * (?n div 2 ^ 24 mod 256) = ?n"
    by (simp only: a_def b_def c_def)
  moreover have "unat (ucast w :: u8) = ?n mod 256" using byte[of 0] by simp
  ultimately show ?thesis by (simp only: byte of_nat_unat ucast_id)
qed

lemma load_frame: "k < length ws \<Longrightarrow> load_u32 (nth (frame_of ws)) (4 * k) = ws ! k"
proof -
  assume k: "k < length ws"
  have "frame_of ws ! (4 * k + j) = ucast (drop_bit (8 * j) (ws ! k))" if "j < 4" for j
    using k that by (simp add: frame_of_def packet_bytes_def)
  from this[of 0] this[of 1] this[of 2] this[of 3] show ?thesis
    using bytes_join[of "ws ! k"] by (simp add: load_u32_def add.assoc)
qed

lemma frame_words_of: "frame_words (frame_of ws) = ws"
proof (rule nth_equalityI)
  have l: "length (frame_of ws) div 4 = length ws" by (simp add: frame_of_def)
  show "length (frame_words (frame_of ws)) = length ws" by (simp add: frame_words_def l)
  show "frame_words (frame_of ws) ! k = ws ! k" if "k < length (frame_words (frame_of ws))" for k
    using that by (simp add: frame_words_def l load_frame)
qed

text \<open>A packet whose header announces its own length, and not too long a one.\<close>

definition wf_packet :: "u32 list \<Rightarrow> bool" where
  "wf_packet ws \<longleftrightarrow> ws \<noteq> [] \<and> length ws \<le> 1024 \<and> hd ws = 4 * word_of_nat (length ws)"

lemma unat_hd_packet: "wf_packet ws \<Longrightarrow> unat (hd ws) = 4 * length ws"
  by (auto simp: wf_packet_def unat_word_ariths unat_of_nat)

lemma frame_of_hfi: "wf_packet ws \<Longrightarrow> hfi_frame (frame_of ws)"
  using load_frame[of 0 ws] unat_hd_packet[of ws]
  by (cases ws) (auto simp: hfi_frame_def wf_packet_def frame_of_def)

lemma send_delivers:
  assumes "core_state s = IRIS_CORE_INIT" "q_ring (command_queue s) = Some q" "ring_holds q ps"
    "4 * length ws < ring_size - ring_fill q" "0 \<le> env s (length (klog s))" "wf_packet ws"
  shows "\<exists>t q'. send ws s = (0, t) \<and> q_ring (command_queue t) = Some q' \<and>
    ring_holds q' (ps @ [frame_of ws]) \<and> frame_words (frame_of ws) = ws"
proof -
  obtain q' where q': "iris_hfi_queue_write q (packet_bytes ws) (hd ws) = (0, q')" "ring_ok q'"
    "ring_pending q' = ring_pending q @ frame_of ws"
    using write_appends[of q "hd ws" "packet_bytes ws"] assms(3,4) unat_hd_packet[OF assms(6)]
    by (auto simp: ring_holds_def frame_of_def)
  have "ring_holds q' (ps @ [frame_of ws])"
    using q' assms(3) frame_of_hfi[OF assms(6)] by (simp add: ring_holds_def)
  then show ?thesis
    using assms(1,2,5) q'(1)
    by (simp add: send_def or_oops_def iris_hfi_queue_cmd_write_def pm_runtime_resume_and_get_def
        ask_def Let_def iris_hfi_queue_cmd_write_locked_def tell_def kernel_simps frame_words_of)
qed

lemma join_halves: "push_bit 32 (ucast (upper_32_bits x)) OR ucast (lower_32_bits x) = x"
  unfolding upper_32_bits_def lower_32_bits_def
  by (rule bit_word_eqI) (auto simp: bit_simps not_le)


definition ready_sys :: iris_sys where
  "ready_sys = (probed_sys sm8150_data [] (\<lambda>_. 1) (\<lambda>_ x. x))
     \<lparr>core_state := IRIS_CORE_INIT, command_queue := zero_iface_q_info\<lparr>q_ring := Some empty_ring\<rparr>\<rparr>"

lemma ready_sys_sel [simp]:
  "core_state ready_sys = IRIS_CORE_INIT" "q_ring (command_queue ready_sys) = Some empty_ring"
  "env ready_sys = (\<lambda>_. 1)" "inst_heap ready_sys = (\<lambda>_. zero_inst)"
  by (simp_all add: ready_sys_def probed_sys_defs)


lemma mbpf_load_pos:
  fixes m f :: u32
  assumes "0 < m" "m < 2 ^ 31" "0 < f"
  shows "(0 :: u64) < scast m * ucast f"
proof -
  have "sint m = int (unat m)"
    using assms(2) signed_take_bit_int_eq_self[of 31 "uint m"] uint_ge_0[of m]
    by (simp add: sint_uint word_less_def)
  then have "(scast m :: u64) = word_of_nat (unat m)" by (metis of_int_of_nat_eq scast_eq)
  then have e: "scast m * ucast f = (word_of_nat (unat m * unat f) :: u64)" 
    by (simp add: unsigned_ucast_eq)
  have "unat m * unat f < 2 ^ 31 * 2 ^ 32"
    using assms(2) unsigned_less[of f, where 'a = nat]
    by (intro mult_strict_mono) (auto simp: word_less_nat_alt)
  moreover have "0 < unat m * unat f" using assms by (simp add: word_less_nat_alt)
  ultimately have "0 < unat (word_of_nat (unat m * unat f) :: u64)"
    by (simp only: unat_of_nat) simp
  then show ?thesis unfolding e word_less_nat_alt by (simp only: unat_0)
qed

text \<open>
  Two decoder sessions that choose their core one after the other, on a VPU with two
  cores and no other session, get different cores.
\<close>

theorem gen1_cores_spread:
  assumes "legacy_vpu5 (platform s)" "1 < num_vpp_pipe (platform s)" "instances s = [i, j]" "i \<noteq> j"
    and sessions: "\<And>k. k \<in> {i, j} \<Longrightarrow> hfi_session_opened (inst_heap s k) \<and> domain (inst_heap s k) = DECODER \<and>
      hfi_core_id (inst_heap s k) = 0 \<and> iris_get_mbpf (inst_heap s k) \<in> {1..<2 ^ 31}"
    and run: "iris_hfi_gen1_decide_core i plane s = (0, t)" "iris_hfi_gen1_decide_core j plane t = (0, u)"
  shows "hfi_core_id (inst_heap u i) = HFI_CORE_ID_1 \<and> hfi_core_id (inst_heap u j) = HFI_CORE_ID_2"
proof -
  have i: "hfi_session_opened (inst_heap s i)" "domain (inst_heap s i) = DECODER"
    "hfi_core_id (inst_heap s i) = 0" "0 < iris_get_mbpf (inst_heap s i)" "iris_get_mbpf (inst_heap s i) < 2 ^ 31"
    and j: "hfi_core_id (inst_heap s j) = 0"
    using sessions[of i] sessions[of j] by (auto simp: word_le_def word_less_def)
  have "session_frame t = session_frame s"
    using does_decide_core[of i plane] run(1) by (metis does_def snd_conv touches_def)
  note same = session_frame_sel[OF this]
  have fps: "0 < decide_fps x" for x
    by (auto simp: decide_fps_def Let_def max_def word_less_nat_alt word_le_nat_alt)
  have t: "inst_heap t = (inst_heap s)(i := (inst_heap s i)\<lparr>hfi_core_id := HFI_CORE_ID_1\<rparr>)"
    using decide_core_assigns[OF run(1)] assms(3,4) i j by (simp add: core_load_on_def Let_def)
  have m: "iris_get_mbpf ((inst_heap s i)\<lparr>hfi_core_id := c\<rparr>) = iris_get_mbpf (inst_heap s i)" for c
    by (simp add: iris_get_mbpf_def)
  have "core_load_on HFI_CORE_ID_2 j t = 0" "0 < core_load_on HFI_CORE_ID_1 j t"
    using mbpf_load_pos[OF i(4,5) fps] assms(3,4) i
    by (simp_all add: core_load_on_def Let_def same t m)
  then show ?thesis
    using decide_core_assigns[OF run(2)] assms(1,2,4) j by (simp add: same t)
qed

definition two_sessions :: iris_sys where
  "two_sessions = ready_sys\<lparr>instances := [0, 1], inst_heap := (\<lambda>_. zero_inst\<lparr>hfi_session_opened := True,
     fmt_src := zero_pix\<lparr>pix_width := 1920, pix_height := 1080\<rparr>\<rparr>)\<rparr>"

lemma gen1_cores_spread_witness:
  "\<exists>t u. iris_hfi_gen1_decide_core 0 OUTPUT_MPLANE two_sessions = (0, t) \<and>
     iris_hfi_gen1_decide_core 1 OUTPUT_MPLANE t = (0, u) \<and>
     hfi_core_id (inst_heap u 0) = 1 \<and> hfi_core_id (inst_heap u 1) = 2"
proof -
  have run: "fst (iris_hfi_gen1_decide_core 0 OUTPUT_MPLANE two_sessions) = 0"
    "fst (iris_hfi_gen1_decide_core 1 OUTPUT_MPLANE (snd (iris_hfi_gen1_decide_core 0 OUTPUT_MPLANE two_sessions))) = 0"
    by code_simp+
  obtain t u where tu: "iris_hfi_gen1_decide_core 0 OUTPUT_MPLANE two_sessions = (0, t)"
    "iris_hfi_gen1_decide_core 1 OUTPUT_MPLANE t = (0, u)"
    using run by (metis eq_fst_iff snd_conv)
  have "legacy_vpu5 (platform two_sessions)" "1 < num_vpp_pipe (platform two_sessions)"
    "instances two_sessions = [0, 1]"
    by (simp_all add: two_sessions_def ready_sys_def probed_sys_defs sm8150_data_def)
  moreover have "hfi_session_opened (inst_heap two_sessions k) \<and> domain (inst_heap two_sessions k) = DECODER \<and>
      hfi_core_id (inst_heap two_sessions k) = 0 \<and> iris_get_mbpf (inst_heap two_sessions k) \<in> {1..<2 ^ 31}" for k
    by (simp add: two_sessions_def zero_inst_def iris_get_mbpf_def NUM_MBS_PER_FRAME_def
        DIV_ROUND_UP_def zero_rect_def)
  ultimately show ?thesis
    using gen1_cores_spread[OF _ _ _ _ _ tu] tu by auto
qed

section \<open>Isolation\<close>

text \<open>
  C21. Sessions are isolated from each other. Whatever commands are sent for the sessions of a
  set, in any order and with any outcome, the other sessions are unchanged, no session loses
  what the driver recorded for it (its identity, whether it is open, its reserved load), and
  the power votes, the power state and the list of sessions stay as they are; the core may
  only fall into the error state.
\<close>

theorem gen1_sessions_isolated:
  assumes "command_run gen1_ops S s t" "firmware_keeps_owned s"
  shows "(\<forall>j. j \<notin> S \<longrightarrow> inst_heap t j = inst_heap s j) \<and>
    (\<forall>j. owned (inst_heap t j) = owned (inst_heap s j)) \<and>
    instances t = instances s \<and> power t = power s \<and> icc_avg_bw t = icc_avg_bw s \<and>
    vpu_powered t = vpu_powered s \<and> vpu_suspended t = vpu_suspended s \<and>
    (core_state t = core_state s \<or> core_state t = IRIS_CORE_ERROR) \<and> (\<exists>l. klog t = klog s @ l)"
proof -
  have frame: "session_frame t = session_frame s" using gen1.run_confined[OF assms(1)] by blast
  show ?thesis
    using gen1.run_confined[OF assms(1)] assms(2) session_frame_sel[OF frame] by blast
qed

lemma gen1_sessions_isolated_witness:
  "\<exists>t r. iris_hfi_gen1_session_start 0 OUTPUT_MPLANE two_sessions = (r, t) \<and>
     inst_heap t 1 = inst_heap two_sessions 1 \<and> power t = power two_sessions"
proof -
  obtain r t where t: "iris_hfi_gen1_session_start 0 OUTPUT_MPLANE two_sessions = (r, t)"
    by (metis surj_pair)
  have "session_command gen1_ops 0 (iris_hfi_gen1_session_start 0 OUTPUT_MPLANE)"
    using session_command.intros(4)[of gen1_ops 0 OUTPUT_MPLANE] by (simp add: gen1_ops_def)
  then have "command_run gen1_ops {0} two_sessions t"
    using command_run.command[of 0 "{0}" gen1_ops "iris_hfi_gen1_session_start 0 OUTPUT_MPLANE"
        two_sessions r t t] t command_run.nothing by blast
  moreover have "firmware_keeps_owned two_sessions"
    by (simp add: firmware_keeps_owned_def two_sessions_def ready_sys_def probed_sys_defs)
  ultimately have "inst_heap t 1 = inst_heap two_sessions 1 \<and> power t = power two_sessions"
    using gen1_sessions_isolated[of "{0}" two_sessions t] by fastforce
  then show ?thesis using t by blast
qed

end
