(* ===== verification/IrisGen1Ctrls.thy ===== *)
theory IrisGen1Ctrls
  imports IrisCtrls IrisGen1Ops
begin

text \<open>
  The controls over the Gen1 interface (\<open>iris_ctrls.c\<close>, \<open>iris_platform_sm8250.c\<close> and
  \<open>iris_hfi_gen1_command.c\<close> together): every value the control framework can hand to a
  capability of the Gen1 tables becomes one packet the packet builder accepts.
\<close>

section \<open>Sending a property\<close>

lemma send_quiet:
  assumes "core_state s = IRIS_CORE_INIT" "q_ring (command_queue s) = Some q" "ring_holds q ps"
    "4 * length ws < ring_size - ring_fill q" "0 \<le> env s (length (klog s))" "wf_packet ws"
    "send ws s = (r, t)"
  shows "\<exists>l. klog t = klog s @ l \<and> Oops \<notin> set l"
proof -
  obtain q' where "iris_hfi_queue_write q (packet_bytes ws) (hd ws) = (0, q')"
    using write_appends[of q "hd ws" "packet_bytes ws"] assms(3,4) unat_hd_packet[OF assms(6)]
    by (auto simp: ring_holds_def frame_of_def)
  then show ?thesis
    using assms(1,2,5,7)
    by (auto simp: send_def or_oops_def iris_hfi_queue_cmd_write_def pm_runtime_resume_and_get_def
        ask_def Let_def iris_hfi_queue_cmd_write_locked_def tell_def iris_vpu_raise_interrupt_def
        writel_def split: if_splits)
qed

lemma set_property_delivers:
  assumes up: "core_state s = IRIS_CORE_INIT" "q_ring (command_queue s) = Some q" "ring_holds q ps"
      "84 < ring_size - ring_fill q" "\<And>n. 0 < env s n"
    and pkt: "iris_hfi_gen1_packet_session_set_property (inst_heap s i) ty p = Inr ws"
  shows "\<exists>t q' l. hfi_gen1_set_property i ty p n s = (0, t) \<and> q_ring (command_queue t) = Some q' \<and>
    ring_holds q' (ps @ [frame_of ws]) \<and> frame_words (frame_of ws) = ws \<and>
    klog t = klog s @ l \<and> (Oops \<in> set l \<longleftrightarrow> unat (16 + 4 + n) < 4 * length ws)"
proof -
  have wf: "wf_packet ws" "4 * length ws \<le> 84"
    using pkt by (auto simp: wf_packet_def iris_hfi_gen1_packet_session_set_property_def
        split: sum.splits prod.splits dest!: property_body_sizes)
  let ?s1 = "snd (ask Kzalloc s)"
  let ?s2 = "(if unat (16 + 4 + n) < 4 * length ws then tell Oops else id) ?s1"
  have s2: "core_state ?s2 = IRIS_CORE_INIT" "q_ring (command_queue ?s2) = Some q" "\<And>n. 0 < env ?s2 n"
    "inst_heap ?s2 = inst_heap s"
    "klog ?s2 = klog s @ [Kzalloc (env s (length (klog s)))] @ (if unat (16 + 4 + n) < 4 * length ws then [Oops] else [])"
    using up by (auto simp: ask_def tell_def Let_def)
  obtain t q' where t: "send ws ?s2 = (0, t)" "q_ring (command_queue t) = Some q'"
    "ring_holds q' (ps @ [frame_of ws])" "frame_words (frame_of ws) = ws"
    using send_delivers[OF s2(1,2) up(3), of ws] wf up(4) s2(3) by (auto intro: less_imp_le)
  obtain l where l: "klog t = klog ?s2 @ l" "Oops \<notin> set l"
    using send_quiet[OF s2(1,2) up(3), of ws 0 t] wf up(4) s2(3) t(1) by (auto intro: less_imp_le)
  have "hfi_gen1_set_property i ty p n s = send ws ?s2"
    using up(5)[of "length (klog s)"] pkt
    by (simp add: hfi_gen1_set_property_def kzalloc_def ask_def Let_def and_then_def run_def)
  moreover have "klog t = klog s @ ([Kzalloc (env s (length (klog s)))] @
      (if unat (16 + 4 + n) < 4 * length ws then [Oops] else []) @ l)"
    unfolding l(1) s2(5) by simp
  ultimately show ?thesis using t l(2) by fastforce
qed

text \<open>
  What the control framework guarantees of the value of a control: it lies in the range of
  the capability, and the value of a menu is not one the mask leaves out.
\<close>

definition admits :: "platform_inst_fw_cap \<Rightarrow> int \<Rightarrow> bool" where
  "admits c v \<longleftrightarrow> cap_min c \<le> v \<and> v \<le> cap_max c \<and>
     (has (cap_flags c) CAP_FLAG_MENU \<longrightarrow> bit (step_or_mask c) (nat v))"

text \<open>The capabilities of a session are those of a table, each with an admitted value.\<close>

definition controlled_by :: "platform_inst_fw_cap list \<Rightarrow> iris_inst \<Rightarrow> bool" where
  "controlled_by tbl inst \<longleftrightarrow>
     (\<forall>c\<in>set tbl. \<exists>v fl. admits c v \<and>
        fw_caps inst (cap_id c) = c\<lparr>cap_flags := fl, cap_value := v\<rparr>)"

lemma bit_menu_mask: "bit (menu_mask xs) n \<longleftrightarrow> (\<exists>x\<in>set xs. n = nat x)"
  by (induction xs) (auto simp: menu_mask_def bit_or_iff bit_exp_iff)


fun setter_property :: "cap_setter \<Rightarrow> u32" where
  "setter_property Set_pipe = HFI_PROPERTY_PARAM_WORK_ROUTE"
| "setter_property Set_stage = HFI_PROPERTY_PARAM_WORK_MODE"
| "setter_property Set_profile_level_gen1 = HFI_PROPERTY_PARAM_PROFILE_LEVEL_CURRENT"
| "setter_property Set_header_mode_gen1 = HFI_PROPERTY_CONFIG_VENC_SYNC_FRAME_SEQUENCE_HEADER"
| "setter_property Set_bitrate = HFI_PROPERTY_CONFIG_VENC_TARGET_BITRATE"
| "setter_property Set_bitrate_mode_gen1 = HFI_PROPERTY_PARAM_VENC_RATE_CONTROL"
| "setter_property Set_gop_size_gen1 = HFI_PROPERTY_CONFIG_VENC_INTRA_PERIOD"
| "setter_property Set_entropy_mode_gen1 = HFI_PROPERTY_PARAM_VENC_H264_ENTROPY_CONTROL"
| "setter_property Set_qp_range = HFI_PROPERTY_PARAM_VENC_SESSION_QP_RANGE_V2"

lemma table_property:
  assumes "tbl \<in> {inst_fw_cap_sm8250_dec, inst_fw_cap_sm8150_dec, inst_fw_cap_sm8250_enc}"
    "c \<in> set tbl" "cap_set c = Some st"
  shows "hfi_id c = setter_property st" "st \<in> {Set_pipe, Set_stage} \<or> tbl = inst_fw_cap_sm8250_enc"
  using assms
  by (auto simp: inst_fw_cap_sm8250_dec_def inst_fw_cap_sm8150_dec_def inst_fw_cap_sm8250_enc_def)

lemma controlled_values:
  assumes "controlled_by inst_fw_cap_sm8250_enc inst"
  shows "cap_value (fw_caps inst PROFILE_H264) \<in> {0, 1, 2, 4, 15, 16}"
    "cap_value (fw_caps inst PROFILE_HEVC) \<in> {0, 1, 2}"
    "cap_value (fw_caps inst BITRATE_MODE) \<in> {0, 1}"
    "cap_value (fw_caps inst MIN_FRAME_QP_H264) \<in> {1..51}"
    "cap_value (fw_caps inst MAX_FRAME_QP_H264) \<in> {1..51}"
    "cap_value (fw_caps inst MIN_FRAME_QP_HEVC) \<in> {1..63}"
    "cap_value (fw_caps inst MAX_FRAME_QP_HEVC) \<in> {1..63}"
proof -
  have k: "admits (inst_fw_cap_sm8250_enc ! k)
      (cap_value (fw_caps inst (cap_id (inst_fw_cap_sm8250_enc ! k))))"
    if "k < length inst_fw_cap_sm8250_enc" for k
    using assms nth_mem[OF that] by (force simp: controlled_by_def)
  have "has (CAP_FLAG_OUTPUT_PORT OR CAP_FLAG_MENU) CAP_FLAG_MENU"
    by (simp add: CAP_FLAG_MENU_def CAP_FLAG_OUTPUT_PORT_def has_def BIT_def)
  note menu = this bit_menu_mask
  show "cap_value (fw_caps inst PROFILE_H264) \<in> {0, 1, 2, 4, 15, 16}"
    using k[of 1] by (auto simp: inst_fw_cap_sm8250_enc_def admits_def menu)
  show "cap_value (fw_caps inst PROFILE_HEVC) \<in> {0, 1, 2}"
    using k[of 2] by (auto simp: inst_fw_cap_sm8250_enc_def admits_def menu)
  show "cap_value (fw_caps inst BITRATE_MODE) \<in> {0, 1}"
    using k[of 7] by (auto simp: inst_fw_cap_sm8250_enc_def admits_def)
  show "cap_value (fw_caps inst MIN_FRAME_QP_H264) \<in> {1..51}"
    using k[of 12] by (simp add: inst_fw_cap_sm8250_enc_def admits_def MIN_QP_8BIT_def MAX_QP_def)
  show "cap_value (fw_caps inst MAX_FRAME_QP_H264) \<in> {1..51}"
    using k[of 14] by (simp add: inst_fw_cap_sm8250_enc_def admits_def MIN_QP_8BIT_def MAX_QP_def)
  show "cap_value (fw_caps inst MIN_FRAME_QP_HEVC) \<in> {1..63}"
    using k[of 13] by (simp add: inst_fw_cap_sm8250_enc_def admits_def MIN_QP_8BIT_def MAX_QP_HEVC_def)
  show "cap_value (fw_caps inst MAX_FRAME_QP_HEVC) \<in> {1..63}"
    using k[of 15] by (simp add: inst_fw_cap_sm8250_enc_def admits_def MIN_QP_8BIT_def MAX_QP_HEVC_def)
qed


lemma profile_bits:
  "v \<in> {0, 1, 2, 4, 15, 16} \<Longrightarrow> \<exists>p. h264_profile_bit v = Some p"
  "v \<in> {0, 1, 2} \<Longrightarrow> \<exists>p. hevc_profile_bit v = Some p"
  by (auto simp: h264_profile_bit_def hevc_profile_bit_def)

text \<open>Every routine of the tables sends one accepted packet, or leaves the session alone.\<close>

lemma setter_accepted:
  assumes tbl: "tbl \<in> {inst_fw_cap_sm8250_dec, inst_fw_cap_sm8150_dec, inst_fw_cap_sm8250_enc}"
    "controlled_by tbl (inst_heap s i)" "c \<in> set tbl" "cap_set c = Some st"
    and sends: "\<not> (st = Set_entropy_mode_gen1 \<and> codec (inst_heap s i) \<noteq> V4L2_PIX_FMT_H264)"
  shows "\<exists>f ws n pkt.
    run_setter gen1_ops st i (cap_id c) s =
       hfi_gen1_set_property i (setter_property st) (words ws) n (modify_inst i f s) \<and>
    iris_hfi_gen1_packet_session_set_property (inst_heap (modify_inst i f s) i) (setter_property st)
       (words ws) = Inr pkt \<and>
    pkt ! 1 = HFI_CMD_SESSION_SET_PROPERTY \<and> pkt ! 4 = setter_property st \<and>
    (unat (16 + 4 + n) < 4 * length pkt \<longleftrightarrow> st \<in> {Set_bitrate, Set_entropy_mode_gen1})"
proof -
  let ?inst = "inst_heap s i"
  have id: "modify_inst i (\<lambda>x. x) s = s" by (simp add: modify_inst_def)
  have hid: "hfi_id (fw_caps ?inst (cap_id c)) = setter_property st"
    using tbl table_property(1)[OF tbl(1,3,4)] by (force simp: controlled_by_def)
  have enc: "controlled_by inst_fw_cap_sm8250_enc ?inst" if "st \<notin> {Set_pipe, Set_stage}"
    using table_property(2)[OF tbl(1,3,4)] that tbl(2) by auto
  note unf = gen1_ops_def put_property_def iris_hfi_gen1_session_set_property_def Let_def hid id
  have simple: ?thesis
    if "run_setter gen1_ops st i (cap_id c) s =
        hfi_gen1_set_property i (setter_property st) (words ws) n (modify_inst i f s)"
      "property_body (f ?inst) (setter_property st) (words ws) = Inr (m, b)"
      "unat (16 + 4 + n) < 4 * (5 + length b) \<longleftrightarrow> st \<in> {Set_bitrate, Set_entropy_mode_gen1}"
    for f ws n m b
    using that by - (rule exI[of _ f], rule exI[of _ ws], rule exI[of _ n],
      simp add: iris_hfi_gen1_packet_session_set_property_def)
  have words_nth: "words ws k = (if k < length ws then ws ! k else 0)" for ws k
    by (simp add: words_def)
  note body = property_body_def words_nth Let_def
  show ?thesis
  proof (cases st)
    case Set_pipe
    show ?thesis
      by (rule simple[of _ 4 "\<lambda>x. x"],
          (simp add: Set_pipe unf iris_set_pipe_def body)+)
  next
    case Set_stage
    show ?thesis
      by (rule simple[of _ 4 "\<lambda>x. x"],
          (simp add: Set_stage unf iris_set_stage_def body)+)
  next
    case Set_profile_level_gen1
    with enc have enc: "controlled_by inst_fw_cap_sm8250_enc ?inst" by simp
    obtain p q where p: "h264_profile_bit (cap_value (fw_caps ?inst PROFILE_H264)) = Some p"
        "hevc_profile_bit (cap_value (fw_caps ?inst PROFILE_HEVC)) = Some q"
      using profile_bits controlled_values(1,2)[OF enc] by blast
    show ?thesis
    proof (cases "codec ?inst = V4L2_PIX_FMT_H264")
      case True
      show ?thesis
        by (rule simple[of "[p, BIT (nat (cap_value (fw_caps ?inst LEVEL_H264)))]" 8 "\<lambda>x. x"],
            (simp add: Set_profile_level_gen1 unf iris_set_profile_level_gen1_def body p True del: One_nat_def)+)
    next
      case False
      show ?thesis
        by (rule simple[of "[q, BIT (nat (cap_value (fw_caps ?inst LEVEL_HEVC)))]" 8 "\<lambda>x. x"],
            (simp add: Set_profile_level_gen1 unf iris_set_profile_level_gen1_def body p False del: One_nat_def)+)
    qed
  next
    case Set_header_mode_gen1
    show ?thesis
      by (rule simple[of _ 4 "\<lambda>x. x"],
          (simp add: Set_header_mode_gen1 unf iris_set_header_mode_gen1_def body)+)
  next
    case Set_bitrate
    show ?thesis
      by (rule simple[of _ 4 "\<lambda>x. x"],
          (simp add: Set_bitrate unf iris_set_bitrate_def body)+)
  next
    case Set_bitrate_mode_gen1
    with enc have mode: "cap_value (fw_caps ?inst BITRATE_MODE) = 0 \<or>
        cap_value (fw_caps ?inst BITRATE_MODE) = 1"
      using controlled_values(3) by simp
    define rc where "rc =
      (let skip = cap_value (fw_caps ?inst FRAME_SKIP_MODE) \<noteq> 0 in
       if cap_value (fw_caps ?inst FRAME_RC_ENABLE) = 0 then HFI_RATE_CONTROL_OFF
       else if cap_value (fw_caps ?inst BITRATE_MODE) = 0
       then (if skip then HFI_RATE_CONTROL_VBR_VFR else HFI_RATE_CONTROL_VBR_CFR)
       else (if skip then HFI_RATE_CONTROL_CBR_VFR else HFI_RATE_CONTROL_CBR_CFR))"
    have rc: "rc \<in> {HFI_RATE_CONTROL_OFF, HFI_RATE_CONTROL_VBR_VFR, HFI_RATE_CONTROL_VBR_CFR,
        HFI_RATE_CONTROL_CBR_VFR, HFI_RATE_CONTROL_CBR_CFR}"
      by (simp add: rc_def Let_def)
    have "run_setter gen1_ops st i (cap_id c) s = hfi_gen1_set_property i (setter_property st)
        (words [rc]) 4 (modify_inst i (hfi_rc_type_update (\<lambda>_. rc)) s)"
      using mode by (auto simp: Set_bitrate_mode_gen1 unf iris_set_bitrate_mode_gen1_def rc_def)
    moreover have "property_body x (setter_property st) (words [rc]) = Inr (8, [rc])" for x
      using rc by (auto simp: Set_bitrate_mode_gen1 body)
    ultimately show ?thesis
      by (intro simple[of "[rc]" 4 "hfi_rc_type_update (\<lambda>_. rc)" 8 "[rc]"])
        (simp_all add: Set_bitrate_mode_gen1)
  next
    case Set_gop_size_gen1
    show ?thesis
      by (rule simple[of _ 8 "\<lambda>x. x"],
          (simp add: Set_gop_size_gen1 unf iris_set_gop_size_gen1_def body)+)
  next
    case Set_entropy_mode_gen1
    with sends have h264: "codec ?inst = V4L2_PIX_FMT_H264" by simp
    show ?thesis
      by (rule simple[of _ 4 "\<lambda>x. x"],
          (simp add: Set_entropy_mode_gen1 unf iris_set_entropy_mode_gen1_def body h264)+)
  next
    case Set_qp_range
    with enc have enc: "controlled_by inst_fw_cap_sm8250_enc ?inst" by simp
    have small: "\<not> 0xff < cap_u32 ?inst c" if "cap_value (fw_caps ?inst c) \<in> {1..63}" for c
      using that by (simp add: cap_u32_def word_less_def uint_word_of_int)
    define lo hi where "lo = (if codec ?inst = V4L2_PIX_FMT_HEVC then cap_u32 ?inst MIN_FRAME_QP_HEVC
        else cap_u32 ?inst MIN_FRAME_QP_H264)"
      and "hi = (if codec ?inst = V4L2_PIX_FMT_HEVC then cap_u32 ?inst MAX_FRAME_QP_HEVC
        else cap_u32 ?inst MAX_FRAME_QP_H264)"
    have qp: "\<not> 0xff < lo" "\<not> 0xff < hi"
      using controlled_values(4-7)[OF enc] by (auto simp: lo_def hi_def intro!: small)
    have "run_setter gen1_ops st i (cap_id c) s = hfi_gen1_set_property i (setter_property st)
        (words [lo, 0, 0, 0, 0, 0, hi]) 64 (modify_inst i (\<lambda>x. x) s)"
      by (simp add: Set_qp_range unf iris_set_qp_range_def lo_def hi_def)
    then show ?thesis
      by (rule simple, use qp in \<open>(simp add: Set_qp_range body)+\<close>)
  qed
qed

section \<open>Every admitted control reaches the firmware\<close>

text \<open>
  C22. Whatever values the control framework admits, with the core up and room in the command
  ring, the routine of every capability of the Gen1 tables succeeds: it adds one set-property
  packet, with the property of the capability, behind those pending, or (the entropy mode of
  a stream that is not H.264) sends nothing. No admitted value is refused. The packet lies
  inside its allocation except for the bitrate and the entropy mode, for which it never does.
\<close>

theorem gen1_controls_delivered:
  assumes tbl: "tbl \<in> {inst_fw_cap_sm8250_dec, inst_fw_cap_sm8150_dec, inst_fw_cap_sm8250_enc}"
      "controlled_by tbl (inst_heap s i)" "c \<in> set tbl" "cap_set c = Some st"
    and up: "core_state s = IRIS_CORE_INIT" "q_ring (command_queue s) = Some q" "ring_holds q ps"
      "84 < ring_size - ring_fill q" "\<And>n. 0 < env s n"
  shows "if st = Set_entropy_mode_gen1 \<and> codec (inst_heap s i) \<noteq> V4L2_PIX_FMT_H264
    then run_setter gen1_ops st i (cap_id c) s = (0, s)
    else \<exists>t q' p l. run_setter gen1_ops st i (cap_id c) s = (0, t) \<and>
      q_ring (command_queue t) = Some q' \<and> ring_holds q' (ps @ [p]) \<and>
      frame_words p ! 1 = HFI_CMD_SESSION_SET_PROPERTY \<and> frame_words p ! 4 = hfi_id c \<and>
      klog t = klog s @ l \<and> (Oops \<in> set l \<longleftrightarrow> st \<in> {Set_bitrate, Set_entropy_mode_gen1})"
proof (cases "st = Set_entropy_mode_gen1 \<and> codec (inst_heap s i) \<noteq> V4L2_PIX_FMT_H264")
  case True
  then show ?thesis by (simp add: iris_set_entropy_mode_gen1_def Let_def)
next
  case False
  obtain f ws n pkt where run: "run_setter gen1_ops st i (cap_id c) s =
      hfi_gen1_set_property i (setter_property st) (words ws) n (modify_inst i f s)"
    and pkt: "iris_hfi_gen1_packet_session_set_property (inst_heap (modify_inst i f s) i)
      (setter_property st) (words ws) = Inr pkt" "pkt ! 1 = HFI_CMD_SESSION_SET_PROPERTY"
      "pkt ! 4 = setter_property st"
      "unat (16 + 4 + n) < 4 * length pkt \<longleftrightarrow> st \<in> {Set_bitrate, Set_entropy_mode_gen1}"
    using setter_accepted[OF tbl] False by blast
  have up': "core_state (modify_inst i f s) = IRIS_CORE_INIT"
    "q_ring (command_queue (modify_inst i f s)) = Some q" "\<And>n. 0 < env (modify_inst i f s) n"
    using up by (simp_all add: modify_inst_def)
  obtain t q' l where t: "hfi_gen1_set_property i (setter_property st) (words ws) n (modify_inst i f s) = (0, t)"
    "q_ring (command_queue t) = Some q'" "ring_holds q' (ps @ [frame_of pkt])"
    "frame_words (frame_of pkt) = pkt" "klog t = klog s @ l"
    "Oops \<in> set l \<longleftrightarrow> unat (16 + 4 + n) < 4 * length pkt"
    using set_property_delivers[OF up'(1,2) up(3,4) up'(3) pkt(1), of n] by auto
  have "hfi_id c = setter_property st" using table_property(1)[OF tbl(1,3,4)] .
  with t pkt have "run_setter gen1_ops st i (cap_id c) s = (0, t) \<and>
      q_ring (command_queue t) = Some q' \<and> ring_holds q' (ps @ [frame_of pkt]) \<and>
      frame_words (frame_of pkt) ! 1 = HFI_CMD_SESSION_SET_PROPERTY \<and>
      frame_words (frame_of pkt) ! 4 = hfi_id c \<and> klog t = klog s @ l \<and>
      (Oops \<in> set l \<longleftrightarrow> st \<in> {Set_bitrate, Set_entropy_mode_gen1})"
    by (simp only: run simp_thms)
  then show ?thesis using False by (simp only: if_False) blast
qed

definition encoder_sys :: iris_sys where
  "encoder_sys = modify_inst 0 (\<lambda>x. x\<lparr>domain := ENCODER, codec := V4L2_PIX_FMT_H264,
     fw_caps := session_caps inst_fw_cap_sm8250_enc\<rparr>) ready_sys"

lemma session_caps_entry:
  assumes "distinct (List.map cap_id tbl)" "c \<in> set tbl" "iris_valid_cap_id (cap_id c)"
  shows "session_caps tbl (cap_id c) = c"
  using assms(1,2)
proof (induction tbl rule: rev_induct)
  case (snoc x xs)
  show ?case
  proof (cases "c = x")
    case False
    with snoc.prems have "c \<in> set xs" "cap_id c \<noteq> cap_id x" by (auto simp: image_iff)
    then show ?thesis using snoc by (simp add: session_caps_def)
  qed (use assms(3) in \<open>simp add: session_caps_def\<close>)
qed simp

lemma encoder_sys_controlled: "controlled_by inst_fw_cap_sm8250_enc (inst_heap encoder_sys 0)"
proof -
  have ids: "List.map cap_id inst_fw_cap_sm8250_enc = [9, 1, 2, 4, 5, 16, 18, 20, 21, 22, 23, 24, 25, 26, 27, 28]"
    by (simp add: inst_fw_cap_sm8250_enc_def)
  have "admits c (cap_value c)" if "c \<in> set inst_fw_cap_sm8250_enc" for c
    using that by (auto simp: inst_fw_cap_sm8250_enc_def admits_def bit_menu_mask MIN_QP_8BIT_def
        MAX_QP_def MAX_QP_HEVC_def BITRATE_MIN_def BITRATE_MAX_def BITRATE_DEFAULT_def
        CAP_FLAG_MENU_def CAP_FLAG_OUTPUT_PORT_def CAP_FLAG_INPUT_PORT_def
        CAP_FLAG_DYNAMIC_ALLOWED_def has_def BIT_def)
  moreover have "session_caps inst_fw_cap_sm8250_enc (cap_id c) = c"
    if c: "c \<in> set inst_fw_cap_sm8250_enc" for c
  proof (rule session_caps_entry[OF _ c])
    show "distinct (List.map cap_id inst_fw_cap_sm8250_enc)" by (simp add: ids)
    have "cap_id c \<in> set (List.map cap_id inst_fw_cap_sm8250_enc)" using c by simp
    then show "iris_valid_cap_id (cap_id c)" by (auto simp: ids iris_valid_cap_id_def)
  qed
  moreover have "fw_caps (inst_heap encoder_sys 0) = session_caps inst_fw_cap_sm8250_enc"
    by (simp add: encoder_sys_def modify_inst_def)
  ultimately have "admits c (cap_value c) \<and> fw_caps (inst_heap encoder_sys 0) (cap_id c) =
      c\<lparr>cap_flags := cap_flags c, cap_value := cap_value c\<rparr>" if "c \<in> set inst_fw_cap_sm8250_enc" for c
    using that by simp
  then show ?thesis unfolding controlled_by_def by blast
qed

lemma gen1_controls_delivered_witness:
  "\<exists>t l. iris_set_bitrate gen1_ops 0 BITRATE encoder_sys = (0, t) \<and>
     klog t = klog encoder_sys @ l \<and> Oops \<in> set l"
proof -
  have c: "inst_fw_cap_sm8250_enc ! 6 \<in> set inst_fw_cap_sm8250_enc"
    "cap_set (inst_fw_cap_sm8250_enc ! 6) = Some Set_bitrate"
    "cap_id (inst_fw_cap_sm8250_enc ! 6) = BITRATE"
    by (simp_all add: inst_fw_cap_sm8250_enc_def)
  have "core_state encoder_sys = IRIS_CORE_INIT" "q_ring (command_queue encoder_sys) = Some empty_ring"
    "\<And>n. 0 < env encoder_sys n"
    by (simp_all add: encoder_sys_def modify_inst_def)
  from gen1_controls_delivered[OF _ encoder_sys_controlled c(1,2) this(1,2), of "[]"] this(3)
  show ?thesis by (simp add: c(3)) blast
qed

end
