(* ===== verification/IrisBuffers.thy ===== *)
theory IrisBuffers
  imports IrisHfiOps
begin

text \<open>
  The buffers of a session (\<open>iris_buffer.c\<close> from \<open>iris_fill_internal_buf_info()\<close> on, and the
  buffer and time-stamp helpers of \<open>iris_common.c\<close>): the sizes and counts of the internal
  buffers, their allocation, queueing, release and destruction, the deferred client buffers,
  and the completion of a client buffer.
\<close>

section \<open>References to buffers\<close>

text \<open>
  A \<open>struct iris_buffer *\<close>: an internal buffer by its place on the list of its type, a client
  buffer by its index in the source or destination queue of the memory-to-memory context,
  which holds at most one buffer of an index. A reference that no longer resolves is the
  event \<open>Oops\<close>.
\<close>

datatype buf_ref = Internal iris_buffer_type nat | Src u32 | Dst u32

fun find_buf :: "iris_inst \<Rightarrow> buf_ref \<Rightarrow> iris_buffer option" where
  "find_buf x (Internal ty k) =
     (let l = buf_list (buffers x ty) in if k < length l then Some (l ! k) else None)"
| "find_buf x (Src n) = List.find (\<lambda>b. buf_index b = n) (m2m_src x)"
| "find_buf x (Dst n) = List.find (\<lambda>b. buf_index b = n) (m2m_dst x)"

definition on_internal :: "iris_buffer_type \<Rightarrow> (iris_buffer list \<Rightarrow> iris_buffer list) \<Rightarrow> iris_inst \<Rightarrow> iris_inst" where
  "on_internal ty f x = x\<lparr>buffers := (buffers x)(ty := (buffers x ty)\<lparr>buf_list := f (buf_list (buffers x ty))\<rparr>)\<rparr>"

fun map_buf :: "(iris_buffer \<Rightarrow> iris_buffer) \<Rightarrow> buf_ref \<Rightarrow> iris_inst \<Rightarrow> iris_inst" where
  "map_buf f (Internal ty k) = on_internal ty (\<lambda>l. l[k := f (l ! k)])"
| "map_buf f (Src n) = m2m_src_update (List.map (\<lambda>b. if buf_index b = n then f b else b))"
| "map_buf f (Dst n) = m2m_dst_update (List.map (\<lambda>b. if buf_index b = n then f b else b))"

definition with_buf :: "nat \<Rightarrow> buf_ref \<Rightarrow> (iris_buffer \<Rightarrow> iris_sys \<Rightarrow> int \<times> iris_sys) \<Rightarrow> iris_sys \<Rightarrow> int \<times> iris_sys" where
  "with_buf i r f s =
     (case find_buf (inst_heap s i) r of None \<Rightarrow> (- EIO, tell Oops s) | Some b \<Rightarrow> f b s)"

definition set_attr :: "nat \<Rightarrow> buf_ref \<Rightarrow> (u32 \<Rightarrow> u32) \<Rightarrow> iris_sys \<Rightarrow> iris_sys" where
  "set_attr i r f = modify_inst i (map_buf (buf_attr_update f) r)"

section \<open>Which internal buffers\<close>

definition int_buf_tbl :: "iris_platform_data \<Rightarrow> domain_type \<Rightarrow> u32 \<Rightarrow> iris_buffer_type list" where
  "int_buf_tbl pd d plane =
     (case d of
        DECODER \<Rightarrow> if V4L2_TYPE_IS_OUTPUT plane then dec_ip_int_buf_tbl pd else dec_op_int_buf_tbl pd
      | ENCODER \<Rightarrow> if V4L2_TYPE_IS_OUTPUT plane then enc_ip_int_buf_tbl pd else enc_op_int_buf_tbl pd)"

definition plane_types :: "nat \<Rightarrow> u32 \<Rightarrow> iris_sys \<Rightarrow> iris_buffer_type list" where
  "plane_types i plane s = int_buf_tbl (platform s) (domain (inst_heap s i)) plane"

definition iris_fill_internal_buf_info ::
    "iris_platform_data \<Rightarrow> iris_buffer_type \<Rightarrow> iris_inst \<Rightarrow> iris_inst" where
  "iris_fill_internal_buf_info pd ty inst =
     (let calculated_size = word_of_int (iris_vpu_buf_size pd inst ty) :: u32;
          fw_size = fw_buffer_sizes inst ty;
          exact_firmware_size = (domain inst = DECODER \<and> legacy_vpu5 pd \<and> fw_size \<noteq> 0)
      in inst\<lparr>buffers := (buffers inst)(ty := (buffers inst ty)
           \<lparr>buf_size := (if exact_firmware_size then fw_size else max calculated_size fw_size),
            min_count := word_of_int (iris_vpu_buf_count pd inst ty)\<rparr>)\<rparr>)"

definition iris_get_internal_buffers :: "nat \<Rightarrow> u32 \<Rightarrow> iris_sys \<Rightarrow> iris_sys" where
  "iris_get_internal_buffers i plane s =
     modify_inst i (fold (iris_fill_internal_buf_info (platform s)) (plane_types i plane s)) s"

section \<open>Allocation\<close>

definition alloc_internal :: "nat \<Rightarrow> iris_buffer_type \<Rightarrow> u32 \<Rightarrow> u32 \<Rightarrow> iris_sys \<Rightarrow> int \<times> iris_sys" where
  "alloc_internal i ty index sz s =
     (case dma_alloc_attrs sz s of (v, d, s1) \<Rightarrow>
      if v = 0 then (- ENOMEM, s1)
      else (0, modify_inst i (on_internal ty (\<lambda>l. l @
             [zero_buffer\<lparr>buf_type := ty,
                buf_index := (if ty = BUF_DPB then VIDEO_MAX_FRAME + index else index),
                buffer_size := ucast sz, device_addr := d, kvaddr := v\<rparr>])) s1))"

definition iris_create_internal_buffer :: "nat \<Rightarrow> iris_buffer_type \<Rightarrow> u32 \<Rightarrow> iris_sys \<Rightarrow> int \<times> iris_sys" where
  "iris_create_internal_buffer i ty index s =
     (let sz = buf_size (buffers (inst_heap s i) ty) in
      if sz = 0 then (0, s) else kzalloc (alloc_internal i ty index sz) s)"

definition create_of_type :: "nat \<Rightarrow> iris_buffer_type \<Rightarrow> iris_sys \<Rightarrow> int \<times> iris_sys" where
  "create_of_type i ty s =
     run_all (List.map (\<lambda>j. iris_create_internal_buffer i ty (of_nat j))
                [0..<unat (min_count (buffers (inst_heap s i) ty))]) s"

definition iris_create_internal_buffers :: "nat \<Rightarrow> u32 \<Rightarrow> iris_sys \<Rightarrow> int \<times> iris_sys" where
  "iris_create_internal_buffers i plane s = run_all (List.map (create_of_type i) (plane_types i plane s)) s"

section \<open>Queueing\<close>

definition iris_queue_buffer :: "iris_hfi_command_ops \<Rightarrow> nat \<Rightarrow> buf_ref \<Rightarrow> iris_sys \<Rightarrow> int \<times> iris_sys" where
  "iris_queue_buffer ops i r =
     with_buf i r (\<lambda>b s. case session_queue_buf ops i b s of (ret, s1) \<Rightarrow>
       if ret \<noteq> 0 then (ret, s1)
       else (0, set_attr i r (\<lambda>a. (a AND NOT BUF_ATTR_DEFERRED) OR BUF_ATTR_QUEUED) s1))"

text \<open>
  A loop over the buffers of a type: \<open>skip\<close> is the condition of its \<open>continue\<close> statements.
\<close>

definition visit ::
    "nat \<Rightarrow> (iris_buffer \<Rightarrow> bool) \<Rightarrow> (buf_ref \<Rightarrow> iris_sys \<Rightarrow> int \<times> iris_sys) \<Rightarrow> buf_ref \<Rightarrow> iris_sys \<Rightarrow> int \<times> iris_sys" where
  "visit i skip act r = with_buf i r (\<lambda>b s. if skip b then (0, s) else act r s)"

definition each_internal ::
    "nat \<Rightarrow> iris_buffer_type \<Rightarrow> (buf_ref \<Rightarrow> iris_sys \<Rightarrow> int \<times> iris_sys) \<Rightarrow> iris_sys \<Rightarrow> int \<times> iris_sys" where
  "each_internal i ty act s =
     run_all (List.map (\<lambda>k. act (Internal ty k)) [0..<length (buf_list (buffers (inst_heap s i) ty))]) s"

definition released_or_queued :: "iris_buffer \<Rightarrow> bool" where
  "released_or_queued b \<longleftrightarrow> has (buf_attr b) BUF_ATTR_PENDING_RELEASE \<or> has (buf_attr b) BUF_ATTR_QUEUED"

definition iris_queue_internal_deferred_buffers ::
    "iris_hfi_command_ops \<Rightarrow> nat \<Rightarrow> iris_buffer_type \<Rightarrow> iris_sys \<Rightarrow> int \<times> iris_sys" where
  "iris_queue_internal_deferred_buffers ops i ty =
     each_internal i ty (visit i (\<lambda>b. released_or_queued b \<or> \<not> has (buf_attr b) BUF_ATTR_DEFERRED)
                           (iris_queue_buffer ops i))"

definition queue_or_defer :: "iris_hfi_command_ops \<Rightarrow> nat \<Rightarrow> buf_ref \<Rightarrow> iris_sys \<Rightarrow> int \<times> iris_sys" where
  "queue_or_defer ops i r = with_buf i r (\<lambda>b s.
     if buf_type b = BUF_DPB \<and> inst_state (inst_heap s i) \<noteq> IRIS_INST_STREAMING
     then (0, set_attr i r (\<lambda>a. a OR BUF_ATTR_DEFERRED) s)
     else iris_queue_buffer ops i r s)"

definition iris_queue_internal_buffers ::
    "iris_hfi_command_ops \<Rightarrow> nat \<Rightarrow> u32 \<Rightarrow> iris_sys \<Rightarrow> int \<times> iris_sys" where
  "iris_queue_internal_buffers ops i plane s =
     run_all (List.map (\<lambda>ty. each_internal i ty (visit i released_or_queued (queue_or_defer ops i)))
                (plane_types i plane s)) s"

section \<open>Release and destruction\<close>

text \<open>
  \<open>list_del\<close> of an entry: entries are told apart by their contents, as live allocations have
  different addresses.
\<close>

definition iris_destroy_internal_buffer :: "nat \<Rightarrow> iris_buffer_type \<Rightarrow> iris_buffer \<Rightarrow> iris_sys \<Rightarrow> int \<times> iris_sys" where
  "iris_destroy_internal_buffer i ty b s =
     (0, tell (Dma_free (ucast (buffer_size b)) (kvaddr b)) (modify_inst i (on_internal ty (remove1 b)) s))"

definition destroy_of_type :: "nat \<Rightarrow> bool \<Rightarrow> iris_buffer_type \<Rightarrow> iris_sys \<Rightarrow> int \<times> iris_sys" where
  "destroy_of_type i force ty s =
     run_all (List.map (iris_destroy_internal_buffer i ty)
                (filter (\<lambda>b. \<not> (\<not> force \<and> has (buf_attr b) BUF_ATTR_QUEUED))
                   (buf_list (buffers (inst_heap s i) ty)))) s"

definition persist_type :: "domain_type \<Rightarrow> iris_buffer_type" where
  "persist_type d = (case d of DECODER \<Rightarrow> BUF_PERSIST | ENCODER \<Rightarrow> BUF_ARP)"

definition iris_destroy_internal_buffers :: "nat \<Rightarrow> u32 \<Rightarrow> bool \<Rightarrow> iris_sys \<Rightarrow> int \<times> iris_sys" where
  "iris_destroy_internal_buffers i plane force s =
     run_all (List.map (destroy_of_type i force) (plane_types i plane s) @
        (if force then [destroy_of_type i True (persist_type (domain (inst_heap s i)))] else [])) s"

definition iris_destroy_all_internal_buffers :: "nat \<Rightarrow> u32 \<Rightarrow> iris_sys \<Rightarrow> int \<times> iris_sys" where
  "iris_destroy_all_internal_buffers i plane = iris_destroy_internal_buffers i plane True"

definition iris_destroy_dequeued_internal_buffers :: "nat \<Rightarrow> u32 \<Rightarrow> iris_sys \<Rightarrow> int \<times> iris_sys" where
  "iris_destroy_dequeued_internal_buffers i plane = iris_destroy_internal_buffers i plane False"

definition release_buffer :: "iris_hfi_command_ops \<Rightarrow> nat \<Rightarrow> buf_ref \<Rightarrow> iris_sys \<Rightarrow> int \<times> iris_sys" where
  "release_buffer ops i r =
     with_buf i r (\<lambda>b s. case session_release_buf ops i b s of (ret, s1) \<Rightarrow>
       if ret \<noteq> 0 then (ret, s1) else (0, set_attr i r (\<lambda>a. a OR BUF_ATTR_PENDING_RELEASE) s1))"

definition iris_release_internal_buffers ::
    "iris_hfi_command_ops \<Rightarrow> nat \<Rightarrow> iris_buffer_type \<Rightarrow> iris_sys \<Rightarrow> int \<times> iris_sys" where
  "iris_release_internal_buffers ops i ty =
     each_internal i ty (visit i (\<lambda>b. has (buf_attr b) BUF_ATTR_PENDING_RELEASE \<or>
                                      \<not> has (buf_attr b) BUF_ATTR_QUEUED) (release_buffer ops i))"

definition iris_release_input_internal_buffers ::
    "iris_hfi_command_ops \<Rightarrow> nat \<Rightarrow> iris_sys \<Rightarrow> int \<times> iris_sys" where
  "iris_release_input_internal_buffers ops i s =
     run_all (List.map (iris_release_internal_buffers ops i) (plane_types i OUTPUT_MPLANE s)) s"

section \<open>Allocating and queueing together\<close>

definition iris_alloc_and_queue_persist_bufs ::
    "iris_hfi_command_ops \<Rightarrow> nat \<Rightarrow> iris_buffer_type \<Rightarrow> iris_sys \<Rightarrow> int \<times> iris_sys" where
  "iris_alloc_and_queue_persist_bufs ops i ty s =
     (if buf_list (buffers (inst_heap s i) ty) \<noteq> [] then (0, s)
      else and_then (create_of_type i ty)
             (each_internal i ty (visit i released_or_queued (iris_queue_buffer ops i)))
             (modify_inst i (iris_fill_internal_buf_info (platform s) ty) s))"

definition iris_alloc_and_queue_input_int_bufs ::
    "iris_hfi_command_ops \<Rightarrow> nat \<Rightarrow> iris_sys \<Rightarrow> int \<times> iris_sys" where
  "iris_alloc_and_queue_input_int_bufs ops i s =
     run_all [iris_release_input_internal_buffers ops i,
              iris_create_internal_buffers i OUTPUT_MPLANE,
              iris_queue_internal_buffers ops i OUTPUT_MPLANE]
       (iris_get_internal_buffers i OUTPUT_MPLANE s)"

definition iris_queue_deferred_buffers ::
    "iris_hfi_command_ops \<Rightarrow> nat \<Rightarrow> iris_buffer_type \<Rightarrow> iris_sys \<Rightarrow> int \<times> iris_sys" where
  "iris_queue_deferred_buffers ops i ty s =
     (let s1 = snd (iris_scale_power i s); inst = inst_heap s1 i in
      run_all (List.map (visit i (\<lambda>b. \<not> has (buf_attr b) BUF_ATTR_DEFERRED) (iris_queue_buffer ops i))
                 (if ty = BUF_INPUT then List.map (\<lambda>b. Src (buf_index b)) (m2m_src inst)
                  else List.map (\<lambda>b. Dst (buf_index b)) (m2m_dst inst))) s1)"

section \<open>Client buffers\<close>

abbreviation (input) V4L2_BUF_FLAG_KEYFRAME :: u32 where "V4L2_BUF_FLAG_KEYFRAME \<equiv> 8"
abbreviation (input) V4L2_BUF_FLAG_PFRAME :: u32 where "V4L2_BUF_FLAG_PFRAME \<equiv> 0x10"
abbreviation (input) V4L2_BUF_FLAG_BFRAME :: u32 where "V4L2_BUF_FLAG_BFRAME \<equiv> 0x20"
abbreviation (input) V4L2_BUF_FLAG_ERROR :: u32 where "V4L2_BUF_FLAG_ERROR \<equiv> 0x40"
abbreviation (input) V4L2_BUF_FLAG_TIMECODE :: u32 where "V4L2_BUF_FLAG_TIMECODE \<equiv> 0x100"
abbreviation (input) V4L2_BUF_FLAG_TSTAMP_SRC_MASK :: u32 where "V4L2_BUF_FLAG_TSTAMP_SRC_MASK \<equiv> 0x70000"
abbreviation (input) V4L2_BUF_FLAG_LAST :: u32 where "V4L2_BUF_FLAG_LAST \<equiv> 0x100000"
abbreviation (input) V4L2_FIELD_ANY :: u32 where "V4L2_FIELD_ANY \<equiv> 0"
abbreviation (input) V4L2_FIELD_NONE :: u32 where "V4L2_FIELD_NONE \<equiv> 1"
abbreviation (input) V4L2_FIELD_INTERLACED :: u32 where "V4L2_FIELD_INTERLACED \<equiv> 4"
abbreviation (input) V4L2_EVENT_EOS :: u32 where "V4L2_EVENT_EOS \<equiv> 2"
abbreviation (input) NSEC_PER_USEC :: u64 where "NSEC_PER_USEC \<equiv> 1000"

definition ts_mask :: u32 where
  "ts_mask = V4L2_BUF_FLAG_TIMECODE OR V4L2_BUF_FLAG_TSTAMP_SRC_MASK"

text \<open>What \<open>struct vb2_v4l2_buffer\<close> and its first plane hold of a client buffer.\<close>

record vb2_buffer =
  vb_plane :: u32
  vb_index :: u32
  vb_fd :: int
  vb_length :: u32
  vb_data_offset :: u32
  vb_bytesused :: u32
  vb_timestamp :: u64
  vbuf_flags :: u32
  vbuf_timecode :: u64
  vbuf_field :: u32

definition iris_v4l2_type_to_driver :: "u32 \<Rightarrow> iris_buffer_type" where
  "iris_v4l2_type_to_driver ty = (if ty = OUTPUT_MPLANE then BUF_INPUT else BUF_OUTPUT)"

definition iris_vb2_buffer_to_driver :: "vb2_buffer \<Rightarrow> iris_buffer \<Rightarrow> iris_buffer" where
  "iris_vb2_buffer_to_driver vb buf =
     buf\<lparr>buf_type := iris_v4l2_type_to_driver (vb_plane vb), buf_index := vb_index vb,
         buf_fd := vb_fd vb, buffer_size := ucast (vb_length vb),
         data_offset := vb_data_offset vb,
         data_size := ucast (vb_bytesused vb - vb_data_offset vb),
         buf_flags := vbuf_flags vb, buf_timestamp := vb_timestamp vb, buf_attr := 0\<rparr>"

text \<open>The table of time stamps is a ring of 32 entries; the index wraps at the next use.\<close>

definition iris_set_ts_metadata :: "vb2_buffer \<Rightarrow> iris_inst \<Rightarrow> iris_inst" where
  "iris_set_ts_metadata vb inst =
     (let idx = (if 32 \<le> metadata_idx inst then 0 else metadata_idx inst)
      in inst\<lparr>tss := (tss inst)[unat idx :=
                \<lparr>ts_ns = vb_timestamp vb, ts_us = vb_timestamp vb div NSEC_PER_USEC,
                 ts_flags = vbuf_flags vb AND ts_mask, ts_tc = vbuf_timecode vb\<rparr>],
              metadata_idx := idx + 1\<rparr>)"

text \<open>
  The entry for a time stamp, else the one at the index, which may lie just past the table:
  then what is read is not part of it.
\<close>

definition iris_get_ts_metadata :: "iris_inst \<Rightarrow> u64 \<Rightarrow> iris_ts_metadata option" where
  "iris_get_ts_metadata inst timestamp_ns =
     (case List.find (\<lambda>m. ts_ns m = timestamp_ns) (tss inst) of
        Some m \<Rightarrow> Some m
      | None \<Rightarrow> if unat (metadata_idx inst) < length (tss inst)
                then Some (tss inst ! unat (metadata_idx inst)) else None)"

definition iris_vb2_queue_error :: "iris_sys \<Rightarrow> iris_sys" where
  "iris_vb2_queue_error s = tell (Vb2_queue_error CAPTURE_MPLANE) (tell (Vb2_queue_error OUTPUT_MPLANE) s)"

definition iris_helper_find_buf :: "u32 \<Rightarrow> u32 \<Rightarrow> iris_inst \<Rightarrow> iris_buffer option" where
  "iris_helper_find_buf plane n inst =
     List.find (\<lambda>b. buf_index b = n) (if V4L2_TYPE_IS_OUTPUT plane then m2m_src inst else m2m_dst inst)"

definition remove_by_idx :: "u32 \<Rightarrow> u32 \<Rightarrow> iris_inst \<Rightarrow> iris_inst" where
  "remove_by_idx plane n =
     (if V4L2_TYPE_IS_OUTPUT plane then m2m_src_update (filter (\<lambda>b. buf_index b \<noteq> n))
      else m2m_dst_update (filter (\<lambda>b. buf_index b \<noteq> n)))"

text \<open>The LAST buffer of a stream stops the context, with an event the first time.\<close>

definition mark_last :: "nat \<Rightarrow> iris_sys \<Rightarrow> iris_sys" where
  "mark_last i s =
     (case ask M2m_has_stopped s of (stopped, s1) \<Rightarrow>
      modify_inst i (last_buffer_dequeued_update (\<lambda>_. True))
        (if stopped = 0 then tell M2m_mark_stopped (tell (V4l2_event V4L2_EVENT_EOS) s1) else s1))"

definition complete_capture :: "nat \<Rightarrow> iris_buffer \<Rightarrow> u32 \<Rightarrow> iris_sys \<Rightarrow> u32 \<times> iris_sys" where
  "complete_capture i buf fl s =
     (let n = buf_index buf; inst = inst_heap s i;
          field = (if interlaced inst then V4L2_FIELD_INTERLACED else V4L2_FIELD_NONE);
          s1 = modify_inst i (sequence_cap_update (\<lambda>q. q + 1))
                 (tell (Vb2_sequence CAPTURE_MPLANE n (sequence_cap inst))
                   (tell (Vb2_field CAPTURE_MPLANE n field)
                     (tell (Vb2_payload CAPTURE_MPLANE n (data_size buf)) s)))
      in case iris_get_ts_metadata inst (buf_timestamp buf) of
           None \<Rightarrow> (fl AND NOT ts_mask, tell Oops s1)
         | Some m \<Rightarrow> ((fl AND NOT ts_mask) OR ts_flags m, tell (Vb2_timecode CAPTURE_MPLANE n (ts_tc m)) s1))"

definition complete_output :: "nat \<Rightarrow> iris_buffer \<Rightarrow> u32 \<Rightarrow> iris_sys \<Rightarrow> u32 \<times> iris_sys" where
  "complete_output i buf fl s =
     (fl, modify_inst i (sequence_out_update (\<lambda>q. q + 1))
        (tell (Vb2_sequence OUTPUT_MPLANE (buf_index buf) (sequence_out (inst_heap s i))) s))"

definition hand_back :: "u32 \<Rightarrow> u32 \<Rightarrow> u32 \<Rightarrow> u64 \<Rightarrow> int \<Rightarrow> iris_sys \<Rightarrow> iris_sys" where
  "hand_back plane n fl ts st s =
     tell (Buf_done plane n st) (tell (Vb2_timestamp plane n ts) (tell (Vb2_flags plane n fl) s))"

definition complete_buffer :: "nat \<Rightarrow> u32 \<Rightarrow> iris_buffer \<Rightarrow> u32 \<Rightarrow> iris_sys \<Rightarrow> iris_sys" where
  "complete_buffer i plane buf fl s =
     (case (if V4L2_TYPE_IS_CAPTURE plane then complete_capture i buf fl s
            else complete_output i buf fl s) of (fl', s1) \<Rightarrow>
      hand_back plane (buf_index buf) fl' (buf_timestamp buf) VB2_BUF_STATE_DONE
        (if has fl' V4L2_BUF_FLAG_LAST then mark_last i s1 else s1))"

definition iris_vb2_buffer_done :: "nat \<Rightarrow> iris_buffer \<Rightarrow> iris_sys \<Rightarrow> int \<times> iris_sys" where
  "iris_vb2_buffer_done i buf s =
     (if buf_type buf \<notin> {BUF_INPUT, BUF_OUTPUT} then (0, s)
      else let plane = (if buf_type buf = BUF_INPUT then OUTPUT_MPLANE else CAPTURE_MPLANE);
               n = buf_index buf
      in case iris_helper_find_buf plane n (inst_heap s i) of
           None \<Rightarrow> (- EINVAL, s)
         | Some vbuf \<Rightarrow>
             let s1 = modify_inst i (remove_by_idx plane n) s; fl = vb_flags vbuf OR buf_flags buf
             in (0, if start_streaming_rollback_type (inst_heap s i) = plane
                    then tell (Buf_done plane n VB2_BUF_STATE_QUEUED) s1
                    else if has (buf_flags buf) V4L2_BUF_FLAG_ERROR
                    then hand_back plane n fl 0 VB2_BUF_STATE_ERROR (tell (Vb2_payload plane n 0) s1)
                    else complete_buffer i plane buf fl s1))"

end
