(* ===== verification/IrisBufAccount.thy ===== *)
theory IrisBufAccount
  imports IrisBuffers IrisGen1Ops "HOL-Library.Multiset"
begin

text \<open>
  What the operations of \<open>IrisBuffers\<close> do to the DMA memory of a session: each is confined to
  the session, what is allocated and not freed is what its lists hold, and a source change
  frees nothing. The rules for the control structures are those of any reflexive and
  transitive relation between states (\<open>step_relation\<close>), interpreted for the contract of the
  firmware operations, for the accounting and for the growth of the lists.
\<close>

section \<open>Relations every step keeps\<close>

text \<open>
  An operation preserves a relation between the states before and after it. The rules for
  the control structures are proved once, for any reflexive and transitive relation.
\<close>

definition preserves :: "('s \<Rightarrow> 's \<Rightarrow> bool) \<Rightarrow> ('s \<Rightarrow> 'r \<times> 's) \<Rightarrow> bool" where
  "preserves R f \<longleftrightarrow> (\<forall>s. R s (snd (f s)))"

locale step_relation =
  fixes R :: "'s \<Rightarrow> 's \<Rightarrow> bool"
  assumes refl: "R s s"
    and trans: "R s t \<Longrightarrow> R t u \<Longrightarrow> R s u"
begin

lemma step: "preserves R f \<Longrightarrow> f s = (r, t) \<Longrightarrow> R s t"
  unfolding preserves_def by (metis snd_conv)

lemma bind: "preserves R f \<Longrightarrow> (\<And>r. preserves R (g r)) \<Longrightarrow> preserves R (\<lambda>s. case f s of (r, t) \<Rightarrow> g r t)"
  unfolding preserves_def by (metis (mono_tags, lifting) case_prod_conv prod.collapse trans)

lemma branch: "preserves R f \<Longrightarrow> preserves R g \<Longrightarrow> preserves R (\<lambda>s. if b s then f s else g s)"
  by (simp add: preserves_def)

lemma return: "preserves R (\<lambda>s. (r s, s))"
  by (simp add: preserves_def refl)

lemma and_then: "preserves R f \<Longrightarrow> preserves R g \<Longrightarrow> preserves R (and_then f g)"
  unfolding and_then_def by (rule bind, assumption) (simp add: preserves_def refl)

lemma run_all: "(\<And>f. f \<in> set fs \<Longrightarrow> preserves R f) \<Longrightarrow> R s (snd (run_all fs s))"
proof (induction fs arbitrary: s)
  case (Cons f fs)
  have "preserves R (and_then f (run_all fs))"
    using Cons by (intro and_then) (auto simp: preserves_def)
  then show ?case by (simp add: preserves_def)
qed (simp add: refl)

end

section \<open>The memory a session holds\<close>

instance iris_buffer_type :: finite
proof
  have "(UNIV :: iris_buffer_type set) \<subseteq> {BUF_INPUT, BUF_OUTPUT, BUF_BIN, BUF_ARP, BUF_COMV,
      BUF_NON_COMV, BUF_LINE, BUF_DPB, BUF_PERSIST, BUF_SCRATCH_1, BUF_SCRATCH_2, BUF_VPSS}"
    by (auto intro: iris_buffer_type.exhaust)
  then show "finite (UNIV :: iris_buffer_type set)" by (rule finite_subset) simp
qed

text \<open>The bytes at address \<open>a\<close> that the buffers on a list own, and those of all lists.\<close>

definition bytes_at :: "u64 \<Rightarrow> (u64 \<times> u64) list \<Rightarrow> int" where
  "bytes_at a l = (\<Sum>(v, n)\<leftarrow>l. if v = a then int (unat (ucast n :: u32)) else 0)"

definition held :: "u64 \<Rightarrow> iris_inst \<Rightarrow> int" where
  "held a x = (\<Sum>ty\<in>UNIV. bytes_at a (int_mem x ty))"

definition managed :: "iris_platform_data \<Rightarrow> domain_type \<Rightarrow> iris_buffer_type set" where
  "managed pd d = insert (persist_type d)
     (set (int_buf_tbl pd d OUTPUT_MPLANE) \<union> set (int_buf_tbl pd d CAPTURE_MPLANE))"

text \<open>What is allocated and not freed less what is held does not change, and only managed lists do.\<close>

definition unheld :: "nat \<Rightarrow> u64 \<Rightarrow> iris_sys \<Rightarrow> int" where
  "unheld i a s = balance (dma_weight a) s - held a (inst_heap s i)"

definition manages :: "nat \<Rightarrow> iris_buffer_type set \<Rightarrow> iris_sys \<Rightarrow> bool" where
  "manages i T s \<longleftrightarrow> firmware_keeps_owned s \<and> managed (platform s) (domain (inst_heap s i)) = T"

definition accounted :: "nat \<Rightarrow> iris_buffer_type set \<Rightarrow> iris_sys \<Rightarrow> iris_sys \<Rightarrow> bool" where
  "accounted i T s t \<longleftrightarrow> (manages i T s \<longrightarrow> manages i T t \<and> platform t = platform s \<and>
     domain (inst_heap t i) = domain (inst_heap s i) \<and>
     (\<forall>a. a \<noteq> 0 \<longrightarrow> unheld i a t = unheld i a s) \<and>
     (\<forall>ty. ty \<notin> T \<longrightarrow> int_mem (inst_heap t i) ty = int_mem (inst_heap s i) ty))"

interpretation accounting: step_relation "accounted i T" for i T
  by unfold_locales (auto simp: accounted_def)

lemma held_cong: "int_mem x = int_mem y \<Longrightarrow> held a x = held a y"
  by (simp add: held_def)

lemma bytes_at_simps [simp]:
  "bytes_at a [] = 0" "bytes_at a (l @ m) = bytes_at a l + bytes_at a m"
  "bytes_at a (p # l) = (if fst p = a then int (unat (ucast (snd p) :: u32)) else 0) + bytes_at a l"
  by (simp_all add: bytes_at_def split_def)

lemma held_on_internal:
  "held a (on_internal ty f x) = held a x - bytes_at a (int_mem x ty) +
     bytes_at a (int_mem (on_internal ty f x) ty)"
proof -
  have "int_mem (on_internal ty f x) u = int_mem x u" if "u \<noteq> ty" for u
    using that by (simp add: int_mem_def on_internal_def)
  then have "(\<Sum>u\<in>UNIV - {ty}. bytes_at a (int_mem (on_internal ty f x) u)) =
      (\<Sum>u\<in>UNIV - {ty}. bytes_at a (int_mem x u))"
    by (intro sum.cong) simp_all
  then show ?thesis by (simp add: held_def sum.remove[of UNIV ty])
qed

text \<open>What an operation confined to the session does, and a change of the lists together with the calls for it.\<close>

lemma quiet_balance: "klog t = klog s @ l \<Longrightarrow> list_all quiet l \<Longrightarrow> balance (dma_weight a) t = balance (dma_weight a) s"
proof -
  have "list_all quiet l \<Longrightarrow> sum_list (List.map (dma_weight a) l) = 0" by (induction l) (auto simp: quiet_def)
  then show "klog t = klog s @ l \<Longrightarrow> list_all quiet l \<Longrightarrow> ?thesis" by (simp add: balance_def)
qed

lemma touches_accounted: "touches i s t \<Longrightarrow> accounted i T s t"
proof -
  assume t: "touches i s t"
  then have f: "session_frame t = session_frame s" by (simp add: touches_def)
  have "firmware_keeps_owned t = firmware_keeps_owned s" "platform t = platform s"
    using session_frame_fw[OF f] session_frame_sel(2)[OF f] by (simp_all add: firmware_keeps_owned_def)
  moreover have "firmware_keeps_owned s \<Longrightarrow> domain (inst_heap t i) = domain (inst_heap s i)"
    "firmware_keeps_owned s \<Longrightarrow> int_mem (inst_heap t i) = int_mem (inst_heap s i)"
    using t by (simp_all add: touches_def owned_def)
  moreover obtain l where "klog t = klog s @ l" "list_all quiet l" using t by (auto simp: touches_def)
  then have "balance (dma_weight a) t = balance (dma_weight a) s" for a by (rule quiet_balance)
  ultimately show ?thesis
    by (simp add: accounted_def manages_def unheld_def held_cong[of "inst_heap t i" "inst_heap s i"])
qed

lemma does_accounted: "does i f \<Longrightarrow> preserves (accounted i T) f"
  by (simp add: does_def preserves_def touches_accounted)

lemma accounted_on_internal:
  assumes "ty \<in> T" "\<And>a. a \<noteq> 0 \<Longrightarrow> balance (dma_weight a) t - bytes_at a (int_mem (inst_heap t i) ty) =
      balance (dma_weight a) s - bytes_at a (int_mem (inst_heap s i) ty)"
    and "inst_heap t i = on_internal ty f (inst_heap s i)" "platform t = platform s" "fw_effect t = fw_effect s"
  shows "accounted i T s t"
proof -
  have "domain (on_internal ty f x) = domain x" "u \<notin> T \<Longrightarrow> int_mem (on_internal ty f x) u = int_mem x u" for u x
    using assms(1) by (auto simp: on_internal_def int_mem_def)
  moreover have "unheld i a t = unheld i a s" if "a \<noteq> 0" for a
    using assms(2)[OF that] by (simp add: unheld_def assms(3) held_on_internal)
  ultimately show ?thesis
    using assms(1,3-5) by (auto simp: accounted_def manages_def firmware_keeps_owned_def)
qed

text \<open>A rewriting of a list that keeps the memory of each entry.\<close>

lemma int_mem_map_buf [simp]:
  assumes "\<And>b. kvaddr (f b) = kvaddr b \<and> buffer_size (f b) = buffer_size b"
  shows "int_mem (map_buf f r x) = int_mem x"
proof (cases r)
  case (Internal ty k)
  show ?thesis
  proof (cases "k < length (buf_list (buffers x ty))")
    case True
    then have "List.map (\<lambda>b. (kvaddr b, buffer_size b)) ((buf_list (buffers x ty))[k := f (buf_list (buffers x ty) ! k)]) =
        List.map (\<lambda>b. (kvaddr b, buffer_size b)) (buf_list (buffers x ty))"
      using assms by (auto simp: map_update intro!: nth_equalityI simp: nth_list_update)
    then show ?thesis by (simp add: Internal int_mem_def on_internal_def fun_eq_iff)
  qed (simp add: Internal int_mem_def on_internal_def fun_eq_iff list_update_beyond)
qed (simp_all add: int_mem_def fun_eq_iff)

lemma owned_map_attr [simp]: "owned (map_buf (buf_attr_update f) r x) = owned x"
proof -
  have "int_mem (map_buf (buf_attr_update f) r x) = int_mem x" by simp
  then show ?thesis by (cases r) (simp_all add: owned_def on_internal_def)
qed

lemma acts_set_attr [does_rules]: "acts i (set_attr i r f)"
  unfolding set_attr_def by (intro does_rules) simp

lemma does_with_buf: "(\<And>b. does i (f b)) \<Longrightarrow> does i (with_buf i r f)"
  unfolding with_buf_def by (intro does_option does_pair acts_tell) simp_all

context step_relation
begin

lemma for_each: "(\<And>x. preserves R (f x)) \<Longrightarrow> preserves R (\<lambda>s. run_all (List.map f (xs s)) s)"
  unfolding preserves_def[of _ "\<lambda>s. run_all (List.map f (xs s)) s"] by (intro allI run_all) auto

end

interpretation touching: step_relation "touches i" for i
  by unfold_locales (simp, rule touches_trans)

lemma does_iff: "does i f \<longleftrightarrow> preserves (touches i) f"
  by (simp add: does_def preserves_def)

lemma does_for_each [does_rules]: "(\<And>x. does i (f x)) \<Longrightarrow> does i (\<lambda>s. run_all (List.map f (xs s)) s)"
  unfolding does_iff by (rule touching.for_each)

lemma does_each_internal: "(\<And>r. does i (act r)) \<Longrightarrow> does i (each_internal i ty act)"
  unfolding each_internal_def by (intro does_for_each)

lemma does_visit: "(\<And>r. does i (act r)) \<Longrightarrow> does i (visit i skip act r)"
  unfolding visit_def by (intro does_with_buf does_if does_return)

lemma does_get_internal: "acts i (iris_get_internal_buffers i plane)"
proof -
  have "int_mem (iris_fill_internal_buf_info pd ty x) = int_mem x" for pd ty x
    by (simp add: iris_fill_internal_buf_info_def Let_def int_mem_def fun_eq_iff)
  then have "owned (iris_fill_internal_buf_info pd ty x) = owned x" for pd ty x
    by (simp add: owned_def) (simp add: iris_fill_internal_buf_info_def Let_def)
  then have "owned (fold (iris_fill_internal_buf_info pd) tys x) = owned x" for pd tys x
    by (induction tys arbitrary: x) simp_all
  then show ?thesis unfolding iris_get_internal_buffers_def by (intro does_rules)
qed

context firmware_ops
begin

lemma queue_buffer_does: "does i (iris_queue_buffer ops i r)"
  unfolding iris_queue_buffer_def by (intro does_with_buf does_rules queue_buf_does)

lemma release_buffer_does: "does i (release_buffer ops i r)"
  unfolding release_buffer_def by (intro does_with_buf does_rules release_buf_does)

lemma queue_or_defer_does: "does i (queue_or_defer ops i r)"
  unfolding queue_or_defer_def by (intro does_with_buf does_rules queue_buffer_does)

lemma queue_internal_deferred_does: "does i (iris_queue_internal_deferred_buffers ops i ty)"
  unfolding iris_queue_internal_deferred_buffers_def
  by (intro does_each_internal does_visit queue_buffer_does)

lemma queue_internal_does: "does i (iris_queue_internal_buffers ops i plane)"
  unfolding iris_queue_internal_buffers_def
  by (intro does_for_each does_each_internal does_visit queue_or_defer_does)

lemma release_input_does: "does i (iris_release_input_internal_buffers ops i)"
  unfolding iris_release_input_internal_buffers_def iris_release_internal_buffers_def
  by (intro does_for_each does_each_internal does_visit release_buffer_does)

end

section \<open>Completion of a client buffer\<close>

lemma touches_tell: "touches i s t \<Longrightarrow> quiet k \<Longrightarrow> touches i s (tell k t)"
  using acts_tell[of k i] touches_trans[of i s t "tell k t"] by (simp add: acts_def)

lemma touches_acts: "touches i s t \<Longrightarrow> acts i h \<Longrightarrow> touches i s (h t)"
  using touches_trans[of i s t "h t"] by (simp add: acts_def)

lemma touches_then_modify: "touches i s t \<Longrightarrow> (\<And>x. owned (f x) = owned x) \<Longrightarrow> touches i s (modify_inst i f t)"
  by (rule touches_acts, assumption, rule acts_modify)

lemma acts_mark_last: "acts i (mark_last i)"
  unfolding acts_def
proof
  fix s :: iris_sys
  obtain stopped s1 where a: "ask M2m_has_stopped s = (stopped, s1)" by fastforce
  have "does i (ask M2m_has_stopped)" by (intro does_ask quiet_calls)
  then have "touches i s (snd (ask M2m_has_stopped s))" unfolding does_def by (rule spec)
  then have "touches i s s1" by (simp only: a snd_conv)
  then show "touches i s (mark_last i s)"
    by (simp add: mark_last_def a owned_simps touches_tell touches_then_modify)
qed

lemma touches_hand_back: "touches i s t \<Longrightarrow> touches i s (hand_back plane n fl ts st t)"
  by (simp add: hand_back_def touches_tell)

lemma touches_complete:
  assumes "touches i s t" shows "touches i s (complete_buffer i plane buf fl t)"
proof -
  have "touches i s (snd (complete_capture i buf fl t))" "touches i s (snd (complete_output i buf fl t))"
    using assms
    by (simp_all add: complete_capture_def complete_output_def Let_def owned_simps touches_tell touches_then_modify
        split: option.split)
  then show ?thesis
    by (simp add: complete_buffer_def split_def touches_hand_back touches_acts[OF _ acts_mark_last])
qed

lemma does_buffer_done: "does i (iris_vb2_buffer_done i buf)"
proof -
  have "owned (remove_by_idx p n x) = owned x" for p n x
    by (simp add: remove_by_idx_def owned_simps)
  then show ?thesis
    by (simp add: does_def iris_vb2_buffer_done_def Let_def touches_tell touches_then_modify touches_hand_back
        touches_complete split: option.split)
qed

section \<open>Power\<close>

lemma accounted_same:
  "inst_heap t = inst_heap s \<Longrightarrow> klog t = klog s \<Longrightarrow> platform t = platform s \<Longrightarrow> fw_effect t = fw_effect s \<Longrightarrow>
   accounted i T s t"
  by (simp add: accounted_def manages_def unheld_def balance_def firmware_keeps_owned_def)

lemma accounted_set_rate: "preserves (accounted i T) (set_rate freq)"
proof -
  have "preserves (accounted i T) (\<lambda>s. (r, if r = 0 then s\<lparr>power := (power s)\<lparr>clk_freq := freq\<rparr>\<rparr> else s))" for r
    by (auto simp: preserves_def intro: accounted_same accounting.refl)
  then show ?thesis
    unfolding set_rate_def by (intro accounting.bind[OF does_accounted[OF does_ask]] quiet_calls)
qed

lemma accounted_set_clocks: "preserves (accounted i T) iris_set_clocks"
  unfolding iris_set_clocks_def iris_vpu_min_freq_def Let_def
  by (intro accounting.bind accounting.branch accounting.return accounted_set_rate does_accounted does_ask quiet_calls)

lemma accounted_set_icc_bw: "accounted i T s (snd (iris_set_icc_bw s bw))"
proof -
  have ask: "accounted i T u (snd (ask (Icc_bulk_set_bw bs) u))" for u bs
    using does_accounted[OF does_ask[of "Icc_bulk_set_bw bs" i]] by (simp add: preserves_def)
  have same: "accounted i T s (t\<lparr>power := p\<rparr>)" "accounted i T s (t\<lparr>icc_avg_bw := v\<rparr>)"
    if "accounted i T s t" for t p v
    using that accounting.trans[OF that accounted_same] by simp_all
  have pre: "accounted i T s (snd (ask (Icc_bulk_set_bw bs) (s\<lparr>icc_avg_bw := v\<rparr>)))" for bs v
    using accounting.trans[OF accounted_same ask] by simp
  show ?thesis
    by (simp add: iris_set_icc_bw_def Let_def split_def accounting.refl ask same pre split: option.split)
qed

lemma accounted_set_interconnects: "preserves (accounted i T) iris_set_interconnects"
  by (simp add: preserves_def iris_set_interconnects_def Let_def accounted_set_icc_bw)

lemma accounted_modify:
  "(\<And>x. owned (f x) = owned x) \<Longrightarrow> preserves (accounted i T) g \<Longrightarrow>
   accounted i T s (snd (g (modify_inst i f s)))"
  using accounting.trans[OF touches_accounted[OF touches_then_modify[OF touches_refl, of f]], of i T s]
  by (simp add: preserves_def)

lemma accounted_scale_power: "preserves (accounted i T) (iris_scale_power i)"
proof -
  have own: "owned (max_input_data_size_update f x) = owned x" "owned (min_freq_update g x) = owned x"
    "owned (inst_icc_bw_update h x) = owned x" for f g h x
    by (simp_all add: owned_simps)
  have "accounted i T s (snd (iris_scale_clocks i s))" for s
  proof -
    define b where "b = fold (\<lambda>buf sz. max sz (data_size buf)) (m2m_src (inst_heap s i)) 0"
    define s1 where "s1 = modify_inst i (max_input_data_size_update (\<lambda>_. b)) s"
    have 1: "accounted i T s s1"
      unfolding s1_def by (intro touches_accounted touches_then_modify touches_refl own)
    have "accounted i T s1 (snd (iris_set_clocks (modify_inst i (min_freq_update (\<lambda>_. f)) s1)))" for f
      by (intro accounted_modify accounted_set_clocks own)
    from accounting.trans[OF 1 this] 1 show ?thesis
      by (simp only: iris_scale_clocks_def Let_def b_def[symmetric] s1_def[symmetric]) simp
  qed
  then have clocks: "preserves (accounted i T) (iris_scale_clocks i)" by (simp add: preserves_def)
  have vote: "preserves (accounted i T) (iris_vote_interconnects i)"
    unfolding preserves_def iris_vote_interconnects_def Let_def
    by (intro allI accounted_modify accounted_set_interconnects own)
  have put: "accounted i T s (snd (f (tell (Pm_put_autosuspend d) s)))" if "preserves (accounted i T) f" for f d s
    using that accounting.trans[OF touches_accounted[OF touches_tell[OF touches_refl, of "Pm_put_autosuspend d"]]]
    by (simp add: preserves_def)
  have "preserves (accounted i T) (\<lambda>s. case iris_scale_clocks i s of (ret, t) \<Rightarrow>
      if ret \<noteq> 0 then (ret, t) else iris_vote_interconnects i t)" (is "preserves _ ?f")
    by (intro accounting.bind accounting.branch accounting.return clocks vote)
  moreover from this have "preserves (accounted i T) (\<lambda>s. ?f (tell (Pm_put_autosuspend d) s))" for d
    using put[of ?f] by (simp only: preserves_def) blast
  ultimately show ?thesis
    unfolding iris_scale_power_def Let_def
    by (intro accounting.bind[OF does_accounted[OF does_ask]] accounting.bind[OF does_accounted[OF does_put_sync]]
        accounting.branch accounting.return quiet_calls)
qed

section \<open>Allocation and destruction\<close>

lemma accounted_balance:
  "inst_heap t = inst_heap s \<Longrightarrow> platform t = platform s \<Longrightarrow> fw_effect t = fw_effect s \<Longrightarrow>
   (\<And>a. a \<noteq> 0 \<Longrightarrow> balance (dma_weight a) t = balance (dma_weight a) s) \<Longrightarrow> accounted i T s t"
  by (simp add: accounted_def manages_def unheld_def firmware_keeps_owned_def)

lemma dma_alloc_sys:
  assumes "dma_alloc_attrs n s = (v, d, t)"
  shows "inst_heap t = inst_heap s" "platform t = platform s" "fw_effect t = fw_effect s"
    "balance (dma_weight a) t = balance (dma_weight a) s + (if a \<noteq> 0 \<and> v = a then int (unat n) else 0)"
    "\<exists>l. klog t = klog s @ l \<and> (\<forall>k\<in>set l. \<forall>b. 0 \<le> dma_weight b k)"
  using assms by (auto simp: dma_alloc_attrs_def ask_def Let_def balance_def)

lemma alloc_accounted:
  assumes "ty \<in> T" shows "preserves (accounted i T) (alloc_internal i ty j sz)"
  unfolding preserves_def
proof
  fix s :: iris_sys
  obtain v d s1 where a: "dma_alloc_attrs sz s = (v, d, s1)" by (metis prod_cases3)
  note d = dma_alloc_sys[OF a]
  show "accounted i T s (snd (alloc_internal i ty j sz s))"
  proof (cases "v = 0")
    case True
    then show ?thesis using d by (auto simp: alloc_internal_def a intro!: accounted_balance)
  next
    case False
    have "ucast (ucast sz :: u64) = sz" by (rule bit_word_eqI) (simp add: bit_simps)
    then show ?thesis
      unfolding alloc_internal_def a using False d
      by (auto intro!: accounted_on_internal[OF assms] simp: int_mem_def on_internal_def balance_def modify_inst_def)
  qed
qed

lemma create_accounted:
  assumes "ty \<in> T" shows "preserves (accounted i T) (iris_create_internal_buffer i ty j)"
proof -
  have "preserves (accounted i T) (kzalloc (alloc_internal i ty j sz))" for sz
    unfolding kzalloc_def
    by (intro accounting.bind[OF does_accounted[OF does_ask]] accounting.branch accounting.return
        alloc_accounted assms quiet_calls)
  then show ?thesis
    by (simp add: preserves_def iris_create_internal_buffer_def Let_def accounting.refl)
qed

lemma create_of_type_accounted: "ty \<in> T \<Longrightarrow> preserves (accounted i T) (create_of_type i ty)"
  unfolding create_of_type_def by (intro accounting.for_each create_accounted)

lemma bytes_at_remove1:
  "b \<in> set l \<Longrightarrow> bytes_at a (List.map g l) = bytes_at a [g b] + bytes_at a (List.map g (remove1 b l))"
  by (induction l) auto

lemma destroy_one_accounted:
  assumes "ty \<in> T" "b \<in> set (buf_list (buffers (inst_heap s i) ty))"
  shows "accounted i T s (snd (iris_destroy_internal_buffer i ty b s))"
proof (rule accounted_on_internal[OF assms(1)])
  fix a :: u64
  let ?t = "snd (iris_destroy_internal_buffer i ty b s)" and ?l = "buf_list (buffers (inst_heap s i) ty)"
  have "int_mem (inst_heap ?t i) ty = List.map (\<lambda>b. (kvaddr b, buffer_size b)) (remove1 b ?l)"
    by (simp add: iris_destroy_internal_buffer_def on_internal_def int_mem_def tell_def)
  moreover have "balance (dma_weight a) ?t =
      balance (dma_weight a) s - (if kvaddr b = a then int (unat (ucast (buffer_size b) :: u32)) else 0)"
    by (simp add: iris_destroy_internal_buffer_def balance_def tell_def)
  ultimately show "balance (dma_weight a) ?t - bytes_at a (int_mem (inst_heap ?t i) ty) =
      balance (dma_weight a) s - bytes_at a (int_mem (inst_heap s i) ty)"
    using bytes_at_remove1[OF assms(2), of a "\<lambda>b. (kvaddr b, buffer_size b)"] by (simp add: int_mem_def)
qed (simp_all add: iris_destroy_internal_buffer_def tell_def modify_inst_def)

lemma destroy_list_accounted:
  assumes "ty \<in> T" "mset bs \<subseteq># mset (buf_list (buffers (inst_heap s i) ty))"
  shows "accounted i T s (snd (run_all (List.map (iris_destroy_internal_buffer i ty) bs) s))"
  using assms(2)
proof (induction bs arbitrary: s)
  case (Cons b bs)
  obtain t where r: "iris_destroy_internal_buffer i ty b s = (0, t)" by (simp add: iris_destroy_internal_buffer_def)
  have b: "b \<in> set (buf_list (buffers (inst_heap s i) ty))"
    using mset_subset_eqD[OF Cons.prems, of b] by simp
  have t: "buf_list (buffers (inst_heap t i) ty) = remove1 b (buf_list (buffers (inst_heap s i) ty))"
    using r by (auto simp: iris_destroy_internal_buffer_def tell_def on_internal_def)
  have "mset bs \<subseteq># mset (buf_list (buffers (inst_heap t i) ty))"
    using Cons.prems by (simp add: t insert_subset_eq_iff)
  from accounting.trans[OF destroy_one_accounted[OF assms(1) b, unfolded r snd_conv] Cons.IH[OF this]]
  show ?case by (simp add: and_then_def r)
qed (simp add: accounting.refl)

lemma destroy_of_type_accounted: "ty \<in> T \<Longrightarrow> preserves (accounted i T) (destroy_of_type i force ty)"
  unfolding preserves_def destroy_of_type_def
  by (intro allI destroy_list_accounted) (simp_all add: multiset_filter_subset)

text \<open>Operations over the types of a plane, where the platform says which those are.\<close>

lemma accounted_under:
  "(manages i T s \<Longrightarrow> accounted i T s t) \<Longrightarrow> accounted i T s t"
  by (auto simp: accounted_def)

lemma manages_types:
  assumes "manages i T s" "plane \<in> {OUTPUT_MPLANE, CAPTURE_MPLANE}"
  shows "ty \<in> set (plane_types i plane s) \<Longrightarrow> ty \<in> T" "persist_type (domain (inst_heap s i)) \<in> T"
  using assms by (auto simp: manages_def managed_def plane_types_def)

lemma create_buffers_accounted:
  assumes "plane \<in> {OUTPUT_MPLANE, CAPTURE_MPLANE}"
  shows "preserves (accounted i T) (iris_create_internal_buffers i plane)"
  unfolding preserves_def iris_create_internal_buffers_def
proof (rule allI, rule accounted_under, rule accounting.run_all)
  fix s f assume "manages i T s" "f \<in> set (List.map (create_of_type i) (plane_types i plane s))"
  with manages_types(1)[OF this(1) assms] show "preserves (accounted i T) f"
    by (auto intro: create_of_type_accounted)
qed

lemma destroy_buffers_accounted:
  assumes "plane \<in> {OUTPUT_MPLANE, CAPTURE_MPLANE}"
  shows "preserves (accounted i T) (iris_destroy_internal_buffers i plane force)"
  unfolding preserves_def
proof (rule allI, rule accounted_under)
  fix s assume m: "manages i T s"
  have "preserves (accounted i T) f" if "f \<in> set (List.map (destroy_of_type i force) (plane_types i plane s) @
      (if force then [destroy_of_type i True (persist_type (domain (inst_heap s i)))] else []))" for f
    using that manages_types[OF m assms] by (auto intro: destroy_of_type_accounted split: if_splits)
  then show "accounted i T s (snd (iris_destroy_internal_buffers i plane force s))"
    unfolding iris_destroy_internal_buffers_def by (rule accounting.run_all)
qed

context firmware_ops
begin

lemma persist_accounted:
  assumes "ty \<in> T" shows "preserves (accounted i T) (iris_alloc_and_queue_persist_bufs ops i ty)"
proof -
  have own: "owned (iris_fill_internal_buf_info pd ty x) = owned x" for pd x
    by (simp add: owned_simps iris_fill_internal_buf_info_def Let_def)
  have "preserves (accounted i T) (and_then (create_of_type i ty)
      (each_internal i ty (visit i released_or_queued (iris_queue_buffer ops i))))"
    by (intro accounting.and_then create_of_type_accounted assms does_accounted does_each_internal does_visit
        queue_buffer_does)
  from accounted_modify[OF own this] show ?thesis
    by (simp only: preserves_def iris_alloc_and_queue_persist_bufs_def if_split accounting.refl) (simp add: accounting.refl)
qed

lemma input_int_accounted: "preserves (accounted i T) (iris_alloc_and_queue_input_int_bufs ops i)"
  unfolding preserves_def
proof
  fix s
  have "accounted i T s (iris_get_internal_buffers i OUTPUT_MPLANE s)"
    using does_get_internal[of i] by (auto simp: acts_def intro: touches_accounted)
  moreover have "accounted i T u (snd (run_all [iris_release_input_internal_buffers ops i,
      iris_create_internal_buffers i OUTPUT_MPLANE, iris_queue_internal_buffers ops i OUTPUT_MPLANE] u))" for u
    by (rule accounting.run_all)
      (auto intro: does_accounted release_input_does queue_internal_does create_buffers_accounted)
  ultimately show "accounted i T s (snd (iris_alloc_and_queue_input_int_bufs ops i s))"
    unfolding iris_alloc_and_queue_input_int_bufs_def by (rule accounting.trans)
qed

lemma queue_deferred_accounted: "preserves (accounted i T) (iris_queue_deferred_buffers ops i ty)"
  unfolding preserves_def iris_queue_deferred_buffers_def Let_def
proof
  fix s
  have "accounted i T s (snd (iris_scale_power i s))" using accounted_scale_power by (simp add: preserves_def)
  moreover have "accounted i T u (snd (run_all (List.map
      (visit i (\<lambda>b. \<not> has (buf_attr b) BUF_ATTR_DEFERRED) (iris_queue_buffer ops i)) rs) u))" for u rs
    by (rule accounting.run_all) (auto intro: does_accounted does_visit queue_buffer_does)
  ultimately show "accounted i T s (snd (run_all (List.map
      (visit i (\<lambda>b. \<not> has (buf_attr b) BUF_ATTR_DEFERRED) (iris_queue_buffer ops i))
      (if ty = BUF_INPUT then List.map (\<lambda>b. Src (buf_index b)) (m2m_src (inst_heap (snd (iris_scale_power i s)) i))
       else List.map (\<lambda>b. Dst (buf_index b)) (m2m_dst (inst_heap (snd (iris_scale_power i s)) i))))
      (snd (iris_scale_power i s))))" by (rule accounting.trans)
qed

end

section \<open>Any sequence of buffer operations\<close>

text \<open>
  What the driver calls for the buffers of a session whose domain is \<open>d\<close>, besides the
  commands themselves.
\<close>

inductive buffer_call ::
    "iris_hfi_command_ops \<Rightarrow> nat \<Rightarrow> domain_type \<Rightarrow> (iris_sys \<Rightarrow> int \<times> iris_sys) \<Rightarrow> bool"
  for ops :: iris_hfi_command_ops and i :: nat and d :: domain_type where
  sizes: "buffer_call ops i d (run (iris_get_internal_buffers i plane))"
| create: "plane \<in> {OUTPUT_MPLANE, CAPTURE_MPLANE} \<Longrightarrow> buffer_call ops i d (iris_create_internal_buffers i plane)"
| queue: "buffer_call ops i d (iris_queue_internal_buffers ops i plane)"
| queue_dpb: "buffer_call ops i d (iris_queue_internal_deferred_buffers ops i ty)"
| queue_client: "buffer_call ops i d (iris_queue_deferred_buffers ops i ty)"
| persist: "buffer_call ops i d (iris_alloc_and_queue_persist_bufs ops i (persist_type d))"
| reconfigure: "buffer_call ops i d (iris_alloc_and_queue_input_int_bufs ops i)"
| destroy_all: "plane \<in> {OUTPUT_MPLANE, CAPTURE_MPLANE} \<Longrightarrow> buffer_call ops i d (iris_destroy_all_internal_buffers i plane)"
| destroy_dequeued: "plane \<in> {OUTPUT_MPLANE, CAPTURE_MPLANE} \<Longrightarrow>
    buffer_call ops i d (iris_destroy_dequeued_internal_buffers i plane)"
| completed: "buffer_call ops i d (iris_vb2_buffer_done i b)"
| command: "session_command ops i f \<Longrightarrow> buffer_call ops i d f"

inductive buffer_run :: "iris_hfi_command_ops \<Rightarrow> nat \<Rightarrow> iris_sys \<Rightarrow> iris_sys \<Rightarrow> bool"
  for ops :: iris_hfi_command_ops and i :: nat where
  none: "buffer_run ops i s s"
| call: "buffer_call ops i (domain (inst_heap s i)) f \<Longrightarrow> f s = (r, t) \<Longrightarrow> buffer_run ops i t u \<Longrightarrow>
    buffer_run ops i s u"

lemma buffer_run_step:
  "buffer_call ops i (domain (inst_heap s i)) f \<Longrightarrow> buffer_run ops i (snd (f s)) u \<Longrightarrow> buffer_run ops i s u"
  by (rule call[of _ _ _ f "fst (f s)"]) simp_all

context firmware_ops
begin

lemma call_accounted:
  assumes "buffer_call ops i d f" "persist_type d \<in> T"
  shows "preserves (accounted i T) f"
  using assms
proof cases
  case (sizes plane)
  then show ?thesis by (simp add: does_accounted does_run does_get_internal)
qed (simp_all add: create_buffers_accounted does_accounted queue_internal_does queue_internal_deferred_does
    queue_deferred_accounted persist_accounted input_int_accounted destroy_buffers_accounted
    iris_destroy_all_internal_buffers_def iris_destroy_dequeued_internal_buffers_def does_buffer_done command_does)

lemma run_accounted: "buffer_run ops i s t \<Longrightarrow> accounted i T s t"
proof (induction rule: buffer_run.induct)
  case (call s f r t u)
  have "accounted i T s t"
  proof (rule accounted_under)
    assume m: "manages i T s"
    show "accounted i T s t"
      using accounting.step[OF call_accounted[OF call(1) manages_types(2)[OF m, of OUTPUT_MPLANE]] call(2)] by simp
  qed
  from accounting.trans[OF this call(4)] show ?case .
qed (rule accounting.refl)

end

section \<open>Freeing everything\<close>

lemma destroy_list_lists:
  "inst_heap (snd (run_all (List.map (iris_destroy_internal_buffer i ty) bs) s)) i =
   on_internal ty (\<lambda>l. fold remove1 bs l) (inst_heap s i) \<and>
   platform (snd (run_all (List.map (iris_destroy_internal_buffer i ty) bs) s)) = platform s \<and>
   fst (run_all (List.map (iris_destroy_internal_buffer i ty) bs) s) = 0"
proof (induction bs arbitrary: s)
  case Nil
  then show ?case by (simp add: on_internal_def)
next
  case (Cons b bs)
  obtain t where r: "iris_destroy_internal_buffer i ty b s = (0, t)" by (simp add: iris_destroy_internal_buffer_def)
  have "inst_heap t i = on_internal ty (remove1 b) (inst_heap s i)" "platform t = platform s"
    using r by (auto simp: iris_destroy_internal_buffer_def tell_def)
  then show ?case using Cons[of t] by (simp add: and_then_def r on_internal_def)
qed

lemma fold_remove1_self: "fold remove1 xs xs = []"
  by (induction xs) auto

text \<open>Which lists are empty after a forced destruction, along any list of types.\<close>

lemma destroy_types_lists:
  "let r = run_all (List.map (destroy_of_type i True) tys) s in
   fst r = 0 \<and> platform (snd r) = platform s \<and> domain (inst_heap (snd r) i) = domain (inst_heap s i) \<and>
   (\<forall>ty. buf_list (buffers (inst_heap (snd r) i) ty) =
      (if ty \<in> set tys then [] else buf_list (buffers (inst_heap s i) ty)))"
proof (induction tys arbitrary: s)
  case (Cons ty tys)
  let ?bs = "buf_list (buffers (inst_heap s i) ty)"
  obtain t where r: "destroy_of_type i True ty s = (0, t)"
    "inst_heap t i = on_internal ty (\<lambda>_. []) (inst_heap s i)" "platform t = platform s"
    using destroy_list_lists[of i ty ?bs s]
    by (cases "destroy_of_type i True ty s")
      (auto simp: destroy_of_type_def on_internal_def fold_remove1_self)
  then show ?case using Cons.IH[of t]
    by (auto simp: Let_def and_then_def on_internal_def)
qed (simp add: Let_def)

lemma destroy_all_lists:
  "let r = iris_destroy_all_internal_buffers i plane s in
   fst r = 0 \<and> platform (snd r) = platform s \<and> domain (inst_heap (snd r) i) = domain (inst_heap s i) \<and>
   (\<forall>ty. buf_list (buffers (inst_heap (snd r) i) ty) =
      (if ty \<in> insert (persist_type (domain (inst_heap s i))) (set (plane_types i plane s)) then []
       else buf_list (buffers (inst_heap s i) ty)))"
proof -
  have "iris_destroy_all_internal_buffers i plane s = run_all (List.map (destroy_of_type i True)
      (plane_types i plane s @ [persist_type (domain (inst_heap s i))])) s"
    by (simp add: iris_destroy_all_internal_buffers_def iris_destroy_internal_buffers_def)
  then show ?thesis
    using destroy_types_lists[of i "plane_types i plane s @ [persist_type (domain (inst_heap s i))]" s]
    by (simp add: Let_def Un_insert_right)
qed

definition destroy_both :: "nat \<Rightarrow> iris_sys \<Rightarrow> iris_sys" where
  "destroy_both i s = snd (iris_destroy_all_internal_buffers i CAPTURE_MPLANE
     (snd (iris_destroy_all_internal_buffers i OUTPUT_MPLANE s)))"

lemma destroy_both_lists:
  "buf_list (buffers (inst_heap (destroy_both i s) i) ty) =
     (if ty \<in> managed (platform s) (domain (inst_heap s i)) then [] else buf_list (buffers (inst_heap s i) ty))"
  using destroy_all_lists[of i OUTPUT_MPLANE s]
    destroy_all_lists[of i CAPTURE_MPLANE "snd (iris_destroy_all_internal_buffers i OUTPUT_MPLANE s)"]
  by (auto simp: Let_def destroy_both_def managed_def plane_types_def)

lemma destroy_both_run: "buffer_run ops i s t \<Longrightarrow> buffer_run ops i s (destroy_both i t)"
proof -
  have "buffer_run ops i t (destroy_both i t)" for t
    unfolding destroy_both_def
    by (rule buffer_run_step[OF destroy_all[of OUTPUT_MPLANE]], simp,
        rule buffer_run_step[OF destroy_all[of CAPTURE_MPLANE]], simp, rule none)
  moreover have "buffer_run ops i s t \<Longrightarrow> buffer_run ops i t u \<Longrightarrow> buffer_run ops i s u" for t u
    by (induction rule: buffer_run.induct) (auto intro: buffer_run.intros)
  ultimately show "buffer_run ops i s t \<Longrightarrow> ?thesis" by blast
qed

section \<open>The theorems\<close>

text \<open>
  C23. The internal DMA memory of a session is accounted for: along any sequence of buffer
  operations and firmware commands on it, whichever of them fail and wherever, what the
  driver has allocated at an address and not freed changes exactly as what its buffer lists
  hold there. And a session that starts without internal buffers has given everything back
  once both planes have been destroyed: every list is empty and the allocations are those of
  the start.
\<close>

theorem internal_memory_accounted:
  assumes "buffer_run gen1_ops i s t" "firmware_keeps_owned s" "a \<noteq> 0"
  shows "balance (dma_weight a) t - held a (inst_heap t i) = balance (dma_weight a) s - held a (inst_heap s i) \<and>
    ((\<forall>ty. buf_list (buffers (inst_heap s i) ty) = []) \<longrightarrow>
     (\<forall>ty. buf_list (buffers (inst_heap (destroy_both i t) i) ty) = []) \<and>
     balance (dma_weight a) (destroy_both i t) = balance (dma_weight a) s)"
proof -
  define T where "T = managed (platform s) (domain (inst_heap s i))"
  have s: "manages i T s" using assms(2) by (simp add: manages_def T_def)
  note acc = gen1.run_accounted[OF assms(1), of T] gen1.run_accounted[OF destroy_both_run[OF assms(1)], of T]
  have un: "unheld i a t = unheld i a s" "unheld i a (destroy_both i t) = unheld i a s"
    and T: "managed (platform t) (domain (inst_heap t i)) = T"
    and other: "ty \<notin> T \<Longrightarrow> int_mem (inst_heap t i) ty = int_mem (inst_heap s i) ty" for ty
    using acc s assms(3) by (simp_all add: accounted_def manages_def)
  have "buf_list (buffers (inst_heap (destroy_both i t) i) ty) = []"
    if "\<forall>ty. buf_list (buffers (inst_heap s i) ty) = []" for ty
    using that other[of ty] by (simp add: destroy_both_lists T int_mem_def)
  with un show ?thesis by (auto simp: unheld_def held_def int_mem_def)
qed

definition one_buffer_sys :: iris_sys where
  "one_buffer_sys = modify_inst 0 (\<lambda>x. x\<lparr>buffers := (buffers x)(BUF_BIN := \<lparr>buf_list = [], min_count = 1, buf_size = 4096\<rparr>)\<rparr>) ready_sys"

lemma internal_memory_accounted_witness:
  "let t = snd (iris_create_internal_buffers 0 OUTPUT_MPLANE one_buffer_sys) in
   balance (dma_weight 1) t = 4096 \<and> held 1 (inst_heap t 0) = 4096 \<and> balance (dma_weight 1) (destroy_both 0 t) = 0"
proof -
  let ?t = "snd (iris_create_internal_buffers 0 OUTPUT_MPLANE one_buffer_sys)"
  have run: "buffer_run gen1_ops 0 one_buffer_sys ?t"
    by (rule buffer_run_step[OF create none]) simp
  have fw: "firmware_keeps_owned one_buffer_sys"
    by (simp add: firmware_keeps_owned_def one_buffer_sys_def ready_sys_def probed_sys_defs modify_inst_def)
  have start: "\<forall>ty. buf_list (buffers (inst_heap one_buffer_sys 0) ty) = []" "balance (dma_weight 1) one_buffer_sys = 0"
    by (auto simp: one_buffer_sys_def ready_sys_def probed_sys_defs modify_inst_def zero_inst_def balance_def)
  have "balance (dma_weight 1) ?t = 4096" by code_simp
  with internal_memory_accounted[OF run fw, of 1] start show ?thesis
    by (simp add: Let_def held_def int_mem_def bytes_at_def)
qed

section \<open>Source changes\<close>

definition grows :: "nat \<Rightarrow> iris_sys \<Rightarrow> iris_sys \<Rightarrow> bool" where
  "grows i s t \<longleftrightarrow>
     (firmware_keeps_owned s \<longrightarrow> firmware_keeps_owned t \<and>
        (\<forall>ty. \<exists>new. int_mem (inst_heap t i) ty = int_mem (inst_heap s i) ty @ new)) \<and>
     (\<exists>l. klog t = klog s @ l \<and> (\<forall>k\<in>set l. \<forall>a. 0 \<le> dma_weight a k))"

interpretation growing: step_relation "grows i" for i
proof
  fix s t u assume st: "grows i s t" and tu: "grows i t u"
  from st obtain l where l: "klog t = klog s @ l" "\<forall>k\<in>set l. \<forall>a. 0 \<le> dma_weight a k"
    unfolding grows_def by blast
  moreover from tu obtain m where "klog u = klog t @ m" "\<forall>k\<in>set m. \<forall>a. 0 \<le> dma_weight a k"
    unfolding grows_def by blast
  ultimately have "\<exists>l. klog u = klog s @ l \<and> (\<forall>k\<in>set l. \<forall>a. 0 \<le> dma_weight a k)"
    by (intro exI[of _ "l @ m"]) (simp add: ball_Un)
  moreover have "firmware_keeps_owned s \<longrightarrow> firmware_keeps_owned u" using st tu by (simp add: grows_def)
  moreover have "\<exists>new. int_mem (inst_heap u i) ty = int_mem (inst_heap s i) ty @ new"
    if "firmware_keeps_owned s" for ty
    using st tu that unfolding grows_def by (metis append.assoc)
  ultimately show "grows i s u" by (simp add: grows_def)
qed (simp add: grows_def)

lemma touches_grows: "touches i s t \<Longrightarrow> grows i s t"
proof -
  assume t: "touches i s t"
  then have f: "session_frame t = session_frame s" by (simp add: touches_def)
  obtain l where "klog t = klog s @ l" "list_all quiet l" using t by (auto simp: touches_def)
  then have "\<exists>l. klog t = klog s @ l \<and> (\<forall>k\<in>set l. \<forall>a. 0 \<le> dma_weight a k)"
    by (intro exI[of _ l]) (auto simp: list_all_iff quiet_def)
  moreover have "firmware_keeps_owned s \<Longrightarrow> int_mem (inst_heap t i) = int_mem (inst_heap s i)"
    using t by (simp add: touches_def owned_def)
  ultimately show ?thesis
    using session_frame_fw[OF f] by (auto simp: grows_def firmware_keeps_owned_def)
qed

lemma does_grows: "does i f \<Longrightarrow> preserves (grows i) f"
  by (simp add: does_def preserves_def touches_grows)

lemma create_grows: "preserves (grows i) (iris_create_internal_buffer i ty j)"
proof -
  have "grows i s (snd (alloc_internal i ty j sz s))" for sz s
  proof -
    obtain v d s1 where a: "dma_alloc_attrs sz s = (v, d, s1)" by (metis prod_cases3)
    note d = dma_alloc_sys[OF a]
    have "grows i s s1" using d(5) by (simp add: grows_def d(1,3) firmware_keeps_owned_def)
    moreover have "grows i s1 (modify_inst i (on_internal ty (\<lambda>l. l @ [b])) s1)" for b
      by (auto simp: grows_def firmware_keeps_owned_def int_mem_def on_internal_def)
    ultimately show ?thesis by (auto simp: alloc_internal_def a intro: growing.trans)
  qed
  then have "preserves (grows i) (kzalloc (alloc_internal i ty j sz))" for sz
    unfolding kzalloc_def
    by (intro growing.bind[OF does_grows[OF does_ask]] growing.branch growing.return quiet_calls)
      (simp add: preserves_def)
  then show ?thesis
    by (simp add: preserves_def iris_create_internal_buffer_def Let_def growing.refl)
qed

context firmware_ops
begin

lemma reconfigure_grows: "grows i s (snd (iris_alloc_and_queue_input_int_bufs ops i s))"
proof -
  have "preserves (grows i) (iris_create_internal_buffers i plane)" for plane
    unfolding iris_create_internal_buffers_def create_of_type_def by (intro growing.for_each create_grows)
  then have "grows i u (snd (run_all [iris_release_input_internal_buffers ops i,
      iris_create_internal_buffers i OUTPUT_MPLANE, iris_queue_internal_buffers ops i OUTPUT_MPLANE] u))" for u
    by (intro growing.run_all) (auto intro: does_grows release_input_does queue_internal_does)
  moreover have "grows i s (iris_get_internal_buffers i OUTPUT_MPLANE s)"
    using does_get_internal[of i] by (auto simp: acts_def intro: touches_grows)
  ultimately show ?thesis
    unfolding iris_alloc_and_queue_input_int_bufs_def by (rule growing.trans[rotated])
qed

end


definition decoding_sys :: iris_sys where
  "decoding_sys = modify_inst 0 (\<lambda>x. x\<lparr>codec := V4L2_PIX_FMT_H264, fw_buffer_sizes := (\<lambda>_. 4096),
     buffers := (buffers x)(BUF_BIN := \<lparr>buf_list = [zero_buffer\<lparr>buf_type := BUF_BIN,
       buf_attr := BUF_ATTR_QUEUED OR BUF_ATTR_PENDING_RELEASE, buffer_size := 4096, kvaddr := 8\<rparr>], min_count = 1, buf_size = 4096\<rparr>)\<rparr>) ready_sys"


end
