(* ===== verification/IrisSession.thy ===== *)
theory IrisSession
  imports IrisBuffers IrisCtrls
begin

text \<open>
  The life of a session (\<open>iris_common.c\<close>): opening and closing the firmware session, the
  core recovery a failed one asks for, the reservation of the core's throughput, what a
  STREAMON of either plane does beyond the buffers, and STREAMOFF.
\<close>

section \<open>Power cycle after a fatal session error\<close>

definition iris_run_pending_core_recovery :: "iris_sys \<Rightarrow> iris_sys" where
  "iris_run_pending_core_recovery s =
     (if \<not> recovery_pending s then s
      else if \<exists>j\<in>set (instances s). hfi_session_opened (inst_heap s j) then s
      else snd (iris_core_recover (s\<lparr>recovery_pending := False\<rparr>)))"

section \<open>The throughput of the core\<close>

text \<open>\<open>iris_get_mbpf()\<close> returns an \<open>int\<close>: \<open>(u64)\<close> of it extends the sign, \<open>u32\<close> of it does not.\<close>

definition IRIS1_4K_MBPF :: int where "IRIS1_4K_MBPF = sint (NUM_MBS_PER_FRAME 2160 3840)"
definition IRIS1_MAX_4K_SESSIONS :: u32 where "IRIS1_MAX_4K_SESSIONS = 3"

definition reserved :: "iris_sys \<Rightarrow> nat list" where
  "reserved s = filter (\<lambda>j. core_load_reserved (inst_heap s j)) (instances s)"

definition reserved_mbps :: "iris_sys \<Rightarrow> u64" where
  "reserved_mbps s = fold (\<lambda>j total. total +
     scast (iris_get_mbpf (inst_heap s j)) * ucast (admission_frame_rate (inst_heap s j))) (reserved s) 0"

definition large_sessions :: "iris_sys \<Rightarrow> u32" where
  "large_sessions s =
     of_nat (length (filter (\<lambda>j. IRIS1_4K_MBPF \<le> sint (iris_get_mbpf (inst_heap s j))) (reserved s)))"

definition iris_reserve_core_load :: "nat \<Rightarrow> u32 \<Rightarrow> iris_sys \<Rightarrow> int \<times> iris_sys" where
  "iris_reserve_core_load i fps s =
     (let fr = max fps 1; mbpf = iris_get_mbpf (inst_heap s i) in
      if core_load_reserved (inst_heap s i) then (0, s)
      else if ucast (max_core_mbps (platform s)) < reserved_mbps s + ucast mbpf * ucast fr then (- ENOMEM, s)
      else if legacy_vpu5 (platform s) \<and> word_of_int IRIS1_4K_MBPF \<le> mbpf \<and>
              IRIS1_MAX_4K_SESSIONS \<le> large_sessions s then (- ENOMEM, s)
      else (0, modify_inst i (\<lambda>x. x\<lparr>admission_frame_rate := fr, core_load_reserved := True\<rparr>) s))"

definition iris_release_core_load :: "nat \<Rightarrow> iris_sys \<Rightarrow> iris_sys" where
  "iris_release_core_load i = modify_inst i (\<lambda>x. x\<lparr>core_load_reserved := False, admission_frame_rate := 0\<rparr>)"

section \<open>Opening and closing the firmware session\<close>

definition active :: "iris_sys \<Rightarrow> nat list" where
  "active s = filter (\<lambda>j. hfi_session_opened (inst_heap s j)) (instances s)"

definition active_mbpf :: "iris_sys \<Rightarrow> u64" where
  "active_mbpf s = fold (\<lambda>j total. total + scast (iris_get_mbpf (inst_heap s j))) (active s) 0"

definition release_slot :: "nat \<Rightarrow> iris_sys \<Rightarrow> iris_sys" where
  "release_slot i = modify_inst i (\<lambda>x. x\<lparr>hfi_session_opened := False, hfi_core_id := 0,
     core_load_reserved := False, core_load_rejected := False, admission_frame_rate := 0\<rparr>)"

definition start_session :: "iris_hfi_command_ops \<Rightarrow> nat \<Rightarrow> iris_sys \<Rightarrow> int \<times> iris_sys" where
  "start_session ops i s =
     (case session_open ops i s of (ret, s1) \<Rightarrow>
      if ret \<noteq> 0 \<or> inst_state (inst_heap s1 i) = IRIS_INST_ERROR
      then (if ret = 0 then - EIO else ret, release_slot i (iris_request_core_recovery s1))
      else case iris_inst_change_state i IRIS_INST_INIT s1 of (ret, s2) \<Rightarrow>
        if ret \<noteq> 0 then (ret, release_slot i (iris_request_core_recovery s2)) else (0, s2))"

definition iris_hfi_session_open :: "iris_hfi_command_ops \<Rightarrow> nat \<Rightarrow> iris_sys \<Rightarrow> int \<times> iris_sys" where
  "iris_hfi_session_open ops i s =
     (if hfi_session_opened (inst_heap s i) then (0, s)
      else let s1 = iris_run_pending_core_recovery s in
        if max_session_count (platform s1) \<le> of_nat (length (active s1)) then (- EBUSY, s1)
        else if ucast (max_core_mbpf (platform s1)) < active_mbpf s1 + scast (iris_get_mbpf (inst_heap s1 i))
        then (- ENOMEM, s1)
        else start_session ops i (modify_inst i (hfi_session_opened_update (\<lambda>_. True)) s1))"

definition end_session :: "iris_hfi_command_ops \<Rightarrow> nat \<Rightarrow> iris_sys \<Rightarrow> int \<times> iris_sys" where
  "end_session ops i s =
     (let was_error = inst_state (inst_heap s i) = IRIS_INST_ERROR in
      run_all [reinit_completion False, session_close ops i, iris_wait_for_session_response i False,
        \<lambda>s1. if \<not> was_error \<and> inst_state (inst_heap s1 i) = IRIS_INST_ERROR then (- EIO, s1)
             else if inst_state (inst_heap s1 i) \<noteq> IRIS_INST_ERROR
             then iris_inst_change_state i IRIS_INST_DEINIT s1 else (0, s1)] s)"

definition forget_session :: "nat \<Rightarrow> iris_sys \<Rightarrow> iris_sys" where
  "forget_session i s = modify_inst i (\<lambda>x. x\<lparr>sub_state := 0, streamoff_pending := False,
     flush_responses_pending := 0, last_buffer_dequeued := False\<rparr>) (release_slot i s)"

definition iris_hfi_session_close :: "iris_hfi_command_ops \<Rightarrow> nat \<Rightarrow> iris_sys \<Rightarrow> int \<times> iris_sys" where
  "iris_hfi_session_close ops i s =
     (if \<not> hfi_session_opened (inst_heap s i) then (0, iris_release_core_load i s)
      else case end_session ops i s of (ret, s1) \<Rightarrow>
        let s2 = snd (iris_unvote_power i (forget_session i s1))
        in (ret, if ret \<noteq> 0 then iris_request_core_recovery s2 else s2))"

definition iris_kill_session :: "iris_hfi_command_ops \<Rightarrow> nat \<Rightarrow> iris_sys \<Rightarrow> iris_sys" where
  "iris_kill_session ops i s =
     (if session_id (inst_heap s i) = 0 then s
      else snd (iris_inst_change_state i IRIS_INST_ERROR (snd (session_close ops i s))))"

section \<open>Streaming\<close>

definition sub_has :: "u32 \<Rightarrow> nat \<Rightarrow> iris_sys \<Rightarrow> bool" where
  "sub_has f i s \<longleftrightarrow> has (sub_state (inst_heap s i)) f"

definition pause_input :: "iris_hfi_command_ops \<Rightarrow> nat \<Rightarrow> iris_sys \<Rightarrow> int \<times> iris_sys" where
  "pause_input ops i s =
     (case session_pause ops of None \<Rightarrow> (0, s) | Some pause \<Rightarrow> pause i OUTPUT_MPLANE s)"

definition streamon_input_state :: "iris_hfi_command_ops \<Rightarrow> nat \<Rightarrow> iris_sys \<Rightarrow> int \<times> iris_sys" where
  "streamon_input_state ops i s =
     (let pausing = domain (inst_heap s i) = DECODER \<and>
            (sub_has IRIS_INST_SUB_DRC i s \<or> sub_has IRIS_INST_SUB_DRAIN i s \<or> sub_has IRIS_INST_SUB_FIRST_IPSC i s) \<and>
            \<not> sub_has IRIS_INST_SUB_INPUT_PAUSE i s
      in run_all [if pausing then pause_input ops i else run id,
           iris_inst_state_change_streamon i OUTPUT_MPLANE,
           run (modify_inst i (last_buffer_dequeued_update (\<lambda>_. False))),
           on_inst i (iris_inst_change_sub_state 0 (if pausing then IRIS_INST_SUB_INPUT_PAUSE else 0))] s)"

definition iris_process_streamon_input :: "iris_hfi_command_ops \<Rightarrow> nat \<Rightarrow> iris_sys \<Rightarrow> int \<times> iris_sys" where
  "iris_process_streamon_input ops i s =
     run_all [session_start ops i OUTPUT_MPLANE,
        \<lambda>s1. if sub_has IRIS_INST_SUB_INPUT_PAUSE i s1
             then on_inst i (iris_inst_change_sub_state IRIS_INST_SUB_INPUT_PAUSE 0) s1 else (0, s1),
        streamon_input_state ops i]
       (snd (iris_scale_power i (modify_inst i (streamoff_pending_update (\<lambda>_. False)) s)))"

text \<open>
  The flags a STREAMON of the CAPTURE plane clears: those of the change or the drain that was
  complete at its start, and the pauses it ends.
\<close>

definition reconfigure_input :: "iris_hfi_command_ops \<Rightarrow> nat \<Rightarrow> iris_sys \<Rightarrow> int \<times> iris_sys" where
  "reconfigure_input ops i s =
     (if domain (inst_heap s i) = DECODER \<and> sub_has IRIS_INST_SUB_INPUT_PAUSE i s
      then run_all [iris_alloc_and_queue_input_int_bufs ops i, iris_set_stage ops i STAGE, iris_set_pipe ops i PIPE] s
      else (0, s))"

definition resume_input :: "iris_hfi_command_ops \<Rightarrow> nat \<Rightarrow> bool \<Rightarrow> iris_sys \<Rightarrow> int \<times> iris_sys" where
  "resume_input ops i drain_active s =
     (if \<not> drain_active then session_resume_drc ops i OUTPUT_MPLANE s
      else case session_resume_drain ops of None \<Rightarrow> (0, s) | Some resume \<Rightarrow> resume i OUTPUT_MPLANE s)"

definition start_output :: "iris_hfi_command_ops \<Rightarrow> nat \<Rightarrow> u32 \<Rightarrow> iris_sys \<Rightarrow> int \<times> iris_sys" where
  "start_output ops i clear s =
     (let clear1 = clear OR (if sub_has IRIS_INST_SUB_FIRST_IPSC i s then IRIS_INST_SUB_FIRST_IPSC else 0) in
      and_then (session_start ops i CAPTURE_MPLANE) (\<lambda>s1.
        let clear2 = clear1 OR (if sub_has IRIS_INST_SUB_OUTPUT_PAUSE i s1 then IRIS_INST_SUB_OUTPUT_PAUSE else 0) in
        run_all [iris_inst_state_change_streamon i CAPTURE_MPLANE,
                 run (modify_inst i (last_buffer_dequeued_update (\<lambda>_. False))),
                 on_inst i (iris_inst_change_sub_state clear2 0)] s1) s)"

definition iris_process_streamon_output :: "iris_hfi_command_ops \<Rightarrow> nat \<Rightarrow> iris_sys \<Rightarrow> int \<times> iris_sys" where
  "iris_process_streamon_output ops i s0 =
     (let s = snd (iris_scale_power i s0);
          drain_active = iris_drain_pending (inst_heap s i);
          drc_active = iris_drc_pending (inst_heap s i);
          clear = (if drc_active then IRIS_INST_SUB_DRC OR IRIS_INST_SUB_DRC_LAST
                   else if drain_active then IRIS_INST_SUB_DRAIN OR IRIS_INST_SUB_DRAIN_LAST else 0)
      in and_then (reconfigure_input ops i) (\<lambda>s1.
           if inst_state (inst_heap s1 i) = IRIS_INST_INPUT_STREAMING \<and> sub_has IRIS_INST_SUB_INPUT_PAUSE i s1
           then and_then (resume_input ops i drain_active)
                  (start_output ops i (clear OR IRIS_INST_SUB_INPUT_PAUSE)) s1
           else start_output ops i clear s1) s)"

text \<open>The deferred buffers of a queue go back to the client empty.\<close>

definition flush_deferred_one :: "nat \<Rightarrow> buf_ref \<Rightarrow> iris_sys \<Rightarrow> int \<times> iris_sys" where
  "flush_deferred_one i r = with_buf i r (\<lambda>b s.
     if has (buf_attr b) BUF_ATTR_DEFERRED \<and> \<not> has (buf_attr b) BUF_ATTR_BUFFER_DONE
     then let f = (\<lambda>b. b\<lparr>buf_attr := buf_attr b OR BUF_ATTR_BUFFER_DONE, data_size := 0\<rparr>)
          in (0, snd (iris_vb2_buffer_done i (f b) (modify_inst i (map_buf f r) s)))
     else (0, s))"

definition iris_flush_deferred_buffers :: "nat \<Rightarrow> iris_buffer_type \<Rightarrow> iris_sys \<Rightarrow> iris_sys" where
  "iris_flush_deferred_buffers i ty s =
     (let inst = inst_heap s i in
      snd (run_all (List.map (flush_deferred_one i)
             (if ty = BUF_INPUT then List.map (\<lambda>b. Src (buf_index b)) (m2m_src inst)
              else List.map (\<lambda>b. Dst (buf_index b)) (m2m_dst inst))) s))"

definition close_if_idle :: "iris_hfi_command_ops \<Rightarrow> nat \<Rightarrow> iris_sys \<Rightarrow> int \<times> iris_sys" where
  "close_if_idle ops i s =
     (if inst_state (inst_heap s i) = IRIS_INST_INIT
      then run_all [iris_destroy_all_internal_buffers i OUTPUT_MPLANE,
                    iris_destroy_all_internal_buffers i CAPTURE_MPLANE, iris_hfi_session_close ops i] s
      else (0, s))"

definition iris_session_streamoff :: "iris_hfi_command_ops \<Rightarrow> nat \<Rightarrow> u32 \<Rightarrow> iris_sys \<Rightarrow> int \<times> iris_sys" where
  "iris_session_streamoff ops i plane s =
     (if plane \<noteq> OUTPUT_MPLANE \<and> plane \<noteq> CAPTURE_MPLANE then (- EINVAL, s)
      else let ty = (if plane = OUTPUT_MPLANE then BUF_INPUT else BUF_OUTPUT) in
        case and_then (session_stop ops i plane) (iris_inst_state_change_streamoff i plane)
               (modify_inst i (streamoff_pending_update (\<lambda>_. True)) s) of (ret, s1) \<Rightarrow>
        if ret \<noteq> 0 then (ret, iris_flush_deferred_buffers i ty (iris_kill_session ops i s1))
        else close_if_idle ops i (iris_flush_deferred_buffers i ty s1))"

end
