(* ===== verification/IrisVdec.thy ===== *)
theory IrisVdec
  imports IrisSession
begin

text \<open>
  The decoder (\<open>iris_vdec.c\<close>): formats, the output held back for hidden VP9 frames, the
  measurement of the input rate, STREAMON of both planes, queueing a client buffer, and the
  START and STOP commands.
\<close>

abbreviation (input) NSEC_PER_SEC :: u64 where "NSEC_PER_SEC \<equiv> 1000000000"
abbreviation (input) V4L2_EVENT_SOURCE_CHANGE :: u32 where "V4L2_EVENT_SOURCE_CHANGE \<equiv> 5"
abbreviation (input) DEFAULT_WIDTH :: u32 where "DEFAULT_WIDTH \<equiv> 320"
abbreviation (input) DEFAULT_HEIGHT :: u32 where "DEFAULT_HEIGHT \<equiv> 240"

definition IRIS1_MAX_4K_MBPF :: int where "IRIS1_MAX_4K_MBPF = sint (NUM_MBS_PER_FRAME 2176 4096)"

definition clamp_u32 :: "u32 \<Rightarrow> u32 \<Rightarrow> u32 \<Rightarrow> u32" where
  "clamp_u32 v lo hi = (if v < lo then lo else if hi < v then hi else v)"

section \<open>The output held back\<close>

text \<open>
  \<open>pending_output\<close> points at a buffer of the CAPTURE queue: what it points at is the entry of
  the memory-to-memory context as long as the buffer is there, and its last contents after.
\<close>

definition pending_buf :: "iris_inst \<Rightarrow> iris_buffer option" where
  "pending_buf x = (case pending_output x of None \<Rightarrow> None
     | Some b \<Rightarrow> Some (case find_buf x (Dst (buf_index b)) of Some b' \<Rightarrow> b' | None \<Rightarrow> b))"

definition recycled :: "iris_buffer \<Rightarrow> iris_buffer" where
  "recycled b = b\<lparr>data_size := 0, buf_flags := 0, buf_timestamp := 0,
     buf_attr := buf_attr b AND NOT (BUF_ATTR_QUEUED OR BUF_ATTR_DEQUEUED OR BUF_ATTR_BUFFER_DONE)\<rparr>"

definition recycle :: "iris_hfi_command_ops \<Rightarrow> nat \<Rightarrow> buf_ref \<Rightarrow> iris_sys \<Rightarrow> int \<times> iris_sys" where
  "recycle ops i r s = iris_queue_buffer ops i r (modify_inst i (map_buf recycled r) s)"

definition iris_vdec_clear_pending_output :: "nat \<Rightarrow> iris_sys \<Rightarrow> iris_sys" where
  "iris_vdec_clear_pending_output i = modify_inst i (pending_output_update (\<lambda>_. None))"

definition iris_vdec_recycle_pending_output :: "iris_hfi_command_ops \<Rightarrow> nat \<Rightarrow> iris_sys \<Rightarrow> int \<times> iris_sys" where
  "iris_vdec_recycle_pending_output ops i s =
     (case pending_buf (inst_heap s i) of None \<Rightarrow> (0, s)
      | Some b \<Rightarrow> recycle ops i (Dst (buf_index b)) (iris_vdec_clear_pending_output i s))"

definition iris_vdec_complete_pending_output :: "nat \<Rightarrow> iris_sys \<Rightarrow> int \<times> iris_sys" where
  "iris_vdec_complete_pending_output i s =
     (case pending_buf (inst_heap s i) of None \<Rightarrow> (0, s)
      | Some b \<Rightarrow> iris_vb2_buffer_done i b (iris_vdec_clear_pending_output i s))"

definition iris_vdec_hold_output :: "nat \<Rightarrow> iris_buffer \<Rightarrow> iris_sys \<Rightarrow> int \<times> iris_sys" where
  "iris_vdec_hold_output i b s =
     (if pending_output (inst_heap s i) \<noteq> None then (- EBUSY, s)
      else (0, modify_inst i (pending_output_update (\<lambda>_. Some b)) s))"

section \<open>Measuring the input rate\<close>

definition iris_vdec_reset_rate_window :: "iris_inst \<Rightarrow> iris_inst" where
  "iris_vdec_reset_rate_window inst = inst\<lparr>last_buf_ns := 0, rate_min_timestamp := 0,
     rate_max_timestamp := 0, frame_counter := 0\<rparr>"

text \<open>
  \<open>DIV_ROUND_UP_ULL(n, d)\<close> is \<open>do_div(n + d - 1, d)\<close>, which takes the low 32 bits of its
  divisor; the division by 0 of the kernel's targets gives 0, as does \<open>div\<close>.
\<close>

definition do_div :: "u64 \<Rightarrow> u64 \<Rightarrow> u64" where
  "do_div n base = n div ucast (ucast base :: u32)"

definition DIV_ROUND_UP_ULL :: "u64 \<Rightarrow> u64 \<Rightarrow> u64" where
  "DIV_ROUND_UP_ULL n d = do_div (n + d - 1) d"

definition iris_vdec_get_admission_fps :: "iris_inst \<Rightarrow> u32" where
  "iris_vdec_get_admission_fps inst =
     (if 1 < frame_counter inst \<and> rate_min_timestamp inst < rate_max_timestamp inst
      then let delta = rate_max_timestamp inst - rate_min_timestamp inst;
               fr = ucast (DIV_ROUND_UP_ULL (ucast (frame_counter inst - 1) * NSEC_PER_SEC) delta)
           in clamp_u32 fr 1 MAXIMUM_FPS
      else if IRIS1_MAX_4K_MBPF < sint (iris_get_mbpf inst) then 30 else 60)"

definition iris_vdec_track_input_timestamp :: "iris_platform_data \<Rightarrow> u64 \<Rightarrow> iris_inst \<Rightarrow> iris_inst" where
  "iris_vdec_track_input_timestamp pd ts inst =
     (if \<not> legacy_vpu5 pd then inst
      else let delta = (if last_input_timestamp inst < ts then ts - last_input_timestamp inst
                        else last_input_timestamp inst - ts);
               x = (if input_timestamp_valid inst \<and> NSEC_PER_SEC < delta
                    then iris_vdec_reset_rate_window inst else inst)
           in x\<lparr>last_input_timestamp := ts, input_timestamp_valid := True\<rparr>)"

text \<open>\<open>N\<close> frames hold \<open>N - 1\<close> intervals; the rate is raised at once and lowered at the third lower window.\<close>

definition rate_of :: "u32 \<Rightarrow> u64 \<Rightarrow> u32" where
  "rate_of n delta = ucast ((ucast (n - 1) * NSEC_PER_SEC + delta - 1) div delta)"

definition vote_rate :: "u32 \<Rightarrow> iris_inst \<Rightarrow> iris_inst" where
  "vote_rate target inst =
     (if frame_rate inst = MAXIMUM_FPS \<or> frame_rate inst \<le> target
      then inst\<lparr>frame_rate := target, frame_rate_down_count := 0\<rparr>
      else if 3 \<le> frame_rate_down_count inst + 1
      then inst\<lparr>frame_rate := target, frame_rate_down_count := 0\<rparr>
      else inst\<lparr>frame_rate_down_count := frame_rate_down_count inst + 1\<rparr>)"

definition target_fps :: "bool \<Rightarrow> u64 \<Rightarrow> iris_inst \<Rightarrow> u32" where
  "target_fps legacy delta inst =
     (let span = rate_max_timestamp inst - rate_min_timestamp inst;
          timestamp_fps = (if legacy \<and> span \<noteq> 0 \<and> 1 < frame_counter inst
                           then rate_of (frame_counter inst) span else 0);
          measured = clamp_u32 (max (rate_of (frame_counter inst) delta) timestamp_fps) 1 MAXIMUM_FPS
      in clamp_u32 (DIV_ROUND_UP (measured * 11) 10) DEFAULT_FPS MAXIMUM_FPS)"

definition measure_rate :: "iris_platform_data \<Rightarrow> u64 \<Rightarrow> u64 \<Rightarrow> iris_inst \<Rightarrow> iris_inst" where
  "measure_rate pd now ts inst =
     (let x = (if frame_counter inst = 0
               then inst\<lparr>last_buf_ns := now, rate_min_timestamp := ts, rate_max_timestamp := ts\<rparr>
               else inst\<lparr>rate_min_timestamp := min (rate_min_timestamp inst) ts,
                         rate_max_timestamp := max (rate_max_timestamp inst) ts\<rparr>);
          x = x\<lparr>frame_counter := frame_counter x + 1\<rparr>;
          delta = now - last_buf_ns x
      in if NSEC_PER_SEC \<le> delta
         then iris_vdec_reset_rate_window (vote_rate (target_fps (legacy_vpu5 pd) delta x) x)
         else x)"

section \<open>Formats\<close>

record v4l2_format =
  fmt_type :: u32
  pix :: v4l2_pix_mp

definition iris_vdec_formats :: "u32 list" where
  "iris_vdec_formats = [V4L2_PIX_FMT_H264, V4L2_PIX_FMT_HEVC, V4L2_PIX_FMT_VP9]"

definition iris_vdec_p010_supported :: "iris_platform_data \<Rightarrow> bool" where
  "iris_vdec_p010_supported pd \<longleftrightarrow> core_arch pd = 0"

definition iris_vdec_raw_stride :: "u32 \<Rightarrow> u32 \<Rightarrow> u32" where
  "iris_vdec_raw_stride width fmt =
     ALIGN (width * (if fmt = V4L2_PIX_FMT_P010 then 2 else 1)) (if fmt = V4L2_PIX_FMT_P010 then 256 else 128)"

text \<open>Every row of the table is a format of the OUTPUT plane.\<close>

definition find_format :: "u32 \<Rightarrow> u32 \<Rightarrow> u32 option" where
  "find_format pixfmt ty =
     (if pixfmt \<in> set iris_vdec_formats \<and> ty = OUTPUT_MPLANE then Some pixfmt else None)"

definition find_format_by_index :: "u32 \<Rightarrow> u32 \<Rightarrow> u32 option" where
  "find_format_by_index index ty =
     (if unat index < length iris_vdec_formats \<and> ty = OUTPUT_MPLANE
      then Some (iris_vdec_formats ! unat index) else None)"

definition raw_supported :: "iris_platform_data \<Rightarrow> u32 \<Rightarrow> bool" where
  "raw_supported pd pixfmt \<longleftrightarrow>
     \<not> (pixfmt \<noteq> V4L2_PIX_FMT_NV12 \<and> (pixfmt \<noteq> V4L2_PIX_FMT_P010 \<or> \<not> iris_vdec_p010_supported pd))"

text \<open>The pixel format and the flags (compressed with dynamic resolution), or the error.\<close>

definition iris_vdec_enum_fmt :: "iris_platform_data \<Rightarrow> u32 \<Rightarrow> u32 \<Rightarrow> int + u32 \<times> u32" where
  "iris_vdec_enum_fmt pd ty index =
     (if ty = OUTPUT_MPLANE then
        (case find_format_by_index index ty of None \<Rightarrow> Inl (- EINVAL) | Some p \<Rightarrow> Inr (p, 9))
      else if ty = CAPTURE_MPLANE then
        (if index = 0 then Inr (V4L2_PIX_FMT_NV12, 0)
         else if index = 1 \<and> iris_vdec_p010_supported pd then Inr (V4L2_PIX_FMT_P010, 0)
         else Inl (- EINVAL))
      else Inl (- EINVAL))"

definition same_format :: "v4l2_pix_mp \<Rightarrow> v4l2_pix_mp \<Rightarrow> v4l2_pix_mp" where
  "same_format p q = q\<lparr>pix_width := pix_width p, pix_height := pix_height p, pixelformat := pixelformat p\<rparr>"

definition iris_vdec_try_fmt :: "iris_platform_data \<Rightarrow> iris_inst \<Rightarrow> v4l2_format \<Rightarrow> int \<times> v4l2_format" where
  "iris_vdec_try_fmt pd inst f =
     (let caps = inst_caps pd; p = pix f;
          settle = (\<lambda>p. p\<lparr>pix_field := (if pix_field p = V4L2_FIELD_ANY then V4L2_FIELD_NONE else pix_field p),
                           num_planes := 1\<rparr>)
      in if fmt_type f = OUTPUT_MPLANE then
           let p1 = (if find_format (pixelformat p) (fmt_type f) = None then same_format (fmt_src inst) p else p)
           in (0, f\<lparr>pix := settle (p1\<lparr>
                 pix_width := clamp_u32 (pix_width p1) (min_frame_width caps) (max_frame_width caps),
                 pix_height := clamp_u32 (pix_height p1) (min_frame_height caps) (max_frame_height caps)\<rparr>)\<rparr>)
         else if fmt_type f = CAPTURE_MPLANE then
           let p1 = (if \<not> raw_supported pd (pixelformat p) then same_format (fmt_dst inst) p else p);
               p2 = (if src_streaming inst
                     then p1\<lparr>pix_height := pix_height (fmt_src inst), pix_width := pix_width (fmt_src inst)\<rparr>
                     else p1)
           in (0, f\<lparr>pix := settle p2\<rparr>)
         else (- EINVAL, f))"

definition set_buffers_info :: "iris_buffer_type \<Rightarrow> (iris_buffers \<Rightarrow> iris_buffers) \<Rightarrow> iris_inst \<Rightarrow> iris_inst" where
  "set_buffers_info ty f x = x\<lparr>buffers := (buffers x)(ty := f (buffers x ty))\<rparr>"

text \<open>\<open>iris_get_buffer_size()\<close> and \<open>iris_vpu_buf_count()\<close> as the \<open>u32\<close> they are stored in.\<close>

definition buffer_size_u32 :: "iris_platform_data \<Rightarrow> iris_buffer_type \<Rightarrow> iris_inst \<Rightarrow> u32" where
  "buffer_size_u32 pd ty x = word_of_int (iris_get_buffer_size pd x ty)"

definition buf_count_u32 :: "iris_platform_data \<Rightarrow> iris_buffer_type \<Rightarrow> iris_inst \<Rightarrow> u32" where
  "buf_count_u32 pd ty x = word_of_int (iris_vpu_buf_count pd x ty)"

definition set_colour :: "v4l2_pix_mp \<Rightarrow> v4l2_pix_mp \<Rightarrow> v4l2_pix_mp" where
  "set_colour p q = q\<lparr>colorspace := colorspace p, xfer_func := xfer_func p, ycbcr_enc := ycbcr_enc p,
     quantization := quantization p\<rparr>"

definition crop_to :: "u32 \<Rightarrow> u32 \<Rightarrow> iris_inst \<Rightarrow> iris_inst" where
  "crop_to w h x = x\<lparr>crop := \<lparr>rect_left = 0, rect_top = 0, rect_width = w, rect_height = h\<rparr>\<rparr>"

text \<open>Size of the format of a plane, with the count of its buffers when \<open>count\<close> says so.\<close>

definition size_src :: "iris_platform_data \<Rightarrow> iris_inst \<Rightarrow> iris_inst" where
  "size_src pd x =
     (let x1 = x\<lparr>fmt_src := (fmt_src x)\<lparr>sizeimage := buffer_size_u32 pd BUF_INPUT x\<rparr>\<rparr>
      in set_buffers_info BUF_INPUT (\<lambda>b. b\<lparr>min_count := buf_count_u32 pd BUF_INPUT x1,
           buf_size := sizeimage (fmt_src x1)\<rparr>) x1)"

definition size_dst :: "iris_platform_data \<Rightarrow> iris_inst \<Rightarrow> iris_inst" where
  "size_dst pd x =
     (let x1 = x\<lparr>fmt_dst := (fmt_dst x)\<lparr>sizeimage := buffer_size_u32 pd BUF_OUTPUT x\<rparr>\<rparr>
      in set_buffers_info BUF_OUTPUT (\<lambda>b. b\<lparr>buf_size := sizeimage (fmt_dst x1)\<rparr>) x1)"

definition count_dst :: "iris_platform_data \<Rightarrow> iris_inst \<Rightarrow> iris_inst" where
  "count_dst pd x = set_buffers_info BUF_OUTPUT (\<lambda>b. b\<lparr>min_count := buf_count_u32 pd BUF_OUTPUT x\<rparr>) x"

definition set_output_fmt :: "iris_platform_data \<Rightarrow> v4l2_pix_mp \<Rightarrow> iris_inst \<Rightarrow> iris_inst" where
  "set_output_fmt pd p x =
     (let al = (if pixelformat p = V4L2_PIX_FMT_HEVC then 32 else 16);
          x1 = size_src pd (x\<lparr>codec := pixelformat p, fmt_src := (fmt_src x)\<lparr>pixelformat := pixelformat p,
                 pix_width := ALIGN (pix_width p) al, pix_height := ALIGN (pix_height p) al,
                 num_planes := 1, bytesperline := 0\<rparr>\<rparr>);
          x2 = x1\<lparr>fmt_src := set_colour p (fmt_src x1), fmt_dst := (set_colour p (fmt_dst x1))
                 \<lparr>pix_width := ALIGN (pix_width p) 128, pix_height := ALIGN (pix_height p) 32,
                  bytesperline := iris_vdec_raw_stride (pix_width p) (pixelformat (fmt_dst x1))\<rparr>\<rparr>
      in crop_to (pix_width p) (pix_height p) (size_dst pd x2))"

definition set_capture_fmt :: "iris_platform_data \<Rightarrow> v4l2_pix_mp \<Rightarrow> iris_inst \<Rightarrow> iris_inst" where
  "set_capture_fmt pd p x =
     (let x1 = x\<lparr>fmt_dst := (fmt_dst x)\<lparr>pixelformat := pixelformat p, pix_width := ALIGN (pix_width p) 128,
                 pix_height := ALIGN (pix_height p) 32, num_planes := 1,
                 bytesperline := iris_vdec_raw_stride (pix_width p) (pixelformat p)\<rparr>\<rparr>
      in crop_to (pix_width p) (pix_height p) (count_dst pd (size_dst pd x1)))"

text \<open>The result of \<open>iris_vdec_try_fmt()\<close> is ignored; what the caller gets back is the format set.\<close>

definition iris_vdec_s_fmt ::
    "iris_platform_data \<Rightarrow> v4l2_format \<Rightarrow> iris_inst \<Rightarrow> int \<times> v4l2_format \<times> iris_inst" where
  "iris_vdec_s_fmt pd f x =
     (if (if V4L2_TYPE_IS_OUTPUT (fmt_type f) then src_busy x else dst_busy x) then (- EBUSY, f, x)
      else let f1 = snd (iris_vdec_try_fmt pd x f); p = pix f1 in
        if fmt_type f = OUTPUT_MPLANE then
          (if find_format (pixelformat p) (fmt_type f) = None then (- EINVAL, f1, x)
           else let x1 = set_output_fmt pd p x in (0, \<lparr>fmt_type = OUTPUT_MPLANE, pix = fmt_src x1\<rparr>, x1))
        else if fmt_type f \<noteq> CAPTURE_MPLANE \<or> \<not> raw_supported pd (pixelformat p) then (- EINVAL, f1, x)
        else let x1 = set_capture_fmt pd p x in (0, \<lparr>fmt_type = CAPTURE_MPLANE, pix = fmt_dst x1\<rparr>, x1))"

definition iris_vdec_validate_format :: "iris_platform_data \<Rightarrow> u32 \<Rightarrow> int" where
  "iris_vdec_validate_format pd pixfmt =
     (if \<not> raw_supported pd pixfmt \<and> find_format pixfmt OUTPUT_MPLANE = None then - EINVAL else 0)"

text \<open>
  A new instance. The two formats are allocated first; \<open>ctrls_init\<close> is the registration of the
  controls with the framework.
\<close>

definition vdec_defaults :: "iris_platform_data \<Rightarrow> (nat \<Rightarrow> platform_inst_fw_cap) \<Rightarrow> iris_inst \<Rightarrow> iris_inst" where
  "vdec_defaults pd caps x =
     (let x1 = size_src pd (x\<lparr>fw_min_count := (if legacy_vpu5 pd then 0 else MIN_BUFFERS), codec := V4L2_PIX_FMT_H264,
                 fmt_src := (fmt_src x)\<lparr>pix_width := DEFAULT_WIDTH, pix_height := DEFAULT_HEIGHT,
                   pixelformat := V4L2_PIX_FMT_H264, num_planes := 1, bytesperline := 0\<rparr>\<rparr>);
          x2 = x1\<lparr>fmt_src := (fmt_src x1)\<lparr>pix_field := V4L2_FIELD_NONE\<rparr>,
                 fmt_dst := (fmt_dst x1)\<lparr>pixelformat := V4L2_PIX_FMT_NV12, pix_width := ALIGN DEFAULT_WIDTH 128,
                   pix_height := ALIGN DEFAULT_HEIGHT 32, num_planes := 1, bytesperline := ALIGN DEFAULT_WIDTH 128,
                   pix_field := V4L2_FIELD_NONE, colorspace := 0, xfer_func := 0, ycbcr_enc := 0,
                   quantization := 0\<rparr>\<rparr>
      in (count_dst pd (size_dst pd x2))\<lparr>frame_rate := MAXIMUM_FPS, fw_caps := caps\<rparr>)"

definition iris_vdec_inst_init ::
    "(nat \<Rightarrow> iris_sys \<Rightarrow> int \<times> iris_sys) \<Rightarrow> nat \<Rightarrow> iris_sys \<Rightarrow> int \<times> iris_sys" where
  "iris_vdec_inst_init ctrls_init i s =
     (case ask Kzalloc s of (p, s1) \<Rightarrow> case ask Kzalloc s1 of (q, s2) \<Rightarrow>
      if p = 0 \<or> q = 0 then (- ENOMEM, s2)
      else ctrls_init i (modify_inst i (vdec_defaults (platform s2) (core_fw_caps_dec s2)) s2))"

section \<open>Streaming\<close>

definition iris_vdec_src_change :: "nat \<Rightarrow> iris_sys \<Rightarrow> iris_sys" where
  "iris_vdec_src_change i s =
     (if src_streaming (inst_heap s i) then tell (V4l2_event V4L2_EVENT_SOURCE_CHANGE) s else s)"

definition set_decode_order :: "iris_hfi_command_ops \<Rightarrow> nat \<Rightarrow> iris_sys \<Rightarrow> int \<times> iris_sys" where
  "set_decode_order ops i s =
     (if legacy_vpu5 (platform s) \<and> display_delay_enable (inst_heap s i) \<and> display_delay (inst_heap s i) = 0
      then session_set_property ops i HFI_PROPERTY_PARAM_VDEC_OUTPUT_ORDER HFI_HOST_FLAGS_NONE
             HFI_PORT_BITSTREAM HFI_PAYLOAD_U32_ENUM (words [HFI_OUTPUT_ORDER_DECODE]) 4 s
      else (0, s))"

definition iris_vdec_streamon_input :: "iris_hfi_command_ops \<Rightarrow> nat \<Rightarrow> iris_sys \<Rightarrow> int \<times> iris_sys" where
  "iris_vdec_streamon_input ops i s =
     run_all [iris_set_properties ops i OUTPUT_MPLANE, set_decode_order ops i,
        iris_alloc_and_queue_persist_bufs ops i BUF_PERSIST,
        run (iris_get_internal_buffers i OUTPUT_MPLANE),
        iris_destroy_dequeued_internal_buffers i OUTPUT_MPLANE,
        iris_create_internal_buffers i OUTPUT_MPLANE,
        iris_queue_internal_buffers ops i OUTPUT_MPLANE,
        run (modify_inst i iris_vdec_reset_rate_window),
        iris_process_streamon_input ops i]
       (modify_inst i (\<lambda>x. x\<lparr>streamoff_pending := False, input_timestamp_valid := False,
          corrupt_output_drops := 0, pending_output := None, frame_rate := MAXIMUM_FPS,
          frame_rate_down_count := 0\<rparr>) s)"

definition rollback_capture :: "iris_hfi_command_ops \<Rightarrow> nat \<Rightarrow> iris_sys \<Rightarrow> iris_sys" where
  "rollback_capture ops i s =
     modify_inst i (start_streaming_rollback_type_update (\<lambda>_. 0))
       (snd (iris_session_streamoff ops i CAPTURE_MPLANE
          (modify_inst i (start_streaming_rollback_type_update (\<lambda>_. CAPTURE_MPLANE)) s)))"

definition iris_vdec_streamon_output :: "iris_hfi_command_ops \<Rightarrow> nat \<Rightarrow> iris_sys \<Rightarrow> int \<times> iris_sys" where
  "iris_vdec_streamon_output ops i s =
     and_then (run_all [\<lambda>s. session_set_config_params ops i CAPTURE_MPLANE s,
                 run (iris_get_internal_buffers i CAPTURE_MPLANE),
                 iris_destroy_dequeued_internal_buffers i CAPTURE_MPLANE,
                 iris_create_internal_buffers i CAPTURE_MPLANE])
       (\<lambda>s1. case run_all [iris_process_streamon_output ops i,
                           iris_queue_internal_buffers ops i CAPTURE_MPLANE] s1 of (ret, s2) \<Rightarrow>
          if ret \<noteq> 0 then (ret, rollback_capture ops i s2) else (ret, s2))
       (modify_inst i (streamoff_pending_update (\<lambda>_. False)) s)"

definition plane_ref :: "u32 \<Rightarrow> u32 \<Rightarrow> buf_ref" where
  "plane_ref plane n = (if plane = OUTPUT_MPLANE then Src n else Dst n)"

definition iris_vdec_qbuf :: "iris_hfi_command_ops \<Rightarrow> nat \<Rightarrow> vb2_buffer \<Rightarrow> iris_sys \<Rightarrow> int \<times> iris_sys" where
  "iris_vdec_qbuf ops i vb s =
     (let r = plane_ref (vb_plane vb) (vb_index vb); input = (vb_plane vb = OUTPUT_MPLANE);
          s1 = modify_inst i (map_buf (iris_vb2_buffer_to_driver vb) r) s;
          s2 = (if input then modify_inst i (iris_set_ts_metadata vb) s1 else s1)
      in if \<not> (if input then src_streaming (inst_heap s2 i) else dst_streaming (inst_heap s2 i))
         then (0, set_attr i r (\<lambda>a. a OR BUF_ATTR_DEFERRED) s2)
         else let s4 = (if input then
                  let s3 = modify_inst i (iris_vdec_track_input_timestamp (platform s2) (vb_timestamp vb)) s2
                  in case ask Ktime s3 of (now, s3') \<Rightarrow>
                     modify_inst i (measure_rate (platform s3') (word_of_int now) (vb_timestamp vb)) s3'
                  else s2)
              in iris_queue_buffer ops i r (snd (iris_scale_power i s4)))"

section \<open>Commands\<close>

text \<open>
  Ending a change of resolution or a drain: resuming what is paused. The flags to clear
  grow with each plane resumed.
\<close>

definition resume_plane ::
    "(nat \<Rightarrow> u32 \<Rightarrow> iris_sys \<Rightarrow> int \<times> iris_sys) option \<Rightarrow> nat \<Rightarrow> u32 \<Rightarrow> u32 \<Rightarrow> iris_sys \<Rightarrow> int \<times> iris_sys" where
  "resume_plane resume i f plane s =
     (if sub_has f i s then case resume of None \<Rightarrow> (0, s) | Some h \<Rightarrow> h i plane s else (0, s))"

definition resume_both ::
    "(nat \<Rightarrow> u32 \<Rightarrow> iris_sys \<Rightarrow> int \<times> iris_sys) option \<Rightarrow> nat \<Rightarrow> u32 \<Rightarrow> (u32 \<Rightarrow> iris_sys \<Rightarrow> int \<times> iris_sys) \<Rightarrow>
     iris_sys \<Rightarrow> int \<times> iris_sys" where
  "resume_both resume i clear next s =
     (let clear1 = clear OR (if sub_has IRIS_INST_SUB_INPUT_PAUSE i s then IRIS_INST_SUB_INPUT_PAUSE else 0) in
      and_then (resume_plane resume i IRIS_INST_SUB_INPUT_PAUSE OUTPUT_MPLANE) (\<lambda>s1.
        let clear2 = clear1 OR (if sub_has IRIS_INST_SUB_OUTPUT_PAUSE i s1 then IRIS_INST_SUB_OUTPUT_PAUSE else 0) in
        and_then (resume_plane resume i IRIS_INST_SUB_OUTPUT_PAUSE CAPTURE_MPLANE) (next clear2) s1) s)"

definition requeue_after_start :: "iris_hfi_command_ops \<Rightarrow> nat \<Rightarrow> iris_sys \<Rightarrow> int \<times> iris_sys" where
  "requeue_after_start ops i s =
     (if legacy_vpu5 (platform s) \<and> inst_state (inst_heap s i) = IRIS_INST_STREAMING
      then run_all [iris_queue_internal_buffers ops i CAPTURE_MPLANE,
                    iris_queue_deferred_buffers ops i BUF_OUTPUT, iris_queue_deferred_buffers ops i BUF_INPUT] s
      else (0, s))"

definition finish_start :: "iris_hfi_command_ops \<Rightarrow> nat \<Rightarrow> u32 \<Rightarrow> iris_sys \<Rightarrow> int \<times> iris_sys" where
  "finish_start ops i clear = run_all [on_inst i (iris_inst_change_sub_state clear 0),
     run (modify_inst i (last_buffer_dequeued_update (\<lambda>_. False))), requeue_after_start ops i]"

definition iris_vdec_start_cmd :: "iris_hfi_command_ops \<Rightarrow> nat \<Rightarrow> iris_sys \<Rightarrow> int \<times> iris_sys" where
  "iris_vdec_start_cmd ops i s =
     (let inst = inst_heap s i in
      if capture_format_changed inst then (- EINVAL, s)
      else if inst_state inst = IRIS_INST_STREAMING \<and>
              \<not> has (sub_state inst) (IRIS_INST_SUB_DRC OR IRIS_INST_SUB_DRAIN) then (0, s)
      else and_then
        (if legacy_vpu5 (platform s) \<and> flush_responses_pending inst \<noteq> 0
         then iris_wait_for_session_response i True else run id)
        (\<lambda>s1. if iris_drc_pending (inst_heap s1 i)
               then resume_both (Some (session_resume_drc ops)) i (IRIS_INST_SUB_DRC OR IRIS_INST_SUB_DRC_LAST)
                      (finish_start ops i) (tell Vb2_clear_last s1)
               else if iris_drain_pending (inst_heap s1 i)
               then resume_both (session_resume_drain ops) i (IRIS_INST_SUB_DRAIN OR IRIS_INST_SUB_DRAIN_LAST)
                      (finish_start ops i) (tell Vb2_clear_last s1)
               else (- EBUSY, snd (iris_inst_change_state i IRIS_INST_ERROR s1))) s)"

definition iris_vdec_stop_cmd :: "iris_hfi_command_ops \<Rightarrow> nat \<Rightarrow> iris_sys \<Rightarrow> int \<times> iris_sys" where
  "iris_vdec_stop_cmd ops i =
     and_then (session_drain ops i OUTPUT_MPLANE) (on_inst i (iris_inst_change_sub_state 0 IRIS_INST_SUB_DRAIN))"

end
