(* ===== verification/IrisVenc.thy ===== *)
theory IrisVenc
  imports IrisVdec
begin

text \<open>
  The encoder (\<open>iris_venc.c\<close>): formats, the visible rectangle, the frame and operating
  rates, STREAMON of both planes, queueing a client buffer, and the START and STOP commands.
  What it shares with the decoder's file is defined in \<open>IrisVdec\<close>.
\<close>

section \<open>Formats\<close>

definition iris_venc_formats :: "u32 list" where
  "iris_venc_formats = [V4L2_PIX_FMT_H264, V4L2_PIX_FMT_HEVC]"

definition venc_find_format :: "u32 \<Rightarrow> u32 \<Rightarrow> u32 option" where
  "venc_find_format pixfmt ty =
     (if pixfmt \<in> set iris_venc_formats \<and> ty = CAPTURE_MPLANE then Some pixfmt else None)"

text \<open>The flags are those of a compressed format that sets the frame interval.\<close>

definition iris_venc_enum_fmt :: "u32 \<Rightarrow> u32 \<Rightarrow> int + u32 \<times> u32" where
  "iris_venc_enum_fmt ty index =
     (if ty = OUTPUT_MPLANE then (if index \<noteq> 0 then Inl (- EINVAL) else Inr (V4L2_PIX_FMT_NV12, 0))
      else if ty = CAPTURE_MPLANE \<and> unat index < length iris_venc_formats
      then Inr (iris_venc_formats ! unat index, 0x21)
      else Inl (- EINVAL))"

definition iris_venc_try_fmt :: "iris_inst \<Rightarrow> v4l2_format \<Rightarrow> int \<times> v4l2_format" where
  "iris_venc_try_fmt inst f =
     (let p = pix f;
          settle = (\<lambda>p. p\<lparr>pix_field := (if pix_field p = V4L2_FIELD_ANY then V4L2_FIELD_NONE else pix_field p),
                           num_planes := 1\<rparr>)
      in if fmt_type f = OUTPUT_MPLANE then
           (0, f\<lparr>pix := settle (if pixelformat p \<noteq> V4L2_PIX_FMT_NV12 then same_format (fmt_src inst) p else p)\<rparr>)
         else if fmt_type f = CAPTURE_MPLANE then
           (0, f\<lparr>pix := settle (if venc_find_format (pixelformat p) (fmt_type f) = None
                                then same_format (fmt_dst inst) p else p)\<rparr>)
         else (- EINVAL, f))"

abbreviation (input) V4L2_COLORSPACE_DEFAULT :: u32 where "V4L2_COLORSPACE_DEFAULT \<equiv> 0"
abbreviation (input) V4L2_COLORSPACE_REC709 :: u32 where "V4L2_COLORSPACE_REC709 \<equiv> 3"

text \<open>The size of the bitstream buffer is taken before the new pixel format is stored.\<close>

definition iris_venc_s_fmt_output ::
    "iris_platform_data \<Rightarrow> v4l2_format \<Rightarrow> iris_inst \<Rightarrow> int \<times> v4l2_format \<times> iris_inst" where
  "iris_venc_s_fmt_output pd f x =
     (let f1 = snd (iris_venc_try_fmt x f); p = pix f1 in
      if venc_find_format (pixelformat p) (fmt_type f1) = None then (- EINVAL, f1, x)
      else let p1 = (if colorspace p \<noteq> V4L2_COLORSPACE_DEFAULT \<and> colorspace p \<noteq> V4L2_COLORSPACE_REC709
                     then p\<lparr>colorspace := V4L2_COLORSPACE_DEFAULT\<rparr> else p);
               x1 = size_dst pd (x\<lparr>fmt_dst := (fmt_dst x)\<lparr>num_planes := 1, bytesperline := 0\<rparr>\<rparr>);
               x2 = count_dst pd (x1\<lparr>fmt_dst := set_colour p1 (fmt_dst x1)\<rparr>);
               x3 = x2\<lparr>fmt_dst := (fmt_dst x2)\<lparr>pixelformat := pixelformat p\<rparr>, codec := pixelformat p\<rparr>
           in (0, \<lparr>fmt_type = CAPTURE_MPLANE, pix = fmt_dst x3\<rparr>, x3))"

definition iris_venc_s_fmt_input ::
    "iris_platform_data \<Rightarrow> v4l2_format \<Rightarrow> iris_inst \<Rightarrow> int \<times> v4l2_format \<times> iris_inst" where
  "iris_venc_s_fmt_input pd f x =
     (let f1 = snd (iris_venc_try_fmt x f); p = pix f1 in
      if pixelformat p \<noteq> V4L2_PIX_FMT_NV12 then (- EINVAL, f1, x)
      else let x1 = size_src pd (x\<lparr>fmt_src := (fmt_src x)\<lparr>pix_width := pix_width p, pix_height := pix_height p,
                      num_planes := 1, pixelformat := pixelformat p, bytesperline := ALIGN (pix_width p) 128\<rparr>\<rparr>);
               src = set_colour p (fmt_src x1);
               x2 = x1\<lparr>fmt_src := src, fmt_dst := (set_colour src (fmt_dst x1))
                      \<lparr>pix_width := pix_width src, pix_height := pix_height src\<rparr>\<rparr>;
               x3 = (if pix_width p \<noteq> rect_width (crop x2) \<or> pix_height p \<noteq> rect_height (crop x2)
                     then snd (snd (iris_venc_s_fmt_output pd \<lparr>fmt_type = CAPTURE_MPLANE, pix = fmt_dst x2\<rparr>
                            (crop_to (pix_width src) (pix_height src) x2)))
                     else x2)
           in (0, \<lparr>fmt_type = OUTPUT_MPLANE, pix = src\<rparr>, x3))"

definition iris_venc_s_fmt ::
    "iris_platform_data \<Rightarrow> v4l2_format \<Rightarrow> iris_inst \<Rightarrow> int \<times> v4l2_format \<times> iris_inst" where
  "iris_venc_s_fmt pd f x =
     (if (if V4L2_TYPE_IS_OUTPUT (fmt_type f) then src_busy x else dst_busy x) then (- EBUSY, f, x)
      else if fmt_type f = OUTPUT_MPLANE then iris_venc_s_fmt_input pd f x
      else if fmt_type f = CAPTURE_MPLANE then iris_venc_s_fmt_output pd f x
      else (- EINVAL, f, x))"

definition iris_venc_validate_format :: "u32 \<Rightarrow> int" where
  "iris_venc_validate_format pixfmt =
     (if pixfmt \<noteq> V4L2_PIX_FMT_NV12 \<and> venc_find_format pixfmt CAPTURE_MPLANE = None then - EINVAL else 0)"

definition venc_defaults :: "iris_platform_data \<Rightarrow> (nat \<Rightarrow> platform_inst_fw_cap) \<Rightarrow> iris_inst \<Rightarrow> iris_inst" where
  "venc_defaults pd caps x =
     (let fresh = (\<lambda>p. p\<lparr>pix_field := V4L2_FIELD_NONE, colorspace := 0, xfer_func := 0, ycbcr_enc := 0,
                       quantization := 0\<rparr>);
          x1 = size_dst pd (x\<lparr>codec := V4L2_PIX_FMT_H264, fmt_dst := (fmt_dst x)\<lparr>pix_width := DEFAULT_WIDTH,
                 pix_height := DEFAULT_HEIGHT, pixelformat := V4L2_PIX_FMT_H264, num_planes := 1, bytesperline := 0\<rparr>\<rparr>);
          x2 = count_dst pd (x1\<lparr>fmt_dst := fresh (fmt_dst x1)\<rparr>);
          x3 = size_src pd (x2\<lparr>fmt_src := (fmt_src x2)\<lparr>pixelformat := V4L2_PIX_FMT_NV12, pix_width := DEFAULT_WIDTH,
                 pix_height := DEFAULT_HEIGHT, num_planes := 1, bytesperline := ALIGN DEFAULT_WIDTH 128\<rparr>\<rparr>);
          x4 = x3\<lparr>fmt_src := fresh (fmt_src x3)\<rparr>
      in (crop_to DEFAULT_WIDTH DEFAULT_HEIGHT x4)\<lparr>operating_rate := DEFAULT_FPS, frame_rate := DEFAULT_FPS,
           fw_caps := caps\<rparr>)"

definition iris_venc_inst_init ::
    "(nat \<Rightarrow> iris_sys \<Rightarrow> int \<times> iris_sys) \<Rightarrow> nat \<Rightarrow> iris_sys \<Rightarrow> int \<times> iris_sys" where
  "iris_venc_inst_init ctrls_init i s =
     (case ask Kzalloc s of (p, s1) \<Rightarrow> case ask Kzalloc s1 of (q, s2) \<Rightarrow>
      if p = 0 \<or> q = 0 then (- ENOMEM, s2)
      else ctrls_init i (modify_inst i (venc_defaults (platform s2) (core_fw_caps_enc s2)) s2))"

section \<open>Selection and rates\<close>

text \<open>Only the crop rectangle of the OUTPUT queue (type 2, target 0), anchored at the origin.\<close>

definition iris_venc_s_selection ::
    "iris_platform_data \<Rightarrow> u32 \<Rightarrow> u32 \<Rightarrow> u32 \<Rightarrow> u32 \<Rightarrow> iris_inst \<Rightarrow> int \<times> iris_inst" where
  "iris_venc_s_selection pd ty target w h x =
     (if ty \<noteq> 2 \<or> target \<noteq> 0 then (- EINVAL, x)
      else if pix_width (fmt_src x) < w \<or> pix_height (fmt_src x) < h then (- EINVAL, x)
      else let x1 = crop_to w h x;
               x2 = x1\<lparr>fmt_dst := (fmt_dst x1)\<lparr>pix_width := w, pix_height := h\<rparr>\<rparr>
           in case iris_venc_s_fmt_output pd \<lparr>fmt_type = CAPTURE_MPLANE, pix = fmt_dst x2\<rparr> x2 of
                (ret, _, x3) \<Rightarrow> (ret, x3))"

abbreviation (input) USEC_PER_SEC :: u64 where "USEC_PER_SEC \<equiv> 1000000"

text \<open>
  The rate for a time per frame, which the code turns into microseconds first; \<open>do_div\<close> takes
  the low 32 bits of its divisor.
\<close>

definition fps_of :: "u32 \<Rightarrow> u32 \<Rightarrow> u64 option" where
  "fps_of numerator denominator =
     (let n = (if numerator = 0 then 1 else numerator); d = (if denominator = 0 then DEFAULT_FPS else denominator);
          us_per_frame = do_div (ucast n * USEC_PER_SEC) (ucast d)
      in if us_per_frame = 0 then None else Some (do_div USEC_PER_SEC us_per_frame))"

definition set_rate_of :: "bool \<Rightarrow> u32 \<Rightarrow> iris_inst \<Rightarrow> iris_inst" where
  "set_rate_of is_frame_rate fps x = (if is_frame_rate then x\<lparr>frame_rate := fps\<rparr> else x\<lparr>operating_rate := fps\<rparr>)"

definition iris_venc_s_param :: "nat \<Rightarrow> u32 \<Rightarrow> u32 \<Rightarrow> u32 \<Rightarrow> iris_sys \<Rightarrow> int \<times> iris_sys" where
  "iris_venc_s_param i ty numerator denominator s =
     (let is_frame_rate = (ty \<noteq> OUTPUT_MPLANE); caps = inst_caps (platform s); inst = inst_heap s i;
          max_rate = (if is_frame_rate then max_frame_rate caps else max_operating_rate caps);
          reset = modify_inst i (set_rate_of is_frame_rate DEFAULT_FPS)
      in case fps_of numerator denominator of None \<Rightarrow> (- EINVAL, s)
         | Some fps \<Rightarrow>
             if ucast max_rate < fps then (- ENOMEM, reset s)
             else let s1 = modify_inst i (set_rate_of is_frame_rate (ucast fps)) s in
               if ty = OUTPUT_MPLANE \<and> src_streaming inst \<or> ty = CAPTURE_MPLANE \<and> dst_streaming inst
               then (if iris_check_core_mbpf i s1 \<noteq> 0 then (iris_check_core_mbpf i s1, reset s1)
                     else if iris_check_core_mbps i s1 \<noteq> 0 then (iris_check_core_mbps i s1, reset s1)
                     else (0, s1))
               else (0, s1))"

text \<open>The numerator and the denominator.\<close>

definition iris_venc_g_param :: "iris_inst \<Rightarrow> u32 \<Rightarrow> u32 \<times> u32" where
  "iris_venc_g_param inst ty = (1, if ty = OUTPUT_MPLANE then operating_rate inst else frame_rate inst)"

section \<open>Streaming and commands\<close>

definition iris_venc_streamon_input :: "iris_hfi_command_ops \<Rightarrow> nat \<Rightarrow> iris_sys \<Rightarrow> int \<times> iris_sys" where
  "iris_venc_streamon_input ops i =
     run_all [iris_set_properties ops i OUTPUT_MPLANE,
        iris_alloc_and_queue_persist_bufs ops i BUF_ARP,
        run (iris_get_internal_buffers i OUTPUT_MPLANE),
        iris_destroy_dequeued_internal_buffers i OUTPUT_MPLANE,
        iris_create_internal_buffers i OUTPUT_MPLANE,
        iris_queue_internal_buffers ops i OUTPUT_MPLANE,
        iris_process_streamon_input ops i]"

text \<open>A failure is rolled back unless it is that of the persist buffers, which only returns.\<close>

definition or_rollback :: "iris_hfi_command_ops \<Rightarrow> nat \<Rightarrow> (iris_sys \<Rightarrow> int \<times> iris_sys) \<Rightarrow> iris_sys \<Rightarrow> int \<times> iris_sys" where
  "or_rollback ops i f s = (case f s of (ret, t) \<Rightarrow> (ret, if ret \<noteq> 0 then rollback_capture ops i t else t))"

definition iris_venc_streamon_output :: "iris_hfi_command_ops \<Rightarrow> nat \<Rightarrow> iris_sys \<Rightarrow> int \<times> iris_sys" where
  "iris_venc_streamon_output ops i =
     run_all [or_rollback ops i (iris_set_properties ops i CAPTURE_MPLANE),
        iris_alloc_and_queue_persist_bufs ops i BUF_ARP,
        or_rollback ops i (run_all [run (iris_get_internal_buffers i CAPTURE_MPLANE),
          iris_destroy_dequeued_internal_buffers i CAPTURE_MPLANE,
          iris_create_internal_buffers i CAPTURE_MPLANE,
          iris_queue_internal_buffers ops i CAPTURE_MPLANE,
          iris_process_streamon_output ops i])]"

definition iris_venc_qbuf :: "iris_hfi_command_ops \<Rightarrow> nat \<Rightarrow> vb2_buffer \<Rightarrow> iris_sys \<Rightarrow> int \<times> iris_sys" where
  "iris_venc_qbuf ops i vb s =
     (let r = plane_ref (vb_plane vb) (vb_index vb); input = (vb_plane vb = OUTPUT_MPLANE);
          s1 = modify_inst i (map_buf (iris_vb2_buffer_to_driver vb) r) s;
          s2 = (if input then modify_inst i (iris_set_ts_metadata vb) s1 else s1)
      in if \<not> (if input then src_streaming (inst_heap s2 i) else dst_streaming (inst_heap s2 i))
         then (0, set_attr i r (\<lambda>a. a OR BUF_ATTR_DEFERRED) s2)
         else iris_queue_buffer ops i r (snd (iris_scale_power i s2)))"

definition iris_venc_start_cmd :: "iris_hfi_command_ops \<Rightarrow> nat \<Rightarrow> iris_sys \<Rightarrow> int \<times> iris_sys" where
  "iris_venc_start_cmd ops i s =
     (if iris_drain_pending (inst_heap s i)
      then resume_both (session_resume_drain ops) i (IRIS_INST_SUB_DRAIN OR IRIS_INST_SUB_DRAIN_LAST)
             (\<lambda>clear. run_all [run (modify_inst i (last_buffer_dequeued_update (\<lambda>_. False))),
                               on_inst i (iris_inst_change_sub_state clear 0)]) (tell Vb2_clear_last s)
      else (- EBUSY, snd (iris_inst_change_state i IRIS_INST_ERROR s)))"

definition iris_venc_stop_cmd :: "iris_hfi_command_ops \<Rightarrow> nat \<Rightarrow> iris_sys \<Rightarrow> int \<times> iris_sys" where
  "iris_venc_stop_cmd ops i =
     and_then (session_drain ops i OUTPUT_MPLANE) (\<lambda>s.
       case on_inst i (iris_inst_change_sub_state 0 IRIS_INST_SUB_DRAIN) s of (ret, s1) \<Rightarrow>
       (ret, snd (iris_scale_power i s1)))"

end
