(* ===== verification/IrisVb2.thy ===== *)
theory IrisVb2
  imports IrisVenc
begin

text \<open>
  The callbacks of the buffer queues (\<open>iris_vb2.c\<close>): setting up a queue, starting and
  stopping it, preparing, queueing and finishing a buffer, and the placeholder that keeps the
  high addresses free for the CAPTURE buffers of a VP9 stream.
\<close>

section \<open>The VP9 placeholder\<close>

definition IRIS1_VP9_IOVA_HOLE_SIZE :: u32 where "IRIS1_VP9_IOVA_HOLE_SIZE = 0x04000000"

definition iris1_vp9_needs_iova_hole :: "iris_platform_data \<Rightarrow> iris_inst \<Rightarrow> bool" where
  "iris1_vp9_needs_iova_hole pd inst \<longleftrightarrow> legacy_vpu5 pd \<and> codec inst = V4L2_PIX_FMT_VP9"

definition iris_vb2_vp9_alloc_high_iova_hole :: "nat \<Rightarrow> iris_sys \<Rightarrow> int \<times> iris_sys" where
  "iris_vb2_vp9_alloc_high_iova_hole i s =
     (if \<not> iris1_vp9_needs_iova_hole (platform s) (inst_heap s i) \<or> vp9_iova_hole_size (inst_heap s i) \<noteq> 0
      then (0, s)
      else case dma_alloc_attrs IRIS1_VP9_IOVA_HOLE_SIZE s of (v, d, s1) \<Rightarrow>
        if v = 0 then (- ENOMEM, s1)
        else (0, modify_inst i (\<lambda>x. x\<lparr>vp9_iova_hole_vaddr := v, vp9_iova_hole_daddr := d,
                vp9_iova_hole_size := IRIS1_VP9_IOVA_HOLE_SIZE\<rparr>) s1))"

definition iris_vb2_vp9_release_high_iova_hole :: "nat \<Rightarrow> iris_sys \<Rightarrow> iris_sys" where
  "iris_vb2_vp9_release_high_iova_hole i s =
     (let x = inst_heap s i in
      if vp9_iova_hole_size x = 0 then s
      else tell (Dma_free (vp9_iova_hole_size x) (vp9_iova_hole_vaddr x))
             (modify_inst i (\<lambda>x. x\<lparr>vp9_iova_hole_vaddr := 0, vp9_iova_hole_daddr := 0,
                vp9_iova_hole_size := 0\<rparr>) s))"

definition iris_vdec_inst_deinit :: "nat \<Rightarrow> iris_sys \<Rightarrow> iris_sys" where
  "iris_vdec_inst_deinit i s = iris_vb2_vp9_release_high_iova_hole i (iris_vdec_clear_pending_output i s)"

section \<open>Setting up a queue\<close>

text \<open>
  \<open>cached_capture\<close> is the module parameter of the file and \<open>mmap\<close> whether the queue uses MMAP
  buffers.
\<close>

definition iris1_use_cached_capture :: "bool \<Rightarrow> bool \<Rightarrow> iris_platform_data \<Rightarrow> iris_inst \<Rightarrow> u32 \<Rightarrow> bool" where
  "iris1_use_cached_capture cached_capture mmap pd inst plane \<longleftrightarrow>
     cached_capture \<and> legacy_vpu5 pd \<and> codec inst \<in> {V4L2_PIX_FMT_H264, V4L2_PIX_FMT_HEVC, V4L2_PIX_FMT_VP9} \<and>
     V4L2_TYPE_IS_CAPTURE plane \<and> mmap"

definition iris_check_session_supported :: "nat \<Rightarrow> iris_sys \<Rightarrow> int" where
  "iris_check_session_supported i s =
     (if i \<notin> set (instances s) then - EINVAL
      else if iris_check_core_mbpf i s \<noteq> 0 then iris_check_core_mbpf i s
      else if iris_check_inst_mbpf (platform s) (inst_heap s i) \<noteq> 0
      then iris_check_inst_mbpf (platform s) (inst_heap s i)
      else iris_check_resolution_supported (platform s) (inst_heap s i))"

definition admit_capture :: "nat \<Rightarrow> iris_sys \<Rightarrow> int \<times> iris_sys" where
  "admit_capture i s =
     (let inst = inst_heap s i;
          fps = (if domain inst = DECODER then iris_vdec_get_admission_fps inst
                 else max (frame_rate inst) (operating_rate inst))
      in case iris_reserve_core_load i fps s of (ret, s1) \<Rightarrow>
         (ret, if ret \<noteq> 0 then modify_inst i (core_load_rejected_update (\<lambda>_. True)) s1 else s1))"

text \<open>
  The request of a client that brings its own sizes is only checked; the result is 0 with one
  plane of the size of the format, or the error.
\<close>

definition setup_session :: "iris_hfi_command_ops \<Rightarrow> nat \<Rightarrow> u32 \<Rightarrow> iris_sys \<Rightarrow> int \<times> iris_sys" where
  "setup_session ops i plane s =
     (if V4L2_TYPE_IS_CAPTURE plane \<and> core_load_rejected (inst_heap s i) then (- ENOMEM, s)
      else if iris_check_session_supported i s \<noteq> 0 then (iris_check_session_supported i s, s)
      else run_all [iris_hfi_session_open ops i,
        \<lambda>s1. if V4L2_TYPE_IS_CAPTURE plane \<and> \<not> core_load_reserved (inst_heap s1 i)
              then admit_capture i s1 else (0, s1),
        if V4L2_TYPE_IS_OUTPUT plane then iris_vb2_vp9_alloc_high_iova_hole i
        else run (if V4L2_TYPE_IS_CAPTURE plane then iris_vb2_vp9_release_high_iova_hole i else id)] s)"

definition iris_vb2_queue_setup ::
    "iris_hfi_command_ops \<Rightarrow> bool \<Rightarrow> bool \<Rightarrow> nat \<Rightarrow> u32 \<Rightarrow> (u32 \<times> u32) option \<Rightarrow> iris_sys \<Rightarrow> int \<times> iris_sys" where
  "iris_vb2_queue_setup ops cached_capture mmap i plane req s =
     (let inst = inst_heap s i;
          f = (if V4L2_TYPE_IS_OUTPUT plane then fmt_src inst else fmt_dst inst)
      in if inst_state inst = IRIS_INST_ERROR then (- EBUSY, s)
         else let s1 = (if iris1_use_cached_capture cached_capture mmap (platform s) inst plane
                        then tell Vb2_non_coherent s else s)
              in case req of
                   Some (planes, size0) \<Rightarrow>
                     (if planes \<noteq> num_planes f \<or> size0 < sizeimage f then - EINVAL else 0, s1)
                 | None \<Rightarrow> setup_session ops i plane s1)"

section \<open>Starting and stopping\<close>

definition streamon_plane :: "iris_hfi_command_ops \<Rightarrow> nat \<Rightarrow> u32 \<Rightarrow> iris_sys \<Rightarrow> int \<times> iris_sys" where
  "streamon_plane ops i plane s =
     (if V4L2_TYPE_IS_OUTPUT plane
      then (if domain (inst_heap s i) = DECODER then iris_vdec_streamon_input ops i s
            else iris_venc_streamon_input ops i s)
      else (if domain (inst_heap s i) = DECODER then iris_vdec_streamon_output ops i s
            else iris_venc_streamon_output ops i s))"

definition queue_deferred :: "iris_hfi_command_ops \<Rightarrow> nat \<Rightarrow> u32 \<Rightarrow> iris_sys \<Rightarrow> int \<times> iris_sys" where
  "queue_deferred ops i plane s =
     (let streaming = (\<lambda>s. inst_state (inst_heap s i) = IRIS_INST_STREAMING) in
      if domain (inst_heap s i) = DECODER then
        run_all [if iris_v4l2_type_to_driver plane = BUF_INPUT then iris_queue_deferred_buffers ops i BUF_INPUT
                 else run id,
          \<lambda>s1. if streaming s1
                then run_all [iris_queue_internal_deferred_buffers ops i BUF_DPB,
                              iris_queue_deferred_buffers ops i BUF_OUTPUT] s1
                else (0, s1)] s
      else if streaming s
      then run_all [iris_queue_deferred_buffers ops i BUF_INPUT, iris_queue_deferred_buffers ops i BUF_OUTPUT] s
      else (0, s))"

definition start_plane :: "iris_hfi_command_ops \<Rightarrow> nat \<Rightarrow> u32 \<Rightarrow> iris_sys \<Rightarrow> int \<times> iris_sys" where
  "start_plane ops i plane s =
     (if inst_state (inst_heap s i) = IRIS_INST_ERROR then (- EBUSY, s)
      else if \<not> V4L2_TYPE_IS_OUTPUT plane \<and> \<not> V4L2_TYPE_IS_CAPTURE plane then (- EINVAL, s)
      else if iris_check_session_supported i s \<noteq> 0 then (iris_check_session_supported i s, s)
      else run_all [iris_hfi_session_open ops i, run (\<lambda>s1. snd (iris_scale_power i s1)),
                    streamon_plane ops i plane, queue_deferred ops i plane] s)"

definition iris_vb2_start_streaming :: "iris_hfi_command_ops \<Rightarrow> nat \<Rightarrow> u32 \<Rightarrow> iris_sys \<Rightarrow> int \<times> iris_sys" where
  "iris_vb2_start_streaming ops i plane s =
     (case start_plane ops i plane s of (ret, s1) \<Rightarrow>
      (ret, if ret \<noteq> 0
            then snd (iris_inst_change_state i IRIS_INST_ERROR
                   (iris_helper_buffers_done i plane VB2_BUF_STATE_QUEUED s1))
            else s1))"

definition iris_vb2_stop_streaming :: "iris_hfi_command_ops \<Rightarrow> nat \<Rightarrow> u32 \<Rightarrow> iris_sys \<Rightarrow> iris_sys" where
  "iris_vb2_stop_streaming ops i plane s =
     (let inst = inst_heap s i; capture = V4L2_TYPE_IS_CAPTURE plane in
      if capture \<and> inst_state inst = IRIS_INST_INIT then iris_release_core_load i s
      else let s1 = (if domain inst = DECODER \<and> capture then iris_vdec_clear_pending_output i s else s);
               (ret, s2) = (if \<not> V4L2_TYPE_IS_OUTPUT plane \<and> \<not> capture then (0, s1)
                            else iris_session_streamoff ops i plane s1);
               s3 = (if ret = 0 \<and> capture then iris_release_core_load i s2 else s2);
               s4 = iris_helper_buffers_done i plane VB2_BUF_STATE_ERROR s3
           in if ret \<noteq> 0 then snd (iris_inst_change_state i IRIS_INST_ERROR s4) else s4)"

section \<open>Buffers\<close>

definition iris_vb2_buf_init :: "u64 \<Rightarrow> iris_buffer \<Rightarrow> iris_buffer" where
  "iris_vb2_buf_init dma_addr buf = buf\<lparr>device_addr := dma_addr\<rparr>"

definition iris_vb2_buf_prepare :: "iris_platform_data \<Rightarrow> iris_inst \<Rightarrow> vb2_buffer \<Rightarrow> int \<times> vb2_buffer" where
  "iris_vb2_buf_prepare pd inst vb =
     (let vb1 = (if V4L2_TYPE_IS_OUTPUT (vb_plane vb) \<and> vbuf_field vb = V4L2_FIELD_ANY
                 then vb\<lparr>vbuf_field := V4L2_FIELD_NONE\<rparr> else vb);
          short = (\<lambda>ty. vb_length vb < buffer_size_u32 pd ty inst)
      in if V4L2_TYPE_IS_OUTPUT (vb_plane vb) \<and> vbuf_field vb1 \<noteq> V4L2_FIELD_NONE then (- EINVAL, vb1)
         else if \<not> has (sub_state inst) IRIS_INST_SUB_DRC \<and>
                 (vb_plane vb = CAPTURE_MPLANE \<and> short BUF_OUTPUT \<or> vb_plane vb = OUTPUT_MPLANE \<and> short BUF_INPUT)
         then (- EINVAL, vb1)
         else (0, vb1))"

definition iris_vb2_buf_out_validate :: "vb2_buffer \<Rightarrow> int \<times> vb2_buffer" where
  "iris_vb2_buf_out_validate vb = (0, vb\<lparr>vbuf_field := V4L2_FIELD_NONE\<rparr>)"

definition iris_vb2_buf_finish :: "nat \<Rightarrow> u32 \<Rightarrow> iris_buffer \<Rightarrow> iris_sys \<Rightarrow> iris_sys" where
  "iris_vb2_buf_finish i plane buf s =
     (if \<not> V4L2_TYPE_IS_CAPTURE plane \<or> domain (inst_heap s i) \<noteq> DECODER \<or>
         rect_width (buf_crop buf) = 0 \<or> rect_height (buf_crop buf) = 0 then s
      else modify_inst i (\<lambda>x. x\<lparr>dqbuf_crop := buf_crop buf, dqbuf_crop_valid := True\<rparr>) s)"

text \<open>
  \<open>buf\<close> is the driver's part of the buffer: it goes on the list of the memory-to-memory
  context, and stays there when the queueing fails and the buffer is handed back.
\<close>

definition m2m_queue :: "u32 \<Rightarrow> iris_buffer \<Rightarrow> iris_inst \<Rightarrow> iris_inst" where
  "m2m_queue plane b = (if V4L2_TYPE_IS_OUTPUT plane then m2m_src_update (\<lambda>l. l @ [b])
                        else m2m_dst_update (\<lambda>l. l @ [b]))"

definition return_last :: "nat \<Rightarrow> vb2_buffer \<Rightarrow> iris_sys \<Rightarrow> iris_sys" where
  "return_last i vb s =
     (let n = vb_index vb; inst = inst_heap s i;
          field = (if interlaced inst then V4L2_FIELD_INTERLACED else V4L2_FIELD_NONE)
      in mark_last i (tell (Buf_done CAPTURE_MPLANE n VB2_BUF_STATE_DONE)
           (tell (Vb2_payload CAPTURE_MPLANE n 0) (tell (Vb2_field CAPTURE_MPLANE n field)
             (modify_inst i (sequence_cap_update (\<lambda>q. q + 1))
               (tell (Vb2_sequence CAPTURE_MPLANE n (sequence_cap inst))
                 (tell (Vb2_flags CAPTURE_MPLANE n (vbuf_flags vb OR V4L2_BUF_FLAG_LAST)) s)))))))"

definition queue_failed :: "nat \<Rightarrow> vb2_buffer \<Rightarrow> iris_sys \<Rightarrow> iris_sys" where
  "queue_failed i vb s =
     tell (Buf_done (vb_plane vb) (vb_index vb) VB2_BUF_STATE_ERROR)
       (snd (iris_inst_change_state i IRIS_INST_ERROR s))"

text \<open>A field order the client left open is the one of the stream.\<close>

definition settle_field :: "nat \<Rightarrow> vb2_buffer \<Rightarrow> iris_sys \<Rightarrow> vb2_buffer \<times> iris_sys" where
  "settle_field i vb s =
     (let field = (if V4L2_TYPE_IS_CAPTURE (vb_plane vb) \<and> interlaced (inst_heap s i)
                   then V4L2_FIELD_INTERLACED else V4L2_FIELD_NONE)
      in if vbuf_field vb = V4L2_FIELD_ANY
         then (vb\<lparr>vbuf_field := field\<rparr>, tell (Vb2_field (vb_plane vb) (vb_index vb) field) s) else (vb, s))"

definition iris_vb2_buf_queue ::
    "iris_hfi_command_ops \<Rightarrow> nat \<Rightarrow> vb2_buffer \<Rightarrow> iris_buffer \<Rightarrow> iris_sys \<Rightarrow> iris_sys" where
  "iris_vb2_buf_queue ops i vb0 buf s0 =
     (let inst = inst_heap s0 i; capture = V4L2_TYPE_IS_CAPTURE (vb_plane vb0) in
      if inst_state inst = IRIS_INST_ERROR then queue_failed i vb0 s0
      else case settle_field i vb0 s0 of (vb, s) \<Rightarrow>
      if vb_bytesused vb = 0 \<and> V4L2_TYPE_IS_OUTPUT (vb_plane vb) then queue_failed i vb s
      else if \<not> last_buffer_dequeued inst \<and> capture \<and> (iris_drc_pending inst \<or> iris_drain_pending inst)
      then return_last i vb s
      else let s1 = modify_inst i (m2m_queue (vb_plane vb)
                 (buf\<lparr>buf_index := vb_index vb, vb_flags := vbuf_flags vb, vb_timecode := vbuf_timecode vb\<rparr>)) s
           in case (if domain inst = DECODER then iris_vdec_qbuf ops i vb s1 else iris_venc_qbuf ops i vb s1) of
                (ret, s2) \<Rightarrow> if ret \<noteq> 0 then queue_failed i vb s2 else s2)"

end
