(* ===== verification/IrisGen1Resp.thy ===== *)
theory IrisGen1Resp
  imports IrisVb2 IrisGen1Ops
begin

text \<open>
  The responses of the Gen1 firmware (\<open>iris_hfi_gen1_response.c\<close>) and the colour maps of
  \<open>iris_hfi_common.c\<close>: what the response thread does with each packet of the message queue.
  A packet is the words of the 4 KiB buffer \<open>response_packet\<close>; only its header is cleared
  between two packets. A read past the buffer is the event \<open>Oops\<close>.
\<close>

section \<open>Colour descriptions\<close>

fun iris_hfi_get_v4l2_color_primaries :: "u32 \<Rightarrow> u32" where
  "iris_hfi_get_v4l2_color_primaries p =
     (if p = 0 then 0 else if p = 1 then 3 else if p = 4 then 5 else if p = 5 then 6
      else if p = 6 then 1 else if p = 7 then 2 else if p = 9 then 10 else if p = 12 then 11 else 0)"

fun iris_hfi_get_v4l2_transfer_char :: "u32 \<Rightarrow> u32" where
  "iris_hfi_get_v4l2_transfer_char c =
     (if c = 0 then 0 else if c = 1 then 1 else if c = 7 then 4 else if c = 13 then 2
      else if c = 16 then 7 else 0)"

fun iris_hfi_get_v4l2_matrix_coefficients :: "u32 \<Rightarrow> u32" where
  "iris_hfi_get_v4l2_matrix_coefficients c =
     (if c = 3 then 0 else if c = 1 then 2 else if c = 5 then 3 else if c = 6 then 1
      else if c = 7 then 8 else if c = 9 then 6 else if c = 10 then 7 else 0)"

section \<open>The properties of a sequence change\<close>

type_synonym packet_words = "nat \<Rightarrow> u32"

definition response_words :: "bytes \<Rightarrow> packet_words" where
  "response_words pkt = (\<lambda>k. load_u32 pkt (4 * k))"

record hfi_event_data =
  ev_width :: u32
  ev_height :: u32
  ev_bit_depth :: u32
  ev_pic_struct :: u32
  ev_colour_space :: u32
  ev_buf_count :: u32
  ev_crop :: iris_hfi_rect_desc

definition zero_event :: hfi_event_data where
  "zero_event = \<lparr>ev_width = 0, ev_height = 0, ev_bit_depth = 0, ev_pic_struct = 0, ev_colour_space = 0,
     ev_buf_count = 0, ev_crop = zero_rect\<rparr>"

definition iris_hfi_gen1_bufreq_count_min :: "iris_platform_data \<Rightarrow> u32 \<Rightarrow> u32 \<Rightarrow> u32" where
  "iris_hfi_gen1_bufreq_count_min pd hold_count count_min = (if legacy_vpu5 pd then hold_count else count_min)"

text \<open>
  One turn of the loop at word \<open>k\<close>: the event and the words of the property, its number
  included; a property that is not known takes no words.
\<close>

definition read_property ::
    "iris_platform_data \<Rightarrow> packet_words \<Rightarrow> nat \<Rightarrow> hfi_event_data \<Rightarrow> hfi_event_data \<times> nat" where
  "read_property pd w k ev =
     (let ptype = w k in
      if ptype = HFI_PROPERTY_PARAM_FRAME_SIZE
      then (ev\<lparr>ev_width := w (k + 2), ev_height := w (k + 3)\<rparr>, 4)
      else if ptype = HFI_PROPERTY_PARAM_PROFILE_LEVEL_CURRENT then (ev, 3)
      else if ptype = HFI_PROPERTY_PARAM_VDEC_PIXEL_BITDEPTH then (ev\<lparr>ev_bit_depth := w (k + 2)\<rparr>, 3)
      else if ptype = HFI_PROPERTY_PARAM_VDEC_PIC_STRUCT then (ev\<lparr>ev_pic_struct := w (k + 1)\<rparr>, 2)
      else if ptype = HFI_PROPERTY_PARAM_VDEC_COLOUR_SPACE then (ev\<lparr>ev_colour_space := w (k + 1)\<rparr>, 2)
      else if ptype = HFI_PROPERTY_CONFIG_VDEC_ENTROPY then (ev, 2)
      else if ptype = HFI_PROPERTY_CONFIG_BUFFER_REQUIREMENTS
      then (ev\<lparr>ev_buf_count := iris_hfi_gen1_bufreq_count_min pd (w (k + 4)) (w (k + 5))\<rparr>, 9)
      else if ptype = HFI_INDEX_EXTRADATA_INPUT_CROP
      then (ev\<lparr>ev_crop := \<lparr>rect_left = w (k + 4), rect_top = w (k + 5), rect_width = w (k + 6),
              rect_height = w (k + 7)\<rparr>\<rparr>, 8)
      else if ptype = HFI_PROPERTY_PARAM_VDEC_DPB_COUNTS then (ev\<lparr>ev_buf_count := w (k + 5)\<rparr>, 6)
      else (ev, 0))"

text \<open>
  The loop for \<open>n\<close> properties: the event and the end of the words it has read. Of the buffer
  requirements it reads the counts and steps over the rest.
\<close>

fun read_properties ::
    "iris_platform_data \<Rightarrow> packet_words \<Rightarrow> nat \<Rightarrow> nat \<Rightarrow> hfi_event_data \<Rightarrow> hfi_event_data \<times> nat" where
  "read_properties pd w 0 k ev = (ev, 0)"
| "read_properties pd w (Suc n) k ev =
     (case read_property pd w k ev of (ev', len) \<Rightarrow>
      let reads = (if w k = HFI_PROPERTY_CONFIG_BUFFER_REQUIREMENTS then 6 else max 1 len)
      in case read_properties pd w n (k + len) ev' of (ev'', hi) \<Rightarrow> (ev'', max (k + reads) hi))"

definition field_get :: "nat \<Rightarrow> nat \<Rightarrow> u32 \<Rightarrow> u32" where
  "field_get hi lo x = drop_bit lo x AND mask (hi + 1 - lo)"

text \<open>The colour description a stream carries, if it says so.\<close>

definition stream_colour :: "u32 \<Rightarrow> v4l2_pix_mp \<Rightarrow> v4l2_pix_mp" where
  "stream_colour cs p =
     (let present = field_get 29 29 cs \<noteq> 0; described = present \<and> field_get 24 24 cs \<noteq> 0
      in p\<lparr>quantization := (if present then (if field_get 25 25 cs \<noteq> 0 then 1 else 2) else 0),
           colorspace := (if described then iris_hfi_get_v4l2_color_primaries (field_get 23 16 cs) else 0),
           xfer_func := (if described then iris_hfi_get_v4l2_transfer_char (field_get 15 8 cs) else 0),
           ycbcr_enc := (if described then iris_hfi_get_v4l2_matrix_coefficients (field_get 7 0 cs) else 0)\<rparr>)"

definition changed_formats :: "iris_platform_data \<Rightarrow> hfi_event_data \<Rightarrow> iris_inst \<Rightarrow> iris_inst" where
  "changed_formats pd ev x =
     (let w = ev_width ev; h = ev_height ev;
          to_p010 = legacy_vpu5 pd \<and> ev_bit_depth ev = HFI_BIT_DEPTH_10 \<and> pixelformat (fmt_dst x) \<noteq> V4L2_PIX_FMT_P010;
          fmt = (if to_p010 then V4L2_PIX_FMT_P010 else pixelformat (fmt_dst x));
          x1 = x\<lparr>fmt_src := (fmt_src x)\<lparr>pix_width := w, pix_height := h\<rparr>,
                 capture_format_changed := (to_p010 \<or> capture_format_changed x),
                 fmt_dst := (fmt_dst x)\<lparr>pixelformat := fmt, pix_width := ALIGN w 128, pix_height := ALIGN h 32,
                   bytesperline := iris_vdec_raw_stride w fmt\<rparr>\<rparr>;
          dst = stream_colour (ev_colour_space ev) ((fmt_dst x1)\<lparr>sizeimage := buffer_size_u32 pd BUF_OUTPUT x1\<rparr>)
      in x1\<lparr>fmt_dst := dst, fmt_src := set_colour dst (fmt_src x1)\<rparr>)"

definition changed_params :: "iris_platform_data \<Rightarrow> hfi_event_data \<Rightarrow> iris_inst \<Rightarrow> iris_inst" where
  "changed_params pd ev x =
     (let x1 = changed_formats pd ev x; c = ev_crop ev;
          x2 = x1\<lparr>crop := (if 0 < rect_width c \<and> 0 < rect_height c then c
                           else \<lparr>rect_left = 0, rect_top = 0, rect_width = ev_width ev, rect_height = ev_height ev\<rparr>),
                  fw_min_count := ev_buf_count ev\<rparr>
      in set_buffers_info BUF_OUTPUT (\<lambda>b. b\<lparr>buf_size := sizeimage (fmt_dst x2)\<rparr>) (count_dst pd x2))"

definition unsupported_depth :: "hfi_event_data \<Rightarrow> iris_inst \<Rightarrow> bool" where
  "unsupported_depth ev x \<longleftrightarrow>
     ev_bit_depth ev \<noteq> HFI_BIT_DEPTH_8 \<and> ev_bit_depth ev \<noteq> HFI_BIT_DEPTH_10 \<or>
     ev_bit_depth ev = HFI_BIT_DEPTH_10 \<and> pixelformat (fmt_dst x) \<noteq> V4L2_PIX_FMT_P010"

definition inst_error :: "nat \<Rightarrow> iris_sys \<Rightarrow> iris_sys" where
  "inst_error i s = snd (iris_inst_change_state i IRIS_INST_ERROR s)"

text \<open>The words of the buffer are 1024; the properties start at the seventh.\<close>

definition iris_hfi_gen1_read_changed_params :: "nat \<Rightarrow> packet_words \<Rightarrow> iris_sys \<Rightarrow> iris_sys" where
  "iris_hfi_gen1_read_changed_params i w s =
     (case read_properties (platform s) w (unat (w 5)) 6 zero_event of (ev, hi) \<Rightarrow>
      let s1 = modify_inst i (changed_params (platform s) ev) (if 1024 < hi then tell Oops s else s);
          count = min_count (buffers (inst_heap s1 i) BUF_OUTPUT);
          s2 = tell (Vb2_min_reqbufs count) (tell (Ctrl_min_buffers count) s1);
          s3 = (if unsupported_depth ev (inst_heap s2 i) then inst_error i s2 else s2)
      in modify_inst i (interlaced_update (\<lambda>_. ev_pic_struct ev = 0)) s3)"

section \<open>Events\<close>

definition flush_output :: "nat \<Rightarrow> iris_sys \<Rightarrow> iris_sys" where
  "flush_output i s =
     (case send [16, HFI_CMD_SESSION_FLUSH, session_id (inst_heap s i), HFI_FLUSH_OUTPUT] s of (ret, s1) \<Rightarrow>
      if ret = 0 then count_flush i s1 else s1)"

definition iris_hfi_gen1_arm_drc :: "nat \<Rightarrow> iris_sys \<Rightarrow> iris_sys" where
  "iris_hfi_gen1_arm_drc i s =
     (case on_inst i iris_inst_sub_state_change_drc s of (ret, s1) \<Rightarrow>
      if ret \<noteq> 0 then s1
      else let s2 = (if inst_state (inst_heap s1 i) \<noteq> IRIS_INST_ERROR \<and> \<not> sub_has IRIS_INST_SUB_FIRST_IPSC i s1
                     then flush_output i (if flush_responses_pending (inst_heap s1 i) = 0
                                          then tell (Reinit_completion True) s1 else s1)
                     else s1)
           in snd (on_inst i iris_inst_sub_state_change_drc_last (iris_vdec_src_change i s2)))"

text \<open>
  Whether the allocation a client made before the first sequence still fits; \<open>vb2_get_num_buffers()\<close>
  is asked last of what the environment decides.
\<close>

definition first_sequence_fits :: "u32 \<Rightarrow> u32 \<Rightarrow> u32 \<Rightarrow> bool \<Rightarrow> u32 \<Rightarrow> iris_platform_data \<Rightarrow> iris_inst \<Rightarrow> bool" where
  "first_sequence_fits width height sz initial num pd x \<longleftrightarrow>
     legacy_vpu5 pd \<and> initial \<and> inst_state x = IRIS_INST_STREAMING \<and>
     width = pix_width (fmt_dst x) \<and> height = pix_height (fmt_dst x) \<and>
     buf_size (buffers x BUF_OUTPUT) \<le> sz \<and> min_count (buffers x BUF_OUTPUT) \<le> num \<and>
     fw_min_count x \<le> min_count (buffers x BUF_DPB)"

definition resume_first_sequence :: "iris_hfi_command_ops \<Rightarrow> nat \<Rightarrow> iris_sys \<Rightarrow> iris_sys" where
  "resume_first_sequence ops i s =
     (case session_resume_drc ops i OUTPUT_MPLANE s of (ret, s1) \<Rightarrow>
      if ret \<noteq> 0 then inst_error i s1
      else iris_vdec_src_change i (snd (on_inst i (iris_inst_change_sub_state
             (IRIS_INST_SUB_DRC OR IRIS_INST_SUB_FIRST_IPSC OR IRIS_INST_SUB_INPUT_PAUSE) 0) s1)))"

definition iris_hfi_gen1_event_seq_changed ::
    "iris_hfi_command_ops \<Rightarrow> nat \<Rightarrow> packet_words \<Rightarrow> iris_sys \<Rightarrow> iris_sys" where
  "iris_hfi_gen1_event_seq_changed ops i w s =
     (let inst = inst_heap s i in
      if has (sub_state inst) IRIS_INST_SUB_DRC then s
      else if w 4 \<noteq> HFI_EVENT_DATA_SEQUENCE_CHANGED_SUFFICIENT_BUF_RESOURCES \<and>
              w 4 \<noteq> HFI_EVENT_DATA_SEQUENCE_CHANGED_INSUFFICIENT_BUF_RESOURCES then inst_error i s
      else if w 5 = 0 then inst_error i s
      else let s1 = iris_hfi_gen1_read_changed_params i w s in
        case ask (Vb2_num_buffers CAPTURE_MPLANE) s1 of (num, s2) \<Rightarrow>
        if first_sequence_fits (pix_width (fmt_dst inst)) (pix_height (fmt_dst inst))
             (buf_size (buffers inst BUF_OUTPUT)) (fw_min_count inst = 0) (word_of_int num) (platform s2) (inst_heap s2 i)
        then resume_first_sequence ops i s2
        else iris_hfi_gen1_arm_drc i (iris_vb2_vp9_release_high_iova_hole i s2))"

definition iris_hfi_gen1_event_session_error :: "nat \<Rightarrow> packet_words \<Rightarrow> iris_sys \<Rightarrow> iris_sys" where
  "iris_hfi_gen1_event_session_error i w s =
     (if w 4 \<in> {HFI_ERR_SESSION_INVALID_SCALE_FACTOR, HFI_ERR_SESSION_UNSUPPORT_BUFFERTYPE,
                HFI_ERR_SESSION_UNSUPPORTED_SETTING, HFI_ERR_SESSION_UPSCALE_NOT_SUPPORTED} then s
      else iris_request_core_recovery (inst_error i (iris_vb2_queue_error s)))"

definition iris_hfi_gen1_session_event_notify ::
    "iris_hfi_command_ops \<Rightarrow> nat \<Rightarrow> packet_words \<Rightarrow> iris_sys \<Rightarrow> iris_sys" where
  "iris_hfi_gen1_session_event_notify ops i w s =
     (if w 3 = HFI_EVENT_SESSION_ERROR then iris_hfi_gen1_event_session_error i w s
      else if w 3 = HFI_EVENT_SESSION_SEQUENCE_CHANGED then iris_hfi_gen1_event_seq_changed ops i w s
      else s)"

text \<open>The text of the SFR only goes to the kernel log.\<close>

definition iris_hfi_gen1_sys_event_notify :: "packet_words \<Rightarrow> iris_sys \<Rightarrow> iris_sys" where
  "iris_hfi_gen1_sys_event_notify w s =
     (if w 3 \<noteq> HFI_EVENT_SYS_ERROR then s
      else let s1 = s\<lparr>core_state := IRIS_CORE_ERROR\<rparr>
           in tell Queue_error_work (fold inst_error (instances s1) s1))"

definition iris_hfi_gen1_sys_init_done :: "packet_words \<Rightarrow> iris_sys \<Rightarrow> iris_sys" where
  "iris_hfi_gen1_sys_init_done w s =
     (if w 2 \<noteq> HFI_ERR_NONE then s\<lparr>core_state := IRIS_CORE_ERROR\<rparr> else tell (Complete_core_init) s)"

text \<open>
  What a property of the system says goes to the kernel log: the version of the firmware
  image, of \<open>IRIS_FW_VERSION_LENGTH\<close> bytes with its terminator, or nothing.
\<close>

definition IRIS_FW_VERSION_LENGTH :: nat where "IRIS_FW_VERSION_LENGTH = 128"

definition iris_hfi_gen1_sys_get_prop_image_version :: "bytes \<Rightarrow> u8 list option" where
  "iris_hfi_gen1_sys_get_prop_image_version pkt =
     (let req_bytes = sint (load_u32 pkt 0 - 16) in
      if req_bytes < int (IRIS_FW_VERSION_LENGTH - 1) \<or> pkt 16 = 0 \<or> 1 < load_u32 pkt 8 then None
      else Some (List.map (\<lambda>k. if pkt (16 + k) \<noteq> 0 then pkt (16 + k) else 32) [0..<IRIS_FW_VERSION_LENGTH - 1] @ [0]))"

definition iris_hfi_gen1_sys_property_info :: "bytes \<Rightarrow> u8 list option" where
  "iris_hfi_gen1_sys_property_info pkt =
     (if load_u32 pkt 8 = 0 then None
      else if load_u32 pkt 12 = HFI_PROPERTY_SYS_IMAGE_VERSION then iris_hfi_gen1_sys_get_prop_image_version pkt
      else None)"

section \<open>Buffers\<close>

definition iris_hfi_gen1_session_etb_done :: "nat \<Rightarrow> packet_words \<Rightarrow> iris_sys \<Rightarrow> iris_sys" where
  "iris_hfi_gen1_session_etb_done i w s =
     (if w 7 = 0 \<or> w 7 = 0xdeadb000 then s
      else let r = Src (w 6) in
        case find_buf (inst_heap s i) r of
          None \<Rightarrow> inst_error i s
        | Some _ \<Rightarrow>
            let s1 = (if w 3 = HFI_ERR_SESSION_UNSUPPORTED_STREAM
                      then iris_request_core_recovery (inst_error i (iris_vb2_queue_error
                             (modify_inst i (map_buf (buf_flags_update (\<lambda>_. V4L2_BUF_FLAG_ERROR)) r) s)))
                      else s)
            in snd (with_buf i r (\<lambda>b s1.
                 if \<not> has (buf_attr b) BUF_ATTR_QUEUED then (0, s1)
                 else if has (buf_attr b) BUF_ATTR_BUFFER_DONE
                 then (0, set_attr i r (\<lambda>a. a AND NOT BUF_ATTR_QUEUED) s1)
                 else let f = (\<lambda>a. (a AND NOT BUF_ATTR_QUEUED) OR BUF_ATTR_BUFFER_DONE)
                      in iris_vb2_buffer_done i (buf_attr_update f b) (set_attr i r f s1)) s1))"

text \<open>What both layouts of a fill-buffer-done packet say.\<close>

record fill_done =
  fd_ts :: u64
  fd_filled :: u32
  fd_pic :: u32
  fd_tag :: u32
  fd_flags :: u32
  fd_offset :: u32

definition fill_done_of :: "domain_type \<Rightarrow> packet_words \<Rightarrow> fill_done" where
  "fill_done_of d w =
     (let ts = (\<lambda>h l. push_bit 32 (ucast (w h)) OR ucast (w l)) in
      case d of
        DECODER \<Rightarrow> \<lparr>fd_ts = ts 6 7, fd_filled = w 13, fd_pic = w 22, fd_tag = w 21, fd_flags = w 8, fd_offset = w 14\<rparr>
      | ENCODER \<Rightarrow> \<lparr>fd_ts = ts 3 4, fd_filled = w 12, fd_pic = w 15, fd_tag = w 14, fd_flags = w 6, fd_offset = w 10\<rparr>)"

definition fill_matches :: "fill_done \<Rightarrow> iris_buffer \<Rightarrow> bool" where
  "fill_matches fd b \<longleftrightarrow> has (buf_attr b) BUF_ATTR_QUEUED \<and> buf_index b = fd_tag fd \<and> data_offset b = fd_offset fd"

text \<open>A picture of the first stream of the split mode is a DPB, the others are client buffers.\<close>

definition filled_buffer :: "packet_words \<Rightarrow> fill_done \<Rightarrow> iris_inst \<Rightarrow> buf_ref option" where
  "filled_buffer w fd x =
     (if iris_split_mode_enabled x \<and> domain x = DECODER \<and> w 3 = 0
      then let l = buf_list (buffers x BUF_DPB)
           in map_option (Internal BUF_DPB) (List.find (\<lambda>k. fill_matches fd (l ! k)) [0..<length l])
      else map_option (\<lambda>b. Dst (buf_index b)) (List.find (fill_matches fd) (m2m_dst x)))"

definition end_of_stream :: "nat \<Rightarrow> iris_sys \<Rightarrow> iris_sys" where
  "end_of_stream i s =
     snd (on_inst i iris_inst_sub_state_change_drain_last (flush_output i (tell (Reinit_completion True) s)))"

definition iris_hfi_gen1_event_vp9_resize :: "nat \<Rightarrow> packet_words \<Rightarrow> iris_sys \<Rightarrow> iris_sys" where
  "iris_hfi_gen1_event_vp9_resize i w s =
     iris_vdec_src_change i (modify_inst i (\<lambda>x. x\<lparr>crop := \<lparr>rect_left = w 17, rect_top = w 18,
       rect_width = w 15, rect_height = w 16\<rparr>\<rparr>) s)"

definition vp9_shrinks :: "iris_platform_data \<Rightarrow> packet_words \<Rightarrow> iris_inst \<Rightarrow> bool" where
  "vp9_shrinks pd w x \<longleftrightarrow>
     codec x = V4L2_PIX_FMT_VP9 \<and> legacy_vpu5 pd \<and> fw_min_count x \<noteq> 0 \<and>
     \<not> has (sub_state x) IRIS_INST_SUB_DRC \<and> w 15 \<noteq> 0 \<and> w 16 \<noteq> 0 \<and>
     (w 15 < rect_width (crop x) \<or> w 16 < rect_height (crop x))"

text \<open>An empty buffer is the LAST one when a change of resolution or a drain is complete.\<close>

definition is_last :: "packet_words \<Rightarrow> iris_inst \<Rightarrow> bool" where
  "is_last w x \<longleftrightarrow> \<not> last_buffer_dequeued x \<and>
     (if domain x = DECODER \<and> w 3 = 1 then iris_drc_pending x \<or> iris_drain_pending x
      else domain x = ENCODER \<and> iris_drain_pending x)"

definition picture_flags :: "u32 \<Rightarrow> u32" where
  "picture_flags pic =
     (if pic = HFI_GEN1_PICTURE_IDR \<or> pic = HFI_GEN1_PICTURE_I then V4L2_BUF_FLAG_KEYFRAME
      else if pic = HFI_GEN1_PICTURE_P then V4L2_BUF_FLAG_PFRAME
      else if pic = HFI_GEN1_PICTURE_B then V4L2_BUF_FLAG_BFRAME else 0)"

definition IRIS1_MAX_CORRUPT_OUTPUT_DROPS :: u32 where "IRIS1_MAX_CORRUPT_OUTPUT_DROPS = 8"

definition corrupt :: "fill_done \<Rightarrow> bool" where
  "corrupt fd \<longleftrightarrow> has (fd_flags fd) (HFI_BUFFERFLAG_DATACORRUPT OR HFI_BUFFERFLAG_DROP_FRAME)"

definition late_or_error :: "nat \<Rightarrow> iris_sys \<Rightarrow> iris_sys" where
  "late_or_error i s =
     (case ask M2m_has_stopped s of (stopped, s1) \<Rightarrow>
      if streamoff_pending (inst_heap s1 i) \<or> last_buffer_dequeued (inst_heap s1 i) \<or> stopped \<noteq> 0 then s1
      else inst_error i s1)"

definition or_late :: "nat \<Rightarrow> int \<times> iris_sys \<Rightarrow> iris_sys" where
  "or_late i r = (if fst r \<noteq> 0 then late_or_error i (snd r) else snd r)"

text \<open>The geometry, time stamp and LAST mark of the filled buffer.\<close>

definition note_fill :: "nat \<Rightarrow> packet_words \<Rightarrow> fill_done \<Rightarrow> buf_ref \<Rightarrow> bool \<Rightarrow> iris_sys \<Rightarrow> u32 \<times> iris_sys" where
  "note_fill i w fd r output s =
     (let s1 = modify_inst i (map_buf (\<lambda>b. b\<lparr>data_offset := fd_offset fd, data_size := ucast (fd_filled fd)\<rparr>) r) s;
          s2 = (if output \<and> fd_filled fd \<noteq> 0 \<and> vp9_shrinks (platform s1) w (inst_heap s1 i)
                then iris_hfi_gen1_event_vp9_resize i w s1 else s1);
          s3 = (if output \<and> fd_filled fd \<noteq> 0
                then modify_inst i (map_buf (buf_crop_update (\<lambda>_. crop (inst_heap s2 i))) r) s2 else s2);
          is_last_fill = (fd_filled fd = 0 \<and> is_last w (inst_heap s3 i));
          s4 = (if is_last_fill then modify_inst i (last_buffer_dequeued_update (\<lambda>_. True)) s3 else s3);
          ts = (if fd_filled fd \<noteq> 0 then fd_ts fd else 0)
      in (if is_last_fill then V4L2_BUF_FLAG_LAST else 0, modify_inst i (map_buf (buf_timestamp_update (\<lambda>_. ts)) r) s4))"

definition settle_pending ::
    "iris_hfi_command_ops \<Rightarrow> nat \<Rightarrow> fill_done \<Rightarrow> bool \<Rightarrow> iris_sys \<Rightarrow> int \<times> iris_sys" where
  "settle_pending ops i fd output s =
     (let x = inst_heap s i; ts = (if fd_filled fd \<noteq> 0 then fd_ts fd else 0) in
      if \<not> (output \<and> legacy_vpu5 (platform s)) then (0, s)
      else if codec x = V4L2_PIX_FMT_VP9 \<and> fd_filled fd \<noteq> 0 \<and>
              map_option buf_timestamp (pending_buf x) = Some ts
      then iris_vdec_recycle_pending_output ops i s
      else iris_vdec_complete_pending_output i s)"

definition usable_vp9 :: "fill_done \<Rightarrow> bool \<Rightarrow> iris_platform_data \<Rightarrow> iris_inst \<Rightarrow> bool" where
  "usable_vp9 fd output pd x \<longleftrightarrow> output \<and> fd_filled fd \<noteq> 0 \<and> legacy_vpu5 pd \<and> codec x = V4L2_PIX_FMT_VP9"

definition drops_output :: "fill_done \<Rightarrow> bool \<Rightarrow> iris_platform_data \<Rightarrow> iris_inst \<Rightarrow> bool" where
  "drops_output fd output pd x \<longleftrightarrow>
     output \<and> fd_filled fd \<noteq> 0 \<and> legacy_vpu5 pd \<and> codec x \<noteq> V4L2_PIX_FMT_VP9 \<and> corrupt fd \<and>
     corrupt_output_drops x < IRIS1_MAX_CORRUPT_OUTPUT_DROPS"

definition deliver :: "nat \<Rightarrow> fill_done \<Rightarrow> buf_ref \<Rightarrow> bool \<Rightarrow> u32 \<Rightarrow> iris_sys \<Rightarrow> iris_sys" where
  "deliver i fd r output is_last_fill s =
     (let x = inst_heap s i; usable = usable_vp9 fd output (platform s) x;
          fl = is_last_fill OR picture_flags (fd_pic fd) OR (if corrupt fd \<and> \<not> usable then V4L2_BUF_FLAG_ERROR else 0);
          f = (\<lambda>b. b\<lparr>buf_attr := (buf_attr b AND NOT BUF_ATTR_QUEUED) OR BUF_ATTR_DEQUEUED OR BUF_ATTR_BUFFER_DONE,
                     buf_flags := buf_flags b OR fl\<rparr>);
          s1 = modify_inst i (map_buf f r) s
      in if usable then or_late i (with_buf i r (\<lambda>b. iris_vdec_hold_output i b) s1)
         else snd (with_buf i r (\<lambda>b. iris_vb2_buffer_done i b) s1))"

definition finish_fill ::
    "iris_hfi_command_ops \<Rightarrow> nat \<Rightarrow> fill_done \<Rightarrow> buf_ref \<Rightarrow> bool \<Rightarrow> u32 \<Rightarrow> iris_sys \<Rightarrow> iris_sys" where
  "finish_fill ops i fd r output is_last_fill s =
     (case settle_pending ops i fd output s of (ret, s1) \<Rightarrow>
      if ret \<noteq> 0 then late_or_error i s1
      else if drops_output fd output (platform s1) (inst_heap s1 i)
      then or_late i (recycle ops i r (modify_inst i (corrupt_output_drops_update (\<lambda>n. n + 1)) s1))
      else deliver i fd r output is_last_fill
             (if output \<and> fd_filled fd \<noteq> 0 then modify_inst i (corrupt_output_drops_update (\<lambda>_. 0)) s1 else s1))"

definition iris_hfi_gen1_session_ftb_done ::
    "iris_hfi_command_ops \<Rightarrow> nat \<Rightarrow> packet_words \<Rightarrow> iris_sys \<Rightarrow> iris_sys" where
  "iris_hfi_gen1_session_ftb_done ops i w s =
     (let fd = fill_done_of (domain (inst_heap s i)) w;
          s1 = (if has (fd_flags fd) HFI_BUFFERFLAG_EOS \<and> fd_filled fd = 0 then end_of_stream i s else s)
      in case filled_buffer w fd (inst_heap s1 i) of
           None \<Rightarrow> late_or_error i s1
         | Some r \<Rightarrow>
             let output = (domain (inst_heap s1 i) = DECODER \<and>
                   map_option buf_type (find_buf (inst_heap s1 i) r) = Some BUF_OUTPUT)
             in case note_fill i w fd r output s1 of (is_last_fill, s2) \<Rightarrow> finish_fill ops i fd r output is_last_fill s2)"

section \<open>Buffer requirements\<close>

definition requirement_type :: "iris_inst \<Rightarrow> u32 \<Rightarrow> iris_buffer_type option" where
  "requirement_type x ty =
     (if ty = HFI_BUFFER_OUTPUT
      then (if domain x \<noteq> DECODER \<or> \<not> iris_split_mode_enabled x then None else Some BUF_DPB)
      else if ty = HFI_BUFFER_INTERNAL_PERSIST_1 then Some BUF_PERSIST
      else if ty = HFI_BUFFER_INTERNAL_SCRATCH then Some BUF_BIN
      else if ty = HFI_BUFFER_INTERNAL_SCRATCH_1 then Some BUF_SCRATCH_1
      else None)"

definition take_requirement :: "packet_words \<Rightarrow> nat \<Rightarrow> iris_inst \<Rightarrow> iris_inst" where
  "take_requirement w j x =
     (case requirement_type x (w (5 + 8 * j)) of None \<Rightarrow> x
      | Some ty \<Rightarrow> x\<lparr>fw_buffer_sizes := (fw_buffer_sizes x)(ty := max (fw_buffer_sizes x ty) (w (5 + 8 * j + 1)))\<rparr>)"

definition iris_hfi_gen1_session_property_info :: "nat \<Rightarrow> packet_words \<Rightarrow> iris_sys \<Rightarrow> iris_sys" where
  "iris_hfi_gen1_session_property_info i w s =
     (let req_bytes = w 0 - 20 in
      tell (Complete False)
        (if w 3 \<noteq> 1 \<or> w 4 \<noteq> HFI_PROPERTY_CONFIG_BUFFER_REQUIREMENTS \<or> req_bytes = 0 \<or> req_bytes mod 32 \<noteq> 0 then s
         else modify_inst i (fold (take_requirement w) [0..<unat (req_bytes div 32)]) s))"

section \<open>Dispatch\<close>

text \<open>The packets the driver knows, each with the least size it must have.\<close>

definition pkt_infos :: "(u32 \<times> u32) list" where
  "pkt_infos =
     [(HFI_MSG_EVENT_NOTIFY, 24), (HFI_MSG_SYS_INIT, 16), (HFI_MSG_SYS_PC_PREP, 12),
      (HFI_MSG_SYS_PROPERTY_INFO, 16), (HFI_MSG_SYS_SESSION_INIT, 20), (HFI_MSG_SYS_SESSION_END, 16),
      (HFI_MSG_SESSION_LOAD_RESOURCES, 16), (HFI_MSG_SESSION_START, 16), (HFI_MSG_SESSION_STOP, 16),
      (HFI_MSG_SESSION_EMPTY_BUFFER, 36), (HFI_MSG_SESSION_FILL_BUFFER, 72),
      (HFI_MSG_SESSION_PROPERTY_INFO, 20), (HFI_MSG_SESSION_FLUSH, 20),
      (HFI_MSG_SESSION_RELEASE_RESOURCES, 16), (HFI_MSG_SESSION_RELEASE_BUFFERS, 20)]"

text \<open>The status of a command; teardown is idempotent.\<close>

definition status_error :: "packet_words \<Rightarrow> iris_inst \<Rightarrow> bool" where
  "status_error w x \<longleftrightarrow>
     \<not> (w 3 = HFI_ERR_SESSION_SAME_STATE_OPERATION \<and> streamoff_pending x) \<and>
     \<not> (w 1 = HFI_MSG_SESSION_STOP \<and> w 3 = HFI_ERR_SESSION_INCORRECT_STATE_OPERATION \<and> streamoff_pending x) \<and>
     w 3 \<noteq> HFI_ERR_NONE"

definition command_done :: "nat \<Rightarrow> packet_words \<Rightarrow> iris_sys \<Rightarrow> iris_sys" where
  "command_done i w s =
     (let s1 = (if status_error w (inst_heap s i) then inst_error i s else s) in
      if w 1 = HFI_MSG_SESSION_FLUSH
      then let s2 = modify_inst i (flush_responses_pending_update (\<lambda>n. n - 1)) s1
           in if flush_responses_pending (inst_heap s2 i) = 0 then tell (Complete True) s2 else s2
      else tell (Complete False) s1)"

definition session_response ::
    "iris_hfi_command_ops \<Rightarrow> nat \<Rightarrow> packet_words \<Rightarrow> iris_sys \<Rightarrow> iris_sys" where
  "session_response ops i w =
     (if w 1 = HFI_MSG_SESSION_EMPTY_BUFFER then iris_hfi_gen1_session_etb_done i w
      else if w 1 = HFI_MSG_SESSION_FILL_BUFFER then iris_hfi_gen1_session_ftb_done ops i w
      else if w 1 = HFI_MSG_SESSION_PROPERTY_INFO then iris_hfi_gen1_session_property_info i w
      else command_done i w)"

definition well_formed :: "packet_words \<Rightarrow> bool" where
  "well_formed w \<longleftrightarrow> (\<exists>p\<in>set pkt_infos. fst p = w 1 \<and> snd p \<le> w 0)"

definition iris_hfi_gen1_handle_response :: "iris_hfi_command_ops \<Rightarrow> packet_words \<Rightarrow> iris_sys \<Rightarrow> iris_sys" where
  "iris_hfi_gen1_handle_response ops w s =
     (if \<not> well_formed w then s
      else if w 1 = HFI_MSG_SYS_INIT then iris_hfi_gen1_sys_init_done w s
      else if w 1 = HFI_MSG_SYS_PC_PREP \<or> w 1 = HFI_MSG_SYS_PROPERTY_INFO then s
      else case iris_get_instance s (w 2) of
             None \<Rightarrow> (if w 1 = HFI_MSG_EVENT_NOTIFY then iris_hfi_gen1_sys_event_notify w s else s)
           | Some i \<Rightarrow> (if w 1 = HFI_MSG_EVENT_NOTIFY then iris_hfi_gen1_session_event_notify ops i w s
                        else session_response ops i w s))"

text \<open>
  The loops of the response thread. They end when a queue is empty, which nothing in the code
  promises: not returning is \<open>None\<close>. A ring that is not there is a NULL dereference.
\<close>

definition zero_header :: "bytes \<Rightarrow> bytes" where
  "zero_header b = (\<lambda>k. if k < 8 then 0 else b k)"

partial_function (option) drain_messages ::
    "iris_hfi_command_ops \<Rightarrow> bytes \<Rightarrow> iris_sys \<Rightarrow> (bytes \<times> iris_sys) option" where
  "drain_messages ops b s =
     (case iris_hfi_queue_msg_read s (zero_header b) of
        None \<Rightarrow> Some (zero_header b, tell Oops s)
      | Some r \<Rightarrow>
          if fst r \<noteq> 0 then Some (snd (snd r), fst (snd r))
          else drain_messages ops (snd (snd r))
                 (iris_hfi_gen1_handle_response ops (response_words (snd (snd r))) (fst (snd r))))"

partial_function (option) iris_hfi_gen1_flush_debug_queue ::
    "bytes \<Rightarrow> iris_sys \<Rightarrow> (bytes \<times> iris_sys) option" where
  "iris_hfi_gen1_flush_debug_queue b s =
     (case iris_hfi_queue_dbg_read s b of
        None \<Rightarrow> Some (b, tell Oops s)
      | Some r \<Rightarrow>
          if fst r \<noteq> 0 then Some (snd (snd r), fst (snd r))
          else iris_hfi_gen1_flush_debug_queue (snd (snd r)) (fst (snd r)))"

definition iris_hfi_gen1_response_handler ::
    "iris_hfi_command_ops \<Rightarrow> bytes \<Rightarrow> iris_sys \<Rightarrow> (bytes \<times> iris_sys) option" where
  "iris_hfi_gen1_response_handler ops b s =
     (case drain_messages ops b s of
        None \<Rightarrow> None
      | Some r \<Rightarrow> iris_hfi_gen1_flush_debug_queue (fst r) (snd r))"

end
