(* ===== verification/IrisGen1Serve.thy ===== *)
theory IrisGen1Serve
  imports IrisGen1Resp IrisBufAccount
begin

text \<open>
  What the response thread leaves alone: whatever a packet says, the identity, ownership and
  memory of every session, the queues it reads, and the tables of the core. With it, the
  loop over the message queue returns when the queue holds well-formed packets.
\<close>

section \<open>What serving a packet keeps\<close>

definition serves :: "iris_sys \<Rightarrow> iris_sys \<Rightarrow> bool" where
  "serves s t \<longleftrightarrow> session_frame t = session_frame s \<and>
     (firmware_keeps_owned s \<longrightarrow> (\<forall>j. owned (inst_heap t j) = owned (inst_heap s j))) \<and>
     (core_state t = core_state s \<or> core_state t = IRIS_CORE_ERROR)"

lemma serves_refl [simp]: "serves s s"
  by (simp add: serves_def)

lemma serves_trans: "serves s t \<Longrightarrow> serves t u \<Longrightarrow> serves s u"
  using session_frame_fw[of t s] by (auto simp: serves_def firmware_keeps_owned_def)

interpretation serving: step_relation serves
  by unfold_locales (simp, rule serves_trans)

named_theorems serve \<open>steps that serving a packet may take\<close>

lemma touches_serves: "touches i s t \<Longrightarrow> serves s t"
  unfolding touches_def serves_def by metis

lemma serves_tell [serve]: "serves s t \<Longrightarrow> serves s (tell k t)"
  by (simp add: serves_def tell_def session_frame_def)

lemma serves_modify [serve]: "(\<And>x. owned (f x) = owned x) \<Longrightarrow> serves s t \<Longrightarrow> serves s (modify_inst i f t)"
  by (simp add: serves_def modify_inst_def session_frame_def)

lemma serves_acts: "acts i h \<Longrightarrow> serves s t \<Longrightarrow> serves s (h t)"
  unfolding acts_def by (blast intro: serves_trans touches_serves)

lemma serves_does: "does i f \<Longrightarrow> serves s t \<Longrightarrow> serves s (snd (f t))"
  unfolding does_def by (blast intro: serves_trans touches_serves)

lemma serves_step: "does i f \<Longrightarrow> f t = (r, u) \<Longrightarrow> serves s t \<Longrightarrow> serves s u"
  using serves_does[of i f s t] by simp

lemma serves_core_error [serve]: "serves s t \<Longrightarrow> serves s (t\<lparr>core_state := IRIS_CORE_ERROR\<rparr>)"
  by (simp add: serves_def session_frame_def)

lemma serves_inst_error [serve]: "serves s t \<Longrightarrow> serves s (inst_error i t)"
  unfolding inst_error_def by (rule serves_does[OF does_change_state])

lemma serves_recovery [serve]: "serves s t \<Longrightarrow> serves s (iris_request_core_recovery t)"
  by (simp add: serves_def iris_request_core_recovery_def session_frame_def)

lemma serves_fold: "(\<And>x t. serves s t \<Longrightarrow> serves s (f x t)) \<Longrightarrow> serves s t \<Longrightarrow> serves s (fold f xs t)"
  by (induction xs arbitrary: t) simp_all

lemma serves_ask: "ask k t = (r, u) \<Longrightarrow> serves s t \<Longrightarrow> serves s u"
  by (auto simp: serves_def ask_def Let_def session_frame_def)

lemma serves_on_inst: "on_inst i f t = (r, u) \<Longrightarrow> (\<And>x. owned (snd (f x)) = owned x) \<Longrightarrow> serves s t \<Longrightarrow> serves s u"
  by (rule serves_step[OF does_on_inst])

text \<open>The fields of a session the responses write are not among the owned ones.\<close>

lemma owned_fields [simp]:
  "owned (sub_state_update f1 x) = owned x" "owned (crop_update f2 x) = owned x"
  "owned (fw_min_count_update f3 x) = owned x" "owned (capture_format_changed_update f4 x) = owned x"
  "owned (fmt_src_update f5 x) = owned x" "owned (fmt_dst_update f5 x) = owned x"
  "owned (interlaced_update f4 x) = owned x" "owned (pending_output_update f6 x) = owned x"
  "owned (corrupt_output_drops_update f3 x) = owned x" "owned (last_buffer_dequeued_update f4 x) = owned x"
  "owned (flush_responses_pending_update f3 x) = owned x" "owned (fw_buffer_sizes_update f7 x) = owned x"
  "owned (vp9_iova_hole_vaddr_update f8 x) = owned x" "owned (vp9_iova_hole_daddr_update f8 x) = owned x"
  "owned (vp9_iova_hole_size_update f3 x) = owned x"
  "owned (m2m_src_update f9 x) = owned x" "owned (m2m_dst_update f9 x) = owned x"
  by (simp_all add: owned_simps)

lemma owned_buffers_info:
  "(\<And>b. buf_list (g b) = buf_list b) \<Longrightarrow> owned (set_buffers_info ty g x) = owned x"
  by (simp add: set_buffers_info_def owned_simps)

lemma owned_state_changes [simp]:
  "owned (snd (iris_inst_sub_state_change_drc x)) = owned x"
  "owned (snd (iris_inst_sub_state_change_drc_last x)) = owned x"
  "owned (snd (iris_inst_sub_state_change_drain_last x)) = owned x"
  by (simp_all add: iris_inst_sub_state_change_drc_def iris_inst_sub_state_change_drc_last_def
      iris_inst_sub_state_change_drain_last_def)

lemma owned_changed_params [simp]: "owned (changed_params pd ev x) = owned x"
  by (simp add: changed_params_def changed_formats_def Let_def owned_buffers_info count_dst_def)

section \<open>The handlers\<close>

lemma serves_queue_error [serve]: "serves s t \<Longrightarrow> serves s (iris_vb2_queue_error t)"
  by (simp add: iris_vb2_queue_error_def serve)

lemma serves_src_change [serve]: "serves s t \<Longrightarrow> serves s (iris_vdec_src_change i t)"
  by (simp add: iris_vdec_src_change_def Let_def serve owned_simps)

lemma serves_hole [serve]: "serves s t \<Longrightarrow> serves s (iris_vb2_vp9_release_high_iova_hole i t)"
  by (simp add: iris_vb2_vp9_release_high_iova_hole_def Let_def serve owned_simps)

lemma serves_read_changed [serve]: "serves s t \<Longrightarrow> serves s (iris_hfi_gen1_read_changed_params i w t)"
proof -
  assume t: "serves s t"
  obtain ev hi where p: "read_properties (platform t) w (unat (w 5)) 6 zero_event = (ev, hi)" by fastforce
  show ?thesis
    unfolding iris_hfi_gen1_read_changed_params_def p Let_def prod.case
    by (cases "1024 < hi") (simp_all add: t serve)
qed

lemma serves_count_flush [serve]: "serves s t \<Longrightarrow> serves s (count_flush i t)"
  by (simp add: count_flush_def serve)

lemma serves_send: "send ws t = (r, u) \<Longrightarrow> serves s t \<Longrightarrow> serves s u"
  by (rule serves_step[of undefined "send ws"]) (rule does_send)

lemma serves_flush_output [serve]: "serves s t \<Longrightarrow> serves s (flush_output i t)"
  unfolding flush_output_def by (auto split: prod.splits intro: serve serves_send)

context firmware_ops
begin

lemma serves_resume: "session_resume_drc ops i plane t = (r, u) \<Longrightarrow> serves s t \<Longrightarrow> serves s u"
  by (rule serves_step[OF resume_drc_does])

lemma serves_resume_first: "serves s t \<Longrightarrow> serves s (resume_first_sequence ops i t)"
  unfolding resume_first_sequence_def
  by (auto split: prod.splits intro!: serve serves_does[OF does_on_inst] dest: serves_resume)

end

lemma serves_arm_drc [serve]:
  assumes "serves s t"
  shows "serves s (iris_hfi_gen1_arm_drc i t)"
proof -
  obtain ret s1 where 1: "on_inst i iris_inst_sub_state_change_drc t = (ret, s1)" by fastforce
  then have s1: "serves s s1" by (rule serves_on_inst) (simp_all add: assms)
  then have "serves s (flush_output i (if b then tell (Reinit_completion True) s1 else s1))" for b
    by (simp add: serve)
  then show ?thesis
    unfolding iris_hfi_gen1_arm_drc_def 1 Let_def prod.case
    using s1 by (auto intro!: serve serves_does[OF does_on_inst])
qed

context firmware_ops
begin

lemma serves_seq_changed: "serves s t \<Longrightarrow> serves s (iris_hfi_gen1_event_seq_changed ops i w t)"
proof -
  assume t: "serves s t"
  let ?s1 = "iris_hfi_gen1_read_changed_params i w t"
  obtain num s2 where a: "ask (Vb2_num_buffers CAPTURE_MPLANE) ?s1 = (num, s2)" by fastforce
  then have "serves s s2" by (rule serves_ask) (rule serves_read_changed[OF t])
  then show ?thesis
    unfolding iris_hfi_gen1_event_seq_changed_def Let_def a prod.case
    using t by (auto intro!: serve serves_resume_first)
qed

lemma serves_session_event: "serves s t \<Longrightarrow> serves s (iris_hfi_gen1_session_event_notify ops i w t)"
  unfolding iris_hfi_gen1_session_event_notify_def iris_hfi_gen1_event_session_error_def
  by (auto intro!: serve serves_seq_changed)

end

lemma serves_sys_event [serve]: "serves s t \<Longrightarrow> serves s (iris_hfi_gen1_sys_event_notify w t)"
  unfolding iris_hfi_gen1_sys_event_notify_def Let_def by (auto intro!: serve serves_fold)

lemma serves_init_done [serve]: "serves s t \<Longrightarrow> serves s (iris_hfi_gen1_sys_init_done w t)"
  unfolding iris_hfi_gen1_sys_init_done_def by (auto intro!: serve)

lemma does_after: "acts i h \<Longrightarrow> does i g \<Longrightarrow> does i (\<lambda>s. g (h s))"
  unfolding does_def acts_def by (blast intro: touches_trans)

lemma owned_map_buf [simp]:
  assumes "\<And>b. kvaddr (f b) = kvaddr b \<and> buffer_size (f b) = buffer_size b"
  shows "owned (map_buf f r x) = owned x"
proof -
  have "int_mem (map_buf f r x) = int_mem x" using assms by (rule int_mem_map_buf)
  then show ?thesis by (cases r) (simp_all add: owned_def on_internal_def)
qed

lemma serves_etb_done [serve]: "serves s t \<Longrightarrow> serves s (iris_hfi_gen1_session_etb_done i w t)"
proof -
  assume t: "serves s t"
  have upd: "owned (map_buf (buf_flags_update f) r x) = owned x" for f r x
    by (rule owned_map_buf) simp
  have fin: "does i (with_buf i r (\<lambda>b s1.
                 if \<not> has (buf_attr b) BUF_ATTR_QUEUED then (0, s1)
                 else if has (buf_attr b) BUF_ATTR_BUFFER_DONE
                 then (0, set_attr i r (\<lambda>a. a AND NOT BUF_ATTR_QUEUED) s1)
                 else let f = (\<lambda>a. (a AND NOT BUF_ATTR_QUEUED) OR BUF_ATTR_BUFFER_DONE)
                      in iris_vb2_buffer_done i (buf_attr_update f b) (set_attr i r f s1)))" for r
    unfolding Let_def by (intro does_with_buf does_if[where b="\<lambda>_. b" for b] does_return does_pair acts_set_attr
        does_after[OF acts_set_attr does_buffer_done])
  show ?thesis
    unfolding iris_hfi_gen1_session_etb_done_def Let_def
    by (auto intro!: serve serves_does[OF fin[unfolded Let_def]] simp: t upd split: option.splits)
qed

lemma serves_note_fill:
  assumes "serves s t" "note_fill i w fd r output t = (l, u)"
  shows "serves s u"
proof -
  have set: "serves s v \<Longrightarrow> (\<And>b. kvaddr (f b) = kvaddr b \<and> buffer_size (f b) = buffer_size b) \<Longrightarrow>
      serves s (modify_inst i (map_buf f r) v)" for v f
    by (rule serves_modify) simp_all
  have resize: "serves s v \<Longrightarrow> serves s (iris_hfi_gen1_event_vp9_resize i w v)" for v
    unfolding iris_hfi_gen1_event_vp9_resize_def by (simp add: serve)
  show ?thesis using assms
    by (auto simp: note_fill_def Let_def intro!: set resize serves_modify split: if_splits)
qed

context firmware_ops
begin

lemma recycle_does: "does i (recycle ops i r)"
proof -
  have "acts i (modify_inst i (map_buf recycled r))"
    by (rule acts_modify) (simp add: recycled_def)
  then show ?thesis
    unfolding recycle_def by (rule does_after[OF _ queue_buffer_does])
qed

lemma acts_clear_pending: "acts i (iris_vdec_clear_pending_output i)"
  unfolding iris_vdec_clear_pending_output_def by (rule acts_modify) simp

lemma settle_does: "does i (settle_pending ops i fd output)"
  unfolding settle_pending_def Let_def iris_vdec_recycle_pending_output_def iris_vdec_complete_pending_output_def
  by (intro does_if does_return does_option does_after[OF acts_clear_pending] recycle_does does_buffer_done)

end

lemma serves_late [serve]: "serves s t \<Longrightarrow> serves s (late_or_error i t)"
  unfolding late_or_error_def by (auto split: prod.splits intro: serve serves_ask)

lemma serves_or_late: "serves s (snd r) \<Longrightarrow> serves s (or_late i r)"
  by (simp add: or_late_def serve)

lemma serves_deliver [serve]:
  assumes "serves s t"
  shows "serves s (deliver i fd r output l t)"
proof -
  have set: "serves s (modify_inst i (map_buf f r) t)"
    if "\<And>b. kvaddr (f b) = kvaddr b \<and> buffer_size (f b) = buffer_size b" for f
    using that by (intro serves_modify) (simp_all add: assms)
  have hold: "does i (with_buf i r (\<lambda>b. iris_vdec_hold_output i b))"
    unfolding iris_vdec_hold_output_def by (intro does_with_buf does_if does_return does_pair acts_modify) simp
  have fin: "does i (with_buf i r (\<lambda>b. iris_vb2_buffer_done i b))"
    by (intro does_with_buf does_buffer_done)
  show ?thesis
    unfolding deliver_def Let_def
    by (auto intro!: serves_or_late serves_does[OF hold] serves_does[OF fin] set)
qed

context firmware_ops
begin

lemma serves_finish_fill:
  assumes "serves s t"
  shows "serves s (finish_fill ops i fd r output l t)"
proof -
  obtain ret s1 where 1: "settle_pending ops i fd output t = (ret, s1)" by fastforce
  then have "serves s s1" by (rule serves_step[OF settle_does]) (rule assms)
  then show ?thesis
    unfolding finish_fill_def 1 prod.case
    by (auto intro!: serve serves_or_late serves_does[OF recycle_does])
qed

lemma serves_ftb_done:
  assumes "serves s t"
  shows "serves s (iris_hfi_gen1_session_ftb_done ops i w t)"
proof -
  have eos: "serves s (end_of_stream i t)"
    unfolding end_of_stream_def by (intro serves_does[OF does_on_inst] serve assms) simp
  show ?thesis
    unfolding iris_hfi_gen1_session_ftb_done_def Let_def
    by (auto intro!: serve serves_finish_fill simp: eos assms split: option.splits prod.splits
        dest!: serves_note_fill[rotated])
qed

end

lemma owned_take_requirement [simp]: "owned (take_requirement w j x) = owned x"
  by (simp add: take_requirement_def split: option.splits)

lemma owned_fold: "(\<And>k x. owned (f k x) = owned x) \<Longrightarrow> owned (fold f ks x) = owned x"
  by (induction ks arbitrary: x) simp_all

lemma serves_property_info [serve]: "serves s t \<Longrightarrow> serves s (iris_hfi_gen1_session_property_info i w t)"
  unfolding iris_hfi_gen1_session_property_info_def Let_def
  by (auto intro!: serve owned_fold)

lemma serves_command_done [serve]: "serves s t \<Longrightarrow> serves s (command_done i w t)"
  unfolding command_done_def Let_def by (auto intro!: serve)

context firmware_ops
begin

lemma serves_response: "serves s t \<Longrightarrow> serves s (session_response ops i w t)"
  unfolding session_response_def by (simp add: serve serves_ftb_done)

lemma handle_serves: "serves s (iris_hfi_gen1_handle_response ops w s)"
  unfolding iris_hfi_gen1_handle_response_def
  by (auto intro!: serve serves_response serves_session_event split: option.splits)

end

section \<open>The loops\<close>

text \<open>A read that finds an empty ring, and one that takes the first packet of a ring.\<close>

lemma holds_read_empty:
  assumes "ring_holds q []"
  shows "\<exists>q'. iris_hfi_queue_read q b = (- ENODATA, q', b) \<and> ring_holds q' []"
proof -
  obtain h where "iris_hfi_queue_read q b = (- ENODATA, q\<lparr>qhdr := (qhdr q)\<lparr>rx_req := h\<rparr>\<rparr>, b)"
    using read_empty[of q b] assms by (auto simp: ring_holds_def)
  moreover have "rd_off (q\<lparr>qhdr := (qhdr q)\<lparr>rx_req := h\<rparr>\<rparr>) = rd_off q"
    "wr_off (q\<lparr>qhdr := (qhdr q)\<lparr>rx_req := h\<rparr>\<rparr>) = wr_off q"
    by (simp_all add: rd_off_def wr_off_def)
  then have "ring_holds (q\<lparr>qhdr := (qhdr q)\<lparr>rx_req := h\<rparr>\<rparr>) []"
    using assms by (auto simp: ring_holds_def ring_ok_def ring_pending_def ring_fill_def split: if_splits)
  ultimately show ?thesis by blast
qed

lemma holds_read_first:
  "ring_holds q (p # ps) \<Longrightarrow> \<exists>q' b'. iris_hfi_queue_read q b = (0, q', b') \<and> ring_holds q' ps"
  using read_frame[of q p "concat ps" b] by (fastforce simp: ring_holds_def)

text \<open>What the loops keep: all of a session's identity, and the core but for the two rings.\<close>

definition drained_frame :: "iris_sys \<Rightarrow> iris_sys" where
  "drained_frame s = session_frame (s\<lparr>message_queue := zero_iface_q_info, debug_queue := zero_iface_q_info\<rparr>)"

definition drains_to :: "iris_sys \<Rightarrow> iris_sys \<Rightarrow> bool" where
  "drains_to s t \<longleftrightarrow> drained_frame t = drained_frame s \<and>
     (firmware_keeps_owned s \<longrightarrow> (\<forall>j. owned (inst_heap t j) = owned (inst_heap s j)))"

lemma drained_fw: "drained_frame t = drained_frame s \<Longrightarrow> fw_effect t = fw_effect s \<and> instances t = instances s"
  by (drule arg_cong[where f = "\<lambda>s. (fw_effect s, instances s)"]) (simp add: drained_frame_def session_frame_def)

lemma drains_refl [simp]: "drains_to s s"
  by (simp add: drains_to_def)

lemma drains_trans: "drains_to s t \<Longrightarrow> drains_to t u \<Longrightarrow> drains_to s u"
  using drained_fw[of t s] by (auto simp: drains_to_def firmware_keeps_owned_def)

interpretation draining: step_relation drains_to
  by unfold_locales (simp, rule drains_trans)

lemma serves_drains: "serves s t \<Longrightarrow> drains_to s t"
proof -
  assume st: "serves s t"
  have "drained_frame u = drained_frame (session_frame u)" for u
    by (simp add: drained_frame_def session_frame_def)
  with st show ?thesis unfolding drains_to_def serves_def by metis
qed

lemma ring_drains: "drains_to s (s\<lparr>message_queue := m\<rparr>)" "drains_to s (s\<lparr>debug_queue := m\<rparr>)"
  by (simp_all add: drains_to_def drained_frame_def)

lemma serves_queues:
  assumes "serves s t"
  shows "message_queue t = message_queue s" "debug_queue t = debug_queue s"
proof -
  have "session_frame t = session_frame s" using assms by (simp add: serves_def)
  from arg_cong[OF this, of message_queue] arg_cong[OF this, of debug_queue]
  show "message_queue t = message_queue s" "debug_queue t = debug_queue s"
    by (simp_all add: session_frame_def)
qed

text \<open>A queue the thread has left: empty, unless the core went into the error state.\<close>

definition left_empty :: "iris_sys \<Rightarrow> iris_iface_q_info \<Rightarrow> bool" where
  "left_empty t m \<longleftrightarrow> (\<exists>q ps. q_ring m = Some q \<and> ring_holds q ps \<and> (core_state t = IRIS_CORE_INIT \<longrightarrow> ps = []))"

lemma debug_returns:
  assumes "q_ring (debug_queue s) = Some d" "ring_holds d ds"
  shows "\<exists>b' t. iris_hfi_gen1_flush_debug_queue b s = Some (b', t) \<and> left_empty t (debug_queue t) \<and>
    drains_to s t \<and> message_queue t = message_queue s \<and> core_state t = core_state s"
  using assms
proof (induction ds arbitrary: b s d)
  case Nil
  obtain d' where "iris_hfi_queue_read d b = (- ENODATA, d', b)" "ring_holds d' []"
    using holds_read_empty Nil.prems(2) by blast
  then show ?case using Nil.prems
    by (subst iris_hfi_gen1_flush_debug_queue.simps)
      (auto simp: iris_hfi_queue_dbg_read_def left_empty_def ring_drains)
next
  case (Cons p ds)
  obtain d' b' where r: "iris_hfi_queue_read d b = (0, d', b')" "ring_holds d' ds"
    using holds_read_first Cons.prems(2) by blast
  let ?s = "s\<lparr>debug_queue := (debug_queue s)\<lparr>q_ring := Some d'\<rparr>\<rparr>"
  show ?case
  proof (cases "core_state s = IRIS_CORE_INIT")
    case True
    have "iris_hfi_gen1_flush_debug_queue b s = iris_hfi_gen1_flush_debug_queue b' ?s"
      using True r Cons.prems(1)
      by (subst iris_hfi_gen1_flush_debug_queue.simps) (simp add: iris_hfi_queue_dbg_read_def)
    with Cons.IH[of ?s d' b'] r(2) show ?thesis
      using drains_trans[OF ring_drains(2)] by fastforce
  next
    case False
    then show ?thesis using Cons.prems
      by (subst iris_hfi_gen1_flush_debug_queue.simps) (auto simp: iris_hfi_queue_dbg_read_def left_empty_def)
  qed
qed

context firmware_ops
begin

lemma messages_return:
  assumes "q_ring (message_queue s) = Some q" "ring_holds q ps"
  shows "\<exists>b' t. drain_messages ops b s = Some (b', t) \<and> left_empty t (message_queue t) \<and>
    drains_to s t \<and> debug_queue t = debug_queue s"
  using assms
proof (induction ps arbitrary: b s q)
  case Nil
  obtain q' where "iris_hfi_queue_read q (zero_header b) = (- ENODATA, q', zero_header b)" "ring_holds q' []"
    using holds_read_empty Nil.prems(2) by blast
  then show ?case using Nil.prems
    by (subst drain_messages.simps)
      (auto simp: iris_hfi_queue_msg_read_def left_empty_def ring_drains)
next
  case (Cons p ps)
  obtain q' b' where r: "iris_hfi_queue_read q (zero_header b) = (0, q', b')" "ring_holds q' ps"
    using holds_read_first Cons.prems(2) by blast
  let ?s = "s\<lparr>message_queue := (message_queue s)\<lparr>q_ring := Some q'\<rparr>\<rparr>"
  let ?t = "iris_hfi_gen1_handle_response ops (response_words b') ?s"
  show ?case
  proof (cases "core_state s = IRIS_CORE_INIT")
    case True
    have eq: "drain_messages ops b s = drain_messages ops b' ?t"
      using True r Cons.prems(1)
      by (subst drain_messages.simps) (simp add: iris_hfi_queue_msg_read_def)
    have t: "serves ?s ?t" by (rule handle_serves)
    have "q_ring (message_queue ?t) = Some q'" "debug_queue ?t = debug_queue s"
      using serves_queues[OF t] by simp_all
    moreover have "drains_to s ?t"
      using ring_drains(1) serves_drains[OF t] by (rule drains_trans)
    ultimately show ?thesis
      using Cons.IH[of ?t q' b'] r(2) unfolding eq by (metis drains_trans)
  next
    case False
    then show ?thesis using Cons.prems
      by (subst drain_messages.simps) (auto simp: iris_hfi_queue_msg_read_def left_empty_def)
  qed
qed

lemma handler_returns:
  assumes "q_ring (message_queue s) = Some q" "ring_holds q ps" "q_ring (debug_queue s) = Some d" "ring_holds d ds"
  shows "\<exists>b' t. iris_hfi_gen1_response_handler ops b s = Some (b', t) \<and> drains_to s t \<and>
    left_empty t (message_queue t) \<and> left_empty t (debug_queue t)"
proof -
  obtain b1 s1 where 1: "drain_messages ops b s = Some (b1, s1)" "left_empty s1 (message_queue s1)"
    "drains_to s s1" "debug_queue s1 = debug_queue s"
    using messages_return[OF assms(1,2)] by blast
  with assms(3) have "q_ring (debug_queue s1) = Some d" by simp
  from debug_returns[OF this assms(4), of b1] 1 show ?thesis
    unfolding iris_hfi_gen1_response_handler_def
    by (auto simp: left_empty_def intro: drains_trans)
qed

end

text \<open>
  A header that says 1, 2 or 3 bytes: the read succeeds, copies that many bytes behind a
  cleared header, and leaves the read index where it was.
\<close>

definition stuck_ring :: "hfi_ring \<Rightarrow> bool" where
  "stuck_ring q \<longleftrightarrow> ring_ok q \<and> rd_off q \<noteq> wr_off q \<and> load_u32 (qmem q) (rd_off q) \<in> {1, 2, 3}"

lemma stuck_read:
  assumes "stuck_ring q"
  shows "\<exists>q' b'. iris_hfi_queue_read q (zero_header b) = (0, q', b') \<and> stuck_ring q' \<and> response_words b' 1 = 0"
proof -
  let ?n = "unat (load_u32 (qmem q) (rd_off q))"
  have n: "0 < ?n" "?n \<le> 3" using assms by (auto simp: stuck_ring_def)
  have off: "unat (read_idx (qhdr q) * 4) = rd_off q" "unat (write_idx (qhdr q) * 4) = wr_off q"
    "rd_off q \<le> ring_size - 4"
    using assms by (auto simp: stuck_ring_def ring_ok_def rd_off_def wr_off_def unat_idx4)
  then have ne: "read_idx (qhdr q) * 4 \<noteq> write_idx (qhdr q) * 4"
    using assms by (auto simp: stuck_ring_def)
  have "(rd_off q + ?n) mod ring_size div 4 = unat (read_idx (qhdr q))"
    using n off(3) by (simp add: rd_off_def)
  then have idx: "word_of_nat ((rd_off q + ?n) mod ring_size div 4) = read_idx (qhdr q)"
    by simp
  have v: "iris_hfi_queue_read q (zero_header b) =
      (0, q\<lparr>qhdr := (qhdr q)\<lparr>rx_req := receive_request q\<rparr>\<rparr>, ring_copy_out (qmem q) (rd_off q) ?n (zero_header b))"
    using read_accepts[OF off(1,3) ne, of ?n "zero_header b"] n idx by simp
  have "rd_off (q\<lparr>qhdr := (qhdr q)\<lparr>rx_req := h\<rparr>\<rparr>) = rd_off q"
    "wr_off (q\<lparr>qhdr := (qhdr q)\<lparr>rx_req := h\<rparr>\<rparr>) = wr_off q" for h
    by (simp_all add: rd_off_def wr_off_def)
  then have "stuck_ring (q\<lparr>qhdr := (qhdr q)\<lparr>rx_req := receive_request q\<rparr>\<rparr>)"
    using assms by (simp add: stuck_ring_def ring_ok_def)
  moreover have "response_words (ring_copy_out (qmem q) (rd_off q) ?n (zero_header b)) 1 = 0"
    using n by (simp add: response_words_def load_u32_def ring_copy_out_def zero_header_def)
  ultimately show ?thesis using v by blast
qed

definition stuck :: "iris_sys \<Rightarrow> bool" where
  "stuck s \<longleftrightarrow> core_state s = IRIS_CORE_INIT \<and> (\<exists>q. q_ring (message_queue s) = Some q \<and> stuck_ring q)"

lemma stuck_turn:
  assumes "stuck s"
  obtains b' t where "iris_hfi_queue_msg_read s (zero_header b) = Some (0, t, b')"
    "iris_hfi_gen1_handle_response ops (response_words b') t = t" "stuck t"
proof -
  obtain q where q: "core_state s = IRIS_CORE_INIT" "q_ring (message_queue s) = Some q" "stuck_ring q"
    using assms by (auto simp: stuck_def)
  obtain q' b' where q': "iris_hfi_queue_read q (zero_header b) = (0, q', b')" "stuck_ring q'"
    "response_words b' 1 = 0"
    using stuck_read[OF q(3)] by blast
  let ?t = "s\<lparr>message_queue := (message_queue s)\<lparr>q_ring := Some q'\<rparr>\<rparr>"
  have "iris_hfi_gen1_handle_response ops (response_words b') ?t = ?t"
    using q'(3) by (simp add: iris_hfi_gen1_handle_response_def well_formed_def pkt_infos_def)
  moreover have "iris_hfi_queue_msg_read s (zero_header b) = Some (0, ?t, b')"
    using q(1,2) q'(1) by (simp add: iris_hfi_queue_msg_read_def)
  moreover have "stuck ?t" using q(1) q'(2) by (simp add: stuck_def)
  ultimately show thesis using that by blast
qed

lemma stuck_loop: "stuck s \<Longrightarrow> drain_messages ops b s = None"
proof (rule ccontr)
  assume s: "stuck s" and "drain_messages ops b s \<noteq> None"
  then obtain r where r: "drain_messages ops b s = Some r" by blast
  have "\<not> stuck s"
  proof (rule drain_messages.raw_induct[where P = "\<lambda>ops b s r. \<not> stuck s", OF _ r])
    fix drain :: "iris_hfi_command_ops \<Rightarrow> bytes \<Rightarrow> iris_sys \<Rightarrow> (bytes \<times> iris_sys) option" and ops b s r
    assume IH: "\<And>ops b s r. drain ops b s = Some r \<Longrightarrow> \<not> stuck s"
      and body: "(case iris_hfi_queue_msg_read s (zero_header b) of
          None \<Rightarrow> Some (zero_header b, tell Oops s)
        | Some r \<Rightarrow>
            if fst r \<noteq> 0 then Some (snd (snd r), fst (snd r))
            else drain ops (snd (snd r))
                   (iris_hfi_gen1_handle_response ops (response_words (snd (snd r))) (fst (snd r)))) = Some r"
    show "\<not> stuck s"
    proof
      assume "stuck s"
      then obtain b' t where "iris_hfi_queue_msg_read s (zero_header b) = Some (0, t, b')"
        "iris_hfi_gen1_handle_response ops (response_words b') t = t" "stuck t"
        by (rule stuck_turn[where b = b and ops = ops])
      with body have "drain ops b' t = Some r" by simp
      with IH \<open>stuck t\<close> show False by blast
    qed
  qed
  with s show False by simp
qed

section \<open>Reading the changed properties\<close>

lemma property_len: "read_property pd w k ev = (ev', n) \<Longrightarrow> n \<le> 9"
  by (auto simp: read_property_def Let_def split: if_splits)

lemma properties_bound: "snd (read_properties pd w n k ev) \<le> k + 9 * n"
proof (induction n arbitrary: k ev)
  case (Suc n)
  obtain ev' len where p: "read_property pd w k ev = (ev', len)" by fastforce
  with Suc.IH[of "k + len" ev'] property_len[OF p] show ?case
    by (cases "read_properties pd w n (k + len) ev'") (simp add: Let_def)
qed simp

lemma requirements_overrun:
  "0 < n \<Longrightarrow> (\<And>j. j \<ge> k \<Longrightarrow> w j = HFI_PROPERTY_CONFIG_BUFFER_REQUIREMENTS) \<Longrightarrow>
   snd (read_properties pd w n k ev) = k + 9 * n - 3"
proof (induction n arbitrary: k ev)
  case (Suc n)
  obtain ev' where p: "read_property pd w k ev = (ev', 9)"
    using Suc.prems(2)[of k] by (simp add: read_property_def Let_def)
  have "snd (read_properties pd w n (k + 9) ev') = (if n = 0 then 0 else k + 9 + 9 * n - 3)"
    using Suc.IH[of "k + 9" ev'] Suc.prems(2) by simp
  then show ?case
    using Suc.prems(2)[of k] p by (cases "read_properties pd w n (k + 9) ev'") (auto simp: Let_def)
qed simp

definition oopses :: "iris_sys \<Rightarrow> nat" where
  "oopses s = count_list (klog s) Oops"

lemma oopses_simps [simp]:
  "oopses (tell k s) = oopses s + (if k = Oops then 1 else 0)" "oopses (modify_inst i f s) = oopses s"
  "oopses (snd (on_inst i g s)) = oopses s" "oopses (inst_error i s) = oopses s"
  by (simp_all add: oopses_def tell_def modify_inst_def on_inst_def inst_error_def iris_inst_change_state_def
      iris_request_core_recovery_def Let_def count_list_append split: prod.splits)

lemma read_changed_oopses:
  "oopses (iris_hfi_gen1_read_changed_params i w s) =
     oopses s + (if 1024 < snd (read_properties (platform s) w (unat (w 5)) 6 zero_event) then 1 else 0)"
  by (simp add: iris_hfi_gen1_read_changed_params_def Let_def split: prod.splits)

section \<open>Properties\<close>

text \<open>
  C30. Whatever the firmware writes into a packet, serving it leaves the identity, the domain,
  the codec, the reservations and the internal buffers of every session as they were, for
  the session the packet names as for the others, and the list of sessions, the two queues
  the thread reads and the power votes too; the core stays in its state or goes to the error
  state. So the ownership of the commands of \<open>IrisGen1Ops\<close>, which is assumed of the
  response thread there, is kept by the response thread of this code.
\<close>

theorem gen1_responses_keep_owned:
  assumes "firmware_keeps_owned s"
  shows "let t = iris_hfi_gen1_handle_response gen1_ops w s in
    (\<forall>j. owned (inst_heap t j) = owned (inst_heap s j)) \<and> instances t = instances s \<and>
    message_queue t = message_queue s \<and> debug_queue t = debug_queue s \<and> power t = power s \<and>
    (core_state t = core_state s \<or> core_state t = IRIS_CORE_ERROR)"
proof -
  let ?t = "iris_hfi_gen1_handle_response gen1_ops w s"
  have t: "serves s ?t" by (rule gen1.handle_serves)
  then have f: "session_frame ?t = session_frame s" by (simp add: serves_def)
  show ?thesis
    using t assms serves_queues[OF t] session_frame_sel(1,4)[OF f] by (simp add: serves_def Let_def)
qed

definition event_words :: "u32 list \<Rightarrow> packet_words" where
  "event_words l = (\<lambda>k. if k < length l then l ! k else 0)"

lemma gen1_responses_keep_owned_witness:
  "let s = ready_sys\<lparr>instances := [0]\<rparr>;
       t = iris_hfi_gen1_handle_response gen1_ops (event_words [24, HFI_MSG_EVENT_NOTIFY, 7, HFI_EVENT_SYS_ERROR, 0, 0]) s in
   core_state t = IRIS_CORE_ERROR \<and> inst_state (inst_heap t 0) = IRIS_INST_ERROR \<and>
   owned (inst_heap t 0) = owned zero_inst"
proof -
  let ?s = "ready_sys\<lparr>instances := [0]\<rparr>"
  let ?w = "event_words [24, HFI_MSG_EVENT_NOTIFY, 7, HFI_EVENT_SYS_ERROR, 0, 0]"
  have fw: "firmware_keeps_owned ?s"
    by (simp add: firmware_keeps_owned_def ready_sys_def probed_sys_defs)
  have "core_state (iris_hfi_gen1_handle_response gen1_ops ?w ?s) = IRIS_CORE_ERROR \<and>
      inst_state (inst_heap (iris_hfi_gen1_handle_response gen1_ops ?w ?s) 0) = IRIS_INST_ERROR"
    by code_simp
  then show ?thesis
    using gen1_responses_keep_owned[OF fw, of ?w] by (simp add: Let_def)
qed

text \<open>
  C31. The response thread returns: when its two queues hold whole packets, however many, the
  handler ends, has looked at no packet twice, and leaves both queues empty unless a packet
  put the core into the error state; and the sessions still own what they owned.
\<close>

theorem gen1_response_handler_returns:
  assumes "q_ring (message_queue s) = Some q" "ring_holds q ps"
    and "q_ring (debug_queue s) = Some d" "ring_holds d ds"
    and "firmware_keeps_owned s"
  shows "\<exists>b' t. iris_hfi_gen1_response_handler gen1_ops b s = Some (b', t) \<and>
    left_empty t (message_queue t) \<and> left_empty t (debug_queue t) \<and>
    (\<forall>j. owned (inst_heap t j) = owned (inst_heap s j))"
  using gen1.handler_returns[OF assms(1-4), of b] assms(5) by (auto simp: drains_to_def)

definition serving_sys :: iris_sys where
  "serving_sys = ready_sys\<lparr>message_queue := zero_iface_q_info\<lparr>q_ring := ring_put empty_ring tiny_frame\<rparr>,
     debug_queue := zero_iface_q_info\<lparr>q_ring := Some empty_ring\<rparr>\<rparr>"

lemma gen1_response_handler_returns_witness:
  "\<exists>b' t. iris_hfi_gen1_response_handler gen1_ops (\<lambda>_. 0) serving_sys = Some (b', t) \<and>
    left_empty t (message_queue t) \<and> left_empty t (debug_queue t)"
proof -
  obtain q where q: "ring_put empty_ring tiny_frame = Some q" "ring_holds q [tiny_frame]"
    using ring.put_appends[OF empty_ring_simps(6) tiny_frame_room] by auto
  have "firmware_keeps_owned serving_sys"
    by (simp add: firmware_keeps_owned_def serving_sys_def ready_sys_def probed_sys_defs)
  with q(2) gen1_response_handler_returns[of serving_sys q "[tiny_frame]" empty_ring "[]" "\<lambda>_. 0"]
  show ?thesis by (auto simp: serving_sys_def q(1))
qed

text \<open>
  C32. A packet whose header says 1, 2 or 3 bytes stops the response thread for ever: the read
  succeeds and moves the read index by a quarter of that, which is nothing, the packet is
  refused as malformed, and the loop reads it again. The size check of the read only excludes 0.
\<close>

theorem gen1_short_packet_spins:
  assumes "core_state s = IRIS_CORE_INIT" "q_ring (message_queue s) = Some q"
    and "ring_ok q" "rd_off q \<noteq> wr_off q" "load_u32 (qmem q) (rd_off q) \<in> {1, 2, 3}"
  shows "iris_hfi_gen1_response_handler ops b s = None"
  using assms stuck_loop[of s ops b]
  by (simp add: iris_hfi_gen1_response_handler_def stuck_def stuck_ring_def)

definition short_ring :: hfi_ring where
  "short_ring = \<lparr>qhdr = zero_queue_header\<lparr>write_idx := 1\<rparr>, qmem = (\<lambda>k. if k = 0 then 1 else 0)\<rparr>"

lemma gen1_short_packet_spins_witness:
  "iris_hfi_gen1_response_handler gen1_ops (\<lambda>_. 0)
     (ready_sys\<lparr>message_queue := zero_iface_q_info\<lparr>q_ring := Some short_ring\<rparr>\<rparr>) = None"
proof -
  have "ring_ok short_ring" "rd_off short_ring \<noteq> wr_off short_ring"
    "load_u32 (qmem short_ring) (rd_off short_ring) \<in> {1, 2, 3}"
    by (simp_all add: short_ring_def zero_queue_header_def ring_ok_def rd_off_def wr_off_def load_u32_def)
  then show ?thesis by (intro gen1_short_packet_spins[where q = short_ring]) simp_all
qed

text \<open>
  C33. The properties of a sequence change stay inside the 1024 words of the response buffer
  for up to 113 of them. The count is the firmware's, and from 114 on some packets make the
  driver read past the buffer: nothing compares the count with the size of the packet.
\<close>

theorem gen1_changed_params_bounds:
  assumes "unat (w 5) \<le> 113" "114 \<le> unat n"
  shows "oopses (iris_hfi_gen1_read_changed_params i w s) = oopses s \<and>
    oopses (iris_hfi_gen1_read_changed_params i
      (\<lambda>k. if k = 5 then n else HFI_PROPERTY_CONFIG_BUFFER_REQUIREMENTS) s) = oopses s + 1"
proof
  show "oopses (iris_hfi_gen1_read_changed_params i w s) = oopses s"
    using properties_bound[of "platform s" w "unat (w 5)" 6 zero_event] assms(1)
    by (simp add: read_changed_oopses)
  let ?w = "\<lambda>k. if k = 5 then n else HFI_PROPERTY_CONFIG_BUFFER_REQUIREMENTS"
  have "snd (read_properties (platform s) ?w (unat n) 6 zero_event) = 6 + 9 * unat n - 3"
    using assms(2) by (intro requirements_overrun) auto
  then show "oopses (iris_hfi_gen1_read_changed_params i ?w s) = oopses s + 1"
    using assms(2) by (simp add: read_changed_oopses)
qed

lemma gen1_changed_params_bounds_witness:
  "oopses (iris_hfi_gen1_read_changed_params 0 (\<lambda>k. if k = 5 then 113 else HFI_PROPERTY_CONFIG_BUFFER_REQUIREMENTS) ready_sys) = 0 \<and>
   oopses (iris_hfi_gen1_read_changed_params 0 (\<lambda>k. if k = 5 then 114 else HFI_PROPERTY_CONFIG_BUFFER_REQUIREMENTS) ready_sys) = 1"
  using gen1_changed_params_bounds[of "\<lambda>k. if k = 5 then 113 else HFI_PROPERTY_CONFIG_BUFFER_REQUIREMENTS" 114 0 ready_sys]
  by (simp_all add: oopses_def ready_sys_def probed_sys_defs)

end
