(* ===== verification/IrisSessionLife.thy ===== *)
theory IrisSessionLife
  imports IrisSession IrisBufAccount
begin

text \<open>
  The properties of \<open>IrisSession\<close>: a session holds its slot exactly from a successful open to
  its close, the recovery of the core runs only between sessions, and the throughput of the
  sessions with a reservation stays within the core's.
\<close>

section \<open>Calls to the core leave the sessions alone\<close>

definition bystander :: "iris_sys \<Rightarrow> iris_sys \<Rightarrow> bool" where
  "bystander s t \<longleftrightarrow> inst_heap t = inst_heap s \<and> fw_effect t = fw_effect s \<and>
     instances t = instances s \<and> platform t = platform s"

text \<open>What a routine that is run from \<open>s0\<close> on gives keeps them: rules by its structure.\<close>

definition bystands :: "iris_sys \<Rightarrow> 'r \<times> iris_sys \<Rightarrow> bool" where
  "bystands s0 x \<longleftrightarrow> bystander s0 (snd x)"

named_theorems core_calls \<open>routines of the core leave the sessions alone\<close>

lemma bystander_refl [simp]: "bystander s s"
  by (simp add: bystander_def)

lemma bystander_steps [core_calls]:
  "bystander s t \<Longrightarrow> bystands s (r, t)"
  "bystander s t \<Longrightarrow> bystander s (tell k t)"
  "bystander s t \<Longrightarrow> bystands s (ask k' t)"
  "bystander s t \<Longrightarrow> bystander s (writel v reg t)"
  "bystander s t \<Longrightarrow> bystands s (readl reg t)"
  "bystander s t \<Longrightarrow> bystander s (t\<lparr>power := p\<rparr>)" "bystander s t \<Longrightarrow> bystander s (t\<lparr>icc_avg_bw := a\<rparr>)"
  "bystander s t \<Longrightarrow> bystander s (t\<lparr>vpu_powered := b\<rparr>)" "bystander s t \<Longrightarrow> bystander s (t\<lparr>vpu_suspended := b\<rparr>)"
  "bystander s t \<Longrightarrow> bystander s (t\<lparr>core_intr_status := i\<rparr>)" "bystander s t \<Longrightarrow> bystander s (t\<lparr>core_state := c\<rparr>)"
  "bystander s t \<Longrightarrow> bystander s (t\<lparr>llcc_active := b\<rparr>)" "bystander s t \<Longrightarrow> bystander s (t\<lparr>syscache_set := b\<rparr>)"
  "bystander s t \<Longrightarrow> bystander s (t\<lparr>sfr_vaddr := m\<rparr>)" "bystander s t \<Longrightarrow> bystander s (t\<lparr>sfr_daddr := m\<rparr>)"
  "bystander s t \<Longrightarrow> bystander s (t\<lparr>iface_q_table_vaddr := m\<rparr>)"
  "bystander s t \<Longrightarrow> bystander s (t\<lparr>iface_q_table_daddr := m\<rparr>)"
  "bystander s t \<Longrightarrow> bystander s (t\<lparr>command_queue := q\<rparr>)" "bystander s t \<Longrightarrow> bystander s (t\<lparr>message_queue := q\<rparr>)"
  "bystander s t \<Longrightarrow> bystander s (t\<lparr>debug_queue := q\<rparr>)" "bystander s t \<Longrightarrow> bystander s (t\<lparr>table_header := h\<rparr>)"
  "bystander s t \<Longrightarrow> bystander s (t\<lparr>sfr_word := w\<rparr>)" "bystander s t \<Longrightarrow> bystander s (t\<lparr>recovery_pending := b\<rparr>)"
  by (simp_all add: bystander_def bystands_def tell_def ask_def writel_def readl_def Let_def)

lemma bystander_snd [core_calls]: "bystands s x \<Longrightarrow> bystander s (snd x)"
  by (simp add: bystands_def)

lemma bystands_branch [core_calls]:
  "bystander s t \<Longrightarrow> bystander s u \<Longrightarrow> bystander s (if b then t else u)"
  "bystands s x \<Longrightarrow> bystands s y \<Longrightarrow> bystands s (if b then x else y)"
  "bystands s x \<Longrightarrow> (\<And>c. bystands s (f c)) \<Longrightarrow> bystands s (case m of None \<Rightarrow> x | Some c \<Rightarrow> f c)"
  "bystander s t \<Longrightarrow> (\<And>c. bystander s (g c)) \<Longrightarrow> bystander s (case m of None \<Rightarrow> t | Some c \<Rightarrow> g c)"
  by (simp_all split: option.split)

lemma bystands_bind [core_calls]:
  "bystands s x \<Longrightarrow> (\<And>r t. bystander s t \<Longrightarrow> bystands s (h r t)) \<Longrightarrow> bystands s (case x of (r, t) \<Rightarrow> h r t)"
  "bystands s x \<Longrightarrow> (\<And>r t. bystander s t \<Longrightarrow> bystander s (h' r t)) \<Longrightarrow> bystander s (case x of (r, t) \<Rightarrow> h' r t)"
  by (cases x; simp add: bystands_def)+

lemma clocks_stand [core_calls]:
  "bystander s t \<Longrightarrow> bystands s (iris_prepare_enable_clock t ty)"
  "bystander s t \<Longrightarrow> bystander s (iris_disable_unprepare_clock ty t)"
  unfolding iris_prepare_enable_clock_def iris_disable_unprepare_clock_def by (intro core_calls; assumption)+

lemma domains_stand [core_calls]:
  "bystander s t \<Longrightarrow> bystands s (iris_enable_power_domains t d)"
  "bystander s t \<Longrightarrow> bystands s (iris_disable_power_domains t d)"
  "bystander s t \<Longrightarrow> bystands s (pm_runtime_resume_and_get d t)"
  "bystander s t \<Longrightarrow> bystands s (iris_vpu_set_vcodec_hw_control t e)"
  "bystander s t \<Longrightarrow> bystands s (iris_unset_icc_bw t)"
  "bystander s t \<Longrightarrow> bystands s (iris_set_icc_bw t bw)"
  unfolding iris_enable_power_domains_def iris_disable_power_domains_def pm_runtime_resume_and_get_def
    iris_vpu_set_vcodec_hw_control_def iris_unset_icc_bw_def iris_set_icc_bw_def Let_def
  by (intro core_calls; assumption)+

lemma controller_off_stands [core_calls]: "bystander s t \<Longrightarrow> bystander s (iris_vpu_power_off_controller t)"
  unfolding iris_vpu_power_off_controller_def Let_def by (intro core_calls)

lemma hw_off_stands [core_calls]: "bystander s t \<Longrightarrow> bystander s (iris_vpu_power_off_hw t)"
  unfolding iris_vpu_power_off_hw_def Let_def by (intro core_calls)

lemma power_off_stands [core_calls]: "bystander s t \<Longrightarrow> bystander s (iris_vpu_power_off t)"
  unfolding iris_vpu_power_off_def Let_def by (intro core_calls)

lemma reset_loop_stands [core_calls]: "bystander s t \<Longrightarrow> bystands s (reset_loop is t)"
proof (induction "is" arbitrary: t)
  case (Cons i "is")
  show ?case unfolding reset_loop.simps by (intro core_calls Cons)
qed (simp add: bystands_def)

lemma controller_on_stands [core_calls]: "bystander s t \<Longrightarrow> bystands s (iris_vpu_power_on_controller t)"
  unfolding iris_vpu_power_on_controller_def Let_def by (intro core_calls)

lemma hw_on_stands [core_calls]: "bystander s t \<Longrightarrow> bystands s (iris_vpu_power_on_hw t)"
  unfolding iris_vpu_power_on_hw_def Let_def by (intro core_calls)

lemma presets_stand [core_calls]: "bystander s t \<Longrightarrow> bystander s (write_presets ws t)"
  unfolding write_presets_def by (induction ws arbitrary: t) (auto intro: core_calls)

lemma power_on_stands [core_calls]: "bystander s t \<Longrightarrow> bystands s (iris_vpu_power_on t)"
  unfolding iris_vpu_power_on_def iris_vpu_interrupt_init_def Let_def by (intro core_calls)

lemma dma_stands:
  "dma_alloc_attrs n t = (v, d, u) \<Longrightarrow> bystander s t \<Longrightarrow> bystander s u"
  by (auto simp: dma_alloc_attrs_def ask_def Let_def bystander_def)

lemma queues_init_stands [core_calls]: "bystander s t \<Longrightarrow> bystands s (iris_hfi_queues_init t)"
  unfolding iris_hfi_queues_init_def Let_def
  by (auto split: prod.splits intro!: core_calls dest!: dma_stands)

lemma queues_deinit_stands [core_calls]: "bystander s t \<Longrightarrow> bystander s (iris_hfi_queues_deinit t)"
  unfolding iris_hfi_queues_deinit_def Let_def by (intro core_calls)

lemma boot_poll_stands [core_calls]: "bystander s t \<Longrightarrow> bystands s (boot_poll reg n st t)"
proof (induction n arbitrary: st t)
  case (Suc n)
  show ?case unfolding boot_poll.simps by (intro core_calls Suc)
qed (simp add: bystands_def)

lemma boot_stands [core_calls]: "bystander s t \<Longrightarrow> bystands s (iris_vpu_boot_firmware t)"
  unfolding iris_vpu_boot_firmware_def iris_vpu_setup_ucregion_memory_map_def Let_def by (intro core_calls)

lemma firmware_stands [core_calls]:
  "bystander s t \<Longrightarrow> bystands s (iris_fw_load t)"
  "bystander s t \<Longrightarrow> bystands s (iris_fw_unload t)"
  "bystander s t \<Longrightarrow> bystands s (iris_set_hw_state t b)"
  "bystander s t \<Longrightarrow> bystands s (iris_hfi_core_init t)"
  "bystander s t \<Longrightarrow> bystands s (iris_wait_for_system_response t)"
  unfolding iris_fw_load_def iris_load_fw_to_memory_def iris_fw_unload_def iris_set_hw_state_def
    iris_hfi_core_init_def iris_wait_for_system_response_def response_thread_def Let_def
  by (intro core_calls; assumption)+

lemma rates_stand [core_calls]:
  "bystander s t \<Longrightarrow> bystands s (iris_set_idle_opp t)"
  "bystander s t \<Longrightarrow> bystands s (iris_set_clocks t)"
  "bystander s t \<Longrightarrow> bystands s (iris_set_interconnects t)"
  unfolding iris_set_idle_opp_def iris_set_clocks_def iris_set_interconnects_def iris_vpu_min_freq_def
    set_rate_def Let_def
  by (intro core_calls; assumption)+

lemma core_init_stands [core_calls]: "bystander s t \<Longrightarrow> bystands s (iris_core_init t)"
  unfolding iris_core_init_def Let_def by (intro core_calls)

lemma core_deinit_stands [core_calls]: "bystander s t \<Longrightarrow> bystander s (iris_core_deinit t)"
  unfolding iris_core_deinit_def Let_def by (intro core_calls)

lemma recovery_stands: "bystander s (iris_run_pending_core_recovery s)"
  unfolding iris_run_pending_core_recovery_def iris_core_recover_def by (intro core_calls bystander_refl)

section \<open>Slots\<close>

lemma touches_heap: "touches i s t \<Longrightarrow> j \<noteq> i \<Longrightarrow> inst_heap t j = inst_heap s j"
  by (simp add: touches_def)

lemma touches_opened:
  "touches i s t \<Longrightarrow> firmware_keeps_owned s \<Longrightarrow> hfi_session_opened (inst_heap t i) = hfi_session_opened (inst_heap s i)"
  by (simp add: touches_def owned_def)

lemma touches_core:
  "touches i s t \<Longrightarrow> instances t = instances s \<and> platform t = platform s \<and> fw_effect t = fw_effect s"
  using session_frame_sel(1,2)[of t s] session_frame_fw[of t s] by (simp add: touches_def)

text \<open>What opening and closing a session may do: the other sessions and the tables stay.\<close>

definition confined :: "nat \<Rightarrow> iris_sys \<Rightarrow> iris_sys \<Rightarrow> bool" where
  "confined i s t \<longleftrightarrow> (\<forall>j. j \<noteq> i \<longrightarrow> inst_heap t j = inst_heap s j) \<and> fw_effect t = fw_effect s \<and>
     instances t = instances s \<and> platform t = platform s"

interpretation confining: step_relation "confined i" for i
  by unfold_locales (auto simp: confined_def)

lemma touches_confined: "touches i s t \<Longrightarrow> confined i s t"
  using touches_core[of i s t] touches_heap[of i s t] by (simp add: confined_def)

lemma bystander_confined: "bystander s t \<Longrightarrow> confined i s t"
  by (simp add: bystander_def confined_def)

lemma confined_steps:
  "confined i s t \<Longrightarrow> confined i s (modify_inst i f t)"
  "confined i s t \<Longrightarrow> confined i s (iris_request_core_recovery t)"
  by (auto simp: confined_def iris_request_core_recovery_def)

lemma slot_released [simp]:
  "inst_heap (release_slot i s) i = (inst_heap s i)\<lparr>hfi_session_opened := False, hfi_core_id := 0,
     core_load_reserved := False, core_load_rejected := False, admission_frame_rate := 0\<rparr>"
  by (simp add: release_slot_def)

context firmware_ops
begin

lemma start_session_slot:
  assumes "start_session ops i s = (ret, t)" "hfi_session_opened (inst_heap s i)" "firmware_keeps_owned s"
  shows "confined i s t \<and> (hfi_session_opened (inst_heap t i) \<longleftrightarrow> ret = 0) \<and> (ret \<noteq> 0 \<longrightarrow> recovery_pending t)"
proof -
  obtain r1 s1 where 1: "session_open ops i s = (r1, s1)" by fastforce
  have t1: "touches i s s1" using open_does[of i] 1 by (metis does_def snd_conv)
  have o1: "hfi_session_opened (inst_heap s1 i)" using touches_opened[OF t1 assms(3)] assms(2) by simp
  obtain r2 s2 where 2: "iris_inst_change_state i IRIS_INST_INIT s1 = (r2, s2)" by fastforce
  have t2: "touches i s1 s2" using does_change_state[of i IRIS_INST_INIT] 2 by (metis does_def snd_conv)
  have fw1: "firmware_keeps_owned s1"
    using assms(3) touches_core[OF t1] by (simp add: firmware_keeps_owned_def)
  have o2: "hfi_session_opened (inst_heap s2 i)" using touches_opened[OF t2 fw1] o1 by simp
  have c: "confined i s s1" "confined i s s2"
    using touches_confined[OF t1] touches_confined[OF touches_trans[OF t1 t2]] by simp_all
  have rel: "confined i s u \<Longrightarrow> confined i s (release_slot i (iris_request_core_recovery u)) \<and>
      recovery_pending (release_slot i (iris_request_core_recovery u))" for u
    unfolding release_slot_def
    by (intro conjI confined_steps) (simp_all add: iris_request_core_recovery_def modify_inst_def)
  show ?thesis
  proof (cases "r1 \<noteq> 0 \<or> inst_state (inst_heap s1 i) = IRIS_INST_ERROR")
    case True
    then have "ret \<noteq> 0 \<and> t = release_slot i (iris_request_core_recovery s1)"
      using assms(1) by (auto simp: start_session_def 1 split: if_splits)
    then show ?thesis using rel[OF c(1)] by simp
  next
    case False
    then have "(ret, t) = (if r2 \<noteq> 0 then (r2, release_slot i (iris_request_core_recovery s2)) else (0, s2))"
      using assms(1) by (simp add: start_session_def 1 2)
    then show ?thesis using rel[OF c(2)] c(2) o2 by (cases "r2 = 0") simp_all
  qed
qed

lemma session_open_slot:
  assumes "iris_hfi_session_open ops i s = (ret, t)" "firmware_keeps_owned s"
  shows "confined i s t \<and> (hfi_session_opened (inst_heap t i) \<longleftrightarrow> ret = 0) \<and>
    (\<not> hfi_session_opened (inst_heap s i) \<and> ret = 0 \<longrightarrow>
       word_of_nat (length (active s)) < max_session_count (platform s))"
proof -
  let ?s1 = "iris_run_pending_core_recovery s"
  let ?s2 = "modify_inst i (hfi_session_opened_update (\<lambda>_. True)) ?s1"
  have b: "bystander s ?s1" by (rule recovery_stands)
  then have h: "inst_heap ?s1 = inst_heap s" "active ?s1 = active s" "platform ?s1 = platform s"
    "firmware_keeps_owned ?s2" "confined i s ?s1" "confined i s ?s2"
    using assms(2) bystander_confined[OF b, of i]
    by (auto simp: bystander_def active_def firmware_keeps_owned_def confined_steps)
  have start: "start_session ops i ?s2 = (ret, t) \<Longrightarrow>
      confined i s t \<and> (hfi_session_opened (inst_heap t i) \<longleftrightarrow> ret = 0)"
    using start_session_slot[of i ?s2 ret t] h(4,6) confining.trans[of i s ?s2 t] by simp
  show ?thesis
    using assms(1) start h
    by (auto simp: iris_hfi_session_open_def Let_def confining.refl not_le split: if_splits)
qed

lemma end_session_does: "does i (end_session ops i)"
proof -
  have "does i (run_all [reinit_completion False, session_close ops i, iris_wait_for_session_response i False,
      \<lambda>s1. if \<not> w \<and> inst_state (inst_heap s1 i) = IRIS_INST_ERROR then (- EIO, s1)
           else if inst_state (inst_heap s1 i) \<noteq> IRIS_INST_ERROR
           then iris_inst_change_state i IRIS_INST_DEINIT s1 else (0, s1)])" for w
  proof (rule does_run_all)
    fix f
    assume "f \<in> set [reinit_completion False, session_close ops i, iris_wait_for_session_response i False,
      \<lambda>s1. if \<not> w \<and> inst_state (inst_heap s1 i) = IRIS_INST_ERROR then (- EIO, s1)
           else if inst_state (inst_heap s1 i) \<noteq> IRIS_INST_ERROR
           then iris_inst_change_state i IRIS_INST_DEINIT s1 else (0, s1)]"
    moreover have "does i (\<lambda>s1. if \<not> w \<and> inst_state (inst_heap s1 i) = IRIS_INST_ERROR then (- EIO, s1)
           else if inst_state (inst_heap s1 i) \<noteq> IRIS_INST_ERROR
           then iris_inst_change_state i IRIS_INST_DEINIT s1 else (0, s1))"
      by (intro does_if does_return does_change_state)
    ultimately show "does i f" using does_reinit close_does does_wait by auto
  qed
  then show ?thesis by (simp add: does_def end_session_def Let_def)
qed

lemma session_close_slot:
  assumes "iris_hfi_session_close ops i s = (ret, t)"
  shows "confined i s t \<and> \<not> hfi_session_opened (inst_heap t i) \<and> \<not> core_load_reserved (inst_heap t i) \<and>
    (hfi_session_opened (inst_heap s i) \<longrightarrow> hfi_core_id (inst_heap t i) = 0 \<and> sub_state (inst_heap t i) = 0 \<and>
       flush_responses_pending (inst_heap t i) = 0 \<and> min_freq (inst_heap t i) = 0 \<and> inst_icc_bw (inst_heap t i) = 0) \<and>
    (hfi_session_opened (inst_heap s i) \<and> ret \<noteq> 0 \<longrightarrow> recovery_pending t)"
proof (cases "hfi_session_opened (inst_heap s i)")
  case False
  then show ?thesis using assms
    by (auto simp: iris_hfi_session_close_def iris_release_core_load_def confined_def)
next
  case True
  obtain r s1 where 1: "end_session ops i s = (r, s1)" by fastforce
  let ?s2 = "forget_session i s1"
  let ?s3 = "modify_inst i (\<lambda>inst. inst\<lparr>max_input_data_size := 0, min_freq := 0, inst_icc_bw := 0\<rparr>) ?s2"
  let ?s4 = "snd (iris_unvote_power i ?s2)"
  have b: "bystander ?s3 ?s4"
    unfolding iris_unvote_power_def Let_def by (intro core_calls bystander_refl)
  have "confined i s s1" using end_session_does[of i] 1 by (metis does_def snd_conv touches_confined)
  then have c: "confined i s ?s4"
    unfolding forget_session_def release_slot_def
    using bystander_confined[OF b, of i] by (auto simp: confined_def forget_session_def release_slot_def)
  have "inst_heap ?s4 = inst_heap ?s3" using b by (simp add: bystander_def)
  then have h: "inst_heap ?s4 i = (inst_heap ?s2 i)\<lparr>max_input_data_size := 0, min_freq := 0, inst_icc_bw := 0\<rparr>"
    by simp
  have t: "ret = r" "t = (if r \<noteq> 0 then iris_request_core_recovery ?s4 else ?s4)"
    using assms True by (auto simp: iris_hfi_session_close_def 1 Let_def)
  have "confined i s t" using t(2) c by (simp add: confined_steps)
  moreover have "inst_heap t i = inst_heap ?s4 i" "ret \<noteq> 0 \<longrightarrow> recovery_pending t"
    using t by (simp_all add: iris_request_core_recovery_def)
  moreover have "\<not> hfi_session_opened (inst_heap ?s2 i)" "\<not> core_load_reserved (inst_heap ?s2 i)"
    "hfi_core_id (inst_heap ?s2 i) = 0" "sub_state (inst_heap ?s2 i) = 0"
    "flush_responses_pending (inst_heap ?s2 i) = 0"
    by (simp_all add: forget_session_def)
  ultimately show ?thesis by (simp add: h)
qed

end

section \<open>Throughput\<close>

text \<open>
  The throughput the sessions with a reservation take, as a number, and the sessions of the
  size of a 4K frame or more among them.
\<close>

definition load_of :: "iris_inst \<Rightarrow> nat" where
  "load_of x = unat (iris_get_mbpf x) * unat (admission_frame_rate x)"

definition core_load :: "iris_sys \<Rightarrow> nat" where
  "core_load s = sum_list (List.map (\<lambda>j. load_of (inst_heap s j)) (reserved s))"

definition large :: "iris_inst \<Rightarrow> bool" where
  "large x \<longleftrightarrow> nat IRIS1_4K_MBPF \<le> unat (iris_get_mbpf x)"

text \<open>The sizes the driver admits are far below: a frame has fewer than 2 ^ 31 macroblocks.\<close>

definition small_frames :: "iris_sys \<Rightarrow> bool" where
  "small_frames s \<longleftrightarrow> (\<forall>j. unat (iris_get_mbpf (inst_heap s j)) < 2 ^ 31)"

lemma sint_small:
  fixes x :: u32
  assumes "unat x < 2 ^ 31"
  shows "sint x = int (unat x)"
proof -
  have u: "uint x = int (unat x)" by simp
  have "int (unat x) < int (2 ^ 31)" using assms by (simp only: of_nat_less_iff)
  then have "uint x < 2 ^ 31" by simp
  moreover have "- (2 ^ 31) \<le> uint x" by (rule order_trans[of _ 0]) simp_all
  ultimately have "signed_take_bit 31 (uint x) = uint x" by (intro signed_take_bit_int_eq_self)
  then show ?thesis by (simp add: sint_uint)
qed

lemma term_small:
  fixes x f :: u32
  assumes "unat x < 2 ^ 31"
  shows "unat (scast x * ucast f :: u64) = unat x * unat f"
proof -
  have "(scast x :: u64) = word_of_nat (unat x)"
    using sint_small[OF assms] by (simp add: scast_eq)
  then have x: "unat (scast x :: u64) = unat x" by (simp add: unat_u64_of_u32)
  have f: "unat (ucast f :: u64) = unat f" by (rule unat_u64_of_u32)
  have "unat x * unat f < 2 ^ 31 * 2 ^ 32"
    using assms unsigned_less[of f, where 'a = nat] by (intro mult_strict_mono') simp_all
  then show ?thesis
    using unat_mult_lem[of "scast x :: u64" "ucast f"] by (simp add: x f)
qed

lemma unat_total:
  fixes f :: "nat \<Rightarrow> u64"
  assumes "\<And>j. j \<in> set l \<Longrightarrow> unat (f j) = g j" "unat a + sum_list (List.map g l) < 2 ^ 64"
  shows "unat (fold (\<lambda>j total. total + f j) l a) = unat a + sum_list (List.map g l)"
  using assms
proof (induction l arbitrary: a)
  case (Cons j l)
  have "unat (a + f j) = unat a + g j"
    using Cons.prems unat_add_lem[of a "f j"] by simp
  then show ?case using Cons.IH[of "a + f j"] Cons.prems by simp
qed simp

lemma reserved_total:
  assumes "small_frames s" "core_load s < 2 ^ 32"
  shows "unat (reserved_mbps s) = core_load s"
proof -
  have "unat (scast (iris_get_mbpf (inst_heap s j)) * ucast (admission_frame_rate (inst_heap s j)) :: u64) =
      load_of (inst_heap s j)" for j
    using assms(1) by (simp add: term_small load_of_def small_frames_def)
  from unat_total[OF this, where l = "reserved s" and a = 0] assms(2) show ?thesis
    by (simp add: reserved_mbps_def core_load_def)
qed

lemma large_4k: "IRIS1_4K_MBPF = 32400"
  by code_simp

lemma large_count:
  assumes "small_frames s" "length (instances s) < 2 ^ 32"
  shows "unat (large_sessions s) = length (filter (\<lambda>j. large (inst_heap s j)) (reserved s))"
proof -
  have "length (filter (\<lambda>j. large (inst_heap s j)) (reserved s)) \<le> length (instances s)"
    unfolding reserved_def by (metis le_trans length_filter_le)
  moreover have "32400 \<le> uint x \<longleftrightarrow> 32400 \<le> unat x" for x :: u32
    using of_nat_le_iff[where 'a = int, of 32400 "unat x"] by simp
  ultimately show ?thesis
    using assms by (simp add: large_sessions_def large_def large_4k small_frames_def sint_small unat_of_nat)
qed

text \<open>The reservations fit, and on a legacy core at most three of them are large.\<close>

definition admitted :: "iris_sys \<Rightarrow> bool" where
  "admitted s \<longleftrightarrow> core_load s \<le> unat (max_core_mbps (platform s)) \<and>
     (legacy_vpu5 (platform s) \<longrightarrow> length (filter (\<lambda>j. large (inst_heap s j)) (reserved s)) \<le> 3)"

lemma sum_insert:
  fixes g :: "nat \<Rightarrow> nat"
  assumes "distinct l" "i \<in> set l" "\<not> P i"
  shows "sum_list (List.map g (filter (\<lambda>j. j = i \<or> P j) l)) = g i + sum_list (List.map g (filter P l))"
proof -
  have eq: "sum_list (List.map g (filter Q l)) = sum g (set l \<inter> {j. Q j})" for Q
    using assms(1) by (simp add: sum_list_distinct_conv_sum_set Collect_conj_eq Int_commute)
  have "set l \<inter> {j. j = i \<or> P j} = insert i (set l \<inter> {j. P j})" using assms(2) by auto
  then show ?thesis using assms(3) by (simp add: eq)
qed

text \<open>The number of large reservations is a sum too, so one lemma covers both limits.\<close>

lemma large_sum: "length (filter P l) = sum_list (List.map (\<lambda>j. if P j then 1 else 0) l)"
  by (induction l) simp_all

lemma reserved_after:
  fixes g :: "iris_inst \<Rightarrow> nat" and n :: u32
  assumes "distinct (instances s)" "i \<in> set (instances s)" "\<not> core_load_reserved (inst_heap s i)"
  defines "t \<equiv> modify_inst i (\<lambda>x. x\<lparr>admission_frame_rate := n, core_load_reserved := True\<rparr>) s"
  shows "sum_list (List.map (\<lambda>j. g (inst_heap t j)) (reserved t)) =
    g (inst_heap t i) + sum_list (List.map (\<lambda>j. g (inst_heap s j)) (reserved s))"
proof -
  have r: "reserved t = filter (\<lambda>j. j = i \<or> core_load_reserved (inst_heap s j)) (instances s)"
    by (auto simp: t_def reserved_def intro: filter_cong)
  have "List.map (\<lambda>j. g (inst_heap t j)) (reserved s) = List.map (\<lambda>j. g (inst_heap s j)) (reserved s)"
    using assms(3) by (intro map_cong) (auto simp: t_def reserved_def)
  moreover have "sum_list (List.map (\<lambda>j. g (inst_heap t j)) (filter (\<lambda>j. j = i \<or> core_load_reserved (inst_heap s j)) (instances s))) =
      g (inst_heap t i) + sum_list (List.map (\<lambda>j. g (inst_heap t j)) (filter (\<lambda>j. core_load_reserved (inst_heap s j)) (instances s)))"
    using assms(1-3) by (rule sum_insert)
  ultimately show ?thesis unfolding r by (simp only: reserved_def[of s])
qed

lemma reserve_admission:
  assumes "admitted s" "small_frames s" "distinct (instances s)" "length (instances s) < 2 ^ 32"
    and "i \<in> set (instances s)" "\<not> core_load_reserved (inst_heap s i)"
    and "iris_reserve_core_load i fps s = (ret, t)"
  defines "load \<equiv> unat (iris_get_mbpf (inst_heap s i)) * max (unat fps) 1"
  shows "(ret, t) = (if core_load s + load \<le> unat (max_core_mbps (platform s)) \<and>
      (legacy_vpu5 (platform s) \<and> large (inst_heap s i) \<longrightarrow>
         length (filter (\<lambda>j. large (inst_heap s j)) (reserved s)) < 3)
      then (0, modify_inst i (\<lambda>x. x\<lparr>admission_frame_rate := max fps 1, core_load_reserved := True\<rparr>) s)
      else (- ENOMEM, s))"
proof -
  let ?m = "iris_get_mbpf (inst_heap s i)"
  have less: "core_load s < 2 ^ 32"
    using assms(1) unsigned_less[of "max_core_mbps (platform s)", where 'a = nat] by (simp add: admitted_def)
  have tot: "unat (reserved_mbps s) = core_load s" by (rule reserved_total[OF assms(2) less])
  have mx: "unat (max fps 1) = max (unat fps) 1"
    by (simp add: max_def word_le_nat_alt)
  have m: "unat ?m < 2 ^ 31" using assms(2) by (simp add: small_frames_def)
  have f: "max (unat fps) 1 < 2 ^ 32" using unsigned_less[of fps, where 'a = nat] by simp
  have l: "load < 2 ^ 31 * 2 ^ 32" unfolding load_def using m f by (intro mult_strict_mono') simp_all
  have "unat (ucast ?m * ucast (max fps 1) :: u64) = load"
    using unat_mult_lem[of "ucast ?m :: u64" "ucast (max fps 1)"] l
    by (simp add: unat_u64_of_u32 mx load_def)
  then have "unat (reserved_mbps s + ucast ?m * ucast (max fps 1)) = core_load s + load"
    using unat_add_lem[of "reserved_mbps s" "ucast ?m * ucast (max fps 1)"] less l by (simp add: tot)
  then have fits: "ucast (max_core_mbps (platform s)) < reserved_mbps s + ucast ?m * ucast (max fps 1) \<longleftrightarrow>
      unat (max_core_mbps (platform s)) < core_load s + load"
    by (simp add: word_less_nat_alt unat_u64_of_u32)
  have lg: "word_of_int IRIS1_4K_MBPF \<le> ?m \<longleftrightarrow> large (inst_heap s i)"
    by (simp add: large_def large_4k word_le_nat_alt)
  have cnt: "IRIS1_MAX_4K_SESSIONS \<le> large_sessions s \<longleftrightarrow>
      \<not> length (filter (\<lambda>j. large (inst_heap s j)) (reserved s)) < 3"
    using large_count[OF assms(2,4)] by (simp add: word_le_nat_alt IRIS1_MAX_4K_SESSIONS_def not_less)
  show ?thesis
    using assms(6,7) by (auto simp: iris_reserve_core_load_def Let_def fits lg cnt split: if_splits)
qed

lemma core_load_after:
  fixes n :: u32
  assumes "distinct (instances s)" "i \<in> set (instances s)" "\<not> core_load_reserved (inst_heap s i)"
  defines "t \<equiv> modify_inst i (\<lambda>x. x\<lparr>admission_frame_rate := n, core_load_reserved := True\<rparr>) s"
  shows "core_load t = core_load s + unat (iris_get_mbpf (inst_heap s i)) * unat n \<and>
    length (filter (\<lambda>j. large (inst_heap t j)) (reserved t)) =
      length (filter (\<lambda>j. large (inst_heap s j)) (reserved s)) + (if large (inst_heap s i) then 1 else 0)"
proof -
  note after = reserved_after[OF assms(1-3), of _ n, folded t_def]
  have "iris_get_mbpf (inst_heap t i) = iris_get_mbpf (inst_heap s i)" "admission_frame_rate (inst_heap t i) = n"
    by (simp_all add: t_def iris_get_mbpf_def)
  then show ?thesis
    using after[of load_of] after[of "\<lambda>x. if large x then 1 else 0"]
    by (simp add: core_load_def large_sum load_of_def large_def)
qed

lemma released_platform [simp]: "platform (iris_release_core_load i s) = platform s"
  by (simp add: iris_release_core_load_def)

lemma released_less:
  "core_load (iris_release_core_load i s) \<le> core_load s \<and>
   length (filter (\<lambda>j. large (inst_heap (iris_release_core_load i s) j)) (reserved (iris_release_core_load i s)))
     \<le> length (filter (\<lambda>j. large (inst_heap s j)) (reserved s))"
proof -
  let ?t = "iris_release_core_load i s"
  have r: "reserved ?t = filter (\<lambda>j. j \<noteq> i) (reserved s)"
    by (auto simp: reserved_def iris_release_core_load_def intro: filter_cong)
  have same: "j \<noteq> i \<Longrightarrow> inst_heap ?t j = inst_heap s j" for j by (simp add: iris_release_core_load_def)
  have "sum_list (List.map (\<lambda>j. g (inst_heap ?t j)) (reserved ?t)) \<le> sum_list (List.map (\<lambda>j. g (inst_heap s j)) (reserved s))"
    for g :: "iris_inst \<Rightarrow> nat"
  proof -
    have "sum_list (List.map (\<lambda>j. g (inst_heap ?t j)) (filter (\<lambda>j. j \<noteq> i) l)) \<le> sum_list (List.map (\<lambda>j. g (inst_heap s j)) l)" for l
      using same by (induction l) auto
    then show ?thesis by (simp add: r)
  qed
  from this[of load_of] this[of "\<lambda>x. if large x then 1 else 0"] show ?thesis
    by (simp add: core_load_def large_sum)
qed

lemma filter_more:
  "(\<And>j. P j \<Longrightarrow> Q j) \<Longrightarrow> length (filter P l) \<le> length (filter Q l)"
  by (induction l) auto

lemma filter_one_more:
  assumes "distinct l" "\<And>j. j \<noteq> i \<Longrightarrow> P j \<Longrightarrow> Q j"
  shows "length (filter P l) \<le> Suc (length (filter Q l))"
  using assms
proof (induction l)
  case (Cons k l)
  have "length (filter P l) \<le> length (filter Q l)" if "k = i"
  proof -
    have "\<And>j. j \<in> set l \<Longrightarrow> P j \<Longrightarrow> Q j"
      by (metis Cons.prems that distinct.simps(2))
    then show ?thesis by (induction l) auto
  qed
  then show ?case using Cons by auto
qed simp

section \<open>Properties\<close>

text \<open>
  C25. Slots. Opening the firmware session of \<open>i\<close> gives it a slot exactly when it succeeds,
  whatever the kernel and the firmware do and wherever it fails, never more than the platform
  has, and closing it takes the slot away with the reservation, the core, the votes and the
  flags of the session, on every path; a close that fails asks for a recovery of the core.
  Neither does anything to the other sessions, not even when the open has to recover the core.
\<close>

theorem session_slots:
  assumes "iris_hfi_session_open gen1_ops i s = (ret, t)" "iris_hfi_session_close gen1_ops i t = (ret', u)"
    and "firmware_keeps_owned s" "length (active s) \<le> unat (max_session_count (platform s))"
    and "distinct (instances s)" "length (instances s) < 2 ^ 32"
  shows "(hfi_session_opened (inst_heap t i) \<longleftrightarrow> ret = 0) \<and>
    length (active t) \<le> unat (max_session_count (platform t)) \<and>
    \<not> hfi_session_opened (inst_heap u i) \<and> \<not> core_load_reserved (inst_heap u i) \<and>
    (ret = 0 \<longrightarrow> hfi_core_id (inst_heap u i) = 0 \<and> sub_state (inst_heap u i) = 0 \<and>
       min_freq (inst_heap u i) = 0 \<and> inst_icc_bw (inst_heap u i) = 0 \<and> (ret' \<noteq> 0 \<longrightarrow> recovery_pending u)) \<and>
    (\<forall>j. j \<noteq> i \<longrightarrow> inst_heap t j = inst_heap s j \<and> inst_heap u j = inst_heap s j) \<and> instances u = instances s"
proof -
  note o = gen1.session_open_slot[OF assms(1,3)] and c = gen1.session_close_slot[OF assms(2)]
  then have heap: "inst_heap t j = inst_heap s j" if "j \<noteq> i" for j
    using that by (auto simp: confined_def)
  have tabs: "instances t = instances s" "platform t = platform s" using o by (auto simp: confined_def)
  have "length (active t) \<le> unat (max_session_count (platform t))"
  proof (cases "\<not> hfi_session_opened (inst_heap s i) \<and> ret = 0")
    case True
    have "length (active t) \<le> Suc (length (active s))"
      unfolding active_def tabs using heap by (intro filter_one_more[OF assms(5), of i]) auto
    moreover have "length (active s) < 2 ^ 32"
      using assms(6) by (simp add: active_def le_less_trans[OF length_filter_le])
    ultimately show ?thesis
      using o True by (auto simp: tabs word_less_nat_alt unat_of_nat)
  next
    case False
    then have "hfi_session_opened (inst_heap t j) \<Longrightarrow> hfi_session_opened (inst_heap s j)" for j
      using o heap[of j] by (cases "j = i") auto
    then have "length (active t) \<le> length (active s)"
      unfolding active_def tabs by (rule filter_more)
    then show ?thesis using assms(4) by (simp add: tabs)
  qed
  then show ?thesis
    using o c heap by (auto simp: confined_def)
qed

definition two_clients :: iris_sys where
  "two_clients = modify_inst 0 (\<lambda>x. x\<lparr>crop := \<lparr>rect_left = 0, rect_top = 0, rect_width = 1920, rect_height = 1088\<rparr>\<rparr>)
     (ready_sys\<lparr>instances := [0, 1]\<rparr>)"

lemma two_clients_sel:
  "firmware_keeps_owned two_clients" "instances two_clients = [0, 1]" "platform two_clients = sm8150_data"
  "active two_clients = []" "reserved two_clients = []"
  by (simp_all add: two_clients_def firmware_keeps_owned_def ready_sys_def probed_sys_defs active_def
      reserved_def zero_inst_def)

lemma session_slots_witness:
  "\<exists>ret t ret' u. iris_hfi_session_open gen1_ops 0 two_clients = (ret, t) \<and>
     iris_hfi_session_close gen1_ops 0 t = (ret', u) \<and> (hfi_session_opened (inst_heap t 0) \<longleftrightarrow> ret = 0) \<and>
     \<not> hfi_session_opened (inst_heap u 0) \<and> inst_heap u 1 = inst_heap two_clients 1"
proof -
  obtain ret t where 1: "iris_hfi_session_open gen1_ops 0 two_clients = (ret, t)" by fastforce
  obtain ret' u where 2: "iris_hfi_session_close gen1_ops 0 t = (ret', u)" by fastforce
  have "length (active two_clients) \<le> unat (max_session_count (platform two_clients))"
    "distinct (instances two_clients)" "length (instances two_clients) < 2 ^ 32"
    by (simp_all add: two_clients_sel)
  from session_slots[OF 1 2 two_clients_sel(1) this] 1 2 show ?thesis by auto
qed

text \<open>
  C26. Admission. A reservation of the core's throughput is granted exactly when the macroblocks
  per second of all reservations, computed without overflow, stay within the platform's limit
  and, on the legacy core, at most three of them are of the size of a 4K frame; a refusal
  changes nothing. So the reservations fit the core after any reservation or release.
\<close>

theorem core_load_admission:
  assumes "admitted s" "small_frames s" "distinct (instances s)" "length (instances s) < 2 ^ 32"
    and "i \<in> set (instances s)" "\<not> core_load_reserved (inst_heap s i)"
    and "iris_reserve_core_load i fps s = (ret, t)"
  shows "(ret = 0 \<longleftrightarrow>
      core_load s + unat (iris_get_mbpf (inst_heap s i)) * max (unat fps) 1 \<le> unat (max_core_mbps (platform s)) \<and>
      (legacy_vpu5 (platform s) \<and> large (inst_heap s i) \<longrightarrow>
         length (filter (\<lambda>j. large (inst_heap s j)) (reserved s)) < 3)) \<and>
    (ret \<noteq> 0 \<longrightarrow> ret = - ENOMEM \<and> t = s) \<and> admitted t \<and> admitted (iris_release_core_load k t)"
proof -
  have mx: "unat (max fps 1) = max (unat fps) 1" by (simp add: max_def word_le_nat_alt)
  note r = reserve_admission[OF assms] and a = core_load_after[OF assms(3,5,6), of "max fps 1"]
  have "admitted t"
    using r a assms(1) by (auto simp: admitted_def mx split: if_splits)
  moreover have "admitted (iris_release_core_load k t)"
    using released_less[of k t] \<open>admitted t\<close> by (auto simp: admitted_def)
  moreover have "- ENOMEM \<noteq> 0" by simp
  ultimately show ?thesis using r by (auto split: if_splits)
qed

lemma core_load_admission_witness:
  "\<exists>t. iris_reserve_core_load 0 30 two_clients = (0, t) \<and> admitted t \<and>
     core_load two_clients + 8160 * 30 \<le> unat (max_core_mbps sm8150_data)"
proof -
  obtain ret t where r: "iris_reserve_core_load 0 30 two_clients = (ret, t)" by fastforce
  have m: "iris_get_mbpf (inst_heap two_clients 0) = 8160" by code_simp
  have "unat (iris_get_mbpf (inst_heap two_clients j)) < 2 ^ 31" for j
  proof (cases "j = 0")
    case False
    then have "inst_heap two_clients j = zero_inst" by (simp add: two_clients_def ready_sys_def probed_sys_defs)
    moreover have "iris_get_mbpf zero_inst = 0" by code_simp
    ultimately show ?thesis by simp
  qed (simp add: m)
  then have small: "small_frames two_clients" by (simp add: small_frames_def)
  have start: "admitted two_clients" "core_load two_clients = 0"
    by (simp_all add: admitted_def core_load_def two_clients_sel)
  have "\<not> core_load_reserved (inst_heap two_clients 0)"
    by (simp add: two_clients_def ready_sys_def probed_sys_defs zero_inst_def)
  moreover have "distinct (instances two_clients)" "length (instances two_clients) < 2 ^ 32"
    "0 \<in> set (instances two_clients)"
    by (simp_all add: two_clients_sel)
  ultimately have adm: "(ret = 0 \<longleftrightarrow> core_load two_clients + unat (8160 :: u32) * max (unat (30 :: u32)) 1 \<le> unat (max_core_mbps sm8150_data) \<and>
      (legacy_vpu5 sm8150_data \<and> large (inst_heap two_clients 0) \<longrightarrow>
         length (filter (\<lambda>j. large (inst_heap two_clients j)) (reserved two_clients)) < 3))" "admitted t"
    using core_load_admission[OF start(1) small _ _ _ _ r, unfolded m two_clients_sel(3)] by blast+
  have "8160 * 30 \<le> unat (max_core_mbps sm8150_data)" by (simp add: sm8150_data_def SM8150_MAX_CORE_MBPS_def)
  moreover have "\<not> large (inst_heap two_clients 0)" by (simp add: large_def m large_4k)
  ultimately have "ret = 0" using adm(1) by (simp add: start(2))
  with r adm(2) \<open>8160 * 30 \<le> unat (max_core_mbps sm8150_data)\<close> show ?thesis by (auto simp: start(2))
qed

end
