(* ===== verification/IrisVidc.thy ===== *)
theory IrisVidc
  imports IrisVb2
begin

text \<open>
  The files a client opens (\<open>iris_vidc.c\<close>): opening and closing one, the queries and commands
  of its ioctls, and the fences a decoder client attaches to the surfaces it still writes to.
\<close>

section \<open>Surface fences\<close>

text \<open>
  \<open>dma_fence_signal()\<close> and \<open>dma_fence_put()\<close> name the fence by its number, which is its own in
  the context of the session. An error pointer is a negative result.
\<close>

definition iris_surface_fence_complete :: "iris_surface_fence \<Rightarrow> iris_sys \<Rightarrow> iris_sys" where
  "iris_surface_fence_complete f s =
     tell (File (Fence_put (fence_seqno f))) (tell (File (Fence_signal (fence_seqno f))) s)"

definition reserve_fence :: "u64 \<Rightarrow> iris_sys \<Rightarrow> int \<times> iris_sys" where
  "reserve_fence n s =
     (case ask (\<lambda>r. File (Resv_lock r)) s of (ret, s1) \<Rightarrow>
      if ret \<noteq> 0 then (ret, s1)
      else case ask (\<lambda>r. File (Resv_reserve r)) s1 of (ret, s2) \<Rightarrow>
        (ret, tell (File Resv_unlock) (if ret = 0 then tell (File (Resv_add_fence n)) s2 else s2)))"

definition new_fence :: "nat \<Rightarrow> u64 \<Rightarrow> iris_sys \<Rightarrow> int \<times> iris_sys" where
  "new_fence i token =
     kzalloc (\<lambda>s. let n = surface_fence_seqno (inst_heap s i) + 1;
                       s1 = tell (File (Fence_init n)) (modify_inst i (surface_fence_seqno_update (\<lambda>_. n)) s)
        in case reserve_fence n s1 of (ret, s2) \<Rightarrow>
           if ret \<noteq> 0 then (ret, tell (File (Fence_put n)) s2)
           else (0, modify_inst i (surface_fences_update (\<lambda>l. l @ [\<lparr>fence_token = token, fence_seqno = n\<rparr>])) s2))"

definition iris_surface_fence_attach :: "nat \<Rightarrow> int \<Rightarrow> u64 \<Rightarrow> iris_sys \<Rightarrow> int \<times> iris_sys" where
  "iris_surface_fence_attach i fd token s =
     (if fd < 0 \<or> token = 0 then (- EINVAL, s)
      else if token \<in> set (List.map fence_token (surface_fences (inst_heap s i))) then (- EEXIST, s)
      else case ask (\<lambda>r. File (Dma_buf_get fd r)) s of (dmabuf, s1) \<Rightarrow>
        if dmabuf < 0 then (dmabuf, s1)
        else case new_fence i token s1 of (ret, s2) \<Rightarrow> (ret, tell (File (Dma_buf_put dmabuf)) s2))"

definition signal_fence :: "nat \<Rightarrow> iris_surface_fence \<Rightarrow> iris_sys \<Rightarrow> iris_sys" where
  "signal_fence i f s = iris_surface_fence_complete f (modify_inst i (surface_fences_update (remove1 f)) s)"

definition iris_surface_fence_signal :: "nat \<Rightarrow> u64 \<Rightarrow> iris_sys \<Rightarrow> int \<times> iris_sys" where
  "iris_surface_fence_signal i token s =
     (case List.find (\<lambda>f. fence_token f = token) (surface_fences (inst_heap s i)) of
        None \<Rightarrow> (- ENOENT, s) | Some f \<Rightarrow> (0, signal_fence i f s))"

definition iris_surface_fence_signal_all :: "nat \<Rightarrow> iris_sys \<Rightarrow> iris_sys" where
  "iris_surface_fence_signal_all i s = fold (signal_fence i) (surface_fences (inst_heap s i)) s"

definition VIDIOC_IRIS_SURFACE_FENCE :: u32 where "VIDIOC_IRIS_SURFACE_FENCE = 0x401056C0"
definition IRIS_SURFACE_FENCE_ATTACH :: u32 where "IRIS_SURFACE_FENCE_ATTACH = 1"
definition IRIS_SURFACE_FENCE_SIGNAL :: u32 where "IRIS_SURFACE_FENCE_SIGNAL = 2"

record iris_surface_fence_cmd =
  fence_op :: u32
  dmabuf_fd :: int
  cmd_token :: u64

definition iris_vidioc_default :: "nat \<Rightarrow> bool \<Rightarrow> u32 \<Rightarrow> iris_surface_fence_cmd \<Rightarrow> iris_sys \<Rightarrow> int \<times> iris_sys" where
  "iris_vidioc_default i valid_prio cmd c s =
     (if cmd \<noteq> VIDIOC_IRIS_SURFACE_FENCE \<or> domain (inst_heap s i) \<noteq> DECODER then (- ENOTTY, s)
      else if \<not> valid_prio then (- EBUSY, s)
      else if fence_op c = IRIS_SURFACE_FENCE_ATTACH then iris_surface_fence_attach i (dmabuf_fd c) (cmd_token c) s
      else if fence_op c = IRIS_SURFACE_FENCE_SIGNAL then iris_surface_fence_signal i (cmd_token c) s
      else (- EINVAL, s))"

section \<open>Opening a file\<close>

definition iris_add_session :: "nat \<Rightarrow> iris_sys \<Rightarrow> iris_sys" where
  "iris_add_session i s = s\<lparr>instances := instances s @ [i]\<rparr>"

definition iris_remove_session :: "nat \<Rightarrow> iris_sys \<Rightarrow> iris_sys" where
  "iris_remove_session i s = s\<lparr>instances := remove1 i (instances s)\<rparr>"

text \<open>The kind of session, by the name of the video device.\<close>

definition session_type :: "string \<Rightarrow> domain_type option" where
  "session_type name =
     (if name = ''qcom-iris-decoder'' then Some DECODER
      else if name = ''qcom-iris-encoder'' then Some ENCODER else None)"

text \<open>
  Getting the core ready: out of its power collapse, or from scratch when that fails, then
  started, once more when it was found in error.
\<close>

definition start_again :: "'a iris_core_scheme \<Rightarrow> int \<times> 'a iris_core_scheme" where
  "start_again s = iris_core_recover (s\<lparr>recovery_pending := False\<rparr>)"

definition ready_core :: "'a iris_core_scheme \<Rightarrow> int \<times> 'a iris_core_scheme" where
  "ready_core s =
     (case iris_pc_resume s of (ret, s1) \<Rightarrow>
      case iris_core_init (if ret \<noteq> 0 then snd (start_again s1) else s1) of (ret, s2) \<Rightarrow>
      if ret \<noteq> 0 \<and> core_state s2 = IRIS_CORE_ERROR then start_again s2 else (ret, s2))"

definition iris_hfi_gen1_get_instance :: "'a iris_core_scheme \<Rightarrow> int \<times> 'a iris_core_scheme" where
  "iris_hfi_gen1_get_instance = ask Kzalloc"

text \<open>
  The new instance, zeroed by \<open>get_instance()\<close>; \<open>hash32_ptr\<close> is the kernel's hash of its
  address.
\<close>

definition fresh_instance :: "(nat \<Rightarrow> u32) \<Rightarrow> domain_type \<Rightarrow> nat \<Rightarrow> u64 \<Rightarrow> iris_inst" where
  "fresh_instance hash32_ptr d i ctx = zero_inst\<lparr>domain := d, session_id := hash32_ptr i,
     inst_state := IRIS_INST_DEINIT, surface_fences := [], surface_fence_context := ctx\<rparr>"

definition discard_instance :: "nat \<Rightarrow> iris_sys \<Rightarrow> iris_sys" where
  "discard_instance i s =
     tell (Pm_put_autosuspend Core_dev) (tell (File (Free_instance i)) (tell (File Fh_deinit) s))"

text \<open>The contexts of the memory-to-memory framework, then what the domain sets up.\<close>

definition setup_instance ::
    "(nat \<Rightarrow> iris_sys \<Rightarrow> int \<times> iris_sys) \<Rightarrow> nat \<Rightarrow> iris_sys \<Rightarrow> int \<times> iris_sys" where
  "setup_instance ctrls_init i s =
     (case ask (\<lambda>r. File (M2m_init r)) s of (dev, s1) \<Rightarrow>
      if dev \<le> 0 then (- EINVAL, discard_instance i s1)
      else case ask (\<lambda>r. File (M2m_ctx_init r)) s1 of (ctx, s2) \<Rightarrow>
      if ctx \<le> 0 then (- EINVAL, discard_instance i (tell (File M2m_release) s2))
      else case (if domain (inst_heap s2 i) = DECODER then iris_vdec_inst_init ctrls_init i s2
                 else iris_venc_inst_init ctrls_init i s2) of (ret, s3) \<Rightarrow>
      if ret \<noteq> 0
      then (ret, discard_instance i (tell (File M2m_release) (tell (File M2m_ctx_release) s3)))
      else (0, iris_add_session i s3))"

definition open_instance ::
    "(nat \<Rightarrow> u32) \<Rightarrow> (nat \<Rightarrow> iris_sys \<Rightarrow> int \<times> iris_sys) \<Rightarrow> domain_type \<Rightarrow> iris_sys \<Rightarrow> (int + nat) \<times> iris_sys" where
  "open_instance hash32_ptr ctrls_init d s =
     (case iris_hfi_gen1_get_instance s of (p, s1) \<Rightarrow>
      if p = 0 then (Inl (- ENOMEM), tell (Pm_put_autosuspend Core_dev) s1)
      else case ask (\<lambda>r. File (Fence_context_alloc r)) s1 of (ctx, s2) \<Rightarrow>
        let i = nat p;
            s3 = tell (File Fh_init) (modify_inst i (\<lambda>_. fresh_instance hash32_ptr d i (word_of_int ctx)) s2)
        in case setup_instance ctrls_init i s3 of (ret, s4) \<Rightarrow>
           (if ret \<noteq> 0 then Inl ret else Inr i, s4))"

text \<open>The result is the error or the instance of the file.\<close>

definition iris_open ::
    "(nat \<Rightarrow> u32) \<Rightarrow> (nat \<Rightarrow> iris_sys \<Rightarrow> int \<times> iris_sys) \<Rightarrow> bool \<Rightarrow> string \<Rightarrow> iris_sys \<Rightarrow> (int + nat) \<times> iris_sys" where
  "iris_open hash32_ptr ctrls_init allow_fw_boot name s =
     (if \<not> allow_fw_boot then (Inl (- EACCES), s)
      else case session_type name of None \<Rightarrow> (Inl (- EINVAL), s)
      | Some d \<Rightarrow>
        case pm_runtime_resume_and_get Core_dev s of (ret, s1) \<Rightarrow>
        if ret < 0 then (Inl ret, s1)
        else case ready_core s1 of (ret, s2) \<Rightarrow>
        if ret \<noteq> 0 then (Inl ret, tell (Pm_put_sync Core_dev) s2)
        else open_instance hash32_ptr ctrls_init d s2)"

section \<open>Closing it\<close>

text \<open>
  \<open>m2m_ctx_release\<close> stands for \<open>v4l2_m2m_ctx_release()\<close> of the framework, which calls back into
  the driver for the queues that are streaming.
\<close>

definition close_session ::
    "iris_hfi_command_ops \<Rightarrow> (nat \<Rightarrow> iris_sys \<Rightarrow> iris_sys) \<Rightarrow> nat \<Rightarrow> iris_sys \<Rightarrow> iris_sys" where
  "close_session ops m2m_ctx_release i s =
     (let s1 = tell (File Ctrl_handler_free) (iris_surface_fence_signal_all i s);
          s2 = tell (File M2m_release) (m2m_ctx_release i (tell (File M2m_ctx_release) s1));
          s3 = tell (File Fh_deinit) (snd (iris_hfi_session_close ops i s2));
          s4 = snd (iris_destroy_all_internal_buffers i OUTPUT_MPLANE s3)
      in iris_remove_session i (snd (iris_destroy_all_internal_buffers i CAPTURE_MPLANE s4)))"

definition iris_close ::
    "iris_hfi_command_ops \<Rightarrow> (nat \<Rightarrow> iris_sys \<Rightarrow> iris_sys) \<Rightarrow> nat \<Rightarrow> iris_sys \<Rightarrow> iris_sys" where
  "iris_close ops m2m_ctx_release i s =
     (let s1 = iris_run_pending_core_recovery (close_session ops m2m_ctx_release i s);
          s2 = (if domain (inst_heap s1 i) = DECODER then iris_vdec_inst_deinit i s1 else s1)
      in iris_pc_schedule (tell (Pm_put_autosuspend Core_dev) (tell (File (Free_instance i)) s2)))"

section \<open>Formats and rectangles\<close>

definition iris_enum_fmt :: "iris_platform_data \<Rightarrow> iris_inst \<Rightarrow> u32 \<Rightarrow> u32 \<Rightarrow> int + u32 \<times> u32" where
  "iris_enum_fmt pd x ty index =
     (if domain x = DECODER then iris_vdec_enum_fmt pd ty index else iris_venc_enum_fmt ty index)"

definition iris_try_fmt_vid_mplane :: "iris_platform_data \<Rightarrow> iris_inst \<Rightarrow> v4l2_format \<Rightarrow> int \<times> v4l2_format" where
  "iris_try_fmt_vid_mplane pd x f =
     (if domain x = DECODER then iris_vdec_try_fmt pd x f else iris_venc_try_fmt x f)"

definition iris_s_fmt_vid_mplane ::
    "iris_platform_data \<Rightarrow> v4l2_format \<Rightarrow> iris_inst \<Rightarrow> int \<times> v4l2_format \<times> iris_inst" where
  "iris_s_fmt_vid_mplane pd f x =
     (if domain x = DECODER then iris_vdec_s_fmt pd f x else iris_venc_s_fmt pd f x)"

definition iris_g_fmt_vid_mplane :: "iris_inst \<Rightarrow> u32 \<Rightarrow> int + v4l2_format" where
  "iris_g_fmt_vid_mplane x ty =
     (if V4L2_TYPE_IS_OUTPUT ty then Inr \<lparr>fmt_type = OUTPUT_MPLANE, pix = fmt_src x\<rparr>
      else if V4L2_TYPE_IS_CAPTURE ty then Inr \<lparr>fmt_type = CAPTURE_MPLANE, pix = fmt_dst x\<rparr>
      else Inl (- EINVAL))"

text \<open>The ranges of a stepwise answer: width and height, each with step 1.\<close>

definition iris_enum_framesizes ::
    "iris_platform_data \<Rightarrow> iris_inst \<Rightarrow> u32 \<Rightarrow> u32 \<Rightarrow> int + (u32 \<times> u32) \<times> u32 \<times> u32" where
  "iris_enum_framesizes pd x index pixfmt =
     (let ret = (if domain x = DECODER then iris_vdec_validate_format pd pixfmt else iris_venc_validate_format pixfmt);
          caps = inst_caps pd
      in if index \<noteq> 0 then Inl (- EINVAL)
         else if ret \<noteq> 0 then Inl ret
         else Inr ((min_frame_width caps, max_frame_width caps), min_frame_height caps, max_frame_height caps))"

text \<open>The largest rate offered for a frame size; the smallest is 1.\<close>

definition iris_enum_frameintervals ::
    "iris_platform_data \<Rightarrow> iris_inst \<Rightarrow> u32 \<Rightarrow> u32 \<Rightarrow> u32 \<Rightarrow> u32 \<Rightarrow> int + u32" where
  "iris_enum_frameintervals pd x index pixfmt width height =
     (let caps = inst_caps pd in
      if domain x = DECODER then Inl (- ENOTTY)
      else if index \<noteq> 0 then Inl (- EINVAL)
      else if iris_venc_validate_format pixfmt \<noteq> 0 then Inl (iris_venc_validate_format pixfmt)
      else if width = 0 \<or> height = 0 then Inl (- EINVAL)
      else if max_frame_width caps < width \<or> width < min_frame_width caps \<or>
              max_frame_height caps < height \<or> height < min_frame_height caps then Inl (- EINVAL)
      else Inr (min (DIV_ROUND_UP (max_core_mbps pd) (NUM_MBS_PER_FRAME height width)) MAXIMUM_FPS))"

text \<open>
  Buffer types 1, 2, 9 and 10 are the single- and multi-planar CAPTURE and OUTPUT; the targets
  are those of \<open>videodev2.h\<close>.
\<close>

abbreviation (input) V4L2_SEL_TGT_CROP :: u32 where "V4L2_SEL_TGT_CROP \<equiv> 0"
abbreviation (input) V4L2_SEL_TGT_CROP_DEFAULT :: u32 where "V4L2_SEL_TGT_CROP_DEFAULT \<equiv> 1"
abbreviation (input) V4L2_SEL_TGT_CROP_BOUNDS :: u32 where "V4L2_SEL_TGT_CROP_BOUNDS \<equiv> 2"
abbreviation (input) V4L2_SEL_TGT_COMPOSE :: u32 where "V4L2_SEL_TGT_COMPOSE \<equiv> 0x100"
abbreviation (input) V4L2_SEL_TGT_COMPOSE_DEFAULT :: u32 where "V4L2_SEL_TGT_COMPOSE_DEFAULT \<equiv> 0x101"
abbreviation (input) V4L2_SEL_TGT_COMPOSE_BOUNDS :: u32 where "V4L2_SEL_TGT_COMPOSE_BOUNDS \<equiv> 0x102"
abbreviation (input) V4L2_SEL_TGT_COMPOSE_PADDED :: u32 where "V4L2_SEL_TGT_COMPOSE_PADDED \<equiv> 0x103"

definition decoder_selection :: "u32 \<Rightarrow> iris_inst \<Rightarrow> int + iris_hfi_rect_desc" where
  "decoder_selection target x =
     (if target \<in> {V4L2_SEL_TGT_CROP_BOUNDS, V4L2_SEL_TGT_CROP_DEFAULT, V4L2_SEL_TGT_CROP, V4L2_SEL_TGT_COMPOSE_BOUNDS,
                   V4L2_SEL_TGT_COMPOSE_PADDED, V4L2_SEL_TGT_COMPOSE_DEFAULT, V4L2_SEL_TGT_COMPOSE}
      then Inr (if dqbuf_crop_valid x then dqbuf_crop x else crop x) else Inl (- EINVAL))"

definition encoder_selection :: "u32 \<Rightarrow> iris_inst \<Rightarrow> int + iris_hfi_rect_desc" where
  "encoder_selection target x =
     (if target \<in> {V4L2_SEL_TGT_CROP_BOUNDS, V4L2_SEL_TGT_CROP_DEFAULT}
      then Inr ((crop x)\<lparr>rect_width := pix_width (fmt_src x), rect_height := pix_height (fmt_src x)\<rparr>)
      else if target = V4L2_SEL_TGT_CROP then Inr (crop x) else Inl (- EINVAL))"

definition iris_g_selection :: "iris_inst \<Rightarrow> u32 \<Rightarrow> u32 \<Rightarrow> int + iris_hfi_rect_desc" where
  "iris_g_selection x ty target =
     (if ty \<noteq> 1 \<and> ty \<noteq> CAPTURE_MPLANE \<and> domain x = DECODER then Inl (- EINVAL)
      else if ty \<noteq> 2 \<and> ty \<noteq> OUTPUT_MPLANE \<and> domain x = ENCODER then Inl (- EINVAL)
      else if domain x = DECODER then decoder_selection target x else encoder_selection target x)"

definition iris_s_selection ::
    "iris_platform_data \<Rightarrow> u32 \<Rightarrow> u32 \<Rightarrow> u32 \<Rightarrow> u32 \<Rightarrow> iris_inst \<Rightarrow> int \<times> iris_inst" where
  "iris_s_selection pd ty target w h x =
     (if domain x = DECODER then (- EINVAL, x) else iris_venc_s_selection pd ty target w h x)"

definition iris_s_parm :: "nat \<Rightarrow> u32 \<Rightarrow> u32 \<Rightarrow> u32 \<Rightarrow> iris_sys \<Rightarrow> int \<times> iris_sys" where
  "iris_s_parm i ty numerator denominator s =
     (if ty \<noteq> CAPTURE_MPLANE \<and> ty \<noteq> OUTPUT_MPLANE then (- EINVAL, s)
      else if domain (inst_heap s i) = ENCODER then iris_venc_s_param i ty numerator denominator s
      else (- EINVAL, s))"

definition iris_g_parm :: "iris_inst \<Rightarrow> u32 \<Rightarrow> int + u32 \<times> u32" where
  "iris_g_parm x ty =
     (if ty \<noteq> CAPTURE_MPLANE \<and> ty \<noteq> OUTPUT_MPLANE then Inl (- EINVAL)
      else if domain x = ENCODER then Inr (iris_venc_g_param x ty) else Inl (- EINVAL))"

section \<open>Commands\<close>

text \<open>START is 0 and STOP is 1 for both kinds of session; a session without a stream ignores them.\<close>

definition stream_command ::
    "(iris_sys \<Rightarrow> int \<times> iris_sys) \<Rightarrow> (iris_sys \<Rightarrow> int \<times> iris_sys) \<Rightarrow> nat \<Rightarrow> u32 \<Rightarrow> iris_sys \<Rightarrow> int \<times> iris_sys" where
  "stream_command start stop i cmd s =
     (if cmd \<noteq> 1 \<and> cmd \<noteq> 0 then (- EINVAL, s)
      else if inst_state (inst_heap s i) = IRIS_INST_DEINIT then (0, s)
      else if \<not> iris_allow_cmd (inst_heap s i) cmd then (- EBUSY, s)
      else if cmd = 0 then start s else stop s)"

definition iris_dec_cmd :: "iris_hfi_command_ops \<Rightarrow> nat \<Rightarrow> u32 \<Rightarrow> iris_sys \<Rightarrow> int \<times> iris_sys" where
  "iris_dec_cmd ops i = stream_command (iris_vdec_start_cmd ops i) (iris_vdec_stop_cmd ops i) i"

definition iris_enc_cmd :: "iris_hfi_command_ops \<Rightarrow> nat \<Rightarrow> u32 \<Rightarrow> iris_sys \<Rightarrow> int \<times> iris_sys" where
  "iris_enc_cmd ops i = stream_command (iris_venc_start_cmd ops i) (iris_venc_stop_cmd ops i) i"

end
