(* ===== verification/IrisVidcFence.thy ===== *)
theory IrisVidcFence
  imports IrisVidc IrisSessionLife
begin

text \<open>
  The fences a client attaches to its surfaces (\<open>IrisVidc\<close>) are accounted for along any sequence
  of its ioctls, and none outlives the session.
\<close>

section \<open>Fences\<close>

text \<open>
  Three accounts of the log: the references held on the fence of number \<open>n\<close>, the additions of it
  to a reservation object that no signal has answered, and the references held on a DMA buffer.
\<close>

definition on_files :: "(file_call \<Rightarrow> int) \<Rightarrow> kcall \<Rightarrow> int" where
  "on_files w k = (case k of File c \<Rightarrow> w c | _ \<Rightarrow> 0)"

lemma on_files_simps [simp]: "on_files w (File c) = w c" "on_files w (Kzalloc r) = 0"
  by (simp_all add: on_files_def)

fun reference_weight :: "u64 \<Rightarrow> file_call \<Rightarrow> int" where
  "reference_weight n (Fence_init m) = (if m = n then 1 else 0)"
| "reference_weight n (Fence_put m) = (if m = n then - 1 else 0)"
| "reference_weight n _ = 0"

fun promise_weight :: "u64 \<Rightarrow> file_call \<Rightarrow> int" where
  "promise_weight n (Resv_add_fence m) = (if m = n then 1 else 0)"
| "promise_weight n (Fence_signal m) = (if m = n then - 1 else 0)"
| "promise_weight n _ = 0"

fun dmabuf_weight :: "int \<Rightarrow> file_call \<Rightarrow> int" where
  "dmabuf_weight d (Dma_buf_get fd r) = (if r = d \<and> 0 \<le> r then 1 else 0)"
| "dmabuf_weight d (Dma_buf_put r) = (if r = d then - 1 else 0)"
| "dmabuf_weight d _ = 0"

definition references :: "u64 \<Rightarrow> iris_sys \<Rightarrow> int" where
  "references n = balance (on_files (reference_weight n))"

definition promises :: "u64 \<Rightarrow> iris_sys \<Rightarrow> int" where
  "promises n = balance (on_files (promise_weight n))"

definition dmabufs :: "int \<Rightarrow> iris_sys \<Rightarrow> int" where
  "dmabufs d = balance (on_files (dmabuf_weight d))"

lemmas fence_counts = references_def promises_def dmabufs_def

definition tokens :: "iris_inst \<Rightarrow> u64 list" where
  "tokens x = List.map fence_token (surface_fences x)"

definition listed :: "u64 \<Rightarrow> iris_inst \<Rightarrow> int" where
  "listed n x = int (count_list (List.map fence_seqno (surface_fences x)) n)"

definition fence_books :: "nat \<Rightarrow> iris_sys \<Rightarrow> iris_sys \<Rightarrow> bool" where
  "fence_books i s t \<longleftrightarrow>
     (\<forall>n. references n t - listed n (inst_heap t i) = references n s - listed n (inst_heap s i)) \<and>
     (\<forall>n. promises n t - listed n (inst_heap t i) = promises n s - listed n (inst_heap s i)) \<and>
     (\<forall>d. dmabufs d t = dmabufs d s) \<and>
     (distinct (tokens (inst_heap s i)) \<and> 0 \<notin> set (tokens (inst_heap s i)) \<longrightarrow>
      distinct (tokens (inst_heap t i)) \<and> 0 \<notin> set (tokens (inst_heap t i)))"

interpretation fencing: step_relation "fence_books i" for i
  by unfold_locales (auto simp: fence_books_def)

lemma tokens_remove:
  fixes f :: iris_surface_fence and l :: "iris_surface_fence list"
  shows "set (List.map fence_token (remove1 f l)) \<subseteq> set (List.map fence_token l)"
    "distinct (List.map fence_token l) \<Longrightarrow> distinct (List.map fence_token (remove1 f l))"
  using set_remove1_subset[of f l] by (auto simp: distinct_map inj_on_subset)

lemma count_remove: "f \<in> set l \<Longrightarrow>
  int (count_list (List.map g (remove1 f l)) n) = int (count_list (List.map g l) n) - (if g f = n then 1 else 0)"
  by (induction l) auto

lemma signal_fence_effect:
  "inst_heap (signal_fence i f s) i = surface_fences_update (remove1 f) (inst_heap s i)"
  "balance w (signal_fence i f s) =
     balance w s + w (File (Fence_signal (fence_seqno f))) + w (File (Fence_put (fence_seqno f)))"
  by (simp_all add: signal_fence_def iris_surface_fence_complete_def tell_def balance_def modify_inst_def)

lemma signal_fence_books:
  assumes "f \<in> set (surface_fences (inst_heap s i))"
  shows "fence_books i s (signal_fence i f s)"
  using tokens_remove[where f = f and l = "surface_fences (inst_heap s i)"]
    count_remove[OF assms, of fence_seqno]
  by (auto simp: fence_books_def fence_counts signal_fence_effect tokens_def listed_def)

lemma find_member: "List.find P xs = Some x \<Longrightarrow> x \<in> set xs"
  by (metis find_Some_iff nth_mem)

lemma signal_books: "preserves (fence_books i) (iris_surface_fence_signal i token)"
  by (auto simp: preserves_def iris_surface_fence_signal_def fencing.refl dest!: find_member
      intro: signal_fence_books split: option.split)

lemma signal_all_books:
  "fence_books i s (iris_surface_fence_signal_all i s) \<and>
   surface_fences (inst_heap (iris_surface_fence_signal_all i s) i) = []"
proof -
  have "surface_fences (inst_heap s i) = l \<Longrightarrow> fence_books i s (fold (signal_fence i) l s) \<and>
      surface_fences (inst_heap (fold (signal_fence i) l s) i) = []" for l
  proof (induction l arbitrary: s)
    case (Cons f l)
    have "surface_fences (inst_heap (signal_fence i f s) i) = l"
      using Cons.prems by (simp add: signal_fence_effect)
    from Cons.IH[OF this] signal_fence_books[of f s i] Cons.prems
    show ?case by (auto intro: fencing.trans)
  qed (simp add: fencing.refl)
  then show ?thesis by (simp add: iris_surface_fence_signal_all_def)
qed

lemma attach_books: "preserves (fence_books i) (iris_surface_fence_attach i fd token)"
  unfolding preserves_def iris_surface_fence_attach_def new_fence_def reserve_fence_def kzalloc_def
  by (auto simp: ask_def tell_def Let_def fence_books_def fence_counts balance_def tokens_def listed_def
      modify_inst_def)

definition fence_ioctls :: "nat \<Rightarrow> (bool \<times> u32 \<times> iris_surface_fence_cmd) list \<Rightarrow> iris_sys \<Rightarrow> iris_sys" where
  "fence_ioctls i cs s = fold (\<lambda>(valid_prio, cmd, c) s. snd (iris_vidioc_default i valid_prio cmd c s)) cs s"

lemma ioctl_books: "preserves (fence_books i) (iris_vidioc_default i valid_prio cmd c)"
  using attach_books[of i "dmabuf_fd c" "cmd_token c"] signal_books[of i "cmd_token c"]
  by (simp add: preserves_def iris_vidioc_default_def fencing.refl)

lemma ioctls_books: "fence_books i s (fence_ioctls i cs s)"
proof (induction cs arbitrary: s)
  case (Cons c cs)
  obtain p cmd a where c: "c = (p, cmd, a)" by (cases c)
  show ?case
    using Cons[of "snd (iris_vidioc_default i p cmd a s)"] ioctl_books[of i p cmd a]
    by (auto simp: fence_ioctls_def c preserves_def intro: fencing.trans)
qed (simp add: fence_ioctls_def fencing.refl)

text \<open>
  C27. The fences of a session are accounted for. Along any sequence of fence ioctls, whichever
  of them fail and wherever, the tokens on the session's list are distinct and none is zero; of
  every fence the driver holds one reference while it is on the list and none otherwise, what it
  added to a buffer and did not signal is what is on the list, and it keeps no DMA buffer. And
  signalling all of them, as the close does, empties the list: every reference is dropped and
  every fence a client of the buffer may wait for has been signalled.
\<close>

theorem surface_fences_accounted:
  assumes "surface_fences (inst_heap s i) = []"
  shows "let t = fence_ioctls i cs s; u = iris_surface_fence_signal_all i t; x = inst_heap t i in
    distinct (tokens x) \<and> 0 \<notin> set (tokens x) \<and>
    (\<forall>n. references n t = references n s + listed n x \<and>
         promises n t = promises n s + listed n x) \<and>
    (\<forall>d. dmabufs d t = dmabufs d s) \<and>
    surface_fences (inst_heap u i) = [] \<and>
    (\<forall>n. references n u = references n s \<and>
         promises n u = promises n s)"
  using ioctls_books[of i s cs] signal_all_books[of i "fence_ioctls i cs s"] assms
  by (auto simp: Let_def fence_books_def tokens_def listed_def diff_eq_eq)

text \<open>
  Two fences are attached, with a repeated token in between, the first is signalled, and the last
  ioctl names a token that is not there. The answers are those of \<open>kzalloc()\<close> and of calls that
  return 0.
\<close>

definition fence_client :: iris_sys where
  "fence_client = two_clients\<lparr>env := (\<lambda>n. if n = 1 \<or> n = 9 then 1 else 0)\<rparr>"

lemma fence_client_sel:
  "klog fence_client = []" "env fence_client = (\<lambda>n. if n = 1 \<or> n = 9 then 1 else 0)"
  "surface_fences (inst_heap fence_client 0) = []" "surface_fence_seqno (inst_heap fence_client 0) = 0"
  "domain (inst_heap fence_client 0) = DECODER"
  by (simp_all add: fence_client_def two_clients_def ready_sys_def probed_sys_defs zero_inst_def)

lemmas fence_steps = iris_vidioc_default_def iris_surface_fence_attach_def new_fence_def kzalloc_def
  reserve_fence_def iris_surface_fence_signal_def signal_fence_effect ask_def Let_def

definition fence_script :: "(bool \<times> u32 \<times> iris_surface_fence_cmd) list" where
  "fence_script = List.map (\<lambda>(f, token). (True, VIDIOC_IRIS_SURFACE_FENCE, \<lparr>fence_op = f, dmabuf_fd = 3, cmd_token = token\<rparr>))
     [(IRIS_SURFACE_FENCE_ATTACH, 7), (IRIS_SURFACE_FENCE_ATTACH, 7), (IRIS_SURFACE_FENCE_ATTACH, 8),
      (IRIS_SURFACE_FENCE_SIGNAL, 7), (IRIS_SURFACE_FENCE_SIGNAL, 9)]"

lemma surface_fences_accounted_witness:
  "let t = fence_ioctls 0 fence_script fence_client; u = iris_surface_fence_signal_all 0 t in
   tokens (inst_heap t 0) = [8] \<and> promises 2 t = promises 2 fence_client + 1 \<and>
   promises 2 u = promises 2 fence_client"
proof -
  note a = surface_fences_accounted[OF fence_client_sel(3), of fence_script, unfolded Let_def]
  have "surface_fences (inst_heap (fence_ioctls 0 fence_script fence_client) 0) = [\<lparr>fence_token = 8, fence_seqno = 2\<rparr>]"
    by (simp add: fence_ioctls_def fence_script_def fence_steps fence_client_sel tell_def IRIS_SURFACE_FENCE_ATTACH_def
        IRIS_SURFACE_FENCE_SIGNAL_def)
  then have "tokens (inst_heap (fence_ioctls 0 fence_script fence_client) 0) = [8]"
    "listed 2 (inst_heap (fence_ioctls 0 fence_script fence_client) 0) = 1"
    by (simp_all add: tokens_def listed_def)
  with a show ?thesis by (simp add: Let_def)
qed

end
