(* ===== verification/IrisVidcLife.thy ===== *)
theory IrisVidcLife
  imports IrisVidcFence IrisGen1Serve
begin

text \<open>
  The files of \<open>IrisVidc\<close>: a failed open undoes what it did, and a close gives back everything
  the session holds.
\<close>

section \<open>What an operation on one session settles\<close>

text \<open>
  Its internal memory stays accounted for, and neither the other sessions nor its own fences
  are changed.
\<close>

definition settles :: "nat \<Rightarrow> iris_buffer_type set \<Rightarrow> iris_sys \<Rightarrow> iris_sys \<Rightarrow> bool" where
  "settles i T s t \<longleftrightarrow> accounted i T s t \<and> confined i s t \<and>
     (firmware_keeps_owned s \<longrightarrow> surface_fences (inst_heap t i) = surface_fences (inst_heap s i))"

interpretation settling: step_relation "settles i T" for i T
proof unfold_locales
  fix s t u
  assume a: "settles i T s t" "settles i T t u"
  then have "firmware_keeps_owned s \<Longrightarrow> firmware_keeps_owned t"
    by (simp add: settles_def confined_def firmware_keeps_owned_def)
  with a show "settles i T s u"
    using accounting.trans[of i T s t u] confining.trans[of i s t u] by (simp add: settles_def)
qed (simp add: settles_def accounting.refl confining.refl)

lemma touches_settles: "touches i s t \<Longrightarrow> settles i T s t"
  by (simp add: settles_def touches_accounted touches_confined) (simp add: touches_def owned_def)

lemma does_settles: "does i f \<Longrightarrow> preserves (settles i T) f"
  by (simp add: does_def preserves_def touches_settles)

lemma settles_modify:
  "settles i T s t \<Longrightarrow> (\<And>x. domain (f x) = domain x \<and> int_mem (f x) = int_mem x \<and> surface_fences (f x) = surface_fences x) \<Longrightarrow>
   settles i T s (modify_inst i f t)"
proof (erule settling.trans)
  assume f: "\<And>x. domain (f x) = domain x \<and> int_mem (f x) = int_mem x \<and> surface_fences (f x) = surface_fences x"
  then have "accounted i T t (modify_inst i f t)"
    by (simp add: accounted_def manages_def firmware_keeps_owned_def unheld_def held_def balance_def modify_inst_def)
  then show "settles i T t (modify_inst i f t)"
    using f by (simp add: settles_def confined_steps confining.refl)
qed

lemma destroy_one_settles:
  "confined i s (snd (iris_destroy_internal_buffer i ty b s)) \<and>
   surface_fences (inst_heap (snd (iris_destroy_internal_buffer i ty b s)) i) = surface_fences (inst_heap s i)"
  by (auto simp: iris_destroy_internal_buffer_def confined_def tell_def modify_inst_def on_internal_def)

definition steady :: "nat \<Rightarrow> iris_sys \<Rightarrow> iris_sys \<Rightarrow> bool" where
  "steady i s t \<longleftrightarrow> confined i s t \<and> surface_fences (inst_heap t i) = surface_fences (inst_heap s i)"

interpretation steadying: step_relation "steady i" for i
  by unfold_locales (auto simp: steady_def intro: confining.refl confining.trans)

lemma destroy_settles:
  assumes "plane \<in> {OUTPUT_MPLANE, CAPTURE_MPLANE}"
  shows "preserves (settles i T) (iris_destroy_all_internal_buffers i plane)"
proof -
  have one: "preserves (steady i) (iris_destroy_internal_buffer i ty b)" for ty b
    using destroy_one_settles by (simp add: preserves_def steady_def)
  have "preserves (steady i) (destroy_of_type i force ty)" for force ty
    unfolding destroy_of_type_def by (rule steadying.for_each[OF one])
  then have "steady i s (snd (iris_destroy_internal_buffers i plane True s))" for s
    unfolding iris_destroy_internal_buffers_def by (intro steadying.run_all) auto
  then show ?thesis
    using destroy_buffers_accounted[OF assms, of i T True]
    by (simp add: preserves_def iris_destroy_all_internal_buffers_def settles_def steady_def)
qed

lemma stand_settles:
  "bystander s t \<Longrightarrow> accounted i T s t \<Longrightarrow> settles i T s t"
  by (simp add: settles_def bystander_confined) (simp add: bystander_def)

lemma recover_settles: "settles i T s t \<Longrightarrow> settles i T s (iris_request_core_recovery t)"
proof (erule settling.trans)
  show "settles i T t (iris_request_core_recovery t)"
    using confined_steps(2)[OF confining.refl]
    by (simp add: settles_def accounted_same iris_request_core_recovery_def)
qed

lemma unvote_settles: "preserves (settles i T) (iris_unvote_power i)"
proof -
  have "bystander s (snd (iris_set_clocks s))" "bystander s (snd (iris_set_interconnects s))" for s
    by (intro core_calls bystander_refl)+
  then have 1: "preserves (settles i T) iris_set_clocks" "preserves (settles i T) iris_set_interconnects"
    using accounted_set_clocks[of i T] accounted_set_interconnects[of i T]
    by (simp_all add: preserves_def stand_settles)
  have 2: "preserves (settles i T) (\<lambda>s. case iris_set_clocks s of (ret, s2) \<Rightarrow>
      case iris_set_interconnects s2 of (ret2, s3) \<Rightarrow> (if ret \<noteq> 0 then ret else ret2, s3))"
    by (intro settling.bind 1 settling.return)
  show ?thesis
    unfolding preserves_def iris_unvote_power_def Let_def
  proof
    fix s :: iris_sys
    let ?s1 = "modify_inst i (\<lambda>inst. inst\<lparr>max_input_data_size := 0, min_freq := 0, inst_icc_bw := 0\<rparr>) s"
    have "settles i T s ?s1" by (rule settles_modify[OF settling.refl]) (simp add: int_mem_def fun_eq_iff)
    then show "settles i T s (snd (case iris_set_clocks ?s1 of (ret, s2) \<Rightarrow>
      case iris_set_interconnects s2 of (ret2, s3) \<Rightarrow> (if ret \<noteq> 0 then ret else ret2, s3)))"
      using 2 unfolding preserves_def by (blast intro: settling.trans)
  qed
qed

lemma streamoff_state_does: "does i (iris_inst_state_change_streamoff i plane)"
  unfolding iris_inst_state_change_streamoff_def Let_def does_def
  using does_change_state by (simp add: does_def)

lemma flush_deferred_does: "does i (\<lambda>s. (r, iris_flush_deferred_buffers i ty s))"
proof -
  have own: "owned (map_buf (\<lambda>b. b\<lparr>buf_attr := buf_attr b OR n, data_size := 0\<rparr>) r x) = owned x" for n r x
  proof -
    have "int_mem (map_buf (\<lambda>b. b\<lparr>buf_attr := buf_attr b OR n, data_size := 0\<rparr>) r x) = int_mem x" by simp
    then show ?thesis by (cases r) (simp_all add: owned_def on_internal_def)
  qed
  have done_with: "does i (\<lambda>s. (0, snd (iris_vb2_buffer_done i b (modify_inst i
      (map_buf (\<lambda>b. b\<lparr>buf_attr := buf_attr b OR BUF_ATTR_BUFFER_DONE, data_size := 0\<rparr>) r) s))))" for b r
    unfolding does_def snd_conv
  proof
    fix s :: iris_sys
    let ?t = "modify_inst i (map_buf (\<lambda>b. b\<lparr>buf_attr := buf_attr b OR BUF_ATTR_BUFFER_DONE, data_size := 0\<rparr>) r) s"
    have "touches i s ?t" by (rule touches_then_modify[OF touches_refl]) (rule own)
    moreover have "touches i ?t (snd (iris_vb2_buffer_done i b ?t))" using does_buffer_done unfolding does_def by blast
    ultimately show "touches i s (snd (iris_vb2_buffer_done i b ?t))" by (rule touches_trans)
  qed
  then have "does i (flush_deferred_one i r)" for r
    unfolding flush_deferred_one_def Let_def by (intro does_with_buf does_if does_return)
  then have "does i (\<lambda>s. run_all (List.map (flush_deferred_one i) (xs s)) s)" for xs
    by (rule does_for_each)
  from this[of "\<lambda>s. if ty = BUF_INPUT then List.map (\<lambda>b. Src (buf_index b)) (m2m_src (inst_heap s i))
      else List.map (\<lambda>b. Dst (buf_index b)) (m2m_dst (inst_heap s i))"]
  show ?thesis by (simp add: does_def iris_flush_deferred_buffers_def Let_def)
qed

context firmware_ops
begin

lemma close_settles: "preserves (settles i T) (iris_hfi_session_close ops i)"
  unfolding preserves_def
proof
  fix s
  show "settles i T s (snd (iris_hfi_session_close ops i s))"
  proof (cases "hfi_session_opened (inst_heap s i)")
    case True
    obtain r s1 where 1: "end_session ops i s = (r, s1)" by fastforce
    have "settles i T s s1"
      using settling.step[OF does_settles[OF end_session_does] 1] .
    then have "settles i T s (forget_session i s1)"
      unfolding forget_session_def release_slot_def
      by (intro settles_modify) (simp_all add: int_mem_def fun_eq_iff)
    then have "settles i T s (snd (iris_unvote_power i (forget_session i s1)))"
      using unvote_settles by (simp add: preserves_def) (blast intro: settling.trans)
    then show ?thesis
      using True by (simp add: iris_hfi_session_close_def 1 Let_def recover_settles)
  next
    case False
    then show ?thesis
      unfolding iris_hfi_session_close_def iris_release_core_load_def
      by (simp add: settles_modify settling.refl int_mem_def fun_eq_iff)
  qed
qed

lemma streamoff_settles: "preserves (settles i T) (iris_session_streamoff ops i plane)"
proof -
  have idle: "preserves (settles i T) (close_if_idle ops i)"
    unfolding close_if_idle_def
    by (intro settling.branch settling.return)
      (auto simp: preserves_def[of _ "run_all _"] simp del: run_all.simps
        intro!: settling.run_all destroy_settles close_settles)
  have kill: "preserves (settles i T) (\<lambda>s. (r, iris_kill_session ops i s))" for r
    unfolding preserves_def snd_conv
  proof
    fix s
    have "touches i s (snd (session_close ops i s))" using close_does by (simp add: does_def)
    moreover have "touches i t (snd (iris_inst_change_state i IRIS_INST_ERROR t))" for t
      using does_change_state by (simp add: does_def)
    ultimately have "touches i s (snd (iris_inst_change_state i IRIS_INST_ERROR (snd (session_close ops i s))))"
      by (blast intro: touches_trans)
    then show "settles i T s (iris_kill_session ops i s)"
      by (simp add: iris_kill_session_def settling.refl touches_settles)
  qed
  note flush = does_settles[OF flush_deferred_does, of i T]
  have mod: "preserves (settles i T) (\<lambda>s. (0::int, modify_inst i (streamoff_pending_update (\<lambda>_. True)) s))"
    by (auto simp: preserves_def settling.refl int_mem_def fun_eq_iff intro!: settles_modify)
  have stop: "preserves (settles i T) (and_then (session_stop ops i plane) (iris_inst_state_change_streamoff i plane))"
    by (intro settling.and_then does_settles stop_does streamoff_state_does)
  have fail: "settles i T s (iris_flush_deferred_buffers i ty (iris_kill_session ops i s))" for s ty
    using kill[of 0] flush[of 0 ty] by (simp add: preserves_def) (blast intro: settling.trans)
  have done_: "settles i T s (snd (close_if_idle ops i (iris_flush_deferred_buffers i ty s)))" for s ty
    using idle flush[of 0 ty] by (simp add: preserves_def) (blast intro: settling.trans)
  show ?thesis
    unfolding preserves_def
  proof
    fix s
    let ?m = "modify_inst i (streamoff_pending_update (\<lambda>_. True)) s"
    obtain ret s1 where 1: "and_then (session_stop ops i plane) (iris_inst_state_change_streamoff i plane) ?m = (ret, s1)"
      by fastforce
    have "settles i T s s1"
      using settling.trans[OF _ settling.step[OF stop 1]] mod by (simp add: preserves_def)
    then show "settles i T s (snd (iris_session_streamoff ops i plane s))"
      using fail done_ settling.refl by (auto simp: iris_session_streamoff_def 1 Let_def intro: settling.trans)
  qed
qed

lemma stop_settles: "settles i T s (iris_vb2_stop_streaming ops i plane s)"
proof -
  have rel: "settles i T s t \<Longrightarrow> settles i T s (iris_release_core_load i t)" for t
    unfolding iris_release_core_load_def by (rule settles_modify) (simp_all add: int_mem_def fun_eq_iff)
  have hb: "settles i T s t \<Longrightarrow> settles i T s (iris_helper_buffers_done i plane st t)" for t st
    using acts_buffers_done[of i plane st] by (auto simp: acts_def intro: settling.trans touches_settles)
  have err: "settles i T s t \<Longrightarrow> settles i T s (snd (iris_inst_change_state i IRIS_INST_ERROR t))" for t
    using does_change_state[of i IRIS_INST_ERROR] by (auto simp: does_def intro: settling.trans touches_settles)
  have clear: "settles i T s (iris_vdec_clear_pending_output i s)"
    unfolding iris_vdec_clear_pending_output_def
    by (rule settles_modify[OF settling.refl]) (simp_all add: int_mem_def fun_eq_iff)
  have off: "settles i T s t \<Longrightarrow> settles i T s (snd (iris_session_streamoff ops i plane t))" for t
    using streamoff_settles[of i T plane] by (auto simp: preserves_def intro: settling.trans)
  show ?thesis
    by (simp add: iris_vb2_stop_streaming_def Let_def split_def rel settling.refl hb err clear off)
qed

end

section \<open>Opening\<close>

text \<open>
  What the driver holds of the kernel's objects for an open file, besides the instance, and the
  weight of a call for each.
\<close>

datatype file_object = File_handle | M2m_device | M2m_context | Core_reference

definition file_weight :: "file_object \<Rightarrow> file_call \<Rightarrow> int" where
  "file_weight ob c = (case ob of
      File_handle \<Rightarrow> (case c of Fh_init \<Rightarrow> 1 | Fh_deinit \<Rightarrow> - 1 | _ \<Rightarrow> 0)
    | M2m_device \<Rightarrow> (case c of M2m_init r \<Rightarrow> if 0 < r then 1 else 0 | M2m_release \<Rightarrow> - 1 | _ \<Rightarrow> 0)
    | M2m_context \<Rightarrow> (case c of M2m_ctx_init r \<Rightarrow> if 0 < r then 1 else 0 | M2m_ctx_release \<Rightarrow> - 1 | _ \<Rightarrow> 0)
    | Core_reference \<Rightarrow> 0)"

definition object_weight :: "file_object \<Rightarrow> kcall \<Rightarrow> int" where
  "object_weight ob k = (case k of File c \<Rightarrow> file_weight ob c
    | _ \<Rightarrow> if ob = Core_reference then pm_weight Core_dev k else 0)"

lemma object_weight_simps [simp]:
  "object_weight ob (Kzalloc r) = 0" "object_weight ob (File c) = file_weight ob c"
  "object_weight ob (Pm_put_sync Core_dev) = (if ob = Core_reference then - 1 else 0)"
  "object_weight ob (Pm_put_autosuspend Core_dev) = (if ob = Core_reference then - 1 else 0)"
  by (simp_all add: object_weight_def)

lemma file_weight_simps [simp]:
  "file_weight ob Fh_init = (if ob = File_handle then 1 else 0)"
  "file_weight ob Fh_deinit = (if ob = File_handle then - 1 else 0)"
  "file_weight ob (M2m_init r) = (if ob = M2m_device \<and> 0 < r then 1 else 0)"
  "file_weight ob M2m_release = (if ob = M2m_device then - 1 else 0)"
  "file_weight ob (M2m_ctx_init r) = (if ob = M2m_context \<and> 0 < r then 1 else 0)"
  "file_weight ob M2m_ctx_release = (if ob = M2m_context then - 1 else 0)"
  "file_weight ob (Free_instance i) = 0" "file_weight ob (Fence_context_alloc r) = 0"
  by (cases ob; simp add: file_weight_def)+

text \<open>
  What the registration of a session's controls may do: set values of the session, with calls
  that concern none of these objects.
\<close>

definition registers :: "(nat \<Rightarrow> iris_sys \<Rightarrow> int \<times> iris_sys) \<Rightarrow> bool" where
  "registers ctrls_init \<longleftrightarrow> (\<forall>j s. let t = snd (ctrls_init j s); x = inst_heap s j; y = inst_heap t j in
     confined j s t \<and> (\<forall>ob. balance (object_weight ob) t = balance (object_weight ob) s) \<and>
     (domain y, session_id y, inst_state y, surface_fences y) = (domain x, session_id x, inst_state x, surface_fences x))"

definition named_alike :: "iris_inst \<Rightarrow> iris_inst \<Rightarrow> bool" where
  "named_alike x y \<longleftrightarrow> domain y = domain x \<and> session_id y = session_id x \<and> inst_state y = inst_state x \<and>
     surface_fences y = surface_fences x"

lemma defaults_named: "named_alike x (vdec_defaults pd caps x)" "named_alike x (venc_defaults pd caps x)"
  by (simp_all add: named_alike_def vdec_defaults_def venc_defaults_def size_src_def size_dst_def count_dst_def
      set_buffers_info_def crop_to_def Let_def)

lemma inst_init_effect:
  assumes "registers ctrls_init"
    and "x = (if domain (inst_heap s i) = DECODER then iris_vdec_inst_init ctrls_init i s
              else iris_venc_inst_init ctrls_init i s)"
  shows "confined i s (snd x) \<and> named_alike (inst_heap s i) (inst_heap (snd x) i) \<and>
    balance (object_weight ob) (snd x) = balance (object_weight ob) s"
proof -
  obtain p s1 where 1: "ask Kzalloc s = (p, s1)" by fastforce
  obtain q s2 where 2: "ask Kzalloc s1 = (q, s2)" by fastforce
  have s2: "inst_heap s2 = inst_heap s" "confined i s s2" "balance (object_weight ob) s2 = balance (object_weight ob) s"
    using 1 2 by (auto simp: ask_def Let_def confined_def balance_def)
  have run: "confined i s (snd (ctrls_init i (modify_inst i f s2))) \<and>
      named_alike (inst_heap s i) (inst_heap (snd (ctrls_init i (modify_inst i f s2))) i) \<and>
      balance (object_weight ob) (snd (ctrls_init i (modify_inst i f s2))) = balance (object_weight ob) s"
    if "\<And>x. named_alike x (f x)" for f
  proof -
    let ?m = "modify_inst i f s2" and ?t = "snd (ctrls_init i (modify_inst i f s2))"
    have r: "confined i ?m ?t" "balance (object_weight ob) ?t = balance (object_weight ob) ?m"
      "named_alike (inst_heap ?m i) (inst_heap ?t i)"
      using assms(1) by (simp_all add: registers_def named_alike_def Let_def)
    have "confined i s ?m" using s2(2) by (rule confined_steps)
    then show ?thesis
      using r confining.trans that[of "inst_heap s i"] s2 by (auto simp: named_alike_def balance_def)
  qed
  show ?thesis
    using run[OF defaults_named(1)] run[OF defaults_named(2)] s2
    by (auto simp: assms(2) iris_vdec_inst_init_def iris_venc_inst_init_def 1 2 named_alike_def)
qed

lemma tell_effect:
  "inst_heap (tell k s) = inst_heap s" "instances (tell k s) = instances s"
  "balance w (tell k s) = balance w s + w k"
  by (simp_all add: tell_def balance_def)

lemma discard_effect:
  "inst_heap (discard_instance i s) = inst_heap s" "instances (discard_instance i s) = instances s"
  "balance (object_weight ob) (discard_instance i s) =
     balance (object_weight ob) s + (if ob \<in> {File_handle, Core_reference} then - 1 else 0)"
  by (simp_all add: discard_instance_def tell_effect)

lemma add_session_effect:
  "inst_heap (iris_add_session i s) = inst_heap s" "instances (iris_add_session i s) = instances s @ [i]"
  "balance w (iris_add_session i s) = balance w s"
  by (simp_all add: iris_add_session_def balance_def)

lemma setup_effect:
  assumes "registers ctrls_init" "setup_instance ctrls_init i s = (ret, t)"
  shows "(\<forall>j. j \<noteq> i \<longrightarrow> inst_heap t j = inst_heap s j) \<and>
    (if ret = 0 then instances t = instances s @ [i] \<and> named_alike (inst_heap s i) (inst_heap t i)
     else instances t = instances s) \<and>
    balance (object_weight ob) t = balance (object_weight ob) s +
      (if ret = 0 then (if ob \<in> {M2m_device, M2m_context} then 1 else 0)
       else (if ob \<in> {File_handle, Core_reference} then - 1 else 0))"
proof -
  obtain dev s1 where 1: "ask (\<lambda>r. File (M2m_init r)) s = (dev, s1)" by fastforce
  obtain ctx s2 where 2: "ask (\<lambda>r. File (M2m_ctx_init r)) s1 = (ctx, s2)" by fastforce
  obtain r s3 where 3: "(if domain (inst_heap s2 i) = DECODER then iris_vdec_inst_init ctrls_init i s2
      else iris_venc_inst_init ctrls_init i s2) = (r, s3)" by fastforce
  note init = inst_init_effect[OF assms(1) 3[symmetric], of ob, unfolded snd_conv]
  have b1: "balance (object_weight ob) s1 = balance (object_weight ob) s + object_weight ob (File (M2m_init dev))"
    "inst_heap s1 = inst_heap s" "instances s1 = instances s"
    using 1 by (auto simp: ask_def Let_def balance_def)
  have b2: "balance (object_weight ob) s2 = balance (object_weight ob) s1 + object_weight ob (File (M2m_ctx_init ctx))"
    "inst_heap s2 = inst_heap s1" "instances s2 = instances s1"
    using 2 by (auto simp: ask_def Let_def balance_def)
  have e: "setup_instance ctrls_init i s =
     (if dev \<le> 0 then (- EINVAL, discard_instance i s1)
      else if ctx \<le> 0 then (- EINVAL, discard_instance i (tell (File M2m_release) s2))
      else if r \<noteq> 0 then (r, discard_instance i (tell (File M2m_release) (tell (File M2m_ctx_release) s3)))
      else (0, iris_add_session i s3))"
    by (simp only: setup_instance_def 1 2 3 prod.case)
  have "- EINVAL \<noteq> (0 :: int)" by simp
  then show ?thesis
    using assms(2) init b1 b2 unfolding e
    by (auto simp: discard_effect tell_effect add_session_effect confined_def split: if_splits)
qed

definition opened ::
    "(nat \<Rightarrow> u32) \<Rightarrow> domain_type \<Rightarrow> iris_sys \<Rightarrow> nat \<Rightarrow> iris_sys \<Rightarrow> bool" where
  "opened hash32_ptr d s i t \<longleftrightarrow> instances t = instances s @ [i] \<and> domain (inst_heap t i) = d \<and>
     session_id (inst_heap t i) = hash32_ptr i \<and> inst_state (inst_heap t i) = IRIS_INST_DEINIT \<and>
     surface_fences (inst_heap t i) = [] \<and>
     (\<forall>ob. balance (object_weight ob) t = balance (object_weight ob) s + (if ob = Core_reference then 0 else 1))"

lemma open_instance_effect:
  assumes "registers ctrls_init" "open_instance hash32_ptr ctrls_init d s = (r, t)"
  shows "case r of
      Inr i \<Rightarrow> opened hash32_ptr d s i t \<and> (\<forall>j. j \<noteq> i \<longrightarrow> inst_heap t j = inst_heap s j)
    | Inl e \<Rightarrow> instances t = instances s \<and> (\<exists>i. \<forall>j. j \<noteq> i \<longrightarrow> inst_heap t j = inst_heap s j) \<and>
        (\<forall>ob. balance (object_weight ob) t = balance (object_weight ob) s - (if ob = Core_reference then 1 else 0))"
proof -
  obtain p s1 where 1: "iris_hfi_gen1_get_instance s = (p, s1)" by fastforce
  obtain ctx s2 where 2: "ask (\<lambda>r. File (Fence_context_alloc r)) s1 = (ctx, s2)" by fastforce
  define s3 where "s3 = tell (File Fh_init) (modify_inst (nat p) (\<lambda>_. fresh_instance hash32_ptr d (nat p) (word_of_int ctx)) s2)"
  obtain ret t' where 4: "setup_instance ctrls_init (nat p) s3 = (ret, t')" by fastforce
  have s1: "inst_heap s1 = inst_heap s" "instances s1 = instances s" "balance (object_weight ob) s1 = balance (object_weight ob) s" for ob
    using 1 by (auto simp: iris_hfi_gen1_get_instance_def ask_def Let_def balance_def)
  have s2: "inst_heap s2 = inst_heap s" "instances s2 = instances s" "balance (object_weight ob) s2 = balance (object_weight ob) s" for ob
    using 2 s1 by (auto simp: ask_def Let_def balance_def)
  have s3: "instances s3 = instances s" "j \<noteq> nat p \<Longrightarrow> inst_heap s3 j = inst_heap s j"
    "balance (object_weight ob) s3 = balance (object_weight ob) s + (if ob = File_handle then 1 else 0)"
    "inst_heap s3 (nat p) = fresh_instance hash32_ptr d (nat p) (word_of_int ctx)" for j ob
    using s2 by (simp_all add: s3_def balance_def tell_def modify_inst_def)
  have fresh: "domain (inst_heap s3 (nat p)) = d" "session_id (inst_heap s3 (nat p)) = hash32_ptr (nat p)"
    "inst_state (inst_heap s3 (nat p)) = IRIS_INST_DEINIT" "surface_fences (inst_heap s3 (nat p)) = []"
    by (simp_all add: s3 fresh_instance_def)
  note e = setup_effect[OF assms(1) 4]
  show ?thesis
  proof (cases "p = 0")
    case True
    then have "r = Inl (- ENOMEM)" "t = tell (Pm_put_autosuspend Core_dev) s1"
      using assms(2) by (simp_all add: open_instance_def 1)
    then show ?thesis using s1 by (auto simp: balance_def tell_def)
  next
    case False
    then have t: "t = t'" "r = (if ret \<noteq> 0 then Inl ret else Inr (nat p))"
      using assms(2) by (simp_all add: open_instance_def 1 2 Let_def s3_def[symmetric] 4)
    show ?thesis
    proof (cases "ret = 0")
      case True
      then show ?thesis
        using e s3(1,2) fresh t by (simp add: opened_def named_alike_def s3(3)) (metis file_object.exhaust)
    next
      case False
      then show ?thesis
        using e s3 t by (auto intro: exI[of _ "nat p"])
    qed
  qed
qed

lemma pc_resume_stands [core_calls]: "bystander s t \<Longrightarrow> bystands s (iris_pc_resume t)"
  unfolding iris_pc_resume_def iris_pc_exit_def vpu_restart_def Let_def by (intro core_calls)

lemma ready_core_stands [core_calls]: "bystander s t \<Longrightarrow> bystands s (ready_core t)"
  unfolding ready_core_def start_again_def iris_core_recover_def by (intro core_calls)


section \<open>Closing\<close>

text \<open>
  What \<open>v4l2_m2m_ctx_release()\<close> of the framework may do to the session: it stops the queues that
  stream, finishes the buffers the client has not dequeued, and drops its own lists.
\<close>

inductive m2m_released :: "iris_hfi_command_ops \<Rightarrow> nat \<Rightarrow> iris_sys \<Rightarrow> iris_sys \<Rightarrow> bool"
  for ops :: iris_hfi_command_ops and i :: nat where
  nothing: "m2m_released ops i s s"
| stop: "m2m_released ops i (iris_vb2_stop_streaming ops i plane s) t \<Longrightarrow> m2m_released ops i s t"
| finish: "m2m_released ops i (iris_vb2_buf_finish i plane b s) t \<Longrightarrow> m2m_released ops i s t"
| drop: "m2m_released ops i (modify_inst i (\<lambda>x. x\<lparr>m2m_src := [], m2m_dst := []\<rparr>) s) t \<Longrightarrow> m2m_released ops i s t"

text \<open>Destroying the internal buffers leaves what else the session is.\<close>

definition flagged :: "nat \<Rightarrow> iris_sys \<Rightarrow> iris_sys \<Rightarrow> bool" where
  "flagged i s t \<longleftrightarrow> hfi_session_opened (inst_heap t i) = hfi_session_opened (inst_heap s i) \<and>
     core_load_reserved (inst_heap t i) = core_load_reserved (inst_heap s i)"

interpretation flagging: step_relation "flagged i" for i
  by unfold_locales (auto simp: flagged_def)

lemma destroy_both_flags: "flagged i s (destroy_both i s)"
proof -
  have "preserves (flagged i) (iris_destroy_internal_buffer i ty b)" for ty b
    by (simp add: preserves_def flagged_def iris_destroy_internal_buffer_def tell_effect on_internal_def)
  then have "preserves (flagged i) (destroy_of_type i force ty)" for force ty
    unfolding destroy_of_type_def by (rule flagging.for_each)
  then have "flagged i s (snd (iris_destroy_all_internal_buffers i plane s))" for plane s
    unfolding iris_destroy_all_internal_buffers_def iris_destroy_internal_buffers_def
    by (intro flagging.run_all) auto
  then show ?thesis by (auto simp: destroy_both_def intro: flagging.trans)
qed

lemma signal_stands:
  "accounted i T s (iris_surface_fence_signal_all i s) \<and> confined i s (iris_surface_fence_signal_all i s)"
proof -
  have one: "accounted i T s (signal_fence i f s)" "confined i s (signal_fence i f s)" for f s
    by (simp_all add: signal_fence_def iris_surface_fence_complete_def accounted_def manages_def unheld_def
        firmware_keeps_owned_def held_def int_mem_def modify_inst_def tell_effect balance_def confined_def tell_def)
  have "accounted i T s (fold (signal_fence i) l s) \<and> confined i s (fold (signal_fence i) l s)" for l
    by (induction l arbitrary: s)
      (auto intro: accounting.refl confining.refl accounting.trans[OF one(1)] confining.trans[OF one(2)])
  then show ?thesis by (simp add: iris_surface_fence_signal_all_def)
qed

lemma finish_settles: "settles i T s (iris_vb2_buf_finish i plane b s)"
proof -
  have "settles i T s (modify_inst i (\<lambda>x. x\<lparr>dqbuf_crop := buf_crop b, dqbuf_crop_valid := True\<rparr>) s)"
    by (rule settles_modify[OF settling.refl]) (simp add: int_mem_def fun_eq_iff)
  then show ?thesis by (simp add: iris_vb2_buf_finish_def settling.refl)
qed

lemma tell_settles: "settles i T s t \<Longrightarrow> quiet k \<Longrightarrow> settles i T s (tell k t)"
  using touches_settles[OF touches_tell[OF touches_refl]] settling.trans by blast

context firmware_ops
begin

lemma released_settles: "m2m_released ops i s t \<Longrightarrow> settles i T s t"
proof (induction rule: m2m_released.induct)
  case (drop s t)
  have "settles i T s (modify_inst i (\<lambda>x. x\<lparr>m2m_src := [], m2m_dst := []\<rparr>) s)"
    by (rule settles_modify[OF settling.refl]) (simp add: int_mem_def fun_eq_iff)
  then show ?case using drop.IH by (rule settling.trans)
qed (auto intro: settling.refl settling.trans stop_settles finish_settles)

lemma close_session_effect:
  assumes "\<And>s. m2m_released ops i s (release i s)" "firmware_keeps_owned s"
  defines "u \<equiv> close_session ops release i s"
  shows "accounted i T s u \<and> (\<forall>j. j \<noteq> i \<longrightarrow> inst_heap u j = inst_heap s j) \<and> platform u = platform s \<and>
    instances u = remove1 i (instances s) \<and> surface_fences (inst_heap u i) = [] \<and>
    \<not> hfi_session_opened (inst_heap u i) \<and> \<not> core_load_reserved (inst_heap u i) \<and>
    domain (inst_heap u i) = domain (inst_heap s i) \<and>
    (\<forall>ty \<in> managed (platform s) (domain (inst_heap s i)). buf_list (buffers (inst_heap u i) ty) = [])"
proof -
  let ?T = "managed (platform s) (domain (inst_heap s i))"
  define s0 where "s0 = iris_surface_fence_signal_all i s"
  define s2 where "s2 = tell (File M2m_release) (release i (tell (File M2m_ctx_release) (tell (File Ctrl_handler_free) s0)))"
  obtain ret s3 where 3: "iris_hfi_session_close ops i s2 = (ret, s3)" by fastforce
  define s4 where "s4 = tell (File Fh_deinit) s3"
  have u: "u = iris_remove_session i (destroy_both i s4)"
    by (simp add: u_def close_session_def Let_def s0_def[symmetric] s2_def[symmetric] 3 s4_def destroy_both_def)
  note sig = signal_stands[of i _ s, folded s0_def]
  have 02: "settles i T s0 s2" for T
    unfolding s2_def by (intro tell_settles settling.trans[OF _ released_settles[OF assms(1)]] settling.refl quiet_calls)
  have 23: "settles i T s2 s4" for T
    unfolding s4_def using settling.step[OF close_settles 3] by (intro tell_settles quiet_calls)
  have 45: "settles i T s4 (destroy_both i s4)" for T
    unfolding destroy_both_def using destroy_settles[of _ i T]
    by (auto simp: preserves_def intro: settling.trans)
  have all: "settles i T s0 (destroy_both i s4)" for T
    by (rule settling.trans[OF 02 settling.trans[OF 23 45]])
  have c: "confined i s s4" "confined i s (destroy_both i s4)"
    using sig settling.trans[OF 02 23] all by (auto simp: settles_def intro: confining.trans)
  have acc: "accounted i T s (destroy_both i s4)" for T
    using sig all by (auto simp: settles_def intro: accounting.trans)
  have fw0: "firmware_keeps_owned s0"
    using assms(2) sig by (simp add: confined_def firmware_keeps_owned_def)
  have dom: "domain (inst_heap s4 i) = domain (inst_heap s i)" "domain (inst_heap (destroy_both i s4) i) = domain (inst_heap s i)"
    using accounting.trans[of i ?T s s0 s4] sig settling.trans[OF 02 23, of ?T] acc[of ?T] assms(2)
    by (simp_all add: settles_def accounted_def manages_def)
  have tab: "accounted i T s u" "inst_heap u = inst_heap (destroy_both i s4)" "platform u = platform s"
    "instances u = remove1 i (instances s)"
    using c(2) acc[of T] accounting.trans[OF acc[of T] accounted_same[of u "destroy_both i s4" i T]]
    by (auto simp: u iris_remove_session_def confined_def)
  have fences: "surface_fences (inst_heap u i) = []"
    using all[of "{}"] fw0 signal_all_books[of i s] by (simp add: tab(2) settles_def s0_def)
  have keeps: "hfi_session_opened (inst_heap (destroy_both i s4) i) = hfi_session_opened (inst_heap s4 i)"
    "core_load_reserved (inst_heap (destroy_both i s4) i) = core_load_reserved (inst_heap s4 i)"
    using destroy_both_flags[of i s4] by (simp_all add: flagged_def)
  have "inst_heap s4 = inst_heap s3" by (simp add: s4_def tell_effect)
  then have closed: "\<not> hfi_session_opened (inst_heap u i)" "\<not> core_load_reserved (inst_heap u i)"
    using session_close_slot[OF 3] keeps by (simp_all add: tab(2))
  have "platform s4 = platform s" using c(1) by (simp add: confined_def)
  then show ?thesis
    using tab c(2) fences closed dom destroy_both_lists[of i s4] by (auto simp: confined_def)
qed

end


definition one_client :: iris_sys where
  "one_client = two_clients\<lparr>instances := [0]\<rparr>"


text \<open>A session that streams on neither plane, with one internal buffer and one fence.\<close>

definition busy_client :: iris_sys where
  "busy_client = modify_inst 0 (\<lambda>x. x\<lparr>surface_fences := [\<lparr>fence_token = 7, fence_seqno = 1\<rparr>],
     buffers := (buffers x)(BUF_BIN := \<lparr>buf_list = [zero_buffer\<lparr>kvaddr := 1, buffer_size := 4096\<rparr>],
       min_count = 1, buf_size = 4096\<rparr>)\<rparr>) two_clients"

definition stop_both :: "nat \<Rightarrow> iris_sys \<Rightarrow> iris_sys" where
  "stop_both i s = iris_vb2_stop_streaming gen1_ops i CAPTURE_MPLANE (iris_vb2_stop_streaming gen1_ops i OUTPUT_MPLANE s)"


end
