(* ===== verification/IrisGen2Defs.thy ===== *)
theory IrisGen2Defs
  imports IrisPrelude
begin

text \<open>
  The numbers of the Gen2 firmware interface (\<open>iris_hfi_gen2_defines.h\<close>, and the payload kinds,
  packet flags and colour descriptions of \<open>iris_hfi_common.h\<close>) under the names of the headers.
\<close>

abbreviation (input) HFI_VIDEO_ARCH_LX :: u32 where "HFI_VIDEO_ARCH_LX \<equiv> 0x1"
abbreviation (input) HFI_CMD_BEGIN :: u32 where "HFI_CMD_BEGIN \<equiv> 0x01000000"
abbreviation (input) HFI_CMD_INIT :: u32 where "HFI_CMD_INIT \<equiv> 0x01000001"
abbreviation (input) HFI_CMD_POWER_COLLAPSE :: u32 where
  "HFI_CMD_POWER_COLLAPSE \<equiv> 0x01000002"
abbreviation (input) HFI_CMD_OPEN :: u32 where "HFI_CMD_OPEN \<equiv> 0x01000003"
abbreviation (input) HFI_CMD_CLOSE :: u32 where "HFI_CMD_CLOSE \<equiv> 0x01000004"
abbreviation (input) HFI_CMD_START :: u32 where "HFI_CMD_START \<equiv> 0x01000005"
abbreviation (input) HFI_CMD_STOP :: u32 where "HFI_CMD_STOP \<equiv> 0x01000006"
abbreviation (input) HFI_CMD_DRAIN :: u32 where "HFI_CMD_DRAIN \<equiv> 0x01000007"
abbreviation (input) HFI_CMD_RESUME :: u32 where "HFI_CMD_RESUME \<equiv> 0x01000008"
abbreviation (input) HFI_CMD_BUFFER :: u32 where "HFI_CMD_BUFFER \<equiv> 0x01000009"
abbreviation (input) HFI_CMD_SUBSCRIBE_MODE :: u32 where
  "HFI_CMD_SUBSCRIBE_MODE \<equiv> 0x0100000B"
abbreviation (input) HFI_CMD_SETTINGS_CHANGE :: u32 where
  "HFI_CMD_SETTINGS_CHANGE \<equiv> 0x0100000C"
abbreviation (input) HFI_CMD_PAUSE :: u32 where "HFI_CMD_PAUSE \<equiv> 0x01000011"
abbreviation (input) HFI_CMD_END :: u32 where "HFI_CMD_END \<equiv> 0x01FFFFFF"
abbreviation (input) HFI_BITMASK_BITSTREAM_WIDTH :: u32 where
  "HFI_BITMASK_BITSTREAM_WIDTH \<equiv> 0xffff0000"
abbreviation (input) HFI_BITMASK_BITSTREAM_HEIGHT :: u32 where
  "HFI_BITMASK_BITSTREAM_HEIGHT \<equiv> 0x0000ffff"
abbreviation (input) HFI_BITMASK_FRAME_MBS_ONLY_FLAG :: u32 where
  "HFI_BITMASK_FRAME_MBS_ONLY_FLAG \<equiv> 0x00000001"
abbreviation (input) HFI_PROP_BEGIN :: u32 where "HFI_PROP_BEGIN \<equiv> 0x03000000"
abbreviation (input) HFI_PROP_IMAGE_VERSION :: u32 where
  "HFI_PROP_IMAGE_VERSION \<equiv> 0x03000001"
abbreviation (input) HFI_PROP_INTRA_FRAME_POWER_COLLAPSE :: u32 where
  "HFI_PROP_INTRA_FRAME_POWER_COLLAPSE \<equiv> 0x03000002"
abbreviation (input) HFI_PROP_UBWC_MAX_CHANNELS :: u32 where
  "HFI_PROP_UBWC_MAX_CHANNELS \<equiv> 0x03000003"
abbreviation (input) HFI_PROP_UBWC_MAL_LENGTH :: u32 where
  "HFI_PROP_UBWC_MAL_LENGTH \<equiv> 0x03000004"
abbreviation (input) HFI_PROP_UBWC_HBB :: u32 where "HFI_PROP_UBWC_HBB \<equiv> 0x03000005"
abbreviation (input) HFI_PROP_UBWC_BANK_SWZL_LEVEL1 :: u32 where
  "HFI_PROP_UBWC_BANK_SWZL_LEVEL1 \<equiv> 0x03000006"
abbreviation (input) HFI_PROP_UBWC_BANK_SWZL_LEVEL2 :: u32 where
  "HFI_PROP_UBWC_BANK_SWZL_LEVEL2 \<equiv> 0x03000007"
abbreviation (input) HFI_PROP_UBWC_BANK_SWZL_LEVEL3 :: u32 where
  "HFI_PROP_UBWC_BANK_SWZL_LEVEL3 \<equiv> 0x03000008"
abbreviation (input) HFI_PROP_UBWC_BANK_SPREADING :: u32 where
  "HFI_PROP_UBWC_BANK_SPREADING \<equiv> 0x03000009"
abbreviation (input) HFI_PROP_CODEC :: u32 where "HFI_PROP_CODEC \<equiv> 0x03000100"
abbreviation (input) HFI_PROP_COLOR_FORMAT :: u32 where "HFI_PROP_COLOR_FORMAT \<equiv> 0x03000101"
abbreviation (input) HFI_PROP_BITSTREAM_RESOLUTION :: u32 where
  "HFI_PROP_BITSTREAM_RESOLUTION \<equiv> 0x03000103"
abbreviation (input) HFI_PROP_LINEAR_STRIDE_SCANLINE :: u32 where
  "HFI_PROP_LINEAR_STRIDE_SCANLINE \<equiv> 0x03000104"
abbreviation (input) HFI_PROP_CROP_OFFSETS :: u32 where "HFI_PROP_CROP_OFFSETS \<equiv> 0x03000105"
abbreviation (input) HFI_PROP_PROFILE :: u32 where "HFI_PROP_PROFILE \<equiv> 0x03000107"
abbreviation (input) HFI_PROP_LEVEL :: u32 where "HFI_PROP_LEVEL \<equiv> 0x03000108"
abbreviation (input) HFI_PROP_TIER :: u32 where "HFI_PROP_TIER \<equiv> 0x03000109"
abbreviation (input) HFI_PROP_STAGE :: u32 where "HFI_PROP_STAGE \<equiv> 0x0300010a"
abbreviation (input) HFI_PROP_PIPE :: u32 where "HFI_PROP_PIPE \<equiv> 0x0300010b"
abbreviation (input) HFI_PROP_FRAME_RATE :: u32 where "HFI_PROP_FRAME_RATE \<equiv> 0x0300010c"
abbreviation (input) HFI_PROP_LUMA_CHROMA_BIT_DEPTH :: u32 where
  "HFI_PROP_LUMA_CHROMA_BIT_DEPTH \<equiv> 0x0300010f"
abbreviation (input) HFI_PROP_CODED_FRAMES :: u32 where "HFI_PROP_CODED_FRAMES \<equiv> 0x03000120"
abbreviation (input) HFI_PROP_CABAC_SESSION :: u32 where
  "HFI_PROP_CABAC_SESSION \<equiv> 0x03000121"
abbreviation (input) HFI_PROP_BUFFER_HOST_MAX_COUNT :: u32 where
  "HFI_PROP_BUFFER_HOST_MAX_COUNT \<equiv> 0x03000123"
abbreviation (input) HFI_PROP_BUFFER_FW_MIN_OUTPUT_COUNT :: u32 where
  "HFI_PROP_BUFFER_FW_MIN_OUTPUT_COUNT \<equiv> 0x03000124"
abbreviation (input) HFI_PROP_PIC_ORDER_CNT_TYPE :: u32 where
  "HFI_PROP_PIC_ORDER_CNT_TYPE \<equiv> 0x03000128"
abbreviation (input) HFI_RC_LOSSLESS :: u32 where "HFI_RC_LOSSLESS \<equiv> 0x00000005"
abbreviation (input) HFI_PROP_RATE_CONTROL :: u32 where "HFI_PROP_RATE_CONTROL \<equiv> 0x0300012a"
abbreviation (input) HFI_PROP_QP_PACKED :: u32 where "HFI_PROP_QP_PACKED \<equiv> 0x0300012e"
abbreviation (input) HFI_PROP_MIN_QP_PACKED :: u32 where
  "HFI_PROP_MIN_QP_PACKED \<equiv> 0x0300012f"
abbreviation (input) HFI_PROP_MAX_QP_PACKED :: u32 where
  "HFI_PROP_MAX_QP_PACKED \<equiv> 0x03000130"
abbreviation (input) HFI_PROP_TOTAL_BITRATE :: u32 where
  "HFI_PROP_TOTAL_BITRATE \<equiv> 0x0300013b"
abbreviation (input) HFI_PROP_MAX_GOP_FRAMES :: u32 where
  "HFI_PROP_MAX_GOP_FRAMES \<equiv> 0x03000146"
abbreviation (input) HFI_PROP_MAX_B_FRAMES :: u32 where "HFI_PROP_MAX_B_FRAMES \<equiv> 0x03000147"
abbreviation (input) HFI_PROP_QUALITY_MODE :: u32 where "HFI_PROP_QUALITY_MODE \<equiv> 0x03000148"
abbreviation (input) HFI_SEQ_HEADER_METADATA :: u32 where
  "HFI_SEQ_HEADER_METADATA \<equiv> 0x00000008"
abbreviation (input) HFI_PROP_SEQ_HEADER_MODE :: u32 where
  "HFI_PROP_SEQ_HEADER_MODE \<equiv> 0x03000149"
abbreviation (input) HFI_PROP_SIGNAL_COLOR_INFO :: u32 where
  "HFI_PROP_SIGNAL_COLOR_INFO \<equiv> 0x03000155"
abbreviation (input) HFI_PROP_PICTURE_TYPE :: u32 where "HFI_PROP_PICTURE_TYPE \<equiv> 0x03000162"
abbreviation (input) HFI_PROP_DEC_DEFAULT_HEADER :: u32 where
  "HFI_PROP_DEC_DEFAULT_HEADER \<equiv> 0x03000168"
abbreviation (input) HFI_PROP_DEC_START_FROM_RAP_FRAME :: u32 where
  "HFI_PROP_DEC_START_FROM_RAP_FRAME \<equiv> 0x03000169"
abbreviation (input) HFI_PROP_NO_OUTPUT :: u32 where "HFI_PROP_NO_OUTPUT \<equiv> 0x0300016a"
abbreviation (input) HFI_PROP_BUFFER_MARK :: u32 where "HFI_PROP_BUFFER_MARK \<equiv> 0x0300016c"
abbreviation (input) HFI_PROP_RAW_RESOLUTION :: u32 where
  "HFI_PROP_RAW_RESOLUTION \<equiv> 0x03000178"
abbreviation (input) HFI_PROP_TOTAL_PEAK_BITRATE :: u32 where
  "HFI_PROP_TOTAL_PEAK_BITRATE \<equiv> 0x0300017C"
abbreviation (input) HFI_PROP_COMV_BUFFER_COUNT :: u32 where
  "HFI_PROP_COMV_BUFFER_COUNT \<equiv> 0x03000193"
abbreviation (input) HFI_PROP_END :: u32 where "HFI_PROP_END \<equiv> 0x03FFFFFF"
abbreviation (input) HFI_SESSION_ERROR_BEGIN :: u32 where
  "HFI_SESSION_ERROR_BEGIN \<equiv> 0x04000000"
abbreviation (input) HFI_ERROR_UNKNOWN_SESSION :: u32 where
  "HFI_ERROR_UNKNOWN_SESSION \<equiv> 0x04000001"
abbreviation (input) HFI_ERROR_MAX_SESSIONS :: u32 where
  "HFI_ERROR_MAX_SESSIONS \<equiv> 0x04000002"
abbreviation (input) HFI_ERROR_FATAL :: u32 where "HFI_ERROR_FATAL \<equiv> 0x04000003"
abbreviation (input) HFI_ERROR_INVALID_STATE :: u32 where
  "HFI_ERROR_INVALID_STATE \<equiv> 0x04000004"
abbreviation (input) HFI_ERROR_INSUFFICIENT_RESOURCES :: u32 where
  "HFI_ERROR_INSUFFICIENT_RESOURCES \<equiv> 0x04000005"
abbreviation (input) HFI_ERROR_BUFFER_NOT_SET :: u32 where
  "HFI_ERROR_BUFFER_NOT_SET \<equiv> 0x04000006"
abbreviation (input) HFI_ERROR_STREAM_UNSUPPORTED :: u32 where
  "HFI_ERROR_STREAM_UNSUPPORTED \<equiv> 0x04000008"
abbreviation (input) HFI_SESSION_ERROR_END :: u32 where "HFI_SESSION_ERROR_END \<equiv> 0x04FFFFFF"
abbreviation (input) HFI_SYSTEM_ERROR_BEGIN :: u32 where
  "HFI_SYSTEM_ERROR_BEGIN \<equiv> 0x05000000"
abbreviation (input) HFI_SYS_ERROR_WD_TIMEOUT :: u32 where
  "HFI_SYS_ERROR_WD_TIMEOUT \<equiv> 0x05000001"
abbreviation (input) HFI_SYSTEM_ERROR_END :: u32 where "HFI_SYSTEM_ERROR_END \<equiv> 0x05FFFFFF"
abbreviation (input) HFI_INFORMATION_BEGIN :: u32 where "HFI_INFORMATION_BEGIN \<equiv> 0x06000000"
abbreviation (input) HFI_INFO_UNSUPPORTED :: u32 where "HFI_INFO_UNSUPPORTED \<equiv> 0x06000001"
abbreviation (input) HFI_INFO_DATA_CORRUPT :: u32 where "HFI_INFO_DATA_CORRUPT \<equiv> 0x06000002"
abbreviation (input) HFI_INFO_BUFFER_OVERFLOW :: u32 where
  "HFI_INFO_BUFFER_OVERFLOW \<equiv> 0x06000004"
abbreviation (input) HFI_INFO_HFI_FLAG_DRAIN_LAST :: u32 where
  "HFI_INFO_HFI_FLAG_DRAIN_LAST \<equiv> 0x06000006"
abbreviation (input) HFI_INFO_HFI_FLAG_PSC_LAST :: u32 where
  "HFI_INFO_HFI_FLAG_PSC_LAST \<equiv> 0x06000007"
abbreviation (input) HFI_INFORMATION_END :: u32 where "HFI_INFORMATION_END \<equiv> 0x06FFFFFF"
abbreviation (input) HFI_MODE_PORT_SETTINGS_CHANGE :: u32 where
  "HFI_MODE_PORT_SETTINGS_CHANGE \<equiv> 0x00000001"
abbreviation (input) HFI_MODE_PROPERTY :: u32 where "HFI_MODE_PROPERTY \<equiv> 0x00000002"
abbreviation (input) HFI_COLOR_FMT_OPAQUE :: u32 where "HFI_COLOR_FMT_OPAQUE \<equiv> 0"
abbreviation (input) HFI_COLOR_FMT_NV12 :: u32 where "HFI_COLOR_FMT_NV12 \<equiv> 1"
abbreviation (input) HFI_COLOR_FMT_NV12_UBWC :: u32 where "HFI_COLOR_FMT_NV12_UBWC \<equiv> 2"
abbreviation (input) HFI_COLOR_FMT_P010 :: u32 where "HFI_COLOR_FMT_P010 \<equiv> 3"
abbreviation (input) HFI_COLOR_FMT_TP10_UBWC :: u32 where "HFI_COLOR_FMT_TP10_UBWC \<equiv> 4"
abbreviation (input) HFI_COLOR_FMT_RGBA8888 :: u32 where "HFI_COLOR_FMT_RGBA8888 \<equiv> 5"
abbreviation (input) HFI_COLOR_FMT_RGBA8888_UBWC :: u32 where
  "HFI_COLOR_FMT_RGBA8888_UBWC \<equiv> 6"
abbreviation (input) HFI_COLOR_FMT_NV21 :: u32 where "HFI_COLOR_FMT_NV21 \<equiv> 7"
abbreviation (input) HFI_CODEC_DECODE_AVC :: u32 where "HFI_CODEC_DECODE_AVC \<equiv> 1"
abbreviation (input) HFI_CODEC_DECODE_HEVC :: u32 where "HFI_CODEC_DECODE_HEVC \<equiv> 3"
abbreviation (input) HFI_CODEC_DECODE_VP9 :: u32 where "HFI_CODEC_DECODE_VP9 \<equiv> 5"
abbreviation (input) HFI_GEN2_PICTURE_IDR :: u32 where "HFI_GEN2_PICTURE_IDR \<equiv> 0x00000001"
abbreviation (input) HFI_GEN2_PICTURE_P :: u32 where "HFI_GEN2_PICTURE_P \<equiv> 0x00000002"
abbreviation (input) HFI_GEN2_PICTURE_B :: u32 where "HFI_GEN2_PICTURE_B \<equiv> 0x00000004"
abbreviation (input) HFI_GEN2_PICTURE_I :: u32 where "HFI_GEN2_PICTURE_I \<equiv> 0x00000008"
abbreviation (input) HFI_GEN2_PICTURE_CRA :: u32 where "HFI_GEN2_PICTURE_CRA \<equiv> 0x00000010"
abbreviation (input) HFI_GEN2_PICTURE_BLA :: u32 where "HFI_GEN2_PICTURE_BLA \<equiv> 0x00000020"
abbreviation (input) HFI_GEN2_PICTURE_NOSHOW :: u32 where
  "HFI_GEN2_PICTURE_NOSHOW \<equiv> 0x00000040"
abbreviation (input) HFI_BUFFER_BITSTREAM :: u32 where "HFI_BUFFER_BITSTREAM \<equiv> 0x00000001"
abbreviation (input) HFI_BUFFER_RAW :: u32 where "HFI_BUFFER_RAW \<equiv> 0x00000002"
abbreviation (input) HFI_BUFFER_METADATA :: u32 where "HFI_BUFFER_METADATA \<equiv> 0x00000003"
abbreviation (input) HFI_BUFFER_SUBCACHE :: u32 where "HFI_BUFFER_SUBCACHE \<equiv> 0x00000004"
abbreviation (input) HFI_BUFFER_PARTIAL_DATA :: u32 where
  "HFI_BUFFER_PARTIAL_DATA \<equiv> 0x00000005"
abbreviation (input) HFI_BUFFER_DPB :: u32 where "HFI_BUFFER_DPB \<equiv> 0x00000006"
abbreviation (input) HFI_BUFFER_BIN :: u32 where "HFI_BUFFER_BIN \<equiv> 0x00000007"
abbreviation (input) HFI_BUFFER_LINE :: u32 where "HFI_BUFFER_LINE \<equiv> 0x00000008"
abbreviation (input) HFI_BUFFER_ARP :: u32 where "HFI_BUFFER_ARP \<equiv> 0x00000009"
abbreviation (input) HFI_BUFFER_COMV :: u32 where "HFI_BUFFER_COMV \<equiv> 0x0000000A"
abbreviation (input) HFI_BUFFER_NON_COMV :: u32 where "HFI_BUFFER_NON_COMV \<equiv> 0x0000000B"
abbreviation (input) HFI_BUFFER_PERSIST :: u32 where "HFI_BUFFER_PERSIST \<equiv> 0x0000000C"
abbreviation (input) HFI_BUFFER_VPSS :: u32 where "HFI_BUFFER_VPSS \<equiv> 0x0000000D"
abbreviation (input) HFI_BUF_HOST_FLAG_RELEASE :: u32 where
  "HFI_BUF_HOST_FLAG_RELEASE \<equiv> 0x00000001"
abbreviation (input) HFI_BUF_HOST_FLAG_READONLY :: u32 where
  "HFI_BUF_HOST_FLAG_READONLY \<equiv> 0x00000010"
abbreviation (input) HFI_BUF_HOST_FLAG_CODEC_CONFIG :: u32 where
  "HFI_BUF_HOST_FLAG_CODEC_CONFIG \<equiv> 0x00000100"
abbreviation (input) HFI_BUF_HOST_FLAGS_CB_NON_SECURE :: u32 where
  "HFI_BUF_HOST_FLAGS_CB_NON_SECURE \<equiv> 0x00000200"
abbreviation (input) HFI_BUF_FW_FLAG_RELEASE_DONE :: u32 where
  "HFI_BUF_FW_FLAG_RELEASE_DONE \<equiv> 0x00000001"
abbreviation (input) HFI_BUF_FW_FLAG_READONLY :: u32 where
  "HFI_BUF_FW_FLAG_READONLY \<equiv> 0x00000010"
abbreviation (input) HFI_BUF_FW_FLAG_LAST :: u32 where "HFI_BUF_FW_FLAG_LAST \<equiv> 0x10000000"
abbreviation (input) HFI_BUF_FW_FLAG_PSC_LAST :: u32 where
  "HFI_BUF_FW_FLAG_PSC_LAST \<equiv> 0x20000000"
abbreviation (input) HFI_FW_FLAGS_SUCCESS :: u32 where "HFI_FW_FLAGS_SUCCESS \<equiv> 0x00000001"
abbreviation (input) HFI_FW_FLAGS_INFORMATION :: u32 where
  "HFI_FW_FLAGS_INFORMATION \<equiv> 0x00000002"
abbreviation (input) HFI_FW_FLAGS_SESSION_ERROR :: u32 where
  "HFI_FW_FLAGS_SESSION_ERROR \<equiv> 0x00000004"
abbreviation (input) HFI_FW_FLAGS_SYSTEM_ERROR :: u32 where
  "HFI_FW_FLAGS_SYSTEM_ERROR \<equiv> 0x00000008"

abbreviation (input) HFI_PAYLOAD_NONE :: u32 where "HFI_PAYLOAD_NONE \<equiv> 0"
abbreviation (input) HFI_PAYLOAD_S32 :: u32 where "HFI_PAYLOAD_S32 \<equiv> 2"
abbreviation (input) HFI_PAYLOAD_U64 :: u32 where "HFI_PAYLOAD_U64 \<equiv> 3"
abbreviation (input) HFI_PAYLOAD_S64 :: u32 where "HFI_PAYLOAD_S64 \<equiv> 4"
abbreviation (input) HFI_PAYLOAD_STRUCTURE :: u32 where "HFI_PAYLOAD_STRUCTURE \<equiv> 5"
abbreviation (input) HFI_PAYLOAD_Q16 :: u32 where "HFI_PAYLOAD_Q16 \<equiv> 8"
abbreviation (input) HFI_PAYLOAD_U32_ARRAY :: u32 where "HFI_PAYLOAD_U32_ARRAY \<equiv> 11"
abbreviation (input) HFI_PAYLOAD_64_PACKED :: u32 where "HFI_PAYLOAD_64_PACKED \<equiv> 13"
abbreviation (input) HFI_HOST_FLAGS_INTR_REQUIRED :: u32 where "HFI_HOST_FLAGS_INTR_REQUIRED \<equiv> 1"
abbreviation (input) HFI_HOST_FLAGS_RESPONSE_REQUIRED :: u32 where "HFI_HOST_FLAGS_RESPONSE_REQUIRED \<equiv> 2"
abbreviation (input) HFI_HOST_FLAGS_NON_DISCARDABLE :: u32 where "HFI_HOST_FLAGS_NON_DISCARDABLE \<equiv> 4"
abbreviation (input) HFI_HOST_FLAGS_GET_PROPERTY :: u32 where "HFI_HOST_FLAGS_GET_PROPERTY \<equiv> 8"

end
