(* ===== verification/IrisGen2Cmd.thy ===== *)
theory IrisGen2Cmd
  imports IrisGen2Defs IrisGen1Cmd IrisCtrls
begin

text \<open>
  The commands of the Gen2 firmware interface (\<open>iris_hfi_gen2_packet.c\<close>,
  \<open>iris_hfi_gen2_command.c\<close>). A message is a header of eight words and the packets behind it,
  each with a header of eight words of its own; every message of a session is built in the
  session's one packet buffer of 4 KiB, which \<open>session_open\<close> allocates. A packet is its
  words; the payload sizes of the driver are all multiples of four bytes.
\<close>

section \<open>Colour descriptions\<close>

fun iris_hfi_gen2_get_color_primaries :: "u32 \<Rightarrow> u32" where
  "iris_hfi_gen2_get_color_primaries p =
     (if p = 0 then 0 else if p = 3 then 1 else if p = 5 then 4 else if p = 6 then 5
      else if p = 1 then 6 else if p = 2 then 7 else if p = 10 then 9 else if p = 12 then 11 else 0)"

fun iris_hfi_gen2_get_transfer_char :: "u32 \<Rightarrow> u32" where
  "iris_hfi_gen2_get_transfer_char c =
     (if c = 0 then 0 else if c = 1 then 1 else if c = 4 then 7 else if c = 2 then 13
      else if c = 7 then 16 else 0)"

fun iris_hfi_gen2_get_matrix_coefficients :: "u32 \<Rightarrow> u32" where
  "iris_hfi_gen2_get_matrix_coefficients c =
     (if c = 0 then 3 else if c = 2 then 1 else if c = 4 then 1 else if c = 3 then 5
      else if c = 1 then 6 else if c = 8 then 7 else if c = 6 then 9 else if c = 7 then 10 else 3)"

definition iris_hfi_gen2_get_color_info :: "u32 \<Rightarrow> u32 \<Rightarrow> u32 \<Rightarrow> u32 \<Rightarrow> u32 \<Rightarrow> u32 \<Rightarrow> u32 \<Rightarrow> u32" where
  "iris_hfi_gen2_get_color_info matrix_coeff transfer_char primaries
     colour_description_present_flag full_range video_format video_signal_type_present_flag =
     (matrix_coeff AND 0xFF) OR
     (push_bit 8 transfer_char AND 0xFF00) OR
     (push_bit 16 primaries AND 0xFF0000) OR
     (push_bit 24 colour_description_present_flag AND 0x1000000) OR
     (push_bit 25 full_range AND 0x2000000) OR
     (push_bit 26 video_format AND 0x1C000000) OR
     (push_bit 29 video_signal_type_present_flag AND 0x20000000)"

section \<open>Building a message\<close>

definition iris_hfi_gen2_create_header :: "u32 \<Rightarrow> u32 \<Rightarrow> u32 list" where
  "iris_hfi_gen2_create_header sid hid = [32, sid, hid, 0, 0, 0, 0, 0]"

text \<open>The packet goes to the end the header announces; the count and the size follow it.\<close>

definition packet_of :: "u32 \<Rightarrow> u32 \<Rightarrow> u32 \<Rightarrow> u32 \<Rightarrow> u32 \<Rightarrow> u32 list \<Rightarrow> u32 list" where
  "packet_of pkt_type pkt_flags payload_type port pid p =
     [32 + 4 * word_of_nat (length p), pkt_type, pkt_flags, payload_type, port, pid, 0, 0] @ p"

definition iris_hfi_gen2_create_packet ::
    "u32 \<Rightarrow> u32 \<Rightarrow> u32 \<Rightarrow> u32 \<Rightarrow> u32 \<Rightarrow> u32 list \<Rightarrow> u32 list \<Rightarrow> u32 list" where
  "iris_hfi_gen2_create_packet pkt_type pkt_flags payload_type port pid p hdr =
     (let pkt = packet_of pkt_type pkt_flags payload_type port pid p
      in hdr[0 := hd hdr + hd pkt, 7 := hdr ! 7 + 1] @ pkt)"

text \<open>\<open>core->header_id++\<close> and \<open>core->packet_id++\<close>: the number used, and the next.\<close>

definition next_header :: "iris_sys \<Rightarrow> u32 \<times> iris_sys" where
  "next_header s = (header_id s, s\<lparr>header_id := header_id s + 1\<rparr>)"

definition next_packet :: "iris_sys \<Rightarrow> u32 \<times> iris_sys" where
  "next_packet s = (packet_id s, s\<lparr>packet_id := packet_id s + 1\<rparr>)"

type_synonym packet_spec = "u32 \<times> u32 \<times> u32 \<times> u32 \<times> u32 list"

definition add_packet :: "packet_spec \<Rightarrow> u32 list \<times> iris_sys \<Rightarrow> u32 list \<times> iris_sys" where
  "add_packet sp m =
     (case sp of (ty, flags, info, port, p) \<Rightarrow> case m of (hdr, s) \<Rightarrow> case next_packet s of (pid, s1) \<Rightarrow>
      (iris_hfi_gen2_create_packet ty flags info port pid p hdr, s1))"

definition message :: "u32 \<Rightarrow> packet_spec list \<Rightarrow> iris_sys \<Rightarrow> u32 list \<times> iris_sys" where
  "message sid sps s =
     (case next_header s of (hid, s1) \<Rightarrow> fold add_packet sps (iris_hfi_gen2_create_header sid hid, s1))"

definition iris_hfi_gen2_packet_sys_init :: "iris_sys \<Rightarrow> u32 list \<times> iris_sys" where
  "iris_hfi_gen2_packet_sys_init s =
     (let u = ubwc_config (platform s);
          prop = (\<lambda>ty v. (ty, HFI_HOST_FLAGS_NONE, HFI_PAYLOAD_U32, HFI_PORT_NONE, [v]))
      in message 0
        [(HFI_CMD_INIT, HFI_HOST_FLAGS_RESPONSE_REQUIRED OR HFI_HOST_FLAGS_INTR_REQUIRED OR
            HFI_HOST_FLAGS_NON_DISCARDABLE, HFI_PAYLOAD_U32, HFI_PORT_NONE, [HFI_VIDEO_ARCH_LX]),
         prop HFI_PROP_UBWC_MAX_CHANNELS (max_channels u),
         prop HFI_PROP_UBWC_MAL_LENGTH (mal_length u),
         prop HFI_PROP_UBWC_HBB (highest_bank_bit u),
         prop HFI_PROP_UBWC_BANK_SWZL_LEVEL1 (bank_swzl_level u),
         prop HFI_PROP_UBWC_BANK_SWZL_LEVEL2 (bank_swz2_level u),
         prop HFI_PROP_UBWC_BANK_SWZL_LEVEL3 (bank_swz3_level u),
         prop HFI_PROP_UBWC_BANK_SPREADING (bank_spreading u)] s)"

definition iris_hfi_gen2_packet_image_version :: "iris_sys \<Rightarrow> u32 list \<times> iris_sys" where
  "iris_hfi_gen2_packet_image_version =
     message 0 [(HFI_PROP_IMAGE_VERSION, HFI_HOST_FLAGS_RESPONSE_REQUIRED OR HFI_HOST_FLAGS_INTR_REQUIRED OR
       HFI_HOST_FLAGS_GET_PROPERTY, HFI_PAYLOAD_NONE, HFI_PORT_NONE, [])]"

definition iris_hfi_gen2_packet_session_command ::
    "u32 \<Rightarrow> u32 \<Rightarrow> u32 \<Rightarrow> u32 \<Rightarrow> u32 \<Rightarrow> u32 list \<Rightarrow> iris_sys \<Rightarrow> u32 list \<times> iris_sys" where
  "iris_hfi_gen2_packet_session_command pkt_type flags port sid payload_type p =
     message sid [(pkt_type, flags, payload_type, port, p)]"

definition iris_hfi_gen2_packet_session_property ::
    "nat \<Rightarrow> u32 \<Rightarrow> u32 \<Rightarrow> u32 \<Rightarrow> u32 \<Rightarrow> u32 list \<Rightarrow> iris_sys \<Rightarrow> u32 list \<times> iris_sys" where
  "iris_hfi_gen2_packet_session_property i pkt_type flags port payload_type p s =
     message (session_id (inst_heap s i)) [(pkt_type, flags, payload_type, port, p)] s"

definition iris_hfi_gen2_packet_sys_interframe_powercollapse :: "iris_sys \<Rightarrow> u32 list \<times> iris_sys" where
  "iris_hfi_gen2_packet_sys_interframe_powercollapse =
     message 0 [(HFI_PROP_INTRA_FRAME_POWER_COLLAPSE, HFI_HOST_FLAGS_NONE, HFI_PAYLOAD_U32, HFI_PORT_NONE, [1])]"

definition iris_hfi_gen2_packet_sys_pc_prep :: "iris_sys \<Rightarrow> u32 list \<times> iris_sys" where
  "iris_hfi_gen2_packet_sys_pc_prep =
     message 0 [(HFI_CMD_POWER_COLLAPSE, HFI_HOST_FLAGS_NONE, HFI_PAYLOAD_NONE, HFI_PORT_NONE, [])]"

section \<open>System commands\<close>

text \<open>
  A message built in an allocation of \<open>n\<close> bytes. One that is longer is built, and sent, past
  its end: the event \<open>Oops\<close>.
\<close>

definition send_system :: "nat \<Rightarrow> (iris_sys \<Rightarrow> u32 list \<times> iris_sys) \<Rightarrow> iris_sys \<Rightarrow> int \<times> iris_sys" where
  "send_system n build =
     kzalloc (\<lambda>s. case build s of (ws, s1) \<Rightarrow>
       and_then (run (if n < 4 * length ws then tell Oops else id)) (send_locked ws) s1)"

definition NUM_SYS_INIT_PACKETS :: nat where "NUM_SYS_INIT_PACKETS = 8"
definition SYS_INIT_PKT_SIZE :: nat where "SYS_INIT_PKT_SIZE = 32 + NUM_SYS_INIT_PACKETS * (32 + 4)"
definition SYS_IFPC_PKT_SIZE :: nat where "SYS_IFPC_PKT_SIZE = 32 + 32 + 4"
definition SYS_NO_PAYLOAD_PKT_SIZE :: nat where "SYS_NO_PAYLOAD_PKT_SIZE = 32 + 32"

definition iris_hfi_gen2_sys_init :: "iris_sys \<Rightarrow> int \<times> iris_sys" where
  "iris_hfi_gen2_sys_init = send_system SYS_INIT_PKT_SIZE iris_hfi_gen2_packet_sys_init"

definition iris_hfi_gen2_sys_image_version :: "iris_sys \<Rightarrow> int \<times> iris_sys" where
  "iris_hfi_gen2_sys_image_version = send_system SYS_NO_PAYLOAD_PKT_SIZE iris_hfi_gen2_packet_image_version"

definition iris_hfi_gen2_sys_interframe_powercollapse :: "iris_sys \<Rightarrow> int \<times> iris_sys" where
  "iris_hfi_gen2_sys_interframe_powercollapse =
     send_system SYS_IFPC_PKT_SIZE iris_hfi_gen2_packet_sys_interframe_powercollapse"

definition iris_hfi_gen2_sys_pc_prep :: "iris_sys \<Rightarrow> int \<times> iris_sys" where
  "iris_hfi_gen2_sys_pc_prep = send_system SYS_NO_PAYLOAD_PKT_SIZE iris_hfi_gen2_packet_sys_pc_prep"

section \<open>The packet buffer of a session\<close>

definition PACKET_BUFFER_SIZE :: nat where "PACKET_BUFFER_SIZE = 4096"

definition has_packet :: "nat \<Rightarrow> iris_sys \<Rightarrow> bool" where
  "has_packet i s = gen2_packet (gen2 (inst_heap s i))"

definition set_gen2 :: "nat \<Rightarrow> (iris_inst_hfi_gen2 \<Rightarrow> iris_inst_hfi_gen2) \<Rightarrow> iris_sys \<Rightarrow> iris_sys" where
  "set_gen2 i f = modify_inst i (gen2_update f)"

text \<open>
  Building a message in the buffer of the session and sending it. Without the buffer the code
  writes through a NULL pointer, after it has taken a header number.
\<close>

definition send_session :: "nat \<Rightarrow> (iris_sys \<Rightarrow> u32 list \<times> iris_sys) \<Rightarrow> iris_sys \<Rightarrow> int \<times> iris_sys" where
  "send_session i build s =
     (if has_packet i s then
        (case build s of (ws, s1) \<Rightarrow>
         and_then (run (if PACKET_BUFFER_SIZE < 4 * length ws then tell Oops else id)) (send ws) s1)
      else (- EIO, tell Oops (snd (next_header s))))"

definition session_property :: "nat \<Rightarrow> u32 \<Rightarrow> u32 \<Rightarrow> u32 \<Rightarrow> u32 \<Rightarrow> u32 list \<Rightarrow> iris_sys \<Rightarrow> int \<times> iris_sys" where
  "session_property i packet_type flag plane payload_type p =
     send_session i (iris_hfi_gen2_packet_session_property i packet_type flag plane payload_type p)"

definition payload_list :: "payload \<Rightarrow> u32 \<Rightarrow> u32 list" where
  "payload_list p n = List.map p [0..<unat n div 4]"

definition iris_hfi_gen2_session_set_property ::
    "nat \<Rightarrow> u32 \<Rightarrow> u32 \<Rightarrow> u32 \<Rightarrow> u32 \<Rightarrow> payload \<Rightarrow> u32 \<Rightarrow> iris_sys \<Rightarrow> int \<times> iris_sys" where
  "iris_hfi_gen2_session_set_property i packet_type flag plane payload_type p payload_size =
     session_property i packet_type flag plane payload_type (payload_list p payload_size)"

text \<open>A command about the session: its flags, its port, and its payload.\<close>

definition session_cmd ::
    "nat \<Rightarrow> u32 \<Rightarrow> u32 \<Rightarrow> u32 \<Rightarrow> u32 \<Rightarrow> u32 list \<Rightarrow> iris_sys \<Rightarrow> int \<times> iris_sys" where
  "session_cmd i pkt_type flags port payload_type p s =
     send_session i (iris_hfi_gen2_packet_session_command pkt_type flags port
       (session_id (inst_heap s i)) payload_type p) s"

section \<open>Ports\<close>

definition iris_hfi_gen2_get_port :: "iris_inst \<Rightarrow> u32 \<Rightarrow> u32" where
  "iris_hfi_gen2_get_port inst plane =
     (if domain inst = DECODER then
        (if plane = OUTPUT_MPLANE then HFI_PORT_BITSTREAM
         else if plane = CAPTURE_MPLANE then HFI_PORT_RAW else HFI_PORT_NONE)
      else
        (if plane = OUTPUT_MPLANE then HFI_PORT_RAW
         else if plane = CAPTURE_MPLANE then HFI_PORT_BITSTREAM else HFI_PORT_NONE))"

definition iris_hfi_gen2_get_port_from_buf_type :: "iris_inst \<Rightarrow> iris_buffer_type \<Rightarrow> u32" where
  "iris_hfi_gen2_get_port_from_buf_type inst buffer_type =
     (if domain inst = DECODER then
        (if buffer_type \<in> {BUF_INPUT, BUF_BIN, BUF_COMV, BUF_NON_COMV, BUF_LINE} then HFI_PORT_BITSTREAM
         else if buffer_type \<in> {BUF_OUTPUT, BUF_DPB} then HFI_PORT_RAW else HFI_PORT_NONE)
      else
        (if buffer_type \<in> {BUF_INPUT, BUF_VPSS} then HFI_PORT_RAW
         else if buffer_type \<in> {BUF_OUTPUT, BUF_BIN, BUF_COMV, BUF_NON_COMV, BUF_LINE, BUF_SCRATCH_2}
         then HFI_PORT_BITSTREAM else HFI_PORT_NONE))"

section \<open>The configuration of a session\<close>

text \<open>
  A handler computes its words from the instance, notes some of them among the parameters of
  the stream, and sends them. \<open>set_on\<close> does so with the port of a plane.
\<close>

definition BIT_DEPTH_8 :: u32 where "BIT_DEPTH_8 = push_bit 16 8 OR 8"
definition UNSPECIFIED_COLOR_FORMAT :: u32 where "UNSPECIFIED_COLOR_FORMAT = 5"

abbreviation (input) CODED_FRAMES_PROGRESSIVE :: int where "CODED_FRAMES_PROGRESSIVE \<equiv> 0"

definition on_src :: "nat \<Rightarrow> (hfi_subscription_params \<Rightarrow> hfi_subscription_params) \<Rightarrow> iris_sys \<Rightarrow> iris_sys" where
  "on_src i f = set_gen2 i (src_subcr_params_update f)"

definition on_dst :: "nat \<Rightarrow> (hfi_subscription_params \<Rightarrow> hfi_subscription_params) \<Rightarrow> iris_sys \<Rightarrow> iris_sys" where
  "on_dst i f = set_gen2 i (dst_subcr_params_update f)"

definition set_on :: "nat \<Rightarrow> u32 \<Rightarrow> u32 \<Rightarrow> u32 \<Rightarrow> u32 list \<Rightarrow> iris_sys \<Rightarrow> int \<times> iris_sys" where
  "set_on i plane ptype payload_type ws s =
     session_property i ptype HFI_HOST_FLAGS_NONE (iris_hfi_gen2_get_port (inst_heap s i) plane) payload_type ws s"

definition packed :: "u32 \<Rightarrow> u32 \<Rightarrow> u32" where
  "packed hi lo = push_bit 16 hi OR lo"

definition iris_hfi_gen2_set_raw_resolution :: "nat \<Rightarrow> u32 \<Rightarrow> iris_sys \<Rightarrow> int \<times> iris_sys" where
  "iris_hfi_gen2_set_raw_resolution i plane s =
     (let p = fmt_src (inst_heap s i)
      in set_on i plane HFI_PROP_RAW_RESOLUTION HFI_PAYLOAD_32_PACKED [packed (pix_width p) (pix_height p)] s)"

definition iris_hfi_gen2_set_bitstream_resolution :: "nat \<Rightarrow> u32 \<Rightarrow> iris_sys \<Rightarrow> int \<times> iris_sys" where
  "iris_hfi_gen2_set_bitstream_resolution i plane s =
     (let inst = inst_heap s i in
      if domain inst = DECODER then
        (let resolution = packed (pix_width (fmt_src inst)) (pix_height (fmt_src inst))
         in set_on i plane HFI_PROP_BITSTREAM_RESOLUTION HFI_PAYLOAD_U32 [resolution]
              (on_src i (bitstream_resolution_update (\<lambda>_. resolution)) s))
      else
        (let codec_align = (if codec inst = V4L2_PIX_FMT_HEVC then 32 else 16);
             resolution = packed (ALIGN (pix_width (fmt_dst inst)) codec_align)
                                 (ALIGN (pix_height (fmt_dst inst)) codec_align)
         in set_on i plane HFI_PROP_BITSTREAM_RESOLUTION HFI_PAYLOAD_32_PACKED [resolution]
              (on_dst i (bitstream_resolution_update (\<lambda>_. resolution)) s)))"

definition crop_offsets :: "v4l2_pix_mp \<Rightarrow> iris_hfi_rect_desc \<Rightarrow> u32 list" where
  "crop_offsets p r =
     [packed (rect_left r) (rect_top r),
      packed (pix_width p - rect_width r) (pix_height p - rect_height r)]"

definition iris_hfi_gen2_set_crop_offsets :: "nat \<Rightarrow> u32 \<Rightarrow> iris_sys \<Rightarrow> int \<times> iris_sys" where
  "iris_hfi_gen2_set_crop_offsets i plane s =
     (let inst = inst_heap s i;
          ws = (if domain inst = DECODER \<and> \<not> V4L2_TYPE_IS_OUTPUT plane
                then crop_offsets (fmt_dst inst) (compose inst) else crop_offsets (fmt_src inst) (crop inst))
      in set_on i plane HFI_PROP_CROP_OFFSETS HFI_PAYLOAD_64_PACKED ws
           (on_src i (\<lambda>p. p\<lparr>crop_offset_start := ws ! 0, crop_offset_end := ws ! 1\<rparr>) s))"

definition iris_hfi_gen2_set_bit_depth :: "nat \<Rightarrow> u32 \<Rightarrow> iris_sys \<Rightarrow> int \<times> iris_sys" where
  "iris_hfi_gen2_set_bit_depth i plane s =
     set_on i plane HFI_PROP_LUMA_CHROMA_BIT_DEPTH HFI_PAYLOAD_U32 [BIT_DEPTH_8]
       (on_src i (sub_bit_depth_update (\<lambda>_. BIT_DEPTH_8)) s)"

definition iris_hfi_gen2_set_coded_frames :: "nat \<Rightarrow> u32 \<Rightarrow> iris_sys \<Rightarrow> int \<times> iris_sys" where
  "iris_hfi_gen2_set_coded_frames i plane s =
     (let coded = (if cap_value (fw_caps (inst_heap s i) CODED_FRAMES) = CODED_FRAMES_PROGRESSIVE
                   then HFI_BITMASK_FRAME_MBS_ONLY_FLAG else 0)
      in set_on i plane HFI_PROP_CODED_FRAMES HFI_PAYLOAD_U32 [coded]
           (on_src i (sub_coded_frames_update (\<lambda>_. coded)) s))"

definition iris_hfi_gen2_set_min_output_count :: "nat \<Rightarrow> u32 \<Rightarrow> iris_sys \<Rightarrow> int \<times> iris_sys" where
  "iris_hfi_gen2_set_min_output_count i plane s =
     (let min_output = min_count (buffers (inst_heap s i) BUF_OUTPUT)
      in set_on i plane HFI_PROP_BUFFER_FW_MIN_OUTPUT_COUNT HFI_PAYLOAD_U32 [min_output]
           (on_src i (sub_min_count_update (\<lambda>_. min_output)) s))"

definition iris_hfi_gen2_set_picture_order_count :: "nat \<Rightarrow> u32 \<Rightarrow> iris_sys \<Rightarrow> int \<times> iris_sys" where
  "iris_hfi_gen2_set_picture_order_count i plane s =
     set_on i plane HFI_PROP_PIC_ORDER_CNT_TYPE HFI_PAYLOAD_U32 [0]
       (on_src i (pic_order_cnt_update (\<lambda>_. 0)) s)"

definition colour_of_format :: "v4l2_pix_mp \<Rightarrow> u32" where
  "colour_of_format p =
     (let described = colorspace p \<noteq> 0 \<or> ycbcr_enc p \<noteq> 0 \<or> xfer_func p \<noteq> 0;
          ranged = quantization p \<noteq> 0
      in iris_hfi_gen2_get_color_info
           (if described then iris_hfi_gen2_get_matrix_coefficients (ycbcr_enc p) else 3)
           (if described then iris_hfi_gen2_get_transfer_char (xfer_func p) else 0)
           (if described then iris_hfi_gen2_get_color_primaries (colorspace p) else 0)
           (if described then 1 else 0)
           (if ranged \<and> quantization p = 1 then 1 else 0)
           UNSPECIFIED_COLOR_FORMAT
           (if described \<or> ranged then 1 else 0))"

definition iris_hfi_gen2_set_colorspace :: "nat \<Rightarrow> u32 \<Rightarrow> iris_sys \<Rightarrow> int \<times> iris_sys" where
  "iris_hfi_gen2_set_colorspace i plane s =
     (let info = colour_of_format (fmt_src (inst_heap s i))
      in set_on i plane HFI_PROP_SIGNAL_COLOR_INFO HFI_PAYLOAD_32_PACKED [info]
           (on_src i (color_info_update (\<lambda>_. info)) s))"

definition codec_cap :: "iris_inst \<Rightarrow> nat \<Rightarrow> nat \<Rightarrow> nat \<Rightarrow> u32" where
  "codec_cap inst hevc vp9 h264 =
     (if codec inst = V4L2_PIX_FMT_HEVC then cap_u32 inst hevc
      else if codec inst = V4L2_PIX_FMT_VP9 then cap_u32 inst vp9
      else if codec inst = V4L2_PIX_FMT_H264 then cap_u32 inst h264 else 0)"

text \<open>Profile, level and tier go to the port of the OUTPUT plane whatever the plane.\<close>

definition iris_hfi_gen2_set_profile :: "nat \<Rightarrow> u32 \<Rightarrow> iris_sys \<Rightarrow> int \<times> iris_sys" where
  "iris_hfi_gen2_set_profile i plane s =
     (let profile = codec_cap (inst_heap s i) PROFILE_HEVC PROFILE_VP9 PROFILE_H264
      in set_on i OUTPUT_MPLANE HFI_PROP_PROFILE HFI_PAYLOAD_U32_ENUM [profile]
           (on_src i (sub_profile_update (\<lambda>_. profile)) s))"

definition iris_hfi_gen2_set_level :: "nat \<Rightarrow> u32 \<Rightarrow> iris_sys \<Rightarrow> int \<times> iris_sys" where
  "iris_hfi_gen2_set_level i plane s =
     (let level = codec_cap (inst_heap s i) LEVEL_HEVC LEVEL_VP9 LEVEL_H264
      in set_on i OUTPUT_MPLANE HFI_PROP_LEVEL HFI_PAYLOAD_U32_ENUM [level]
           (on_src i (sub_level_update (\<lambda>_. level)) s))"

definition raw_format :: "iris_inst \<Rightarrow> v4l2_pix_mp" where
  "raw_format inst = (if domain inst = DECODER then fmt_dst inst else fmt_src inst)"

definition iris_hfi_gen2_set_colorformat :: "nat \<Rightarrow> u32 \<Rightarrow> iris_sys \<Rightarrow> int \<times> iris_sys" where
  "iris_hfi_gen2_set_colorformat i plane s =
     set_on i plane HFI_PROP_COLOR_FORMAT HFI_PAYLOAD_U32_ENUM
       [if pixelformat (raw_format (inst_heap s i)) = V4L2_PIX_FMT_NV12 then HFI_COLOR_FMT_NV12 else 0] s"

definition iris_hfi_gen2_set_linear_stride_scanline :: "nat \<Rightarrow> u32 \<Rightarrow> iris_sys \<Rightarrow> int \<times> iris_sys" where
  "iris_hfi_gen2_set_linear_stride_scanline i plane s =
     (let inst = inst_heap s i; p = raw_format inst;
          stride_y = (if domain inst = DECODER then pix_width p else ALIGN (pix_width p) 128);
          scanline_y = (if domain inst = DECODER then pix_height p else ALIGN (pix_height p) 32)
      in if pixelformat p \<noteq> V4L2_PIX_FMT_NV12 then (0, s)
         else set_on i plane HFI_PROP_LINEAR_STRIDE_SCANLINE HFI_PAYLOAD_64_PACKED
                [packed stride_y scanline_y, packed stride_y (scanline_y div 2)] s)"

definition iris_hfi_gen2_set_tier :: "nat \<Rightarrow> u32 \<Rightarrow> iris_sys \<Rightarrow> int \<times> iris_sys" where
  "iris_hfi_gen2_set_tier i plane s =
     (let tier = cap_u32 (inst_heap s i) TIER
      in set_on i OUTPUT_MPLANE HFI_PROP_TIER HFI_PAYLOAD_U32_ENUM [tier]
           (on_src i (sub_tier_update (\<lambda>_. tier)) s))"

definition iris_hfi_gen2_set_frame_rate :: "nat \<Rightarrow> u32 \<Rightarrow> iris_sys \<Rightarrow> int \<times> iris_sys" where
  "iris_hfi_gen2_set_frame_rate i plane s =
     set_on i CAPTURE_MPLANE HFI_PROP_FRAME_RATE HFI_PAYLOAD_Q16
       [push_bit 16 (frame_rate (inst_heap s i))] s"

definition prop_type_handle_arr :: "prop_handler list" where
  "prop_type_handle_arr =
     [(HFI_PROP_RAW_RESOLUTION, iris_hfi_gen2_set_raw_resolution),
      (HFI_PROP_BITSTREAM_RESOLUTION, iris_hfi_gen2_set_bitstream_resolution),
      (HFI_PROP_CROP_OFFSETS, iris_hfi_gen2_set_crop_offsets),
      (HFI_PROP_CODED_FRAMES, iris_hfi_gen2_set_coded_frames),
      (HFI_PROP_LUMA_CHROMA_BIT_DEPTH, iris_hfi_gen2_set_bit_depth),
      (HFI_PROP_BUFFER_FW_MIN_OUTPUT_COUNT, iris_hfi_gen2_set_min_output_count),
      (HFI_PROP_PIC_ORDER_CNT_TYPE, iris_hfi_gen2_set_picture_order_count),
      (HFI_PROP_SIGNAL_COLOR_INFO, iris_hfi_gen2_set_colorspace),
      (HFI_PROP_PROFILE, iris_hfi_gen2_set_profile),
      (HFI_PROP_LEVEL, iris_hfi_gen2_set_level),
      (HFI_PROP_COLOR_FORMAT, iris_hfi_gen2_set_colorformat),
      (HFI_PROP_LINEAR_STRIDE_SCANLINE, iris_hfi_gen2_set_linear_stride_scanline),
      (HFI_PROP_TIER, iris_hfi_gen2_set_tier),
      (HFI_PROP_FRAME_RATE, iris_hfi_gen2_set_frame_rate)]"

definition codec_params :: "iris_platform_data \<Rightarrow> iris_inst \<Rightarrow> u32 list option" where
  "codec_params pd inst =
     (if codec inst = V4L2_PIX_FMT_H264 then Some (dec_input_config_params_default pd)
      else if codec inst = V4L2_PIX_FMT_HEVC then Some (dec_input_config_params_hevc pd)
      else if codec inst = V4L2_PIX_FMT_VP9 then Some (dec_input_config_params_vp9 pd)
      else None)"

text \<open>A table that is missing and one that is empty are the same to the code.\<close>

definition config_table :: "iris_platform_data \<Rightarrow> iris_inst \<Rightarrow> u32 \<Rightarrow> u32 list" where
  "config_table pd inst plane =
     (if domain inst = DECODER then
        (if V4L2_TYPE_IS_OUTPUT plane then (case codec_params pd inst of None \<Rightarrow> [] | Some t \<Rightarrow> t)
         else dec_output_config_params pd)
      else if V4L2_TYPE_IS_OUTPUT plane then enc_input_config_params pd else enc_output_config_params pd)"

definition iris_hfi_gen2_session_set_config_params :: "nat \<Rightarrow> u32 \<Rightarrow> iris_sys \<Rightarrow> int \<times> iris_sys" where
  "iris_hfi_gen2_session_set_config_params i plane s =
     (let params = config_table (platform s) (inst_heap s i) plane in
      if params = [] then (- EINVAL, s) else run_all (config_steps prop_type_handle_arr params i plane) s)"

section \<open>Opening and closing a session\<close>

abbreviation (input) ANSWERED :: u32 where
  "ANSWERED \<equiv> HFI_HOST_FLAGS_RESPONSE_REQUIRED OR HFI_HOST_FLAGS_INTR_REQUIRED"
abbreviation (input) ANSWERED_ALWAYS :: u32 where
  "ANSWERED_ALWAYS \<equiv> HFI_HOST_FLAGS_RESPONSE_REQUIRED OR HFI_HOST_FLAGS_INTR_REQUIRED OR
     HFI_HOST_FLAGS_NON_DISCARDABLE"

definition gen2_codec :: "iris_inst \<Rightarrow> u32" where
  "gen2_codec inst =
     (if codec inst = V4L2_PIX_FMT_H264
      then if domain inst = ENCODER then HFI_CODEC_ENCODE_AVC else HFI_CODEC_DECODE_AVC
      else if codec inst = V4L2_PIX_FMT_HEVC
      then if domain inst = ENCODER then HFI_CODEC_ENCODE_HEVC else HFI_CODEC_DECODE_HEVC
      else if codec inst = V4L2_PIX_FMT_VP9 then HFI_CODEC_DECODE_VP9 else 0)"

definition iris_hfi_gen2_session_set_codec :: "nat \<Rightarrow> iris_sys \<Rightarrow> int \<times> iris_sys" where
  "iris_hfi_gen2_session_set_codec i s =
     session_property i HFI_PROP_CODEC HFI_HOST_FLAGS_NONE HFI_PORT_NONE HFI_PAYLOAD_U32_ENUM
       [gen2_codec (inst_heap s i)] s"

definition iris_hfi_gen2_session_set_default_header :: "nat \<Rightarrow> iris_sys \<Rightarrow> int \<times> iris_sys" where
  "iris_hfi_gen2_session_set_default_header i =
     session_property i HFI_PROP_DEC_DEFAULT_HEADER HFI_HOST_FLAGS_NONE HFI_PORT_BITSTREAM
       HFI_PAYLOAD_U32 [0]"

definition announce_session :: "nat \<Rightarrow> iris_sys \<Rightarrow> int \<times> iris_sys" where
  "announce_session i =
     and_then (\<lambda>s. send_session i (iris_hfi_gen2_packet_session_command HFI_CMD_OPEN ANSWERED HFI_PORT_NONE 0
                     HFI_PAYLOAD_U32 [session_id (inst_heap s i)]) s)
    (and_then (iris_hfi_gen2_session_set_codec i)
              (\<lambda>s. if domain (inst_heap s i) = DECODER
                   then iris_hfi_gen2_session_set_default_header i s else (0, s)))"

definition free_packet :: "nat \<Rightarrow> iris_sys \<Rightarrow> iris_sys" where
  "free_packet i = set_gen2 i (gen2_packet_update (\<lambda>_. False))"

definition iris_hfi_gen2_session_open :: "nat \<Rightarrow> iris_sys \<Rightarrow> int \<times> iris_sys" where
  "iris_hfi_gen2_session_open i s =
     (if inst_state (inst_heap s i) \<noteq> IRIS_INST_DEINIT then (- EALREADY, s)
      else case ask Kzalloc
          (set_gen2 i (\<lambda>g. g\<lparr>ipsc_properties_set := False, opsc_properties_set := False\<rparr>) s) of (p, s1) \<Rightarrow>
      let s2 = set_gen2 i (gen2_packet_update (\<lambda>_. p \<noteq> 0)) s1 in
      if p = 0 then (- ENOMEM, s2)
      else case announce_session i s2 of (ret, s3) \<Rightarrow>
      (ret, if ret \<noteq> 0 then free_packet i s3 else s3))"

definition iris_hfi_gen2_session_close :: "nat \<Rightarrow> iris_sys \<Rightarrow> int \<times> iris_sys" where
  "iris_hfi_gen2_session_close i s =
     (if \<not> has_packet i s then (- EINVAL, s)
      else case session_cmd i HFI_CMD_CLOSE ANSWERED_ALWAYS HFI_PORT_NONE HFI_PAYLOAD_NONE [] s of (ret, s1) \<Rightarrow>
      (ret, free_packet i s1))"

section \<open>Starting and stopping\<close>

definition iris_hfi_gen2_session_subscribe_mode ::
    "nat \<Rightarrow> u32 \<Rightarrow> u32 \<Rightarrow> u32 \<Rightarrow> u32 list \<Rightarrow> iris_sys \<Rightarrow> int \<times> iris_sys" where
  "iris_hfi_gen2_session_subscribe_mode i cmd plane payload_type p s =
     session_cmd i cmd ANSWERED (iris_hfi_gen2_get_port (inst_heap s i) plane) payload_type p s"

text \<open>
  The mode and the table after it, in the array \<open>payload\<close> of 32 words on the stack. A table
  of more than 31 entries is copied past its end.
\<close>

definition SUBSCRIBE_WORDS :: nat where "SUBSCRIBE_WORDS = 32"

definition subscribe :: "nat \<Rightarrow> u32 \<Rightarrow> u32 \<Rightarrow> u32 list \<Rightarrow> iris_sys \<Rightarrow> int \<times> iris_sys" where
  "subscribe i plane mode tbl =
     and_then (run (if SUBSCRIBE_WORDS < 1 + length tbl then tell Oops else id))
       (iris_hfi_gen2_session_subscribe_mode i HFI_CMD_SUBSCRIBE_MODE plane HFI_PAYLOAD_U32_ARRAY (mode # tbl))"

text \<open>What is sent of a parameter of the stream to the CAPTURE port; others are skipped.\<close>

definition subscription_value :: "hfi_subscription_params \<Rightarrow> u32 \<Rightarrow> (u32 \<times> u32 list) option" where
  "subscription_value p prop_type =
     (if prop_type = HFI_PROP_BITSTREAM_RESOLUTION then Some (HFI_PAYLOAD_U32, [bitstream_resolution p])
      else if prop_type = HFI_PROP_CROP_OFFSETS
      then Some (HFI_PAYLOAD_64_PACKED, [crop_offset_start p, crop_offset_end p])
      else if prop_type = HFI_PROP_CODED_FRAMES then Some (HFI_PAYLOAD_U32, [sub_coded_frames p])
      else if prop_type = HFI_PROP_LUMA_CHROMA_BIT_DEPTH then Some (HFI_PAYLOAD_U32, [sub_bit_depth p])
      else if prop_type = HFI_PROP_BUFFER_FW_MIN_OUTPUT_COUNT then Some (HFI_PAYLOAD_U32, [sub_min_count p])
      else if prop_type = HFI_PROP_PIC_ORDER_CNT_TYPE then Some (HFI_PAYLOAD_U32, [pic_order_cnt p])
      else if prop_type = HFI_PROP_SIGNAL_COLOR_INFO then Some (HFI_PAYLOAD_U32, [color_info p])
      else if prop_type = HFI_PROP_PROFILE then Some (HFI_PAYLOAD_U32, [sub_profile p])
      else if prop_type = HFI_PROP_LEVEL then Some (HFI_PAYLOAD_U32, [sub_level p])
      else if prop_type = HFI_PROP_TIER then Some (HFI_PAYLOAD_U32, [sub_tier p])
      else None)"

definition announce_param :: "nat \<Rightarrow> hfi_subscription_params \<Rightarrow> u32 \<Rightarrow> iris_sys \<Rightarrow> int \<times> iris_sys" where
  "announce_param i p prop_type =
     (case subscription_value p prop_type of
        None \<Rightarrow> (\<lambda>s. (0, s))
      | Some (ty, ws) \<Rightarrow> set_on i CAPTURE_MPLANE prop_type ty ws)"

definition already_subscribed :: "iris_inst \<Rightarrow> u32 \<Rightarrow> bool" where
  "already_subscribed inst plane \<longleftrightarrow>
     V4L2_TYPE_IS_OUTPUT plane \<and> ipsc_properties_set (gen2 inst) \<or>
     V4L2_TYPE_IS_CAPTURE plane \<and> opsc_properties_set (gen2 inst)"

definition iris_hfi_gen2_subscribe_change_param :: "nat \<Rightarrow> u32 \<Rightarrow> iris_sys \<Rightarrow> int \<times> iris_sys" where
  "iris_hfi_gen2_subscribe_change_param i plane s =
     (let inst = inst_heap s i;
          tbl = (case codec_params (platform s) inst of None \<Rightarrow> [] | Some t \<Rightarrow> t) in
      if domain inst = ENCODER \<or> already_subscribed inst plane then (0, s)
      else and_then (subscribe i plane HFI_MODE_PORT_SETTINGS_CHANGE tbl)
        (if V4L2_TYPE_IS_OUTPUT plane then run (set_gen2 i (ipsc_properties_set_update (\<lambda>_. True)))
         else and_then (run (set_gen2 i (\<lambda>g. g\<lparr>dst_subcr_params := src_subcr_params g\<rparr>)))
             (\<lambda>s. and_then
                (run_all (List.map (announce_param i (dst_subcr_params (gen2 (inst_heap s i)))) tbl))
                (run (set_gen2 i (opsc_properties_set_update (\<lambda>_. True)))) s)) s)"

definition property_table :: "iris_platform_data \<Rightarrow> iris_inst \<Rightarrow> u32 \<Rightarrow> u32 list" where
  "property_table pd inst plane =
     (if V4L2_TYPE_IS_OUTPUT plane then dec_input_prop pd
      else if codec inst = V4L2_PIX_FMT_H264 then dec_output_prop_avc pd
      else if codec inst = V4L2_PIX_FMT_HEVC then dec_output_prop_hevc pd
      else if codec inst = V4L2_PIX_FMT_VP9 then dec_output_prop_vp9 pd else [])"

definition iris_hfi_gen2_subscribe_property :: "nat \<Rightarrow> u32 \<Rightarrow> iris_sys \<Rightarrow> int \<times> iris_sys" where
  "iris_hfi_gen2_subscribe_property i plane s =
     (if domain (inst_heap s i) = ENCODER then (0, s)
      else subscribe i plane HFI_MODE_PROPERTY (property_table (platform s) (inst_heap s i) plane) s)"

definition plane_cmd :: "nat \<Rightarrow> u32 \<Rightarrow> u32 \<Rightarrow> u32 \<Rightarrow> u32 \<Rightarrow> u32 list \<Rightarrow> iris_sys \<Rightarrow> int \<times> iris_sys" where
  "plane_cmd i plane cmd flags payload_type p s =
     session_cmd i cmd flags (iris_hfi_gen2_get_port (inst_heap s i) plane) payload_type p s"

definition iris_hfi_gen2_session_start :: "nat \<Rightarrow> u32 \<Rightarrow> iris_sys \<Rightarrow> int \<times> iris_sys" where
  "iris_hfi_gen2_session_start i plane =
     and_then (iris_hfi_gen2_subscribe_change_param i plane)
    (and_then (iris_hfi_gen2_subscribe_property i plane)
              (plane_cmd i plane HFI_CMD_START ANSWERED HFI_PAYLOAD_NONE []))"

definition iris_hfi_gen2_session_stop :: "nat \<Rightarrow> u32 \<Rightarrow> iris_sys \<Rightarrow> int \<times> iris_sys" where
  "iris_hfi_gen2_session_stop i plane =
     and_then (reinit_completion False)
    (and_then (plane_cmd i plane HFI_CMD_STOP ANSWERED_ALWAYS HFI_PAYLOAD_NONE [])
              (iris_wait_for_session_response i False))"

definition iris_hfi_gen2_session_pause :: "nat \<Rightarrow> u32 \<Rightarrow> iris_sys \<Rightarrow> int \<times> iris_sys" where
  "iris_hfi_gen2_session_pause i plane = plane_cmd i plane HFI_CMD_PAUSE ANSWERED HFI_PAYLOAD_NONE []"

definition iris_hfi_gen2_session_resume_drc :: "nat \<Rightarrow> u32 \<Rightarrow> iris_sys \<Rightarrow> int \<times> iris_sys" where
  "iris_hfi_gen2_session_resume_drc i plane =
     plane_cmd i plane HFI_CMD_RESUME ANSWERED HFI_PAYLOAD_U32 [HFI_CMD_SETTINGS_CHANGE]"

definition iris_hfi_gen2_session_resume_drain :: "nat \<Rightarrow> u32 \<Rightarrow> iris_sys \<Rightarrow> int \<times> iris_sys" where
  "iris_hfi_gen2_session_resume_drain i plane =
     plane_cmd i plane HFI_CMD_RESUME ANSWERED HFI_PAYLOAD_U32 [HFI_CMD_DRAIN]"

definition iris_hfi_gen2_session_drain :: "nat \<Rightarrow> u32 \<Rightarrow> iris_sys \<Rightarrow> int \<times> iris_sys" where
  "iris_hfi_gen2_session_drain i plane s =
     (if \<not> V4L2_TYPE_IS_OUTPUT plane then (0, s)
      else plane_cmd i plane HFI_CMD_DRAIN ANSWERED_ALWAYS HFI_PAYLOAD_NONE [] s)"

section \<open>Buffers\<close>

definition iris_hfi_gen2_buf_type_from_driver :: "domain_type \<Rightarrow> iris_buffer_type \<Rightarrow> u32" where
  "iris_hfi_gen2_buf_type_from_driver d buffer_type =
     (case buffer_type of
        BUF_INPUT \<Rightarrow> (if d = DECODER then HFI_BUFFER_BITSTREAM else HFI_BUFFER_RAW)
      | BUF_OUTPUT \<Rightarrow> (if d = DECODER then HFI_BUFFER_RAW else HFI_BUFFER_BITSTREAM)
      | BUF_BIN \<Rightarrow> HFI_BUFFER_BIN
      | BUF_COMV \<Rightarrow> HFI_BUFFER_COMV
      | BUF_NON_COMV \<Rightarrow> HFI_BUFFER_NON_COMV
      | BUF_LINE \<Rightarrow> HFI_BUFFER_LINE
      | BUF_DPB \<Rightarrow> HFI_BUFFER_DPB
      | BUF_SCRATCH_2 \<Rightarrow> HFI_BUFFER_DPB
      | BUF_PERSIST \<Rightarrow> HFI_BUFFER_PERSIST
      | BUF_ARP \<Rightarrow> HFI_BUFFER_ARP
      | BUF_VPSS \<Rightarrow> HFI_BUFFER_VPSS
      | _ \<Rightarrow> 0)"

definition iris_set_num_comv :: "nat \<Rightarrow> iris_sys \<Rightarrow> int \<times> iris_sys" where
  "iris_set_num_comv i s =
     iris_hfi_gen2_session_set_property i HFI_PROP_COMV_BUFFER_COUNT HFI_HOST_FLAGS_NONE HFI_PORT_BITSTREAM
       HFI_PAYLOAD_U32 (words [num_comv (inst_caps (platform s))]) 4 s"

text \<open>\<open>struct iris_hfi_buffer\<close> in 16 words; its address and its time stamp take two each.\<close>

definition iris_hfi_gen2_get_buffer :: "domain_type \<Rightarrow> u32 \<Rightarrow> iris_buffer \<Rightarrow> u32 list" where
  "iris_hfi_gen2_get_buffer d more_flags b =
     (let size = (if d = DECODER \<and> buf_type b = BUF_INPUT then ALIGN (buffer_size b) 256 else buffer_size b);
          release = (if has (buf_attr b) BUF_ATTR_PENDING_RELEASE then HFI_BUF_HOST_FLAG_RELEASE else 0)
      in [iris_hfi_gen2_buf_type_from_driver d (buf_type b), buf_index b,
          lower_32_bits (device_addr b), upper_32_bits (device_addr b), 0, ucast size,
          data_offset b, ucast (data_size b), lower_32_bits (buf_timestamp b), upper_32_bits (buf_timestamp b),
          release OR HFI_BUF_HOST_FLAGS_CB_NON_SECURE OR more_flags, 0, 0, 0, 0, 0])"

definition buffer_cmd :: "nat \<Rightarrow> u32 \<Rightarrow> u32 list \<Rightarrow> iris_buffer \<Rightarrow> iris_sys \<Rightarrow> int \<times> iris_sys" where
  "buffer_cmd i flags p b s =
     session_cmd i HFI_CMD_BUFFER flags (iris_hfi_gen2_get_port_from_buf_type (inst_heap s i) (buf_type b))
       HFI_PAYLOAD_STRUCTURE p s"

definition iris_hfi_gen2_session_queue_buffer :: "nat \<Rightarrow> iris_buffer \<Rightarrow> iris_sys \<Rightarrow> int \<times> iris_sys" where
  "iris_hfi_gen2_session_queue_buffer i b s =
     (let p = iris_hfi_gen2_get_buffer (domain (inst_heap s i)) 0 b
      in and_then (\<lambda>s. if buf_type b = BUF_COMV then iris_set_num_comv i s else (0, s))
                  (buffer_cmd i HFI_HOST_FLAGS_INTR_REQUIRED p b) s)"

definition iris_hfi_gen2_session_release_buffer :: "nat \<Rightarrow> iris_buffer \<Rightarrow> iris_sys \<Rightarrow> int \<times> iris_sys" where
  "iris_hfi_gen2_session_release_buffer i b s =
     buffer_cmd i ANSWERED
       (iris_hfi_gen2_get_buffer (domain (inst_heap s i)) HFI_BUF_HOST_FLAG_RELEASE b) b s"

definition gen2_ops :: iris_hfi_command_ops where
  "gen2_ops =
     \<lparr>sys_init = iris_hfi_gen2_sys_init, sys_image_version = iris_hfi_gen2_sys_image_version,
      sys_interframe_powercollapse = iris_hfi_gen2_sys_interframe_powercollapse,
      sys_pc_prep = iris_hfi_gen2_sys_pc_prep,
      session_set_config_params = iris_hfi_gen2_session_set_config_params,
      session_set_property = iris_hfi_gen2_session_set_property,
      session_open = iris_hfi_gen2_session_open,
      session_start = iris_hfi_gen2_session_start,
      session_queue_buf = iris_hfi_gen2_session_queue_buffer,
      session_release_buf = iris_hfi_gen2_session_release_buffer,
      session_pause = Some iris_hfi_gen2_session_pause,
      session_resume_drc = iris_hfi_gen2_session_resume_drc,
      session_stop = iris_hfi_gen2_session_stop, session_drain = iris_hfi_gen2_session_drain,
      session_resume_drain = Some iris_hfi_gen2_session_resume_drain,
      session_close = iris_hfi_gen2_session_close\<rparr>"

end
