(* ===== verification/IrisGen2Ops.thy ===== *)
theory IrisGen2Ops
  imports IrisGen2Cmd IrisGen1Ops
begin

text \<open>
  The Gen2 commands keep the contract of \<open>IrisHfiOps\<close>, so what the session layer proves from it
  holds over both firmware generations; the messages they build are what a reader that walks
  them packet by packet finds, and fit the memory they are built in; and which commands need
  the packet buffer of the session.
\<close>

section \<open>The contract\<close>

lemma touches_numbers [simp]: "touches i s (s\<lparr>header_id := h\<rparr>)" "touches i s (s\<lparr>packet_id := p\<rparr>)"
  by (simp_all add: touches_def session_frame_def)

lemma touches_message: "message sid sps s = (ws, t) \<Longrightarrow> touches i s t"
proof -
  have add: "fold add_packet sps (hdr, s) = (ws, t) \<Longrightarrow> touches i s t" for hdr s
  proof (induction sps arbitrary: hdr s)
    case (Cons sp sps)
    obtain hdr' s1 where 1: "add_packet sp (hdr, s) = (hdr', s1)" by fastforce
    then have "touches i s s1" by (auto simp: add_packet_def next_packet_def split: prod.splits)
    with Cons 1 show ?case using touches_trans by fastforce
  qed simp
  show "message sid sps s = (ws, t) \<Longrightarrow> touches i s t"
    by (auto simp: message_def next_header_def intro: touches_trans[OF touches_numbers(1)] add)
qed

lemma does_message [does_rules]: "does i (message sid sps)"
  using touches_message by (fastforce simp: does_def intro: prod_eqI)

lemma does_message_of [does_rules]: "does i (\<lambda>s. message (sid s) (sps s) s)"
  using does_message by (simp add: does_def)

lemma acts_set_gen2 [does_rules]: "acts i (set_gen2 i f)"
  unfolding set_gen2_def by (rule acts_modify) (simp add: owned_simps)

lemma acts_on_params [does_rules]: "acts i (on_src i f)" "acts i (on_dst i f)" "acts i (free_packet i)"
  unfolding on_src_def on_dst_def free_packet_def by (intro does_rules)+

lemma does_overrun: "does i (run (if c then tell Oops else id))"
proof -
  have "acts i (if c then tell Oops else id)"
    using acts_tell[OF quiet_calls(1)] by (auto simp: acts_def)
  then show ?thesis by (rule does_run)
qed

lemma acts_null_packet: "acts i (\<lambda>s. tell Oops (snd (next_header s)))"
proof (rule acts_comp[OF acts_tell])
  show "acts i (\<lambda>s. snd (next_header s))" by (simp add: acts_def next_header_def)
qed (intro does_rules)

lemma does_send_packet [does_rules]: "(\<And>j. does j build) \<Longrightarrow> does i (send_session k build)"
  unfolding send_session_def
  by (intro does_if does_pair acts_null_packet does_bind does_and_then does_overrun does_send_const)

lemma does_session_property [does_rules]: "does i (session_property k ty flag port info p)"
  unfolding session_property_def iris_hfi_gen2_packet_session_property_def by (intro does_rules)

lemma does_session_cmd [does_rules]: "does i (session_cmd k ty flags port info p)"
proof -
  have "does i (\<lambda>s. send_session k (iris_hfi_gen2_packet_session_command ty flags port sid info p) s)" for sid
    unfolding iris_hfi_gen2_packet_session_command_def by (intro does_rules)
  from does_use[OF this] show ?thesis unfolding session_cmd_def .
qed

lemma does_gen2_set_property [does_rules]: "does i (iris_hfi_gen2_session_set_property k ty flag port info p n)"
  unfolding iris_hfi_gen2_session_set_property_def by (intro does_rules)

lemma does_set_on [does_rules]: "does i (set_on k plane ty info ws)"
proof -
  have "does i (session_property k ty HFI_HOST_FLAGS_NONE port info ws)" for port by (intro does_rules)
  from does_use[OF this] show ?thesis unfolding set_on_def .
qed

lemma touches_set_on:
  "touches i s (snd (set_on k plane ty info ws s))"
  "touches i s (snd (set_on k plane ty info ws (on_src i f s)))"
  "touches i s (snd (set_on k plane ty info ws (on_dst i f s)))"
proof -
  have set: "touches i s (snd (set_on k plane ty info ws s))" for s
    using does_set_on by (simp add: does_def)
  have noted: "touches i s (on_src i f s)" "touches i s (on_dst i f s)"
    using acts_on_params(1,2) by (simp_all add: acts_def)
  show "touches i s (snd (set_on k plane ty info ws s))" by (rule set)
  show "touches i s (snd (set_on k plane ty info ws (on_src i f s)))"
    "touches i s (snd (set_on k plane ty info ws (on_dst i f s)))"
    using touches_trans[OF noted(1) set] touches_trans[OF noted(2) set] by simp_all
qed

lemmas config_handler_defs = iris_hfi_gen2_set_raw_resolution_def iris_hfi_gen2_set_bitstream_resolution_def
  iris_hfi_gen2_set_crop_offsets_def iris_hfi_gen2_set_bit_depth_def iris_hfi_gen2_set_coded_frames_def
  iris_hfi_gen2_set_min_output_count_def iris_hfi_gen2_set_picture_order_count_def
  iris_hfi_gen2_set_colorspace_def iris_hfi_gen2_set_profile_def iris_hfi_gen2_set_level_def
  iris_hfi_gen2_set_colorformat_def iris_hfi_gen2_set_linear_stride_scanline_def
  iris_hfi_gen2_set_tier_def iris_hfi_gen2_set_frame_rate_def

lemma gen2_handlers_do: "(ty, h) \<in> set prop_type_handle_arr \<Longrightarrow> does i (h i plane)"
  by (auto simp: prop_type_handle_arr_def config_handler_defs Let_def does_def touches_set_on)

lemma gen2_steps_do: "f \<in> set (config_steps prop_type_handle_arr ps i plane) \<Longrightarrow> does i f"
  by (auto simp: config_steps_def split: option.splits dest!: map_of_SomeD[OF sym] intro: gen2_handlers_do)

lemma does_gen2_config [does_rules]: "does i (iris_hfi_gen2_session_set_config_params i plane)"
proof -
  have "touches i s (snd (run_all (config_steps prop_type_handle_arr ps i plane) s))" for ps s
    using does_run_all[of "config_steps prop_type_handle_arr ps i plane" i] gen2_steps_do
    by (simp add: does_def)
  then show ?thesis by (simp add: does_def iris_hfi_gen2_session_set_config_params_def Let_def)
qed

lemma does_announce [does_rules]: "does i (announce_session k)"
proof -
  have "does i (send_session k (iris_hfi_gen2_packet_session_command ty flags port sid info p))" for ty flags port sid info p
    unfolding iris_hfi_gen2_packet_session_command_def by (intro does_rules)
  note cmd = does_use[OF this[where p = "[x]" for x], where e = "\<lambda>s. session_id (inst_heap s k)"]
  have "does i (iris_hfi_gen2_session_set_default_header k)" "does i (iris_hfi_gen2_session_set_codec k)"
    unfolding iris_hfi_gen2_session_set_default_header_def iris_hfi_gen2_session_set_codec_def
    by (intro does_rules does_use[where f = "\<lambda>c. session_property k ty flag port info [c]" for ty flag port info])+
  then show ?thesis unfolding announce_session_def by (intro does_rules cmd)
qed
lemma touches_if_send: "touches i s t \<Longrightarrow> does i f \<Longrightarrow> touches i s (snd (f t))"
  using touches_trans by (auto simp: does_def)

lemma does_gen2_open [does_rules]: "does i (iris_hfi_gen2_session_open i)"
proof -
  have g: "touches i s (set_gen2 i f s)" for s f
    using acts_set_gen2 by (simp add: acts_def)
  have "does i (\<lambda>s. case ask Kzalloc s of (p, s1) \<Rightarrow>
      let s2 = set_gen2 i (gen2_packet_update (\<lambda>_. p \<noteq> 0)) s1 in
      if p = 0 then (- ENOMEM, s2)
      else case announce_session i s2 of (ret, s3) \<Rightarrow> (ret, if ret \<noteq> 0 then free_packet i s3 else s3))"
    unfolding Let_def
    by (intro does_rules does_if[where b = "\<lambda>_. b" for b] does_then[OF acts_set_gen2]
        does_pair[where h = "\<lambda>s. if r \<noteq> 0 then free_packet i s else s" for r])
      (use acts_on_params(3) in \<open>auto simp: acts_def\<close>)
  note rest = does_then[OF acts_set_gen2 this]
  show ?thesis
    unfolding iris_hfi_gen2_session_open_def by (intro does_rules rest)
qed

lemma does_gen2_close [does_rules]: "does i (iris_hfi_gen2_session_close i)"
  unfolding iris_hfi_gen2_session_close_def by (intro does_rules)

lemma does_plane_cmd [does_rules]: "does i (plane_cmd k plane cmd flags info p)"
proof -
  have "does i (session_cmd k cmd flags port info p)" for port by (intro does_rules)
  from does_use[OF this] show ?thesis unfolding plane_cmd_def .
qed

lemma does_subscribe [does_rules]: "does i (subscribe k plane mode tbl)"
proof -
  have "does i (session_cmd k cmd flags port info p)" for cmd flags port info p by (intro does_rules)
  from does_use[OF this] show ?thesis
    unfolding subscribe_def iris_hfi_gen2_session_subscribe_mode_def
    by (intro does_and_then does_overrun)
qed

lemma does_announce_param [does_rules]: "does i (announce_param k p ty)"
  unfolding announce_param_def by (auto split: option.splits intro: does_rules)

lemma does_change_param [does_rules]: "does i (iris_hfi_gen2_subscribe_change_param i plane)"
proof -
  have all: "does i (run_all (List.map (announce_param i p) tbl))" for p tbl
    by (rule does_run_all) (auto intro: does_rules)
  have "does i (\<lambda>s. and_then (run_all (List.map (announce_param i (dst_subcr_params (gen2 (inst_heap s i)))) tbl))
      (run (set_gen2 i f)) s)" for tbl f
    by (rule does_use[where f = "\<lambda>p. and_then (run_all (List.map (announce_param i p) tbl)) (run (set_gen2 i f))"])
      (intro does_rules all)
  then have "does i (and_then (subscribe i plane mode tbl)
        (if V4L2_TYPE_IS_OUTPUT plane then run (set_gen2 i (ipsc_properties_set_update (\<lambda>_. True)))
         else and_then (run (set_gen2 i (\<lambda>g. g\<lparr>dst_subcr_params := src_subcr_params g\<rparr>)))
             (\<lambda>s. and_then
                (run_all (List.map (announce_param i (dst_subcr_params (gen2 (inst_heap s i)))) tbl))
                (run (set_gen2 i (opsc_properties_set_update (\<lambda>_. True)))) s)))" for mode tbl
    by (auto intro!: does_and_then does_subscribe does_run acts_set_gen2)
  then show ?thesis
    by (simp add: does_def iris_hfi_gen2_subscribe_change_param_def Let_def)
qed

lemma does_subscribe_property [does_rules]: "does i (iris_hfi_gen2_subscribe_property i plane)"
  using does_subscribe by (simp add: does_def iris_hfi_gen2_subscribe_property_def)

lemma does_gen2_start [does_rules]: "does i (iris_hfi_gen2_session_start i plane)"
  unfolding iris_hfi_gen2_session_start_def by (intro does_rules)

lemma does_gen2_stop [does_rules]: "does i (iris_hfi_gen2_session_stop i plane)"
  unfolding iris_hfi_gen2_session_stop_def by (intro does_rules)

lemma does_gen2_plane [does_rules]:
  "does i (iris_hfi_gen2_session_pause i plane)" "does i (iris_hfi_gen2_session_resume_drc i plane)"
  "does i (iris_hfi_gen2_session_resume_drain i plane)" "does i (iris_hfi_gen2_session_drain i plane)"
  unfolding iris_hfi_gen2_session_pause_def iris_hfi_gen2_session_resume_drc_def
    iris_hfi_gen2_session_resume_drain_def iris_hfi_gen2_session_drain_def
  by (intro does_rules)+

lemma does_buffer_cmd [does_rules]: "does i (buffer_cmd k flags p b)"
proof -
  have "does i (session_cmd k cmd flags port info p)" for cmd port info by (intro does_rules)
  from does_use[OF this] show ?thesis unfolding buffer_cmd_def .
qed

lemma does_num_comv [does_rules]: "does i (iris_set_num_comv k)"
proof -
  have "does i (iris_hfi_gen2_session_set_property k ty flag port info (words [w]) 4)" for ty flag port info w
    by (intro does_rules)
  from does_use[OF this] show ?thesis unfolding iris_set_num_comv_def .
qed

lemma does_gen2_buffers [does_rules]:
  "does i (iris_hfi_gen2_session_queue_buffer i b)" "does i (iris_hfi_gen2_session_release_buffer i b)"
proof -
  have "does i (and_then (\<lambda>s. if buf_type b = BUF_COMV then iris_set_num_comv i s else (0, s))
      (buffer_cmd i flags p b))" for flags p
    by (intro does_rules)
  then show "does i (iris_hfi_gen2_session_queue_buffer i b)"
    by (simp add: does_def iris_hfi_gen2_session_queue_buffer_def)
  show "does i (iris_hfi_gen2_session_release_buffer i b)"
    using does_buffer_cmd by (simp add: does_def iris_hfi_gen2_session_release_buffer_def)
qed

interpretation gen2: firmware_ops gen2_ops
  by unfold_locales (auto simp: gen2_ops_def intro: does_rules)

section \<open>The words of a message\<close>

text \<open>The packets of a message one after the other, numbered from \<open>pid\<close>.\<close>

fun packets_from :: "u32 \<Rightarrow> packet_spec list \<Rightarrow> u32 list" where
  "packets_from pid [] = []"
| "packets_from pid ((ty, flags, info, port, p) # sps) =
     packet_of ty flags info port pid p @ packets_from (pid + 1) sps"

definition header_words :: "nat \<Rightarrow> u32 \<Rightarrow> u32 \<Rightarrow> u32 \<Rightarrow> u32 list" where
  "header_words n sid hid count = [32 + 4 * word_of_nat n, sid, hid, 0, 0, 0, 0, count]"

lemma fold_add_packet:
  "fold add_packet sps (header_words n sid hid c @ l, s) =
     (header_words (n + length (packets_from (packet_id s) sps)) sid hid (c + word_of_nat (length sps)) @ l @
        packets_from (packet_id s) sps,
      s\<lparr>packet_id := packet_id s + word_of_nat (length sps)\<rparr>)"
proof (induction sps arbitrary: n c l s)
  case (Cons sp sps)
  obtain ty flags info port p where sp: "sp = (ty, flags, info, port, p)" by (cases sp) auto
  have one: "add_packet sp (header_words n sid hid c @ l, s) =
      (header_words (n + 8 + length p) sid hid (c + 1) @ (l @ packet_of ty flags info port (packet_id s) p),
       s\<lparr>packet_id := packet_id s + 1\<rparr>)"
    by (simp add: sp add_packet_def next_packet_def iris_hfi_gen2_create_packet_def Let_def header_words_def
        packet_of_def algebra_simps)
  show ?case
    by (simp only: fold_simps comp_apply one Cons.IH)
      (simp add: sp packet_of_def algebra_simps header_words_def)
qed (simp add: header_words_def)

lemma message_is:
  "message sid sps s =
     (header_words (length (packets_from (packet_id s) sps)) sid (header_id s) (word_of_nat (length sps)) @
        packets_from (packet_id s) sps,
      s\<lparr>header_id := header_id s + 1, packet_id := packet_id s + word_of_nat (length sps)\<rparr>)"
proof -
  have "iris_hfi_gen2_create_header sid (header_id s) = header_words 0 sid (header_id s) 0 @ []"
    by (simp add: iris_hfi_gen2_create_header_def header_words_def)
  then show ?thesis
    unfolding message_def next_header_def by (simp only: prod.case fold_add_packet) simp
qed

lemma message_wf:
  "message sid sps s = (ws, t) \<Longrightarrow> length ws \<le> 1024 \<Longrightarrow> wf_packet ws"
  by (auto simp: message_is wf_packet_def header_words_def)

lemma packet_of_length [simp]: "length (packet_of ty flags info port pid p) = 8 + length p"
  by (simp add: packet_of_def)

lemma packets_from_length [simp]:
  "length (packets_from pid sps) = (\<Sum>(ty, flags, info, port, p)\<leftarrow>sps. 8 + length p)"
  by (induction sps arbitrary: pid) auto

section \<open>Sending a message\<close>

text \<open>The NULL pointers the driver follows and the bounds it oversteps, counted.\<close>

definition mishaps :: "iris_sys \<Rightarrow> nat" where
  "mishaps s = length (List.filter (\<lambda>k. k = Oops) (klog s))"

lemma mishaps_tell [simp]: "mishaps (tell k s) = mishaps s + (if k = Oops then 1 else 0)"
  by (simp add: mishaps_def tell_def)

lemma mishaps_ask [simp]: "k (fst (ask k s)) \<noteq> Oops \<Longrightarrow> mishaps (snd (ask k s)) = mishaps s"
  by (simp add: mishaps_def ask_def Let_def)

lemma mishaps_cong: "klog t = klog s \<Longrightarrow> mishaps t = mishaps s"
  by (simp add: mishaps_def)

lemma mishaps_raise [simp]: "mishaps (iris_vpu_raise_interrupt s) = mishaps s"
  by (simp add: iris_vpu_raise_interrupt_def writel_def)

lemma send_locked_delivers:
  assumes "core_state s = IRIS_CORE_INIT" "q_ring (command_queue s) = Some q" "ring_holds q ps"
    "4 * length ws < ring_size - ring_fill q" "wf_packet ws"
  shows "\<exists>t q'. send_locked ws s = (0, t) \<and> mishaps t = mishaps s \<and> q_ring (command_queue t) = Some q' \<and>
    ring_holds q' (ps @ [frame_of ws]) \<and> frame_words (frame_of ws) = ws"
proof -
  obtain q' where q': "iris_hfi_queue_write q (packet_bytes ws) (hd ws) = (0, q')" "ring_ok q'"
    "ring_pending q' = ring_pending q @ frame_of ws"
    using write_appends[of q "hd ws" "packet_bytes ws"] assms(3,4) unat_hd_packet[OF assms(5)]
    by (auto simp: ring_holds_def frame_of_def)
  have "ring_holds q' (ps @ [frame_of ws])"
    using q' assms(3) frame_of_hfi[OF assms(5)] by (simp add: ring_holds_def)
  then show ?thesis
    using assms(1,2) q'(1)
    by (simp add: send_locked_def or_oops_def iris_hfi_queue_cmd_write_locked_def Let_def frame_words_of
        kernel_simps mishaps_cong[of "s\<lparr>command_queue := c\<rparr>" s for c])
qed

lemma frame_of_length: "length (frame_of ws) = 4 * length ws"
  by (simp add: frame_of_def)

text \<open>
  The message that starts the firmware announces eight packets, the command and the seven
  parameters of the memory layout of the platform, and has exactly the length of the memory
  allocated for it; with the core up it reaches the ring whole, and what the firmware reads at
  the end of each packet is the parameter it names.
\<close>

theorem gen2_sys_init_message:
  assumes "core_state s = IRIS_CORE_INIT" "q_ring (command_queue s) = Some q" "ring_holds q ps"
    "SYS_INIT_PKT_SIZE < ring_size - ring_fill q" "env s (length (klog s)) \<noteq> 0"
  shows "\<exists>t q' p. sys_init gen2_ops s = (0, t) \<and> mishaps t = mishaps s \<and>
    q_ring (command_queue t) = Some q' \<and> ring_holds q' (ps @ [p]) \<and> length p = SYS_INIT_PKT_SIZE \<and>
    frame_words p ! 0 = word_of_nat SYS_INIT_PKT_SIZE \<and> frame_words p ! 7 = word_of_nat NUM_SYS_INIT_PACKETS \<and>
    (let u = ubwc_config (platform s); param = (\<lambda>k. (frame_words p ! (9 + 9 * k), frame_words p ! (16 + 9 * k))) in
      List.map param [0..<8] =
       [(HFI_CMD_INIT, HFI_VIDEO_ARCH_LX), (HFI_PROP_UBWC_MAX_CHANNELS, max_channels u),
        (HFI_PROP_UBWC_MAL_LENGTH, mal_length u), (HFI_PROP_UBWC_HBB, highest_bank_bit u),
        (HFI_PROP_UBWC_BANK_SWZL_LEVEL1, bank_swzl_level u), (HFI_PROP_UBWC_BANK_SWZL_LEVEL2, bank_swz2_level u),
        (HFI_PROP_UBWC_BANK_SWZL_LEVEL3, bank_swz3_level u), (HFI_PROP_UBWC_BANK_SPREADING, bank_spreading u)])"
proof -
  define s1 where "s1 = snd (ask Kzalloc s)"
  obtain ws t1 where m: "iris_hfi_gen2_packet_sys_init s1 = (ws, t1)" by fastforce
  have len: "length ws = 80"
    using m by (auto simp: iris_hfi_gen2_packet_sys_init_def message_is header_words_def Let_def)
  have t1: "core_state t1 = IRIS_CORE_INIT" "q_ring (command_queue t1) = Some q" "mishaps t1 = mishaps s"
    using m assms(1,2) by (auto simp: iris_hfi_gen2_packet_sys_init_def message_is s1_def ask_def mishaps_def Let_def)
  have wf: "wf_packet ws"
    by (rule message_wf[OF m[unfolded iris_hfi_gen2_packet_sys_init_def Let_def]]) (simp add: len)
  obtain t q' where sent: "send_locked ws t1 = (0, t)" "mishaps t = mishaps t1" "q_ring (command_queue t) = Some q'"
      "ring_holds q' (ps @ [frame_of ws])" "frame_words (frame_of ws) = ws"
    using send_locked_delivers[OF t1(1,2) assms(3) _ wf] assms(4) len
    by (auto simp: SYS_INIT_PKT_SIZE_def NUM_SYS_INIT_PACKETS_def)
  have "sys_init gen2_ops s = (0, t)"
    using assms(5) m sent(1) len
    by (simp add: gen2_ops_def iris_hfi_gen2_sys_init_def send_system_def kzalloc_def ask_def Let_def
        s1_def run_def and_then_def SYS_INIT_PKT_SIZE_def NUM_SYS_INIT_PACKETS_def)
  moreover have "ws ! 0 = 320 \<and> ws ! 7 = 8 \<and>
    (let u = ubwc_config (platform s); param = (\<lambda>k. (ws ! (9 + 9 * k), ws ! (16 + 9 * k))) in
      List.map param [0..<8] =
       [(HFI_CMD_INIT, HFI_VIDEO_ARCH_LX), (HFI_PROP_UBWC_MAX_CHANNELS, max_channels u),
        (HFI_PROP_UBWC_MAL_LENGTH, mal_length u), (HFI_PROP_UBWC_HBB, highest_bank_bit u),
        (HFI_PROP_UBWC_BANK_SWZL_LEVEL1, bank_swzl_level u), (HFI_PROP_UBWC_BANK_SWZL_LEVEL2, bank_swz2_level u),
        (HFI_PROP_UBWC_BANK_SWZL_LEVEL3, bank_swz3_level u), (HFI_PROP_UBWC_BANK_SPREADING, bank_spreading u)])"
    using m by (auto simp: iris_hfi_gen2_packet_sys_init_def message_is header_words_def packet_of_def
        s1_def ask_def Let_def upt_rec[of _ "8::nat"])
  ultimately show ?thesis
    using sent t1(3) len
    by (intro exI[of _ t] exI[of _ q'] exI[of _ "frame_of ws"])
      (simp add: frame_of_length SYS_INIT_PKT_SIZE_def NUM_SYS_INIT_PACKETS_def)
qed

lemma send_session_delivers:
  assumes "core_state s = IRIS_CORE_INIT" "q_ring (command_queue s) = Some q" "ring_holds q ps"
    "4 * length ws < ring_size - ring_fill q" "0 \<le> env s (length (klog s))" "has_packet i s"
    and m: "message sid sps s = (ws, s1)" and len: "length ws \<le> 1024"
  shows "\<exists>t q'. send_session i (message sid sps) s = (0, t) \<and> q_ring (command_queue t) = Some q' \<and>
    ring_holds q' (ps @ [frame_of ws]) \<and> frame_words (frame_of ws) = ws"
proof -
  have s1: "core_state s1 = core_state s" "command_queue s1 = command_queue s" "env s1 = env s" "klog s1 = klog s"
    using m by (auto simp: message_is)
  obtain t q' where sent: "send ws s1 = (0, t)" "q_ring (command_queue t) = Some q'"
    "ring_holds q' (ps @ [frame_of ws])" "frame_words (frame_of ws) = ws"
    using send_delivers[of s1 q ps ws] assms(1-5) message_wf[OF m len] unfolding s1 by blast
  then show ?thesis
    using assms(6) m len by (simp add: send_session_def run_def and_then_def PACKET_BUFFER_SIZE_def)
qed

text \<open>
  C34. A buffer handed to the firmware arrives, and the firmware can tell it by its address. With
  the core up, a runtime-PM reference, room in the ring and the session's packet buffer,
  queueing a buffer of any type but the motion vectors, which take a packet more, adds one message
  of one buffer packet; the words read there are the session, the port and the type of the buffer,
  its index, all 64 bits of its address and time stamp, and the release flag exactly if a release is pending.
\<close>

theorem gen2_queue_buf_delivers:
  assumes "core_state s = IRIS_CORE_INIT" "q_ring (command_queue s) = Some q" "ring_holds q ps"
    "128 < ring_size - ring_fill q" "0 \<le> env s (length (klog s))" "has_packet i s" "buf_type b \<noteq> BUF_COMV"
  shows "\<exists>t q' p. session_queue_buf gen2_ops i b s = (0, t) \<and>
    q_ring (command_queue t) = Some q' \<and> ring_holds q' (ps @ [p]) \<and>
    (let w = (\<lambda>k. frame_words p ! k); inst = inst_heap s i in
     w 0 = 128 \<and> w 1 = session_id inst \<and> w 7 = 1 \<and> w 8 = 96 \<and> w 9 = HFI_CMD_BUFFER \<and>
     w 12 = iris_hfi_gen2_get_port_from_buf_type inst (buf_type b) \<and>
     w 16 = iris_hfi_gen2_buf_type_from_driver (domain inst) (buf_type b) \<and> w 17 = buf_index b \<and>
     push_bit 32 (ucast (w 19)) OR ucast (w 18) = device_addr b \<and>
     push_bit 32 (ucast (w 25)) OR ucast (w 24) = buf_timestamp b \<and>
     (has (w 26) HFI_BUF_HOST_FLAG_RELEASE \<longleftrightarrow> has (buf_attr b) BUF_ATTR_PENDING_RELEASE))"
proof -
  let ?inst = "inst_heap s i"
  let ?p = "iris_hfi_gen2_get_buffer (domain ?inst) 0 b"
  let ?sps = "[(HFI_CMD_BUFFER, HFI_HOST_FLAGS_INTR_REQUIRED, HFI_PAYLOAD_STRUCTURE,
    iris_hfi_gen2_get_port_from_buf_type ?inst (buf_type b), ?p)]"
  obtain ws s1 where m: "message (session_id ?inst) ?sps s = (ws, s1)" by fastforce
  have p: "length ?p = 16" by (simp add: iris_hfi_gen2_get_buffer_def Let_def)
  have len: "length ws = 32" using m p by (auto simp: message_is header_words_def)
  obtain t q' where sent: "send_session i (message (session_id ?inst) ?sps) s = (0, t)"
    "q_ring (command_queue t) = Some q'" "ring_holds q' (ps @ [frame_of ws])" "frame_words (frame_of ws) = ws"
    using send_session_delivers[OF assms(1-3) _ assms(5,6) m] assms(4) len by auto
  have op: "session_queue_buf gen2_ops i b s = (0, t)"
    using assms(7) sent(1)
    by (simp add: gen2_ops_def iris_hfi_gen2_session_queue_buffer_def and_then_def Let_def buffer_cmd_def
        session_cmd_def iris_hfi_gen2_packet_session_command_def)
  have flag: "has ((if c then HFI_BUF_HOST_FLAG_RELEASE else 0) OR HFI_BUF_HOST_FLAGS_CB_NON_SECURE OR 0 :: u32)
      HFI_BUF_HOST_FLAG_RELEASE \<longleftrightarrow> c" for c
    by (simp add: has_def)
  have ws: "ws ! 0 = 128 \<and> ws ! 1 = session_id ?inst \<and> ws ! 7 = 1 \<and> ws ! 8 = 96 \<and> ws ! 9 = HFI_CMD_BUFFER \<and>
     ws ! 12 = iris_hfi_gen2_get_port_from_buf_type ?inst (buf_type b) \<and> (\<forall>k < 16. ws ! (16 + k) = ?p ! k)"
    using m p by (auto simp: message_is header_words_def packet_of_def nth_append)
  have "ws ! 16 = ?p ! 0" "ws ! 17 = ?p ! 1" "ws ! 18 = ?p ! 2" "ws ! 19 = ?p ! 3" "ws ! 24 = ?p ! 8"
    "ws ! 25 = ?p ! 9" "ws ! 26 = ?p ! 10"
    using ws by (auto dest: spec[of _ 0] spec[of _ 1] spec[of _ 2] spec[of _ 3] spec[of _ 8] spec[of _ 9] spec[of _ 10])
  then have q: "ws ! 16 = iris_hfi_gen2_buf_type_from_driver (domain ?inst) (buf_type b)" "ws ! 17 = buf_index b"
    "ws ! 18 = lower_32_bits (device_addr b)" "ws ! 19 = upper_32_bits (device_addr b)"
    "ws ! 24 = lower_32_bits (buf_timestamp b)" "ws ! 25 = upper_32_bits (buf_timestamp b)"
    "ws ! 26 = (if has (buf_attr b) BUF_ATTR_PENDING_RELEASE then HFI_BUF_HOST_FLAG_RELEASE else 0) OR
       HFI_BUF_HOST_FLAGS_CB_NON_SECURE OR 0"
    by (simp_all add: iris_hfi_gen2_get_buffer_def Let_def)
  show ?thesis
    using op sent ws by (intro exI[of _ t] exI[of _ q'] exI[of _ "frame_of ws"])
      (simp only: Let_def q flag join_halves simp_thms)
qed

definition ready_gen2 :: iris_sys where
  "ready_gen2 = ready_sys\<lparr>inst_heap := (\<lambda>_. zero_inst\<lparr>session_id := 7, gen2 := zero_gen2\<lparr>gen2_packet := True\<rparr>\<rparr>)\<rparr>"

lemma ready_gen2_sel [simp]:
  "core_state ready_gen2 = IRIS_CORE_INIT" "q_ring (command_queue ready_gen2) = Some empty_ring"
  "env ready_gen2 = (\<lambda>_. 1)" "has_packet i ready_gen2" "session_id (inst_heap ready_gen2 i) = 7"
  by (simp_all add: ready_gen2_def has_packet_def)

lemma gen2_queue_buf_delivers_witness:
  "\<exists>t q' p. session_queue_buf gen2_ops 0 (zero_buffer\<lparr>device_addr := 0x100000000\<rparr>) ready_gen2 = (0, t) \<and>
     q_ring (command_queue t) = Some q' \<and> ring_holds q' ([] @ [p]) \<and> frame_words p ! 1 = 7 \<and>
     push_bit 32 (ucast (frame_words p ! 19)) OR ucast (frame_words p ! 18) = (0x100000000 :: u64)"
  using gen2_queue_buf_delivers[of ready_gen2 empty_ring "[]" 0 "zero_buffer\<lparr>device_addr := 0x100000000\<rparr>"]
  by (auto simp: zero_buffer_def Let_def)

lemma gen2_sys_init_message_witness:
  "\<exists>t q' p. sys_init gen2_ops ready_gen2 = (0, t) \<and> q_ring (command_queue t) = Some q' \<and>
     ring_holds q' ([] @ [p]) \<and> length p = 320"
  using gen2_sys_init_message[of ready_gen2 empty_ring "[]"]
  by (auto simp: SYS_INIT_PKT_SIZE_def NUM_SYS_INIT_PACKETS_def)

end
