(* ===== verification/IrisGen2Resp.thy ===== *)
theory IrisGen2Resp
  imports IrisGen2Ops IrisGen1Resp
begin

text \<open>
  The responses of the Gen2 firmware (\<open>iris_hfi_gen2_response.c\<close>): the checks on a message and its
  packets, what each packet does to the core or the session, and the order in which the packets
  of a message are served. A message is the bytes of the 4 KiB buffer \<open>response_packet\<close>; a packet
  of it is what is left of the buffer from its start, in bytes, and its words. A read past the
  buffer is the event \<open>Oops\<close>.
\<close>

section \<open>Reading a message\<close>

definition CORE_PKT_SIZE :: nat where "CORE_PKT_SIZE = unat IFACEQ_CORE_PKT_SIZE"

type_synonym gen2_packet = "nat \<times> packet_words"

definition packet_at :: "nat \<Rightarrow> bytes \<Rightarrow> gen2_packet" where
  "packet_at k b = (CORE_PKT_SIZE - k, \<lambda>j. load_u32 b (k + 4 * j))"

text \<open>Reading up to byte \<open>n\<close> of the buffer, or of what is left of it.\<close>

definition reads_to :: "nat \<Rightarrow> nat \<Rightarrow> iris_sys \<Rightarrow> iris_sys" where
  "reads_to limit n s = (if limit < n then tell Oops s else s)"

definition iris_hfi_gen2_validate_packet :: "nat \<Rightarrow> bytes \<Rightarrow> int" where
  "iris_hfi_gen2_validate_packet k b =
     (let size = load_u32 b k in
      if size = 0 then - EINVAL
      else if size < 32 then - EINVAL
      else if CORE_PKT_SIZE < k + unat size then - EINVAL else 0)"

fun validate_packets :: "nat \<Rightarrow> nat \<Rightarrow> bytes \<Rightarrow> iris_sys \<Rightarrow> int \<times> iris_sys" where
  "validate_packets 0 k b s = (0, s)"
| "validate_packets (Suc n) k b s =
     (let s1 = reads_to CORE_PKT_SIZE (k + 4) s; ret = iris_hfi_gen2_validate_packet k b in
      if ret \<noteq> 0 then (ret, s1) else validate_packets n (k + unat (load_u32 b k)) b s1)"

definition iris_hfi_gen2_validate_hdr_packet :: "bytes \<Rightarrow> iris_sys \<Rightarrow> int \<times> iris_sys" where
  "iris_hfi_gen2_validate_hdr_packet b s =
     (if load_u32 b 0 < 32 + 32 then (- EINVAL, s)
      else validate_packets (unat (load_u32 b 28)) 32 b s)"

text \<open>The packets of a message, by the sizes they announce.\<close>

fun packets :: "nat \<Rightarrow> nat \<Rightarrow> bytes \<Rightarrow> gen2_packet list" where
  "packets 0 k b = []"
| "packets (Suc n) k b = packet_at k b # packets n (k + unat (load_u32 b k)) b"

definition iris_hfi_gen2_validate_packet_payload :: "packet_words \<Rightarrow> bool" where
  "iris_hfi_gen2_validate_packet_payload w \<longleftrightarrow>
     (let payload_size =
        (if w 3 \<in> {HFI_PAYLOAD_U32, HFI_PAYLOAD_S32, HFI_PAYLOAD_Q16, HFI_PAYLOAD_U32_ENUM, HFI_PAYLOAD_32_PACKED}
         then 4
         else if w 3 \<in> {HFI_PAYLOAD_U64, HFI_PAYLOAD_S64, HFI_PAYLOAD_64_PACKED} then 8
         else if w 3 = HFI_PAYLOAD_STRUCTURE \<and> w 1 = HFI_CMD_BUFFER then 64 else 0)
      in 32 + payload_size \<le> w 0)"

section \<open>Types, ports and flags\<close>

text \<open>\<open>None\<close> is the number 0, which no type of buffer of the driver has.\<close>

definition iris_hfi_gen2_buf_type_to_driver :: "iris_inst \<Rightarrow> u32 \<Rightarrow> iris_buffer_type option" where
  "iris_hfi_gen2_buf_type_to_driver inst ty =
     (if ty = HFI_BUFFER_BITSTREAM then Some BUF_INPUT
      else if ty = HFI_BUFFER_RAW then Some BUF_OUTPUT
      else if ty = HFI_BUFFER_BIN then Some BUF_BIN
      else if ty = HFI_BUFFER_ARP then Some BUF_ARP
      else if ty = HFI_BUFFER_COMV then Some BUF_COMV
      else if ty = HFI_BUFFER_NON_COMV then Some BUF_NON_COMV
      else if ty = HFI_BUFFER_LINE then Some BUF_LINE
      else if ty = HFI_BUFFER_DPB then Some (if domain inst = DECODER then BUF_DPB else BUF_SCRATCH_2)
      else if ty = HFI_BUFFER_PERSIST then Some BUF_PERSIST else None)"

definition iris_hfi_gen2_is_valid_hfi_buffer_type :: "u32 \<Rightarrow> bool" where
  "iris_hfi_gen2_is_valid_hfi_buffer_type ty \<longleftrightarrow>
     ty \<in> {HFI_BUFFER_BITSTREAM, HFI_BUFFER_RAW, HFI_BUFFER_BIN, HFI_BUFFER_ARP, HFI_BUFFER_COMV,
           HFI_BUFFER_NON_COMV, HFI_BUFFER_LINE, HFI_BUFFER_DPB, HFI_BUFFER_PERSIST, HFI_BUFFER_VPSS}"

definition iris_hfi_gen2_is_valid_hfi_port :: "u32 \<Rightarrow> u32 \<Rightarrow> bool" where
  "iris_hfi_gen2_is_valid_hfi_port port ty \<longleftrightarrow>
     (if port = HFI_PORT_NONE \<and> ty \<noteq> HFI_BUFFER_PERSIST then False
      else if port \<noteq> HFI_PORT_BITSTREAM \<and> port \<noteq> HFI_PORT_RAW then False else True)"

definition iris_hfi_gen2_get_driver_buffer_flags :: "iris_inst \<Rightarrow> u32 \<Rightarrow> u32" where
  "iris_hfi_gen2_get_driver_buffer_flags inst hfi_flags =
     (let info = hfi_frame_info (gen2 inst); pic = picture_type info;
          keyframe = HFI_GEN2_PICTURE_IDR OR HFI_GEN2_PICTURE_I OR HFI_GEN2_PICTURE_CRA OR HFI_GEN2_PICTURE_BLA
      in (if has pic HFI_GEN2_PICTURE_NOSHOW then V4L2_BUF_FLAG_ERROR
          else if has pic keyframe then V4L2_BUF_FLAG_KEYFRAME
          else if has pic HFI_GEN2_PICTURE_P then V4L2_BUF_FLAG_PFRAME
          else if has pic HFI_GEN2_PICTURE_B then V4L2_BUF_FLAG_BFRAME else 0) OR
         (if data_corrupt info \<noteq> 0 \<or> overflow info \<noteq> 0 then V4L2_BUF_FLAG_ERROR else 0) OR
         (if has hfi_flags HFI_BUF_FW_FLAG_LAST \<or> has hfi_flags HFI_BUF_FW_FLAG_PSC_LAST
          then V4L2_BUF_FLAG_LAST else 0))"

section \<open>Information and errors\<close>

definition on_frame_info :: "nat \<Rightarrow> (iris_hfi_frame_info \<Rightarrow> iris_hfi_frame_info) \<Rightarrow> iris_sys \<Rightarrow> iris_sys" where
  "on_frame_info i f = set_gen2 i (hfi_frame_info_update f)"

definition iris_hfi_gen2_handle_session_info :: "nat \<Rightarrow> gen2_packet \<Rightarrow> iris_sys \<Rightarrow> int \<times> iris_sys" where
  "iris_hfi_gen2_handle_session_info i pkt s =
     (let ty = snd pkt 1 in
      if ty = HFI_INFO_DATA_CORRUPT then (0, on_frame_info i (data_corrupt_update (\<lambda>_. 1)) s)
      else if ty = HFI_INFO_BUFFER_OVERFLOW then (0, on_frame_info i (overflow_update (\<lambda>_. 1)) s)
      else if ty = HFI_INFO_HFI_FLAG_DRAIN_LAST then on_inst i iris_inst_sub_state_change_drain_last s
      else if ty = HFI_INFO_HFI_FLAG_PSC_LAST then on_inst i iris_inst_sub_state_change_drc_last s
      else (0, s))"

definition iris_hfi_gen2_handle_session_error :: "nat \<Rightarrow> gen2_packet \<Rightarrow> iris_sys \<Rightarrow> int \<times> iris_sys" where
  "iris_hfi_gen2_handle_session_error i pkt s = (0, inst_error i (iris_vb2_queue_error s))"

definition iris_hfi_gen2_handle_system_error :: "iris_sys \<Rightarrow> int \<times> iris_sys" where
  "iris_hfi_gen2_handle_system_error s =
     (let s1 = s\<lparr>core_state := IRIS_CORE_ERROR\<rparr>
      in (0, tell Queue_error_work (fold inst_error (instances s1) s1)))"

definition iris_hfi_gen2_handle_system_init :: "gen2_packet \<Rightarrow> iris_sys \<Rightarrow> int \<times> iris_sys" where
  "iris_hfi_gen2_handle_system_init pkt s =
     (if \<not> has (snd pkt 2) HFI_FW_FLAGS_SUCCESS then (0, s\<lparr>core_state := IRIS_CORE_ERROR\<rparr>)
      else (0, tell Complete_core_init s))"

definition iris_hfi_gen2_handle_session_close :: "nat \<Rightarrow> gen2_packet \<Rightarrow> iris_sys \<Rightarrow> iris_sys" where
  "iris_hfi_gen2_handle_session_close i pkt s =
     (if \<not> has (snd pkt 2) HFI_FW_FLAGS_SUCCESS then inst_error i s else tell (Complete False) s)"

section \<open>Buffers\<close>

text \<open>The fields of \<open>struct iris_hfi_buffer\<close> in the payload, which starts at word 8 of the packet.\<close>

definition hfi_buf_address :: "packet_words \<Rightarrow> u64" where
  "hfi_buf_address w = push_bit 32 (ucast (w 11)) OR ucast (w 10)"

definition hfi_buf_timestamp :: "packet_words \<Rightarrow> u64" where
  "hfi_buf_timestamp w = push_bit 32 (ucast (w 17)) OR ucast (w 16)"

definition dequeued_attr :: "u32 \<Rightarrow> u32" where
  "dequeued_attr a = (a AND NOT BUF_ATTR_QUEUED) OR BUF_ATTR_DEQUEUED"

definition iris_hfi_gen2_handle_input_buffer :: "nat \<Rightarrow> gen2_packet \<Rightarrow> iris_sys \<Rightarrow> int \<times> iris_sys" where
  "iris_hfi_gen2_handle_input_buffer i pkt s =
     (let w = snd pkt; s1 = (if m2m_src (inst_heap s i) = [] then s else reads_to (fst pkt) 40 s) in
      case List.find (\<lambda>b. buf_index b = w 9) (m2m_src (inst_heap s1 i)) of
        None \<Rightarrow> (- EINVAL, s1)
      | Some b \<Rightarrow>
          if \<not> has (buf_attr b) BUF_ATTR_QUEUED then (- EINVAL, s1)
          else let fl = iris_hfi_gen2_get_driver_buffer_flags (inst_heap s1 i) (w 18);
                   f = (\<lambda>b. b\<lparr>buf_attr := dequeued_attr (buf_attr b), buf_flags := fl\<rparr>)
               in (0, modify_inst i (map_buf f (Src (w 9))) (reads_to (fst pkt) 76 s1)))"

text \<open>The marks of the last buffer of a drain and of a change of resolution.\<close>

definition last_marks :: "nat \<Rightarrow> u32 \<Rightarrow> iris_sys \<Rightarrow> int \<times> iris_sys" where
  "last_marks i fl =
     and_then (\<lambda>s. if has fl HFI_BUF_FW_FLAG_LAST then on_inst i iris_inst_sub_state_change_drain_last s else (0, s))
              (\<lambda>s. if has fl HFI_BUF_FW_FLAG_PSC_LAST then on_inst i iris_inst_sub_state_change_drc_last s else (0, s))"

definition output_matches :: "packet_words \<Rightarrow> iris_buffer \<Rightarrow> bool" where
  "output_matches w b \<longleftrightarrow> buf_index b = w 9 \<and> device_addr b = hfi_buf_address w \<and> data_offset b = w 14"

definition filled :: "packet_words \<Rightarrow> iris_inst \<Rightarrow> iris_buffer \<Rightarrow> iris_buffer" where
  "filled w x b =
     (let empty = w 15 = 0 \<and> inst_state x = IRIS_INST_STREAMING \<and> \<not> has (w 18) HFI_BUF_FW_FLAG_LAST
      in b\<lparr>data_offset := w 14, data_size := ucast (w 15), buf_timestamp := hfi_buf_timestamp w,
           buf_attr := dequeued_attr (buf_attr b),
           buf_flags := iris_hfi_gen2_get_driver_buffer_flags x (w 18) OR (if empty then V4L2_BUF_FLAG_ERROR else 0)\<rparr>)"

definition iris_hfi_gen2_handle_output_buffer :: "nat \<Rightarrow> gen2_packet \<Rightarrow> iris_sys \<Rightarrow> int \<times> iris_sys" where
  "iris_hfi_gen2_handle_output_buffer i pkt s =
     (let w = snd pkt in
      and_then (last_marks i (w 18))
        (\<lambda>s1. case List.find (output_matches w) (m2m_dst (inst_heap s1 i)) of
            None \<Rightarrow> (- EINVAL, s1)
          | Some b \<Rightarrow>
              if \<not> has (buf_attr b) BUF_ATTR_QUEUED then (- EINVAL, s1)
              else (0, modify_inst i (map_buf (filled w (inst_heap s1 i)) (Dst (w 9))) s1))
        (reads_to (fst pkt) 76 s))"

text \<open>A buffer the firmware is done with goes back to the client, once.\<close>

definition dequeue_one :: "nat \<Rightarrow> buf_ref \<Rightarrow> iris_sys \<Rightarrow> int \<times> iris_sys" where
  "dequeue_one i r = with_buf i r (\<lambda>b s.
     if \<not> has (buf_attr b) BUF_ATTR_DEQUEUED then (0, s)
     else let done_already = has (buf_attr b) BUF_ATTR_BUFFER_DONE;
              f = buf_attr_update (\<lambda>a. (a AND NOT BUF_ATTR_DEQUEUED) OR (if done_already then 0 else BUF_ATTR_BUFFER_DONE));
              s1 = modify_inst i (map_buf f r) s
          in (0, if done_already then s1 else snd (iris_vb2_buffer_done i (f b) s1)))"

definition dequeue_all :: "nat \<Rightarrow> (iris_inst \<Rightarrow> buf_ref list) \<Rightarrow> iris_sys \<Rightarrow> iris_sys" where
  "dequeue_all i refs s = snd (run_all (List.map (dequeue_one i) (refs (inst_heap s i))) s)"

definition iris_hfi_gen2_handle_dequeue_buffers :: "nat \<Rightarrow> iris_sys \<Rightarrow> iris_sys" where
  "iris_hfi_gen2_handle_dequeue_buffers i s =
     dequeue_all i (\<lambda>x. List.map (\<lambda>b. Dst (buf_index b)) (m2m_dst x))
       (dequeue_all i (\<lambda>x. List.map (\<lambda>b. Src (buf_index b)) (m2m_src x)) s)"

text \<open>
  The list of type 0, which a type the driver does not map stands for, is the head of a list
  no one initialised: its first element is a NULL pointer.
\<close>

definition iris_hfi_gen2_handle_release_internal_buffer :: "nat \<Rightarrow> gen2_packet \<Rightarrow> iris_sys \<Rightarrow> int \<times> iris_sys" where
  "iris_hfi_gen2_handle_release_internal_buffer i pkt s =
     (let w = snd pkt in
      case iris_hfi_gen2_buf_type_to_driver (inst_heap s i) (w 8) of
        None \<Rightarrow> (- EIO, tell Oops s)
      | Some ty \<Rightarrow>
          let l = buf_list (buffers (inst_heap s i) ty); s1 = (if l = [] then s else reads_to (fst pkt) 48 s) in
          case List.find (\<lambda>k. device_addr (l ! k) = hfi_buf_address w) [0..<length l] of
            None \<Rightarrow> (- EINVAL, s1)
          | Some k \<Rightarrow>
              let unqueue = (\<lambda>a. a AND NOT BUF_ATTR_QUEUED)
              in iris_destroy_internal_buffer i ty (buf_attr_update unqueue (l ! k))
                   (set_attr i (Internal ty k) unqueue s1))"

definition iris_hfi_gen2_handle_session_buffer :: "nat \<Rightarrow> gen2_packet \<Rightarrow> iris_sys \<Rightarrow> int \<times> iris_sys" where
  "iris_hfi_gen2_handle_session_buffer i pkt s =
     (let w = snd pkt in
      if w 3 = HFI_PAYLOAD_NONE then (0, s)
      else if \<not> iris_hfi_gen2_validate_packet_payload w then (0, inst_error i s)
      else let s1 = reads_to (fst pkt) 36 s; ty = w 8; d = domain (inst_heap s1 i) in
        if \<not> iris_hfi_gen2_is_valid_hfi_buffer_type ty \<or> \<not> iris_hfi_gen2_is_valid_hfi_port (w 4) ty then (0, s1)
        else if ty = (if d = DECODER then HFI_BUFFER_BITSTREAM else HFI_BUFFER_RAW)
        then iris_hfi_gen2_handle_input_buffer i pkt s1
        else if ty = (if d = DECODER then HFI_BUFFER_RAW else HFI_BUFFER_BITSTREAM)
        then iris_hfi_gen2_handle_output_buffer i pkt s1
        else iris_hfi_gen2_handle_release_internal_buffer i pkt s1)"

section \<open>Commands\<close>

definition iris_hfi_gen2_handle_session_stop :: "nat \<Rightarrow> gen2_packet \<Rightarrow> iris_sys \<Rightarrow> int \<times> iris_sys" where
  "iris_hfi_gen2_handle_session_stop i pkt s =
     (let w = snd pkt in
      case (if w 4 = HFI_PORT_RAW then on_inst i (iris_inst_sub_state_change_pause CAPTURE_MPLANE) s
            else if w 4 = HFI_PORT_BITSTREAM then on_inst i (iris_inst_sub_state_change_pause OUTPUT_MPLANE) s
            else (0, s)) of (ret, s1) \<Rightarrow> (ret, tell (Complete False) s1))"

definition iris_hfi_gen2_handle_session_drain :: "nat \<Rightarrow> gen2_packet \<Rightarrow> iris_sys \<Rightarrow> int \<times> iris_sys" where
  "iris_hfi_gen2_handle_session_drain i pkt s =
     (if \<not> has (snd pkt 2) HFI_FW_FLAGS_SUCCESS then (0, inst_error i s)
      else if has (sub_state (inst_heap s i)) IRIS_INST_SUB_DRAIN
      then on_inst i (iris_inst_change_sub_state 0 IRIS_INST_SUB_INPUT_PAUSE) s else (0, s))"

text \<open>The parameters of a stream, read into the formats, the crop rectangle and the capabilities.\<close>

definition set_cap :: "nat \<Rightarrow> u32 \<Rightarrow> iris_inst \<Rightarrow> iris_inst" where
  "set_cap c v x = x\<lparr>fw_caps := (fw_caps x)(c := (fw_caps x c)\<lparr>cap_value := uint v\<rparr>)\<rparr>"

definition set_codec_caps :: "hfi_subscription_params \<Rightarrow> iris_inst \<Rightarrow> iris_inst" where
  "set_codec_caps p x =
     (if codec x = V4L2_PIX_FMT_HEVC then set_cap LEVEL_HEVC (sub_level p) (set_cap PROFILE_HEVC (sub_profile p) x)
      else if codec x = V4L2_PIX_FMT_VP9 then set_cap LEVEL_VP9 (sub_level p) (set_cap PROFILE_VP9 (sub_profile p) x)
      else if codec x = V4L2_PIX_FMT_H264 then set_cap LEVEL_H264 (sub_level p) (set_cap PROFILE_H264 (sub_profile p) x)
      else x)"

definition subscribed_formats :: "iris_platform_data \<Rightarrow> hfi_subscription_params \<Rightarrow> iris_inst \<Rightarrow> iris_inst" where
  "subscribed_formats pd p x =
     (let width = drop_bit 16 (bitstream_resolution p AND HFI_BITMASK_BITSTREAM_WIDTH);
          height = bitstream_resolution p AND HFI_BITMASK_BITSTREAM_HEIGHT;
          x1 = x\<lparr>fmt_src := (fmt_src x)\<lparr>pix_width := width, pix_height := height\<rparr>,
                 fmt_dst := (fmt_dst x)\<lparr>pix_width := ALIGN width 128, pix_height := ALIGN height 32,
                   bytesperline := ALIGN width 128\<rparr>\<rparr>;
          dst = stream_colour (color_info p) ((fmt_dst x1)\<lparr>sizeimage := buffer_size_u32 pd BUF_OUTPUT x1\<rparr>)
      in x1\<lparr>fmt_dst := dst, fmt_src := set_colour dst (fmt_src x1)\<rparr>)"

definition subscribed_crop :: "hfi_subscription_params \<Rightarrow> v4l2_pix_mp \<Rightarrow> iris_hfi_rect_desc" where
  "subscribed_crop p f =
     (let lo = (\<lambda>v. v AND 0xFFFF); hi = (\<lambda>v. drop_bit 16 v AND 0xFFFF);
          top = lo (crop_offset_start p); left = hi (crop_offset_start p)
      in \<lparr>rect_left = left, rect_top = top,
          rect_width = pix_width f - hi (crop_offset_end p) - left,
          rect_height = pix_height f - lo (crop_offset_end p) - top\<rparr>)"

definition subscribed_params :: "iris_platform_data \<Rightarrow> hfi_subscription_params \<Rightarrow> iris_inst \<Rightarrow> iris_inst" where
  "subscribed_params pd p x =
     (let x1 = subscribed_formats pd p x;
          x2 = set_cap TIER (sub_tier p) (set_cap POC (pic_order_cnt p)
                 (set_codec_caps p (x1\<lparr>crop := subscribed_crop p (fmt_src x1)\<rparr>)));
          x3 = count_dst pd (x2\<lparr>fw_min_count := sub_min_count p\<rparr>)
      in set_buffers_info BUF_OUTPUT (\<lambda>b. b\<lparr>buf_size := sizeimage (fmt_dst x3)\<rparr>) x3)"

definition unsupported_content :: "hfi_subscription_params \<Rightarrow> bool" where
  "unsupported_content p \<longleftrightarrow>
     sub_bit_depth p \<noteq> BIT_DEPTH_8 \<or> \<not> has (sub_coded_frames p) HFI_BITMASK_FRAME_MBS_ONLY_FLAG"

definition iris_hfi_gen2_read_input_subcr_params :: "nat \<Rightarrow> iris_sys \<Rightarrow> iris_sys" where
  "iris_hfi_gen2_read_input_subcr_params i s =
     (let p = src_subcr_params (gen2 (inst_heap s i));
          s1 = modify_inst i (subscribed_params (platform s) p) s;
          s2 = (if unsupported_content p then inst_error i s1 else s1);
          count = min_count (buffers (inst_heap s2 i) BUF_OUTPUT)
      in tell (Vb2_min_reqbufs count) (tell (Ctrl_min_buffers count) s2))"

definition iris_hfi_gen2_handle_src_change :: "nat \<Rightarrow> gen2_packet \<Rightarrow> iris_sys \<Rightarrow> int \<times> iris_sys" where
  "iris_hfi_gen2_handle_src_change i pkt s =
     (if snd pkt 4 \<noteq> HFI_PORT_BITSTREAM then (0, s)
      else and_then (on_inst i iris_inst_sub_state_change_drc)
             (run (\<lambda>s1. iris_vdec_src_change i (iris_hfi_gen2_read_input_subcr_params i s1))) s)"

text \<open>The result of a stop is dropped.\<close>

definition iris_hfi_gen2_handle_session_command :: "nat \<Rightarrow> gen2_packet \<Rightarrow> iris_sys \<Rightarrow> int \<times> iris_sys" where
  "iris_hfi_gen2_handle_session_command i pkt s =
     (let ty = snd pkt 1 in
      if ty = HFI_CMD_CLOSE then (0, iris_hfi_gen2_handle_session_close i pkt s)
      else if ty = HFI_CMD_STOP then (0, snd (iris_hfi_gen2_handle_session_stop i pkt s))
      else if ty = HFI_CMD_BUFFER then iris_hfi_gen2_handle_session_buffer i pkt s
      else if ty = HFI_CMD_SETTINGS_CHANGE then iris_hfi_gen2_handle_src_change i pkt s
      else if ty = HFI_CMD_DRAIN then iris_hfi_gen2_handle_session_drain i pkt s
      else (0, s))"

section \<open>Properties\<close>

text \<open>The words a property is read from, at the start of the payload, unchecked.\<close>

definition subscribed_value :: "packet_words \<Rightarrow> (nat \<times> (hfi_subscription_params \<Rightarrow> hfi_subscription_params)) option" where
  "subscribed_value w =
     (let ty = w 1; v = w 8 in
      if ty = HFI_PROP_BITSTREAM_RESOLUTION then Some (36, bitstream_resolution_update (\<lambda>_. v))
      else if ty = HFI_PROP_CROP_OFFSETS
      then Some (40, \<lambda>p. p\<lparr>crop_offset_start := v, crop_offset_end := w 9\<rparr>)
      else if ty = HFI_PROP_LUMA_CHROMA_BIT_DEPTH then Some (36, sub_bit_depth_update (\<lambda>_. v))
      else if ty = HFI_PROP_CODED_FRAMES then Some (36, sub_coded_frames_update (\<lambda>_. v))
      else if ty = HFI_PROP_BUFFER_FW_MIN_OUTPUT_COUNT then Some (36, sub_min_count_update (\<lambda>_. v))
      else if ty = HFI_PROP_PIC_ORDER_CNT_TYPE then Some (36, pic_order_cnt_update (\<lambda>_. v))
      else if ty = HFI_PROP_SIGNAL_COLOR_INFO then Some (36, color_info_update (\<lambda>_. v))
      else if ty = HFI_PROP_PROFILE then Some (36, sub_profile_update (\<lambda>_. v))
      else if ty = HFI_PROP_LEVEL then Some (36, sub_level_update (\<lambda>_. v))
      else if ty = HFI_PROP_TIER then Some (36, sub_tier_update (\<lambda>_. v))
      else None)"

definition iris_hfi_gen2_handle_session_property :: "nat \<Rightarrow> gen2_packet \<Rightarrow> iris_sys \<Rightarrow> int \<times> iris_sys" where
  "iris_hfi_gen2_handle_session_property i pkt s =
     (let w = snd pkt in
      if has (w 2) HFI_FW_FLAGS_INFORMATION then (0, s)
      else case subscribed_value w of
        Some (n, f) \<Rightarrow> (0, on_src i f (reads_to (fst pkt) n s))
      | None \<Rightarrow>
          if w 1 = HFI_PROP_PICTURE_TYPE
          then (0, on_frame_info i (picture_type_update (\<lambda>_. w 8)) (reads_to (fst pkt) 36 s))
          else if w 1 = HFI_PROP_NO_OUTPUT then (0, on_frame_info i (no_output_update (\<lambda>_. 1)) s)
          else (0, s))"

text \<open>The version of the firmware image only goes to the kernel log.\<close>

definition iris_hfi_gen2_handle_image_version_property :: "gen2_packet \<Rightarrow> int" where
  "iris_hfi_gen2_handle_image_version_property pkt =
     (let req_bytes = snd pkt 0 - 32
      in if req_bytes < word_of_nat (IRIS_FW_VERSION_LENGTH - 1) then - EINVAL else 0)"

definition iris_hfi_gen2_handle_system_property :: "gen2_packet \<Rightarrow> iris_sys \<Rightarrow> int \<times> iris_sys" where
  "iris_hfi_gen2_handle_system_property pkt s =
     (if snd pkt 1 = HFI_PROP_IMAGE_VERSION then (iris_hfi_gen2_handle_image_version_property pkt, s) else (0, s))"

section \<open>Messages\<close>

definition in_range :: "u32 \<Rightarrow> u32 \<times> u32 \<Rightarrow> bool" where
  "in_range ty r \<longleftrightarrow> fst r < ty \<and> ty < snd r"

type_synonym core_range = "(u32 \<times> u32) \<times> (gen2_packet \<Rightarrow> iris_sys \<Rightarrow> int \<times> iris_sys)"

definition core_ranges :: "core_range list" where
  "core_ranges =
     [((HFI_SYSTEM_ERROR_BEGIN, HFI_SYSTEM_ERROR_END), \<lambda>_. iris_hfi_gen2_handle_system_error),
      ((HFI_PROP_BEGIN, HFI_PROP_END), iris_hfi_gen2_handle_system_property),
      ((HFI_CMD_BEGIN, HFI_CMD_END), iris_hfi_gen2_handle_system_init)]"

text \<open>
  A pass over the packets for one range of types; \<open>Some ret\<close> is an early return. The whole
  message is served in one pass for each range, in the order of the ranges.
\<close>

fun system_pass :: "core_range \<Rightarrow> gen2_packet list \<Rightarrow> iris_sys \<Rightarrow> int option \<times> iris_sys" where
  "system_pass r [] s = (None, s)"
| "system_pass r (pkt # pkts) s =
     (let w = snd pkt in
      if has (w 2) HFI_FW_FLAGS_SYSTEM_ERROR
      then (case iris_hfi_gen2_handle_system_error s of (ret, s1) \<Rightarrow> (Some ret, s1))
      else if in_range (w 1) (fst r) then
        (case snd r pkt s of (ret, s1) \<Rightarrow>
         if ret \<noteq> 0 then (Some ret, s1)
         else if in_range (w 1) (HFI_SYSTEM_ERROR_BEGIN, HFI_SYSTEM_ERROR_END) then (Some 0, s1)
         else system_pass r pkts s1)
      else system_pass r pkts s)"

fun system_passes :: "core_range list \<Rightarrow> gen2_packet list \<Rightarrow> iris_sys \<Rightarrow> int \<times> iris_sys" where
  "system_passes [] pkts s = (0, s)"
| "system_passes (r # rs) pkts s =
     (case system_pass r pkts s of
        (Some ret, s1) \<Rightarrow> (ret, s1)
      | (None, s1) \<Rightarrow> system_passes rs pkts s1)"

definition iris_hfi_gen2_handle_system_response :: "gen2_packet list \<Rightarrow> iris_sys \<Rightarrow> int \<times> iris_sys" where
  "iris_hfi_gen2_handle_system_response pkts = system_passes core_ranges pkts"

text \<open>Before a change of resolution is read, the parameters start from what the session has.\<close>

definition current_params :: "iris_inst \<Rightarrow> hfi_subscription_params \<Rightarrow> hfi_subscription_params" where
  "current_params x p =
     (let src = fmt_src x; dst = fmt_dst x; off = crop_offsets src (crop x) in
      (if codec x = V4L2_PIX_FMT_HEVC
       then p\<lparr>sub_profile := cap_u32 x PROFILE_HEVC, sub_level := cap_u32 x LEVEL_HEVC\<rparr>
       else if codec x = V4L2_PIX_FMT_VP9
       then p\<lparr>sub_profile := cap_u32 x PROFILE_VP9, sub_level := cap_u32 x LEVEL_VP9\<rparr>
       else if codec x = V4L2_PIX_FMT_H264
       then p\<lparr>sub_profile := cap_u32 x PROFILE_H264, sub_level := cap_u32 x LEVEL_H264\<rparr> else p)
      \<lparr>bitstream_resolution := packed (pix_width src) (pix_height src),
       crop_offset_start := off ! 0, crop_offset_end := off ! 1,
       sub_min_count := min_count (buffers x BUF_OUTPUT),
       color_info := iris_hfi_gen2_get_color_info
         (iris_hfi_gen2_get_matrix_coefficients (ycbcr_enc dst)) (iris_hfi_gen2_get_transfer_char (xfer_func dst))
         (iris_hfi_gen2_get_color_primaries (colorspace dst)) 0 (if quantization dst = 1 then 1 else 0) 0 0,
       pic_order_cnt := cap_u32 x POC, sub_bit_depth := cap_u32 x BIT_DEPTH,
       sub_coded_frames := (if cap_value (fw_caps x CODED_FRAMES) = CODED_FRAMES_PROGRESSIVE
                            then HFI_BITMASK_FRAME_MBS_ONLY_FLAG else 0)\<rparr>)"

definition iris_hfi_gen2_init_src_change_param :: "nat \<Rightarrow> iris_sys \<Rightarrow> iris_sys" where
  "iris_hfi_gen2_init_src_change_param i s = on_src i (current_params (inst_heap s i)) s"

type_synonym inst_range = "(u32 \<times> u32) \<times> (nat \<Rightarrow> gen2_packet \<Rightarrow> iris_sys \<Rightarrow> int \<times> iris_sys)"

definition inst_ranges :: "inst_range list" where
  "inst_ranges =
     [((HFI_SESSION_ERROR_BEGIN, HFI_SESSION_ERROR_END), iris_hfi_gen2_handle_session_error),
      ((HFI_INFORMATION_BEGIN, HFI_INFORMATION_END), iris_hfi_gen2_handle_session_info),
      ((HFI_PROP_BEGIN, HFI_PROP_END), iris_hfi_gen2_handle_session_property),
      ((HFI_CMD_BEGIN, HFI_CMD_END), iris_hfi_gen2_handle_session_command)]"

definition session_packet :: "nat \<Rightarrow> inst_range \<Rightarrow> gen2_packet \<Rightarrow> iris_sys \<Rightarrow> iris_sys" where
  "session_packet i r pkt s =
     (let w = snd pkt;
          s1 = (if has (w 2) HFI_FW_FLAGS_SESSION_ERROR
                then snd (iris_hfi_gen2_handle_session_error i pkt s) else s)
      in if in_range (w 1) (fst r)
         then (case snd r i pkt s1 of (ret, s2) \<Rightarrow> if ret \<noteq> 0 then inst_error i s2 else s2)
         else s1)"

definition session_passes :: "nat \<Rightarrow> gen2_packet list \<Rightarrow> iris_sys \<Rightarrow> iris_sys" where
  "session_passes i pkts = fold (\<lambda>r. fold (session_packet i r) pkts) inst_ranges"

definition announces_change :: "gen2_packet \<Rightarrow> bool" where
  "announces_change pkt \<longleftrightarrow> snd pkt 1 = HFI_CMD_SETTINGS_CHANGE \<and> snd pkt 4 = HFI_PORT_BITSTREAM"

text \<open>The result goes nowhere; a message for no session is dropped.\<close>

definition session_message :: "nat \<Rightarrow> gen2_packet list \<Rightarrow> iris_sys \<Rightarrow> iris_sys" where
  "session_message i pkts s =
     (let s1 = on_frame_info i (\<lambda>_. zero_frame_info) s;
          s2 = (if list_ex announces_change pkts then iris_hfi_gen2_init_src_change_param i s1 else s1);
          s3 = session_passes i pkts s2
      in if list_ex (\<lambda>pkt. snd pkt 1 = HFI_CMD_BUFFER) pkts
         then iris_hfi_gen2_handle_dequeue_buffers i s3 else s3)"

definition iris_hfi_gen2_handle_session_response :: "u32 \<Rightarrow> gen2_packet list \<Rightarrow> iris_sys \<Rightarrow> iris_sys" where
  "iris_hfi_gen2_handle_session_response sid pkts s =
     (case iris_get_instance s sid of None \<Rightarrow> s | Some i \<Rightarrow> session_message i pkts s)"

definition iris_hfi_gen2_handle_response :: "bytes \<Rightarrow> iris_sys \<Rightarrow> iris_sys" where
  "iris_hfi_gen2_handle_response b s =
     (case iris_hfi_gen2_validate_hdr_packet b s of (ret, s1) \<Rightarrow>
      let pkts = packets (unat (load_u32 b 28)) 32 b in
      if ret \<noteq> 0 then snd (iris_hfi_gen2_handle_system_error s1)
      else if load_u32 b 4 = 0 then snd (iris_hfi_gen2_handle_system_response pkts s1)
      else iris_hfi_gen2_handle_session_response (load_u32 b 4) pkts s1)"

section \<open>The response thread\<close>

text \<open>The loops of the thread end when their queue is empty; not returning is \<open>None\<close>.\<close>

definition zero_gen2_header :: "bytes \<Rightarrow> bytes" where
  "zero_gen2_header b = (\<lambda>k. if k < 32 then 0 else b k)"

partial_function (option) gen2_drain_messages :: "bytes \<Rightarrow> iris_sys \<Rightarrow> (bytes \<times> iris_sys) option" where
  "gen2_drain_messages b s =
     (case iris_hfi_queue_msg_read s b of
        None \<Rightarrow> Some (b, tell Oops s)
      | Some r \<Rightarrow>
          if fst r \<noteq> 0 then Some (snd (snd r), fst (snd r))
          else gen2_drain_messages (zero_gen2_header (snd (snd r)))
                 (iris_hfi_gen2_handle_response (snd (snd r)) (fst (snd r))))"

definition end_log_text :: "bytes \<Rightarrow> bytes" where
  "end_log_text b = (let n = load_u32 b 0 in if 16 \<le> n \<and> n < IFACEQ_CORE_PKT_SIZE then b(unat n := 0) else b)"

partial_function (option) iris_hfi_gen2_flush_debug_queue :: "bytes \<Rightarrow> iris_sys \<Rightarrow> (bytes \<times> iris_sys) option" where
  "iris_hfi_gen2_flush_debug_queue b s =
     (case iris_hfi_queue_dbg_read s b of
        None \<Rightarrow> Some (b, tell Oops s)
      | Some r \<Rightarrow>
          if fst r \<noteq> 0 then Some (snd (snd r), fst (snd r))
          else iris_hfi_gen2_flush_debug_queue (end_log_text (snd (snd r))) (fst (snd r)))"

definition iris_hfi_gen2_response_handler :: "bytes \<Rightarrow> iris_sys \<Rightarrow> (bytes \<times> iris_sys) option" where
  "iris_hfi_gen2_response_handler b s =
     (if iris_vpu_watchdog s (core_intr_status s) \<noteq> 0
      then Some (b, snd (iris_hfi_gen2_handle_system_error (s\<lparr>core_state := IRIS_CORE_ERROR\<rparr>)))
      else case gen2_drain_messages (zero_gen2_header b) s of
        None \<Rightarrow> None
      | Some r \<Rightarrow> iris_hfi_gen2_flush_debug_queue (fst r) (snd r))"

end
