(* ===== verification/IrisGen2Live.thy ===== *)
theory IrisGen2Live
  imports IrisGen2Ops IrisVidcLife
begin

text \<open>
  The packet buffer of a Gen2 session over its life: which commands use it, that opening and
  closing a session allocate and free it, and what a stream that is stopped twice does.
\<close>

section \<open>Commands that find what they use\<close>

definition tables_fit :: "iris_platform_data \<Rightarrow> bool" where
  "tables_fit pd \<longleftrightarrow> (\<forall>t \<in> {dec_input_config_params_default pd, dec_input_config_params_hevc pd,
     dec_input_config_params_vp9 pd, dec_input_prop pd, dec_output_prop_avc pd, dec_output_prop_hevc pd,
     dec_output_prop_vp9 pd}. length t < SUBSCRIBE_WORDS)"

definition usable :: "nat \<Rightarrow> iris_sys \<Rightarrow> bool" where
  "usable i s \<longleftrightarrow> has_packet i s \<and> q_ring (command_queue s) \<noteq> None \<and> tables_fit (platform s)"

definition sound :: "nat \<Rightarrow> iris_sys \<Rightarrow> iris_sys \<Rightarrow> bool" where
  "sound i s t \<longleftrightarrow> (usable i s \<longrightarrow> usable i t \<and> mishaps t = mishaps s)"

interpretation sounding: step_relation "sound i" for i
  by unfold_locales (auto simp: sound_def)

lemma asked: "ask k s = (r, t) \<Longrightarrow> k r \<noteq> Oops \<Longrightarrow>
    mishaps t = mishaps s \<and> command_queue t = command_queue s \<and> core_state t = core_state s"
  for s :: iris_sys
  by (auto simp: ask_def mishaps_def Let_def)

lemma mishaps_updates [simp]:
  "mishaps (s\<lparr>command_queue := c\<rparr>) = mishaps s" "mishaps (s\<lparr>header_id := h\<rparr>) = mishaps s"
  "mishaps (s\<lparr>packet_id := p\<rparr>) = mishaps s" "mishaps (modify_inst i f s) = mishaps s"
  by (simp_all add: mishaps_def)

lemma cmd_write_locked_quiet:
  assumes "q_ring (command_queue s) \<noteq> None"
  shows "\<exists>r t. iris_hfi_queue_cmd_write_locked s p n = Some (r, t) \<and> mishaps t = mishaps s"
  using assms by (auto simp: iris_hfi_queue_cmd_write_locked_def Let_def split: prod.split)

lemma send_no_mishap:
  assumes "q_ring (command_queue s) \<noteq> None"
  shows "mishaps (snd (send ws s)) = mishaps s"
proof -
  obtain ret s1 where 1: "ask (Pm_resume_and_get Core_dev) s = (ret, s1)" by fastforce
  then have m: "mishaps s1 = mishaps s" "q_ring (command_queue s1) \<noteq> None" using asked[OF 1] assms by auto
  obtain r t where "iris_hfi_queue_cmd_write_locked s1 (packet_bytes ws) (hd ws) = Some (r, t)" "mishaps t = mishaps s1"
    using cmd_write_locked_quiet[OF m(2)] by blast
  then show ?thesis
    using m(1) 1 by (auto simp: send_def or_oops_def iris_hfi_queue_cmd_write_def pm_runtime_resume_and_get_def)
qed

lemma usable_touches:
  assumes "touches i s t" "has_packet i t = has_packet i s"
  shows "usable i t = usable i s"
proof -
  have "session_frame t = session_frame s" using assms(1) by (simp add: touches_def)
  from session_frame_sel(2)[OF this] show ?thesis
    using assms by (simp add: usable_def touches_def)
qed

lemma sound_touches:
  "touches i s t \<Longrightarrow> (usable i s \<Longrightarrow> has_packet i t \<and> mishaps t = mishaps s) \<Longrightarrow> sound i s t"
  using usable_touches[of i s t] by (auto simp: sound_def usable_def)

text \<open>A message that fits the packet buffer is sent from it.\<close>

definition spec_words :: "packet_spec list \<Rightarrow> nat" where
  "spec_words sps = 8 + (\<Sum>(ty, flags, info, port, p)\<leftarrow>sps. 8 + length p)"

lemma sending_sound:
  assumes "spec_words sps \<le> 1024"
  shows "preserves (sound i) (send_session i (message sid sps))"
  unfolding preserves_def
proof
  fix s
  obtain ws s1 where m: "message sid sps s = (ws, s1)" by fastforce
  have d: "does j (send_session i (message sid sps))" for j by (intro does_rules)
  have heap: "inst_heap (snd (send_session i (message sid sps) s)) = inst_heap s"
    by (rule does_any_heap) (rule d)
  have t: "touches i s (snd (send_session i (message sid sps) s))" using d by (simp add: does_def)
  have q: "length ws \<le> 1024" "mishaps s1 = mishaps s" "command_queue s1 = command_queue s"
    using m assms by (auto simp: message_is header_words_def spec_words_def)
  show "sound i s (snd (send_session i (message sid sps) s))"
    using send_no_mishap[of s1 ws] q m heap
    by (intro sound_touches[OF t])
      (simp add: usable_def has_packet_def send_session_def PACKET_BUFFER_SIZE_def and_then_def run_def)
qed

lemma sound_use: "(\<And>x. preserves (sound i) (f x)) \<Longrightarrow> preserves (sound i) (\<lambda>s. f (e s) s)"
  by (simp add: preserves_def)

named_theorems sound_rules \<open>commands that find what they use\<close>

lemma cmd_sound [sound_rules]:
  "length p \<le> 1008 \<Longrightarrow> preserves (sound i) (session_cmd i ty flags port info p)"
  unfolding session_cmd_def iris_hfi_gen2_packet_session_command_def
  by (rule sound_use) (simp add: sending_sound spec_words_def)

lemma property_sound [sound_rules]:
  "length p \<le> 1008 \<Longrightarrow> preserves (sound i) (session_property i ty flag port info p)"
proof -
  assume "length p \<le> 1008"
  then have "preserves (sound i) (\<lambda>s. send_session i (message (session_id (inst_heap s i)) [(ty, flag, info, port, p)]) s)"
    by - (rule sound_use, rule sending_sound, simp add: spec_words_def)
  moreover have "session_property i ty flag port info p =
      (\<lambda>s. send_session i (message (session_id (inst_heap s i)) [(ty, flag, info, port, p)]) s)"
    by (rule ext) (simp only: session_property_def send_session_def iris_hfi_gen2_packet_session_property_def)
  ultimately show ?thesis by simp
qed

lemma set_on_sound [sound_rules]: "length p \<le> 1008 \<Longrightarrow> preserves (sound i) (set_on i plane ty info p)"
  unfolding set_on_def by (rule sound_use) (rule property_sound)

lemma plane_cmd_sound [sound_rules]: "length p \<le> 1008 \<Longrightarrow> preserves (sound i) (plane_cmd i plane cmd flags info p)"
  unfolding plane_cmd_def by (rule sound_use) (rule cmd_sound)

lemma buffer_cmd_sound [sound_rules]: "length p \<le> 1008 \<Longrightarrow> preserves (sound i) (buffer_cmd i flags p b)"
  unfolding buffer_cmd_def by (rule sound_use) (rule cmd_sound)

lemma set_gen2_sound:
  "(\<And>g. gen2_packet (f g) = gen2_packet g) \<Longrightarrow> sound i s (set_gen2 i f s)"
  by (rule sound_touches) (use acts_set_gen2 in \<open>auto simp: acts_def set_gen2_def has_packet_def usable_def\<close>)

lemma on_params_sound: "sound i s (on_src i f s)" "sound i s (on_dst i f s)"
  by (simp_all add: on_src_def on_dst_def set_gen2_sound)

lemma noted_sound: "length p \<le> 1008 \<Longrightarrow> sound i s t \<Longrightarrow> sound i s (snd (set_on i plane ty info p t))"
  using set_on_sound[of p i plane ty info] by (auto simp: preserves_def intro: sounding.trans)

lemma handlers_sound: "(ty, h) \<in> set prop_type_handle_arr \<Longrightarrow> preserves (sound i) (h i plane)"
  by (auto simp: prop_type_handle_arr_def config_handler_defs Let_def preserves_def crop_offsets_def
      intro!: noted_sound on_params_sound sounding.refl)

lemma config_sound [sound_rules]: "preserves (sound i) (iris_hfi_gen2_session_set_config_params i plane)"
proof -
  have "preserves (sound i) f" if "f \<in> set (config_steps prop_type_handle_arr ps i plane)" for f ps
    using that handlers_sound
    by (auto simp: config_steps_def split: option.splits dest!: map_of_SomeD[OF sym])
  then show ?thesis
    unfolding preserves_def[of _ "iris_hfi_gen2_session_set_config_params i plane"]
      iris_hfi_gen2_session_set_config_params_def Let_def
    by (auto intro!: sounding.run_all sounding.refl)
qed

lemma subscribe_sound: "length tbl < SUBSCRIBE_WORDS \<Longrightarrow> preserves (sound i) (subscribe i plane mode tbl)"
proof -
  assume t: "length tbl < SUBSCRIBE_WORDS"
  then have "preserves (sound i) (iris_hfi_gen2_session_subscribe_mode i cmd plane info (mode # tbl))" for cmd info
    unfolding iris_hfi_gen2_session_subscribe_mode_def
    by - (rule sound_use, rule cmd_sound, simp add: SUBSCRIBE_WORDS_def)
  with t show ?thesis
    by (simp add: subscribe_def preserves_def and_then_def run_def)
qed

lemma announce_sound: "preserves (sound i) (announce_param i p ty)"
  by (auto simp: announce_param_def subscription_value_def preserves_def intro!: noted_sound sounding.refl)

lemma change_param_sound: "sound i s (snd (iris_hfi_gen2_subscribe_change_param i plane s))"
proof (cases "tables_fit (platform s)")
  case True
  let ?tbl = "case codec_params (platform s) (inst_heap s i) of None \<Rightarrow> [] | Some t \<Rightarrow> t"
  have "length ?tbl < SUBSCRIBE_WORDS"
    using True by (auto simp: tables_fit_def codec_params_def SUBSCRIBE_WORDS_def)
  note subscribe = subscribe_sound[OF this]
  have g: "preserves (sound i) (run (set_gen2 i f))" if "\<And>g. gen2_packet (f g) = gen2_packet g" for f
    using that by (simp add: preserves_def run_def set_gen2_sound)
  have all: "preserves (sound i) (run_all (List.map (announce_param i p) ?tbl))" for p
    unfolding preserves_def by (auto intro!: sounding.run_all announce_sound)
  have copies: "preserves (sound i) (\<lambda>s'. and_then
      (run_all (List.map (announce_param i (dst_subcr_params (gen2 (inst_heap s' i)))) ?tbl))
      (run (set_gen2 i (opsc_properties_set_update (\<lambda>_. True)))) s')"
    by (rule sound_use[where f = "\<lambda>p. and_then (run_all (List.map (announce_param i p) ?tbl))
        (run (set_gen2 i (opsc_properties_set_update (\<lambda>_. True))))"]) (intro sounding.and_then all g, simp)
  have "preserves (sound i) (if V4L2_TYPE_IS_OUTPUT plane
      then run (set_gen2 i (ipsc_properties_set_update (\<lambda>_. True)))
      else and_then (run (set_gen2 i (\<lambda>g. g\<lparr>dst_subcr_params := src_subcr_params g\<rparr>)))
             (\<lambda>s'. and_then
                (run_all (List.map (announce_param i (dst_subcr_params (gen2 (inst_heap s' i)))) ?tbl))
                (run (set_gen2 i (opsc_properties_set_update (\<lambda>_. True)))) s'))"
    using sounding.and_then[OF g copies] g by simp
  with subscribe have "preserves (sound i) (and_then (subscribe i plane HFI_MODE_PORT_SETTINGS_CHANGE ?tbl)
      (if V4L2_TYPE_IS_OUTPUT plane
       then run (set_gen2 i (ipsc_properties_set_update (\<lambda>_. True)))
       else and_then (run (set_gen2 i (\<lambda>g. g\<lparr>dst_subcr_params := src_subcr_params g\<rparr>)))
             (\<lambda>s'. and_then
                (run_all (List.map (announce_param i (dst_subcr_params (gen2 (inst_heap s' i)))) ?tbl))
                (run (set_gen2 i (opsc_properties_set_update (\<lambda>_. True)))) s')))"
    by (rule sounding.and_then)
  then show ?thesis
    by (simp add: iris_hfi_gen2_subscribe_change_param_def Let_def preserves_def sounding.refl)
qed (simp add: sound_def usable_def)

lemma property_subscription_sound: "sound i s (snd (iris_hfi_gen2_subscribe_property i plane s))"
proof (cases "tables_fit (platform s)")
  case True
  then have "length (property_table (platform s) (inst_heap s i) plane) < SUBSCRIBE_WORDS"
    by (auto simp: tables_fit_def property_table_def SUBSCRIBE_WORDS_def)
  from subscribe_sound[OF this] show ?thesis
    by (simp add: iris_hfi_gen2_subscribe_property_def preserves_def sounding.refl)
qed (simp add: sound_def usable_def)

lemma start_sound: "preserves (sound i) (iris_hfi_gen2_session_start i plane)"
  unfolding iris_hfi_gen2_session_start_def
  by (intro sounding.and_then plane_cmd_sound) (simp_all add: preserves_def change_param_sound property_subscription_sound)

lemma comv_sound: "preserves (sound i) (iris_set_num_comv i)"
proof -
  have "preserves (sound i) (iris_hfi_gen2_session_set_property i ty flag port info (words [w]) 4)" for ty flag port info w
    unfolding iris_hfi_gen2_session_set_property_def by (rule property_sound) (simp add: payload_list_def)
  from sound_use[OF this] show ?thesis unfolding iris_set_num_comv_def .
qed

lemma buffer_length [simp]: "length (iris_hfi_gen2_get_buffer d f b) = 16"
  by (simp add: iris_hfi_gen2_get_buffer_def Let_def)

lemma buffers_sound:
  "preserves (sound i) (iris_hfi_gen2_session_queue_buffer i b)"
  "preserves (sound i) (iris_hfi_gen2_session_release_buffer i b)"
proof -
  have "preserves (sound i) (and_then (\<lambda>s. if buf_type b = BUF_COMV then iris_set_num_comv i s else (0, s))
      (buffer_cmd i flags (iris_hfi_gen2_get_buffer d f b) b))" for flags d f
    by (intro sounding.and_then sounding.branch comv_sound sounding.return buffer_cmd_sound) simp
  then show "preserves (sound i) (iris_hfi_gen2_session_queue_buffer i b)"
    by (simp add: preserves_def iris_hfi_gen2_session_queue_buffer_def)
  show "preserves (sound i) (iris_hfi_gen2_session_release_buffer i b)"
    using buffer_cmd_sound[of "iris_hfi_gen2_get_buffer d HFI_BUF_HOST_FLAG_RELEASE b" i for d]
    by (simp add: preserves_def iris_hfi_gen2_session_release_buffer_def)
qed

section \<open>Opening and closing\<close>

lemma mishaps_grow: "touches i s t \<Longrightarrow> mishaps s \<le> mishaps t"
  by (auto simp: touches_def mishaps_def)

text \<open>A command and the state of the packet buffer after it, when only the number of mishaps matters.\<close>

lemma send_keeps_packet: "has_packet j (snd (send_session i (message sid sps) s)) = has_packet j s"
proof -
  have "inst_heap (snd (send_session i (message sid sps) s)) = inst_heap s"
    by (rule does_any_heap) (intro does_rules)
  then show ?thesis by (simp add: has_packet_def)
qed

lemma announce_sounds: "preserves (sound i) (announce_session i)"
proof -
  have "preserves (sound i) (iris_hfi_gen2_session_set_codec i)"
    unfolding iris_hfi_gen2_session_set_codec_def by (rule sound_use) (simp add: property_sound)
  moreover have "preserves (sound i) (iris_hfi_gen2_session_set_default_header i)"
    unfolding iris_hfi_gen2_session_set_default_header_def by (simp add: property_sound)
  moreover have "preserves (sound i) (\<lambda>s. send_session i (iris_hfi_gen2_packet_session_command ty flags port 0
      info [session_id (inst_heap s i)]) s)" for ty flags port info
    unfolding iris_hfi_gen2_packet_session_command_def
    by (rule sound_use[where f = "\<lambda>x. send_session i (message 0 [(ty, flags, info, port, [x])])"])
      (simp add: sending_sound spec_words_def)
  ultimately show ?thesis
    unfolding announce_session_def by (intro sounding.and_then sounding.branch sounding.return)
qed

lemma usable_set_packet:
  "q_ring (command_queue s) \<noteq> None \<Longrightarrow> tables_fit (platform s) \<Longrightarrow>
   usable i (set_gen2 i (gen2_packet_update (\<lambda>_. True)) s)"
  by (simp add: usable_def has_packet_def set_gen2_def modify_inst_def)

lemma free_packet_effect [simp]:
  "\<not> has_packet i (free_packet i s)" "mishaps (free_packet i s) = mishaps s"
  by (simp_all add: free_packet_def set_gen2_def has_packet_def)

lemma gen2_update_is [simp]: "\<exists>g. gen2_update f x = x\<lparr>gen2 := g\<rparr>"
  by (cases x) auto

lemma open_effect:
  assumes "q_ring (command_queue s) \<noteq> None" "tables_fit (platform s)"
    and "inst_state (inst_heap s i) = IRIS_INST_DEINIT" "session_open gen2_ops i s = (r, t)"
  shows "mishaps t = mishaps s \<and> (has_packet i t \<longleftrightarrow> r = 0) \<and> (\<exists>g. inst_heap t i = (inst_heap s i)\<lparr>gen2 := g\<rparr>)"
proof -
  define s0 where "s0 = set_gen2 i (\<lambda>g. g\<lparr>ipsc_properties_set := False, opsc_properties_set := False\<rparr>) s"
  obtain p s1 where 1: "ask Kzalloc s0 = (p, s1)" by fastforce
  define s2 where "s2 = set_gen2 i (gen2_packet_update (\<lambda>_. p \<noteq> 0)) s1"
  obtain r3 s3 where 3: "announce_session i s2 = (r3, s3)" by fastforce
  have same: "inst_heap s1 = inst_heap s0" "command_queue s1 = command_queue s" "platform s1 = platform s"
      "mishaps s1 = mishaps s"
    using 1 by (auto simp: ask_def Let_def s0_def set_gen2_def modify_inst_def mishaps_def)
  have s2: "mishaps s2 = mishaps s" "\<exists>g. inst_heap s2 i = (inst_heap s i)\<lparr>gen2 := g\<rparr>"
    "has_packet i s2 \<longleftrightarrow> p \<noteq> 0"
    using same by (auto simp: s2_def s0_def set_gen2_def has_packet_def)
  have run: "session_open gen2_ops i s =
      (if p = 0 then (- ENOMEM, s2) else (r3, if r3 \<noteq> 0 then free_packet i s3 else s3))"
    using assms(3) 1 3 by (cases "p = 0") (simp_all add: gen2_ops_def iris_hfi_gen2_session_open_def s0_def s2_def Let_def)
  show ?thesis
  proof (cases "p = 0")
    case True
    then show ?thesis using run s2 assms(4) by auto
  next
    case False
    have "inst_heap s3 = inst_heap s2"
      using does_any_heap[of "announce_session i" s2] 3 does_announce by simp
    moreover have "usable i s2"
      using usable_set_packet[of s1 i] assms(1,2) same False by (simp add: s2_def)
    then have "mishaps s3 = mishaps s2"
      using sounding.step[OF announce_sounds 3] by (simp add: sound_def)
    moreover have t: "r = r3" "t = (if r3 \<noteq> 0 then free_packet i s3 else s3)" using run assms(4) False by simp_all
    moreover obtain g where g: "inst_heap s2 i = (inst_heap s i)\<lparr>gen2 := g\<rparr>" using s2(2) by blast
    moreover have "has_packet i s3" using s2(3) False calculation(1) by (simp add: has_packet_def)
    moreover have "\<exists>g'. inst_heap (free_packet i s3) i = (inst_heap s3 i)\<lparr>gen2 := g'\<rparr>"
      by (simp add: free_packet_def set_gen2_def)
    ultimately show ?thesis using s2(1) by (cases "r3 = 0") auto
  qed
qed

lemma close_effect:
  assumes "q_ring (command_queue s) \<noteq> None" "tables_fit (platform s)" "session_close gen2_ops i s = (r, u)"
  shows "mishaps u = mishaps s \<and> \<not> has_packet i u \<and> (\<not> has_packet i s \<longrightarrow> r = - EINVAL) \<and>
    (\<exists>g. inst_heap u i = (inst_heap s i)\<lparr>gen2 := g\<rparr>)"
proof (cases "has_packet i s")
  case False
  then have "r = - EINVAL" "u = s"
    using assms(3) by (auto simp: gen2_ops_def iris_hfi_gen2_session_close_def)
  moreover have "\<exists>g. x = x\<lparr>gen2 := g\<rparr>" for x :: iris_inst by (rule exI[of _ "gen2 x"]) simp
  ultimately show ?thesis using False by simp
next
  case True
  define f where "f = session_cmd i HFI_CMD_CLOSE ANSWERED_ALWAYS HFI_PORT_NONE HFI_PAYLOAD_NONE []"
  obtain r1 s1 where 1: "f s = (r1, s1)" by fastforce
  have "inst_heap s1 = inst_heap s"
    using does_any_heap[of f s] does_session_cmd 1 unfolding f_def by simp
  moreover have "mishaps s1 = mishaps s"
  proof -
    have "preserves (sound i) f" unfolding f_def by (rule cmd_sound) simp
    from sounding.step[OF this 1] have "sound i s s1" .
    then show ?thesis using True assms(1,2) by (simp add: sound_def usable_def)
  qed
  moreover have "u = free_packet i s1"
    using assms(3) True 1 unfolding f_def by (simp add: gen2_ops_def iris_hfi_gen2_session_close_def)
  moreover have "\<exists>g. inst_heap (free_packet i s1) i = (inst_heap s1 i)\<lparr>gen2 := g\<rparr>"
    by (simp add: free_packet_def set_gen2_def)
  ultimately show ?thesis using True by simp
qed

text \<open>
  C36. The packet buffer belongs to the open session. With the command queue there, opening a
  session that is not open follows no NULL pointer and ends with the buffer exactly if it
  succeeds, whatever allocation, runtime PM or ring do; closing frees the buffer whatever becomes of
  the message, and closing without a buffer is refused. Neither changes anything else of the instance.
\<close>

theorem gen2_open_close:
  assumes "q_ring (command_queue s) \<noteq> None" "tables_fit (platform s)"
  shows "(inst_state (inst_heap s i) = IRIS_INST_DEINIT \<and> session_open gen2_ops i s = (r, t) \<longrightarrow>
      mishaps t = mishaps s \<and> (has_packet i t \<longleftrightarrow> r = 0) \<and> (\<exists>g. inst_heap t i = (inst_heap s i)\<lparr>gen2 := g\<rparr>)) \<and>
    (session_close gen2_ops i s = (r, t) \<longrightarrow>
      mishaps t = mishaps s \<and> \<not> has_packet i t \<and> (\<not> has_packet i s \<longrightarrow> r = - EINVAL) \<and>
      (\<exists>g. inst_heap t i = (inst_heap s i)\<lparr>gen2 := g\<rparr>))"
  using open_effect[OF assms] close_effect[OF assms] by blast

lemma gen2_open_close_witness:
  "\<exists>r t. session_open gen2_ops 0 ready_sys = (r, t) \<and> (has_packet 0 t \<longleftrightarrow> r = 0) \<and> mishaps t = 0"
proof -
  obtain r t where o: "session_open gen2_ops 0 ready_sys = (r, t)" by fastforce
  have "tables_fit (platform ready_sys)"
    by (simp add: tables_fit_def ready_sys_def probed_sys_defs sm8150_data_def sm8250_data_def SUBSCRIBE_WORDS_def
        sm8250_vdec_input_config_param_default_def)
  then show ?thesis
    using gen2_open_close[of ready_sys 0 r t] o
    by (auto simp: zero_inst_def mishaps_def ready_sys_def probed_sys_defs)
qed

section \<open>Commands that use the packet buffer\<close>

text \<open>The commands of the table that take the buffer for granted; a property of up to 4032 bytes.\<close>

inductive packet_command :: "nat \<Rightarrow> (iris_sys \<Rightarrow> int \<times> iris_sys) \<Rightarrow> bool" where
  "packet_command i (session_set_config_params gen2_ops i plane)"
| "unat n \<le> 4032 \<Longrightarrow> packet_command i (session_set_property gen2_ops i ptype flag port ty p n)"
| "packet_command i (session_start gen2_ops i plane)"
| "packet_command i (session_queue_buf gen2_ops i b)"
| "packet_command i (session_release_buf gen2_ops i b)"
| "packet_command i (session_resume_drc gen2_ops i plane)"
| "packet_command i (session_stop gen2_ops i plane)"
| "packet_command i (session_drain gen2_ops i plane)"
| "session_pause gen2_ops = Some f \<Longrightarrow> packet_command i (f i plane)"
| "session_resume_drain gen2_ops = Some f \<Longrightarrow> packet_command i (f i plane)"

lemma plane_commands_sound:
  "preserves (sound i) (iris_hfi_gen2_session_pause i plane)"
  "preserves (sound i) (iris_hfi_gen2_session_resume_drc i plane)"
  "preserves (sound i) (iris_hfi_gen2_session_resume_drain i plane)"
  "preserves (sound i) (iris_hfi_gen2_session_drain i plane)"
  unfolding iris_hfi_gen2_session_pause_def iris_hfi_gen2_session_resume_drc_def
    iris_hfi_gen2_session_resume_drain_def iris_hfi_gen2_session_drain_def
  by (intro sounding.branch sounding.return plane_cmd_sound; simp)+

lemma wait_quiet [simp]: "mishaps (snd (iris_wait_for_session_response i b s)) = mishaps s"
  by (simp add: iris_wait_for_session_response_def Let_def firmware_runs_def response_thread_def ask_def
      iris_inst_change_state_def iris_request_core_recovery_def mishaps_def split: prod.split)

lemma stop_quiet: "usable i s \<Longrightarrow> mishaps (snd (iris_hfi_gen2_session_stop i plane s)) = mishaps s"
proof -
  assume u: "usable i s"
  let ?s1 = "tell (Reinit_completion False) s"
  obtain r t where t: "plane_cmd i plane HFI_CMD_STOP ANSWERED_ALWAYS HFI_PAYLOAD_NONE [] ?s1 = (r, t)" by fastforce
  have "usable i ?s1" using u by (simp add: usable_def has_packet_def tell_def)
  with sounding.step[OF plane_cmd_sound t] have "mishaps t = mishaps s" by (simp add: sound_def)
  then show ?thesis
    using t by (simp add: iris_hfi_gen2_session_stop_def and_then_def reinit_completion_def run_def)
qed



section \<open>Stopping what was killed\<close>

text \<open>A session without its buffer and in the error state stays so while its buffers are given back.\<close>

definition dropped :: "nat \<Rightarrow> iris_sys \<Rightarrow> bool" where
  "dropped i s \<longleftrightarrow> \<not> has_packet i s \<and> inst_state (inst_heap s i) = IRIS_INST_ERROR"

definition stays :: "nat \<Rightarrow> iris_sys \<Rightarrow> iris_sys \<Rightarrow> bool" where
  "stays i s t \<longleftrightarrow> (dropped i s \<longrightarrow> dropped i t)"

interpretation staying: step_relation "stays i" for i
  by unfold_locales (auto simp: stays_def)

lemma stays_modify: "(\<And>x. gen2 (f x) = gen2 x \<and> inst_state (f x) = inst_state x) \<Longrightarrow> stays i s (modify_inst i f s)"
  by (simp add: stays_def dropped_def has_packet_def)

lemma stays_log: "inst_heap t = inst_heap s \<Longrightarrow> stays i s t"
  by (simp add: stays_def dropped_def has_packet_def)

lemma map_buf_keeps [simp]: "gen2 (map_buf f r x) = gen2 x" "inst_state (map_buf f r x) = inst_state x"
  by (cases r; simp add: on_internal_def)+

lemma stays_tell: "stays i s t \<Longrightarrow> stays i s (tell k t)"
  by (simp add: stays_def dropped_def has_packet_def tell_effect)

lemma stays_hand_back: "stays i s t \<Longrightarrow> stays i s (hand_back plane n fl ts st t)"
  unfolding hand_back_def by (intro stays_tell)

lemma stays_mark_last: "stays i s t \<Longrightarrow> stays i s (mark_last i t)"
  by (simp add: stays_def dropped_def has_packet_def mark_last_def split_def tell_effect)

lemma stays_complete:
  "stays i s t \<Longrightarrow> stays i s (snd (complete_capture i b fl t))"
  "stays i s t \<Longrightarrow> stays i s (snd (complete_output i b fl t))"
  by (simp_all add: stays_def dropped_def has_packet_def complete_capture_def complete_output_def Let_def tell_effect
      split: option.split)

lemma stays_complete_buffer: "stays i s t \<Longrightarrow> stays i s (complete_buffer i plane b fl t)"
proof -
  obtain fl' s1 where 1: "(if V4L2_TYPE_IS_CAPTURE plane then complete_capture i b fl t
      else complete_output i b fl t) = (fl', s1)" by fastforce
  assume "stays i s t"
  then have "stays i s s1" using stays_complete[of i s t] 1 by (metis snd_conv)
  then show ?thesis
    using 1 by (simp add: complete_buffer_def stays_hand_back stays_mark_last)
qed

lemma stays_buffer_done: "stays i s (snd (iris_vb2_buffer_done i b s))"
proof -
  have r: "stays i s (modify_inst i (remove_by_idx plane n) s)" for plane n
    by (rule stays_modify) (simp add: remove_by_idx_def)
  show ?thesis
    unfolding iris_vb2_buffer_done_def Let_def
    by (simp add: staying.refl stays_tell stays_hand_back stays_complete_buffer r split: option.split)
qed

lemma stays_flush: "stays i s (iris_flush_deferred_buffers i ty s)"
proof -
  let ?f = "\<lambda>b. b\<lparr>buf_attr := buf_attr b OR BUF_ATTR_BUFFER_DONE, data_size := 0\<rparr>"
  have "stays i s (snd (iris_vb2_buffer_done i b (modify_inst i (map_buf ?f r) s)))" for b r s
    by (rule staying.trans[OF stays_modify stays_buffer_done]) simp
  then have "preserves (stays i) (flush_deferred_one i r)" for r
    by (simp add: preserves_def flush_deferred_one_def with_buf_def Let_def staying.refl stays_tell
        split: option.split)
  then show ?thesis
    unfolding iris_flush_deferred_buffers_def Let_def by (intro staying.run_all) auto
qed

lemma fold_tell_heap: "inst_heap (fold (\<lambda>b. tell (f b)) l s) = inst_heap s"
  by (induction l arbitrary: s) (simp_all add: tell_def)

lemma stays_after:
  "stays i s (iris_helper_buffers_done i plane st s)"
  "stays i s (snd (iris_inst_change_state i st' s))"
  "stays i s (iris_release_core_load i s)"
  "stays i s (iris_vdec_clear_pending_output i s)"
  by (simp_all add: stays_def dropped_def has_packet_def iris_helper_buffers_done_def fold_tell_heap
      iris_inst_change_state_def iris_release_core_load_def iris_vdec_clear_pending_output_def)

lemma kill_drops: "session_id (inst_heap s i) \<noteq> 0 \<Longrightarrow> dropped i (iris_kill_session gen2_ops i s)"
proof -
  have "\<not> has_packet i (snd (session_close gen2_ops i s))"
    by (simp add: gen2_ops_def iris_hfi_gen2_session_close_def split: prod.split)
  then show "session_id (inst_heap s i) \<noteq> 0 \<Longrightarrow> dropped i (iris_kill_session gen2_ops i s)"
    by (simp add: iris_kill_session_def iris_inst_change_state_def Let_def dropped_def has_packet_def
        iris_request_core_recovery_def)
qed

text \<open>The state the stop command of a queue is given.\<close>

definition stop_begun :: "nat \<Rightarrow> u32 \<Rightarrow> iris_sys \<Rightarrow> iris_sys" where
  "stop_begun i plane s = modify_inst i (streamoff_pending_update (\<lambda>_. True))
     (if domain (inst_heap s i) = DECODER \<and> V4L2_TYPE_IS_CAPTURE plane
      then iris_vdec_clear_pending_output i s else s)"

lemma failed_stop_drops:
  assumes "plane \<in> {OUTPUT_MPLANE, CAPTURE_MPLANE}" "session_id (inst_heap s i) \<noteq> 0" "firmware_keeps_owned s"
    and st: "inst_state (inst_heap s i) \<noteq> IRIS_INST_INIT"
    and fails: "fst (session_stop gen2_ops i plane (stop_begun i plane s)) \<noteq> 0"
  shows "dropped i (iris_vb2_stop_streaming gen2_ops i plane s)"
proof -
  let ?ty = "if plane = OUTPUT_MPLANE then BUF_INPUT else BUF_OUTPUT"
  obtain r s1 where 1: "session_stop gen2_ops i plane (stop_begun i plane s) = (r, s1)" by fastforce
  have b: "session_id (inst_heap (stop_begun i plane s) i) = session_id (inst_heap s i)"
    "firmware_keeps_owned (stop_begun i plane s) = firmware_keeps_owned s"
    by (simp_all add: stop_begun_def iris_vdec_clear_pending_output_def firmware_keeps_owned_def modify_inst_def)
  have "touches i (stop_begun i plane s) s1"
    using gen2.stop_does[of i plane] 1 by (metis does_def snd_conv)
  then have "session_id (inst_heap s1 i) \<noteq> 0"
    using assms(2,3) b by (simp add: touches_def owned_def)
  then have "dropped i (iris_flush_deferred_buffers i ?ty (iris_kill_session gen2_ops i s1))"
    using kill_drops stays_flush by (auto simp: stays_def)
  moreover have "iris_session_streamoff gen2_ops i plane
      (if domain (inst_heap s i) = DECODER \<and> V4L2_TYPE_IS_CAPTURE plane
       then iris_vdec_clear_pending_output i s else s) =
     (r, iris_flush_deferred_buffers i ?ty (iris_kill_session gen2_ops i s1))"
    using assms(1) fails 1 by (auto simp: iris_session_streamoff_def and_then_def stop_begun_def[symmetric] Let_def)
  moreover have "V4L2_TYPE_IS_OUTPUT plane \<or> V4L2_TYPE_IS_CAPTURE plane" by (simp add: V4L2_TYPE_IS_CAPTURE_def)
  ultimately show ?thesis
    using fails 1 st stays_after unfolding stays_def iris_vb2_stop_streaming_def Let_def by auto
qed

lemma does_mono: "does i f \<Longrightarrow> mishaps s \<le> mishaps (snd (f s))"
  using mishaps_grow by (auto simp: does_def)

lemma stop_without_packet:
  assumes "\<not> has_packet i s"
  shows "fst (session_stop gen2_ops i plane s) \<noteq> 0" "mishaps s < mishaps (snd (session_stop gen2_ops i plane s))"
  using assms
  by (simp_all add: gen2_ops_def iris_hfi_gen2_session_stop_def and_then_def reinit_completion_def run_def
      plane_cmd_def session_cmd_def send_session_def has_packet_def next_header_def tell_def mishaps_def)

lemma kill_does: "does i (\<lambda>s. (r, iris_kill_session gen2_ops i s))"
proof -
  have "does i (\<lambda>s. case session_close gen2_ops i s of (_, t) \<Rightarrow> iris_inst_change_state i IRIS_INST_ERROR t)"
    by (intro does_bind gen2.close_does does_change_state)
  then show ?thesis
    by (simp add: does_def iris_kill_session_def split_def)
qed

lemma stop_dropped:
  assumes "plane \<in> {OUTPUT_MPLANE, CAPTURE_MPLANE}" "dropped i s"
  shows "mishaps s < mishaps (iris_vb2_stop_streaming gen2_ops i plane s)"
proof -
  let ?ty = "if plane = OUTPUT_MPLANE then BUF_INPUT else BUF_OUTPUT"
  let ?b = "stop_begun i plane s"
  have b: "\<not> has_packet i ?b" "mishaps ?b = mishaps s"
    using assms(2) by (simp_all add: stop_begun_def dropped_def has_packet_def iris_vdec_clear_pending_output_def)
  obtain r s1 where 1: "session_stop gen2_ops i plane ?b = (r, s1)" by fastforce
  define s2 where "s2 = iris_flush_deferred_buffers i ?ty (iris_kill_session gen2_ops i s1)"
  have "mishaps s < mishaps s1" "r \<noteq> 0" using stop_without_packet[OF b(1), of plane] 1 b(2) by simp_all
  moreover have "mishaps s1 \<le> mishaps s2"
  proof -
    have "mishaps s1 \<le> mishaps (iris_kill_session gen2_ops i s1)"
      using does_mono[OF kill_does[where i = i and r = "0 :: int"], of s1] by simp
    also have "... \<le> mishaps s2"
      using does_mono[OF flush_deferred_does[where i = i and r = "0 :: int" and ty = ?ty], of "iris_kill_session gen2_ops i s1"] by (simp add: s2_def)
    finally show ?thesis .
  qed
  moreover have "mishaps t \<le> mishaps (snd (iris_inst_change_state i IRIS_INST_ERROR (iris_helper_buffers_done i plane st t)))" for t st
  proof -
    have "mishaps t \<le> mishaps (iris_helper_buffers_done i plane st t)"
      using acts_buffers_done[of i plane st] by (intro mishaps_grow[where i = i]) (simp add: acts_def)
    also have "... \<le> mishaps (snd (iris_inst_change_state i IRIS_INST_ERROR (iris_helper_buffers_done i plane st t)))"
      by (rule does_mono[OF does_change_state])
    finally show ?thesis .
  qed
  moreover have "iris_session_streamoff gen2_ops i plane
      (if domain (inst_heap s i) = DECODER \<and> V4L2_TYPE_IS_CAPTURE plane
       then iris_vdec_clear_pending_output i s else s) = (r, s2)"
    using assms(1) 1 calculation(2)
    by (auto simp: iris_session_streamoff_def and_then_def stop_begun_def[symmetric] Let_def s2_def)
  moreover have "V4L2_TYPE_IS_OUTPUT plane \<or> V4L2_TYPE_IS_CAPTURE plane" by (simp add: V4L2_TYPE_IS_CAPTURE_def)
  ultimately show ?thesis
    using assms(2) unfolding iris_vb2_stop_streaming_def Let_def dropped_def by (auto intro: less_le_trans)
qed

text \<open>
  C38. On a Gen2 firmware a stream whose stop fails is stopped over a NULL pointer. When the stop
  command of a streaming session fails on one queue, for whatever reason, the driver kills the
  session and with it its packet buffer, but stopping the other queue sends the stop command
  again and builds it in the buffer that is gone.
\<close>

theorem gen2_second_stop_crashes:
  assumes "plane \<in> {OUTPUT_MPLANE, CAPTURE_MPLANE}" "plane' \<in> {OUTPUT_MPLANE, CAPTURE_MPLANE}"
    "session_id (inst_heap s i) \<noteq> 0" "firmware_keeps_owned s" "inst_state (inst_heap s i) = IRIS_INST_STREAMING"
    and "fst (session_stop gen2_ops i plane (stop_begun i plane s)) \<noteq> 0"
    and "t = iris_vb2_stop_streaming gen2_ops i plane s"
  shows "mishaps t < mishaps (iris_vb2_stop_streaming gen2_ops i plane' t)"
  using failed_stop_drops[OF assms(1,3,4) _ assms(6)] stop_dropped[OF assms(2)] assms(5,7) by simp

definition failing_stream :: iris_sys where
  "failing_stream = ready_gen2\<lparr>env := (\<lambda>_. - 1), inst_heap := (\<lambda>_. zero_inst\<lparr>session_id := 7,
     inst_state := IRIS_INST_STREAMING, gen2 := zero_gen2\<lparr>gen2_packet := True\<rparr>\<rparr>)\<rparr>"

lemma gen2_second_stop_crashes_witness:
  "let t = iris_vb2_stop_streaming gen2_ops 0 OUTPUT_MPLANE failing_stream
   in mishaps t < mishaps (iris_vb2_stop_streaming gen2_ops 0 CAPTURE_MPLANE t)"
proof -
  have "firmware_keeps_owned failing_stream"
    by (simp add: firmware_keeps_owned_def failing_stream_def ready_gen2_def ready_sys_def probed_sys_defs)
  moreover have "fst (session_stop gen2_ops 0 OUTPUT_MPLANE (stop_begun 0 OUTPUT_MPLANE failing_stream)) \<noteq> 0"
    by (simp add: gen2_ops_def iris_hfi_gen2_session_stop_def and_then_def reinit_completion_def run_def
        plane_cmd_def session_cmd_def send_session_def has_packet_def tell_def stop_begun_def failing_stream_def
        iris_hfi_gen2_packet_session_command_def message_is send_def or_oops_def iris_hfi_queue_cmd_write_def
        pm_runtime_resume_and_get_def ask_def Let_def iris_vdec_clear_pending_output_def modify_inst_def
        PACKET_BUFFER_SIZE_def header_words_def V4L2_TYPE_IS_CAPTURE_def V4L2_TYPE_IS_OUTPUT_def)
  ultimately show ?thesis
    using gen2_second_stop_crashes[of OUTPUT_MPLANE CAPTURE_MPLANE failing_stream 0]
    by (simp add: failing_stream_def Let_def)
qed

end
