(* ===== verification/IrisGen2Serve.thy ===== *)
theory IrisGen2Serve
  imports IrisGen2Resp IrisGen2Live
begin

text \<open>
  What the Gen2 responses may do: which messages are taken, what a response leaves alone
  whatever it says, and the responses that are lost or misread.
\<close>

section \<open>What a response keeps\<close>

text \<open>The identity of a session: what it owns but for its internal DMA buffers.\<close>

definition identity ::
    "iris_inst \<Rightarrow> u32 \<times> domain_type \<times> u32 \<times> bool \<times> bool \<times> bool \<times> iris_surface_fence list" where
  "identity x = (session_id x, domain x, codec x, hfi_session_opened x, core_load_reserved x,
                 core_load_rejected x, surface_fences x)"

definition answers :: "nat \<Rightarrow> iris_sys \<Rightarrow> iris_sys \<Rightarrow> bool" where
  "answers i s t \<longleftrightarrow> session_frame t = session_frame s \<and> (core_state t = core_state s \<or> core_state t = IRIS_CORE_ERROR) \<and>
     (firmware_keeps_owned s \<longrightarrow> (\<forall>j. identity (inst_heap t j) = identity (inst_heap s j)) \<and>
        (\<forall>j. j \<noteq> i \<longrightarrow> int_mem (inst_heap t j) = int_mem (inst_heap s j)) \<and>
        (\<forall>a. a \<noteq> 0 \<longrightarrow> unheld i a t = unheld i a s))"

lemma answers_refl [simp]: "answers i s s"
  by (simp add: answers_def)

lemma answers_trans: "answers i s t \<Longrightarrow> answers i t u \<Longrightarrow> answers i s u"
  using session_frame_fw[of t s] by (auto simp: answers_def firmware_keeps_owned_def)

interpretation answering: step_relation "answers i" for i
  by unfold_locales (simp, rule answers_trans)

lemma owned_is: "owned x = owned y \<longleftrightarrow> identity x = identity y \<and> int_mem x = int_mem y"
  by (auto simp: owned_def identity_def)

lemma touches_answers: "touches j s t \<Longrightarrow> answers i s t"
proof -
  assume t: "touches j s t"
  then obtain l where l: "klog t = klog s @ l" "list_all quiet l" by (auto simp: touches_def)
  have bal: "balance (dma_weight a) t = balance (dma_weight a) s" for a
    using l by (rule quiet_balance)
  have own: "firmware_keeps_owned s \<Longrightarrow> owned (inst_heap t k) = owned (inst_heap s k)" for k
    using t by (cases "k = j") (auto simp: touches_def)
  have "firmware_keeps_owned s \<Longrightarrow> unheld i a t = unheld i a s" for a
    using own[of i] bal by (simp add: unheld_def owned_is held_cong[of "inst_heap t i" "inst_heap s i"])
  then show ?thesis using t own by (auto simp: answers_def touches_def owned_is)
qed

lemma does_answers: "does j f \<Longrightarrow> preserves (answers i) f"
  unfolding does_def preserves_def using touches_answers by blast

text \<open>The log text, the reads and the marks of a response.\<close>

lemma acts_reads [does_rules]: "acts i (reads_to m n)"
  using acts_tell[OF quiet_calls(1)] by (auto simp: acts_def reads_to_def)

lemma acts_frame_info [does_rules]: "acts i (on_frame_info i f)"
  unfolding on_frame_info_def by (rule acts_set_gen2)

lemma acts_error [does_rules]: "acts i (inst_error i)"
  unfolding inst_error_def by (rule acts_snd[OF does_change_state])

lemma acts_queue_error [does_rules]: "acts i iris_vb2_queue_error"
  unfolding iris_vb2_queue_error_def by (intro acts_comp[OF acts_tell acts_tell] quiet_calls)

lemma owned_pause [simp]: "owned (snd (iris_inst_sub_state_change_pause plane x)) = owned x"
  by (simp add: iris_inst_sub_state_change_pause_def)

lemma does_info [does_rules]: "does i (iris_hfi_gen2_handle_session_info i pkt)"
  unfolding iris_hfi_gen2_handle_session_info_def Let_def
  by (intro does_if[where b = "\<lambda>_. b" for b] does_pair does_return does_on_inst acts_frame_info) simp_all

lemma does_session_error [does_rules]: "does i (iris_hfi_gen2_handle_session_error i pkt)"
  unfolding iris_hfi_gen2_handle_session_error_def
  by (intro does_pair acts_comp[OF acts_error acts_queue_error])

lemma acts_close [does_rules]: "acts i (iris_hfi_gen2_handle_session_close i pkt)"
  using acts_error[of i] acts_tell[OF quiet_calls(10), of i False]
  by (auto simp: acts_def iris_hfi_gen2_handle_session_close_def)

lemma touches_map_buf:
  "touches i s t \<Longrightarrow> (\<And>b. kvaddr (f b) = kvaddr b \<and> buffer_size (f b) = buffer_size b) \<Longrightarrow>
   touches i s (modify_inst i (map_buf f r) t)"
  by (erule touches_then_modify) (rule owned_map_buf, simp)

lemma touches_reads: "touches i s t \<Longrightarrow> touches i s (reads_to m n t)"
  using acts_reads[of i m n] touches_trans by (auto simp: acts_def)

lemma does_input [does_rules]: "does i (iris_hfi_gen2_handle_input_buffer i pkt)"
  by (auto simp: does_def iris_hfi_gen2_handle_input_buffer_def Let_def simp del: map_buf.simps
      intro!: touches_map_buf touches_reads split: option.split)

lemma does_last_marks [does_rules]: "does i (last_marks i fl)"
  unfolding last_marks_def by (intro does_rules) simp_all

lemma does_output [does_rules]: "does i (iris_hfi_gen2_handle_output_buffer i pkt)"
proof -
  let ?w = "snd pkt"
  have "does i (\<lambda>s1. case List.find (output_matches ?w) (m2m_dst (inst_heap s1 i)) of
            None \<Rightarrow> (- EINVAL, s1)
          | Some b \<Rightarrow>
              if \<not> has (buf_attr b) BUF_ATTR_QUEUED then (- EINVAL, s1)
              else (0, modify_inst i (map_buf (filled ?w (inst_heap s1 i)) (Dst (?w 9))) s1))"
    by (auto simp: does_def filled_def Let_def simp del: map_buf.simps intro!: touches_map_buf split: option.split)
  then have "does i (and_then (last_marks i (?w 18)) (\<lambda>s1. case List.find (output_matches ?w) (m2m_dst (inst_heap s1 i)) of
            None \<Rightarrow> (- EINVAL, s1)
          | Some b \<Rightarrow>
              if \<not> has (buf_attr b) BUF_ATTR_QUEUED then (- EINVAL, s1)
              else (0, modify_inst i (map_buf (filled ?w (inst_heap s1 i)) (Dst (?w 9))) s1)))"
    by (intro does_and_then does_last_marks)
  from does_then[OF acts_reads this] show ?thesis
    unfolding iris_hfi_gen2_handle_output_buffer_def Let_def .
qed


lemma dequeue_one_does [does_rules]: "does i (dequeue_one i r)"
  unfolding dequeue_one_def Let_def
  by (rule does_with_buf)
    (auto simp: does_def simp del: map_buf.simps intro!: touches_acts[OF _ acts_snd[OF does_buffer_done]] touches_map_buf)

lemma acts_dequeue_all: "acts i (dequeue_all i refs)"
  unfolding dequeue_all_def by (intro acts_snd does_for_each dequeue_one_does)

lemma acts_dequeue [does_rules]: "acts i (iris_hfi_gen2_handle_dequeue_buffers i)"
  unfolding iris_hfi_gen2_handle_dequeue_buffers_def by (rule acts_comp[OF acts_dequeue_all acts_dequeue_all])

lemma does_stop_response [does_rules]: "does i (iris_hfi_gen2_handle_session_stop i pkt)"
  unfolding iris_hfi_gen2_handle_session_stop_def Let_def
  by (intro does_bind does_if[where b = "\<lambda>_. b" for b] does_on_inst does_return does_pair acts_tell quiet_calls) simp_all

lemma does_drain [does_rules]: "does i (iris_hfi_gen2_handle_session_drain i pkt)"
  unfolding iris_hfi_gen2_handle_session_drain_def
  by (intro does_if does_on_inst does_return does_pair acts_error) (simp add: owned_simps iris_inst_change_sub_state_def Let_def)

lemma owned_set_cap [simp]: "owned (set_cap c v x) = owned x"
  by (simp add: set_cap_def owned_simps)

lemma owned_subscribed [simp]: "owned (subscribed_params pd p x) = owned x"
  by (simp add: subscribed_params_def subscribed_formats_def set_codec_caps_def Let_def owned_buffers_info
      count_dst_def)

lemma acts_read_subcr: "acts i (iris_hfi_gen2_read_input_subcr_params i)"
  by (auto simp: acts_def iris_hfi_gen2_read_input_subcr_params_def Let_def
      intro!: touches_tell touches_acts[OF _ acts_error] touches_then_modify)

lemma acts_src_change: "acts i (iris_vdec_src_change i)"
  by (auto simp: acts_def iris_vdec_src_change_def Let_def owned_simps
      intro!: touches_tell touches_then_modify)

lemma does_src_change [does_rules]: "does i (iris_hfi_gen2_handle_src_change i pkt)"
  unfolding iris_hfi_gen2_handle_src_change_def
  by (intro does_if[where b = "\<lambda>_. b" for b] does_return does_and_then does_on_inst does_run
      acts_comp[OF acts_src_change acts_read_subcr]) simp

lemma acts_on_src [does_rules]: "acts i (on_src i f)"
  unfolding on_src_def by (rule acts_set_gen2)

lemma does_property [does_rules]: "does i (iris_hfi_gen2_handle_session_property i pkt)"
  by (auto simp: does_def iris_hfi_gen2_handle_session_property_def Let_def
      intro!: touches_acts[OF _ acts_on_src] touches_acts[OF _ acts_frame_info] touches_reads split: option.split)

section \<open>The release of an internal buffer\<close>

lemma destroy_unheld:
  assumes "b \<in> set (buf_list (buffers (inst_heap s i) ty))"
  shows "unheld i a (snd (iris_destroy_internal_buffer i ty b s)) = unheld i a s"
proof -
  let ?t = "snd (iris_destroy_internal_buffer i ty b s)" and ?l = "buf_list (buffers (inst_heap s i) ty)"
  have "int_mem (on_internal ty (remove1 b) (inst_heap s i)) ty =
      List.map (\<lambda>b. (kvaddr b, buffer_size b)) (remove1 b ?l)"
    by (simp add: on_internal_def int_mem_def)
  moreover have "balance (dma_weight a) ?t =
      balance (dma_weight a) s - (if kvaddr b = a then int (unat (ucast (buffer_size b) :: u32)) else 0)"
    by (simp add: iris_destroy_internal_buffer_def balance_def tell_def)
  moreover have "inst_heap ?t i = on_internal ty (remove1 b) (inst_heap s i)"
    by (simp add: iris_destroy_internal_buffer_def tell_def)
  ultimately show ?thesis
    using bytes_at_remove1[OF assms, of a "\<lambda>b. (kvaddr b, buffer_size b)"]
    by (simp add: unheld_def held_on_internal) (simp add: int_mem_def)
qed

lemma destroy_answers:
  "b \<in> set (buf_list (buffers (inst_heap s i) ty)) \<Longrightarrow> answers i s (snd (iris_destroy_internal_buffer i ty b s))"
  using destroy_unheld[of b s i ty]
  by (auto simp: answers_def iris_destroy_internal_buffer_def tell_def modify_inst_def session_frame_def
      identity_def on_internal_def)

lemma answers_step: "answers i s t \<Longrightarrow> preserves (answers i) f \<Longrightarrow> answers i s (snd (f t))"
  using answers_trans by (auto simp: preserves_def)

lemma answers_does: "does j f \<Longrightarrow> answers i s t \<Longrightarrow> answers i s (snd (f t))"
  by (rule answers_step, assumption, rule does_answers)

lemma answers_acts: "acts j h \<Longrightarrow> answers i s t \<Longrightarrow> answers i s (h t)"
  using touches_answers answers_trans unfolding acts_def by blast

lemma release_answers: "preserves (answers i) (iris_hfi_gen2_handle_release_internal_buffer i pkt)"
proof -
  let ?w = "snd pkt" and ?off = "\<lambda>a. a AND NOT BUF_ATTR_QUEUED"
  have "answers i s (snd (iris_hfi_gen2_handle_release_internal_buffer i pkt s))" for s
  proof (cases "iris_hfi_gen2_buf_type_to_driver (inst_heap s i) (?w 8)")
    case None
    then show ?thesis
      by (simp add: iris_hfi_gen2_handle_release_internal_buffer_def answers_acts[OF acts_tell[of _ i]])
  next
    case (Some ty)
    let ?l = "buf_list (buffers (inst_heap s i) ty)"
    define s1 where "s1 = (if ?l = [] then s else reads_to (fst pkt) 48 s)"
    have s1: "answers i s s1" "buffers (inst_heap s1 i) = buffers (inst_heap s i)"
      by (auto simp: s1_def reads_to_def tell_def intro: answers_acts[OF acts_tell[OF quiet_calls(1), of i], unfolded tell_def])
    show ?thesis
    proof (cases "List.find (\<lambda>k. device_addr (?l ! k) = hfi_buf_address ?w) [0..<length ?l]")
      case None
      then show ?thesis
        using s1 Some by (simp add: iris_hfi_gen2_handle_release_internal_buffer_def s1_def[symmetric])
    next
      case found: (Some k)
      then have k: "k < length ?l" by (auto simp: find_Some_iff)
      let ?b = "buf_attr_update ?off (?l ! k)" and ?s2 = "set_attr i (Internal ty k) ?off s1"
      have "?b \<in> set (buf_list (buffers (inst_heap ?s2 i) ty))"
        using k by (simp add: set_attr_def s1 on_internal_def set_update_memI)
      from destroy_answers[OF this] answers_acts[OF acts_set_attr s1(1), of i "Internal ty k" ?off]
      have "answers i s (snd (iris_destroy_internal_buffer i ty ?b ?s2))" by (rule answers_trans[rotated])
      then show ?thesis
        using Some found by (simp add: iris_hfi_gen2_handle_release_internal_buffer_def s1_def[symmetric] Let_def)
    qed
  qed
  then show ?thesis by (simp add: preserves_def)
qed

section \<open>A whole response\<close>

lemma session_buffer_answers: "preserves (answers i) (iris_hfi_gen2_handle_session_buffer i pkt)"
  using answers_acts[OF acts_error[of i]] answers_acts[OF acts_reads[of i]]
    answers_step[OF answers_acts[OF acts_reads[of i]] release_answers]
    answers_does[OF does_input answers_acts[OF acts_reads[of i]]]
    answers_does[OF does_output answers_acts[OF acts_reads[of i]]]
  unfolding preserves_def iris_hfi_gen2_handle_session_buffer_def Let_def
  by (simp add: answers_refl)

lemma command_answers: "preserves (answers i) (iris_hfi_gen2_handle_session_command i pkt)"
  using answers_acts[OF acts_close] answers_does[OF does_stop_response] answers_does[OF does_src_change]
    answers_does[OF does_drain] answers_step[OF answers_refl session_buffer_answers]
  unfolding preserves_def iris_hfi_gen2_handle_session_command_def Let_def by simp

lemma session_packet_answers:
  assumes "r \<in> set inst_ranges" "answers i s t"
  shows "answers i s (session_packet i r pkt t)"
proof -
  have r: "preserves (answers i) (snd r i pkt)"
    using assms(1) by (auto simp: inst_ranges_def intro: does_answers[OF does_session_error]
        does_answers[OF does_info] does_answers[OF does_property] command_answers)
  define t1 where "t1 = (if has (snd pkt 2) HFI_FW_FLAGS_SESSION_ERROR
                then snd (iris_hfi_gen2_handle_session_error i pkt t) else t)"
  have "answers i s t1"
    using assms(2) answers_does[OF does_session_error assms(2)] by (simp add: t1_def)
  from answers_step[OF this r] answers_acts[OF acts_error answers_step[OF this r]] this
  show ?thesis
    unfolding session_packet_def Let_def t1_def[symmetric] by (simp add: split_def)
qed

lemma passes_answers:
  assumes "answers i s t" shows "answers i s (session_passes i pkts t)"
proof -
  have inner: "answers i s (fold (session_packet i r) ps u)"
    if "r \<in> set inst_ranges" "answers i s u" for r ps u
    using that by (induction ps arbitrary: u) (simp_all add: session_packet_answers)
  have "set rs \<subseteq> set inst_ranges \<Longrightarrow> answers i s u \<Longrightarrow>
      answers i s (fold (\<lambda>r. fold (session_packet i r) pkts) rs u)" for rs u
    by (induction rs arbitrary: u) (simp_all add: inner)
  with assms show ?thesis by (simp add: session_passes_def)
qed

lemma message_answers:
  assumes "answers i s t" shows "answers i s (session_message i pkts t)"
proof -
  define t1 where "t1 = on_frame_info i (\<lambda>_. zero_frame_info) t"
  define t2 where "t2 = (if list_ex announces_change pkts then iris_hfi_gen2_init_src_change_param i t1 else t1)"
  have 1: "answers i s t1" unfolding t1_def by (rule answers_acts[OF acts_frame_info assms])
  have "iris_hfi_gen2_init_src_change_param i t1 = on_src i (current_params (inst_heap t1 i)) t1"
    by (simp add: iris_hfi_gen2_init_src_change_param_def)
  then have 2: "answers i s t2" using 1 answers_acts[OF acts_on_src 1] by (simp add: t2_def)
  note 3 = passes_answers[OF 2, of pkts]
  show ?thesis
    unfolding session_message_def Let_def t1_def[symmetric] t2_def[symmetric]
    using 3 answers_acts[OF acts_dequeue 3] by simp
qed

lemma core_error_answers: "answers i s t \<Longrightarrow> answers i s (t\<lparr>core_state := IRIS_CORE_ERROR\<rparr>)"
  by (simp add: answers_def session_frame_def unheld_def balance_def)

lemma system_error_answers:
  assumes "answers i s t" shows "answers i s (snd (iris_hfi_gen2_handle_system_error t))"
proof -
  have "answers i s u \<Longrightarrow> answers i s (fold inst_error js u)" for js u
    by (induction js arbitrary: u) (simp_all add: answers_acts[OF acts_error])
  from this[OF core_error_answers[OF assms]]
  show ?thesis
    unfolding iris_hfi_gen2_handle_system_error_def Let_def snd_conv
    by (intro answers_acts[OF acts_tell[of _ i]]) simp_all
qed

lemma core_range_answers:
  assumes "r \<in> set core_ranges" "answers i s t" shows "answers i s (snd (snd r pkt t))"
  using assms system_error_answers core_error_answers answers_acts[OF acts_tell[of _ i]]
  by (auto simp: core_ranges_def iris_hfi_gen2_handle_system_property_def iris_hfi_gen2_handle_system_init_def)

lemma system_pass_answers:
  "r \<in> set core_ranges \<Longrightarrow> answers i s t \<Longrightarrow> answers i s (snd (system_pass r pkts t))"
proof (induction pkts arbitrary: t)
  case (Cons pkt pkts)
  obtain ret u where u: "snd r pkt t = (ret, u)" by fastforce
  have "answers i s u" using core_range_answers[OF Cons.prems, of pkt] by (simp add: u)
  then show ?case
    using Cons.IH[OF Cons.prems(1)] Cons.prems(2) system_error_answers[OF Cons.prems(2)]
    by (simp add: u Let_def split_def)
qed simp

lemma system_passes_answers:
  "set rs \<subseteq> set core_ranges \<Longrightarrow> answers i s t \<Longrightarrow> answers i s (snd (system_passes rs pkts t))"
proof (induction rs arbitrary: t)
  case (Cons r rs)
  obtain ret u where u: "system_pass r pkts t = (ret, u)" by fastforce
  have "answers i s u" using system_pass_answers[of r i s t pkts] Cons.prems by (simp add: u)
  then show ?case using Cons.IH[of u] Cons.prems by (simp add: u split: option.split)
qed simp

lemma validate_answers: "validate_packets n k b s = (ret, t) \<Longrightarrow> answers i s t"
proof (induction n arbitrary: k s)
  case (Suc n)
  have 1: "answers i s (reads_to CORE_PKT_SIZE (k + 4) s)" by (rule answers_acts[OF acts_reads[of i] answers_refl])
  show ?case
    using Suc.prems 1 answers_trans[OF 1 Suc.IH] by (auto simp: Let_def split: if_splits)
qed simp

lemma validate_instances:
  "validate_packets n k b s = (ret, t) \<Longrightarrow> instances t = instances s \<and> inst_heap t = inst_heap s"
  by (induction n arbitrary: k s) (fastforce simp: Let_def reads_to_def tell_def split: if_splits)+

lemma response_answers:
  assumes "\<And>k. iris_get_instance s (load_u32 b 4) = Some k \<Longrightarrow> k = i"
  shows "answers i s (iris_hfi_gen2_handle_response b s)"
proof -
  obtain ret t where v: "iris_hfi_gen2_validate_hdr_packet b s = (ret, t)" by fastforce
  then have t: "answers i s t" and "instances t = instances s \<and> inst_heap t = inst_heap s"
    using validate_answers validate_instances
    by (auto simp: iris_hfi_gen2_validate_hdr_packet_def split: if_splits)
  then have "iris_get_instance t = iris_get_instance s"
    by (simp add: iris_get_instance_def fun_eq_iff)
  then have "answers i s (iris_hfi_gen2_handle_session_response (load_u32 b 4) pkts t)" for pkts
    using assms message_answers[OF t]
    by (auto simp: iris_hfi_gen2_handle_session_response_def t split: option.split)
  then show ?thesis
    using system_error_answers[OF t] system_passes_answers[OF subset_refl t]
    by (simp add: iris_hfi_gen2_handle_response_def v Let_def iris_hfi_gen2_handle_system_response_def)
qed

text \<open>
  C40. Whatever bytes the Gen2 firmware sends, a message keeps the books. The tables of the core
  and its queues stay as they were and the core state is what it was or an error; no session
  changes its identity: the identifier, the domain, the codec, what it opened and reserved and its
  fences; the internal buffers of a session the message does not name stay as they were; and those of the
  session it names change only with the memory: what is allocated and not freed less what
  the lists hold is the same at every address, so a buffer leaves its list exactly when it is freed.
\<close>

theorem gen2_responses_accounted:
  assumes "firmware_keeps_owned s"
  shows "\<exists>t. t = iris_hfi_gen2_handle_response b s \<and>
    session_frame t = session_frame s \<and> (core_state t = core_state s \<or> core_state t = IRIS_CORE_ERROR) \<and>
    (\<forall>j. identity (inst_heap t j) = identity (inst_heap s j)) \<and>
    (\<forall>j. iris_get_instance s (load_u32 b 4) \<noteq> Some j \<longrightarrow> int_mem (inst_heap t j) = int_mem (inst_heap s j)) \<and>
    (\<forall>j a. iris_get_instance s (load_u32 b 4) = Some j \<and> a \<noteq> 0 \<longrightarrow> unheld j a t = unheld j a s)"
proof (cases "iris_get_instance s (load_u32 b 4)")
  case None
  then have a: "answers i s (iris_hfi_gen2_handle_response b s)" for i by (intro response_answers) simp
  have "int_mem (inst_heap (iris_hfi_gen2_handle_response b s) j) = int_mem (inst_heap s j)" for j
    using a[of "Suc j"] assms by (simp add: answers_def)
  then show ?thesis using assms None a[of 0] by (simp add: answers_def)
next
  case (Some i)
  then have "answers i s (iris_hfi_gen2_handle_response b s)" by (intro response_answers) simp
  then show ?thesis using assms Some by (auto simp: answers_def)
qed

section \<open>Messages and their packets\<close>

text \<open>What the bytes of a packet say: its type, flags, kind of payload, port and payload.\<close>

definition spec_of :: "gen2_packet \<Rightarrow> packet_spec" where
  "spec_of pkt =
     (let w = snd pkt in (w 1, w 2, w 3, w 4, List.map (\<lambda>k. w (8 + k)) [0..<(unat (w 0) - 32) div 4]))"

lemma unat_packet_size: "n \<le> 1024 \<Longrightarrow> unat (32 + 4 * word_of_nat n :: u32) = 32 + 4 * n"
  by (rule of_nat_inverse) simp_all

lemma parse_packet:
  assumes "\<And>j. j < 8 + length p \<Longrightarrow> load_u32 b (k + 4 * j) = packet_of ty flags info port pid p ! j"
    and "k + 32 + 4 * length p \<le> CORE_PKT_SIZE"
  shows "unat (load_u32 b k) = 32 + 4 * length p" "reads_to CORE_PKT_SIZE (k + 4) s = s"
    "iris_hfi_gen2_validate_packet k b = 0" "spec_of (packet_at k b) = (ty, flags, info, port, p)"
proof -
  have room: "k + 32 + 4 * length p \<le> 4096"
    using assms(2) by (simp add: CORE_PKT_SIZE_def IFACEQ_CORE_PKT_SIZE_def)
  have w0: "load_u32 b k = 32 + 4 * word_of_nat (length p)" using assms(1)[of 0] by (simp add: packet_of_def)
  show size: "unat (load_u32 b k) = 32 + 4 * length p"
    unfolding w0 using room by (intro unat_packet_size) simp
  show "reads_to CORE_PKT_SIZE (k + 4) s = s"
    using room by (simp add: reads_to_def CORE_PKT_SIZE_def IFACEQ_CORE_PKT_SIZE_def)
  have "load_u32 b k \<noteq> 0" using size by auto
  moreover have "\<not> load_u32 b k < 32" using size by (simp add: word_less_nat_alt del: w0)
  ultimately show "iris_hfi_gen2_validate_packet k b = 0"
    using assms(2) by (simp add: iris_hfi_gen2_validate_packet_def Let_def size)
  have "(\<lambda>j. load_u32 b (k + 4 * (8 + j))) ` {..<length p} = (\<lambda>j. p ! j) ` {..<length p} \<and>
      (\<forall>j<length p. load_u32 b (k + 4 * (8 + j)) = p ! j)"
    using assms(1)[of "8 + j" for j] by (auto simp: packet_of_def)
  then have "List.map (\<lambda>j. load_u32 b (k + 4 * (8 + j))) [0..<length p] = p"
    by (intro nth_equalityI) simp_all
  then show "spec_of (packet_at k b) = (ty, flags, info, port, p)"
    using assms(1)[of 1] assms(1)[of 2] assms(1)[of 3] assms(1)[of 4]
    by (simp add: spec_of_def packet_at_def size packet_of_def)
qed

lemma parse_packets:
  assumes "\<And>j. j < length (packets_from pid sps) \<Longrightarrow> load_u32 b (k + 4 * j) = packets_from pid sps ! j"
    and "k + 4 * length (packets_from pid sps) \<le> CORE_PKT_SIZE"
  shows "validate_packets (length sps) k b s = (0, s) \<and> List.map spec_of (packets (length sps) k b) = sps"
  using assms
proof (induction sps arbitrary: pid k)
  case (Cons sp sps)
  obtain ty flags info port p where sp: "sp = (ty, flags, info, port, p)" by (cases sp) auto
  let ?h = "packet_of ty flags info port pid p" and ?r = "packets_from (pid + 1) sps"
  have ws: "packets_from pid (sp # sps) = ?h @ ?r" by (simp add: sp)
  have n: "length (packets_from pid (sp # sps)) = 8 + length p + length ?r" unfolding ws by simp
  have head: "load_u32 b (k + 4 * j) = ?h ! j" if "j < 8 + length p" for j
    using Cons.prems(1)[of j] that unfolding n ws by (simp add: nth_append del: packets_from_length)
  have tail: "load_u32 b (k + (32 + 4 * length p) + 4 * j) = ?r ! j" if "j < length ?r" for j
    using Cons.prems(1)[of "8 + length p + j"] that unfolding n ws
    by (simp add: nth_append algebra_simps del: packets_from_length)
  have room: "k + 32 + 4 * length p \<le> CORE_PKT_SIZE" "k + (32 + 4 * length p) + 4 * length ?r \<le> CORE_PKT_SIZE"
    using Cons.prems(2) unfolding n by (simp_all del: packets_from_length)
  note one = parse_packet[OF head room(1)] and rest = Cons.IH[OF tail room(2)]
  show ?case using one rest by (simp add: sp)
qed simp

lemma packets_from_ge: "8 * length sps \<le> length (packets_from pid sps)"
  by (induction sps arbitrary: pid) auto

text \<open>
  C35. The firmware can read what the driver writes: a Gen2 message that fits the packet buffer, laid
  out at the start of a message buffer, passes the checks of a message without a read outside it,
  names the session it was built for, and its packets are, in order, the ones it was built
  from, with their types, flags, ports and payloads.
\<close>

theorem gen2_message_roundtrip:
  assumes "message sid sps s = (ws, t)" "sps \<noteq> []" "length ws \<le> 1024"
    and "\<And>j. j < 4 * length ws \<Longrightarrow> b j = frame_of ws ! j"
  shows "iris_hfi_gen2_validate_hdr_packet b u = (0, u) \<and> load_u32 b 4 = sid \<and>
    List.map spec_of (packets (unat (load_u32 b 28)) 32 b) = sps"
proof -
  let ?ps = "packets_from (packet_id s) sps"
  have ws: "ws = header_words (length ?ps) sid (header_id s) (word_of_nat (length sps)) @ ?ps"
    using assms(1) by (simp add: message_is)
  have word: "load_u32 b (4 * j) = ws ! j" if "j < length ws" for j
  proof -
    have "load_u32 b (4 * j) = load_u32 (nth (frame_of ws)) (4 * j)"
      using that by (intro load_u32_cong assms(4)) simp
    then show ?thesis using that by (simp add: load_frame)
  qed
  have len: "length ws = 8 + length ?ps" unfolding ws by (simp add: header_words_def)
  obtain ty flags info port p sps' where sps: "sps = (ty, flags, info, port, p) # sps'"
    using assms(2) by (cases sps) auto
  have n: "8 \<le> length ?ps" "length sps \<le> length ?ps"
    using packets_from_ge[of sps "packet_id s"] by (auto simp: sps simp del: packets_from_length)
  have bytes: "length ?ps \<le> 1024" "32 + 4 * length ?ps \<le> CORE_PKT_SIZE"
    using assms(3) len by (simp_all add: CORE_PKT_SIZE_def IFACEQ_CORE_PKT_SIZE_def del: packets_from_length)
  have "load_u32 b 0 = 32 + 4 * word_of_nat (length ?ps)"
    using word[of 0] unfolding len by (simp add: ws header_words_def del: packets_from_length)
  then have size: "\<not> load_u32 b 0 < 32 + 32"
    using n(1) bytes(1) unat_packet_size[of "length ?ps"]
    by (simp add: word_less_nat_alt del: packets_from_length)
  have sid: "load_u32 b 4 = sid"
    using word[of 1] unfolding len by (simp add: ws header_words_def del: packets_from_length)
  have "load_u32 b 28 = word_of_nat (length sps)"
    using word[of 7] unfolding len by (simp add: ws header_words_def del: packets_from_length)
  then have count: "unat (load_u32 b 28) = length sps"
    using n(2) bytes(1) by (intro of_nat_inverse) (simp_all del: packets_from_length)
  have "load_u32 b (32 + 4 * j) = ?ps ! j" if "j < length ?ps" for j
    using word[of "8 + j"] that unfolding len
    by (simp add: ws header_words_def nth_append del: packets_from_length)
  from parse_packets[OF this bytes(2), of u] show ?thesis
    using size by (simp add: iris_hfi_gen2_validate_hdr_packet_def count sid)
qed

text \<open>
  The checks of a message: an accepted one is read inside the buffer, a refused one at most a word past it.
\<close>

lemma accepted_packets:
  "validate_packets n k b s = (0, t) \<Longrightarrow> k \<le> CORE_PKT_SIZE \<Longrightarrow>
   t = s \<and> (\<forall>p\<in>set (packets n k b). 32 \<le> unat (snd p 0) \<and> unat (snd p 0) \<le> fst p) \<and>
   k + 32 * n \<le> CORE_PKT_SIZE"
proof (induction n arbitrary: k s)
  case (Suc n)
  let ?z = "unat (load_u32 b k)"
  have v: "iris_hfi_gen2_validate_packet k b = 0"
    and r: "validate_packets n (k + ?z) b (reads_to CORE_PKT_SIZE (k + 4) s) = (0, t)"
    using Suc.prems(1) by (auto simp: Let_def split: if_splits)
  have z: "32 \<le> ?z" "k + ?z \<le> CORE_PKT_SIZE"
    using v by (auto simp: iris_hfi_gen2_validate_packet_def Let_def word_less_nat_alt split: if_splits)
  then have "reads_to CORE_PKT_SIZE (k + 4) s = s" by (simp add: reads_to_def)
  with Suc.IH[OF r z(2)] z show ?case by (auto simp: packet_at_def)
qed simp

lemma refused_packets:
  "validate_packets n k b s = (ret, t) \<Longrightarrow> ret \<noteq> 0 \<Longrightarrow> k \<le> CORE_PKT_SIZE \<Longrightarrow>
   ret = - EINVAL \<and> (t = s \<or> t = tell Oops s)"
proof (induction n arbitrary: k s)
  case (Suc n)
  let ?z = "unat (load_u32 b k)"
  show ?case
  proof (cases "iris_hfi_gen2_validate_packet k b = 0")
    case True
    then have z: "32 \<le> ?z" "k + ?z \<le> CORE_PKT_SIZE"
      by (auto simp: iris_hfi_gen2_validate_packet_def Let_def word_less_nat_alt split: if_splits)
    then have "reads_to CORE_PKT_SIZE (k + 4) s = s" by (simp add: reads_to_def)
    with Suc True z show ?thesis by (simp add: Let_def)
  next
    case False
    then have "iris_hfi_gen2_validate_packet k b = - EINVAL"
      by (auto simp: iris_hfi_gen2_validate_packet_def Let_def split: if_splits)
    with False Suc.prems(1) show ?thesis by (auto simp: Let_def reads_to_def)
  qed
qed simp

text \<open>
  C39. The bounds of a Gen2 message. One that passes the checks was read inside the 4 KiB buffer, has
  at most 127 packets, and each of them announces at least its own header of 32 bytes and no
  more than the buffer has left; so the headers and the announced payloads the handlers go
  over are inside the buffer. One that is refused is refused with \<open>EINVAL\<close> after at most one
  read past the buffer, and that read happens: a message whose first packet fills the
  buffer and which announces a second one has the size of that one read behind the buffer's end.
\<close>

theorem gen2_validation_bounds:
  assumes "iris_hfi_gen2_validate_hdr_packet b s = (ret, t)"
  shows "(ret = 0 \<longrightarrow> t = s \<and> unat (load_u32 b 28) \<le> 127 \<and>
      (\<forall>p\<in>set (packets (unat (load_u32 b 28)) 32 b). 32 \<le> unat (snd p 0) \<and> unat (snd p 0) \<le> fst p)) \<and>
    (ret \<noteq> 0 \<longrightarrow> ret = - EINVAL \<and> (t = s \<or> t = tell Oops s)) \<and>
    (64 \<le> load_u32 b 0 \<and> 2 \<le> load_u32 b 28 \<and> load_u32 b 32 = 4064 \<longrightarrow> ret = - EINVAL \<and> t = tell Oops s)"
proof -
  have c: "32 \<le> CORE_PKT_SIZE" "CORE_PKT_SIZE = 4096" by (simp_all add: CORE_PKT_SIZE_def IFACEQ_CORE_PKT_SIZE_def)
  have "ret = 0 \<Longrightarrow> t = s \<and> unat (load_u32 b 28) \<le> 127 \<and>
      (\<forall>p\<in>set (packets (unat (load_u32 b 28)) 32 b). 32 \<le> unat (snd p 0) \<and> unat (snd p 0) \<le> fst p)"
    using assms accepted_packets[of "unat (load_u32 b 28)" 32 b s t] c
    by (auto simp: iris_hfi_gen2_validate_hdr_packet_def split: if_splits)
  moreover have "ret \<noteq> 0 \<Longrightarrow> ret = - EINVAL \<and> (t = s \<or> t = tell Oops s)"
    using assms refused_packets[of "unat (load_u32 b 28)" 32 b s ret t] c
    by (auto simp: iris_hfi_gen2_validate_hdr_packet_def split: if_splits)
  moreover have "ret = - EINVAL \<and> t = tell Oops s"
    if h: "64 \<le> load_u32 b 0" "2 \<le> load_u32 b 28" "load_u32 b 32 = 4064"
  proof -
    obtain n where n: "unat (load_u32 b 28) = Suc (Suc n)"
      using h(2) by (cases "unat (load_u32 b 28)"; cases "unat (load_u32 b 28) - 1") (auto simp: word_le_nat_alt)
    have 1: "iris_hfi_gen2_validate_packet 32 b = 0"
      by (simp add: iris_hfi_gen2_validate_packet_def h(3) c)
    have 2: "iris_hfi_gen2_validate_packet 4096 b = - EINVAL"
      by (auto simp: iris_hfi_gen2_validate_packet_def Let_def c word_less_nat_alt unat_eq_0)
    have "validate_packets (Suc (Suc n)) 32 b s = (- EINVAL, tell Oops s)"
      by (simp add: Let_def 1 2 h(3) reads_to_def c)
    then show ?thesis
      using assms h(1) by (simp add: iris_hfi_gen2_validate_hdr_packet_def n not_less[symmetric])
  qed
  ultimately show ?thesis by blast
qed

section \<open>Responses that are lost or misread\<close>

definition other_plane :: "u32 \<Rightarrow> u32" where
  "other_plane plane = (if plane = OUTPUT_MPLANE then CAPTURE_MPLANE else OUTPUT_MPLANE)"

text \<open>
  The answer to a stop pauses the queue that was stopped for a decoder, and the other one for an
  encoder: the driver sends the command with the port of the queue for the session's domain,
  and reads the port of the answer as a decoder's whatever the domain. The result of the change
  of state is dropped, and the waiter is woken either way.
\<close>

theorem gen2_stop_pauses:
  assumes "snd pkt 1 = HFI_CMD_STOP" "snd pkt 4 = iris_hfi_gen2_get_port (inst_heap s i) plane"
    and "plane \<in> {OUTPUT_MPLANE, CAPTURE_MPLANE}"
  shows "iris_hfi_gen2_handle_session_command i pkt s =
    (0, tell (Complete False) (snd (on_inst i (iris_inst_sub_state_change_pause
       (if domain (inst_heap s i) = DECODER then plane else other_plane plane)) s)))"
  using assms
  by (cases "plane = OUTPUT_MPLANE")
    (simp_all add: iris_hfi_gen2_handle_session_command_def iris_hfi_gen2_handle_session_stop_def
      iris_hfi_gen2_get_port_def other_plane_def split_def Let_def)

text \<open>
  The firmware's word that it is done with the persistent buffer of a session is lost: the driver
  sends these buffers, and asks for their release, with no port, and a response about a
  buffer with no port is dropped without an error, also for the one type the check means to let through.
\<close>

theorem gen2_persist_release_lost:
  assumes "snd pkt 1 = HFI_CMD_BUFFER" "snd pkt 4 = iris_hfi_gen2_get_port_from_buf_type (inst_heap s i) ty"
    and "ty \<in> {BUF_PERSIST, BUF_ARP}" "iris_hfi_gen2_validate_packet_payload (snd pkt)" "36 \<le> fst pkt"
  shows "iris_hfi_gen2_handle_session_command i pkt s = (0, s)"
  using assms
  by (auto simp: iris_hfi_gen2_handle_session_command_def iris_hfi_gen2_handle_session_buffer_def
      iris_hfi_gen2_get_port_from_buf_type_def iris_hfi_gen2_is_valid_hfi_port_def reads_to_def Let_def)

section \<open>Witnesses\<close>

text \<open>A session with one internal buffer, and the response that releases it.\<close>

definition one_bin_sys :: iris_sys where
  "one_bin_sys = ready_gen2\<lparr>instances := [0], inst_heap := (\<lambda>_. zero_inst\<lparr>session_id := 7,
     buffers := (buffers zero_inst)(BUF_BIN := \<lparr>buf_list =
       [zero_buffer\<lparr>kvaddr := 5, device_addr := 0x1000, buffer_size := 64\<rparr>], min_count = 1, buf_size = 64\<rparr>)\<rparr>)\<rparr>"

definition bin_released :: bytes where
  "bin_released = (\<lambda>_. 0)(0 := 128, 4 := 7, 28 := 1, 32 := 96, 36 := 9, 39 := 1, 44 := 5, 48 := 1, 64 := 7, 73 := 16)"

lemma bin_released_words:
  "load_u32 bin_released 0 = 128" "load_u32 bin_released 4 = 7" "load_u32 bin_released 28 = 1"
  "load_u32 bin_released 32 = 96" "load_u32 bin_released 36 = HFI_CMD_BUFFER" "load_u32 bin_released 40 = 0"
  "load_u32 bin_released 44 = HFI_PAYLOAD_STRUCTURE" "load_u32 bin_released 48 = HFI_PORT_BITSTREAM"
  "load_u32 bin_released 64 = HFI_BUFFER_BIN" "load_u32 bin_released 72 = 0x1000" "load_u32 bin_released 76 = 0"
  by (simp_all add: load_u32_def bin_released_def)

lemma one_bin_sel:
  "instances one_bin_sys = [0]" "m2m_src (inst_heap one_bin_sys 0) = []" "m2m_dst (inst_heap one_bin_sys 0) = []"
  "session_id (inst_heap one_bin_sys 0) = 7" "domain (inst_heap one_bin_sys 0) = DECODER"
  "buf_list (buffers (inst_heap one_bin_sys 0) BUF_BIN) =
     [zero_buffer\<lparr>kvaddr := 5, device_addr := 0x1000, buffer_size := 64\<rparr>]"
  by (simp_all add: one_bin_sys_def zero_inst_def)

lemma bin_released_valid: "iris_hfi_gen2_validate_hdr_packet bin_released s = (0, s)"
  by (simp add: iris_hfi_gen2_validate_hdr_packet_def bin_released_words iris_hfi_gen2_validate_packet_def
      reads_to_def CORE_PKT_SIZE_def IFACEQ_CORE_PKT_SIZE_def Let_def)

lemma bin_released_frees:
  "int_mem (inst_heap (iris_hfi_gen2_handle_response bin_released one_bin_sys) 0) BUF_BIN = []"
proof -
  let ?w = "\<lambda>j. load_u32 bin_released (32 + 4 * j)"
  have found: "iris_get_instance one_bin_sys 7 = Some 0"
    by (simp add: iris_get_instance_def one_bin_sel)
  have "iris_hfi_gen2_handle_response bin_released one_bin_sys = session_message 0 [(4064, ?w)] one_bin_sys"
    by (simp add: iris_hfi_gen2_handle_response_def bin_released_valid bin_released_words found
        iris_hfi_gen2_handle_session_response_def packet_at_def CORE_PKT_SIZE_def IFACEQ_CORE_PKT_SIZE_def Let_def)
  also have "int_mem (inst_heap \<dots> 0) BUF_BIN = []"
    by (simp add: session_message_def announces_change_def bin_released_words session_passes_def inst_ranges_def
        session_packet_def in_range_def iris_hfi_gen2_handle_session_command_def Let_def
        iris_hfi_gen2_handle_session_buffer_def iris_hfi_gen2_validate_packet_payload_def reads_to_def
        iris_hfi_gen2_is_valid_hfi_buffer_type_def iris_hfi_gen2_is_valid_hfi_port_def has_def
        on_frame_info_def set_gen2_def one_bin_sel
        iris_hfi_gen2_handle_release_internal_buffer_def iris_hfi_gen2_buf_type_to_driver_def
        hfi_buf_address_def iris_destroy_internal_buffer_def set_attr_def on_internal_def int_mem_def
        iris_hfi_gen2_handle_dequeue_buffers_def dequeue_all_def tell_def)
  finally show ?thesis .
qed

lemma gen2_responses_accounted_witness:
  "let t = iris_hfi_gen2_handle_response bin_released one_bin_sys
   in int_mem (inst_heap one_bin_sys 0) BUF_BIN = [(5, 64)] \<and> int_mem (inst_heap t 0) BUF_BIN = [] \<and>
      unheld 0 5 t = unheld 0 5 one_bin_sys"
proof -
  have "firmware_keeps_owned one_bin_sys"
    by (simp add: firmware_keeps_owned_def one_bin_sys_def ready_gen2_def ready_sys_def probed_sys_defs)
  from gen2_responses_accounted[OF this, of bin_released] show ?thesis
    using bin_released_frees by (simp add: Let_def bin_released_words iris_get_instance_def one_bin_sel int_mem_def)
qed

lemma gen2_message_roundtrip_witness:
  "\<exists>ws t. message 7 [(HFI_CMD_DRAIN, 4, 0, HFI_PORT_BITSTREAM, [9])] ready_gen2 = (ws, t) \<and>
     List.map spec_of (packets (unat (load_u32 (nth (frame_of ws)) 28)) 32 (nth (frame_of ws))) =
       [(HFI_CMD_DRAIN, 4, 0, HFI_PORT_BITSTREAM, [9])]"
proof -
  obtain ws t where m: "message 7 [(HFI_CMD_DRAIN, 4, 0, HFI_PORT_BITSTREAM, [9])] ready_gen2 = (ws, t)"
    by fastforce
  moreover have "length ws \<le> 1024" using m by (auto simp: message_is header_words_def)
  ultimately show ?thesis
    using gen2_message_roundtrip[OF m, of "nth (frame_of ws)" ready_gen2] by simp
qed

lemma gen2_validation_bounds_witness:
  "snd (iris_hfi_gen2_validate_hdr_packet bin_released one_bin_sys) = one_bin_sys"
proof -
  obtain ret t where v: "iris_hfi_gen2_validate_hdr_packet bin_released one_bin_sys = (ret, t)" by fastforce
  with gen2_validation_bounds[OF v] show ?thesis by (simp add: bin_released_valid)
qed

definition stopped_words :: packet_words where
  "stopped_words = (\<lambda>k. if k = 0 then 32 else if k = 1 then HFI_CMD_STOP else if k = 4 then HFI_PORT_RAW else 0)"

lemma gen2_stop_pauses_witness:
  "iris_hfi_gen2_handle_session_command 0 (4000, stopped_words)
     (ready_gen2\<lparr>inst_heap := (\<lambda>_. zero_inst\<lparr>domain := ENCODER\<rparr>)\<rparr>) =
   (0, tell (Complete False) (snd (on_inst 0 (iris_inst_sub_state_change_pause CAPTURE_MPLANE)
     (ready_gen2\<lparr>inst_heap := (\<lambda>_. zero_inst\<lparr>domain := ENCODER\<rparr>)\<rparr>))))"
  using gen2_stop_pauses[of "(4000, stopped_words)" "ready_gen2\<lparr>inst_heap := (\<lambda>_. zero_inst\<lparr>domain := ENCODER\<rparr>)\<rparr>"
      0 OUTPUT_MPLANE]
  by (simp add: stopped_words_def iris_hfi_gen2_get_port_def other_plane_def)

definition persist_words :: packet_words where
  "persist_words = (\<lambda>k. if k = 0 then 96 else if k = 1 then HFI_CMD_BUFFER else if k = 3 then HFI_PAYLOAD_STRUCTURE
     else if k = 8 then HFI_BUFFER_PERSIST else 0)"

lemma gen2_persist_release_lost_witness:
  "iris_hfi_gen2_handle_session_command 0 (4000, persist_words) ready_gen2 = (0, ready_gen2)"
  using gen2_persist_release_lost[of "(4000, persist_words)" ready_gen2 0 BUF_PERSIST]
  by (simp add: persist_words_def iris_hfi_gen2_get_port_from_buf_type_def
      iris_hfi_gen2_validate_packet_payload_def)

end
