(* ===== verification/Spec2Isabelle.thy ===== *)
theory Spec2Isabelle
  imports IrisLifecycle IrisGen1Ctrls IrisBufAccount IrisGen1Serve IrisSessionLife IrisVidcLife
    IrisGen2Serve
begin

text \<open>
  A verification development for the Iris VPU driver of the kernel overlay,
  \<open>src/kernel-overlay/drivers/media/platform/qcom/iris\<close>: a stateful V4L2 memory-to-memory
  decoder and encoder driver for the Qualcomm video processor, as it drives the VPU of the
  SM8150 (the board of this repository) and SM8250. File names below are of that directory.

  \<^bold>\<open>The program.\<close> Client processes open sessions (\<open>struct iris_inst\<close>). Each has an OUTPUT queue
  (bitstream for a decoder, raw frames for an encoder) and a CAPTURE queue. The driver turns
  their buffers into packets for the firmware of the VPU, through a command ring in shared
  memory, and reads the firmware's answers from a message and a debug ring. One core
  (\<open>struct iris_core\<close>) is shared by all sessions: it loads the firmware, powers and boots the
  VPU, votes for bandwidth and clocks, collapses the power when idle and recovers after an
  error of the firmware.

  \<^bold>\<open>State.\<close> The core is the record \<open>iris_core\<close> (\<open>IrisDevice\<close>); the system \<open>iris_sys\<close>
  (\<open>IrisTypes\<close>) extends it with the list of sessions and a heap of \<open>iris_inst\<close> records, so
  that a routine that follows \<open>inst->core\<close> or walks \<open>core->instances\<close> sees the same objects
  as the code. A routine takes the state and gives the state after it with its \<open>int\<close> result;
  an error is the negative number the code returns. Integers have the width of the code
  (\<open>u32\<close>, \<open>u64\<close>) and wrap as it does; memory the firmware can write is a function from offsets
  to bytes.

  \<^bold>\<open>The kernel and the firmware.\<close> Clocks, power domains, interconnects, DMA memory, registers,
  the firmware loader, the secure world and the V4L2 framework are not part of the code. A call
  into them is appended to the log \<open>klog\<close> of the state and takes its result from \<open>env\<close>, an
  arbitrary function of the position in the log, so a theorem about every state is a theorem
  about every behaviour of the kernel. Resources are read off the log: \<open>balance\<close> counts what was
  taken less what was given back. Where the code drops the core lock or waits for a completion
  the response thread may run: \<open>Response_thread\<close> is such a point for the core, and
  \<open>fw_effect\<close>, an arbitrary function of the position in the log, is what it does to the waiting
  session. \<open>firmware_keeps_owned\<close>, that it leaves alone what a session owns, is the only thing
  assumed of it, and \<open>IrisGen1Serve\<close> proves it of the response thread's own code. Two threads
  are otherwise not interleaved: the locks of the code are taken to work.

  \<^bold>\<open>Theories\<close>, in the order in which they build on each other:

  \<^item> \<open>IrisPrelude\<close>: integer types, error numbers, the kernel's arithmetic macros, shared lemmas.
  \<^item> \<open>IrisQueue\<close> (\<open>iris_hfi_queue.c\<close>): writing and reading a packet of a ring, store by store.
    The locale \<open>packet_channel\<close> is what a client of a ring relies on, interpreted on the ring.
  \<^item> \<open>IrisPlatform\<close> (\<open>iris_platform_sm8250.c\<close>): the two Gen1 platforms. \<open>IrisDevice\<close>: the core
    and the log. \<open>IrisHfi\<close>: layout, allocation and entry points of the queue region.
  \<^item> \<open>IrisVpu\<close> (\<open>iris_vpu_common.c\<close>, \<open>iris_resources.c\<close>): powering, booting and collapsing the VPU.
  \<^item> \<open>IrisTypes\<close> (\<open>iris_instance.h\<close>, \<open>iris_buffer.h\<close>), \<open>IrisBufSize\<close>, \<open>IrisEncSize\<close>,
    \<open>IrisVpuBuffer\<close>, \<open>IrisBufBounds\<close> (\<open>iris_vpu_buffer.c\<close>): the sizes of the buffers, and that
    they do not wrap for the frames the driver accepts.
  \<^item> \<open>IrisState\<close> (\<open>iris_state.c\<close>): the streaming states and the sub-state flags.
  \<^item> \<open>IrisPower\<close> (\<open>iris_power.c\<close>, \<open>iris_vpu2.c\<close>): bandwidth and clock votes.
  \<^item> \<open>IrisCore\<close>, \<open>IrisLifecycle\<close> (\<open>iris_core.c\<close>, \<open>iris_firmware.c\<close>, \<open>iris_hfi_common.c\<close>,
    \<open>iris_probe.c\<close>): start, stop, recovery, collapse, suspend and interrupts of the core, and
    what each holds of the machine's resources.
  \<^item> \<open>IrisHfiOps\<close> (\<open>iris_hfi_common.h\<close>, \<open>iris_utils.c\<close>): the table of firmware operations. Its
    contract is the locale \<open>firmware_ops\<close>: a command changes its own session only, and never
    what a session owns.
  \<^item> \<open>IrisGen1Defs\<close>, \<open>IrisGen1Cmd\<close>, \<open>IrisGen1Ops\<close> (\<open>iris_hfi_gen1_command.c\<close>): every Gen1
    command, word by word; \<open>gen1_ops\<close> is the table, on which \<open>firmware_ops\<close> is interpreted.
  \<^item> \<open>IrisCaps\<close>, \<open>IrisCtrls\<close>, \<open>IrisGen1Ctrls\<close> (\<open>iris_ctrls.c\<close>): the controls of a session and
    the properties they become.
  \<^item> \<open>IrisBuffers\<close>, \<open>IrisBufAccount\<close> (\<open>iris_buffer.c\<close>): internal and client buffers, and the
    accounting of their DMA memory. The locale \<open>step_relation\<close> holds the rules that carry any
    reflexive and transitive relation of states through the control structures; it is
    interpreted for the accounting, the growth of the lists, the confinement to a session, and
    again in the two theories below.
  \<^item> \<open>IrisSession\<close>, \<open>IrisSessionLife\<close> (\<open>iris_common.c\<close>): the firmware session, its slot and its
    share of the core's throughput, STREAMON and STREAMOFF.
  \<^item> \<open>IrisVdec\<close>, \<open>IrisVenc\<close>, \<open>IrisVb2\<close> (\<open>iris_vdec.c\<close>, \<open>iris_venc.c\<close>, \<open>iris_vb2.c\<close>): formats, rates,
    commands and the callbacks of the buffer queues.
  \<^item> \<open>IrisGen1Resp\<close>, \<open>IrisGen1Serve\<close> (\<open>iris_hfi_gen1_response.c\<close>): what the response thread does
    with each packet, what it leaves alone, and when it returns.
  \<^item> \<open>IrisVidc\<close>, \<open>IrisVidcFence\<close>, \<open>IrisVidcLife\<close> (\<open>iris_vidc.c\<close>): opening and closing a file, its
    queries and commands, and the fences of its surfaces. \<open>v4l2_m2m_ctx_release()\<close> is an argument
    of the close; \<open>m2m_released\<close> says what it may call back.
  \<^item> \<open>IrisGen2Defs\<close>, \<open>IrisGen2Cmd\<close>, \<open>IrisGen2Ops\<close>, \<open>IrisGen2Live\<close> (\<open>iris_hfi_gen2_packet.c\<close>,
    \<open>iris_hfi_gen2_command.c\<close>): the second firmware interface, whose messages are a header and
    packets. \<open>gen2_ops\<close> is its table; \<open>firmware_ops\<close> is interpreted on it too, so what the client
    theories prove inside that locale holds for both generations. A session builds its
    messages in one packet buffer, whose life is the subject of \<open>IrisGen2Live\<close>.
  \<^item> \<open>IrisGen2Resp\<close>, \<open>IrisGen2Serve\<close> (\<open>iris_hfi_gen2_response.c\<close>): the checks of a message, the
    passes over its packets, and what a message can change and what it cannot.

  \<^bold>\<open>What the lemmas show.\<close> A ring is a first-in-first-out channel that neither side can drive out
  of bounds; its one failure, a packet that fills it exactly, is stated. Powering the VPU on and
  off is balanced, except on the error paths that are named. A start of the core either holds
  everything or what the failing step leaves; a stop gives it back. Buffer sizes stay inside 32
  bits for accepted frames and not without the check. Gen1 packets say their length and carry
  what the buffer holds. Internal DMA memory is accounted for along any run of buffer operations
  with any failures. A slot of the firmware is held from a successful open to its close, and the
  reservations fit the core. A failed open undoes what it did, a close gives back everything the
  session holds, and no fence outlives it unsignalled. Responses change nothing a session owns, and serving them ends. A Gen2 message that passes
  the checks lies inside its buffer and is read back as the packets it was built from; its commands find their
  packet buffer while the session is open; its responses take an internal buffer off its list exactly when they free it.
  Theorems that describe a defect state what the code does.

  \<^bold>\<open>Bounds and loops.\<close> The boot loop (\<open>boot_poll\<close>) has the 1000 tries of the code as fuel; using
  them up is the code's timeout. Loops over lists and tables are structural recursion on them.
  The two loops of the response thread have no bound in the code: they are
  \<open>partial_function (option)\<close>, \<open>None\<close> is not returning, and both a condition under which they
  return and one under which they do not are proved. A NULL or wild access is \<open>None\<close> in
  \<open>IrisHfi\<close> and the event \<open>Oops\<close> of the log elsewhere.

  \<^bold>\<open>Not modelled.\<close> The tables and power hooks of the platforms that use the Gen2 interface
  (\<open>iris_platform_gen2.c\<close>, \<open>iris_vpu3x.c\<close>), which the board does not have: the Gen2 theories are
  about any platform data; the
  tables of callbacks and the queue setup of \<open>iris_vidc.c\<close> and the registration of \<open>iris_probe.c\<close>,
  which fill in or call the kernel; the registration of the controls with their framework (\<open>iris_ctrls_init\<close>), whose
  guarantees are the predicates \<open>admits\<close> and \<open>registers\<close>; subscriptions to events; prints, delays, and the memory
  attributes of the IOMMU, which have no effect on the state.
\<close>

end
